(* ===== verification/Obelus_Prelude.thy ===== *)
theory Obelus_Prelude
  imports Complex_Main "HOL-Library.Word"
begin

text \<open>
  What the components share: the model of the Rust standard library the sources use (strings as
  their UTF-8 bytes, \<open>join\<close>, \<open>trim_end\<close>, decimal formatting, saturating \<open>i32\<close> arithmetic, the
  last-element update of a \<open>Vec\<close>), and the generic lemmas on lists and options.

  A Rust \<open>String\<close> is the list of its UTF-8 bytes, so \<open>length\<close> is \<open>str::len\<close>, \<open>@\<close> is \<open>push_str\<close>
  and equality is Rust's. Operations that look at code points (\<open>trim_end\<close>, the removal of Unicode
  tags) decode the byte sequences they look for. An \<open>f64\<close> is an exact rational: rounding is not modelled.
\<close>

named_theorems rust_std \<comment> \<open>unfolding the standard-library model on concrete values\<close>

type_synonym f64 = rat
type_synonym i32 = "32 word"

subsection \<open>Bytes\<close>

definition byte :: "char \<Rightarrow> nat" where
  "byte c = of_char c"

definition ascii_ws :: "char \<Rightarrow> bool" where
  "ascii_ws c = ((9 \<le> byte c \<and> byte c \<le> 13) \<or> byte c = 32)"

definition ws2 :: "char \<Rightarrow> char \<Rightarrow> bool" where
  \<comment> \<open>U+0085 and U+00A0 in UTF-8\<close>
  "ws2 a b = (byte a = 0xC2 \<and> (byte b = 0x85 \<or> byte b = 0xA0))"

definition ws3 :: "char \<Rightarrow> char \<Rightarrow> char \<Rightarrow> bool" where
  \<comment> \<open>U+1680, U+2000 to U+200A, U+2028, U+2029, U+202F, U+205F and U+3000 in UTF-8\<close>
  "ws3 a b c =
     ((byte a = 0xE1 \<and> byte b = 0x9A \<and> byte c = 0x80) \<or>
      (byte a = 0xE2 \<and> byte b = 0x80 \<and>
        ((0x80 \<le> byte c \<and> byte c \<le> 0x8A) \<or> byte c = 0xA8 \<or> byte c = 0xA9 \<or> byte c = 0xAF)) \<or>
      (byte a = 0xE2 \<and> byte b = 0x81 \<and> byte c = 0x9F) \<or>
      (byte a = 0xE3 \<and> byte b = 0x80 \<and> byte c = 0x80))"

text \<open>
  \<open>ws_len\<close> is the number of bytes of the whitespace code point at the head of a reversed byte
  string, 0 when there is none; \<open>drop_ws_rev\<close> drops one such code point at a time.
\<close>

fun ws_len :: "string \<Rightarrow> nat" where
  "ws_len (c # b # a # _) =
     (if ascii_ws c then 1 else if ws2 b c then 2 else if ws3 a b c then 3 else 0)"
| "ws_len [c, b] = (if ascii_ws c then 1 else if ws2 b c then 2 else 0)"
| "ws_len [c] = (if ascii_ws c then 1 else 0)"
| "ws_len [] = 0"

lemma ws_len_le: "ws_len s \<le> length s"
  by (induction s rule: ws_len.induct) auto

function drop_ws_rev :: "string \<Rightarrow> string" where
  "drop_ws_rev s = (if ws_len s = 0 then s else drop_ws_rev (drop (ws_len s) s))"
  by pat_completeness auto
termination
proof (relation "measure length")
  fix s
  assume "ws_len s \<noteq> 0"
  with ws_len_le [of s] show "(drop (ws_len s) s, s) \<in> measure length"
    by (cases s) auto
qed simp

declare drop_ws_rev.simps [simp del]

definition trim_end :: "string \<Rightarrow> string" where
  "trim_end s = rev (drop_ws_rev (rev s))"

text \<open>The same from the front, for \<open>trim_start\<close> and \<open>trim\<close>.\<close>

fun ws_len_front :: "string \<Rightarrow> nat" where
  "ws_len_front (a # b # c # _) =
     (if ascii_ws a then 1 else if ws2 a b then 2 else if ws3 a b c then 3 else 0)"
| "ws_len_front [a, b] = (if ascii_ws a then 1 else if ws2 a b then 2 else 0)"
| "ws_len_front [a] = (if ascii_ws a then 1 else 0)"
| "ws_len_front [] = 0"

lemma ws_len_front_le: "ws_len_front s \<le> length s"
  by (induction s rule: ws_len_front.induct) auto

function trim_start :: "string \<Rightarrow> string" where
  "trim_start s = (if ws_len_front s = 0 then s else trim_start (drop (ws_len_front s) s))"
  by pat_completeness auto

termination
proof (relation "measure length")
  fix s
  assume "ws_len_front s \<noteq> 0"
  with ws_len_front_le [of s] show "(drop (ws_len_front s) s, s) \<in> measure length"
    by (cases s) auto
qed simp

declare trim_start.simps [simp del]

definition trim :: "string \<Rightarrow> string" where
  "trim s = trim_end (trim_start s)"

text \<open>The four-byte sequences of U+E0000 to U+E007F start with F3 A0 80 or F3 A0 81.\<close>

definition unicode_tag :: "char \<Rightarrow> char \<Rightarrow> char \<Rightarrow> char \<Rightarrow> bool" where
  "unicode_tag a b c d =
     (byte a = 0xF3 \<and> byte b = 0xA0 \<and> (byte c = 0x80 \<or> byte c = 0x81) \<and>
      0x80 \<le> byte d \<and> byte d \<le> 0xBF)"

fun strip_unicode_tags :: "string \<Rightarrow> string" where
  "strip_unicode_tags (a # b # c # d # s) =
     (if unicode_tag a b c d then strip_unicode_tags s
      else a # strip_unicode_tags (b # c # d # s))"
| "strip_unicode_tags s = s"

definition cont_byte :: "char \<Rightarrow> bool" where
  "cont_byte c = (0x80 \<le> byte c \<and> byte c \<le> 0xBF)"

text \<open>\<open>String::from_utf8\<close> accepts exactly the well-formed byte sequences of the Unicode standard.\<close>

fun utf8_valid :: "string \<Rightarrow> bool" where
  "utf8_valid [] = True"
| "utf8_valid (a # s) =
     (if byte a < 0x80 then utf8_valid s
      else if 0xC2 \<le> byte a \<and> byte a \<le> 0xDF then
        (case s of b # s2 \<Rightarrow> cont_byte b \<and> utf8_valid s2 | _ \<Rightarrow> False)
      else if 0xE0 \<le> byte a \<and> byte a \<le> 0xEF then
        (case s of b # c # s3 \<Rightarrow>
           cont_byte b \<and> cont_byte c \<and> (byte a = 0xE0 \<longrightarrow> 0xA0 \<le> byte b) \<and>
           (byte a = 0xED \<longrightarrow> byte b \<le> 0x9F) \<and> utf8_valid s3 | _ \<Rightarrow> False)
      else if 0xF0 \<le> byte a \<and> byte a \<le> 0xF4 then
        (case s of b # c # d # s4 \<Rightarrow>
           cont_byte b \<and> cont_byte c \<and> cont_byte d \<and> (byte a = 0xF0 \<longrightarrow> 0x90 \<le> byte b) \<and>
           (byte a = 0xF4 \<longrightarrow> byte b \<le> 0x8F) \<and> utf8_valid s4 | _ \<Rightarrow> False)
      else False)"

subsection \<open>Strings\<close>

text \<open>A newline, for the literals that hold one.\<close>

text \<open>\<open>chars().count()\<close> of a valid string: every byte but the continuation bytes starts a character.\<close>

definition char_count :: "string \<Rightarrow> nat" where
  "char_count s = length (filter (\<lambda>c. \<not> cont_byte c) s)"

text \<open>\<open>split_whitespace\<close>: the words, read byte by byte; the first argument is the word being read.\<close>

function split_words :: "string \<Rightarrow> string \<Rightarrow> string list" where
  "split_words word s =
     (if s = [] then (if word = [] then [] else [word])
      else if ws_len_front s = 0 then split_words (word @ [hd s]) (tl s)
      else (if word = [] then [] else [word]) @ split_words [] (drop (ws_len_front s) s))"
  by pat_completeness auto

termination
  by (relation "measure (\<lambda>(_, s). length s)") auto

declare split_words.simps [simp del]

definition split_whitespace :: "string \<Rightarrow> string list" where
  "split_whitespace s = split_words [] s"

definition trim_matches :: "char \<Rightarrow> string \<Rightarrow> string" where
  "trim_matches c s = rev (dropWhile (\<lambda>x. x = c) (rev (dropWhile (\<lambda>x. x = c) s)))"

definition nl :: string where
  "nl = [CHR 0x0A]"

text \<open>\<open>ticked s\<close> is \<open>s\<close> between backticks.\<close>

definition ticked :: "string \<Rightarrow> string" where
  "ticked s = [CHR 0x60] @ s @ [CHR 0x60]"

text \<open>\<open>quoted s\<close> is the format string \<open>'{s}'\<close>.\<close>

definition quoted :: "string \<Rightarrow> string" where
  "quoted s = [CHR 0x27] @ s @ [CHR 0x27]"

fun str_join :: "string \<Rightarrow> string list \<Rightarrow> string" where
  "str_join sep [] = []"
| "str_join sep [s] = s"
| "str_join sep (s # t # ss) = s @ sep @ str_join sep (t # ss)"

fun strip_prefix :: "string \<Rightarrow> string \<Rightarrow> string option" where
  "strip_prefix [] s = Some s"
| "strip_prefix (p # ps) [] = None"
| "strip_prefix (p # ps) (c # cs) = (if p = c then strip_prefix ps cs else None)"

definition starts_with :: "string \<Rightarrow> string \<Rightarrow> bool" where
  "starts_with p s = (strip_prefix p s \<noteq> None)"

fun str_contains :: "string \<Rightarrow> string \<Rightarrow> bool" where
  "str_contains p [] = (p = [])"
| "str_contains p (c # cs) = (starts_with p (c # cs) \<or> str_contains p cs)"

text \<open>\<open>rsplit(sep).next()\<close>: what follows the last separator.\<close>

fun after_last :: "string \<Rightarrow> string \<Rightarrow> string" where
  "after_last sep [] = []"
| "after_last sep (c # cs) =
     (if str_contains sep cs then after_last sep cs
      else (case strip_prefix sep (c # cs) of Some rest \<Rightarrow> rest | None \<Rightarrow> c # cs))"

fun split_once :: "string \<Rightarrow> string \<Rightarrow> (string \<times> string) option" where
  "split_once sep [] = (if sep = [] then Some ([], []) else None)"
| "split_once sep (c # cs) =
     (case strip_prefix sep (c # cs) of
        Some rest \<Rightarrow> Some ([], rest)
      | None \<Rightarrow> (case split_once sep cs of
                  None \<Rightarrow> None
                | Some (a, b) \<Rightarrow> Some (c # a, b)))"

fun show_nat :: "nat \<Rightarrow> string" where
  "show_nat n = (if n < 10 then [char_of (48 + n)] else show_nat (n div 10) @ [char_of (48 + n mod 10)])"

declare show_nat.simps [simp del]

definition show_int :: "int \<Rightarrow> string" where
  "show_int i = (if i < 0 then ''-'' @ show_nat (nat (- i)) else show_nat (nat i))"

subsection \<open>Lists\<close>

text \<open>\<open>update_last f xs\<close> is what a \<open>last_mut\<close> does to a \<open>Vec\<close>.\<close>

fun update_last :: "('a \<Rightarrow> 'a) \<Rightarrow> 'a list \<Rightarrow> 'a list" where
  "update_last f [] = []"
| "update_last f [x] = [f x]"
| "update_last f (x # y # xs) = x # update_last f (y # xs)"

text \<open>\<open>update_rfind p f xs\<close> changes the last element that satisfies \<open>p\<close>, if there is one
  (\<open>iter_mut().rev().find(p)\<close>).\<close>

fun update_rfind :: "('a \<Rightarrow> bool) \<Rightarrow> ('a \<Rightarrow> 'a) \<Rightarrow> 'a list \<Rightarrow> 'a list option" where
  "update_rfind p f [] = None"
| "update_rfind p f (x # xs) =
     (case update_rfind p f xs of
        Some ys \<Rightarrow> Some (x # ys)
      | None \<Rightarrow> if p x then Some (f x # xs) else None)"

text \<open>\<open>last_opt\<close> is \<open>slice::last\<close>, \<open>first_opt\<close> is \<open>slice::first\<close>, \<open>filter_map\<close> the iterator
  adaptor, \<open>find_map\<close> its first result.\<close>

definition last_opt :: "'a list \<Rightarrow> 'a option" where
  "last_opt xs = (if xs = [] then None else Some (last xs))"

definition first_opt :: "'a list \<Rightarrow> 'a option" where
  "first_opt xs = (case xs of [] \<Rightarrow> None | x # _ \<Rightarrow> Some x)"

fun filter_map :: "('a \<Rightarrow> 'b option) \<Rightarrow> 'a list \<Rightarrow> 'b list" where
  "filter_map f [] = []"
| "filter_map f (x # xs) = (case f x of None \<Rightarrow> filter_map f xs | Some y \<Rightarrow> y # filter_map f xs)"

fun find_map :: "('a \<Rightarrow> 'b option) \<Rightarrow> 'a list \<Rightarrow> 'b option" where
  "find_map f [] = None"
| "find_map f (x # xs) = (case f x of None \<Rightarrow> find_map f xs | Some y \<Rightarrow> Some y)"

text \<open>\<open>rposition p xs\<close> is the index of the last element that satisfies \<open>p\<close>.\<close>

fun rposition :: "('a \<Rightarrow> bool) \<Rightarrow> 'a list \<Rightarrow> nat option" where
  "rposition p [] = None"
| "rposition p (x # xs) =
     (case rposition p xs of
        Some i \<Rightarrow> Some (Suc i)
      | None \<Rightarrow> if p x then Some 0 else None)"

text \<open>\<open>get xs i\<close> is \<open>slice::get\<close>.\<close>

definition list_get :: "'a list \<Rightarrow> nat \<Rightarrow> 'a option" where
  "list_get xs i = (if i < length xs then Some (xs ! i) else None)"

subsection \<open>Machine integers\<close>

definition sat_add_i32 :: "i32 \<Rightarrow> i32 \<Rightarrow> i32" where
  "sat_add_i32 a b = word_of_int (max (- (2 ^ 31)) (min (2 ^ 31 - 1) (sint a + sint b)))"

definition sat_mul_u32 :: "nat \<Rightarrow> nat \<Rightarrow> nat" where
  "sat_mul_u32 a b = min (2 ^ 32 - 1) (a * b)"

subsection \<open>Lemmas on the standard-library model\<close>

lemma drop_ws_rev_stop: "ws_len (drop_ws_rev s) = 0"
proof (induction s rule: drop_ws_rev.induct)
  case (1 s)
  then show ?case by (cases "ws_len s = 0") (simp_all add: drop_ws_rev.simps [of s])
qed

lemma drop_ws_rev_idem [simp]: "drop_ws_rev (drop_ws_rev s) = drop_ws_rev s"
  by (simp add: drop_ws_rev.simps [of "drop_ws_rev s"] drop_ws_rev_stop)

lemma drop_ws_rev_suffix: "\<exists>w. s = w @ drop_ws_rev s"
proof (induction s rule: drop_ws_rev.induct)
  case (1 s)
  show ?case
  proof (cases "ws_len s = 0")
    case False
    with "1.IH" obtain w where "drop (ws_len s) s = w @ drop_ws_rev (drop (ws_len s) s)" by blast
    then have "s = (take (ws_len s) s @ w) @ drop_ws_rev (drop (ws_len s) s)"
      by (metis append.assoc append_take_drop_id)
    with False show ?thesis by (metis drop_ws_rev.simps)
  qed (simp add: drop_ws_rev.simps [of s])
qed

lemma trim_end_idem [simp]: "trim_end (trim_end s) = trim_end s"
  by (simp add: trim_end_def)

lemma trim_end_prefix: "\<exists>w. s = trim_end s @ w"
  using drop_ws_rev_suffix [of "rev s"]
  by (metis rev_append rev_rev_ident trim_end_def)

lemma trim_end_length: "length (trim_end s) \<le> length s"
  by (metis le_add1 length_append trim_end_prefix)

text \<open>Trimming changes a string exactly when it changes its length.\<close>

lemma trim_end_same_length: "length (trim_end s) = length s \<longleftrightarrow> trim_end s = s"
proof -
  obtain w where "s = trim_end s @ w" using trim_end_prefix by blast
  then show ?thesis by (metis append_Nil2 length_0_conv length_append add_cancel_right_right)
qed

lemma strip_unicode_tags_length: "length (strip_unicode_tags s) \<le> length s"
  by (induction s rule: strip_unicode_tags.induct) auto

lemma update_last_length [simp]: "length (update_last f xs) = length xs"
  by (induction f xs rule: update_last.induct) auto

lemma update_last_eq_Nil [simp]: "update_last f xs = [] \<longleftrightarrow> xs = []"
  by (metis length_0_conv update_last_length)

lemma update_last_snoc [simp]: "update_last f (xs @ [x]) = xs @ [f x]"
proof (induction xs)
  case (Cons a xs)
  then show ?case by (cases xs) auto
qed simp

lemma map_eq_self: "map f xs = xs \<longleftrightarrow> (\<forall>x \<in> set xs. f x = x)"
  by (induction xs) auto

lemma last_opt_Nil [simp]: "last_opt [] = None"
  by (simp add: last_opt_def)

lemma last_opt_snoc [simp]: "last_opt (xs @ [x]) = Some x"
  by (simp add: last_opt_def)

lemma last_opt_None [simp]: "last_opt xs = None \<longleftrightarrow> xs = []"
  by (simp add: last_opt_def)

lemma last_opt_SomeD: "last_opt xs = Some x \<Longrightarrow> \<exists>ys. xs = ys @ [x]"
  by (metis append_butlast_last_id last_opt_None last_opt_def not_Some_eq option.inject)

lemma first_opt_simps [simp]: "first_opt [] = None" "first_opt (x # xs) = Some x"
  by (simp_all add: first_opt_def)

lemma set_filter_map: "set (filter_map f xs) = {y. \<exists>x \<in> set xs. f x = Some y}"
  by (induction xs) (auto split: option.splits)

lemma filter_map_append [simp]: "filter_map f (xs @ ys) = filter_map f xs @ filter_map f ys"
  by (induction xs) (auto split: option.splits)

lemma filter_map_Some [simp]: "filter_map Some xs = xs"
  by (induction xs) auto

lemma filter_map_id_on: "(\<And>x. x \<in> set xs \<Longrightarrow> f x = Some x) \<Longrightarrow> filter_map f xs = xs"
  by (induction xs) auto

lemma filter_map_eq_Nil: "filter_map f xs = [] \<longleftrightarrow> (\<forall>x \<in> set xs. f x = None)"
  by (induction xs) (auto split: option.splits)

lemma filter_map_length: "length (filter_map f xs) \<le> length xs"
  by (induction xs) (auto split: option.splits)

lemma find_map_None: "find_map f xs = None \<longleftrightarrow> (\<forall>x \<in> set xs. f x = None)"
  by (induction xs) (auto split: option.splits)

lemma find_map_SomeD: "find_map f xs = Some y \<Longrightarrow> \<exists>x \<in> set xs. f x = Some y"
  by (induction xs) (auto split: option.splits)

lemma rposition_None: "rposition p xs = None \<longleftrightarrow> (\<forall>x \<in> set xs. \<not> p x)"
  by (induction xs) (auto split: option.splits)

lemma rposition_SomeD:
  "rposition p xs = Some i \<Longrightarrow>
     i < length xs \<and> p (xs ! i) \<and> (\<forall>j. i < j \<longrightarrow> j < length xs \<longrightarrow> \<not> p (xs ! j))"
proof (induction xs arbitrary: i)
  case (Cons x xs)
  show ?case
  proof (cases "rposition p xs")
    case None
    with Cons.prems have "i = 0" "p x" by (auto split: if_splits)
    moreover from None have "\<forall>y \<in> set xs. \<not> p y" by (simp add: rposition_None)
    ultimately show ?thesis by (auto simp: nth_Cons split: nat.splits)
  next
    case (Some k)
    with Cons.prems have "i = Suc k" by simp
    with Cons.IH [OF Some] show ?thesis by (auto simp: nth_Cons split: nat.splits)
  qed
qed simp

lemma rposition_append_none:
  "(\<And>y. y \<in> set ys \<Longrightarrow> \<not> p y) \<Longrightarrow> rposition p (xs @ ys) = rposition p xs"
proof (induction xs)
  case Nil
  then show ?case by (simp add: rposition_None)
qed (auto split: option.splits)

lemma update_rfind_length: "update_rfind p f xs = Some ys \<Longrightarrow> length ys = length xs"
  by (induction xs arbitrary: ys) (auto split: option.splits if_splits)

lemma update_rfind_None: "update_rfind p f xs = None \<longleftrightarrow> (\<forall>x \<in> set xs. \<not> p x)"
  by (induction xs) (auto split: option.splits)

lemma list_get_lt [simp]: "i < length xs \<Longrightarrow> list_get xs i = Some (xs ! i)"
  by (simp add: list_get_def)

lemma list_get_ge [simp]: "length xs \<le> i \<Longrightarrow> list_get xs i = None"
  by (simp add: list_get_def)

lemma strip_prefix_SomeD: "strip_prefix p s = Some r \<Longrightarrow> s = p @ r"
  by (induction p s rule: strip_prefix.induct) (auto split: if_splits)

lemma strip_prefix_append [simp]: "strip_prefix p (p @ r) = Some r"
  by (induction p) auto

lemma split_once_SomeD: "split_once sep s = Some (a, b) \<Longrightarrow> s = a @ sep @ b"
  by (induction sep s arbitrary: a b rule: split_once.induct)
    (auto split: option.splits if_splits dest: strip_prefix_SomeD)

lemma sint_i32_bounds: "- (2 ^ 31) \<le> sint (a :: i32)" "sint (a :: i32) < 2 ^ 31"
  using sint_ge [of a] sint_lt [of a] by simp_all

lemma sint_sat_add_i32:
  "sint (sat_add_i32 a b) = max (- (2 ^ 31)) (min (2 ^ 31 - 1) (sint a + sint b))"
proof -
  let ?v = "max (- (2 ^ 31)) (min (2 ^ 31 - 1) (sint a + sint b)) :: int"
  have "- (2 ^ 31) \<le> ?v" "?v < 2 ^ 31" by simp_all
  then have "signed_take_bit 31 ?v = ?v" by (simp add: signed_take_bit_int_eq_self)
  then show ?thesis by (simp add: sat_add_i32_def sint_sbintrunc')
qed

end
