(* ===== verification/Json.thy ===== *)
theory Json
  imports Obelus_Prelude
begin

text \<open>
  The JSON values of \<open>serde_json\<close> (a dependency, built with insertion-ordered objects) that the
  sources read and patch, with the accessors they call: \<open>get\<close>, \<open>as_str\<close>, \<open>as_bool\<close>, \<open>as_u64\<close>,
  \<open>as_object\<close> and \<open>Map::insert\<close>. An object is an association list in insertion order;
  \<open>json_eq\<close> is \<open>Value\<close>'s equality, which ignores that order.
\<close>

datatype json =
    JNull
  | JBool bool
  | JInt int
  | JFloat f64
  | JStr string
  | JArr "json list"
  | JObj "(string \<times> json) list"

type_synonym json_object = "(string \<times> json) list"

fun obj_insert :: "string \<Rightarrow> 'v \<Rightarrow> (string \<times> 'v) list \<Rightarrow> (string \<times> 'v) list" where
  "obj_insert k v [] = [(k, v)]"
| "obj_insert k v ((k', v') # m) = (if k' = k then (k, v) # m else (k', v') # obj_insert k v m)"

fun json_get :: "string \<Rightarrow> json \<Rightarrow> json option" where
  "json_get k (JObj m) = map_of m k"
| "json_get k _ = None"

fun as_str :: "json \<Rightarrow> string option" where
  "as_str (JStr s) = Some s"
| "as_str _ = None"

fun as_bool :: "json \<Rightarrow> bool option" where
  "as_bool (JBool b) = Some b"
| "as_bool _ = None"

fun as_u64 :: "json \<Rightarrow> nat option" where
  "as_u64 (JInt i) = (if 0 \<le> i \<and> i < 2 ^ 64 then Some (nat i) else None)"
| "as_u64 _ = None"

fun as_object :: "json \<Rightarrow> json_object option" where
  "as_object (JObj m) = Some m"
| "as_object _ = None"

fun json_eq :: "json \<Rightarrow> json \<Rightarrow> bool"
  and json_eqs :: "json list \<Rightarrow> json list \<Rightarrow> bool"
  and json_sub :: "(string \<times> json) list \<Rightarrow> (string \<times> json) list \<Rightarrow> bool" where
  "json_eq JNull JNull = True"
| "json_eq (JBool a) (JBool b) = (a = b)"
| "json_eq (JInt a) (JInt b) = (a = b)"
| "json_eq (JFloat a) (JFloat b) = (a = b)"
| "json_eq (JStr a) (JStr b) = (a = b)"
| "json_eq (JArr xs) (JArr ys) = json_eqs xs ys"
| "json_eq (JObj m) (JObj n) = (length m = length n \<and> json_sub m n)"
| "json_eq _ _ = False"
| "json_eqs [] [] = True"
| "json_eqs (x # xs) (y # ys) = (json_eq x y \<and> json_eqs xs ys)"
| "json_eqs _ _ = False"
| "json_sub [] n = True"
| "json_sub ((k, v) # m) n =
     ((case map_of n k of None \<Rightarrow> False | Some w \<Rightarrow> json_eq v w) \<and> json_sub m n)"

text \<open>A well-formed object has no repeated key, at any depth, as an \<open>IndexMap\<close> cannot.\<close>

fun json_wf :: "json \<Rightarrow> bool" where
  "json_wf (JArr xs) = list_all json_wf xs"
| "json_wf (JObj m) = (distinct (map fst m) \<and> list_all (\<lambda>kv. json_wf (snd kv)) m)"
| "json_wf _ = True"

subsection \<open>Laws of the object operations\<close>

lemma map_of_obj_insert [simp]: "map_of (obj_insert k v m) = (map_of m)(k \<mapsto> v)"
  by (induction m) (auto simp: fun_eq_iff)

lemma keys_obj_insert: "fst ` set (obj_insert k v m) = insert k (fst ` set m)"
  by (induction k v m rule: obj_insert.induct) (simp_all add: insert_commute)

lemma distinct_obj_insert:
  "distinct (map fst m) \<Longrightarrow> distinct (map fst (obj_insert k v m))"
  by (induction k v m rule: obj_insert.induct) (auto simp: keys_obj_insert)

lemma json_sub_mono:
  "json_sub m n \<Longrightarrow> k \<notin> fst ` set m \<Longrightarrow> json_sub m ((k, v) # n)"
  by (induction m) (auto split: option.splits)

lemma json_sub_map_of:
  "json_sub m n \<longleftrightarrow> (\<forall>(k, v) \<in> set m. case map_of n k of None \<Rightarrow> False | Some w \<Rightarrow> json_eq v w)"
  by (induction m) auto

lemma json_eqs_refl: "(\<And>x. x \<in> set xs \<Longrightarrow> json_eq x x) \<Longrightarrow> json_eqs xs xs"
  by (induction xs) auto

text \<open>On well-formed values \<open>json_eq\<close> is reflexive: a repeated tool call is recognised as such.\<close>

lemma json_eq_refl: "json_wf v \<Longrightarrow> json_eq v v"
proof (induction v rule: json_wf.induct)
  case (1 xs)
  then show ?case by (auto simp: list_all_iff intro!: json_eqs_refl)
next
  case (2 m)
  then have eq: "json_eq v v" if "(k, v) \<in> set m" for k v
    using that by (fastforce simp: list_all_iff)
  from 2 have "distinct (map fst m)" by simp
  with eq show ?case by (auto simp: json_sub_map_of)
qed auto

end
