(* ===== verification/Token_Usage.thy ===== *)
theory Token_Usage
  imports Json
begin

text \<open>
  \<open>conversation/token_usage.rs\<close>: the token counts a provider reports and their sum. Counts are
  32-bit words read as signed: \<open>+\<close> wraps, as the \<open>i32\<close> addition of a release build does, and
  \<open>saturating_add\<close> saturates. Costs (\<open>f64\<close>) are exact
  rationals: their rounding is not modelled.
\<close>

datatype CostSource = ProviderReported | Estimated

record DraftStats =
  ds_model :: "string option"
  ds_draft_tokens :: nat
  ds_accepted_tokens :: nat
  ds_target_tokens :: nat
  ds_rounds :: nat
  ds_accept_rate :: f64

record ProviderStats =
  ps_time_to_first_token_ms :: "nat option"
  ps_model_load_ms :: "nat option"
  ps_elapsed_ms :: "nat option"
  ps_output_tokens :: "nat option"
  ps_draft :: "DraftStats option"

datatype Usage = Usage
  (input_tokens: "i32 option")
  (output_tokens: "i32 option")
  (total_tokens: "i32 option")
  (cache_read_input_tokens: "i32 option")
  (cache_write_input_tokens: "i32 option")

record ProviderUsage =
  pu_model :: string
  pu_usage :: Usage
  pu_stats :: "ProviderStats option"
  pu_cost :: "f64 option"
  pu_cost_source :: "CostSource option"

definition ProviderUsage_new :: "string \<Rightarrow> Usage \<Rightarrow> ProviderUsage" where
  "ProviderUsage_new model usage =
     \<lparr>pu_model = model, pu_usage = usage, pu_stats = None, pu_cost = None, pu_cost_source = None\<rparr>"

definition pu_with_stats :: "ProviderUsage \<Rightarrow> ProviderStats \<Rightarrow> ProviderUsage" where
  "pu_with_stats u stats = u\<lparr>pu_stats := Some stats\<rparr>"

definition pu_with_cost :: "ProviderUsage \<Rightarrow> f64 \<Rightarrow> CostSource \<Rightarrow> ProviderUsage" where
  "pu_with_cost u cost source = u\<lparr>pu_cost := Some cost, pu_cost_source := Some source\<rparr>"

fun sum_optionals :: "'t::plus option \<Rightarrow> 't option \<Rightarrow> 't option" where
  "sum_optionals (Some x) (Some y) = Some (x + y)"
| "sum_optionals (Some x) None = Some x"
| "sum_optionals None (Some y) = Some y"
| "sum_optionals None None = None"

definition Usage_new :: "i32 option \<Rightarrow> i32 option \<Rightarrow> i32 option \<Rightarrow> Usage" where
  "Usage_new inp out tot =
     (let calculated_total =
        (if tot = None then
           (case (inp, out) of
              (Some i, Some out') \<Rightarrow> Some (sat_add_i32 i out')
            | (Some i, None) \<Rightarrow> Some i
            | (None, Some out') \<Rightarrow> Some out'
            | (None, None) \<Rightarrow> None)
         else tot)
      in Usage inp out calculated_total None None)"

fun with_cache_tokens :: "Usage \<Rightarrow> i32 option \<Rightarrow> i32 option \<Rightarrow> Usage" where
  "with_cache_tokens (Usage i out t _ _) r w = Usage i out t r w"

definition from_cache_exclusive_input ::
  "i32 option \<Rightarrow> i32 option \<Rightarrow> i32 option \<Rightarrow> i32 option \<Rightarrow> i32 option \<Rightarrow> Usage" where
  "from_cache_exclusive_input inp out tot cr cw =
     (let cache_tokens = sat_add_i32 (case cr of None \<Rightarrow> 0 | Some v \<Rightarrow> v)
                                     (case cw of None \<Rightarrow> 0 | Some v \<Rightarrow> v)
      in with_cache_tokens
           (Usage_new (map_option (\<lambda>v. sat_add_i32 v cache_tokens) inp)
                      out
                      (map_option (\<lambda>v. sat_add_i32 v cache_tokens) tot))
           cr cw)"

text \<open>\<open>impl Add for Usage\<close> and the derived \<open>Default\<close>, as instances of the classes for \<open>+\<close> and \<open>0\<close>.\<close>

definition Usage_add :: "Usage \<Rightarrow> Usage \<Rightarrow> Usage" where
  "Usage_add a b =
     with_cache_tokens
       (Usage_new (sum_optionals (input_tokens a) (input_tokens b))
                  (sum_optionals (output_tokens a) (output_tokens b))
                  (sum_optionals (total_tokens a) (total_tokens b)))
       (sum_optionals (cache_read_input_tokens a) (cache_read_input_tokens b))
       (sum_optionals (cache_write_input_tokens a) (cache_write_input_tokens b))"

definition Usage_default :: Usage where
  "Usage_default = Usage None None None None None"

instantiation Usage :: "{plus, zero}"
begin

definition "a + b = Usage_add a b"

definition "0 = Usage_default"

instance ..

end

text \<open>What \<open>Usage::new\<close> establishes: a usage with no total reports neither input nor output.\<close>

definition usage_normal :: "Usage \<Rightarrow> bool" where
  "usage_normal u = (total_tokens u = None \<longrightarrow> input_tokens u = None \<and> output_tokens u = None)"

subsection \<open>Sums of usages\<close>

lemma sum_optionals_None [simp]:
  "sum_optionals None b = b" "sum_optionals a None = a"
  by (cases b; simp) (cases a; simp)

lemma sum_optionals_eq_None [simp]: "sum_optionals a b = None \<longleftrightarrow> a = None \<and> b = None"
  by (cases a; cases b) auto

lemma sum_optionals_commute:
  "sum_optionals a b = sum_optionals b (a :: 'a::ab_semigroup_add option)"
  by (cases a; cases b) (auto simp: add.commute)

lemma sum_optionals_assoc:
  "sum_optionals (sum_optionals a b) c = sum_optionals a (sum_optionals b (c :: 'a::semigroup_add option))"
  by (cases a; cases b; cases c) (auto simp: add.assoc)

lemma Usage_new_normal: "usage_normal (Usage_new i out t)"
  by (auto simp: Usage_new_def usage_normal_def split: option.splits)

lemma usage_normal_with_cache [simp]: "usage_normal (with_cache_tokens u r w) = usage_normal u"
  by (cases u) (simp add: usage_normal_def)

text \<open>On normal operands the sum is the field-wise sum: no total is recomputed.\<close>

lemma Usage_add_normal:
  assumes "usage_normal a" "usage_normal b"
  shows "a + b = Usage (sum_optionals (input_tokens a) (input_tokens b))
                       (sum_optionals (output_tokens a) (output_tokens b))
                       (sum_optionals (total_tokens a) (total_tokens b))
                       (sum_optionals (cache_read_input_tokens a) (cache_read_input_tokens b))
                       (sum_optionals (cache_write_input_tokens a) (cache_write_input_tokens b))"
  using assms
  by (auto simp: plus_Usage_def Usage_add_def Usage_new_def usage_normal_def split: option.splits)

lemma usage_normal_add: "usage_normal (a + b)"
  by (simp add: plus_Usage_def Usage_add_def Usage_new_normal)

lemma usage_normal_zero [simp]: "usage_normal 0"
  by (simp add: zero_Usage_def Usage_default_def usage_normal_def)

lemma Usage_add_commute: "a + b = b + (a :: Usage)"
  by (simp add: plus_Usage_def Usage_add_def sum_optionals_commute)

lemma Usage_add_assoc:
  assumes "usage_normal a" "usage_normal b" "usage_normal c"
  shows "a + b + c = a + (b + c)"
proof -
  note ab = Usage_add_normal [OF assms(1,2)] and bc = Usage_add_normal [OF assms(2,3)]
  note l = Usage_add_normal [OF usage_normal_add [of a b] assms(3)]
    and r = Usage_add_normal [OF assms(1) usage_normal_add [of b c]]
  show ?thesis by (simp only: l r) (simp add: ab bc sum_optionals_assoc)
qed

lemma Usage_add_0: "usage_normal a \<Longrightarrow> a + 0 = a"
  by (simp add: Usage_add_normal) (simp add: zero_Usage_def Usage_default_def)

end
