(* ===== verification/Message.thy ===== *)
theory Message
  imports Token_Usage
begin

text \<open>
  \<open>conversation/message.rs\<close>, \<open>conversation/tool_request.rs\<close>, \<open>permission.rs\<close>, \<open>errors.rs\<close> and the
  text extraction of \<open>mcp_utils.rs\<close> and \<open>utils.rs\<close>: the messages of a conversation, their content
  blocks, their visibility metadata and the builders every other component uses.

  The types of the \<open>rmcp\<close> dependency (roles, annotations, content blocks, tool calls and results)
  carry the fields the sources read. What the sources call outside the repository (Unicode
  normalisation, base64, the printing of JSON and of protocol errors) is the record \<open>ext\<close>, an
  argument of the definitions that use it. The clock and the UUID generator are arguments too.
\<close>

record ErrorData =
  ed_code :: int
  ed_message :: string
  ed_data :: "json option"

record ext =
  nfc :: "string \<Rightarrow> string"
  b64_decode :: "string \<Rightarrow> string option"
  show_error_data :: "ErrorData \<Rightarrow> string"
  json_to_string :: "json_object option \<Rightarrow> string option"
  json_to_string_pretty :: "json_object option \<Rightarrow> string option"

subsection \<open>Protocol types\<close>

datatype Role = User | Assistant

record Annotations =
  audience :: "Role list option"

record TextContent =
  tc_text :: string
  tc_annotations :: "Annotations option"

record ImageContent =
  ic_data :: string
  ic_mime_type :: string
  ic_annotations :: "Annotations option"

datatype ResourceContents =
    TextResourceContents string
  | BlobResourceContents string "string option"
  | OtherResourceContents

datatype ContentBlock =
    CText TextContent
  | CImage ImageContent
  | CAudio "Annotations option"
  | CResource ResourceContents "Annotations option"
  | CResourceLink "Annotations option"
  | COther

record CallToolRequestParams =
  ctr_name :: string
  ctr_arguments :: "json_object option"

record CallToolResult =
  cr_content :: "ContentBlock list"
  cr_is_error :: "bool option"
  cr_meta :: "json_object option"

type_synonym 't ToolResult = "ErrorData + 't"
type_synonym ProviderMetadata = json_object

definition TextContent_new :: "string \<Rightarrow> TextContent" where
  "TextContent_new s = \<lparr>tc_text = s, tc_annotations = None\<rparr>"

definition CallToolResult_error :: "ContentBlock list \<Rightarrow> CallToolResult" where
  "CallToolResult_error cs = \<lparr>cr_content = cs, cr_is_error = Some True, cr_meta = None\<rparr>"

definition CallToolResult_success :: "ContentBlock list \<Rightarrow> CallToolResult" where
  "CallToolResult_success cs = \<lparr>cr_content = cs, cr_is_error = Some False, cr_meta = None\<rparr>"

definition ContentBlock_text :: "string \<Rightarrow> ContentBlock" where
  "ContentBlock_text s = CText (TextContent_new s)"

definition is_ok :: "'e + 'a \<Rightarrow> bool" where
  "is_ok r = (case r of Inl _ \<Rightarrow> False | Inr _ \<Rightarrow> True)"

subsection \<open>Permissions, modes and provider errors\<close>

datatype Permission = AlwaysAllow | AllowOnce | Cancel | DenyOnce | AlwaysDeny

datatype GooseMode = Auto | Approve | SmartApprove | Chat

datatype ProviderError =
    NotConfigured
  | Authentication string
  | ContextLengthExceededError string
  | RateLimitExceeded string "nat option"
  | ServerError string
  | NetworkError string
  | RequestFailed string
  | ExecutionError string
  | UsageError string
  | NotImplemented string
  | EndpointNotFound string
  | CreditsExhaustedError string "string option"
  | Refusal string "string option"

fun display_provider_error :: "ProviderError \<Rightarrow> string" where
  "display_provider_error NotConfigured = ''Provider is not configured''"
| "display_provider_error (Authentication s) = ''Authentication error: '' @ s"
| "display_provider_error (ContextLengthExceededError s) = ''Context length exceeded: '' @ s"
| "display_provider_error (RateLimitExceeded d _) = ''Rate limit exceeded: '' @ d"
| "display_provider_error (ServerError s) = ''Server error: '' @ s"
| "display_provider_error (NetworkError s) = ''Network error: '' @ s"
| "display_provider_error (RequestFailed s) = ''Request failed: '' @ s"
| "display_provider_error (ExecutionError s) = ''Execution error: '' @ s"
| "display_provider_error (UsageError s) = ''Usage data error: '' @ s"
| "display_provider_error (NotImplemented s) = ''Unsupported operation: '' @ s"
| "display_provider_error (EndpointNotFound s) = ''Endpoint not found (404): '' @ s"
| "display_provider_error (CreditsExhaustedError d _) = ''Credits exhausted: '' @ d"
| "display_provider_error (Refusal d _) = ''Provider refused request: '' @ d"

subsection \<open>Content blocks\<close>

record ToolRequest =
  tr_id :: string
  tr_tool_call :: "CallToolRequestParams ToolResult"
  tr_metadata :: "ProviderMetadata option"
  tr_tool_meta :: "json option"

record ToolNameParts =
  extension_name :: "string option"
  tool_name :: string

record ToolChainSummary =
  tcs_summary :: string
  tcs_count :: nat

definition TOOL_META_EXTERNAL_DISPATCH_KEY :: string where
  "TOOL_META_EXTERNAL_DISPATCH_KEY = ''goose.external_dispatch''"

definition TOOL_META_TITLE_KEY :: string where
  "TOOL_META_TITLE_KEY = ''goose.toolSummary.title''"

definition TOOL_META_CHAIN_SUMMARY_KEY :: string where
  "TOOL_META_CHAIN_SUMMARY_KEY = ''goose.toolChain.summary''"

record ToolResponse =
  tp_id :: string
  tp_tool_result :: "CallToolResult ToolResult"
  tp_metadata :: "ProviderMetadata option"

record ToolConfirmationRequest =
  tcr_id :: string
  tcr_tool_name :: string
  tcr_arguments :: json_object
  tcr_prompt :: "string option"

datatype ElicitationAction = ElicitAccept | ElicitDecline | ElicitCancel

datatype ActionRequiredData =
    ToolConfirmation string string json_object "string option"
  | Elicitation string string json
  | ElicitationResponse string json ElicitationAction
  | ToolConfirmationResponse string Permission

record ThinkingContentBlock =
  th_thinking :: string
  th_signature :: string

record FrontendToolRequest =
  ft_id :: string
  ft_tool_call :: "CallToolRequestParams ToolResult"

datatype SystemNotificationType = ThinkingMessage | ProgressMessage | InlineMessage | CreditsExhaustedNotice

record SystemNotificationContent =
  sn_type :: SystemNotificationType
  sn_msg :: string
  sn_data :: "json option"

datatype MessageErrorKind = ContextLengthExceeded | CreditsExhausted | OtherError

record ErrorContent =
  ec_kind :: MessageErrorKind
  ec_message :: string

datatype MessageContentBlock =
    Text TextContent
  | Image ImageContent
  | ToolRequest ToolRequest
  | ToolResponse ToolResponse
  | ToolConfirmationRequest ToolConfirmationRequest
  | ActionRequired ActionRequiredData
  | FrontendToolRequest FrontendToolRequest
  | Thinking ThinkingContentBlock
  | RedactedThinking string
  | SystemNotification SystemNotificationContent
  | Error ErrorContent

fun error_kind_of_provider_error :: "ProviderError \<Rightarrow> MessageErrorKind" where
  "error_kind_of_provider_error (ContextLengthExceededError _) = ContextLengthExceeded"
| "error_kind_of_provider_error (CreditsExhaustedError _ _) = CreditsExhausted"
| "error_kind_of_provider_error _ = OtherError"

subsection \<open>Tool requests\<close>

definition tool_name_parts_of :: "string \<Rightarrow> ToolNameParts" where
  "tool_name_parts_of name =
     (case split_once ''__'' name of
        Some (ext_name, tname) \<Rightarrow> \<lparr>extension_name = Some ext_name, tool_name = tname\<rparr>
      | None \<Rightarrow> \<lparr>extension_name = None, tool_name = name\<rparr>)"

definition tool_meta_get :: "string \<Rightarrow> ToolRequest \<Rightarrow> json option" where
  "tool_meta_get k req = Option.bind (tr_tool_meta req) (json_get k)"

definition tool_name_parts :: "ToolRequest \<Rightarrow> ToolNameParts option" where
  "tool_name_parts req =
     (case tr_tool_call req of
        Inl _ \<Rightarrow> None
      | Inr tool_call \<Rightarrow>
          (let name = ctr_name tool_call;
               parts = tool_name_parts_of name
           in case Option.bind (tool_meta_get ''goose_extension'' req) as_str of
                None \<Rightarrow> Some parts
              | Some ext_name \<Rightarrow>
                  Some (parts\<lparr>extension_name := Some ext_name,
                              tool_name :=
                                (case Option.bind (strip_prefix ext_name name) (strip_prefix ''__'') of
                                   Some n \<Rightarrow> n
                                 | None \<Rightarrow> tool_name parts)\<rparr>)))"

definition to_readable_string :: "ext \<Rightarrow> ToolRequest \<Rightarrow> string" where
  "to_readable_string E req =
     (case tr_tool_call req of
        Inr tool_call \<Rightarrow>
          ''Tool: '' @ ctr_name tool_call @ '', Args: '' @
          (case json_to_string_pretty E (ctr_arguments tool_call) of
             Some s \<Rightarrow> s
           | None \<Rightarrow> ''<<invalid json>>'')
      | Inl e \<Rightarrow> ''Invalid tool call: '' @ show_error_data E e)"

definition was_executed_externally :: "ToolRequest \<Rightarrow> bool" where
  "was_executed_externally req =
     (case Option.bind (tool_meta_get TOOL_META_EXTERNAL_DISPATCH_KEY req) as_bool of
        Some b \<Rightarrow> b | None \<Rightarrow> False)"

definition generated_title :: "ToolRequest \<Rightarrow> string option" where
  "generated_title req = Option.bind (tool_meta_get TOOL_META_TITLE_KEY req) as_str"

definition generated_chain_summary :: "ToolRequest \<Rightarrow> ToolChainSummary option" where
  "generated_chain_summary req =
     (case tool_meta_get TOOL_META_CHAIN_SUMMARY_KEY req of
        None \<Rightarrow> None
      | Some obj \<Rightarrow>
          (case Option.bind (json_get ''summary'' obj) as_str of
             None \<Rightarrow> None
           | Some summary \<Rightarrow>
               (case Option.bind (json_get ''count'' obj) as_u64 of
                  None \<Rightarrow> None
                | Some cnt \<Rightarrow>
                    if cnt = 0 then None else Some \<lparr>tcs_summary = summary, tcs_count = cnt\<rparr>)))"

subsection \<open>Text of resources\<close>

definition sanitize_unicode_tags :: "ext \<Rightarrow> string \<Rightarrow> string" where
  "sanitize_unicode_tags E s = strip_unicode_tags (nfc E s)"

definition extract_text_from_resource :: "ext \<Rightarrow> ResourceContents \<Rightarrow> string" where
  "extract_text_from_resource E r =
     (case r of
        TextResourceContents s \<Rightarrow> sanitize_unicode_tags E s
      | BlobResourceContents blob mime_type \<Rightarrow>
          (case b64_decode E blob of
             Some bytes \<Rightarrow>
               if utf8_valid bytes then sanitize_unicode_tags E bytes
               else ''[Binary content ('' @
                    (case mime_type of Some m \<Rightarrow> m | None \<Rightarrow> ''application/octet-stream'') @
                    '') - '' @ show_nat (length bytes) @ '' bytes]''
           | None \<Rightarrow> sanitize_unicode_tags E blob)
      | OtherResourceContents \<Rightarrow> [])"

subsection \<open>Building and reading content blocks\<close>

definition block_text :: "string \<Rightarrow> MessageContentBlock" where
  "block_text s = Text (TextContent_new s)"

definition block_image :: "string \<Rightarrow> string \<Rightarrow> MessageContentBlock" where
  "block_image d mime = Image \<lparr>ic_data = d, ic_mime_type = mime, ic_annotations = None\<rparr>"

definition tool_request :: "string \<Rightarrow> CallToolRequestParams ToolResult \<Rightarrow> MessageContentBlock" where
  "tool_request i call =
     ToolRequest \<lparr>tr_id = i, tr_tool_call = call, tr_metadata = None, tr_tool_meta = None\<rparr>"

definition tool_request_with_metadata ::
  "string \<Rightarrow> CallToolRequestParams ToolResult \<Rightarrow> ProviderMetadata option \<Rightarrow> MessageContentBlock" where
  "tool_request_with_metadata i call md =
     ToolRequest \<lparr>tr_id = i, tr_tool_call = call, tr_metadata = md, tr_tool_meta = None\<rparr>"

definition tool_response :: "string \<Rightarrow> CallToolResult ToolResult \<Rightarrow> MessageContentBlock" where
  "tool_response i res = ToolResponse \<lparr>tp_id = i, tp_tool_result = res, tp_metadata = None\<rparr>"

definition tool_response_with_metadata ::
  "string \<Rightarrow> CallToolResult ToolResult \<Rightarrow> ProviderMetadata option \<Rightarrow> MessageContentBlock" where
  "tool_response_with_metadata i res md =
     ToolResponse \<lparr>tp_id = i, tp_tool_result = res, tp_metadata = md\<rparr>"

definition action_required ::
  "string \<Rightarrow> string \<Rightarrow> json_object \<Rightarrow> string option \<Rightarrow> MessageContentBlock" where
  "action_required i tname args prompt = ActionRequired (ToolConfirmation i tname args prompt)"

definition action_required_elicitation :: "string \<Rightarrow> string \<Rightarrow> json \<Rightarrow> MessageContentBlock" where
  "action_required_elicitation i msg schema = ActionRequired (Elicitation i msg schema)"

definition action_required_tool_confirmation_response ::
  "string \<Rightarrow> Permission \<Rightarrow> MessageContentBlock" where
  "action_required_tool_confirmation_response i p = ActionRequired (ToolConfirmationResponse i p)"

definition action_required_elicitation_response ::
  "string \<Rightarrow> json \<Rightarrow> ElicitationAction \<Rightarrow> MessageContentBlock" where
  "action_required_elicitation_response i d act = ActionRequired (ElicitationResponse i d act)"

definition block_thinking :: "string \<Rightarrow> string \<Rightarrow> MessageContentBlock" where
  "block_thinking t sig = Thinking \<lparr>th_thinking = t, th_signature = sig\<rparr>"

definition frontend_tool_request ::
  "string \<Rightarrow> CallToolRequestParams ToolResult \<Rightarrow> MessageContentBlock" where
  "frontend_tool_request i call = FrontendToolRequest \<lparr>ft_id = i, ft_tool_call = call\<rparr>"

definition system_notification :: "SystemNotificationType \<Rightarrow> string \<Rightarrow> MessageContentBlock" where
  "system_notification t msg = SystemNotification \<lparr>sn_type = t, sn_msg = msg, sn_data = None\<rparr>"

definition system_notification_with_data ::
  "SystemNotificationType \<Rightarrow> string \<Rightarrow> json \<Rightarrow> MessageContentBlock" where
  "system_notification_with_data t msg d =
     SystemNotification \<lparr>sn_type = t, sn_msg = msg, sn_data = Some d\<rparr>"

definition block_error :: "MessageErrorKind \<Rightarrow> string \<Rightarrow> MessageContentBlock" where
  "block_error kind msg = Error \<lparr>ec_kind = kind, ec_message = msg\<rparr>"

fun as_error :: "MessageContentBlock \<Rightarrow> ErrorContent option" where
  "as_error (Error e) = Some e"
| "as_error _ = None"

fun as_system_notification :: "MessageContentBlock \<Rightarrow> SystemNotificationContent option" where
  "as_system_notification (SystemNotification n) = Some n"
| "as_system_notification _ = None"

fun as_tool_request :: "MessageContentBlock \<Rightarrow> ToolRequest option" where
  "as_tool_request (ToolRequest r) = Some r"
| "as_tool_request _ = None"

fun as_tool_response :: "MessageContentBlock \<Rightarrow> ToolResponse option" where
  "as_tool_response (ToolResponse r) = Some r"
| "as_tool_response _ = None"

fun as_action_required :: "MessageContentBlock \<Rightarrow> ActionRequiredData option" where
  "as_action_required (ActionRequired a) = Some a"
| "as_action_required _ = None"

fun as_text :: "MessageContentBlock \<Rightarrow> string option" where
  "as_text (Text t) = Some (tc_text t)"
| "as_text _ = None"

fun as_thinking :: "MessageContentBlock \<Rightarrow> ThinkingContentBlock option" where
  "as_thinking (Thinking t) = Some t"
| "as_thinking _ = None"

fun as_redacted_thinking :: "MessageContentBlock \<Rightarrow> string option" where
  "as_redacted_thinking (RedactedThinking d) = Some d"
| "as_redacted_thinking _ = None"

fun content_as_text :: "ContentBlock \<Rightarrow> string option" where
  "content_as_text (CText t) = Some (tc_text t)"
| "content_as_text _ = None"

definition as_tool_response_text :: "MessageContentBlock \<Rightarrow> string option" where
  "as_tool_response_text b =
     (case as_tool_response b of
        None \<Rightarrow> None
      | Some r \<Rightarrow>
          (case tp_tool_result r of
             Inl _ \<Rightarrow> None
           | Inr result \<Rightarrow>
               (let texts = filter_map content_as_text (cr_content result)
                in if texts \<noteq> [] then Some (str_join nl texts) else None)))"

fun block_display :: "ext \<Rightarrow> MessageContentBlock \<Rightarrow> string" where
  "block_display E (Text t) = tc_text t"
| "block_display E (Image i) = ''[Image: '' @ ic_mime_type i @ '']''"
| "block_display E (ToolRequest r) = ''[ToolRequest: '' @ to_readable_string E r @ '']''"
| "block_display E (ToolResponse r) =
     ''[ToolResponse: '' @
     (case tp_tool_result r of
        Inr result \<Rightarrow> show_nat (length (cr_content result)) @ '' content item(s)''
      | Inl e \<Rightarrow> ''Error: '' @ show_error_data E e) @ '']''"
| "block_display E (ToolConfirmationRequest r) =
     ''[ToolConfirmationRequest: '' @ tcr_tool_name r @ '']''"
| "block_display E (ActionRequired (ToolConfirmation _ tname _ _)) =
     ''[ActionRequired: ToolConfirmation for '' @ tname @ '']''"
| "block_display E (ActionRequired (Elicitation _ msg _)) =
     ''[ActionRequired: Elicitation - '' @ msg @ '']''"
| "block_display E (ActionRequired (ElicitationResponse i _ _)) =
     ''[ActionRequired: ElicitationResponse for '' @ i @ '']''"
| "block_display E (ActionRequired (ToolConfirmationResponse i _)) =
     ''[ActionRequired: ToolConfirmationResponse for '' @ i @ '']''"
| "block_display E (FrontendToolRequest r) =
     (case ft_tool_call r of
        Inr call \<Rightarrow> ''[FrontendToolRequest: '' @ ctr_name call @ '']''
      | Inl e \<Rightarrow> ''[FrontendToolRequest: Error: '' @ show_error_data E e @ '']'')"
| "block_display E (Thinking t) = ''[Thinking: '' @ th_thinking t @ '']''"
| "block_display E (RedactedThinking _) = ''[RedactedThinking]''"
| "block_display E (SystemNotification n) = ''[SystemNotification: '' @ sn_msg n @ '']''"
| "block_display E (Error e) = ''[Error: '' @ ec_message e @ '']''"

subsection \<open>Audience filtering\<close>

definition audience_of :: "Annotations option \<Rightarrow> Role list option" where
  "audience_of a = Option.bind a audience"

fun content_audience :: "ContentBlock \<Rightarrow> Role list option" where
  "content_audience (CText t) = audience_of (tc_annotations t)"
| "content_audience (CImage i) = audience_of (ic_annotations i)"
| "content_audience (CAudio a) = audience_of a"
| "content_audience (CResource _ a) = audience_of a"
| "content_audience (CResourceLink a) = audience_of a"
| "content_audience COther = None"

definition for_audience :: "Role list option \<Rightarrow> Role \<Rightarrow> bool" where
  "for_audience a r = (case a of Some roles \<Rightarrow> r \<in> set roles | None \<Rightarrow> True)"

fun filter_for_audience :: "Role \<Rightarrow> MessageContentBlock \<Rightarrow> MessageContentBlock option" where
  "filter_for_audience r (Text t) =
     (if for_audience (audience_of (tc_annotations t)) r then Some (Text t) else None)"
| "filter_for_audience r (Image i) =
     (if for_audience (audience_of (ic_annotations i)) r then Some (Image i) else None)"
| "filter_for_audience r (ToolResponse res) =
     (case tp_tool_result res of
        Inl _ \<Rightarrow> Some (ToolResponse res)
      | Inr result \<Rightarrow>
          Some (ToolResponse
            \<lparr>tp_id = tp_id res,
             tp_tool_result =
               Inr (result\<lparr>cr_content :=
                 filter (\<lambda>c. for_audience (content_audience c) r) (cr_content result)\<rparr>),
             tp_metadata = tp_metadata res\<rparr>))"
| "filter_for_audience r (Thinking t) = (if r = Assistant then Some (Thinking t) else None)"
| "filter_for_audience r (RedactedThinking d) =
     (if r = Assistant then Some (RedactedThinking d) else None)"
| "filter_for_audience r b = Some b"

fun block_user_visible_content :: "MessageContentBlock \<Rightarrow> MessageContentBlock option" where
  "block_user_visible_content (Text t) = filter_for_audience User (Text t)"
| "block_user_visible_content (Image i) = filter_for_audience User (Image i)"
| "block_user_visible_content (ToolResponse r) = filter_for_audience User (ToolResponse r)"
| "block_user_visible_content b = Some b"

fun block_of_content :: "ext \<Rightarrow> ContentBlock \<Rightarrow> MessageContentBlock" where
  "block_of_content E (CText t) = Text t"
| "block_of_content E (CImage i) = Image i"
| "block_of_content E (CResourceLink _) = block_text ''[Resource link]''"
| "block_of_content E (CResource res _) = block_text (extract_text_from_resource E res)"
| "block_of_content E (CAudio _) = block_text ''[Audio content: not supported]''"
| "block_of_content E COther = block_text ''[Unsupported content]''"

subsection \<open>Metadata\<close>

record InferenceMetadata =
  im_provider :: string
  im_requested_model :: string
  im_resolved_model :: "string option"

record MessageUsage =
  mu_input_tokens :: "i32 option"
  mu_output_tokens :: "i32 option"
  mu_total_tokens :: "i32 option"
  mu_cache_read_tokens :: "i32 option"
  mu_cache_write_tokens :: "i32 option"
  mu_cost :: "f64 option"
  mu_cost_source :: "CostSource option"
  mu_elapsed_ms :: "nat option"
  mu_time_to_first_token_ms :: "nat option"
  mu_is_compaction :: bool

definition from_provider_usage :: "ProviderUsage \<Rightarrow> bool \<Rightarrow> MessageUsage" where
  "from_provider_usage usage is_compaction =
     \<lparr>mu_input_tokens = input_tokens (pu_usage usage),
      mu_output_tokens = output_tokens (pu_usage usage),
      mu_total_tokens = total_tokens (pu_usage usage),
      mu_cache_read_tokens = cache_read_input_tokens (pu_usage usage),
      mu_cache_write_tokens = cache_write_input_tokens (pu_usage usage),
      mu_cost = pu_cost usage,
      mu_cost_source = pu_cost_source usage,
      mu_elapsed_ms = Option.bind (pu_stats usage) ps_elapsed_ms,
      mu_time_to_first_token_ms = Option.bind (pu_stats usage) ps_time_to_first_token_ms,
      mu_is_compaction = is_compaction\<rparr>"

type_synonym OperationNotes = "(string \<times> json_object) list"

record MessageMetadata =
  user_visible :: bool
  agent_visible :: bool
  inference :: "InferenceMetadata option"
  output_token_limit_reached :: bool
  steer :: bool
  turn_context :: bool
  usage :: "MessageUsage option"
  operations :: "OperationNotes option"

definition MessageMetadata_default :: MessageMetadata where
  "MessageMetadata_default =
     \<lparr>user_visible = True, agent_visible = True, inference = None,
      output_token_limit_reached = False, steer = False, turn_context = False,
      usage = None, operations = None\<rparr>"

definition operation_note :: "MessageMetadata \<Rightarrow> string \<Rightarrow> string \<Rightarrow> json option" where
  "operation_note md operation key =
     Option.bind (operations md) (\<lambda>ops. Option.bind (map_of ops operation) (\<lambda>m. map_of m key))"

definition set_operation_note ::
  "string \<Rightarrow> string \<Rightarrow> json \<Rightarrow> MessageMetadata \<Rightarrow> MessageMetadata" where
  "set_operation_note operation key v md =
     (let ops = (case operations md of Some ops \<Rightarrow> ops | None \<Rightarrow> []);
          notes = (case map_of ops operation of Some m \<Rightarrow> m | None \<Rightarrow> [])
      in md\<lparr>operations := Some (obj_insert operation (obj_insert key v notes) ops)\<rparr>)"

definition md_agent_only :: MessageMetadata where
  "md_agent_only = MessageMetadata_default\<lparr>user_visible := False, agent_visible := True\<rparr>"

definition md_user_only :: MessageMetadata where
  "md_user_only = MessageMetadata_default\<lparr>user_visible := True, agent_visible := False\<rparr>"

definition md_invisible :: MessageMetadata where
  "md_invisible = MessageMetadata_default\<lparr>user_visible := False, agent_visible := False\<rparr>"

definition with_agent_invisible :: "MessageMetadata \<Rightarrow> MessageMetadata" where
  "with_agent_invisible md = md\<lparr>agent_visible := False\<rparr>"

definition with_user_invisible :: "MessageMetadata \<Rightarrow> MessageMetadata" where
  "with_user_invisible md = md\<lparr>user_visible := False\<rparr>"

definition with_agent_visible :: "MessageMetadata \<Rightarrow> MessageMetadata" where
  "with_agent_visible md = md\<lparr>agent_visible := True\<rparr>"

definition with_user_visible :: "MessageMetadata \<Rightarrow> MessageMetadata" where
  "with_user_visible md = md\<lparr>user_visible := True\<rparr>"

definition md_with_inference :: "InferenceMetadata \<Rightarrow> MessageMetadata \<Rightarrow> MessageMetadata" where
  "md_with_inference i md = md\<lparr>inference := Some i\<rparr>"

definition md_with_steer :: "MessageMetadata \<Rightarrow> MessageMetadata" where
  "md_with_steer md = md\<lparr>steer := True\<rparr>"

definition md_with_turn_context :: "MessageMetadata \<Rightarrow> MessageMetadata" where
  "md_with_turn_context md = md\<lparr>turn_context := True\<rparr>"

subsection \<open>Messages\<close>

record Message =
  m_id :: "string option"
  m_role :: Role
  m_created :: int
  m_content :: "MessageContentBlock list"
  m_metadata :: MessageMetadata

definition Message_new :: "Role \<Rightarrow> int \<Rightarrow> MessageContentBlock list \<Rightarrow> Message" where
  "Message_new r t cs =
     \<lparr>m_id = None, m_role = r, m_created = t, m_content = cs, m_metadata = MessageMetadata_default\<rparr>"

definition Message_user :: "int \<Rightarrow> Message" where
  "Message_user now = Message_new User now []"

definition Message_assistant :: "int \<Rightarrow> Message" where
  "Message_assistant now = Message_new Assistant now []"

definition with_id :: "string \<Rightarrow> Message \<Rightarrow> Message" where
  "with_id i m = m\<lparr>m_id := Some i\<rparr>"

definition with_generated_id :: "string \<Rightarrow> Message \<Rightarrow> Message" where
  "with_generated_id uuid m = with_id (''msg_'' @ uuid) m"

definition with_generated_id_if_missing :: "string \<Rightarrow> Message \<Rightarrow> Message" where
  "with_generated_id_if_missing uuid m = (if m_id m \<noteq> None then m else with_generated_id uuid m)"

definition with_content :: "Message \<Rightarrow> MessageContentBlock \<Rightarrow> Message" where
  "with_content m b = m\<lparr>m_content := m_content m @ [b]\<rparr>"

definition with_text :: "ext \<Rightarrow> Message \<Rightarrow> string \<Rightarrow> Message" where
  "with_text E m s = with_content m (Text (TextContent_new (sanitize_unicode_tags E s)))"

definition with_image :: "Message \<Rightarrow> string \<Rightarrow> string \<Rightarrow> Message" where
  "with_image m d mime = with_content m (block_image d mime)"

definition with_tool_request :: "Message \<Rightarrow> string \<Rightarrow> CallToolRequestParams ToolResult \<Rightarrow> Message" where
  "with_tool_request m i call = with_content m (tool_request i call)"

definition with_tool_request_with_metadata ::
  "Message \<Rightarrow> string \<Rightarrow> CallToolRequestParams ToolResult \<Rightarrow> ProviderMetadata option \<Rightarrow> json option \<Rightarrow> Message"
where
  "with_tool_request_with_metadata m i call md tm =
     with_content m
       (ToolRequest \<lparr>tr_id = i, tr_tool_call = call, tr_metadata = md, tr_tool_meta = tm\<rparr>)"

definition with_tool_response :: "Message \<Rightarrow> string \<Rightarrow> CallToolResult ToolResult \<Rightarrow> Message" where
  "with_tool_response m i res = with_content m (tool_response i res)"

definition add_tool_response_with_metadata ::
  "Message \<Rightarrow> string \<Rightarrow> CallToolResult ToolResult \<Rightarrow> ProviderMetadata option \<Rightarrow> Message" where
  "add_tool_response_with_metadata m i res md =
     m\<lparr>m_content := m_content m @ [tool_response_with_metadata i res md]\<rparr>"

definition with_action_required ::
  "Message \<Rightarrow> string \<Rightarrow> string \<Rightarrow> json_object \<Rightarrow> string option \<Rightarrow> Message" where
  "with_action_required m i tname args prompt = with_content m (action_required i tname args prompt)"

definition with_frontend_tool_request ::
  "Message \<Rightarrow> string \<Rightarrow> CallToolRequestParams ToolResult \<Rightarrow> Message" where
  "with_frontend_tool_request m i call = with_content m (frontend_tool_request i call)"

definition with_thinking :: "Message \<Rightarrow> string \<Rightarrow> string \<Rightarrow> Message" where
  "with_thinking m t sig = with_content m (block_thinking t sig)"

definition with_redacted_thinking :: "Message \<Rightarrow> string \<Rightarrow> Message" where
  "with_redacted_thinking m d = with_content m (RedactedThinking d)"

definition as_concat_text :: "Message \<Rightarrow> string" where
  "as_concat_text m = str_join nl (filter_map as_text (m_content m))"

fun is_tool_request_block :: "MessageContentBlock \<Rightarrow> bool" where
  "is_tool_request_block (ToolRequest _) = True"
| "is_tool_request_block _ = False"

fun is_tool_response_block :: "MessageContentBlock \<Rightarrow> bool" where
  "is_tool_response_block (ToolResponse _) = True"
| "is_tool_response_block _ = False"

fun is_text_block :: "MessageContentBlock \<Rightarrow> bool" where
  "is_text_block (Text _) = True"
| "is_text_block _ = False"

definition is_tool_call :: "Message \<Rightarrow> bool" where
  "is_tool_call m = list_ex is_tool_request_block (m_content m)"

definition is_tool_response :: "Message \<Rightarrow> bool" where
  "is_tool_response m = list_ex is_tool_response_block (m_content m)"

fun tool_block_id :: "MessageContentBlock \<Rightarrow> string option" where
  "tool_block_id (ToolRequest r) = Some (tr_id r)"
| "tool_block_id (ToolResponse r) = Some (tp_id r)"
| "tool_block_id _ = None"

definition get_tool_ids :: "Message \<Rightarrow> string set" where
  "get_tool_ids m = set (filter_map tool_block_id (m_content m))"

definition get_tool_request_ids :: "Message \<Rightarrow> string set" where
  "get_tool_request_ids m = set (filter_map (\<lambda>b. map_option tr_id (as_tool_request b)) (m_content m))"

definition get_tool_response_ids :: "Message \<Rightarrow> string set" where
  "get_tool_response_ids m = set (filter_map (\<lambda>b. map_option tp_id (as_tool_response b)) (m_content m))"

definition has_only_text_content :: "Message \<Rightarrow> bool" where
  "has_only_text_content m = list_all is_text_block (m_content m)"

definition with_metadata :: "Message \<Rightarrow> MessageMetadata \<Rightarrow> Message" where
  "with_metadata m md = m\<lparr>m_metadata := md\<rparr>"

definition with_system_notification ::
  "Message \<Rightarrow> SystemNotificationType \<Rightarrow> string \<Rightarrow> Message" where
  "with_system_notification m t msg =
     with_metadata (with_content m (system_notification t msg)) md_user_only"

definition with_system_notification_with_data ::
  "Message \<Rightarrow> SystemNotificationType \<Rightarrow> string \<Rightarrow> json \<Rightarrow> Message" where
  "with_system_notification_with_data m t msg d =
     with_metadata (with_content m (system_notification_with_data t msg d)) md_user_only"

definition with_error :: "Message \<Rightarrow> MessageErrorKind \<Rightarrow> string \<Rightarrow> Message" where
  "with_error m kind msg = with_metadata (with_content m (block_error kind msg)) md_user_only"

definition from_provider_error :: "int \<Rightarrow> ProviderError \<Rightarrow> Message" where
  "from_provider_error now err =
     (let txt =
        (case err of
           NetworkError _ \<Rightarrow>
             display_provider_error err @ nl @ nl @ ''Please resend your message to try again.''
         | ContextLengthExceededError _ \<Rightarrow>
             display_provider_error err @ nl @ nl @
             ''The conversation is too long for the model's context window.''
         | _ \<Rightarrow>
             ''Ran into this error: '' @ display_provider_error err @ ''.'' @ nl @ nl @
             ''Please retry if you think this is a transient or recoverable error.'')
      in with_error (Message_assistant now) (error_kind_of_provider_error err) txt)"

definition error_kind :: "Message \<Rightarrow> MessageErrorKind option" where
  "error_kind m = find_map (\<lambda>b. map_option ec_kind (as_error b)) (m_content m)"

definition with_visibility :: "Message \<Rightarrow> bool \<Rightarrow> bool \<Rightarrow> Message" where
  "with_visibility m uv av =
     m\<lparr>m_metadata := (m_metadata m)\<lparr>user_visible := uv, agent_visible := av\<rparr>\<rparr>"

definition with_inference :: "Message \<Rightarrow> InferenceMetadata \<Rightarrow> Message" where
  "with_inference m i = m\<lparr>m_metadata := md_with_inference i (m_metadata m)\<rparr>"

definition with_steer :: "Message \<Rightarrow> Message" where
  "with_steer m = m\<lparr>m_metadata := (m_metadata m)\<lparr>steer := True\<rparr>\<rparr>"

definition with_inference_if_assistant :: "Message \<Rightarrow> InferenceMetadata \<Rightarrow> Message" where
  "with_inference_if_assistant m i =
     (if m_role m = Assistant \<and> inference (m_metadata m) = None then with_inference m i else m)"

definition user_only :: "Message \<Rightarrow> Message" where
  "user_only m = m\<lparr>m_metadata := (m_metadata m)\<lparr>user_visible := True, agent_visible := False\<rparr>\<rparr>"

definition agent_only :: "Message \<Rightarrow> Message" where
  "agent_only m = m\<lparr>m_metadata := (m_metadata m)\<lparr>user_visible := False, agent_visible := True\<rparr>\<rparr>"

definition is_user_visible :: "Message \<Rightarrow> bool" where
  "is_user_visible m = user_visible (m_metadata m)"

definition is_agent_visible :: "Message \<Rightarrow> bool" where
  "is_agent_visible m = agent_visible (m_metadata m)"

definition is_turn_context :: "Message \<Rightarrow> bool" where
  "is_turn_context m = turn_context (m_metadata m)"

definition message_of_prompt :: "ext \<Rightarrow> int \<Rightarrow> Role \<Rightarrow> ContentBlock \<Rightarrow> Message" where
  "message_of_prompt E now r c =
     with_content (case r of User \<Rightarrow> Message_user now | Assistant \<Rightarrow> Message_assistant now)
       (block_of_content E c)"

definition agent_visible_content :: "Message \<Rightarrow> Message" where
  "agent_visible_content m = m\<lparr>m_content := filter_map (filter_for_audience Assistant) (m_content m)\<rparr>"

text \<open>\<open>push_merging_text\<close> appends a block, or extends a last text block of the same audience.\<close>

definition push_merging_text ::
  "MessageContentBlock \<Rightarrow> MessageContentBlock list \<Rightarrow> MessageContentBlock list" where
  "push_merging_text item cs =
     (case item of
        Text t \<Rightarrow>
          (case last_opt cs of
             Some (Text l) \<Rightarrow>
               if audience_of (tc_annotations l) = audience_of (tc_annotations t)
               then butlast cs @ [Text (l\<lparr>tc_text := tc_text l @ tc_text t\<rparr>)]
               else cs @ [item]
           | _ \<Rightarrow> cs @ [item])
      | _ \<Rightarrow> cs @ [item])"

definition user_visible_content :: "Message \<Rightarrow> Message" where
  "user_visible_content m =
     m\<lparr>m_content :=
       fold push_merging_text (filter_map block_user_visible_content (m_content m)) []\<rparr>"

text \<open>A concrete environment: normalisation is the identity, nothing is base64.\<close>

definition ext0 :: ext where
  "ext0 = \<lparr>nfc = id, b64_decode = (\<lambda>_. None), show_error_data = ed_message,
           json_to_string = (\<lambda>_. None), json_to_string_pretty = (\<lambda>_. None)\<rparr>"

end
