(* ===== verification/Conversation.thy ===== *)
theory Conversation
  imports Message
begin

text \<open>
  \<open>conversation.rs\<close>: the conversation as a list of messages, the streaming \<open>push\<close> that merges the
  deltas of one message, the views for the agent and the user, and the effective role of a
  message. A \<open>Conversation\<close> is its \<open>Vec<Message>\<close>.
\<close>

type_synonym Conversation = "Message list"

subsection \<open>Appending and views\<close>

definition extend_content ::
  "MessageContentBlock list \<Rightarrow> MessageContentBlock list \<Rightarrow> MessageContentBlock list" where
  "extend_content old new =
     (case (last_opt old, last_opt new) of
        (Some (Text l), Some (Text n)) \<Rightarrow>
          if length new = 1 \<and> audience_of (tc_annotations l) = audience_of (tc_annotations n)
          then butlast old @ [Text (l\<lparr>tc_text := tc_text l @ tc_text n\<rparr>)]
          else old @ new
      | (Some (Thinking l), Some (Thinking n)) \<Rightarrow>
          if length new = 1 \<and> (th_signature l = [] \<or> th_signature n = th_signature l)
          then butlast old @
                 [Thinking \<lparr>th_thinking = th_thinking l @ th_thinking n,
                            th_signature =
                              (if th_signature n \<noteq> [] then th_signature n else th_signature l)\<rparr>]
          else old @ new
      | _ \<Rightarrow> old @ new)"

definition absorb_delta :: "Message \<Rightarrow> Message \<Rightarrow> Message" where
  "absorb_delta message l =
     (let md = m_metadata l;
          md1 = (if inference (m_metadata message) \<noteq> None
                 then md\<lparr>inference := inference (m_metadata message)\<rparr> else md);
          md2 = md1\<lparr>output_token_limit_reached :=
                  (output_token_limit_reached md1 \<or> output_token_limit_reached (m_metadata message))\<rparr>
      in l\<lparr>m_metadata := md2, m_content := extend_content (m_content l) (m_content message)\<rparr>)"

definition absorb_marker :: "Message \<Rightarrow> Message \<Rightarrow> Message" where
  "absorb_marker message existing =
     (let md = m_metadata existing;
          md1 = (case inference (m_metadata message) of
                   Some i \<Rightarrow> md\<lparr>inference := Some i\<rparr>
                 | None \<Rightarrow> md)
      in existing\<lparr>m_metadata := md1\<lparr>output_token_limit_reached :=
           (output_token_limit_reached md1 \<or> output_token_limit_reached (m_metadata message))\<rparr>\<rparr>)"

definition marker_target :: "Message \<Rightarrow> Message \<Rightarrow> bool" where
  "marker_target message existing =
     (m_role existing = m_role message \<and> is_user_visible existing \<and>
      (\<not> output_token_limit_reached (m_metadata message) \<or>
       (m_id message \<noteq> None \<and> m_id existing = m_id message)))"

definition conv_push :: "Message \<Rightarrow> Conversation \<Rightarrow> Conversation" where
  "conv_push message ms =
     (if m_content message = [] \<and>
         (inference (m_metadata message) \<noteq> None \<or>
          output_token_limit_reached (m_metadata message))
      then (case update_rfind (marker_target message) (absorb_marker message) ms of
              Some ms' \<Rightarrow> ms'
            | None \<Rightarrow>
                if output_token_limit_reached (m_metadata message)
                then ms @ [with_visibility message True False]
                else ms)
      else (case last_opt ms of
              Some l \<Rightarrow>
                if m_id l \<noteq> None \<and> m_id l = m_id message
                then update_last (absorb_delta message) ms
                else ms @ [message]
            | None \<Rightarrow> ms @ [message]))"

definition conv_extend :: "Message list \<Rightarrow> Conversation \<Rightarrow> Conversation" where
  "conv_extend new ms = fold conv_push new ms"

definition filtered_messages :: "(MessageMetadata \<Rightarrow> bool) \<Rightarrow> Conversation \<Rightarrow> Message list" where
  "filtered_messages f ms = filter (\<lambda>m. f (m_metadata m)) ms"

definition agent_visible_messages :: "Conversation \<Rightarrow> Message list" where
  "agent_visible_messages ms =
     filter (\<lambda>m. m_content m \<noteq> [])
       (map agent_visible_content (filter (\<lambda>m. agent_visible (m_metadata m)) ms))"

definition user_visible_messages :: "Conversation \<Rightarrow> Message list" where
  "user_visible_messages ms =
     filter (\<lambda>m. m_content m \<noteq> [])
       (map user_visible_content (filter (\<lambda>m. user_visible (m_metadata m)) ms))"

subsection \<open>Effective roles\<close>

datatype EffectiveRole = EUser | EAssistant | ETool

definition has_tool_response :: "Message \<Rightarrow> bool" where
  "has_tool_response m = list_ex is_tool_response_block (m_content m)"

definition effective_role :: "Message \<Rightarrow> EffectiveRole" where
  "effective_role m =
     (if m_role m = User \<and> has_tool_response m then ETool
      else (case m_role m of User \<Rightarrow> EUser | Assistant \<Rightarrow> EAssistant))"

fun display_effective_role :: "EffectiveRole \<Rightarrow> string" where
  "display_effective_role EUser = ''user''"
| "display_effective_role EAssistant = ''assistant''"
| "display_effective_role ETool = ''tool''"

end
