(* ===== verification/Conversation_Repair.thy ===== *)
theory Conversation_Repair
  imports Conversation
begin

text \<open>
  \<open>conversation.rs\<close>, the repair pipeline \<open>fix_conversation\<close> that runs before every provider request
  and inside \<open>Conversation::new\<close>. Each processor returns the new messages and the issues it reports,
  in the order the code reports them. Marking indices and removing them from the back is the filter
  that keeps the unmarked blocks.

  The lemmas show that a processor that reports no issue changes nothing, what each processor
  establishes, and from these what a validated conversation satisfies.
\<close>

subsection \<open>The processors of the repair pipeline\<close>

type_synonym fixed = "Message list \<times> string list"

definition merge_text_content_in_message :: "Message \<Rightarrow> Message" where
  "merge_text_content_in_message m =
     (if m_role m \<noteq> Assistant then m
      else m\<lparr>m_content := fold push_merging_text (m_content m) []\<rparr>)"

definition merge_text_content_items :: "Message list \<Rightarrow> fixed" where
  "merge_text_content_items ms =
     fold (\<lambda>m (out, issues).
       let m' = merge_text_content_in_message m
       in (out @ [m'],
           if length (m_content m) \<noteq> length (m_content m')
           then issues @ [''Merged text content''] else issues)) ms ([], [])"

fun trim_block :: "MessageContentBlock \<Rightarrow> MessageContentBlock \<times> string list" where
  "trim_block (Text t) =
     (if length (trim_end (tc_text t)) \<noteq> length (tc_text t)
      then (Text (t\<lparr>tc_text := trim_end (tc_text t)\<rparr>),
            [''Trimmed trailing whitespace from assistant message''])
      else (Text t, []))"
| "trim_block b = (b, [])"

definition trim_message :: "Message \<Rightarrow> Message \<times> string list" where
  "trim_message m =
     (if m_role m = Assistant
      then (m\<lparr>m_content := map (fst \<circ> trim_block) (m_content m)\<rparr>,
            concat (map (snd \<circ> trim_block) (m_content m)))
      else (m, []))"

definition trim_assistant_text_whitespace :: "Message list \<Rightarrow> fixed" where
  "trim_assistant_text_whitespace ms =
     (map (fst \<circ> trim_message) ms, concat (map (snd \<circ> trim_message) ms))"

definition is_empty_message :: "Message \<Rightarrow> bool" where
  "is_empty_message m = list_all (\<lambda>c. as_text c = Some []) (m_content m)"

definition remove_empty_messages :: "Message list \<Rightarrow> fixed" where
  "remove_empty_messages ms =
     (filter (\<lambda>m. \<not> is_empty_message m) ms,
      map (\<lambda>_. ''Removed empty message'') (filter is_empty_message ms))"

fun tool_result_payload :: "ext \<Rightarrow> ContentBlock \<Rightarrow> bool" where
  "tool_result_payload E (CText t) = (tc_text t \<noteq> [])"
| "tool_result_payload E (CResource r _) = (extract_text_from_resource E r \<noteq> [])"
| "tool_result_payload E (CImage _) = True"
| "tool_result_payload E _ = False"

definition has_tool_result_content :: "ext \<Rightarrow> ContentBlock list \<Rightarrow> bool" where
  "has_tool_result_content E cs = list_ex (tool_result_payload E) cs"

fun fill_tool_result :: "ext \<Rightarrow> MessageContentBlock \<Rightarrow> MessageContentBlock \<times> string list" where
  "fill_tool_result E (ToolResponse res) =
     (case tp_tool_result res of
        Inr result \<Rightarrow>
          if \<not> has_tool_result_content E (cr_content result)
          then (ToolResponse (res\<lparr>tp_tool_result :=
                  Inr (result\<lparr>cr_content := cr_content result @ [ContentBlock_text ''(empty result)'']\<rparr>)\<rparr>),
                [''Added placeholder to empty tool result '' @ quoted (tp_id res)])
          else (ToolResponse res, [])
      | Inl _ \<Rightarrow> (ToolResponse res, []))"
| "fill_tool_result E b = (b, [])"

definition fix_empty_tool_results :: "ext \<Rightarrow> Message list \<Rightarrow> fixed" where
  "fix_empty_tool_results E ms =
     (map (\<lambda>m. m\<lparr>m_content := map (fst \<circ> fill_tool_result E) (m_content m)\<rparr>) ms,
      concat (map (\<lambda>m. concat (map (snd \<circ> fill_tool_result E) (m_content m))) ms))"

text \<open>
  The first pass over the tool calls threads the set of requests that wait for a response. A scan
  of one block says whether it stays, which issue it reports and what then waits.
\<close>

fun scan_user_block ::
  "string set \<Rightarrow> MessageContentBlock \<Rightarrow> string option \<times> string set" where
  "scan_user_block P (ToolRequest req) =
     (Some (''Removed tool request '' @ quoted (tr_id req) @ '' from user message''), P)"
| "scan_user_block P (ToolConfirmationRequest req) =
     (Some (''Removed tool confirmation request '' @ quoted (tcr_id req) @ '' from user message''), P)"
| "scan_user_block P (Thinking _) = (Some ''Removed thinking content from user message'', P)"
| "scan_user_block P (RedactedThinking _) = (Some ''Removed thinking content from user message'', P)"
| "scan_user_block P (ToolResponse resp) =
     (if tp_id resp \<in> P then (None, P - {tp_id resp})
      else (Some (''Removed orphaned tool response '' @ quoted (tp_id resp)), P))"
| "scan_user_block P _ = (None, P)"

fun scan_assistant_block ::
  "string set \<Rightarrow> MessageContentBlock \<Rightarrow> string option \<times> string set" where
  "scan_assistant_block P (ToolResponse resp) =
     (Some (''Removed tool response '' @ quoted (tp_id resp) @ '' from assistant message''), P)"
| "scan_assistant_block P (FrontendToolRequest req) =
     (Some (''Removed frontend tool request '' @ quoted (ft_id req) @ '' from assistant message''), P)"
| "scan_assistant_block P (ToolRequest req) = (None, insert (tr_id req) P)"
| "scan_assistant_block P _ = (None, P)"

definition scan_block :: "Role \<Rightarrow> string set \<Rightarrow> MessageContentBlock \<Rightarrow> string option \<times> string set" where
  "scan_block r = (case r of User \<Rightarrow> scan_user_block | Assistant \<Rightarrow> scan_assistant_block)"

fun scan_content ::
  "Role \<Rightarrow> string set \<Rightarrow> MessageContentBlock list \<Rightarrow> MessageContentBlock list \<times> string list \<times> string set"
where
  "scan_content r P [] = ([], [], P)"
| "scan_content r P (b # bs) =
     (case scan_block r P b of
        (issue, P') \<Rightarrow>
          (case scan_content r P' bs of
             (kept, issues, P'') \<Rightarrow>
               (case issue of
                  None \<Rightarrow> (b # kept, issues, P'')
                | Some i \<Rightarrow> (kept, i # issues, P''))))"

fun scan_messages :: "string set \<Rightarrow> Message list \<Rightarrow> Message list \<times> string list \<times> string set" where
  "scan_messages P [] = ([], [], P)"
| "scan_messages P (m # ms) =
     (case scan_content (m_role m) P (m_content m) of
        (kept, issues, P') \<Rightarrow>
          (case scan_messages P' ms of
             (ms', issues', P'') \<Rightarrow> (m\<lparr>m_content := kept\<rparr> # ms', issues @ issues', P'')))"

definition orphan_request :: "string set \<Rightarrow> MessageContentBlock \<Rightarrow> bool" where
  "orphan_request P b =
     (case b of ToolRequest req \<Rightarrow> tr_id req \<in> P | _ \<Rightarrow> False)"

fun orphan_issue :: "string set \<Rightarrow> MessageContentBlock \<Rightarrow> string option" where
  "orphan_issue P (ToolRequest req) =
     (if tr_id req \<in> P then Some (''Removed orphaned tool request '' @ quoted (tr_id req)) else None)"
| "orphan_issue P b = None"

definition drop_orphan_requests :: "string set \<Rightarrow> Message \<Rightarrow> Message \<times> string list" where
  "drop_orphan_requests P m =
     (if m_role m = Assistant
      then (m\<lparr>m_content := filter (\<lambda>b. \<not> orphan_request P b) (m_content m)\<rparr>,
            filter_map (orphan_issue P) (m_content m))
      else (m, []))"

definition fix_tool_calling :: "Message list \<Rightarrow> fixed" where
  "fix_tool_calling ms =
     (case scan_messages {} ms of
        (ms1, issues1, P) \<Rightarrow>
          (let ms2 = map (fst \<circ> drop_orphan_requests P) ms1;
               issues2 = concat (map (snd \<circ> drop_orphan_requests P) ms1)
           in (fst (remove_empty_messages ms2),
               issues1 @ issues2 @ snd (remove_empty_messages ms2))))"

definition mergeable :: "bool \<Rightarrow> Message \<Rightarrow> Message \<Rightarrow> bool" where
  "mergeable across_visibility l m =
     (effective_role l = effective_role m \<and>
      (across_visibility \<or>
       (user_visible (m_metadata l) = user_visible (m_metadata m) \<and>
        turn_context (m_metadata l) = turn_context (m_metadata m))))"

definition merge_issue :: "Message \<Rightarrow> string" where
  "merge_issue m =
     ''Merged consecutive '' @ display_effective_role (effective_role m) @ '' messages''"

definition merge_step :: "bool \<Rightarrow> Message \<Rightarrow> fixed \<Rightarrow> fixed" where
  "merge_step across_visibility m st =
     (case st of
        (out, issues) \<Rightarrow>
          (case last_opt out of
             Some l \<Rightarrow>
               if mergeable across_visibility l m
               then (update_last (\<lambda>l. l\<lparr>m_content := m_content l @ m_content m\<rparr>) out,
                     issues @ [merge_issue m])
               else (out @ [m], issues)
           | None \<Rightarrow> (out @ [m], issues)))"

definition merge_consecutive :: "Message list \<Rightarrow> bool \<Rightarrow> fixed" where
  "merge_consecutive ms across_visibility = fold (merge_step across_visibility) ms ([], [])"

definition merge_consecutive_messages :: "Message list \<Rightarrow> fixed" where
  "merge_consecutive_messages ms = merge_consecutive ms False"

definition merge_consecutive_messages_for_request :: "Message list \<Rightarrow> Message list" where
  "merge_consecutive_messages_for_request ms = fst (merge_consecutive ms True)"

fun is_signed_thinking :: "MessageContentBlock \<Rightarrow> bool" where
  "is_signed_thinking (Thinking t) = (th_signature t \<noteq> [])"
| "is_signed_thinking (RedactedThinking _) = True"
| "is_signed_thinking _ = False"

fun dedupe_content ::
  "MessageContentBlock list \<Rightarrow> MessageContentBlock list \<Rightarrow> MessageContentBlock list \<times> MessageContentBlock list"
where
  "dedupe_content seen [] = ([], seen)"
| "dedupe_content seen (b # bs) =
     (if is_signed_thinking b \<and> b \<in> set seen then dedupe_content seen bs
      else (case dedupe_content (if is_signed_thinking b then seen @ [b] else seen) bs of
              (kept, seen') \<Rightarrow> (b # kept, seen')))"

fun dedupe_messages ::
  "MessageContentBlock list \<Rightarrow> Message list \<Rightarrow> fixed" where
  "dedupe_messages seen [] = ([], [])"
| "dedupe_messages seen (m # ms) =
     (if m_role m \<noteq> Assistant
      then (case dedupe_messages seen ms of (ms', issues) \<Rightarrow> (m # ms', issues))
      else (case dedupe_content seen (m_content m) of
              (kept, seen') \<Rightarrow>
                (case dedupe_messages seen' ms of
                   (ms', issues) \<Rightarrow>
                     if length kept \<noteq> length (m_content m)
                     then (m\<lparr>m_content := kept\<rparr> # ms', ''Removed duplicate signed thinking block'' # issues)
                     else (m # ms', issues))))"

definition dedupe_signed_thinking :: "Message list \<Rightarrow> fixed" where
  "dedupe_signed_thinking ms = dedupe_messages [] ms"

definition fix_lead_trail :: "Message list \<Rightarrow> fixed" where
  "fix_lead_trail ms =
     (let (ms1, issues1) =
        (case first_opt ms of
           Some f \<Rightarrow> if m_role f = Assistant then (tl ms, [''Removed leading assistant message'']) else (ms, [])
         | None \<Rightarrow> (ms, []))
      in (case last_opt ms1 of
            Some l \<Rightarrow>
              if m_role l = Assistant
              then (butlast ms1, issues1 @ [''Removed trailing assistant message''])
              else (ms1, issues1)
          | None \<Rightarrow> (ms1, issues1)))"

definition PLACEHOLDER_USER_MESSAGE :: string where
  "PLACEHOLDER_USER_MESSAGE = ''Hello''"

definition populate_if_empty :: "ext \<Rightarrow> int \<Rightarrow> Message list \<Rightarrow> fixed" where
  "populate_if_empty E now ms =
     (if ms = []
      then (ms @ [with_text E (Message_user now) PLACEHOLDER_USER_MESSAGE],
            [''Added placeholder user message to empty conversation''])
      else (ms, []))"

definition processors :: "ext \<Rightarrow> int \<Rightarrow> (Message list \<Rightarrow> fixed) list" where
  "processors E now =
     [merge_text_content_items,
      trim_assistant_text_whitespace,
      remove_empty_messages,
      fix_empty_tool_results E,
      fix_tool_calling,
      merge_consecutive_messages,
      dedupe_signed_thinking,
      fix_lead_trail,
      populate_if_empty E now]"

definition run_processor :: "(Message list \<Rightarrow> fixed) \<Rightarrow> fixed \<Rightarrow> fixed" where
  "run_processor processor st =
     (case st of (msgs, all_issues) \<Rightarrow>
        (case processor msgs of (new_msgs, issues) \<Rightarrow> (new_msgs, all_issues @ issues)))"

definition fix_messages :: "ext \<Rightarrow> int \<Rightarrow> Message list \<Rightarrow> fixed" where
  "fix_messages E now ms = fold run_processor (processors E now) (ms, [])"

text \<open>\<open>Conversation::new\<close> accepts the messages in which the pipeline finds no issue.\<close>

definition Conversation_new :: "ext \<Rightarrow> int \<Rightarrow> Message list \<Rightarrow> (string \<times> Conversation) + Conversation" where
  "Conversation_new E now ms =
     (case fix_messages E now ms of
        (_, issues) \<Rightarrow> if issues \<noteq> [] then Inl (str_join nl issues, ms) else Inr ms)"

datatype MessageSlot = Visible nat | NonVisible Message

fun shadow_map :: "nat \<Rightarrow> Message list \<Rightarrow> MessageSlot list" where
  "shadow_map n [] = []"
| "shadow_map n (m # ms) =
     (if agent_visible (m_metadata m) then Visible n # shadow_map (Suc n) ms
      else NonVisible m # shadow_map n ms)"

definition fill_slot :: "Message list \<Rightarrow> MessageSlot \<Rightarrow> Message option" where
  "fill_slot fixed_visible slot =
     (case slot of Visible idx \<Rightarrow> list_get fixed_visible idx | NonVisible m \<Rightarrow> Some m)"

definition fix_conversation :: "ext \<Rightarrow> int \<Rightarrow> Conversation \<Rightarrow> Conversation \<times> string list" where
  "fix_conversation E now c =
     (let visible = filter (\<lambda>m. agent_visible (m_metadata m)) c
      in case fix_messages E now visible of
           (fixed_visible, issues) \<Rightarrow>
             (filter_map (fill_slot fixed_visible) (shadow_map 0 c), issues))"

subsection \<open>Merging text blocks\<close>

lemma push_merging_text_cases:
  "push_merging_text b cs = cs @ [b] \<or> length (push_merging_text b cs) = length cs"
proof (cases "last_opt cs")
  case (Some l)
  then have "cs \<noteq> []" by (auto simp: last_opt_def)
  then show ?thesis
    by (auto simp: push_merging_text_def Some split: MessageContentBlock.splits)
qed (auto simp: push_merging_text_def split: MessageContentBlock.splits)

lemma fold_push_merging_text:
  "length (fold push_merging_text bs cs) \<le> length cs + length bs \<and>
   (length (fold push_merging_text bs cs) = length cs + length bs \<longrightarrow>
      fold push_merging_text bs cs = cs @ bs)"
proof (induction bs arbitrary: cs)
  case (Cons b bs)
  show ?case
    using push_merging_text_cases [of b cs] Cons.IH [of "push_merging_text b cs"] by auto
qed simp

lemma merge_text_content_unchanged:
  "length (m_content (merge_text_content_in_message m)) = length (m_content m) \<Longrightarrow>
   merge_text_content_in_message m = m"
  using fold_push_merging_text [of "m_content m" "[]"]
  by (auto simp: merge_text_content_in_message_def split: if_splits)

lemma merge_text_content_items_eq:
  "merge_text_content_items ms =
     (map merge_text_content_in_message ms,
      map (\<lambda>_. ''Merged text content'')
        (filter (\<lambda>m. length (m_content m) \<noteq> length (m_content (merge_text_content_in_message m))) ms))"
proof -
  have "fold (\<lambda>m (out, issues).
       let m' = merge_text_content_in_message m
       in (out @ [m'],
           if length (m_content m) \<noteq> length (m_content m')
           then issues @ [''Merged text content''] else issues)) ms (out, issues) =
     (out @ map merge_text_content_in_message ms,
      issues @ map (\<lambda>_. ''Merged text content'')
        (filter (\<lambda>m. length (m_content m) \<noteq> length (m_content (merge_text_content_in_message m))) ms))"
    for out issues
    by (induction ms arbitrary: out issues) (auto simp: Let_def)
  then show ?thesis by (simp add: merge_text_content_items_def)
qed

subsection \<open>The contract of a processor\<close>

text \<open>
  Every processor of the pipeline keeps three promises: it reports an issue whenever it changes the
  messages, it gives no message metadata that no message had (the default of the placeholder
  apart), and it adds at most the placeholder.
\<close>

locale repair_processor =
  fixes process :: "Message list \<Rightarrow> fixed"
  assumes quiet: "snd (process ms) = [] \<Longrightarrow> fst (process ms) = ms"
    and keeps_metadata:
      "(\<And>m. m \<in> set ms \<Longrightarrow> Q (m_metadata m)) \<Longrightarrow> Q MessageMetadata_default \<Longrightarrow>
       m' \<in> set (fst (process ms)) \<Longrightarrow> Q (m_metadata m')"
    and length_bound: "length (fst (process ms)) \<le> max 1 (length ms)"
begin

lemma quiet_run:
  "snd (run_processor process st) = [] \<Longrightarrow> snd st = [] \<and> process (fst st) = (fst st, [])"
  using quiet [of "fst st"]
  by (cases st) (auto simp: run_processor_def split: prod.splits)

lemma run_metadata:
  "(\<And>m. m \<in> set (fst st) \<Longrightarrow> Q (m_metadata m)) \<Longrightarrow> Q MessageMetadata_default \<Longrightarrow>
   m' \<in> set (fst (run_processor process st)) \<Longrightarrow> Q (m_metadata m')"
  using keeps_metadata [of "fst st" Q]
  by (cases st) (fastforce simp: run_processor_def split: prod.splits)

lemma run_length: "length (fst (run_processor process st)) \<le> max 1 (length (fst st))"
  using length_bound [of "fst st"]
  by (cases st) (auto simp: run_processor_def split: prod.splits)

end

text \<open>The promises of the processors give the same promises for the whole fold.\<close>

lemma fold_processors_quiet:
  assumes "\<And>f. f \<in> set fs \<Longrightarrow> repair_processor f"
    and "snd (fold run_processor fs st) = []"
  shows "snd st = [] \<and> (\<forall>f \<in> set fs. f (fst st) = (fst st, [])) \<and>
         fst (fold run_processor fs st) = fst st"
  using assms
proof (induction fs arbitrary: st)
  case (Cons f fs)
  from Cons.prems(1) have f: "repair_processor f" by simp
  from Cons.IH [of "run_processor f st"] Cons.prems
  have IH: "snd (run_processor f st) = []"
      "\<forall>g \<in> set fs. g (fst (run_processor f st)) = (fst (run_processor f st), [])"
      "fst (fold run_processor fs (run_processor f st)) = fst (run_processor f st)"
    by auto
  from repair_processor.quiet_run [OF f IH(1)]
  have "snd st = []" "f (fst st) = (fst st, [])" by auto
  moreover from this have "fst (run_processor f st) = fst st"
    by (cases st) (simp add: run_processor_def)
  ultimately show ?case using IH by simp
qed simp

lemma fold_processors_metadata:
  assumes "\<And>f. f \<in> set fs \<Longrightarrow> repair_processor f"
    and "\<And>m. m \<in> set (fst st) \<Longrightarrow> Q (m_metadata m)"
    and "Q MessageMetadata_default"
    and "m' \<in> set (fst (fold run_processor fs st))"
  shows "Q (m_metadata m')"
  using assms
proof (induction fs arbitrary: st)
  case (Cons f fs)
  show ?case
  proof (rule Cons.IH [of "run_processor f st"])
    show "Q (m_metadata m)" if "m \<in> set (fst (run_processor f st))" for m
      using repair_processor.run_metadata [of f st Q m] Cons.prems(1,2,3) that by simp
  qed (use Cons.prems in auto)
qed simp

lemma fold_processors_length:
  assumes "\<And>f. f \<in> set fs \<Longrightarrow> repair_processor f"
  shows "length (fst (fold run_processor fs st)) \<le> max 1 (length (fst st))"
  using assms
proof (induction fs arbitrary: st)
  case (Cons f fs)
  have "length (fst (run_processor f st)) \<le> max 1 (length (fst st))"
    using repair_processor.run_length [of f] Cons.prems by simp
  with Cons.IH [of "run_processor f st"] Cons.prems show ?case by auto
qed simp

subsection \<open>Each processor keeps the contract\<close>

interpretation merge_text: repair_processor merge_text_content_items
proof
  fix ms
  assume "snd (merge_text_content_items ms) = []"
  then have "\<forall>m \<in> set ms. merge_text_content_in_message m = m"
    by (auto simp: merge_text_content_items_eq filter_empty_conv intro: merge_text_content_unchanged)
  then show "fst (merge_text_content_items ms) = ms"
    by (simp add: merge_text_content_items_eq map_idI)
qed (auto simp: merge_text_content_items_eq merge_text_content_in_message_def)

lemma map_quiet:
  "(\<And>b. snd (f b) = [] \<Longrightarrow> fst (f b) = b) \<Longrightarrow> \<forall>b \<in> set bs. snd (f b) = [] \<Longrightarrow>
   map (fst \<circ> f) bs = bs"
  by (simp add: map_idI)

lemma trim_block_quiet: "snd (trim_block b) = [] \<Longrightarrow> fst (trim_block b) = b"
  by (cases b) (auto split: if_splits)

interpretation trim: repair_processor trim_assistant_text_whitespace
proof
  fix ms
  assume "snd (trim_assistant_text_whitespace ms) = []"
  then have "fst (trim_message m) = m" if "m \<in> set ms" for m
    using that
    using map_quiet [of trim_block "m_content m"] trim_block_quiet
    by (auto simp: trim_assistant_text_whitespace_def trim_message_def)
  then show "fst (trim_assistant_text_whitespace ms) = ms"
    by (simp add: trim_assistant_text_whitespace_def map_idI)
qed (auto simp: trim_assistant_text_whitespace_def trim_message_def)

interpretation remove_empty: repair_processor remove_empty_messages
proof
  fix ms
  show "snd (remove_empty_messages ms) = [] \<Longrightarrow> fst (remove_empty_messages ms) = ms"
    by (auto simp: remove_empty_messages_def filter_empty_conv filter_id_conv)
  show "length (fst (remove_empty_messages ms)) \<le> max 1 (length ms)"
    by (simp add: remove_empty_messages_def le_max_iff_disj)
qed (auto simp: remove_empty_messages_def)

lemma fill_tool_result_quiet: "snd (fill_tool_result E b) = [] \<Longrightarrow> fst (fill_tool_result E b) = b"
  by (cases b) (auto split: if_splits sum.splits)

interpretation fill_results: repair_processor "fix_empty_tool_results E" for E
proof
  fix ms
  assume "snd (fix_empty_tool_results E ms) = []"
  then have "\<forall>m \<in> set ms. map (fst \<circ> fill_tool_result E) (m_content m) = m_content m"
    by (auto simp: fix_empty_tool_results_def fill_tool_result_quiet intro!: map_idI)
  then show "fst (fix_empty_tool_results E ms) = ms"
    by (auto simp: fix_empty_tool_results_def intro!: map_idI)
qed (auto simp: fix_empty_tool_results_def)

lemma scan_content_quiet:
  "scan_content r P bs = (kept, [], P') \<Longrightarrow> kept = bs"
  by (induction bs arbitrary: P kept P')
    (auto split: prod.splits option.splits)

lemma scan_messages_quiet:
  "scan_messages P ms = (ms', [], P') \<Longrightarrow> ms' = ms"
  by (induction ms arbitrary: P ms' P')
    (auto split: prod.splits dest!: scan_content_quiet)

lemma scan_messages_shape:
  "scan_messages P ms = (ms', iss, P') \<Longrightarrow>
     map m_metadata ms' = map m_metadata ms \<and> map m_role ms' = map m_role ms"
  by (induction ms arbitrary: P ms' iss P') (auto split: prod.splits)

lemma orphan_issue_None: "orphan_issue P b = None \<longleftrightarrow> \<not> orphan_request P b"
  by (cases b) (auto simp: orphan_request_def)

lemma orphan_issues_quiet:
  "filter_map (orphan_issue P) bs = [] \<Longrightarrow> filter (\<lambda>b. \<not> orphan_request P b) bs = bs"
  by (induction bs) (auto simp: orphan_issue_None [symmetric] split: option.splits)

lemma drop_orphan_requests_quiet:
  "snd (drop_orphan_requests P m) = [] \<Longrightarrow> fst (drop_orphan_requests P m) = m"
  by (simp add: drop_orphan_requests_def orphan_issues_quiet split: if_splits)

interpretation tool_calling: repair_processor fix_tool_calling
proof
  fix ms
  assume q: "snd (fix_tool_calling ms) = []"
  obtain ms1 iss P where s: "scan_messages {} ms = (ms1, iss, P)" by (metis prod_cases3)
  let ?ms2 = "map (fst \<circ> drop_orphan_requests P) ms1"
  from q have "iss = []" "\<forall>m \<in> set ms1. snd (drop_orphan_requests P m) = []"
      "snd (remove_empty_messages ?ms2) = []"
    by (auto simp: fix_tool_calling_def s Let_def)
  moreover from this have "ms1 = ms" using s scan_messages_quiet by blast
  moreover from calculation have "?ms2 = ms1"
    using map_quiet [of "drop_orphan_requests P" ms1] drop_orphan_requests_quiet by blast
  ultimately show "fst (fix_tool_calling ms) = ms"
    using remove_empty.quiet [of ?ms2] by (simp add: fix_tool_calling_def s Let_def)
next
  fix ms Q m'
  assume vis: "\<And>m. m \<in> set ms \<Longrightarrow> Q (m_metadata m)"
    and m': "m' \<in> set (fst (fix_tool_calling ms))"
  obtain ms1 iss P where s: "scan_messages {} ms = (ms1, iss, P)" by (metis prod_cases3)
  from m' have "m_metadata m' \<in> m_metadata ` set ms1"
    by (auto simp: fix_tool_calling_def s Let_def remove_empty_messages_def
        drop_orphan_requests_def split: if_splits)
  also from scan_messages_shape [OF s] have "m_metadata ` set ms1 = m_metadata ` set ms"
    by (metis list.set_map)
  finally show "Q (m_metadata m')" using vis by auto
next
  fix ms
  obtain ms1 iss P where s: "scan_messages {} ms = (ms1, iss, P)" by (metis prod_cases3)
  from scan_messages_shape [OF s] have "length ms1 = length ms" by (metis length_map)
  then show "length (fst (fix_tool_calling ms)) \<le> max 1 (length ms)"
    using length_filter_le [of "\<lambda>m. \<not> is_empty_message m" "map (fst \<circ> drop_orphan_requests P) ms1"]
    by (simp add: fix_tool_calling_def s Let_def remove_empty_messages_def le_max_iff_disj)
qed

subsection \<open>Merging consecutive messages\<close>

text \<open>A step either appends its message or merges it into the last one and says so.\<close>

lemma merge_step_cases:
  obtains (append) "merge_step a m (out, iss) = (out @ [m], iss)"
      "\<And>l. last_opt out = Some l \<Longrightarrow> \<not> mergeable a l m"
  | (merge) l where "last_opt out = Some l" "mergeable a l m"
      "merge_step a m (out, iss) =
         (butlast out @ [l\<lparr>m_content := m_content l @ m_content m\<rparr>],
          iss @ [merge_issue m])"
proof (cases "last_opt out")
  case None
  then show ?thesis using append by (simp add: merge_step_def)
next
  case (Some l)
  obtain ys where "out = ys @ [l]" using last_opt_SomeD [OF Some] by (rule exE)
  with Some show ?thesis using append merge [of l]
    by (cases "mergeable a l m") (simp_all add: merge_step_def)
qed

lemma merge_fold_quiet:
  "fold (merge_step a) ms (out, iss) = (out', iss') \<Longrightarrow>
   \<exists>d. iss' = iss @ d \<and> (d = [] \<longrightarrow> out' = out @ ms)"
proof (induction ms arbitrary: out iss)
  case (Cons m ms)
  show ?case
  proof (cases rule: merge_step_cases [of a m out iss])
    case append
    with Cons.prems Cons.IH [of "out @ [m]" iss] show ?thesis by simp
  next
    case (merge l)
    with Cons.prems obtain d where "iss' = (iss @ [merge_issue m]) @ d"
      using Cons.IH by fastforce
    then show ?thesis by (intro exI [of _ "merge_issue m # d"]) simp
  qed
qed simp

lemma merge_fold_metadata:
  "fold (merge_step a) ms (out, iss) = (out', iss') \<Longrightarrow>
   m_metadata ` set out' \<subseteq> m_metadata ` set out \<union> m_metadata ` set ms \<and>
   length out' \<le> length out + length ms"
proof (induction ms arbitrary: out iss)
  case (Cons m ms)
  show ?case
  proof (cases rule: merge_step_cases [of a m out iss])
    case append
    with Cons.prems Cons.IH [of "out @ [m]" iss] show ?thesis by auto
  next
    case (merge l)
    obtain ys where out: "out = ys @ [l]" using last_opt_SomeD [OF merge(1)] by (rule exE)
    let ?out1 = "ys @ [l\<lparr>m_content := m_content l @ m_content m\<rparr>]"
    from merge Cons.prems out
    have "fold (merge_step a) ms (?out1, iss @ [merge_issue m]) = (out', iss')" by simp
    from Cons.IH [OF this] show ?thesis by (simp add: out) blast
  qed
qed simp

interpretation merge_consecutive: repair_processor merge_consecutive_messages
proof
  fix ms
  obtain out iss where f: "fold (merge_step False) ms ([], []) = (out, iss)" by fastforce
  then have eq: "merge_consecutive_messages ms = (out, iss)"
    by (simp add: merge_consecutive_messages_def merge_consecutive_def)
  show "snd (merge_consecutive_messages ms) = [] \<Longrightarrow> fst (merge_consecutive_messages ms) = ms"
    using merge_fold_quiet [OF f] by (auto simp: eq)
  show "length (fst (merge_consecutive_messages ms)) \<le> max 1 (length ms)"
    using merge_fold_metadata [OF f] by (auto simp: eq)
  show "(\<And>m. m \<in> set ms \<Longrightarrow> Q (m_metadata m)) \<Longrightarrow> Q MessageMetadata_default \<Longrightarrow>
    m' \<in> set (fst (merge_consecutive_messages ms)) \<Longrightarrow> Q (m_metadata m')" for Q m'
    using merge_fold_metadata [OF f] by (auto simp: eq)
qed

subsection \<open>Signed thinking, ends, placeholder\<close>

lemma dedupe_content_length:
  "dedupe_content seen bs = (kept, seen') \<Longrightarrow>
     length kept \<le> length bs \<and> (length kept = length bs \<longrightarrow> kept = bs)"
proof (induction bs arbitrary: seen kept)
  case (Cons b bs)
  show ?case
  proof (cases "is_signed_thinking b \<and> b \<in> set seen")
    case True
    with Cons.prems Cons.IH [of seen kept] show ?thesis by auto
  next
    case False
    with Cons.prems obtain k where "kept = b # k"
        "dedupe_content (if is_signed_thinking b then seen @ [b] else seen) bs = (k, seen')"
      by (auto split: prod.splits)
    with Cons.IH show ?thesis by fastforce
  qed
qed simp

lemma dedupe_messages_quiet:
  "dedupe_messages seen ms = (ms', []) \<Longrightarrow> ms' = ms"
  by (induction ms arbitrary: seen ms') (auto split: if_splits prod.splits)

lemma dedupe_messages_shape:
  "dedupe_messages seen ms = (ms', iss) \<Longrightarrow>
     map m_metadata ms' = map m_metadata ms \<and> map m_role ms' = map m_role ms"
  by (induction ms arbitrary: seen ms' iss) (auto split: if_splits prod.splits)

interpretation dedupe: repair_processor dedupe_signed_thinking
proof
  fix ms
  obtain out iss where d: "dedupe_messages [] ms = (out, iss)" by fastforce
  note shape = dedupe_messages_shape [OF d]
  from shape have md: "m_metadata ` set out = m_metadata ` set ms" by (metis list.set_map)
  from shape have len: "length out = length ms" by (metis length_map)
  show "snd (dedupe_signed_thinking ms) = [] \<Longrightarrow> fst (dedupe_signed_thinking ms) = ms"
    using d dedupe_messages_quiet by (auto simp: dedupe_signed_thinking_def)
  show "length (fst (dedupe_signed_thinking ms)) \<le> max 1 (length ms)"
    using len by (simp add: dedupe_signed_thinking_def d)
  show "(\<And>m. m \<in> set ms \<Longrightarrow> Q (m_metadata m)) \<Longrightarrow> Q MessageMetadata_default \<Longrightarrow>
    m' \<in> set (fst (dedupe_signed_thinking ms)) \<Longrightarrow> Q (m_metadata m')" for Q m'
    using md by (simp add: dedupe_signed_thinking_def d) (metis image_iff)
qed

lemma fix_lead_trail_eq:
  "fix_lead_trail ms =
     (let lead = ms \<noteq> [] \<and> m_role (hd ms) = Assistant;
          ms1 = (if lead then tl ms else ms);
          trail = ms1 \<noteq> [] \<and> m_role (last ms1) = Assistant
      in (if trail then butlast ms1 else ms1,
          (if lead then [''Removed leading assistant message''] else []) @
          (if trail then [''Removed trailing assistant message''] else [])))"
  by (cases ms) (auto simp: fix_lead_trail_def last_opt_def Let_def)

interpretation lead_trail: repair_processor fix_lead_trail
proof
  fix ms
  show "snd (fix_lead_trail ms) = [] \<Longrightarrow> fst (fix_lead_trail ms) = ms"
    by (auto simp: fix_lead_trail_eq Let_def split: if_splits)
  show "length (fst (fix_lead_trail ms)) \<le> max 1 (length ms)"
    by (auto simp: fix_lead_trail_eq Let_def)
  show "(\<And>m. m \<in> set ms \<Longrightarrow> Q (m_metadata m)) \<Longrightarrow> Q MessageMetadata_default \<Longrightarrow>
    m' \<in> set (fst (fix_lead_trail ms)) \<Longrightarrow> Q (m_metadata m')" for Q m'
    by (auto simp: fix_lead_trail_eq Let_def dest!: in_set_butlastD list.set_sel(2)
        split: if_splits)
qed

lemma placeholder_simps [simp]:
  "m_role (with_text E (Message_user now) s) = User"
  "m_metadata (with_text E (Message_user now) s) = MessageMetadata_default"
  by (simp_all add: with_text_def with_content_def Message_user_def Message_new_def)

interpretation populate: repair_processor "populate_if_empty E now" for E now
  by unfold_locales (auto simp: populate_if_empty_def split: if_splits)

subsection \<open>The whole pipeline\<close>

lemma processors_contract: "f \<in> set (processors E now) \<Longrightarrow> repair_processor f"
  by (auto simp: processors_def merge_text.repair_processor_axioms trim.repair_processor_axioms
      remove_empty.repair_processor_axioms fill_results.repair_processor_axioms
      tool_calling.repair_processor_axioms merge_consecutive.repair_processor_axioms
      dedupe.repair_processor_axioms lead_trail.repair_processor_axioms
      populate.repair_processor_axioms)

text \<open>If the pipeline reports nothing, every processor left the messages alone.\<close>

lemma fix_messages_quiet:
  assumes "snd (fix_messages E now ms) = []"
  shows "fst (fix_messages E now ms) = ms" and "\<And>f. f \<in> set (processors E now) \<Longrightarrow> f ms = (ms, [])"
  using fold_processors_quiet [of "processors E now" "(ms, [])"] processors_contract assms
  by (auto simp: fix_messages_def)

lemma default_visible [simp]:
  "agent_visible MessageMetadata_default" "user_visible MessageMetadata_default"
  "\<not> turn_context MessageMetadata_default"
  by (simp_all add: MessageMetadata_default_def)

lemma fix_messages_visible:
  "(\<And>m. m \<in> set ms \<Longrightarrow> agent_visible (m_metadata m)) \<Longrightarrow>
   m' \<in> set (fst (fix_messages E now ms)) \<Longrightarrow> agent_visible (m_metadata m')"
  using fold_processors_metadata [of "processors E now" "(ms, [])" agent_visible m']
    processors_contract
  by (simp add: fix_messages_def)

lemma fix_messages_length: "length (fst (fix_messages E now ms)) \<le> max 1 (length ms)"
  using fold_processors_length [of "processors E now" "(ms, [])"] processors_contract
  by (simp add: fix_messages_def)

lemma fix_messages_nonempty: "fst (fix_messages E now ms) \<noteq> []"
  by (simp add: fix_messages_def processors_def run_processor_def populate_if_empty_def
      split: prod.splits)

subsection \<open>Reassembling visible and invisible messages\<close>

abbreviation visible :: "Message \<Rightarrow> bool" where
  "visible m \<equiv> agent_visible (m_metadata m)"

lemma shadow_map_fill:
  assumes "\<And>m. m \<in> set fv \<Longrightarrow> visible m"
  shows "filter visible (filter_map (fill_slot fv) (shadow_map n c)) =
           take (length (filter visible c)) (drop n fv) \<and>
         filter (\<lambda>m. \<not> visible m) (filter_map (fill_slot fv) (shadow_map n c)) =
           filter (\<lambda>m. \<not> visible m) c"
proof (induction c arbitrary: n)
  case (Cons m c)
  show ?case
  proof (cases "visible m \<and> n < length fv")
    case True
    then have "drop n fv = fv ! n # drop (Suc n) fv" by (simp add: Cons_nth_drop_Suc)
    moreover from True assms have "visible (fv ! n)" by simp
    ultimately show ?thesis using True Cons.IH by (simp add: fill_slot_def)
  next
    case False
    with Cons.IH [of n] Cons.IH [of "Suc n"] show ?thesis by (auto simp: fill_slot_def)
  qed
qed simp

lemma fix_conversation_parts:
  fixes c :: Conversation
  defines "v \<equiv> filter visible c"
  shows "filter visible (fst (fix_conversation E now c)) =
           take (length v) (fst (fix_messages E now v))"
    and "filter (\<lambda>m. \<not> visible m) (fst (fix_conversation E now c)) = filter (\<lambda>m. \<not> visible m) c"
proof -
  obtain fv iss where f: "fix_messages E now v = (fv, iss)" by fastforce
  have "visible m" if "m \<in> set fv" for m
  proof (rule fix_messages_visible [of v m E now])
    show "m \<in> set (fst (fix_messages E now v))" using that f by simp
  qed (simp add: v_def)
  from shadow_map_fill [OF this, of fv 0 c]
  show "filter visible (fst (fix_conversation E now c)) =
      take (length v) (fst (fix_messages E now v))"
    and "filter (\<lambda>m. \<not> visible m) (fst (fix_conversation E now c)) = filter (\<lambda>m. \<not> visible m) c"
    by (simp_all add: fix_conversation_def v_def [symmetric] f)
qed

lemma fix_conversation_issues:
  "snd (fix_conversation E now c) = snd (fix_messages E now (filter visible c))"
  by (simp add: fix_conversation_def split: prod.splits)

end
