(* ===== verification/Conversation_Spec.thy ===== *)
theory Conversation_Spec
  imports Conversation_Repair
begin

text \<open>
  The abstract specification of a conversation a provider accepts, stated without the pipeline:
  \<open>valid_conversation\<close>. The lemmas show, processor by processor, that a processor stays quiet exactly
  on the messages that satisfy its part of the specification, so that \<open>Conversation::new\<close> accepts
  exactly the valid conversations. The second half is about repairing arbitrary messages.
\<close>

subsection \<open>The specification\<close>

datatype tool_event = Req string | Resp string

fun block_event :: "Role \<Rightarrow> MessageContentBlock \<Rightarrow> tool_event option" where
  "block_event Assistant (ToolRequest r) = Some (Req (tr_id r))"
| "block_event User (ToolResponse r) = Some (Resp (tp_id r))"
| "block_event _ _ = None"

definition message_events :: "Message \<Rightarrow> tool_event list" where
  "message_events m = filter_map (block_event (m_role m)) (m_content m)"

definition tool_events :: "Message list \<Rightarrow> tool_event list" where
  "tool_events ms = concat (map message_events ms)"

text \<open>\<open>run_events P es\<close> is the set of requests outstanding after \<open>es\<close>, \<open>None\<close> if a response answers
  no outstanding request.\<close>

fun run_events :: "string set \<Rightarrow> tool_event list \<Rightarrow> string set option" where
  "run_events P [] = Some P"
| "run_events P (Req i # es) = run_events (insert i P) es"
| "run_events P (Resp i # es) = (if i \<in> P then run_events (P - {i}) es else None)"

fun well_placed :: "Role \<Rightarrow> MessageContentBlock \<Rightarrow> bool" where
  "well_placed User (ToolRequest _) = False"
| "well_placed User (ToolConfirmationRequest _) = False"
| "well_placed User (Thinking _) = False"
| "well_placed User (RedactedThinking _) = False"
| "well_placed Assistant (ToolResponse _) = False"
| "well_placed Assistant (FrontendToolRequest _) = False"
| "well_placed _ _ = True"

fun text_joins :: "MessageContentBlock \<Rightarrow> MessageContentBlock \<Rightarrow> bool" where
  "text_joins (Text l) (Text t) = (audience_of (tc_annotations l) = audience_of (tc_annotations t))"
| "text_joins _ _ = False"

fun trimmed :: "MessageContentBlock \<Rightarrow> bool" where
  "trimmed (Text t) = (trim_end (tc_text t) = tc_text t)"
| "trimmed _ = True"

fun filled :: "ext \<Rightarrow> MessageContentBlock \<Rightarrow> bool" where
  "filled E (ToolResponse r) =
     (case tp_tool_result r of Inl _ \<Rightarrow> True | Inr res \<Rightarrow> has_tool_result_content E (cr_content res))"
| "filled E _ = True"

definition valid_message :: "ext \<Rightarrow> Message \<Rightarrow> bool" where
  "valid_message E m =
     (\<not> is_empty_message m \<and>
      list_all (well_placed (m_role m)) (m_content m) \<and>
      list_all (filled E) (m_content m) \<and>
      (m_role m = Assistant \<longrightarrow>
         list_all trimmed (m_content m) \<and>
         successively (\<lambda>a b. \<not> text_joins a b) (m_content m)))"

definition signed_blocks :: "Message list \<Rightarrow> MessageContentBlock list" where
  "signed_blocks ms =
     concat (map (\<lambda>m. if m_role m = Assistant then filter is_signed_thinking (m_content m) else []) ms)"

definition valid_conversation :: "ext \<Rightarrow> Message list \<Rightarrow> bool" where
  "valid_conversation E ms =
     (ms \<noteq> [] \<and> m_role (hd ms) = User \<and> m_role (last ms) = User \<and>
      list_all (valid_message E) ms \<and>
      successively (\<lambda>a b. \<not> mergeable False a b) ms \<and>
      run_events {} (tool_events ms) = Some {} \<and>
      distinct (signed_blocks ms))"

subsection \<open>Outstanding requests, declaratively\<close>

lemma run_events_append:
  "run_events P (es @ fs) = Option.bind (run_events P es) (\<lambda>Q. run_events Q fs)"
  by (induction P es rule: run_events.induct) auto

lemma run_events_outstanding:
  "run_events P es = Some Q \<Longrightarrow>
   i \<in> Q \<longleftrightarrow> (i \<in> P \<and> Resp i \<notin> set es) \<or> (\<exists>us vs. es = us @ Req i # vs \<and> Resp i \<notin> set vs)"
proof (induction es arbitrary: P)
  case (Cons e es)
  show ?case
  proof (cases e)
    case (Req j)
    with Cons have "i \<in> Q \<longleftrightarrow> (i \<in> insert j P \<and> Resp i \<notin> set es) \<or>
        (\<exists>us vs. es = us @ Req i # vs \<and> Resp i \<notin> set vs)" by simp
    then show ?thesis using Req by (auto simp: Cons_eq_append_conv)
  next
    case (Resp j)
    with Cons.prems have r: "run_events (P - {j}) es = Some Q" by (simp split: if_splits)
    from Cons.IH [OF r] Resp show ?thesis by (auto simp: Cons_eq_append_conv)
  qed
qed simp

text \<open>In a run that ends with nothing outstanding every request is answered later, and every
  response answers an earlier request that no response in between has answered.\<close>

lemma run_events_request_answered:
  "run_events {} (us @ Req i # vs) = Some {} \<Longrightarrow> Resp i \<in> set vs"
  using run_events_outstanding [of "{}" "us @ Req i # vs" "{}" i] by blast

lemma run_events_response_answers:
  assumes "run_events {} (us @ Resp i # vs) = Some Q"
  shows "\<exists>xs ys. us = xs @ Req i # ys \<and> Resp i \<notin> set ys"
proof -
  from assms obtain P where P: "run_events {} us = Some P" "i \<in> P"
    by (auto simp: run_events_append bind_eq_Some_conv split: if_splits)
  then show ?thesis using run_events_outstanding [of "{}" us P i] by simp
qed

subsection \<open>Quiet processors\<close>

lemma scan_block_quiet:
  "scan_block r P b = (None, P') \<longleftrightarrow>
     well_placed r b \<and> run_events P (case block_event r b of None \<Rightarrow> [] | Some e \<Rightarrow> [e]) = Some P'"
  by (cases r; cases b) (auto simp: scan_block_def)

lemma scan_content_quiet_iff:
  "scan_content r P bs = (bs, [], P') \<longleftrightarrow>
     list_all (well_placed r) bs \<and> run_events P (filter_map (block_event r) bs) = Some P'"
proof (induction bs arbitrary: P)
  case (Cons b bs)
  obtain iss Q where s: "scan_block r P b = (iss, Q)" by fastforce
  show ?case
  proof (cases iss)
    case None
    with s have b: "well_placed r b"
        "run_events P (case block_event r b of None \<Rightarrow> [] | Some e \<Rightarrow> [e]) = Some Q"
      by (simp_all add: scan_block_quiet)
    then have "run_events P (filter_map (block_event r) (b # bs)) =
        run_events Q (filter_map (block_event r) bs)"
      using run_events_append [of P "case block_event r b of None \<Rightarrow> [] | Some e \<Rightarrow> [e]"]
      by (simp split: option.splits)
    with b show ?thesis using Cons.IH [of Q] s None
      by (auto split: prod.splits dest: scan_content_quiet)
  next
    case (Some x)
    then have "\<not> (well_placed r b \<and>
        (\<exists>P'. run_events P (case block_event r b of None \<Rightarrow> [] | Some e \<Rightarrow> [e]) = Some P'))"
      using s by (metis Pair_inject option.distinct(1) scan_block_quiet)
    then show ?thesis using s Some run_events_append
        [of P "case block_event r b of None \<Rightarrow> [] | Some e \<Rightarrow> [e]" "filter_map (block_event r) bs"]
      by (auto simp: bind_eq_Some_conv split: prod.splits option.splits)
  qed
qed simp

lemma scan_messages_quiet_iff:
  "scan_messages P ms = (ms, [], P') \<longleftrightarrow>
     list_all (\<lambda>m. list_all (well_placed (m_role m)) (m_content m)) ms \<and>
     run_events P (tool_events ms) = Some P'"
proof (induction ms arbitrary: P)
  case (Cons m ms)
  obtain kept iss Q where s: "scan_content (m_role m) P (m_content m) = (kept, iss, Q)"
    by (metis prod_cases3)
  show ?case
  proof (cases "iss = []")
    case True
    with s have "kept = m_content m" by (simp add: scan_content_quiet)
    with s True have b: "list_all (well_placed (m_role m)) (m_content m)"
        "run_events P (message_events m) = Some Q"
      by (simp_all add: scan_content_quiet_iff message_events_def)
    from \<open>kept = m_content m\<close> b show ?thesis using Cons.IH [of Q] s True
      by (auto simp: tool_events_def run_events_append split: prod.splits dest: scan_messages_quiet)
  next
    case False
    with s have "\<not> (list_all (well_placed (m_role m)) (m_content m) \<and>
        (\<exists>P'. run_events P (message_events m) = Some P'))"
      unfolding message_events_def by (metis Pair_inject scan_content_quiet_iff)
    then show ?thesis using s False
      by (auto simp: tool_events_def run_events_append bind_eq_Some_conv split: prod.splits)
  qed
qed (simp add: tool_events_def)

lemma run_events_subset:
  "run_events P es = Some Q \<Longrightarrow> Q \<subseteq> P \<union> {i. Req i \<in> set es}"
  by (induction P es rule: run_events.induct) (auto split: if_splits)

lemma Req_in_tool_events:
  "Req i \<in> set (tool_events ms) \<longleftrightarrow>
     (\<exists>m \<in> set ms. m_role m = Assistant \<and> (\<exists>r. ToolRequest r \<in> set (m_content m) \<and> tr_id r = i))"
proof -
  have "block_event r b = Some (Req i) \<longleftrightarrow> r = Assistant \<and> (\<exists>x. b = ToolRequest x \<and> tr_id x = i)" for r b
    by (cases r; cases b) auto
  then show ?thesis
    by (fastforce simp: tool_events_def message_events_def set_filter_map)
qed

lemma drop_orphans_quiet_iff:
  "(\<forall>m \<in> set ms. snd (drop_orphan_requests P m) = []) \<longleftrightarrow> (\<forall>i \<in> P. Req i \<notin> set (tool_events ms))"
proof -
  have "filter_map (orphan_issue P) bs = [] \<longleftrightarrow> (\<forall>r. ToolRequest r \<in> set bs \<longrightarrow> tr_id r \<notin> P)" for bs
  proof (induction bs)
    case (Cons b bs)
    then show ?case by (cases b) auto
  qed simp
  then show ?thesis
    by (auto simp: drop_orphan_requests_def Req_in_tool_events)
qed

lemma fix_tool_calling_quiet_iff:
  "fix_tool_calling ms = (ms, []) \<longleftrightarrow>
     list_all (\<lambda>m. \<not> is_empty_message m) ms \<and>
     list_all (\<lambda>m. list_all (well_placed (m_role m)) (m_content m)) ms \<and>
     run_events {} (tool_events ms) = Some {}"
proof
  assume q: "fix_tool_calling ms = (ms, [])"
  obtain ms1 iss P where s: "scan_messages {} ms = (ms1, iss, P)" by (metis prod_cases3)
  let ?ms2 = "map (fst \<circ> drop_orphan_requests P) ms1"
  from q have iss: "iss = []" and o: "\<forall>m \<in> set ms1. snd (drop_orphan_requests P m) = []"
      and e: "snd (remove_empty_messages ?ms2) = []"
    by (auto simp: fix_tool_calling_def s Let_def)
  from s iss have ms1: "ms1 = ms" by (simp add: scan_messages_quiet)
  from o have "?ms2 = ms1"
    using map_quiet [of "drop_orphan_requests P" ms1] drop_orphan_requests_quiet by blast
  with e ms1 have "snd (remove_empty_messages ms) = []" by metis
  then have "list_all (\<lambda>m. \<not> is_empty_message m) ms"
    by (auto simp: remove_empty_messages_def filter_empty_conv list_all_iff)
  moreover from s iss ms1
  have r: "list_all (\<lambda>m. list_all (well_placed (m_role m)) (m_content m)) ms"
      "run_events {} (tool_events ms) = Some P"
    by (simp_all add: scan_messages_quiet_iff)
  moreover from o ms1 run_events_subset [OF r(2)] have "P = {}"
    by (auto simp: drop_orphans_quiet_iff)
  ultimately show "list_all (\<lambda>m. \<not> is_empty_message m) ms \<and>
     list_all (\<lambda>m. list_all (well_placed (m_role m)) (m_content m)) ms \<and>
     run_events {} (tool_events ms) = Some {}" by simp
next
  assume a: "list_all (\<lambda>m. \<not> is_empty_message m) ms \<and>
     list_all (\<lambda>m. list_all (well_placed (m_role m)) (m_content m)) ms \<and>
     run_events {} (tool_events ms) = Some {}"
  then have s: "scan_messages {} ms = (ms, [], {})" by (simp add: scan_messages_quiet_iff)
  have o: "\<forall>m \<in> set ms. snd (drop_orphan_requests {} m) = []"
    by (simp add: drop_orphans_quiet_iff)
  then have d: "map (fst \<circ> drop_orphan_requests {}) ms = ms"
    using map_quiet [of "drop_orphan_requests {}" ms] drop_orphan_requests_quiet by blast
  from a have "remove_empty_messages ms = (ms, [])"
    by (auto simp: remove_empty_messages_def list_all_iff filter_empty_conv filter_id_conv)
  with s o d show "fix_tool_calling ms = (ms, [])" by (simp add: fix_tool_calling_def)
qed

lemma remove_empty_quiet_iff:
  "remove_empty_messages ms = (ms, []) \<longleftrightarrow> list_all (\<lambda>m. \<not> is_empty_message m) ms"
  by (auto simp: remove_empty_messages_def list_all_iff filter_empty_conv filter_id_conv)

lemma push_merging_text_appends:
  "push_merging_text b cs = cs @ [b] \<longleftrightarrow> (\<forall>l. last_opt cs = Some l \<longrightarrow> \<not> text_joins l b)"
proof (cases "last_opt cs")
  case (Some l)
  obtain ys where cs: "cs = ys @ [l]" using last_opt_SomeD [OF Some] by (rule exE)
  show ?thesis by (cases b; cases l) (simp_all add: push_merging_text_def cs)
qed (simp add: push_merging_text_def split: MessageContentBlock.splits)

lemma successively_append_last:
  "successively P (xs @ [x]) \<longleftrightarrow> successively P xs \<and> (\<forall>l. last_opt xs = Some l \<longrightarrow> P l x)"
  by (cases xs rule: rev_cases) (auto simp: successively_append_iff)

lemma fold_push_merging_text_quiet:
  assumes "successively (\<lambda>a b. \<not> text_joins a b) cs"
  shows "fold push_merging_text bs cs = cs @ bs \<longleftrightarrow>
     successively (\<lambda>a b. \<not> text_joins a b) (cs @ bs)"
  using assms
proof (induction bs arbitrary: cs)
  case (Cons b bs)
  show ?case
  proof (cases "push_merging_text b cs = cs @ [b]")
    case True
    then have "successively (\<lambda>a b. \<not> text_joins a b) (cs @ [b])"
      using Cons.prems by (simp add: successively_append_last push_merging_text_appends)
    from Cons.IH [OF this] True show ?thesis by simp
  next
    case False
    with push_merging_text_cases [of b cs]
    have "length (push_merging_text b cs) = length cs" by blast
    with fold_push_merging_text [of bs "push_merging_text b cs"]
    have "length (fold push_merging_text (b # bs) cs) \<le> length cs + length bs" by simp
    moreover from False have "\<not> successively (\<lambda>a b. \<not> text_joins a b) (cs @ [b])"
      by (auto simp: successively_append_last push_merging_text_appends)
    ultimately show ?thesis
      by (metis append.assoc append_Cons append_Nil impossible_Cons length_append length_Cons
          nat_add_left_cancel_le not_less_eq_eq order_refl successively_append_iff)
  qed
qed simp

lemma merge_text_quiet_iff:
  "merge_text_content_items ms = (ms, []) \<longleftrightarrow>
     list_all (\<lambda>m. m_role m = Assistant \<longrightarrow> successively (\<lambda>a b. \<not> text_joins a b) (m_content m)) ms"
proof -
  have "merge_text_content_in_message m = m \<longleftrightarrow>
      (m_role m = Assistant \<longrightarrow> successively (\<lambda>a b. \<not> text_joins a b) (m_content m))" for m
    using fold_push_merging_text_quiet [of "[]" "m_content m"]
    by (cases m) (auto simp: merge_text_content_in_message_def)
  moreover have "merge_text_content_items ms = (ms, []) \<longleftrightarrow>
      (\<forall>m \<in> set ms. merge_text_content_in_message m = m)"
    by (auto simp: merge_text_content_items_eq map_eq_self filter_empty_conv)
  ultimately show ?thesis by (simp add: list_all_iff)
qed

lemma trim_quiet_iff:
  "trim_assistant_text_whitespace ms = (ms, []) \<longleftrightarrow>
     list_all (\<lambda>m. m_role m = Assistant \<longrightarrow> list_all trimmed (m_content m)) ms"
proof -
  have b: "snd (trim_block b) = [] \<longleftrightarrow> trimmed b" for b
    by (cases b) (auto simp: trim_end_same_length)
  then have m: "snd (trim_message m) = [] \<longleftrightarrow>
      (m_role m = Assistant \<longrightarrow> list_all trimmed (m_content m))" for m
    by (auto simp: trim_message_def list_all_iff)
  have "trim_assistant_text_whitespace ms = (ms, []) \<longleftrightarrow> snd (trim_assistant_text_whitespace ms) = []"
    using trim.quiet [of ms] by (auto simp: prod_eq_iff)
  also have "\<dots> \<longleftrightarrow> (\<forall>x \<in> set ms. snd (trim_message x) = [])"
    by (auto simp: trim_assistant_text_whitespace_def)
  finally show ?thesis by (simp add: m list_all_iff)
qed

lemma fill_quiet_iff:
  "fix_empty_tool_results E ms = (ms, []) \<longleftrightarrow> list_all (\<lambda>m. list_all (filled E) (m_content m)) ms"
proof -
  have b: "snd (fill_tool_result E b) = [] \<longleftrightarrow> filled E b" for b
    by (cases b) (auto split: sum.splits)
  have "fix_empty_tool_results E ms = (ms, []) \<longleftrightarrow> snd (fix_empty_tool_results E ms) = []"
    using fill_results.quiet [of E ms] by (auto simp: prod_eq_iff)
  also have "\<dots> \<longleftrightarrow> (\<forall>m \<in> set ms. \<forall>x \<in> set (m_content m). snd (fill_tool_result E x) = [])"
    by (auto simp: fix_empty_tool_results_def)
  finally show ?thesis by (simp add: b list_all_iff)
qed

lemma merge_fold_quiet_iff:
  "successively (\<lambda>x y. \<not> mergeable a x y) out \<Longrightarrow>
   snd (fold (merge_step a) ms (out, iss)) = iss \<longleftrightarrow>
     successively (\<lambda>x y. \<not> mergeable a x y) (out @ ms)"
proof (induction ms arbitrary: out)
  case (Cons m ms)
  show ?case
  proof (cases rule: merge_step_cases [of a m out iss])
    case append
    with Cons.prems have "successively (\<lambda>x y. \<not> mergeable a x y) (out @ [m])"
      by (simp add: successively_append_last)
    from Cons.IH [OF this] append show ?thesis by simp
  next
    case (merge l)
    obtain out' iss' where f: "fold (merge_step a) (m # ms) (out, iss) = (out', iss')" by fastforce
    with merge have "fold (merge_step a) ms
        (butlast out @ [l\<lparr>m_content := m_content l @ m_content m\<rparr>], iss @ [merge_issue m]) = (out', iss')"
      by simp
    from merge_fold_quiet [OF this] have "iss' \<noteq> iss" by auto
    moreover from merge have "\<not> successively (\<lambda>x y. \<not> mergeable a x y) (out @ [m])"
      by (auto simp: successively_append_last)
    then have "\<not> successively (\<lambda>x y. \<not> mergeable a x y) (out @ m # ms)"
      by (metis append.assoc append_Cons append_Nil successively_append_iff)
    ultimately show ?thesis by (simp only: f snd_conv)
  qed
qed simp

lemma merge_consecutive_quiet_iff:
  "merge_consecutive_messages ms = (ms, []) \<longleftrightarrow> successively (\<lambda>x y. \<not> mergeable False x y) ms"
  using merge_fold_quiet_iff [of False "[]" ms "[]"] merge_consecutive.quiet [of ms]
  by (auto simp: merge_consecutive_messages_def merge_consecutive_def prod_eq_iff)

lemma dedupe_content_quiet_iff:
  "distinct seen \<Longrightarrow>
   fst (dedupe_content seen bs) = bs \<longleftrightarrow> distinct (seen @ filter is_signed_thinking bs)"
proof (induction bs arbitrary: seen)
  case (Cons b bs)
  show ?case
  proof (cases "is_signed_thinking b \<and> b \<in> set seen")
    case True
    obtain kept seen' where d: "dedupe_content seen bs = (kept, seen')" by fastforce
    from dedupe_content_length [OF d] have "kept \<noteq> b # bs" by auto
    with True d show ?thesis by auto
  next
    case False
    let ?seen = "if is_signed_thinking b then seen @ [b] else seen"
    from False Cons.prems have "distinct ?seen" by auto
    from Cons.IH [OF this] False show ?thesis by (auto split: prod.splits)
  qed
qed simp

lemma dedupe_content_seen:
  "snd (dedupe_content seen bs) = seen @ filter is_signed_thinking (fst (dedupe_content seen bs))"
  by (induction bs arbitrary: seen) (auto simp: case_prod_beta)

lemma signed_blocks_simps [simp]:
  "signed_blocks [] = []"
  "signed_blocks (m # ms) =
     (if m_role m = Assistant then filter is_signed_thinking (m_content m) else []) @ signed_blocks ms"
  by (simp_all add: signed_blocks_def)

lemma dedupe_messages_quiet_iff:
  "distinct seen \<Longrightarrow>
   snd (dedupe_messages seen ms) = [] \<longleftrightarrow> distinct (seen @ signed_blocks ms)"
proof (induction ms arbitrary: seen)
  case (Cons m ms)
  show ?case
  proof (cases "m_role m = Assistant")
    case True
    obtain kept seen' where d: "dedupe_content seen (m_content m) = (kept, seen')" by fastforce
    note len = dedupe_content_length [OF d]
    note seen = dedupe_content_seen [of seen "m_content m", unfolded d, simplified]
    show ?thesis
    proof (cases "kept = m_content m")
      case kept: True
      with dedupe_content_quiet_iff [OF Cons.prems, of "m_content m"] d
      have "distinct (seen @ filter is_signed_thinking (m_content m))" by simp
      with Cons.IH [of seen'] seen kept d True show ?thesis
        by (simp add: case_prod_beta)
    next
      case False
      with dedupe_content_quiet_iff [OF Cons.prems, of "m_content m"] d
      have "\<not> distinct (seen @ filter is_signed_thinking (m_content m))" by simp
      with False len d True show ?thesis
        by (auto simp: case_prod_beta)
    qed
  next
    case False
    with Cons show ?thesis by (simp add: case_prod_beta)
  qed
qed simp

lemma dedupe_quiet_iff:
  "dedupe_signed_thinking ms = (ms, []) \<longleftrightarrow> distinct (signed_blocks ms)"
  using dedupe_messages_quiet_iff [of "[]" ms] dedupe.quiet [of ms]
  by (auto simp: dedupe_signed_thinking_def prod_eq_iff)

lemma lead_trail_quiet_iff:
  "fix_lead_trail ms = (ms, []) \<longleftrightarrow>
     (ms \<noteq> [] \<longrightarrow> m_role (hd ms) = User \<and> m_role (last ms) = User)"
proof -
  have "m_role m \<noteq> Assistant \<longleftrightarrow> m_role m = User" for m by (cases "m_role m") auto
  then show ?thesis by (auto simp: fix_lead_trail_eq Let_def split: if_splits)
qed

lemma populate_quiet_iff: "populate_if_empty E now ms = (ms, []) \<longleftrightarrow> ms \<noteq> []"
  by (simp add: populate_if_empty_def)

lemmas quiet_iffs = merge_text_quiet_iff trim_quiet_iff remove_empty_quiet_iff fill_quiet_iff
  fix_tool_calling_quiet_iff merge_consecutive_quiet_iff dedupe_quiet_iff lead_trail_quiet_iff
  populate_quiet_iff

text \<open>The pipeline stays quiet on exactly the valid conversations.\<close>

lemma processors_quiet_iff:
  "(\<forall>f \<in> set (processors E now). f ms = (ms, [])) \<longleftrightarrow> valid_conversation E ms"
  by (auto simp: processors_def quiet_iffs valid_conversation_def valid_message_def list_all_iff)

lemma fix_messages_quiet_iff:
  "snd (fix_messages E now ms) = [] \<longleftrightarrow> valid_conversation E ms"
proof
  assume "snd (fix_messages E now ms) = []"
  from fix_messages_quiet(2) [OF this] show "valid_conversation E ms"
    unfolding processors_quiet_iff [symmetric, of E ms now] by blast
next
  assume "valid_conversation E ms"
  then have "\<forall>f \<in> set (processors E now). f ms = (ms, [])" by (simp add: processors_quiet_iff)
  then have "fold run_processor fs (ms, []) = (ms, [])" if "set fs \<subseteq> set (processors E now)" for fs
    using that by (induction fs) (auto simp: run_processor_def)
  then show "snd (fix_messages E now ms) = []" by (simp add: fix_messages_def)
qed

subsection \<open>Repairing the tool calls of arbitrary messages\<close>

fun event_request :: "tool_event \<Rightarrow> string option" where
  "event_request (Req i) = Some i"
| "event_request (Resp _) = None"

definition request_ids :: "Message list \<Rightarrow> string list" where
  "request_ids ms = filter_map event_request (tool_events ms)"

definition drops_request :: "string set \<Rightarrow> tool_event \<Rightarrow> bool" where
  "drops_request P e = (case e of Req i \<Rightarrow> i \<in> P | Resp _ \<Rightarrow> False)"

lemma run_events_without_orphans:
  assumes "run_events Q es = Some P" "distinct (filter_map event_request es)"
    "set (filter_map event_request es) \<inter> Q = {}"
  shows "run_events (Q - P) (filter (\<lambda>e. \<not> drops_request P e) es) = Some {}"
  using assms
proof (induction es arbitrary: Q)
  case (Cons e es)
  show ?case
  proof (cases e)
    case (Req j)
    with Cons.prems Cons.IH [of "insert j Q"] show ?thesis
      by (auto simp: drops_request_def insert_Diff_if)
  next
    case (Resp j)
    with Cons.prems have j: "j \<in> Q" and r: "run_events (Q - {j}) es = Some P"
      by (auto split: if_splits)
    have "{i. Req i \<in> set es} = set (filter_map event_request es)"
      by (auto simp: set_filter_map elim!: event_request.elims intro: event_request.simps)
    with run_events_subset [OF r] j Cons.prems(3) Resp have "j \<notin> P" by auto
    moreover have "run_events (Q - {j} - P) (filter (\<lambda>e. \<not> drops_request P e) es) = Some {}"
      using Cons.IH [OF r] Cons.prems Resp by auto
    moreover have "Q - {j} - P = Q - P - {j}" by blast
    ultimately show ?thesis using j Resp by (simp add: drops_request_def)
  qed
qed simp

lemma scan_content_kept:
  "scan_content r P bs = (kept, iss, P') \<Longrightarrow>
     list_all (well_placed r) kept \<and> run_events P (filter_map (block_event r) kept) = Some P' \<and>
     filter_map event_request (filter_map (block_event r) kept) =
       filter_map event_request (filter_map (block_event r) bs)"
proof (induction bs arbitrary: P P' kept iss)
  case (Cons b bs)
  obtain x Q where b: "scan_block r P b = (x, Q)" by fastforce
  obtain k is' P'' where rest: "scan_content r Q bs = (k, is', P'')" by (metis prod_cases3)
  note IH = Cons.IH [OF rest]
  show ?case
  proof (cases x)
    case None
    with b have ok: "well_placed r b"
        "run_events P (case block_event r b of None \<Rightarrow> [] | Some e \<Rightarrow> [e]) = Some Q"
      by (simp_all add: scan_block_quiet)
    have "run_events P (filter_map (block_event r) (b # k)) = run_events Q (filter_map (block_event r) k)"
      using ok(2) run_events_append [of P "case block_event r b of None \<Rightarrow> [] | Some e \<Rightarrow> [e]"]
      by (simp split: option.splits)
    with IH ok Cons.prems b rest None show ?thesis
      by (auto split: option.splits)
  next
    case (Some i)
    then have "Q = P" "case block_event r b of Some (Req _) \<Rightarrow> False | _ \<Rightarrow> True"
      using b by (cases r; cases b; auto simp: scan_block_def split: if_splits)+
    with IH Cons.prems b rest Some show ?thesis
      by (auto split: option.splits tool_event.splits)
  qed
qed simp

lemma tool_events_simps [simp]:
  "tool_events [] = []"
  "tool_events (m # ms) = message_events m @ tool_events ms"
  by (simp_all add: tool_events_def)

lemma scan_messages_kept:
  "scan_messages P ms = (ms1, iss, P') \<Longrightarrow>
     list_all (\<lambda>m. list_all (well_placed (m_role m)) (m_content m)) ms1 \<and>
     run_events P (tool_events ms1) = Some P' \<and> request_ids ms1 = request_ids ms"
proof (induction ms arbitrary: P P' ms1 iss)
  case (Cons m ms)
  obtain kept is1 Q where s: "scan_content (m_role m) P (m_content m) = (kept, is1, Q)"
    by (metis prod_cases3)
  obtain ms' is2 P'' where r: "scan_messages Q ms = (ms', is2, P'')" by (metis prod_cases3)
  from scan_content_kept [OF s] Cons.IH [OF r] Cons.prems s r show ?case
    by (auto simp: message_events_def request_ids_def run_events_append)
qed (simp add: request_ids_def)

lemma message_events_drop:
  "message_events (fst (drop_orphan_requests P m)) = filter (\<lambda>e. \<not> drops_request P e) (message_events m)"
proof (cases "m_role m = Assistant")
  case True
  have "filter_map (block_event Assistant) (filter (\<lambda>b. \<not> orphan_request P b) bs) =
      filter (\<lambda>e. \<not> drops_request P e) (filter_map (block_event Assistant) bs)" for bs
  proof (induction bs)
    case (Cons b bs)
    then show ?case by (cases b) (auto simp: orphan_request_def drops_request_def)
  qed simp
  with True show ?thesis by (simp add: message_events_def drop_orphan_requests_def)
next
  case False
  then have u: "m_role m = User" by (cases "m_role m") auto
  have "filter (\<lambda>e. \<not> drops_request P e) (filter_map (block_event User) bs) =
      filter_map (block_event User) bs" for bs
  proof (induction bs)
    case (Cons b bs)
    then show ?case by (cases b) (auto simp: drops_request_def)
  qed simp
  with False u show ?thesis by (simp add: message_events_def drop_orphan_requests_def)
qed

lemma message_events_empty: "is_empty_message m \<Longrightarrow> message_events m = []"
proof -
  have "block_event r b = None" if "as_text b = Some []" for r b
    using that by (cases r; cases b) auto
  then show "is_empty_message m \<Longrightarrow> message_events m = []"
    by (simp add: is_empty_message_def message_events_def filter_map_eq_Nil list_all_iff)
qed

lemma tool_events_remove_empty: "tool_events (filter (\<lambda>m. \<not> is_empty_message m) ms) = tool_events ms"
  by (induction ms) (auto simp: message_events_empty)

text \<open>
  With distinct request ids the repaired tool calls are well placed and paired: repairing them
  again finds nothing.
\<close>

lemma fix_tool_calling_repairs:
  assumes d: "distinct (request_ids ms)"
  shows "run_events {} (tool_events (fst (fix_tool_calling ms))) = Some {}"
    and "fix_tool_calling (fst (fix_tool_calling ms)) = (fst (fix_tool_calling ms), [])"
proof -
  obtain ms1 iss P where s: "scan_messages {} ms = (ms1, iss, P)" by (metis prod_cases3)
  let ?ms2 = "map (fst \<circ> drop_orphan_requests P) ms1"
  let ?out = "filter (\<lambda>m. \<not> is_empty_message m) ?ms2"
  have out: "fst (fix_tool_calling ms) = ?out"
    by (simp add: fix_tool_calling_def s Let_def remove_empty_messages_def)
  note kept = scan_messages_kept [OF s]
  have "tool_events ?ms2 = filter (\<lambda>e. \<not> drops_request P e) (tool_events ms1)"
    by (induction ms1) (simp_all add: message_events_drop)
  then have "run_events {} (tool_events ?out) = Some {}"
    using run_events_without_orphans [of "{}" "tool_events ms1" P] kept d
    by (simp add: tool_events_remove_empty request_ids_def)
  then show ev: "run_events {} (tool_events (fst (fix_tool_calling ms))) = Some {}"
    by (simp add: out)
  from kept have "list_all (well_placed (m_role m)) (m_content m)" if "m \<in> set ms1" for m
    using that by (simp add: list_all_iff)
  then have "list_all (\<lambda>m. list_all (well_placed (m_role m)) (m_content m)) ?out"
    by (fastforce simp: list_all_iff drop_orphan_requests_def)
  with ev show "fix_tool_calling (fst (fix_tool_calling ms)) = (fst (fix_tool_calling ms), [])"
    unfolding fix_tool_calling_quiet_iff out by (auto simp: list_all_iff)
qed

end
