(* ===== verification/Conversation_Properties.thy ===== *)
theory Conversation_Properties
  imports Conversation_Spec
begin

text \<open>
  The properties of the conversation component, with the witnesses that evaluate the model: what
  \<open>Conversation::new\<close> accepts, what \<open>fix_conversation\<close> keeps and repairs, how streamed deltas
  accumulate, and what the agent is shown.
\<close>

subsection \<open>Merging keeps effective roles and content\<close>

lemma merge_keeps_effective_role:
  "effective_role l = effective_role m \<Longrightarrow>
   effective_role (l\<lparr>m_content := m_content l @ m_content m\<rparr>) = effective_role l"
  by (cases "m_role l"; cases "m_role m")
    (auto simp: effective_role_def has_tool_response_def split: if_splits)

lemma merge_fold_separates:
  "successively (\<lambda>x y. \<not> mergeable a x y) out \<Longrightarrow>
   successively (\<lambda>x y. \<not> mergeable a x y) (fst (fold (merge_step a) ms (out, iss))) \<and>
   concat (map m_content (fst (fold (merge_step a) ms (out, iss)))) =
     concat (map m_content out) @ concat (map m_content ms)"
proof (induction ms arbitrary: out iss)
  case (Cons m ms)
  show ?case
  proof (cases rule: merge_step_cases [of a m out iss])
    case append
    with Cons.prems have "successively (\<lambda>x y. \<not> mergeable a x y) (out @ [m])"
      by (simp add: successively_append_last)
    from Cons.IH [OF this, of iss] append show ?thesis by simp
  next
    case (merge l)
    obtain ys where out: "out = ys @ [l]" using last_opt_SomeD [OF merge(1)] by (rule exE)
    let ?l = "l\<lparr>m_content := m_content l @ m_content m\<rparr>"
    from merge(2) have "effective_role ?l = effective_role l"
      by (simp add: mergeable_def merge_keeps_effective_role)
    then have "mergeable a x ?l = mergeable a x l" for x by (simp add: mergeable_def)
    with Cons.prems out have "successively (\<lambda>x y. \<not> mergeable a x y) (ys @ [?l])"
      by (simp add: successively_append_last)
    from Cons.IH [OF this, of "iss @ [merge_issue m]"] merge(3) out show ?thesis by simp
  qed
qed simp

text \<open>\<open>merge_consecutive_messages_for_request\<close> leaves no two neighbours with the same effective
  role, whatever their visibility, and keeps every content block in order.\<close>

theorem merge_for_request_alternates:
  "successively (\<lambda>a b. effective_role a \<noteq> effective_role b) (merge_consecutive_messages_for_request ms) \<and>
   concat (map m_content (merge_consecutive_messages_for_request ms)) = concat (map m_content ms)"
  using merge_fold_separates [of True "[]" ms "[]"]
  by (simp add: merge_consecutive_messages_for_request_def merge_consecutive_def mergeable_def)

subsection \<open>What is accepted\<close>

lemma accepted_iff_valid:
  "Conversation_new E now ms = Inr c \<longleftrightarrow> c = ms \<and> valid_conversation E ms"
  using fix_messages_quiet_iff [of E now ms]
  by (auto simp: Conversation_new_def split: prod.splits if_splits)

text \<open>C1: \<open>Conversation::new\<close> accepts exactly the valid conversations and returns them unchanged;
  everything else is rejected with the list of issues.\<close>

theorem Conversation_new_accepts_valid:
  "(Conversation_new E now ms = Inr c \<longleftrightarrow> c = ms \<and> valid_conversation E ms) \<and>
   (\<not> valid_conversation E ms \<longleftrightarrow>
      Conversation_new E now ms = Inl (str_join nl (snd (fix_messages E now ms)), ms))"
proof (rule conjI [OF accepted_iff_valid])
  show "\<not> valid_conversation E ms \<longleftrightarrow>
      Conversation_new E now ms = Inl (str_join nl (snd (fix_messages E now ms)), ms)"
  proof (cases "valid_conversation E ms")
    case True
    then have "Conversation_new E now ms = Inr ms" by (simp add: accepted_iff_valid)
    with True show ?thesis by simp
  next
    case False
    then have "snd (fix_messages E now ms) \<noteq> []" by (simp add: fix_messages_quiet_iff)
    then have "Conversation_new E now ms = Inl (str_join nl (snd (fix_messages E now ms)), ms)"
      unfolding Conversation_new_def by (simp only: case_prod_beta if_True not_False_eq_True)
    with False show ?thesis by (simp only: not_False_eq_True simp_thms)
  qed
qed

text \<open>C2: in a conversation that \<open>Conversation::new\<close> accepts every tool request is answered later, and
  every tool response answers an earlier request not answered in between.\<close>

theorem accepted_tool_calls_paired:
  assumes "Conversation_new E now ms = Inr c"
  shows "(\<forall>us i vs. tool_events c = us @ Req i # vs \<longrightarrow> Resp i \<in> set vs) \<and>
         (\<forall>us i vs. tool_events c = us @ Resp i # vs \<longrightarrow>
            (\<exists>xs ys. us = xs @ Req i # ys \<and> Resp i \<notin> set ys))"
proof -
  from assms have "run_events {} (tool_events c) = Some {}"
    by (simp add: accepted_iff_valid valid_conversation_def)
  then show ?thesis
    by (metis run_events_request_answered run_events_response_answers)
qed

definition call0 :: "string \<Rightarrow> MessageContentBlock" where
  "call0 i = tool_request i (Inr \<lparr>ctr_name = ''shell'', ctr_arguments = None\<rparr>)"

definition result0 :: "string \<Rightarrow> MessageContentBlock" where
  "result0 i = tool_response i (Inr (CallToolResult_success [ContentBlock_text ''ok'']))"

definition paired_example :: "Message list" where
  "paired_example =
     [Message_new User 0 [block_text ''run it''],
      Message_new Assistant 1 [call0 ''c1''],
      Message_new User 2 [result0 ''c1'']]"

lemmas example_defs = ext0_def call0_def result0_def paired_example_def Message_new_def
  tool_request_def tool_response_def block_text_def TextContent_new_def ContentBlock_text_def
  CallToolResult_success_def MessageMetadata_default_def

lemma paired_example_accepted: "Conversation_new ext0 0 paired_example = Inr paired_example"
  by (simp add: accepted_iff_valid valid_conversation_def valid_message_def example_defs
      is_empty_message_def message_events_def has_tool_result_content_def mergeable_def
      effective_role_def has_tool_response_def)

theorem accepted_tool_calls_paired_witness:
  "tool_events paired_example = [] @ Req ''c1'' # [Resp ''c1''] \<and> Resp ''c1'' \<in> set [Resp ''c1'']"
proof -
  have e: "tool_events paired_example = [] @ Req ''c1'' # [Resp ''c1'']"
    by (simp add: example_defs message_events_def)
  from accepted_tool_calls_paired [OF paired_example_accepted] e show ?thesis by blast
qed

subsection \<open>What the repair keeps\<close>

text \<open>C4: \<open>fix_conversation\<close> passes every message the agent does not see through unchanged and in
  order; the messages the agent sees become those of \<open>fix_messages\<close>, all of them, whenever there
  was one to begin with.\<close>

theorem fix_conversation_frame:
  "filter (\<lambda>m. \<not> agent_visible (m_metadata m)) (fst (fix_conversation E now c)) =
     filter (\<lambda>m. \<not> agent_visible (m_metadata m)) c \<and>
   filter (\<lambda>m. agent_visible (m_metadata m)) (fst (fix_conversation E now c)) =
     (if list_ex (\<lambda>m. agent_visible (m_metadata m)) c
      then fst (fix_messages E now (filter (\<lambda>m. agent_visible (m_metadata m)) c)) else [])"
proof -
  let ?v = "filter (\<lambda>m. agent_visible (m_metadata m)) c"
  have "length (fst (fix_messages E now ?v)) \<le> length ?v" if "?v \<noteq> []"
    using fix_messages_length [of E now ?v] that by (cases ?v) auto
  moreover have "?v = [] \<longleftrightarrow> \<not> list_ex (\<lambda>m. agent_visible (m_metadata m)) c"
    by (auto simp: filter_empty_conv list_ex_iff)
  ultimately show ?thesis
    using fix_conversation_parts [of E now c] by (cases "?v = []") simp_all
qed

lemma shadow_map_id:
  "filter_map (fill_slot (us @ filter visible c)) (shadow_map (length us) c) = c"
proof (induction c arbitrary: us)
  case (Cons m c)
  from Cons.IH [of "us @ [m]"] Cons.IH [of us] show ?case
    by (simp add: fill_slot_def list_get_def nth_append)
qed simp

text \<open>When \<open>fix_conversation\<close> reports no issue it returns its input, and it reports none exactly
  when what the agent sees is a valid conversation.\<close>

theorem fix_conversation_quiet:
  "(snd (fix_conversation E now c) = [] \<longleftrightarrow>
      valid_conversation E (filter (\<lambda>m. agent_visible (m_metadata m)) c)) \<and>
   (snd (fix_conversation E now c) = [] \<longrightarrow> fst (fix_conversation E now c) = c)"
proof (intro conjI impI)
  show "snd (fix_conversation E now c) = [] \<longleftrightarrow>
      valid_conversation E (filter (\<lambda>m. agent_visible (m_metadata m)) c)"
    by (simp add: fix_conversation_issues fix_messages_quiet_iff)
  assume "snd (fix_conversation E now c) = []"
  then have "fst (fix_messages E now (filter visible c)) = filter visible c"
    using fix_messages_quiet(1) by (simp add: fix_conversation_issues)
  then show "fst (fix_conversation E now c) = c"
    using shadow_map_id [of "[]" c] by (simp add: fix_conversation_def case_prod_beta Let_def)
qed

theorem fix_conversation_quiet_witness:
  "fst (fix_conversation ext0 0 paired_example) = paired_example"
proof -
  have "filter (\<lambda>m. agent_visible (m_metadata m)) paired_example = paired_example"
    by (simp add: example_defs)
  with paired_example_accepted have "snd (fix_conversation ext0 0 paired_example) = []"
    using fix_conversation_quiet [of ext0 0 paired_example] by (simp add: accepted_iff_valid)
  then show ?thesis using fix_conversation_quiet [of ext0 0 paired_example] by blast
qed

text \<open>C3: with distinct request ids, whatever else is wrong with the messages, \<open>fix_tool_calling\<close>
  leaves tool calls in which every request is answered later and every response answers an
  outstanding request, so that running it again changes and reports nothing.\<close>

theorem fix_tool_calling_pairs:
  assumes "distinct (request_ids ms)"
  shows "run_events {} (tool_events (fst (fix_tool_calling ms))) = Some {} \<and>
         fix_tool_calling (fst (fix_tool_calling ms)) = (fst (fix_tool_calling ms), [])"
  using fix_tool_calling_repairs [OF assms] by simp

theorem fix_tool_calling_pairs_witness:
  "run_events {} (tool_events (fst (fix_tool_calling
     [Message_new Assistant 1 [call0 ''c1'', call0 ''c2''], Message_new User 2 [result0 ''c2'', result0 ''c3'']])))
   = Some {}"
proof -
  let ?ms = "[Message_new Assistant 1 [call0 ''c1'', call0 ''c2''],
    Message_new User 2 [result0 ''c2'', result0 ''c3'']]"
  have "distinct (request_ids ?ms)"
    by (simp add: request_ids_def message_events_def example_defs)
  from fix_tool_calling_pairs [OF this] show ?thesis by blast
qed

subsection \<open>The ends of a repaired conversation\<close>

lemma dedupe_content_keeps_tools:
  "list_ex is_tool_response_block (fst (dedupe_content seen bs)) = list_ex is_tool_response_block bs"
proof (induction bs arbitrary: seen)
  case (Cons b bs)
  have "\<not> (is_signed_thinking b \<and> is_tool_response_block b)" by (cases b) auto
  with Cons show ?case by (auto simp: case_prod_beta)
qed simp

lemma fix_lead_trail_ends:
  assumes "successively (\<lambda>a b. \<not> (m_role a = Assistant \<and> m_role b = Assistant)) ms"
    and "fst (fix_lead_trail ms) \<noteq> []"
  shows "m_role (hd (fst (fix_lead_trail ms))) = User \<and> m_role (last (fst (fix_lead_trail ms))) = User"
proof -
  have user: "m_role m = User \<longleftrightarrow> m_role m \<noteq> Assistant" for m by (cases "m_role m") auto
  let ?ms1 = "if ms \<noteq> [] \<and> m_role (hd ms) = Assistant then tl ms else ms"
  have s1: "successively (\<lambda>a b. \<not> (m_role a = Assistant \<and> m_role b = Assistant)) ?ms1"
    using assms(1) by (cases ms) (auto simp: successively_Cons)
  have h1: "m_role (hd ?ms1) = User" if "?ms1 \<noteq> []"
    using assms(1) that by (cases ms) (auto simp: successively_Cons user split: if_splits)
  obtain ms1 where ms1: "ms1 = ?ms1" by blast
  have out: "fst (fix_lead_trail ms) =
      (if ms1 \<noteq> [] \<and> m_role (last ms1) = Assistant then butlast ms1 else ms1)"
    by (simp add: fix_lead_trail_eq Let_def ms1)
  show ?thesis
  proof (cases "ms1 \<noteq> [] \<and> m_role (last ms1) = Assistant")
    case True
    then obtain ys l where ys: "ms1 = ys @ [l]" "m_role l = Assistant"
      by (cases ms1 rule: rev_cases) auto
    with assms(2) out have "ys \<noteq> []" by auto
    then obtain zs z where z: "ys = zs @ [z]" by (cases ys rule: rev_cases) auto
    have "successively (\<lambda>a b. \<not> (m_role a = Assistant \<and> m_role b = Assistant)) (zs @ [z, l])"
      using s1 by (simp add: ms1 [symmetric] ys z)
    with ys(2) have "m_role z = User" by (simp add: successively_append_iff user)
    moreover have "m_role (hd (zs @ [z])) = User"
      using h1 by (simp add: ms1 [symmetric] ys z hd_append split: if_splits)
    moreover have "fst (fix_lead_trail ms) = zs @ [z]"
      using out True by (simp add: ys z butlast_append)
    ultimately show ?thesis by simp
  next
    case False
    with assms(2) out h1 ms1 show ?thesis by (auto simp: user)
  qed
qed

lemma merge_separates:
  assumes "\<And>m. m \<in> set ms \<Longrightarrow> user_visible (m_metadata m) \<and> \<not> turn_context (m_metadata m)"
  shows "successively (\<lambda>a b. \<not> (m_role a = Assistant \<and> m_role b = Assistant))
           (fst (merge_consecutive_messages ms))"
proof -
  let ?out = "fst (merge_consecutive_messages ms)"
  have "successively (\<lambda>x y. \<not> mergeable False x y) ?out"
    using merge_fold_separates [of False "[]" ms "[]"]
    by (simp add: merge_consecutive_messages_def merge_consecutive_def)
  moreover have "user_visible (m_metadata m) \<and> \<not> turn_context (m_metadata m)" if "m \<in> set ?out" for m
    by (rule merge_consecutive.keeps_metadata [OF _ _ that]) (use assms in auto)
  ultimately show ?thesis
    by (auto elim!: successively_mono simp: mergeable_def effective_role_def)
qed

lemma dedupe_separates:
  "successively (\<lambda>a b. \<not> (m_role a = Assistant \<and> m_role b = Assistant)) ms \<Longrightarrow>
   successively (\<lambda>a b. \<not> (m_role a = Assistant \<and> m_role b = Assistant)) (fst (dedupe_signed_thinking ms))"
proof -
  have "map m_role (fst (dedupe_signed_thinking ms)) = map m_role ms"
    using dedupe_messages_shape [of "[]" ms] by (simp add: dedupe_signed_thinking_def) (metis prod.collapse)
  then show "successively (\<lambda>a b. \<not> (m_role a = Assistant \<and> m_role b = Assistant)) ms \<Longrightarrow> ?thesis"
    using successively_map [of "\<lambda>a b. \<not> (a = Assistant \<and> b = Assistant)" m_role] by metis
qed

lemma fst_run_processor [simp]: "fst (run_processor f st) = fst (f (fst st))"
  by (cases st) (simp add: run_processor_def split: prod.splits)

lemma fst_fold_processors: "fst (fold run_processor fs st) = fold (\<lambda>f ms. fst (f ms)) fs (fst st)"
  by (induction fs arbitrary: st) auto

text \<open>C5: when what the agent sees is uniformly user-visible and holds no turn context, the repaired
  messages begin and end with a user message, as the pipeline's last two processors intend.\<close>

theorem repaired_ends_with_user:
  assumes "\<And>m. m \<in> set ms \<Longrightarrow> user_visible (m_metadata m) \<and> \<not> turn_context (m_metadata m)"
  shows "m_role (hd (fst (fix_messages E now ms))) = User \<and>
         m_role (last (fst (fix_messages E now ms))) = User"
proof -
  let ?Q = "\<lambda>md. user_visible md \<and> \<not> turn_context md"
  let ?fs = "[merge_text_content_items, trim_assistant_text_whitespace, remove_empty_messages,
      fix_empty_tool_results E, fix_tool_calling]"
  let ?ms5 = "fst (fold run_processor ?fs (ms, []))"
  let ?ms7 = "fst (dedupe_signed_thinking (fst (merge_consecutive_messages ?ms5)))"
  have "?Q (m_metadata m)" if "m \<in> set ?ms5" for m
    by (rule fold_processors_metadata [where fs = ?fs and st = "(ms, [])", OF _ _ _ that])
      (use assms processors_contract in \<open>auto simp: processors_def\<close>)
  then have sep: "successively (\<lambda>a b. \<not> (m_role a = Assistant \<and> m_role b = Assistant)) ?ms7"
    by (intro dedupe_separates merge_separates) auto
  have "fst (fix_messages E now ms) = fst (populate_if_empty E now (fst (fix_lead_trail ?ms7)))"
    by (simp add: fix_messages_def processors_def)
  then show ?thesis
    using fix_lead_trail_ends [OF sep] by (simp add: populate_if_empty_def)
qed

theorem repaired_ends_with_user_witness:
  "m_role (hd (fst (fix_messages ext0 0
     [Message_new Assistant 0 [block_text ''a''], Message_new Assistant 1 [block_text ''b'']]))) = User"
  by (rule repaired_ends_with_user [THEN conjunct1]) (auto simp: Message_new_def)

subsection \<open>Where one pass of the repair is not enough\<close>

lemmas repair_defs = fix_messages_def processors_def run_processor_def merge_text_content_items_def
  merge_text_content_in_message_def trim_assistant_text_whitespace_def trim_message_def
  remove_empty_messages_def is_empty_message_def fix_empty_tool_results_def
  has_tool_result_content_def fix_tool_calling_def scan_block_def drop_orphan_requests_def
  orphan_request_def merge_consecutive_messages_def merge_consecutive_def merge_step_def
  mergeable_def effective_role_def has_tool_response_def dedupe_signed_thinking_def
  fix_lead_trail_def populate_if_empty_def last_opt_def push_merging_text_def

text \<open>The pipeline removes a leading assistant message after it has paired the tool calls, so the
  response to a call of that message stays behind as an orphan, and a second pass reports it.\<close>

theorem leading_call_leaves_orphan:
  "fst (fix_messages ext0 0 [Message_new Assistant 1 [call0 ''c1''], Message_new User 2 [result0 ''c1'']]) =
     [Message_new User 2 [result0 ''c1'']] \<and>
   fst (fix_messages ext0 0 [Message_new User 2 [result0 ''c1'']]) =
     [with_text ext0 (Message_user 0) ''Hello'']"
  by (simp add: repair_defs example_defs PLACEHOLDER_USER_MESSAGE_def)

text \<open>Two leading assistant messages of different visibility are not merged, only the first is
  removed, and the repaired messages still begin with the assistant.\<close>

theorem mixed_visibility_keeps_leading_assistant:
  "map m_role (fst (fix_messages ext0 0
     [Message_new Assistant 0 [block_text ''a''],
      agent_only (Message_new Assistant 1 [block_text ''b'']),
      Message_new User 2 [block_text ''c'']])) = [Assistant, User]"
proof -
  have [simp]: "trim_end [c] = (if ascii_ws c then [] else [c])" for c
    by (simp add: trim_end_def drop_ws_rev.simps [of "[c]"] drop_ws_rev.simps [of "[]"])
  show ?thesis
    by (simp add: repair_defs example_defs agent_only_def ascii_ws_def byte_def)
qed

subsection \<open>Streaming\<close>

text \<open>streamed text deltas that share an id accumulate into one message whose text is their
  concatenation, appended to whatever conversation came before.\<close>

theorem streamed_text_accumulates:
  assumes "m_id b \<noteq> None" "ss \<noteq> []" "\<forall>l. last_opt ms = Some l \<longrightarrow> m_id l \<noteq> m_id b"
  shows "conv_extend (map (\<lambda>s. b\<lparr>m_content := [Text (t\<lparr>tc_text := s\<rparr>)]\<rparr>) ss) ms =
         ms @ [b\<lparr>m_content := [Text (t\<lparr>tc_text := concat ss\<rparr>)]\<rparr>]"
proof -
  let ?d = "\<lambda>s. b\<lparr>m_content := [Text (t\<lparr>tc_text := s\<rparr>)]\<rparr>"
  have first: "conv_push (?d s) ms = ms @ [?d s]" for s
    using assms(3) by (auto simp: conv_push_def split: option.splits)
  have "conv_push (?d s) (ms @ [?d u]) = ms @ [?d (u @ s)]" for s u
    using assms(1) by (simp add: conv_push_def absorb_delta_def extend_content_def last_opt_def Let_def)
  then have rest: "fold conv_push (map ?d us) (ms @ [?d u]) = ms @ [?d (u @ concat us)]" for us u
    by (induction us arbitrary: u) simp_all
  show ?thesis
    using assms(2) by (cases ss) (simp_all add: conv_extend_def first rest)
qed

theorem streamed_text_accumulates_witness:
  "conv_extend (map (\<lambda>s. (with_id ''m'' (Message_assistant 0))\<lparr>m_content := [Text ((TextContent_new [])\<lparr>tc_text := s\<rparr>)]\<rparr>)
      [''Hel'', ''lo'']) [] =
   [] @ [(with_id ''m'' (Message_assistant 0))\<lparr>m_content := [Text ((TextContent_new [])\<lparr>tc_text := ''Hello''\<rparr>)]\<rparr>]"
  using streamed_text_accumulates [of "with_id ''m'' (Message_assistant 0)" "[''Hel'', ''lo'']" "[]"
      "TextContent_new []"]
  by (simp add: with_id_def)

subsection \<open>What the agent is shown\<close>

text \<open>A message taken apart into the pieces that carry annotations of their own: a block, or the frame of
  a successful tool response followed by the parts of its result.\<close>

datatype Piece = Whole MessageContentBlock | Frame ToolResponse | Part ContentBlock

fun block_pieces :: "MessageContentBlock \<Rightarrow> Piece list" where
  "block_pieces (ToolResponse r) =
     (case tp_tool_result r of
        Inl _ \<Rightarrow> [Whole (ToolResponse r)]
      | Inr result \<Rightarrow>
          Frame (r\<lparr>tp_tool_result := Inr (result\<lparr>cr_content := []\<rparr>)\<rparr>) # map Part (cr_content result))"
| "block_pieces b = [Whole b]"

definition message_pieces :: "Message \<Rightarrow> Message \<times> Piece list" where
  "message_pieces m = (m\<lparr>m_content := []\<rparr>, concat (map block_pieces (m_content m)))"

fun content_annotations :: "ContentBlock \<Rightarrow> Annotations option" where
  "content_annotations (CText t) = tc_annotations t"
| "content_annotations (CImage i) = ic_annotations i"
| "content_annotations (CAudio a) = a"
| "content_annotations (CResource _ a) = a"
| "content_annotations (CResourceLink a) = a"
| "content_annotations COther = None"

fun piece_annotations :: "Piece \<Rightarrow> Annotations option" where
  "piece_annotations (Whole (Text t)) = tc_annotations t"
| "piece_annotations (Whole (Image i)) = ic_annotations i"
| "piece_annotations (Part c) = content_annotations c"
| "piece_annotations _ = None"

text \<open>A piece is withheld from a role when its annotations list an audience and the role is not on it.\<close>

definition withheld_from :: "Role \<Rightarrow> Piece \<Rightarrow> bool" where
  "withheld_from r p \<longleftrightarrow>
     (\<exists>a roles. piece_annotations p = Some a \<and> audience a = Some roles \<and> r \<notin> set roles)"

lemma filter_for_audience_event:
  "block_event r b = (case filter_for_audience r' b of None \<Rightarrow> None | Some b' \<Rightarrow> block_event r b')"
  by (cases r; cases b) (auto split: sum.splits)

lemma filter_map_compose:
  "(\<And>x. f x = (case g x of None \<Rightarrow> None | Some y \<Rightarrow> h y)) \<Longrightarrow>
   filter_map f xs = filter_map h (filter_map g xs)"
  by (induction xs) (auto split: option.splits)

lemma message_events_agent: "message_events (agent_visible_content m) = message_events m"
proof -
  have "filter_map (block_event (m_role m)) (m_content m) =
      filter_map (block_event (m_role m)) (filter_map (filter_for_audience Assistant) (m_content m))"
    by (rule filter_map_compose) (rule filter_for_audience_event)
  then show ?thesis by (simp add: message_events_def agent_visible_content_def)
qed

lemma for_audience_annotated:
  "for_audience (audience_of a) r \<longleftrightarrow> (\<forall>x roles. a = Some x \<longrightarrow> audience x = Some roles \<longrightarrow> r \<in> set roles)"
  by (cases a) (auto simp: for_audience_def audience_of_def split: option.splits)

lemma content_audience_annotations: "content_audience c = audience_of (content_annotations c)"
  by (cases c) (simp_all add: audience_of_def)

lemma block_pieces_filtered:
  "concat (map block_pieces (case filter_for_audience Assistant b of None \<Rightarrow> [] | Some b' \<Rightarrow> [b'])) =
   filter (\<lambda>p. \<not> withheld_from Assistant p) (block_pieces b)"
  by (cases b)
    (auto simp: withheld_from_def for_audience_annotated content_audience_annotations filter_map comp_def
      split: sum.splits)

lemma pieces_filter_map:
  "concat (map block_pieces (filter_map (filter_for_audience Assistant) bs)) =
   filter (\<lambda>p. \<not> withheld_from Assistant p) (concat (map block_pieces bs))"
proof (induction bs)
  case (Cons b bs)
  then show ?case using block_pieces_filtered [of b] by (auto split: option.splits)
qed simp

lemma message_pieces_filtered:
  "message_pieces (agent_visible_content m) =
   (case message_pieces m of (frame, ps) \<Rightarrow> (frame, filter (\<lambda>p. \<not> withheld_from Assistant p) ps))"
  by (simp add: message_pieces_def agent_visible_content_def pieces_filter_map)

lemma block_pieces_nonempty [simp]: "block_pieces b \<noteq> []"
  by (cases b) (auto split: sum.splits)

lemma message_pieces_empty: "snd (message_pieces m) \<noteq> [] \<longleftrightarrow> m_content m \<noteq> []"
  by (cases "m_content m") (simp_all add: message_pieces_def)

lemma content_left:
  "m_content (agent_visible_content m) = [] \<longleftrightarrow>
   filter (\<lambda>p. \<not> withheld_from Assistant p) (snd (message_pieces m)) = []"
  using message_pieces_empty [of "agent_visible_content m"]
  by (simp add: message_pieces_filtered case_prod_beta)

text \<open>C6: what the agent is shown is, message by message and in order, exactly what the agent-visible
  messages hold less the pieces whose annotations list an audience without the assistant - text and image
  blocks, and the single parts of a tool result - with nothing else changed; a message of which nothing is
  left is left out. Filtering by audience unpairs no tool call.\<close>

theorem agent_view_faithful:
  "map message_pieces (agent_visible_messages c) =
     filter (\<lambda>(frame, ps). ps \<noteq> [])
       (map (\<lambda>m. case message_pieces m of (frame, ps) \<Rightarrow> (frame, filter (\<lambda>p. \<not> withheld_from Assistant p) ps))
         (filter (\<lambda>m. agent_visible (m_metadata m)) c)) \<and>
   tool_events (agent_visible_messages c) = tool_events (filter (\<lambda>m. agent_visible (m_metadata m)) c)"
proof
  show "map message_pieces (agent_visible_messages c) =
     filter (\<lambda>(frame, ps). ps \<noteq> [])
       (map (\<lambda>m. case message_pieces m of (frame, ps) \<Rightarrow> (frame, filter (\<lambda>p. \<not> withheld_from Assistant p) ps))
         (filter (\<lambda>m. agent_visible (m_metadata m)) c))"
    unfolding agent_visible_messages_def
    by (simp add: message_pieces_filtered content_left filter_map comp_def case_prod_beta)
next
  have "tool_events (filter (\<lambda>m. m_content m \<noteq> []) ms) = tool_events ms" for ms
    by (induction ms) (auto simp: tool_events_def message_events_def)
  then show "tool_events (agent_visible_messages c) =
      tool_events (filter (\<lambda>m. agent_visible (m_metadata m)) c)"
    by (simp add: agent_visible_messages_def tool_events_def message_events_agent comp_def)
qed

text \<open>A note for the user beside the answer, in one message: the agent sees the answer only.\<close>

definition annotated_example :: Conversation where
  "annotated_example =
     [(Message_user 0)\<lparr>m_content :=
        [Text ((TextContent_new ''note'')\<lparr>tc_annotations := Some \<lparr>audience = Some [User]\<rparr>\<rparr>),
         Text (TextContent_new ''hello'')]\<rparr>]"

theorem agent_view_faithful_witness:
  "map message_pieces (agent_visible_messages annotated_example) =
     [((Message_user 0)\<lparr>m_content := []\<rparr>, [Whole (Text (TextContent_new ''hello''))])]"
proof -
  have "filter (\<lambda>m. agent_visible (m_metadata m)) annotated_example = annotated_example"
    by (simp add: annotated_example_def Message_user_def Message_new_def)
  then show ?thesis
    using conjunct1 [OF agent_view_faithful [of annotated_example]]
    by (simp add: annotated_example_def message_pieces_def withheld_from_def TextContent_new_def)
qed

end
