(* ===== verification/Session_Store.thy ===== *)
theory Session_Store
  imports Conversation "HOL-Library.Product_Lexorder"
begin

text \<open>
  \<open>session/session_manager.rs\<close>: the session store. Its three tables (\<open>sessions\<close>, \<open>messages\<close>,
  \<open>usage_ledger\<close>) are lists of rows in insertion order, each operation is one transaction: it
  returns the new store, or an error that leaves the store as it was. The JSON text of a message's content is
  kept as the value it is read back as, which is not the value written: \<open>tool_result_serde.rs\<close> reduces an error
  to its text (\<open>stored_content\<close>). Metadata, and the values of the \<open>rmcp\<close> types a successful call or result holds,
  are read back as written. An \<open>ORDER BY\<close> is a sort by the same key.

  Code outside the repository is the record \<open>sql_ext\<close>: how an integer column is read into an \<open>i32\<close>
  (\<open>None\<close> is a decoding error) and which timestamps are dates. Failures of the database itself (I/O,
  a busy timeout) and integer columns beyond 64 bits are not modelled.
\<close>

datatype error =
    Anyhow string
  | ForeignKeyViolation
  | UniqueViolation
  | RowNotFound
  | ColumnDecode
  | Panicked string

record sql_ext =
  sql_i32 :: "int \<Rightarrow> i32 option"
  timestamp_opt :: "int \<Rightarrow> int option"

subsection \<open>Recipes and session types\<close>

datatype SessionType = SUser | Scheduled | SubAgent | Hidden | Terminal | Gateway | Acp

datatype SuccessCheck = Shell string

record RetryConfig =
  max_retries :: nat
  checks :: "SuccessCheck list"
  on_failure :: "string option"
  timeout_seconds :: "nat option"
  on_failure_timeout_seconds :: "nat option"

definition RetryConfig_validate :: "RetryConfig \<Rightarrow> string + unit" where
  "RetryConfig_validate cfg =
     (if max_retries cfg = 0 then Inl ''max_retries must be greater than 0''
      else if timeout_seconds cfg = Some 0
      then Inl ''timeout_seconds must be greater than 0 if specified''
      else if on_failure_timeout_seconds cfg = Some 0
      then Inl ''on_failure_timeout_seconds must be greater than 0 if specified''
      else Inr ())"

text \<open>Of a recipe the model keeps what the session and the state machine read; the rest is opaque.\<close>

record Recipe =
  rc_title :: string
  rc_response :: "json option option"
  rc_retry :: "RetryConfig option"
  rc_rest :: json

subsection \<open>Tables\<close>

text \<open>The five token columns of a session or of a ledger row; a ledger sum is a row of the same shape.\<close>

record TokenColumns =
  col_input :: "int option"
  col_output :: "int option"
  col_total :: "int option"
  col_cache_read :: "int option"
  col_cache_write :: "int option"

definition no_tokens :: TokenColumns where
  "no_tokens = \<lparr>col_input = None, col_output = None, col_total = None,
                col_cache_read = None, col_cache_write = None\<rparr>"

definition columns_of_usage :: "Usage \<Rightarrow> TokenColumns" where
  "columns_of_usage u =
     \<lparr>col_input = map_option sint (input_tokens u),
      col_output = map_option sint (output_tokens u),
      col_total = map_option sint (total_tokens u),
      col_cache_read = map_option sint (cache_read_input_tokens u),
      col_cache_write = map_option sint (cache_write_input_tokens u)\<rparr>"

definition columns_of_ledger :: "MessageUsage \<Rightarrow> TokenColumns" where
  "columns_of_ledger u =
     \<lparr>col_input = map_option sint (mu_input_tokens u),
      col_output = map_option sint (mu_output_tokens u),
      col_total = map_option sint (mu_total_tokens u),
      col_cache_read = map_option sint (mu_cache_read_tokens u),
      col_cache_write = map_option sint (mu_cache_write_tokens u)\<rparr>"

record SessionRow =
  sr_id :: string
  sr_working_dir :: string
  sr_name :: string
  sr_description :: string
  sr_user_set_name :: bool
  sr_session_type :: SessionType
  sr_created_at :: int
  sr_updated_at :: int
  sr_extension_data :: json_object
  sr_usage :: TokenColumns
  sr_accumulated :: TokenColumns
  sr_accumulated_cost :: "f64 option"
  sr_schedule_id :: "string option"
  sr_recipe :: "Recipe option"
  sr_user_recipe_values :: "(string \<times> string) list option"
  sr_provider_name :: "string option"
  sr_model_config :: "json option"
  sr_goose_mode :: GooseMode
  sr_archived_at :: "int option"
  sr_project_id :: "string option"
  sr_parent_session_id :: "string option"

record MessageRow =
  mr_id :: nat
  mr_message_id :: "string option"
  mr_session_id :: string
  mr_role :: string
  mr_content :: "MessageContentBlock list"
  mr_created :: int
  mr_metadata :: "MessageMetadata option"

record LedgerRow =
  lr_session_id :: string
  lr_created :: int
  lr_model :: "string option"
  lr_tokens :: TokenColumns
  lr_cost :: "f64 option"
  lr_cost_source :: "string option"
  lr_is_compaction :: bool

record Store =
  st_sessions :: "SessionRow list"
  st_messages :: "MessageRow list"
  st_next_row :: nat
  st_ledger :: "LedgerRow list"

text \<open>A session as the code reads it.\<close>

record Session =
  s_id :: string
  s_working_dir :: string
  s_name :: string
  s_user_set_name :: bool
  s_session_type :: SessionType
  s_created_at :: int
  s_updated_at :: int
  s_extension_data :: json_object
  s_usage :: Usage
  s_accumulated_usage :: Usage
  s_accumulated_cost :: "f64 option"
  s_schedule_id :: "string option"
  s_recipe :: "Recipe option"
  s_user_recipe_values :: "(string \<times> string) list option"
  s_conversation :: "Conversation option"
  s_message_count :: nat
  s_last_message_at :: "int option"
  s_provider_name :: "string option"
  s_model_config :: "json option"
  s_goose_mode :: GooseMode
  s_archived_at :: "int option"
  s_project_id :: "string option"
  s_parent_session_id :: "string option"

subsection \<open>Rows and messages\<close>

fun role_to_string :: "Role \<Rightarrow> string" where
  "role_to_string User = ''user''"
| "role_to_string Assistant = ''assistant''"

definition role_of_string :: "string \<Rightarrow> Role option" where
  "role_of_string s =
     (if s = ''user'' then Some User else if s = ''assistant'' then Some Assistant else None)"

definition message_of_row :: "MessageRow \<Rightarrow> Message option" where
  "message_of_row r =
     (case role_of_string (mr_role r) of
        None \<Rightarrow> None
      | Some role \<Rightarrow>
          (let m = Message_new role (mr_created r) (mr_content r);
               m1 = m\<lparr>m_metadata :=
                       (case mr_metadata r of Some md \<Rightarrow> md | None \<Rightarrow> MessageMetadata_default)\<rparr>
           in Some (case mr_message_id r of Some i \<Rightarrow> with_id i m1 | None \<Rightarrow> m1)))"

definition rows_of :: "string \<Rightarrow> Store \<Rightarrow> MessageRow list" where
  "rows_of sid st = filter (\<lambda>r. mr_session_id r = sid) (st_messages st)"

definition order_by_created :: "MessageRow list \<Rightarrow> MessageRow list" where
  "order_by_created = sort_key (\<lambda>r. (mr_created r, mr_id r))"

definition get_conversation :: "string \<Rightarrow> Store \<Rightarrow> Conversation" where
  "get_conversation sid st = filter_map message_of_row (order_by_created (rows_of sid st))"

definition session_exists :: "string \<Rightarrow> Store \<Rightarrow> bool" where
  "session_exists sid st = list_ex (\<lambda>s. sr_id s = sid) (st_sessions st)"

definition update_session :: "string \<Rightarrow> (SessionRow \<Rightarrow> SessionRow) \<Rightarrow> Store \<Rightarrow> Store" where
  "update_session sid f st =
     st\<lparr>st_sessions := map (\<lambda>s. if sr_id s = sid then f s else s) (st_sessions st)\<rparr>"

text \<open>\<open>tool_result_serde.rs\<close>: an error of a tool call or of a tool result is written as the text of its
  \<open>Display\<close> and read back as an internal error with that text and no data; a success is written and read with
  its value. A field \<open>Option<Value>\<close> that holds null is written as null and read back as \<open>None\<close>.\<close>

definition INTERNAL_ERROR :: int where
  "INTERNAL_ERROR = -32603"

definition serialize_result :: "ext \<Rightarrow> 'a ToolResult \<Rightarrow> string + 'a" where
  "serialize_result E r = (case r of Inr v \<Rightarrow> Inr v | Inl e \<Rightarrow> Inl (show_error_data E e))"

definition deserialize_result :: "string + 'a \<Rightarrow> 'a ToolResult" where
  "deserialize_result r =
     (case r of Inr v \<Rightarrow> Inr v | Inl s \<Rightarrow> Inl \<lparr>ed_code = INTERNAL_ERROR, ed_message = s, ed_data = None\<rparr>)"

definition stored_result :: "ext \<Rightarrow> 'a ToolResult \<Rightarrow> 'a ToolResult" where
  "stored_result E r = deserialize_result (serialize_result E r)"

definition stored_value :: "json option \<Rightarrow> json option" where
  "stored_value v = (if v = Some JNull then None else v)"

fun stored_block :: "ext \<Rightarrow> MessageContentBlock \<Rightarrow> MessageContentBlock" where
  "stored_block E (ToolRequest r) =
     ToolRequest (r\<lparr>tr_tool_call := stored_result E (tr_tool_call r), tr_tool_meta := stored_value (tr_tool_meta r)\<rparr>)"
| "stored_block E (ToolResponse r) = ToolResponse (r\<lparr>tp_tool_result := stored_result E (tp_tool_result r)\<rparr>)"
| "stored_block E (FrontendToolRequest r) =
     FrontendToolRequest (r\<lparr>ft_tool_call := stored_result E (ft_tool_call r)\<rparr>)"
| "stored_block E (SystemNotification n) = SystemNotification (n\<lparr>sn_data := stored_value (sn_data n)\<rparr>)"
| "stored_block E b = b"

definition stored_content :: "ext \<Rightarrow> MessageContentBlock list \<Rightarrow> MessageContentBlock list" where
  "stored_content E = map (stored_block E)"

definition insert_message_row ::
  "ext \<Rightarrow> string \<Rightarrow> string \<Rightarrow> int \<Rightarrow> Message \<Rightarrow> Store \<Rightarrow> error + Store" where
  "insert_message_row E sid mid created message st =
     (if session_exists sid st
      then Inr (st\<lparr>st_messages := st_messages st @
                    [\<lparr>mr_id = st_next_row st, mr_message_id = Some mid, mr_session_id = sid,
                      mr_role = role_to_string (m_role message),
                      mr_content = stored_content E (m_content message),
                      mr_created = created, mr_metadata = Some (m_metadata message)\<rparr>],
                   st_next_row := Suc (st_next_row st)\<rparr>)
      else Inl ForeignKeyViolation)"

definition message_id_or :: "string \<Rightarrow> string \<Rightarrow> Message \<Rightarrow> string" where
  "message_id_or sid uuid message =
     (case m_id message of Some i \<Rightarrow> i | None \<Rightarrow> ''msg_'' @ sid @ ''_'' @ uuid)"

definition latest_created :: "string \<Rightarrow> Store \<Rightarrow> int option" where
  "latest_created sid st =
     (case map mr_created (rows_of sid st) of [] \<Rightarrow> None | t # ts \<Rightarrow> Some (fold max ts t))"

definition add_message :: "ext \<Rightarrow> string \<Rightarrow> int \<Rightarrow> string \<Rightarrow> Message \<Rightarrow> Store \<Rightarrow> error + Store" where
  "add_message E sid now uuid message st =
     (let created = max (m_created message)
                        (case latest_created sid st of Some t \<Rightarrow> t | None \<Rightarrow> m_created message)
      in case insert_message_row E sid (message_id_or sid uuid message) created message st of
           Inl e \<Rightarrow> Inl e
         | Inr st' \<Rightarrow> Inr (update_session sid (\<lambda>s. s\<lparr>sr_updated_at := now\<rparr>) st'))"

definition delete_messages :: "(MessageRow \<Rightarrow> bool) \<Rightarrow> Store \<Rightarrow> Store" where
  "delete_messages p st = st\<lparr>st_messages := filter (\<lambda>r. \<not> p r) (st_messages st)\<rparr>"

fun insert_all ::
  "ext \<Rightarrow> string \<Rightarrow> (nat \<Rightarrow> string) \<Rightarrow> nat \<Rightarrow> Message list \<Rightarrow> Store \<Rightarrow> error + Store" where
  "insert_all E sid uuid n [] st = Inr st"
| "insert_all E sid uuid n (m # ms) st =
     (case insert_message_row E sid (message_id_or sid (uuid n) m) (m_created m) m st of
        Inl e \<Rightarrow> Inl e
      | Inr st' \<Rightarrow> insert_all E sid uuid (Suc n) ms st')"

definition replace_conversation ::
  "ext \<Rightarrow> string \<Rightarrow> (nat \<Rightarrow> string) \<Rightarrow> Conversation \<Rightarrow> Store \<Rightarrow> error + Store" where
  "replace_conversation E sid uuid c st =
     insert_all E sid uuid 0 c (delete_messages (\<lambda>r. mr_session_id r = sid) st)"

definition truncate_conversation :: "string \<Rightarrow> int \<Rightarrow> Store \<Rightarrow> Store" where
  "truncate_conversation sid ts st =
     delete_messages (\<lambda>r. mr_session_id r = sid \<and> ts \<le> mr_created r) st"

definition truncate_conversation_from_message :: "string \<Rightarrow> string \<Rightarrow> Store \<Rightarrow> Store" where
  "truncate_conversation_from_message sid mid st =
     (case first_opt (order_by_created
             (filter (\<lambda>r. mr_message_id r = Some mid) (rows_of sid st))) of
        Some b \<Rightarrow>
          delete_messages (\<lambda>r. mr_session_id r = sid \<and>
            (mr_created b < mr_created r \<or> (mr_created r = mr_created b \<and> mr_id b \<le> mr_id r))) st
      | None \<Rightarrow> st)"

definition update_rows :: "(MessageRow \<Rightarrow> bool) \<Rightarrow> (MessageRow \<Rightarrow> MessageRow) \<Rightarrow> Store \<Rightarrow> Store" where
  "update_rows p f st = st\<lparr>st_messages := map (\<lambda>r. if p r then f r else r) (st_messages st)\<rparr>"

definition update_message_metadata ::
  "string \<Rightarrow> string \<Rightarrow> (MessageMetadata \<Rightarrow> MessageMetadata) \<Rightarrow> Store \<Rightarrow> error + Store" where
  "update_message_metadata sid mid f st =
     (case first_opt (filter (\<lambda>r. mr_message_id r = Some mid) (rows_of sid st)) of
        None \<Rightarrow> Inl RowNotFound
      | Some r \<Rightarrow>
          (case mr_metadata r of
             None \<Rightarrow> Inl ColumnDecode
           | Some md \<Rightarrow>
               Inr (update_rows (\<lambda>r. mr_message_id r = Some mid \<and> mr_session_id r = sid)
                      (\<lambda>r. r\<lparr>mr_metadata := Some (f md)\<rparr>) st)))"

subsection \<open>Tool request metadata\<close>

definition merge_tool_meta :: "json option \<Rightarrow> json \<Rightarrow> json" where
  "merge_tool_meta existing patch =
     (let base = (case existing of Some (JObj m) \<Rightarrow> m | _ \<Rightarrow> [])
      in JObj (case patch of JObj p \<Rightarrow> fold (\<lambda>(k, v) b. obj_insert k v b) p base | _ \<Rightarrow> base))"

definition requests_tool :: "string \<Rightarrow> MessageContentBlock \<Rightarrow> bool" where
  "requests_tool tid b = (case b of ToolRequest r \<Rightarrow> tr_id r = tid | _ \<Rightarrow> False)"

text \<open>Patches the first request with this id; \<open>None\<close> if there is none.\<close>

fun patch_content ::
  "string \<Rightarrow> json \<Rightarrow> MessageContentBlock list \<Rightarrow> MessageContentBlock list option" where
  "patch_content tid patch [] = None"
| "patch_content tid patch (b # bs) =
     (case b of
        ToolRequest r \<Rightarrow>
          if tr_id r = tid
          then Some (ToolRequest (r\<lparr>tr_tool_meta := Some (merge_tool_meta (tr_tool_meta r) patch)\<rparr>) # bs)
          else map_option ((#) b) (patch_content tid patch bs)
      | _ \<Rightarrow> map_option ((#) b) (patch_content tid patch bs))"

definition update_tool_request_meta_by_message_id ::
  "ext \<Rightarrow> string \<Rightarrow> string \<Rightarrow> string \<Rightarrow> json \<Rightarrow> Store \<Rightarrow> Store" where
  "update_tool_request_meta_by_message_id E sid mid tid patch st =
     (case find_map
             (\<lambda>r. map_option (\<lambda>c. (mr_id r, c)) (patch_content tid patch (mr_content r)))
             (sort_key mr_id (filter (\<lambda>r. mr_message_id r = Some mid) (rows_of sid st))) of
        None \<Rightarrow> st
      | Some (rid, c) \<Rightarrow> update_rows (\<lambda>r. mr_id r = rid) (\<lambda>r. r\<lparr>mr_content := stored_content E c\<rparr>) st)"

definition update_tool_request_meta :: "ext \<Rightarrow> string \<Rightarrow> string \<Rightarrow> json \<Rightarrow> Store \<Rightarrow> Store" where
  "update_tool_request_meta E sid tid patch st =
     (case List.find (\<lambda>r. list_ex (requests_tool tid) (mr_content r))
             (take 100 (rev (sort_key mr_id (rows_of sid st)))) of
        None \<Rightarrow> st
      | Some r \<Rightarrow>
          (case mr_message_id r of
             None \<Rightarrow> st
           | Some mid \<Rightarrow> update_tool_request_meta_by_message_id E sid mid tid patch st))"

end
