(* ===== verification/Session_Ops.thy ===== *)
theory Session_Ops
  imports Session_Store
begin

text \<open>
  \<open>session/session_manager.rs\<close>, second part: creating, reading, updating, copying and deleting
  sessions, and the accounting of token usage in the session row and in the usage ledger.
\<close>

subsection \<open>Creating and deleting\<close>

text \<open>\<open>CAST(x AS INTEGER)\<close> of SQLite: leading blanks, a sign, then the longest prefix of digits.\<close>

fun cast_digits :: "int \<Rightarrow> string \<Rightarrow> int" where
  "cast_digits acc [] = acc"
| "cast_digits acc (c # cs) =
     (if 48 \<le> byte c \<and> byte c \<le> 57 then cast_digits (10 * acc + int (byte c - 48)) cs else acc)"

definition cast_integer :: "string \<Rightarrow> int" where
  "cast_integer s =
     (case dropWhile ascii_ws s of
        [] \<Rightarrow> 0
      | c # cs \<Rightarrow>
          if byte c = 45 then - cast_digits 0 cs
          else if byte c = 43 then cast_digits 0 cs
          else cast_digits 0 (c # cs))"

text \<open>\<open>id LIKE today || '_%'\<close>: the underscore stands for any one character.\<close>

definition same_day :: "string \<Rightarrow> string \<Rightarrow> bool" where
  "same_day today i = (starts_with today i \<and> length today < length i)"

definition next_number :: "string \<Rightarrow> SessionRow list \<Rightarrow> int" where
  "next_number today rows =
     (case map (\<lambda>s. cast_integer (drop 9 (sr_id s))) (filter (\<lambda>s. same_day today (sr_id s)) rows) of
        [] \<Rightarrow> 1
      | n # ns \<Rightarrow> fold max ns n + 1)"

definition new_session_row ::
  "string \<Rightarrow> int \<Rightarrow> string \<Rightarrow> string \<Rightarrow> SessionType \<Rightarrow> GooseMode \<Rightarrow> SessionRow" where
  "new_session_row sid now working_dir name session_type goose_mode =
     \<lparr>sr_id = sid, sr_working_dir = working_dir, sr_name = name, sr_description = [],
      sr_user_set_name = False, sr_session_type = session_type, sr_created_at = now,
      sr_updated_at = now, sr_extension_data = [], sr_usage = no_tokens,
      sr_accumulated = no_tokens, sr_accumulated_cost = None, sr_schedule_id = None,
      sr_recipe = None, sr_user_recipe_values = None, sr_provider_name = None,
      sr_model_config = None, sr_goose_mode = goose_mode, sr_archived_at = None,
      sr_project_id = None, sr_parent_session_id = None\<rparr>"

definition create_session ::
  "string \<Rightarrow> int \<Rightarrow> string \<Rightarrow> string \<Rightarrow> SessionType \<Rightarrow> GooseMode \<Rightarrow> Store \<Rightarrow> error + (string \<times> Store)"
where
  "create_session today now working_dir name session_type goose_mode st =
     (let sid = today @ ''_'' @ show_int (next_number today (st_sessions st))
      in if session_exists sid st then Inl UniqueViolation
         else Inr (sid, st\<lparr>st_sessions := st_sessions st @
                [new_session_row sid now working_dir name session_type goose_mode]\<rparr>))"

definition delete_session :: "string \<Rightarrow> Store \<Rightarrow> error + Store" where
  "delete_session sid st =
     (if session_exists sid st
      then Inr (st\<lparr>st_messages := filter (\<lambda>r. mr_session_id r \<noteq> sid) (st_messages st),
                   st_ledger := filter (\<lambda>l. lr_session_id l \<noteq> sid) (st_ledger st),
                   st_sessions := filter (\<lambda>s. sr_id s \<noteq> sid) (st_sessions st)\<rparr>)
      else Inl (Anyhow ''Session not found''))"

subsection \<open>Reading\<close>

definition MILLISECOND_TIMESTAMP_THRESHOLD :: int where
  "MILLISECOND_TIMESTAMP_THRESHOLD = 10000000000"

definition message_timestamp_to_datetime :: "sql_ext \<Rightarrow> int \<Rightarrow> int option" where
  "message_timestamp_to_datetime X ts =
     timestamp_opt X (if MILLISECOND_TIMESTAMP_THRESHOLD < ts then ts div 1000 else ts)"

text \<open>Reading an \<open>Option<i32>\<close> column: an error, or the value. \<open>.ok().flatten()\<close> turns an error
  into \<open>None\<close>.\<close>

definition get_i32 :: "sql_ext \<Rightarrow> int option \<Rightarrow> error + i32 option" where
  "get_i32 X c =
     (case c of
        None \<Rightarrow> Inr None
      | Some v \<Rightarrow> (case sql_i32 X v of None \<Rightarrow> Inl ColumnDecode | Some w \<Rightarrow> Inr (Some w)))"

definition get_i32_ok :: "sql_ext \<Rightarrow> int option \<Rightarrow> i32 option" where
  "get_i32_ok X c = (case get_i32 X c of Inl _ \<Rightarrow> None | Inr w \<Rightarrow> w)"

definition usage_of_columns :: "sql_ext \<Rightarrow> TokenColumns \<Rightarrow> error + Usage" where
  "usage_of_columns X c =
     (case (get_i32 X (col_input c), get_i32 X (col_output c), get_i32 X (col_total c)) of
        (Inr i, Inr out, Inr t) \<Rightarrow>
          Inr (Usage i out t (get_i32_ok X (col_cache_read c)) (get_i32_ok X (col_cache_write c)))
      | _ \<Rightarrow> Inl ColumnDecode)"

definition session_of_row :: "sql_ext \<Rightarrow> SessionRow \<Rightarrow> error + Session" where
  "session_of_row X r =
     (case (usage_of_columns X (sr_usage r), usage_of_columns X (sr_accumulated r)) of
        (Inr u, Inr acc) \<Rightarrow>
          Inr \<lparr>s_id = sr_id r, s_working_dir = sr_working_dir r,
               s_name = (if sr_name r \<noteq> [] then sr_name r else sr_description r),
               s_user_set_name = sr_user_set_name r, s_session_type = sr_session_type r,
               s_created_at = sr_created_at r, s_updated_at = sr_updated_at r,
               s_extension_data = sr_extension_data r, s_usage = u, s_accumulated_usage = acc,
               s_accumulated_cost = sr_accumulated_cost r, s_schedule_id = sr_schedule_id r,
               s_recipe = sr_recipe r, s_user_recipe_values = sr_user_recipe_values r,
               s_conversation = None, s_message_count = 0, s_last_message_at = None,
               s_provider_name = sr_provider_name r, s_model_config = sr_model_config r,
               s_goose_mode = sr_goose_mode r, s_archived_at = sr_archived_at r,
               s_project_id = sr_project_id r, s_parent_session_id = sr_parent_session_id r\<rparr>
      | _ \<Rightarrow> Inl ColumnDecode)"

definition max_opt :: "int list \<Rightarrow> int option" where
  "max_opt ts = (case ts of [] \<Rightarrow> None | t # ts' \<Rightarrow> Some (fold max ts' t))"

text \<open>Without messages the count and the latest timestamp come from the rows themselves: the SQL
  reads \<open>userVisible\<close> as true when there is no metadata, and does not look at the role.\<close>

definition get_session :: "sql_ext \<Rightarrow> string \<Rightarrow> bool \<Rightarrow> Store \<Rightarrow> error + Session" where
  "get_session X sid include_messages st =
     (case List.find (\<lambda>s. sr_id s = sid) (st_sessions st) of
        None \<Rightarrow> Inl (Anyhow ''Session not found'')
      | Some r \<Rightarrow>
          (case session_of_row X r of
             Inl e \<Rightarrow> Inl e
           | Inr s \<Rightarrow>
               if include_messages
               then (let conv = get_conversation sid st
                     in Inr (s\<lparr>s_message_count := length (filter is_user_visible conv),
                               s_last_message_at :=
                                 max_opt (filter_map (message_timestamp_to_datetime X \<circ> m_created) conv),
                               s_conversation := Some conv\<rparr>))
               else (let rows = rows_of sid st
                     in Inr (s\<lparr>s_message_count :=
                                 length (filter (\<lambda>r. case mr_metadata r of None \<Rightarrow> True
                                                     | Some md \<Rightarrow> user_visible md) rows),
                               s_last_message_at :=
                                 Option.bind
                                   (max_opt (map (\<lambda>r.
                                      if MILLISECOND_TIMESTAMP_THRESHOLD < mr_created r
                                      then mr_created r div 1000 else mr_created r) rows))
                                   (message_timestamp_to_datetime X)\<rparr>))))"

subsection \<open>Updating\<close>

record SessionUpdateBuilder =
  ub_name :: "string option"
  ub_user_set_name :: "bool option"
  ub_session_type :: "SessionType option"
  ub_working_dir :: "string option"
  ub_extension_data :: "json_object option"
  ub_usage :: "Usage option"
  ub_accumulated_usage :: "Usage option"
  ub_accumulated_cost :: "f64 option option"
  ub_schedule_id :: "string option option"
  ub_recipe :: "Recipe option option"
  ub_user_recipe_values :: "(string \<times> string) list option option"
  ub_provider_name :: "string option option"
  ub_model_config :: "json option option"
  ub_goose_mode :: "GooseMode option"
  ub_archived_at :: "int option option"
  ub_project_id :: "string option option"
  ub_parent_session_id :: "string option option"

definition SessionUpdateBuilder_new :: SessionUpdateBuilder where
  "SessionUpdateBuilder_new =
     \<lparr>ub_name = None, ub_user_set_name = None, ub_session_type = None, ub_working_dir = None,
      ub_extension_data = None, ub_usage = None, ub_accumulated_usage = None,
      ub_accumulated_cost = None, ub_schedule_id = None, ub_recipe = None,
      ub_user_recipe_values = None, ub_provider_name = None, ub_model_config = None,
      ub_goose_mode = None, ub_archived_at = None, ub_project_id = None,
      ub_parent_session_id = None\<rparr>"

definition user_provided_name :: "string \<Rightarrow> SessionUpdateBuilder \<Rightarrow> SessionUpdateBuilder" where
  "user_provided_name name b =
     (if trim name \<noteq> [] then b\<lparr>ub_name := Some (trim name), ub_user_set_name := Some True\<rparr> else b)"

definition system_generated_name :: "string \<Rightarrow> SessionUpdateBuilder \<Rightarrow> SessionUpdateBuilder" where
  "system_generated_name name b =
     (if trim name \<noteq> [] then b\<lparr>ub_name := Some (trim name), ub_user_set_name := Some False\<rparr> else b)"

definition set_opt :: "'a option \<Rightarrow> 'a \<Rightarrow> 'a" where
  "set_opt new old = (case new of Some v \<Rightarrow> v | None \<Rightarrow> old)"

definition apply_builder :: "SessionUpdateBuilder \<Rightarrow> SessionRow \<Rightarrow> SessionRow" where
  "apply_builder b r =
     r\<lparr>sr_name := set_opt (ub_name b) (sr_name r),
       sr_user_set_name := set_opt (ub_user_set_name b) (sr_user_set_name r),
       sr_session_type := set_opt (ub_session_type b) (sr_session_type r),
       sr_working_dir := set_opt (ub_working_dir b) (sr_working_dir r),
       sr_extension_data := set_opt (ub_extension_data b) (sr_extension_data r),
       sr_usage := set_opt (map_option columns_of_usage (ub_usage b)) (sr_usage r),
       sr_accumulated := set_opt (map_option columns_of_usage (ub_accumulated_usage b)) (sr_accumulated r),
       sr_accumulated_cost := set_opt (ub_accumulated_cost b) (sr_accumulated_cost r),
       sr_schedule_id := set_opt (ub_schedule_id b) (sr_schedule_id r),
       sr_recipe := set_opt (ub_recipe b) (sr_recipe r),
       sr_user_recipe_values := set_opt (ub_user_recipe_values b) (sr_user_recipe_values r),
       sr_provider_name := set_opt (ub_provider_name b) (sr_provider_name r),
       sr_model_config := set_opt (ub_model_config b) (sr_model_config r),
       sr_goose_mode := set_opt (ub_goose_mode b) (sr_goose_mode r),
       sr_archived_at := set_opt (ub_archived_at b) (sr_archived_at r),
       sr_project_id := set_opt (ub_project_id b) (sr_project_id r),
       sr_parent_session_id := set_opt (ub_parent_session_id b) (sr_parent_session_id r)\<rparr>"

definition apply_update :: "string \<Rightarrow> int \<Rightarrow> SessionUpdateBuilder \<Rightarrow> Store \<Rightarrow> error + Store" where
  "apply_update sid now b st =
     (if b = SessionUpdateBuilder_new then Inr st
      else if session_exists sid st
      then Inr (update_session sid (\<lambda>r. (apply_builder b r)\<lparr>sr_updated_at := now\<rparr>) st)
      else Inl (Anyhow (''Session not found: '' @ sid)))"

subsection \<open>Usage accounting\<close>

definition coalesce :: "'a \<Rightarrow> 'a option \<Rightarrow> 'a" where
  "coalesce d c = (case c of Some v \<Rightarrow> v | None \<Rightarrow> d)"

text \<open>\<open>SUM\<close> skips nulls; over no value at all it is null.\<close>

definition sql_sum :: "'a::monoid_add option list \<Rightarrow> 'a option" where
  "sql_sum cs = (case filter_map id cs of [] \<Rightarrow> None | vs \<Rightarrow> Some (sum_list vs))"

definition ledger_of :: "string \<Rightarrow> Store \<Rightarrow> LedgerRow list" where
  "ledger_of sid st = filter (\<lambda>l. lr_session_id l = sid) (st_ledger st)"

definition ledger_sum :: "(TokenColumns \<Rightarrow> int option) \<Rightarrow> string \<Rightarrow> Store \<Rightarrow> int option" where
  "ledger_sum col sid st = sql_sum (map (\<lambda>l. col (lr_tokens l)) (ledger_of sid st))"

definition ledger_cost :: "string \<Rightarrow> Store \<Rightarrow> f64 option" where
  "ledger_cost sid st = sql_sum (map lr_cost (ledger_of sid st))"

text \<open>The first statement: what the session row has accumulated beyond the ledger is carried into it.\<close>

definition carry_needed :: "SessionRow \<Rightarrow> Store \<Rightarrow> bool" where
  "carry_needed r st =
     (coalesce 0 (ledger_sum col_input (sr_id r) st) < coalesce 0 (col_input (sr_accumulated r)) \<or>
      coalesce 0 (ledger_sum col_output (sr_id r) st) < coalesce 0 (col_output (sr_accumulated r)) \<or>
      coalesce 0 (ledger_sum col_total (sr_id r) st) < coalesce 0 (col_total (sr_accumulated r)) \<or>
      coalesce 0 (ledger_cost (sr_id r) st) + 1 / 10 ^ 9 < coalesce 0 (sr_accumulated_cost r))"

definition carry_column ::
  "(TokenColumns \<Rightarrow> int option) \<Rightarrow> SessionRow \<Rightarrow> Store \<Rightarrow> int option" where
  "carry_column col r st =
     Some (max (coalesce 0 (col (sr_accumulated r)) - coalesce 0 (ledger_sum col (sr_id r) st)) 0)"

definition carry_row :: "int \<Rightarrow> SessionRow \<Rightarrow> Store \<Rightarrow> LedgerRow" where
  "carry_row now r st =
     \<lparr>lr_session_id = sr_id r, lr_created = now, lr_model = None,
      lr_tokens = \<lparr>col_input = carry_column col_input r st, col_output = carry_column col_output r st,
                   col_total = carry_column col_total r st,
                   col_cache_read = carry_column col_cache_read r st,
                   col_cache_write = carry_column col_cache_write r st\<rparr>,
      lr_cost = (case sr_accumulated_cost r of
                   None \<Rightarrow> None
                 | Some c \<Rightarrow>
                     if c \<le> coalesce 0 (ledger_cost (sr_id r) st) then None
                     else Some (c - coalesce 0 (ledger_cost (sr_id r) st))),
      lr_cost_source = Some ''carried_forward'', lr_is_compaction = False\<rparr>"

definition carry_forward :: "string \<Rightarrow> int \<Rightarrow> Store \<Rightarrow> Store" where
  "carry_forward sid now st =
     st\<lparr>st_ledger := st_ledger st @
       map (\<lambda>r. carry_row now r st)
         (filter (\<lambda>r. sr_id r = sid \<and> carry_needed r st) (st_sessions st))\<rparr>"

definition add_columns :: "TokenColumns \<Rightarrow> TokenColumns \<Rightarrow> TokenColumns" where
  "add_columns acc c =
     \<lparr>col_input = Some (coalesce 0 (col_input acc) + coalesce 0 (col_input c)),
      col_output = Some (coalesce 0 (col_output acc) + coalesce 0 (col_output c)),
      col_total = Some (coalesce 0 (col_total acc) + coalesce 0 (col_total c)),
      col_cache_read = Some (coalesce 0 (col_cache_read acc) + coalesce 0 (col_cache_read c)),
      col_cache_write = Some (coalesce 0 (col_cache_write acc) + coalesce 0 (col_cache_write c))\<rparr>"

definition accumulate :: "string option \<Rightarrow> Usage \<Rightarrow> MessageUsage \<Rightarrow> int \<Rightarrow> SessionRow \<Rightarrow> SessionRow" where
  "accumulate schedule_id current_usage entry now r =
     r\<lparr>sr_schedule_id := schedule_id,
       sr_usage := columns_of_usage current_usage,
       sr_accumulated := add_columns (sr_accumulated r) (columns_of_ledger entry),
       sr_accumulated_cost :=
         (case mu_cost entry of
            None \<Rightarrow> sr_accumulated_cost r
          | Some c \<Rightarrow> Some (coalesce 0 (sr_accumulated_cost r) + c)),
       sr_updated_at := now\<rparr>"

fun cost_source_string :: "CostSource \<Rightarrow> string" where
  "cost_source_string ProviderReported = ''provider_reported''"
| "cost_source_string Estimated = ''estimated''"

definition usage_ledger_row :: "string \<Rightarrow> int \<Rightarrow> string option \<Rightarrow> MessageUsage \<Rightarrow> LedgerRow" where
  "usage_ledger_row sid now model entry =
     \<lparr>lr_session_id = sid, lr_created = now, lr_model = model, lr_tokens = columns_of_ledger entry,
      lr_cost = mu_cost entry, lr_cost_source = map_option cost_source_string (mu_cost_source entry),
      lr_is_compaction = mu_is_compaction entry\<rparr>"

definition record_usage_metrics ::
  "string \<Rightarrow> int \<Rightarrow> string option \<Rightarrow> Usage \<Rightarrow> string \<Rightarrow> MessageUsage \<Rightarrow> Store \<Rightarrow> error + Store" where
  "record_usage_metrics sid now schedule_id current_usage model entry st =
     (let st1 = carry_forward sid now st;
          st2 = update_session sid (accumulate schedule_id current_usage entry now) st1
      in if session_exists sid st2
         then Inr (st2\<lparr>st_ledger := st_ledger st2 @ [usage_ledger_row sid now (Some model) entry]\<rparr>)
         else Inl ForeignKeyViolation)"

text \<open>\<open>WITH RECURSIVE tree\<close>: the session and its descendants. Each round adds the children of what is
  there; as many rounds as there are sessions reach the fixed point.\<close>

definition tree_step :: "SessionRow list \<Rightarrow> string list \<Rightarrow> string list" where
  "tree_step rows ids =
     ids @ filter (\<lambda>i. i \<notin> set ids)
       (map sr_id (filter (\<lambda>s. \<exists>p \<in> set ids. sr_parent_session_id s = Some p) rows))"

definition session_tree :: "string \<Rightarrow> SessionRow list \<Rightarrow> string list" where
  "session_tree sid rows =
     (tree_step rows ^^ length rows) (map sr_id (filter (\<lambda>s. sr_id s = sid) rows))"

definition larger :: "int option \<Rightarrow> int option \<Rightarrow> int" where
  "larger acc l = max (coalesce 0 acc) (coalesce 0 l)"

definition larger_cost :: "f64 option \<Rightarrow> f64 option \<Rightarrow> f64 option" where
  "larger_cost acc l =
     (if acc \<noteq> None \<or> l \<noteq> None then Some (max (coalesce 0 acc) (coalesce 0 l)) else None)"

definition total_of :: "(TokenColumns \<Rightarrow> int option) \<Rightarrow> SessionRow list \<Rightarrow> Store \<Rightarrow> int" where
  "total_of col rows st =
     sum_list (map (\<lambda>r. larger (col (sr_accumulated r)) (ledger_sum col (sr_id r) st)) rows)"

definition total_cost :: "SessionRow list \<Rightarrow> Store \<Rightarrow> f64 option" where
  "total_cost rows st =
     fold (\<lambda>r acc. case larger_cost (sr_accumulated_cost r) (ledger_cost (sr_id r) st) of
                     None \<Rightarrow> acc
                   | Some c \<Rightarrow> Some (coalesce 0 acc + c)) rows None"

definition i32_or_max :: "int \<Rightarrow> i32 option" where
  "i32_or_max v = Some (if - (2 ^ 31) \<le> v \<and> v < 2 ^ 31 then word_of_int v else word_of_int (2 ^ 31 - 1))"

record SessionUsageTotals =
  su_accumulated_usage :: Usage
  su_accumulated_cost :: "f64 option"

definition get_session_usage_totals :: "string \<Rightarrow> Store \<Rightarrow> SessionUsageTotals" where
  "get_session_usage_totals sid st =
     (let tree = session_tree sid (st_sessions st);
          rows = filter (\<lambda>r. sr_id r \<in> set tree) (st_sessions st)
      in \<lparr>su_accumulated_usage =
            with_cache_tokens
              (Usage_new (i32_or_max (total_of col_input rows st))
                         (i32_or_max (total_of col_output rows st))
                         (i32_or_max (total_of col_total rows st)))
              (i32_or_max (total_of col_cache_read rows st))
              (i32_or_max (total_of col_cache_write rows st)),
          su_accumulated_cost = total_cost rows st\<rparr>)"

record SessionInsights =
  si_total_sessions :: nat
  si_total_tokens :: int

definition get_insights :: "SessionType list \<Rightarrow> Store \<Rightarrow> SessionInsights" where
  "get_insights types st =
     (if types = [] then \<lparr>si_total_sessions = 0, si_total_tokens = 0\<rparr>
      else (let rows = filter (\<lambda>s. sr_session_type s \<in> set types) (st_sessions st)
            in \<lparr>si_total_sessions = length rows,
                si_total_tokens =
                  sum_list (map (\<lambda>s. case col_total (sr_accumulated s) of
                                       Some v \<Rightarrow> v
                                     | None \<Rightarrow> coalesce 0 (col_total (sr_usage s))) rows)\<rparr>))"

subsection \<open>Copying\<close>

definition copy_builder :: "Session \<Rightarrow> SessionUpdateBuilder" where
  "copy_builder s =
     (let b = SessionUpdateBuilder_new\<lparr>ub_extension_data := Some (s_extension_data s),
                ub_schedule_id := Some (s_schedule_id s), ub_recipe := Some (s_recipe s),
                ub_user_recipe_values := Some (s_user_recipe_values s)\<rparr>;
          b1 = (case s_project_id s of Some p \<Rightarrow> b\<lparr>ub_project_id := Some (Some p)\<rparr> | None \<Rightarrow> b);
          b2 = (case s_provider_name s of Some p \<Rightarrow> b1\<lparr>ub_provider_name := Some (Some p)\<rparr> | None \<Rightarrow> b1);
          b3 = (case s_model_config s of Some mc \<Rightarrow> b2\<lparr>ub_model_config := Some (Some mc)\<rparr> | None \<Rightarrow> b2)
      in b3\<lparr>ub_goose_mode := Some (s_goose_mode s)\<rparr>)"

text \<open>\<open>copy_session\<close> is a sequence of transactions: what the earlier ones committed stays when a later
  one fails.\<close>

definition copy_into ::
  "ext \<Rightarrow> sql_ext \<Rightarrow> int \<Rightarrow> (nat \<Rightarrow> string) \<Rightarrow> Session \<Rightarrow> string \<Rightarrow> Store \<Rightarrow> (error + Session) \<times> Store" where
  "copy_into E X now uuid s nid st =
     (case apply_update nid now (copy_builder s) st of
        Inl e \<Rightarrow> (Inl e, st)
      | Inr st1 \<Rightarrow>
          (case (case s_conversation s of
                   Some c \<Rightarrow> replace_conversation E nid uuid c st1
                 | None \<Rightarrow> Inr st1) of
             Inl e \<Rightarrow> (Inl e, st1)
           | Inr st2 \<Rightarrow> (get_session X nid True st2, st2)))"

definition copy_session ::
  "ext \<Rightarrow> sql_ext \<Rightarrow> string \<Rightarrow> int \<Rightarrow> (nat \<Rightarrow> string) \<Rightarrow> string \<Rightarrow> string \<Rightarrow> Store \<Rightarrow> (error + Session) \<times> Store"
where
  "copy_session E X today now uuid sid new_name st =
     (case get_session X sid True st of
        Inl e \<Rightarrow> (Inl e, st)
      | Inr s \<Rightarrow>
          (case create_session today now (s_working_dir s) new_name (s_session_type s) (s_goose_mode s) st of
             Inl e \<Rightarrow> (Inl e, st)
           | Inr (nid, st1) \<Rightarrow> copy_into E X now uuid s nid st1))"

end
