(* ===== verification/Hooks.thy ===== *)
theory Hooks
  imports Json
begin

text \<open>
  \<open>hooks/mod.rs\<close>: plugin hooks. A manager maps each event to its rules; \<open>emit\<close> runs the commands of
  every rule whose matcher matches, \<open>emit_blocking\<close> stops at the first command that denies.

  What runs outside the repository is the record \<open>hook_ext\<close>: the regex engine, the JSON parser and the
  hook processes (\<open>None\<close> for a process that cannot be spawned, fails to be awaited or times out). The
  output of a process is the text the code decodes it to. Every emission returns the commands it
  ran, in order.
\<close>

datatype HookEvent =
    PreToolUse | PostToolUse | PostToolUseFailure | SessionStart | SessionEnd | UserPromptSubmit
  | BeforeReadFile | AfterFileEdit | BeforeShellExecution | AfterShellExecution | Stop

fun hook_event_name :: "HookEvent \<Rightarrow> string" where
  "hook_event_name PreToolUse = ''PreToolUse''"
| "hook_event_name PostToolUse = ''PostToolUse''"
| "hook_event_name PostToolUseFailure = ''PostToolUseFailure''"
| "hook_event_name SessionStart = ''SessionStart''"
| "hook_event_name SessionEnd = ''SessionEnd''"
| "hook_event_name UserPromptSubmit = ''UserPromptSubmit''"
| "hook_event_name BeforeReadFile = ''BeforeReadFile''"
| "hook_event_name AfterFileEdit = ''AfterFileEdit''"
| "hook_event_name BeforeShellExecution = ''BeforeShellExecution''"
| "hook_event_name AfterShellExecution = ''AfterShellExecution''"
| "hook_event_name Stop = ''Stop''"

definition hook_event_from_name :: "string \<Rightarrow> HookEvent option" where
  "hook_event_from_name name =
     (if name = ''PreToolUse'' then Some PreToolUse
      else if name = ''PostToolUse'' then Some PostToolUse
      else if name = ''PostToolUseFailure'' then Some PostToolUseFailure
      else if name = ''SessionStart'' then Some SessionStart
      else if name = ''SessionEnd'' then Some SessionEnd
      else if name = ''UserPromptSubmit'' then Some UserPromptSubmit
      else if name = ''BeforeReadFile'' then Some BeforeReadFile
      else if name = ''AfterFileEdit'' then Some AfterFileEdit
      else if name = ''BeforeShellExecution'' then Some BeforeShellExecution
      else if name = ''AfterShellExecution'' then Some AfterShellExecution
      else if name = ''Stop'' then Some Stop
      else None)"

subsection \<open>Rules\<close>

record RawHookAction =
  ra_action_type :: "string option"
  ra_command :: "string option"
  ra_timeout :: "nat option"

record RawHookRule =
  rr_matcher :: "string option"
  rr_hooks :: "RawHookAction list"

type_synonym HooksFile = "(string \<times> RawHookRule list) list"

record LoadedAction =
  la_command :: string
  la_timeout :: nat

record LoadedRule =
  hr_plugin_name :: string
  hr_plugin_root :: string
  hr_matcher :: "string option"
  hr_actions :: "LoadedAction list"

type_synonym HookManager = "HookEvent \<Rightarrow> LoadedRule list"

record HookOutput =
  ho_code :: "int option"
  ho_stdout :: string
  ho_stderr :: string

record HookContext =
  hc_event :: string
  hc_session_id :: string
  hc_matcher_context :: "string option"
  hc_tool_name :: "string option"
  hc_tool_input :: "json option"
  hc_message :: "string option"
  hc_last_assistant_message :: "string option"
  hc_working_dir :: "string option"

record hook_ext =
  regex_valid :: "string \<Rightarrow> bool"
  regex_match :: "string \<Rightarrow> string \<Rightarrow> bool"
  json_parse :: "string \<Rightarrow> json option"
  run_hook :: "LoadedRule \<Rightarrow> LoadedAction \<Rightarrow> HookContext \<Rightarrow> HookOutput option"

definition DEFAULT_HOOK_TIMEOUT_SECS :: nat where
  "DEFAULT_HOOK_TIMEOUT_SECS = 30"

definition load_action :: "RawHookAction \<Rightarrow> LoadedAction option" where
  "load_action a =
     (if (case ra_action_type a of Some t \<Rightarrow> t | None \<Rightarrow> ''command'') = ''command''
      then map_option (\<lambda>cmd. \<lparr>la_command = cmd,
             la_timeout = (case ra_timeout a of Some t \<Rightarrow> t | None \<Rightarrow> DEFAULT_HOOK_TIMEOUT_SECS)\<rparr>)
             (ra_command a)
      else None)"

definition load_rule :: "hook_ext \<Rightarrow> string \<Rightarrow> string \<Rightarrow> RawHookRule \<Rightarrow> LoadedRule option" where
  "load_rule H plugin proot raw =
     (let actions = filter_map load_action (rr_hooks raw);
          loaded = (\<lambda>mt. if actions = [] then None
                        else Some \<lparr>hr_plugin_name = plugin, hr_plugin_root = proot, hr_matcher = mt,
                                   hr_actions = actions\<rparr>)
      in case rr_matcher raw of
           None \<Rightarrow> loaded None
         | Some pattern \<Rightarrow>
             if pattern = [] then loaded None
             else if regex_valid H pattern then loaded (Some pattern)
             else None)"

definition load_hooks_file :: "hook_ext \<Rightarrow> string \<Rightarrow> string \<Rightarrow> HooksFile \<Rightarrow> HookManager" where
  "load_hooks_file H plugin proot file event =
     concat (map (\<lambda>(name, raws). if hook_event_from_name name = Some event
                                 then filter_map (load_rule H plugin proot) raws else []) file)"

text \<open>\<open>from_plugins\<close> over the plugins whose \<open>hooks.json\<close> could be read and parsed.\<close>

definition from_plugins :: "hook_ext \<Rightarrow> (string \<times> string \<times> HooksFile) list \<Rightarrow> HookManager" where
  "from_plugins H plugins event =
     concat (map (\<lambda>(plugin, proot, file). load_hooks_file H plugin proot file event) plugins)"

definition has_hooks :: "HookManager \<Rightarrow> HookEvent \<Rightarrow> bool" where
  "has_hooks hm event = (hm event \<noteq> [])"

subsection \<open>Contexts\<close>

definition HookContext_new :: "HookEvent \<Rightarrow> string \<Rightarrow> HookContext" where
  "HookContext_new event sid =
     \<lparr>hc_event = hook_event_name event, hc_session_id = sid, hc_matcher_context = None,
      hc_tool_name = None, hc_tool_input = None, hc_message = None,
      hc_last_assistant_message = None, hc_working_dir = None\<rparr>"

definition with_tool :: "string \<Rightarrow> json option \<Rightarrow> HookContext \<Rightarrow> HookContext" where
  "with_tool name input c =
     c\<lparr>hc_matcher_context := Some name, hc_tool_name := Some name, hc_tool_input := input\<rparr>"

definition with_message :: "string \<Rightarrow> HookContext \<Rightarrow> HookContext" where
  "with_message msg c =
     c\<lparr>hc_matcher_context := Some (case hc_matcher_context c of Some m \<Rightarrow> m | None \<Rightarrow> msg),
       hc_message := Some msg\<rparr>"

definition with_last_assistant_message :: "string \<Rightarrow> HookContext \<Rightarrow> HookContext" where
  "with_last_assistant_message msg c =
     (if msg \<noteq> [] then c\<lparr>hc_last_assistant_message := Some msg\<rparr> else c)"

definition with_working_dir :: "string \<Rightarrow> HookContext \<Rightarrow> HookContext" where
  "with_working_dir d c = c\<lparr>hc_working_dir := Some d\<rparr>"

subsection \<open>Emission\<close>

datatype HookDecision = Allow | Deny (deny_why: string) (deny_plugin: string)

definition rule_matches :: "hook_ext \<Rightarrow> HookContext \<Rightarrow> LoadedRule \<Rightarrow> bool" where
  "rule_matches H c rule =
     (case hr_matcher rule of
        None \<Rightarrow> True
      | Some pattern \<Rightarrow>
          regex_match H pattern (case hc_matcher_context c of Some t \<Rightarrow> t | None \<Rightarrow> []))"

text \<open>The commands an event reaches: the actions of the matching rules, rule by rule.\<close>

definition hook_actions ::
  "hook_ext \<Rightarrow> HookManager \<Rightarrow> HookEvent \<Rightarrow> HookContext \<Rightarrow> (LoadedRule \<times> LoadedAction) list" where
  "hook_actions H hm event c =
     concat (map (\<lambda>rule. map (Pair rule) (hr_actions rule)) (filter (rule_matches H c) (hm event)))"

definition emit :: "hook_ext \<Rightarrow> HookManager \<Rightarrow> HookEvent \<Rightarrow> HookContext \<Rightarrow> string list" where
  "emit H hm event c = map (la_command \<circ> snd) (hook_actions H hm event c)"

text \<open>A field of the reply: missing or null is \<open>None\<close>, a string is its value, anything else fails.\<close>

definition resp_field :: "string \<Rightarrow> json_object \<Rightarrow> string option option" where
  "resp_field k m =
     (case map_of m k of
        None \<Rightarrow> Some None
      | Some JNull \<Rightarrow> Some None
      | Some (JStr s) \<Rightarrow> Some (Some s)
      | Some _ \<Rightarrow> None)"

definition DEFAULT_DENY :: string where
  "DEFAULT_DENY = ''denied by plugin hook''"

definition non_empty :: "string \<Rightarrow> string" where
  "non_empty s = (if s = [] then DEFAULT_DENY else s)"

definition deny_reason :: "hook_ext \<Rightarrow> HookOutput \<Rightarrow> string option" where
  "deny_reason H output =
     (if ho_code output = Some 2 then Some (non_empty (trim (ho_stderr output)))
      else (let trimmed = trim (ho_stdout output)
            in if \<not> starts_with ''{'' trimmed then None
               else (case json_parse H trimmed of
                       Some (JObj m) \<Rightarrow>
                         (case (resp_field ''decision'' m, resp_field ''reason'' m) of
                            (Some decision, Some reason) \<Rightarrow>
                              if decision = Some ''block''
                              then Some (non_empty (case reason of Some r \<Rightarrow> r | None \<Rightarrow> []))
                              else None
                          | _ \<Rightarrow> None)
                     | _ \<Rightarrow> None)))"

definition action_denies :: "hook_ext \<Rightarrow> HookContext \<Rightarrow> LoadedRule \<times> LoadedAction \<Rightarrow> HookDecision option" where
  "action_denies H c ra =
     (case run_hook H (fst ra) (snd ra) c of
        None \<Rightarrow> None
      | Some output \<Rightarrow>
          map_option (\<lambda>reason. Deny reason (hr_plugin_name (fst ra))) (deny_reason H output))"

fun run_until_denied ::
  "hook_ext \<Rightarrow> HookContext \<Rightarrow> (LoadedRule \<times> LoadedAction) list \<Rightarrow> HookDecision \<times> string list" where
  "run_until_denied H c [] = (Allow, [])"
| "run_until_denied H c (ra # ras) =
     (case action_denies H c ra of
        Some d \<Rightarrow> (d, [la_command (snd ra)])
      | None \<Rightarrow>
          (case run_until_denied H c ras of (d, cmds) \<Rightarrow> (d, la_command (snd ra) # cmds)))"

definition emit_blocking ::
  "hook_ext \<Rightarrow> HookManager \<Rightarrow> HookEvent \<Rightarrow> HookContext \<Rightarrow> HookDecision \<times> string list" where
  "emit_blocking H hm event c = run_until_denied H c (hook_actions H hm event c)"

subsection \<open>What a hook can do\<close>

lemma event_name_round_trip: "hook_event_from_name (hook_event_name e) = Some e"
  by (cases e) (simp_all add: hook_event_from_name_def)

lemma run_until_denied_split:
  "run_until_denied H c ras = (d, cmds) \<Longrightarrow>
   (d = Allow \<and> cmds = map (la_command \<circ> snd) ras \<and> (\<forall>ra \<in> set ras. action_denies H c ra = None)) \<or>
   (\<exists>us ra vs. ras = us @ ra # vs \<and> action_denies H c ra = Some d \<and>
      (\<forall>u \<in> set us. action_denies H c u = None) \<and> cmds = map (la_command \<circ> snd) (us @ [ra]))"
proof (induction ras arbitrary: cmds)
  case (Cons ra ras)
  show ?case
  proof (cases "action_denies H c ra")
    case (Some d')
    with Cons.prems show ?thesis by (intro disjI2 exI [of _ "[]"]) simp
  next
    case None
    with Cons.prems obtain cs where cs: "run_until_denied H c ras = (d, cs)" "cmds = la_command (snd ra) # cs"
      by (auto split: prod.splits)
    from Cons.IH [OF cs(1)] show ?thesis
    proof (elim disjE exE conjE)
      fix us r vs
      assume "ras = us @ r # vs" "action_denies H c r = Some d"
        "\<forall>u \<in> set us. action_denies H c u = None" "cs = map (la_command \<circ> snd) (us @ [r])"
      with None cs show ?thesis by (intro disjI2 exI [of _ "ra # us"]) auto
    qed (use None cs in auto)
  qed
qed simp

text \<open>\<open>emit_blocking\<close> runs the matching commands in order up to the first that denies and returns
  that denial, and runs all of them and allows when none denies; a command that fails to run denies
  nothing.\<close>

theorem emit_blocking_first_denial:
  "(emit_blocking H hm event c = (Allow, emit H hm event c) \<and>
      list_all (\<lambda>ra. action_denies H c ra = None) (hook_actions H hm event c)) \<or>
   (\<exists>us ra vs why plugin. hook_actions H hm event c = us @ ra # vs \<and>
      action_denies H c ra = Some (Deny why plugin) \<and> why \<noteq> [] \<and>
      list_all (\<lambda>u. action_denies H c u = None) us \<and>
      emit_blocking H hm event c = (Deny why plugin, map (la_command \<circ> snd) (us @ [ra])))"
proof -
  obtain d cmds where r: "emit_blocking H hm event c = (d, cmds)" by fastforce
  have why: "why \<noteq> []" if "action_denies H c ra = Some (Deny why plugin)" for ra why plugin
    using that
    by (auto simp: action_denies_def deny_reason_def non_empty_def DEFAULT_DENY_def Let_def
        split: option.splits if_splits json.splits)
  have deny: "\<exists>why plugin. x = Deny why plugin" if "action_denies H c ra = Some x" for ra x
    using that by (auto simp: action_denies_def split: option.splits)
  from run_until_denied_split [OF r [unfolded emit_blocking_def]] r why deny show ?thesis
    unfolding emit_def list_all_iff by metis
qed

end
