(* ===== verification/Permission.thy ===== *)
theory Permission
  imports Session_Store
begin

text \<open>
  \<open>config/permission.rs\<close>, \<open>permission/permission_store.rs\<close> and \<open>permission/permission_judge.rs\<close>: the
  remembered permission levels of tools (per category, mirrored in \<open>permission.yaml\<close>), the recorded
  decisions of the user per tool and arguments, and the judge that asks the model which requests
  only read.

  A file holds the value that was written to it: reading back the YAML or JSON encoding of a value
  gives the value. Failures of the file system are not modelled. The hash function, the printing of
  JSON, the model and the clock are parameters.
\<close>

subsection \<open>The permission manager\<close>

datatype PermissionLevel = PAlwaysAllow | PAskBefore | PNeverAllow

record PermissionConfig =
  always_allow :: "string list"
  ask_before :: "string list"
  never_allow :: "string list"

definition PermissionConfig_default :: PermissionConfig where
  "PermissionConfig_default = \<lparr>always_allow = [], ask_before = [], never_allow = []\<rparr>"

type_synonym permission_map = "(string \<times> PermissionConfig) list"

record PermissionManager =
  pm_map :: permission_map
  pm_file :: "permission_map option"

definition USER_PERMISSION :: string where
  "USER_PERMISSION = ''user''"

definition SMART_APPROVE_PERMISSION :: string where
  "SMART_APPROVE_PERMISSION = ''smart_approve''"

text \<open>The file is absent, does not parse (\<open>Some None\<close>) or holds a map.\<close>

definition PermissionManager_new :: "permission_map option option \<Rightarrow> error + PermissionManager" where
  "PermissionManager_new file =
     (case file of
        None \<Rightarrow> Inr \<lparr>pm_map = [], pm_file = None\<rparr>
      | Some None \<Rightarrow> Inl (Panicked ''Corrupted permission config'')
      | Some (Some m) \<Rightarrow> Inr \<lparr>pm_map = m, pm_file = Some m\<rparr>)"

definition get_permission_names :: "PermissionManager \<Rightarrow> string list" where
  "get_permission_names pm = map fst (pm_map pm)"

definition get_permission :: "string \<Rightarrow> PermissionManager \<Rightarrow> string \<Rightarrow> PermissionLevel option" where
  "get_permission category pm tool =
     (case map_of (pm_map pm) category of
        None \<Rightarrow> None
      | Some cfg \<Rightarrow>
          if tool \<in> set (always_allow cfg) then Some PAlwaysAllow
          else if tool \<in> set (ask_before cfg) then Some PAskBefore
          else if tool \<in> set (never_allow cfg) then Some PNeverAllow
          else None)"

definition get_user_permission :: "PermissionManager \<Rightarrow> string \<Rightarrow> PermissionLevel option" where
  "get_user_permission = get_permission USER_PERMISSION"

definition get_smart_approve_permission :: "PermissionManager \<Rightarrow> string \<Rightarrow> PermissionLevel option" where
  "get_smart_approve_permission = get_permission SMART_APPROVE_PERMISSION"

definition forget_tool :: "string \<Rightarrow> PermissionConfig \<Rightarrow> PermissionConfig" where
  "forget_tool tool cfg =
     \<lparr>always_allow = filter (\<lambda>p. p \<noteq> tool) (always_allow cfg),
      ask_before = filter (\<lambda>p. p \<noteq> tool) (ask_before cfg),
      never_allow = filter (\<lambda>p. p \<noteq> tool) (never_allow cfg)\<rparr>"

fun add_tool :: "string \<Rightarrow> PermissionLevel \<Rightarrow> PermissionConfig \<Rightarrow> PermissionConfig" where
  "add_tool tool PAlwaysAllow cfg = cfg\<lparr>always_allow := always_allow cfg @ [tool]\<rparr>"
| "add_tool tool PAskBefore cfg = cfg\<lparr>ask_before := ask_before cfg @ [tool]\<rparr>"
| "add_tool tool PNeverAllow cfg = cfg\<lparr>never_allow := never_allow cfg @ [tool]\<rparr>"

text \<open>\<open>map.entry(name).or_default()\<close>, changed in place, and the file written.\<close>

definition write_map :: "permission_map \<Rightarrow> PermissionManager" where
  "write_map m = \<lparr>pm_map = m, pm_file = Some m\<rparr>"

definition entry_or_default :: "string \<Rightarrow> permission_map \<Rightarrow> PermissionConfig" where
  "entry_or_default category m =
     (case map_of m category of Some cfg \<Rightarrow> cfg | None \<Rightarrow> PermissionConfig_default)"

definition update_permission ::
  "string \<Rightarrow> string \<Rightarrow> PermissionLevel \<Rightarrow> PermissionManager \<Rightarrow> PermissionManager" where
  "update_permission category tool level pm =
     write_map (obj_insert category
       (add_tool tool level (forget_tool tool (entry_or_default category (pm_map pm)))) (pm_map pm))"

definition update_user_permission ::
  "string \<Rightarrow> PermissionLevel \<Rightarrow> PermissionManager \<Rightarrow> PermissionManager" where
  "update_user_permission = update_permission USER_PERMISSION"

definition update_smart_approve_permission ::
  "string \<Rightarrow> PermissionLevel \<Rightarrow> PermissionManager \<Rightarrow> PermissionManager" where
  "update_smart_approve_permission = update_permission SMART_APPROVE_PERMISSION"

definition bulk_update_smart_approve_permissions ::
  "string list \<Rightarrow> PermissionLevel \<Rightarrow> PermissionManager \<Rightarrow> PermissionManager" where
  "bulk_update_smart_approve_permissions tools level pm =
     write_map (obj_insert SMART_APPROVE_PERMISSION
       (fold (\<lambda>tool cfg. add_tool tool level (forget_tool tool cfg)) tools
          (entry_or_default SMART_APPROVE_PERMISSION (pm_map pm))) (pm_map pm))"

text \<open>Of a \<open>Tool\<close>: its name, the read-only hint of its annotations, if it has any, and its \<open>_meta\<close> object.\<close>

record Tool =
  tl_name :: string
  tl_annotations :: "bool option option"
  tl_meta :: "json_object option"

definition write_annotated :: "Tool list \<Rightarrow> string list" where
  "write_annotated tools = map tl_name (filter (\<lambda>t. tl_annotations t = Some (Some False)) tools)"

definition pm_apply_tool_annotations :: "Tool list \<Rightarrow> PermissionManager \<Rightarrow> PermissionManager" where
  "pm_apply_tool_annotations tools pm =
     (if write_annotated tools \<noteq> []
      then bulk_update_smart_approve_permissions (write_annotated tools) PAskBefore pm
      else pm)"

definition forget_extension :: "string \<Rightarrow> PermissionConfig \<Rightarrow> PermissionConfig" where
  "forget_extension ext_name cfg =
     \<lparr>always_allow = filter (\<lambda>p. \<not> starts_with ext_name p) (always_allow cfg),
      ask_before = filter (\<lambda>p. \<not> starts_with ext_name p) (ask_before cfg),
      never_allow = filter (\<lambda>p. \<not> starts_with ext_name p) (never_allow cfg)\<rparr>"

definition remove_extension :: "string \<Rightarrow> PermissionManager \<Rightarrow> PermissionManager" where
  "remove_extension ext_name pm =
     write_map (map (\<lambda>(category, cfg). (category, forget_extension ext_name cfg)) (pm_map pm))"

subsection \<open>The permission store\<close>

definition wrap_i64 :: "int \<Rightarrow> int" where
  "wrap_i64 i = (i + 2 ^ 63) mod 2 ^ 64 - 2 ^ 63"

record ToolPermissionRecord =
  tpr_tool_name :: string
  tpr_allowed :: bool
  tpr_context_hash :: string
  tpr_readable_context :: "string option"
  tpr_timestamp :: int
  tpr_expiry :: "int option"

type_synonym permission_records = "(string \<times> ToolPermissionRecord list) list"

record ToolPermissionStore =
  tps_permissions :: permission_records
  tps_file :: "permission_records option"

definition ToolPermissionStore_new :: "permission_records option \<Rightarrow> ToolPermissionStore" where
  "ToolPermissionStore_new file = \<lparr>tps_permissions = [], tps_file = file\<rparr>"

definition save :: "ToolPermissionStore \<Rightarrow> ToolPermissionStore" where
  "save s = s\<lparr>tps_file := Some (tps_permissions s)\<rparr>"

definition unexpired :: "int \<Rightarrow> ToolPermissionRecord \<Rightarrow> bool" where
  "unexpired now r = (case tpr_expiry r of None \<Rightarrow> True | Some e \<Rightarrow> now < e)"

text \<open>\<open>HashMap::retain\<close> with its flag: a key whose records are all gone is removed and sets it.\<close>

definition cleanup_expired :: "int \<Rightarrow> ToolPermissionStore \<Rightarrow> ToolPermissionStore" where
  "cleanup_expired now s =
     (let retained = map (\<lambda>(k, rs). (k, filter (unexpired now) rs)) (tps_permissions s);
          changed = list_ex (\<lambda>(k, rs). rs = []) retained;
          s' = s\<lparr>tps_permissions := filter (\<lambda>(k, rs). rs \<noteq> []) retained\<rparr>
      in if changed then save s' else s')"

definition load :: "int \<Rightarrow> permission_records option \<Rightarrow> ToolPermissionStore" where
  "load now file =
     (case file of
        None \<Rightarrow> ToolPermissionStore_new None
      | Some records \<Rightarrow> cleanup_expired now \<lparr>tps_permissions = records, tps_file = file\<rparr>)"

definition hash_tool_context ::
  "ext \<Rightarrow> (string \<Rightarrow> string) \<Rightarrow> CallToolRequestParams \<Rightarrow> string" where
  "hash_tool_context E blake3 call =
     blake3 (case json_to_string E (ctr_arguments call) of Some s \<Rightarrow> s | None \<Rightarrow> [])"

definition permission_key :: "ext \<Rightarrow> (string \<Rightarrow> string) \<Rightarrow> CallToolRequestParams \<Rightarrow> string" where
  "permission_key E blake3 call = ctr_name call @ '':'' @ hash_tool_context E blake3 call"

definition rfind :: "('a \<Rightarrow> bool) \<Rightarrow> 'a list \<Rightarrow> 'a option" where
  "rfind p xs = find p (rev xs)"

definition check_permission ::
  "ext \<Rightarrow> (string \<Rightarrow> string) \<Rightarrow> int \<Rightarrow> ToolRequest \<Rightarrow> ToolPermissionStore \<Rightarrow> error + bool option" where
  "check_permission E blake3 now req s =
     (case tr_tool_call req of
        Inl _ \<Rightarrow> Inl (Panicked ''unwrap on an Err value'')
      | Inr call \<Rightarrow>
          Inr (Option.bind (map_of (tps_permissions s) (permission_key E blake3 call))
                (\<lambda>rs. map_option tpr_allowed (rfind (unexpired now) rs))))"

definition record_permission ::
  "ext \<Rightarrow> (string \<Rightarrow> string) \<Rightarrow> int \<Rightarrow> ToolRequest \<Rightarrow> bool \<Rightarrow> nat option \<Rightarrow> ToolPermissionStore \<Rightarrow>
     error + ToolPermissionStore" where
  "record_permission E blake3 now req is_allowed expiry_secs s =
     (case tr_tool_call req of
        Inl _ \<Rightarrow> Inl (Panicked ''unwrap on an Err value'')
      | Inr call \<Rightarrow>
          (let key = permission_key E blake3 call;
               rec = \<lparr>tpr_tool_name = ctr_name call, tpr_allowed = is_allowed,
                      tpr_context_hash = hash_tool_context E blake3 call,
                      tpr_readable_context = Some (to_readable_string E req), tpr_timestamp = now,
                      tpr_expiry = map_option (\<lambda>d. wrap_i64 (now + wrap_i64 (int d))) expiry_secs\<rparr>;
               old = (case map_of (tps_permissions s) key of Some rs \<Rightarrow> rs | None \<Rightarrow> [])
           in Inr (save (s\<lparr>tps_permissions := obj_insert key (old @ [rec]) (tps_permissions s)\<rparr>))))"

subsection \<open>The judge\<close>

record judge_ext =
  jx_pretty :: "json list \<Rightarrow> string option"
  jx_config :: "string \<Rightarrow> json option"
  jx_complete :: "json \<Rightarrow> Conversation \<Rightarrow> Message option"

definition judge_entry :: "ToolRequest \<Rightarrow> json option" where
  "judge_entry req =
     (case tr_tool_call req of
        Inl _ \<Rightarrow> None
      | Inr call \<Rightarrow>
          Some (JObj [(''request_id'', JStr (tr_id req)), (''tool_name'', JStr (ctr_name call)),
                      (''arguments'', case ctr_arguments call of Some m \<Rightarrow> JObj m | None \<Rightarrow> JNull)]))"

definition create_check_messages :: "judge_ext \<Rightarrow> int \<Rightarrow> ToolRequest list \<Rightarrow> Conversation" where
  "create_check_messages J now reqs =
     [Message_new User now
        [block_text (''UNTRUSTED TOOL REQUEST DATA (JSON):'' @ nl @
           (case jx_pretty J (filter_map judge_entry reqs) of Some s \<Rightarrow> s | None \<Rightarrow> ''[]''))]]"

fun judged_ids :: "MessageContentBlock \<Rightarrow> string list option" where
  "judged_ids (ToolRequest req) =
     (case tr_tool_call req of
        Inl _ \<Rightarrow> None
      | Inr call \<Rightarrow>
          if ctr_name call = ''platform__tool_by_tool_permission''
          then (case Option.bind (ctr_arguments call) (\<lambda>m. map_of m ''read_only_request_ids'') of
                  Some (JArr ids) \<Rightarrow> Some (filter_map as_str ids)
                | _ \<Rightarrow> None)
          else None)"
| "judged_ids _ = None"

definition extract_read_only_request_ids :: "Message \<Rightarrow> string list option" where
  "extract_read_only_request_ids response = find_map judged_ids (m_content response)"

definition detect_read_only_requests ::
  "judge_ext \<Rightarrow> int \<Rightarrow> string \<Rightarrow> ToolRequest list \<Rightarrow> string list" where
  "detect_read_only_requests J now sid reqs =
     (if reqs = [] then []
      else (case jx_config J sid of
              None \<Rightarrow> []
            | Some config \<Rightarrow>
                (case jx_complete J config (create_check_messages J now reqs) of
                   None \<Rightarrow> []
                 | Some response \<Rightarrow>
                     (case extract_read_only_request_ids response of Some ids \<Rightarrow> ids | None \<Rightarrow> []))))"

end
