(* ===== verification/Operation.thy ===== *)
theory Operation
  imports Session_Ops Hooks Permission
begin

text \<open>
  \<open>agents/state_machine/operation.rs\<close>: what every operation of the agent's state machine shares. An
  operation is a record of the functions of the trait \<open>Operation\<close>. It acts on a \<open>World\<close>: the events
  emitted to the client, the hook commands run, the counter of generated ids, the cancellation
  token, the state the agent's operations share behind locks (goal, grind, steer queue, mode, permission
  manager), and the shell commands and
  tool calls run so far.
  A call returns an error or a result, with the world it leaves behind.

  The record \<open>op_env\<close> holds what the operations use from outside: the clock of the step, the UUID
  generator (the \<open>n\<close>-th call), the hooks and the token counter.
\<close>

subsection \<open>The world\<close>

datatype AgentEvent =
    MessageEvent Message
  | UsageEvent ProviderUsage
  | MessageUsageEvent "string option" MessageUsage
  | McpNotification string json
  | HistoryReplaced Conversation

record World =
  w_fresh :: nat
  w_events :: "AgentEvent list"
  w_hook_runs :: "string list"
  w_cancelled :: bool
  w_goal :: "string option"
  w_grind :: "string option"
  w_steer_queue :: "Message list"
  w_goose_mode :: GooseMode
  w_commands :: "string list"
  w_permissions :: PermissionManager
  w_tool_calls :: "(string \<times> CallToolRequestParams) list"

record op_env =
  oe_ext :: ext
  oe_now :: int
  oe_uuid :: "nat \<Rightarrow> string"
  oe_hooks :: hook_ext
  oe_hook_manager :: HookManager
  oe_count_tokens :: "Message \<Rightarrow> nat"
  oe_estimate_cost :: "string \<Rightarrow> string \<Rightarrow> Usage \<Rightarrow> f64 option"

type_synonym 'a op = "World \<Rightarrow> (error + 'a) \<times> World"

definition ret :: "'a \<Rightarrow> 'a op" where
  "ret x w = (Inr x, w)"

definition fail :: "error \<Rightarrow> 'a op" where
  "fail e w = (Inl e, w)"

text \<open>\<open>andThen m f\<close> is \<open>m?\<close> followed by \<open>f\<close>: an error stops here.\<close>

definition andThen :: "'a op \<Rightarrow> ('a \<Rightarrow> 'b op) \<Rightarrow> 'b op" where
  "andThen m f w = (case m w of (Inl e, w') \<Rightarrow> (Inl e, w') | (Inr x, w') \<Rightarrow> f x w')"

definition lift :: "error + 'a \<Rightarrow> 'a op" where
  "lift r w = (r, w)"

definition emit_event :: "AgentEvent \<Rightarrow> World \<Rightarrow> World" where
  "emit_event e w = w\<lparr>w_events := w_events w @ [e]\<rparr>"

definition gen_uuid :: "op_env \<Rightarrow> World \<Rightarrow> string \<times> World" where
  "gen_uuid V w = (oe_uuid V (w_fresh w), w\<lparr>w_fresh := Suc (w_fresh w)\<rparr>)"

definition id_if_missing :: "op_env \<Rightarrow> Message \<Rightarrow> World \<Rightarrow> Message \<times> World" where
  "id_if_missing V m w =
     (if m_id m \<noteq> None then (m, w)
      else (case gen_uuid V w of (u, w') \<Rightarrow> (with_generated_id_if_missing u m, w')))"

text \<open>\<open>Emitter::message\<close>.\<close>

definition emit_message :: "op_env \<Rightarrow> Message \<Rightarrow> Message op" where
  "emit_message V m w =
     (case id_if_missing V m w of (m', w') \<Rightarrow> (Inr m', emit_event (MessageEvent m') w'))"

definition emit_hook :: "op_env \<Rightarrow> HookEvent \<Rightarrow> HookContext \<Rightarrow> unit op" where
  "emit_hook V event c w =
     (Inr (), w\<lparr>w_hook_runs := w_hook_runs w @ emit (oe_hooks V) (oe_hook_manager V) event c\<rparr>)"

definition emit_hook_blocking :: "op_env \<Rightarrow> HookEvent \<Rightarrow> HookContext \<Rightarrow> HookDecision op" where
  "emit_hook_blocking V event c w =
     (case emit_blocking (oe_hooks V) (oe_hook_manager V) event c of
        (d, cmds) \<Rightarrow> (Inr d, w\<lparr>w_hook_runs := w_hook_runs w @ cmds\<rparr>))"

subsection \<open>Reading the conversation\<close>

definition is_kickoff :: "Message \<Rightarrow> bool" where
  "is_kickoff m = (m_role m = User \<and> is_user_visible m \<and> \<not> is_tool_response m)"

definition messages_since_kickoff :: "Conversation \<Rightarrow> error + Message list" where
  "messages_since_kickoff c =
     (case rposition is_kickoff c of
        Some start \<Rightarrow> Inr (drop start c)
      | None \<Rightarrow> Inl (Anyhow ''state machine conversation has no kickoff message''))"

definition trailing_error :: "Conversation \<Rightarrow> MessageErrorKind option" where
  "trailing_error c = Option.bind (last_opt c) error_kind"

definition last_effective_role :: "Message list \<Rightarrow> error + EffectiveRole" where
  "last_effective_role ms =
     (case last_opt ms of
        Some m \<Rightarrow> Inr (effective_role m)
      | None \<Rightarrow> Inl (Anyhow ''cannot determine the role of an empty conversation''))"

text \<open>The loop from the back, with its two variables.\<close>

definition assistant_turn_count :: "Message list \<Rightarrow> nat" where
  "assistant_turn_count ms =
     fst (fold (\<lambda>m (turns, in_block).
            if m_role m = Assistant then (if in_block then turns else Suc turns, True)
            else (turns, False)) (rev ms) (0, False))"

fun continues_turn :: "MessageContentBlock \<Rightarrow> bool" where
  "continues_turn (ToolRequest _) = True"
| "continues_turn (FrontendToolRequest _) = True"
| "continues_turn (ActionRequired _) = True"
| "continues_turn _ = False"

definition ends_turn :: "Message list \<Rightarrow> bool" where
  "ends_turn ms =
     (case last_opt ms of
        Some l \<Rightarrow>
          m_role l = Assistant \<and> error_kind l = None \<and> \<not> list_ex continues_turn (m_content l)
      | None \<Rightarrow> False)"

subsection \<open>Results\<close>

datatype StateEffect =
    AppendMessage Message
  | ReplaceConversation Conversation "ProviderUsage option"
  | PatchToolRequestMeta string json
  | SetMessageVisibility string bool bool
  | SetRecipe "Recipe option"
  | SetExtensionData json_object
  | RecordUsage ProviderUsage

record StepResult =
  effects :: "StateEffect list"
  yield_to_client :: bool

datatype OperationResult = NotApplicable | Applied StepResult

definition applied :: "StateEffect list \<Rightarrow> OperationResult" where
  "applied es = Applied \<lparr>effects = es, yield_to_client = False\<rparr>"

definition yielded :: OperationResult where
  "yielded = Applied \<lparr>effects = [], yield_to_client = True\<rparr>"

definition yielded_with :: "StateEffect list \<Rightarrow> OperationResult" where
  "yielded_with es = Applied \<lparr>effects = es, yield_to_client = True\<rparr>"

fun ensure_ids :: "op_env \<Rightarrow> Message list \<Rightarrow> World \<Rightarrow> Message list \<times> World" where
  "ensure_ids V [] w = ([], w)"
| "ensure_ids V (m # ms) w =
     (case id_if_missing V m w of
        (m', w') \<Rightarrow> (case ensure_ids V ms w' of (ms', w'') \<Rightarrow> (m' # ms', w'')))"

fun effect_ensure_ids :: "op_env \<Rightarrow> StateEffect \<Rightarrow> World \<Rightarrow> StateEffect \<times> World" where
  "effect_ensure_ids V (AppendMessage m) w =
     (case id_if_missing V m w of (m', w') \<Rightarrow> (AppendMessage m', w'))"
| "effect_ensure_ids V (ReplaceConversation c u) w =
     (case ensure_ids V c w of (c', w') \<Rightarrow> (ReplaceConversation c' u, w'))"
| "effect_ensure_ids V e w = (e, w)"

fun effects_ensure_ids :: "op_env \<Rightarrow> StateEffect list \<Rightarrow> World \<Rightarrow> StateEffect list \<times> World" where
  "effects_ensure_ids V [] w = ([], w)"
| "effects_ensure_ids V (e # es) w =
     (case effect_ensure_ids V e w of
        (e', w') \<Rightarrow> (case effects_ensure_ids V es w' of (es', w'') \<Rightarrow> (e' # es', w'')))"

definition ensure_message_ids :: "op_env \<Rightarrow> StepResult \<Rightarrow> World \<Rightarrow> StepResult \<times> World" where
  "ensure_message_ids V r w =
     (case effects_ensure_ids V (effects r) w of (es, w') \<Rightarrow> (r\<lparr>effects := es\<rparr>, w'))"

subsection \<open>Operations\<close>

record SlashCommand =
  sc_command :: string
  sc_params_str :: string

record InferenceInput =
  ii_tools :: "Tool list"
  ii_prompt_parts :: "(string \<times> string) list"
  ii_moim_parts :: "string list"

definition InferenceInput_default :: InferenceInput where
  "InferenceInput_default = \<lparr>ii_tools = [], ii_prompt_parts = [], ii_moim_parts = []\<rparr>"

record Operation =
  op_name :: string
  op_cancel :: "Session \<Rightarrow> Conversation \<Rightarrow> OperationResult \<Rightarrow> OperationResult op"
  op_run_command :: "SlashCommand \<Rightarrow> Session \<Rightarrow> Conversation \<Rightarrow> OperationResult op"
  op_inference_tools :: "Session \<Rightarrow> Tool list op"
  op_prompt_parts :: "Session \<Rightarrow> Conversation \<Rightarrow> (string \<times> string) list op"
  op_moim_parts :: "Session \<Rightarrow> Conversation \<Rightarrow> string list op"
  op_run :: "Session \<Rightarrow> Conversation \<Rightarrow> OperationResult op"

text \<open>The default methods of the trait.\<close>

definition Operation_default :: "string \<Rightarrow> Operation" where
  "Operation_default name =
     \<lparr>op_name = name, op_cancel = (\<lambda>_ _ result. ret result),
      op_run_command = (\<lambda>_ _ _. ret NotApplicable), op_inference_tools = (\<lambda>_. ret []),
      op_prompt_parts = (\<lambda>_ _. ret []), op_moim_parts = (\<lambda>_ _. ret []),
      op_run = (\<lambda>_ _. ret NotApplicable)\<rparr>"

definition set_message_meta :: "string \<Rightarrow> string \<Rightarrow> json \<Rightarrow> Message \<Rightarrow> Message" where
  "set_message_meta name key v m = m\<lparr>m_metadata := set_operation_note name key v (m_metadata m)\<rparr>"

definition message_meta :: "string \<Rightarrow> Message \<Rightarrow> string \<Rightarrow> json option" where
  "message_meta name m key = operation_note (m_metadata m) name key"

record Inference =
  inf_operation :: Operation
  inf_infer :: "Session \<Rightarrow> Conversation \<Rightarrow> InferenceInput \<Rightarrow> OperationResult op"

subsection \<open>Lemmas\<close>

lemma op_simps [simp]:
  "ret x w = (Inr x, w)" "fail e w = (Inl e, w)" "lift r w = (r, w)"
  "andThen (ret x) f w = f x w"
  by (simp_all add: ret_def fail_def lift_def andThen_def)

lemma andThen_lift [simp]:
  "andThen (lift r) f w = (case r of Inl e \<Rightarrow> (Inl e, w) | Inr x \<Rightarrow> f x w)"
  by (simp add: andThen_def split: sum.splits)

lemma andThen_emit [simp]:
  "andThen (emit_message V m) f w =
     (case id_if_missing V m w of (m', w') \<Rightarrow> f m' (emit_event (MessageEvent m') w'))"
  by (simp add: andThen_def emit_message_def split: prod.splits)

lemma note_round_trip [simp]:
  "message_meta n (set_message_meta n k v m) k' = (if k' = k then Some v else message_meta n m k')"
  by (auto simp: message_meta_def set_message_meta_def operation_note_def set_operation_note_def Let_def
      split: option.splits)

lemma note_other_operation [simp]:
  "n' \<noteq> n \<Longrightarrow> message_meta n' (set_message_meta n k v m) k' = message_meta n' m k'"
  by (auto simp: message_meta_def set_message_meta_def operation_note_def set_operation_note_def Let_def
      split: option.splits)

lemma id_if_missing_id: "id_if_missing V m w = (m', w') \<Longrightarrow> m_id m' \<noteq> None \<and>
    m' = m\<lparr>m_id := m_id m'\<rparr> \<and> (m_id m \<noteq> None \<longrightarrow> m' = m)"
  by (auto simp: id_if_missing_def gen_uuid_def with_generated_id_if_missing_def with_generated_id_def
      with_id_def split: if_splits)

text \<open>The messages since the kickoff are the last kickoff and everything after it.\<close>

lemma messages_since_kickoff_Inr:
  "messages_since_kickoff c = Inr ms \<longleftrightarrow>
     (\<exists>us k vs. c = us @ ms \<and> ms = k # vs \<and> is_kickoff k \<and> (\<forall>v \<in> set vs. \<not> is_kickoff v))"
  (is "_ \<longleftrightarrow> ?R")
proof
  assume "messages_since_kickoff c = Inr ms"
  then obtain i where i: "rposition is_kickoff c = Some i" "ms = drop i c"
    by (auto simp: messages_since_kickoff_def split: option.splits)
  from rposition_SomeD [OF i(1)] have p: "i < length c" "is_kickoff (c ! i)"
      "\<And>j. i < j \<Longrightarrow> j < length c \<Longrightarrow> \<not> is_kickoff (c ! j)" by auto
  have "\<not> is_kickoff v" if "v \<in> set (drop (Suc i) c)" for v
    using that p(3) by (auto simp: in_set_conv_nth)
  with p i(2) show ?R
    by (intro exI [of _ "take i c"] exI [of _ "c ! i"] exI [of _ "drop (Suc i) c"])
      (simp add: Cons_nth_drop_Suc)
next
  assume ?R
  then obtain us k vs where r: "c = us @ k # vs" "ms = k # vs" "is_kickoff k" "\<forall>v \<in> set vs. \<not> is_kickoff v"
    by blast
  have "rposition is_kickoff (us @ [k]) = Some (length us)" using r(3)
    by (induction us) auto
  with rposition_append_none [of vs is_kickoff "us @ [k]"] r have "rposition is_kickoff c = Some (length us)"
    by simp
  with r show "messages_since_kickoff c = Inr ms" by (simp add: messages_since_kickoff_def)
qed

lemma messages_since_kickoff_append:
  assumes "messages_since_kickoff c = Inr ms" "\<And>v. v \<in> set vs \<Longrightarrow> \<not> is_kickoff v"
  shows "messages_since_kickoff (c @ vs) = Inr (ms @ vs)"
  using assms by (auto simp: messages_since_kickoff_Inr)

lemma agent_only_not_kickoff: "\<not> user_visible (m_metadata m) \<Longrightarrow> \<not> is_kickoff m"
  by (simp add: is_kickoff_def is_user_visible_def)

end
