(* ===== verification/Machine.thy ===== *)
theory Machine
  imports Operation
begin

text \<open>
  \<open>agents/state_machine/machine.rs\<close> and \<open>usage.rs\<close>: the state machine. \<open>step\<close> asks the operations in
  order and returns the result of the first that applies, \<open>apply\<close> writes its effects to the session
  store and emits the events that follow, \<open>run\<close> repeats the two until nothing applies or a result
  yields to the client. Each effect is one or more transactions, so an error leaves what was
  committed before it. The loop has no bound of its own: it takes fuel, and \<open>None\<close> means that the fuel
  did not suffice. Tracing and telemetry are not modelled.
\<close>

datatype Step = OperationStep Operation | InferenceStep Inference

fun step_operation :: "Step \<Rightarrow> Operation" where
  "step_operation (OperationStep operation) = operation"
| "step_operation (InferenceStep infer) = inf_operation infer"

subsection \<open>Entry hooks\<close>

definition has_agent_reply :: "Message list \<Rightarrow> bool" where
  "has_agent_reply ms =
     list_ex (\<lambda>m. m_role m = Assistant \<and>
       ((is_user_visible m \<and> is_agent_visible m) \<or> error_kind m \<noteq> None)) ms"

definition emit_entry_hooks :: "op_env \<Rightarrow> Session \<Rightarrow> Conversation \<Rightarrow> unit op" where
  "emit_entry_hooks V session c =
     andThen (lift (messages_since_kickoff c)) (\<lambda>messages.
       if has_agent_reply messages then ret ()
       else
         (let before = take (length c - length messages) c;
              start = (if list_ex is_kickoff before then ret ()
                       else emit_hook V SessionStart
                              (with_working_dir (s_working_dir session)
                                (HookContext_new SessionStart (s_id session))));
              prompt = (case first_opt messages of Some m \<Rightarrow> as_concat_text m | None \<Rightarrow> [])
          in andThen start (\<lambda>_.
               if prompt \<noteq> []
               then emit_hook V UserPromptSubmit
                      (with_working_dir (s_working_dir session)
                        (with_message prompt (HookContext_new UserPromptSubmit (s_id session))))
               else ret ())))"

subsection \<open>One step\<close>

fun gather_input ::
  "Session \<Rightarrow> Conversation \<Rightarrow> Operation list \<Rightarrow> InferenceInput \<Rightarrow> InferenceInput op" where
  "gather_input session c [] input = ret input"
| "gather_input session c (operation # ops) input =
     andThen (op_inference_tools operation session) (\<lambda>tools.
     andThen (op_prompt_parts operation session c) (\<lambda>prompts.
     andThen (op_moim_parts operation session c) (\<lambda>moims.
       gather_input session c ops
         (input\<lparr>ii_tools := ii_tools input @ tools,
                ii_prompt_parts := ii_prompt_parts input @ prompts,
                ii_moim_parts := ii_moim_parts input @ moims\<rparr>))))"

definition run_one :: "Step list \<Rightarrow> Session \<Rightarrow> Conversation \<Rightarrow> Step \<Rightarrow> OperationResult op" where
  "run_one steps session c s w =
     (if w_cancelled w then ret NotApplicable w
      else (case s of
              OperationStep operation \<Rightarrow> op_run operation session c w
            | InferenceStep infer \<Rightarrow>
                andThen (gather_input session c (map step_operation steps) InferenceInput_default)
                  (inf_infer infer session c) w))"

text \<open>After the operation the token is read again: a cancelled operation has the last word.\<close>

definition run_or_cancel ::
  "Step list \<Rightarrow> Session \<Rightarrow> Conversation \<Rightarrow> Step \<Rightarrow> (OperationResult \<times> bool) op" where
  "run_or_cancel steps session c s =
     andThen (run_one steps session c s) (\<lambda>result w.
       if w_cancelled w
       then andThen (op_cancel (step_operation s) session c result) (\<lambda>result'. ret (result', True)) w
       else ret (result, False) w)"

fun try_steps ::
  "op_env \<Rightarrow> Step list \<Rightarrow> Session \<Rightarrow> Conversation \<Rightarrow> Step list \<Rightarrow> StepResult option op" where
  "try_steps V steps session c [] = ret None"
| "try_steps V steps session c (s # rest) =
     andThen (run_or_cancel steps session c s) (\<lambda>(result, cancelled) w.
       case result of
         NotApplicable \<Rightarrow> try_steps V steps session c rest w
       | Applied r \<Rightarrow>
           (case ensure_message_ids V r w of
              (r', w') \<Rightarrow>
                (Inr (Some (if cancelled then r'\<lparr>yield_to_client := True\<rparr> else r')), w')))"

definition step :: "op_env \<Rightarrow> Step list \<Rightarrow> Session \<Rightarrow> StepResult option op" where
  "step V steps session =
     (case s_conversation session of
        None \<Rightarrow> fail (Anyhow ''state-machine session loaded without conversation'')
      | Some c \<Rightarrow>
          andThen (emit_entry_hooks V session c) (\<lambda>_. try_steps V steps session c steps))"

subsection \<open>Usage of a step\<close>

fun takes_usage :: "StateEffect \<Rightarrow> bool" where
  "takes_usage (AppendMessage m) = (m_role m = Assistant \<and> error_kind m = None)"
| "takes_usage _ = False"

fun set_effect_usage :: "MessageUsage \<Rightarrow> StateEffect \<Rightarrow> StateEffect" where
  "set_effect_usage u (AppendMessage m) =
     AppendMessage (m\<lparr>m_metadata := (m_metadata m)\<lparr>usage := Some u\<rparr>\<rparr>)"
| "set_effect_usage u e = e"

definition attach_to_last_assistant :: "ProviderUsage \<Rightarrow> StateEffect list \<Rightarrow> StateEffect list" where
  "attach_to_last_assistant u es =
     (case update_rfind takes_usage (set_effect_usage (from_provider_usage u False)) es of
        Some es' \<Rightarrow> es'
      | None \<Rightarrow> es)"

definition price :: "op_env \<Rightarrow> Session \<Rightarrow> ProviderUsage \<Rightarrow> ProviderUsage" where
  "price V session u =
     (case pu_cost u of
        Some cost \<Rightarrow> u\<lparr>pu_cost := Some cost, pu_cost_source := Some ProviderReported\<rparr>
      | None \<Rightarrow>
          (case Option.bind (s_provider_name session)
                  (\<lambda>provider. oe_estimate_cost V provider (pu_model u) (pu_usage u)) of
             Some cost \<Rightarrow> u\<lparr>pu_cost := Some cost, pu_cost_source := Some Estimated\<rparr>
           | None \<Rightarrow> u\<lparr>pu_cost := None, pu_cost_source := None\<rparr>))"

definition enrich_at :: "op_env \<Rightarrow> Session \<Rightarrow> nat \<Rightarrow> StateEffect list \<Rightarrow> StateEffect list" where
  "enrich_at V session i es =
     (case es ! i of
        RecordUsage u \<Rightarrow>
          (let u' = price V session u
           in (attach_to_last_assistant u' es)[i := RecordUsage u'])
      | ReplaceConversation c (Some u) \<Rightarrow> es[i := ReplaceConversation c (Some (price V session u))]
      | _ \<Rightarrow> es)"

definition enrich :: "op_env \<Rightarrow> Session \<Rightarrow> StateEffect list \<Rightarrow> StateEffect list" where
  "enrich V session es = fold (enrich_at V session) [0..<length es] es"

definition count_context_tokens :: "op_env \<Rightarrow> Conversation \<Rightarrow> error + i32" where
  "count_context_tokens V c =
     (let total = sum_list (map (oe_count_tokens V) (filter is_agent_visible c))
      in if int total < 2 ^ 31 then Inr (word_of_nat total)
         else Inl (Anyhow ''out of range integral type conversion attempted''))"

definition estimate_context :: "op_env \<Rightarrow> Conversation \<Rightarrow> error + Usage" where
  "estimate_context V c =
     (case count_context_tokens V c of
        Inl e \<Rightarrow> Inl e
      | Inr tokens \<Rightarrow> Inr (Usage_new (Some tokens) None (Some tokens)))"

definition record_usage :: "op_env \<Rightarrow> Session \<Rightarrow> ProviderUsage \<Rightarrow> bool \<Rightarrow> Store \<Rightarrow> error + Store" where
  "record_usage V session u replaces_conversation st =
     record_usage_metrics (s_id session) (oe_now V) (s_schedule_id session) (pu_usage u) (pu_model u)
       (from_provider_usage u replaces_conversation) st"

subsection \<open>Applying effects\<close>

text \<open>One transaction, and one after another.\<close>

type_synonym tx = "Store \<Rightarrow> (error + unit) \<times> Store"

definition commit :: "(Store \<Rightarrow> error + Store) \<Rightarrow> tx" where
  "commit f st = (case f st of Inl e \<Rightarrow> (Inl e, st) | Inr st' \<Rightarrow> (Inr (), st'))"

definition then_tx :: "tx \<Rightarrow> tx \<Rightarrow> tx" where
  "then_tx a b st = (case a st of (Inl e, st') \<Rightarrow> (Inl e, st') | (Inr _, st') \<Rightarrow> b st')"

definition no_tx :: tx where
  "no_tx st = (Inr (), st)"

definition set_visibility :: "bool \<Rightarrow> bool \<Rightarrow> MessageMetadata \<Rightarrow> MessageMetadata" where
  "set_visibility uv av md = md\<lparr>user_visible := uv, agent_visible := av\<rparr>"

fun apply_effect :: "op_env \<Rightarrow> Session \<Rightarrow> StateEffect \<Rightarrow> tx" where
  "apply_effect V session (AppendMessage m) =
     commit (add_message (oe_ext V) (s_id session) (oe_now V) (oe_uuid V 0) m)"
| "apply_effect V session (ReplaceConversation c u) =
     then_tx
       (case u of
          Some u' \<Rightarrow> commit (record_usage V session u' True)
        | None \<Rightarrow> no_tx)
       (then_tx
          (commit (replace_conversation (oe_ext V) (s_id session) (oe_uuid V) c))
          (commit (\<lambda>st. case estimate_context V c of
                          Inl e \<Rightarrow> Inl e
                        | Inr u' \<Rightarrow>
                            apply_update (s_id session) (oe_now V)
                              (SessionUpdateBuilder_new\<lparr>ub_usage := Some u'\<rparr>) st)))"
| "apply_effect V session (PatchToolRequestMeta tid patch) =
     commit (\<lambda>st. Inr (update_tool_request_meta (oe_ext V) (s_id session) tid patch st))"
| "apply_effect V session (SetMessageVisibility mid uv av) =
     commit (update_message_metadata (s_id session) mid (set_visibility uv av))"
| "apply_effect V session (SetRecipe r) =
     commit (apply_update (s_id session) (oe_now V) (SessionUpdateBuilder_new\<lparr>ub_recipe := Some r\<rparr>))"
| "apply_effect V session (SetExtensionData d) =
     commit (apply_update (s_id session) (oe_now V) (SessionUpdateBuilder_new\<lparr>ub_extension_data := Some d\<rparr>))"
| "apply_effect V session (RecordUsage u) = commit (record_usage V session u False)"

fun apply_effects :: "op_env \<Rightarrow> Session \<Rightarrow> StateEffect list \<Rightarrow> tx" where
  "apply_effects V session [] = no_tx"
| "apply_effects V session (e # es) = then_tx (apply_effect V session e) (apply_effects V session es)"

fun effect_event :: "StateEffect \<Rightarrow> AgentEvent option" where
  "effect_event (AppendMessage m) =
     (case usage (m_metadata m) of
        Some u \<Rightarrow>
          if m_content (user_visible_content m) \<noteq> [] then Some (MessageUsageEvent (m_id m) u) else None
      | None \<Rightarrow> None)"
| "effect_event (ReplaceConversation c _) = Some (HistoryReplaced c)"
| "effect_event (RecordUsage u) = Some (UsageEvent u)"
| "effect_event _ = None"

definition apply_result ::
  "op_env \<Rightarrow> Session \<Rightarrow> StepResult \<Rightarrow> Store \<Rightarrow> World \<Rightarrow> (error + unit) \<times> Store \<times> World" where
  "apply_result V session r st w =
     (case ensure_message_ids V r w of
        (r', w') \<Rightarrow>
          (let es = enrich V session (effects r')
           in case apply_effects V session es st of
                (Inl e, st') \<Rightarrow> (Inl e, st', w')
              | (Inr _, st') \<Rightarrow>
                  (Inr (), st', w'\<lparr>w_events := w_events w' @ filter_map effect_event es\<rparr>)))"

subsection \<open>Running\<close>

fun effect_usage :: "StateEffect \<Rightarrow> Usage option" where
  "effect_usage (RecordUsage u) = Some (pu_usage u)"
| "effect_usage (ReplaceConversation _ (Some u)) = Some (pu_usage u)"
| "effect_usage _ = None"

fun run_loop ::
  "nat \<Rightarrow> op_env \<Rightarrow> sql_ext \<Rightarrow> Step list \<Rightarrow> string \<Rightarrow> Usage \<Rightarrow> Store \<Rightarrow> World \<Rightarrow>
     ((error + Usage) \<times> Store \<times> World) option" where
  "run_loop 0 V X steps sid turn_usage st w = None"
| "run_loop (Suc fuel) V X steps sid turn_usage st w =
     (case get_session X sid True st of
        Inl e \<Rightarrow> Some (Inl e, st, w)
      | Inr session \<Rightarrow>
          (case step V steps session w of
             (Inl e, w1) \<Rightarrow> Some (Inl e, st, w1)
           | (Inr None, w1) \<Rightarrow> Some (Inr turn_usage, st, w1)
           | (Inr (Some r), w1) \<Rightarrow>
               (let turn_usage' = fold (\<lambda>u acc. acc + u) (filter_map effect_usage (effects r)) turn_usage
                in case apply_result V session r st w1 of
                     (Inl e, st2, w2) \<Rightarrow> Some (Inl e, st2, w2)
                   | (Inr _, st2, w2) \<Rightarrow>
                       if yield_to_client r then Some (Inr turn_usage', st2, w2)
                       else run_loop fuel V X steps sid turn_usage' st2 w2)))"

definition run ::
  "nat \<Rightarrow> op_env \<Rightarrow> sql_ext \<Rightarrow> Step list \<Rightarrow> string \<Rightarrow> Store \<Rightarrow> World \<Rightarrow>
     ((error + Session \<times> Usage) \<times> Store \<times> World) option" where
  "run fuel V X steps sid st w =
     (case get_session X sid True st of
        Inl e \<Rightarrow> Some (Inl e, st, w)
      | Inr _ \<Rightarrow>
          (case run_loop fuel V X steps sid 0 st w of
             None \<Rightarrow> None
           | Some (Inl e, st', w') \<Rightarrow> Some (Inl e, st', w')
           | Some (Inr turn_usage, st', w') \<Rightarrow>
               (case get_session X sid True st' of
                  Inl e \<Rightarrow> Some (Inl e, st', w')
                | Inr session \<Rightarrow> Some (Inr (session, turn_usage), st', w'))))"

end
