(* ===== verification/Ops_Turn.thy ===== *)
theory Ops_Turn
  imports Machine
begin

text \<open>
  The operations of the state machine that decide about the turn itself: \<open>ops_maxturns.rs\<close>,
  \<open>ops_exit_on_error.rs\<close>, \<open>ops_steer.rs\<close>, \<open>ops_stop_hook.rs\<close>, \<open>ops_bang_shell.rs\<close>,
  \<open>ops_slash_command.rs\<close>, \<open>ops_project.rs\<close> and \<open>ops_doctor.rs\<close>. The files of a project and the diagnostics
  of \<open>doctor\<close> are parameters.
\<close>

definition user_message :: "op_env \<Rightarrow> string \<Rightarrow> Message" where
  "user_message V s = with_text (oe_ext V) (Message_user (oe_now V)) s"

definition assistant_message :: "op_env \<Rightarrow> string \<Rightarrow> Message" where
  "assistant_message V s = with_text (oe_ext V) (Message_assistant (oe_now V)) s"

definition inline_notification :: "op_env \<Rightarrow> string \<Rightarrow> Message" where
  "inline_notification V s =
     with_system_notification (Message_assistant (oe_now V)) InlineMessage s"

subsection \<open>Turn budget\<close>

definition MAX_TURNS_MESSAGE :: string where
  "MAX_TURNS_MESSAGE =
     ''I've reached the maximum number of actions I can do without user input. Would you like me to continue?''"

definition turn_budget_part :: "nat \<Rightarrow> nat \<Rightarrow> string option" where
  "turn_budget_part turns_taken max_turns =
     (if max_turns = 0 \<or> sat_mul_u32 turns_taken 2 < max_turns then None
      else Some (''<turn-budget>'' @ show_nat turns_taken @ ''/'' @ show_nat max_turns @
                 '' used</turn-budget>''))"

definition max_turns_moim_parts :: "nat \<Rightarrow> Session \<Rightarrow> Conversation \<Rightarrow> string list op" where
  "max_turns_moim_parts max_turns session c =
     andThen (lift (messages_since_kickoff c)) (\<lambda>ms.
       ret (case turn_budget_part (assistant_turn_count ms) max_turns of Some p \<Rightarrow> [p] | None \<Rightarrow> []))"

definition max_turns_run :: "op_env \<Rightarrow> nat \<Rightarrow> Session \<Rightarrow> Conversation \<Rightarrow> OperationResult op" where
  "max_turns_run V max_turns session c =
     andThen (lift (messages_since_kickoff c)) (\<lambda>ms.
       if assistant_turn_count ms < max_turns then ret NotApplicable
       else andThen (emit_message V (assistant_message V MAX_TURNS_MESSAGE))
              (\<lambda>m. ret (yielded_with [AppendMessage m])))"

definition MaxTurnsOperation :: "op_env \<Rightarrow> nat \<Rightarrow> Operation" where
  "MaxTurnsOperation V max_turns =
     (Operation_default ''max_turns'')\<lparr>op_moim_parts := max_turns_moim_parts max_turns,
                                      op_run := max_turns_run V max_turns\<rparr>"

subsection \<open>Errors\<close>

definition exit_on_error_run :: "Session \<Rightarrow> Conversation \<Rightarrow> OperationResult op" where
  "exit_on_error_run session c =
     (if trailing_error c = None then ret NotApplicable else ret yielded)"

definition ExitOnErrorOperation :: Operation where
  "ExitOnErrorOperation = (Operation_default ''exit_on_error'')\<lparr>op_run := exit_on_error_run\<rparr>"

subsection \<open>Steering\<close>

fun steer_messages :: "op_env \<Rightarrow> Session \<Rightarrow> Message list \<Rightarrow> StateEffect list op" where
  "steer_messages V session [] = ret []"
| "steer_messages V session (m # ms) =
     andThen (emit_hook V UserPromptSubmit
               (with_message (as_concat_text m) (HookContext_new UserPromptSubmit (s_id session)))) (\<lambda>_.
     andThen (emit_message V m) (\<lambda>m'.
     andThen (steer_messages V session ms) (\<lambda>es. ret (AppendMessage m' # es))))"

definition steer_run :: "op_env \<Rightarrow> Session \<Rightarrow> Conversation \<Rightarrow> OperationResult op" where
  "steer_run V session c =
     andThen (lift (messages_since_kickoff c)) (\<lambda>ms.
     andThen (if ends_turn ms then ret True
              else andThen (lift (last_effective_role ms)) (\<lambda>r. ret (r = ETool))) (\<lambda>between_turns w.
       if \<not> between_turns then ret NotApplicable w
       else (let pending = map with_steer (w_steer_queue w);
                 w' = w\<lparr>w_steer_queue := []\<rparr>
             in if pending = [] then ret NotApplicable w'
                else andThen (steer_messages V session pending) (\<lambda>es. ret (applied es)) w')))"

definition SteerOperation :: "op_env \<Rightarrow> Operation" where
  "SteerOperation V = (Operation_default ''steer'')\<lparr>op_run := steer_run V\<rparr>"

subsection \<open>Stop hooks\<close>

definition DENIED :: string where
  "DENIED = ''denied''"

definition denial_context_message :: "op_env \<Rightarrow> string \<Rightarrow> string \<Rightarrow> Message" where
  "denial_context_message V plugin reason =
     with_visibility (user_message V
       (''Stop hook '' @ ticked plugin @ '' blocked ending this turn:'' @ nl @ nl @ reason @ nl @ nl @
        ''Address this policy hook denial before trying to stop again.'')) False True"

definition denial_notification :: "op_env \<Rightarrow> string \<Rightarrow> Message" where
  "denial_notification V plugin =
     inline_notification V (''Stop hook '' @ ticked plugin @ '' blocked ending this turn.'')"

text \<open>U+2014 in UTF-8.\<close>

definition em_dash :: string where
  "em_dash = [CHR 0xE2, CHR 0x80, CHR 0x94]"

definition block_cap_warning :: "op_env \<Rightarrow> string \<Rightarrow> nat \<Rightarrow> Message" where
  "block_cap_warning V plugin cap =
     inline_notification V
       (''Stop hook '' @ ticked plugin @ '' blocked the turn from ending more than '' @ show_nat cap @
        '' consecutive times '' @ em_dash @ '' overriding and ending turn to avoid an infinite loop. Set '' @
        ''GOOSE_STOP_HOOK_BLOCK_CAP to raise this limit.'')"

definition denials :: "Message list \<Rightarrow> nat" where
  "denials ms = length (filter (\<lambda>m. message_meta ''stop_hook'' m DENIED \<noteq> None) ms)"

definition stop_hook_run :: "op_env \<Rightarrow> nat \<Rightarrow> Session \<Rightarrow> Conversation \<Rightarrow> OperationResult op" where
  "stop_hook_run V block_cap session c =
     andThen (lift (messages_since_kickoff c)) (\<lambda>ms.
       if \<not> ends_turn ms then ret NotApplicable
       else
         (let last_text = (case last_opt c of Some m \<Rightarrow> as_concat_text m | None \<Rightarrow> []);
              context = with_last_assistant_message last_text (HookContext_new Stop (s_id session))
          in andThen (emit_hook_blocking V Stop context) (\<lambda>decision.
               case decision of
                 Allow \<Rightarrow> ret yielded
               | Deny reason plugin \<Rightarrow>
                   (if block_cap < (denials ms mod 2 ^ 32 + 1) mod 2 ^ 32
                    then andThen (emit_message V (block_cap_warning V plugin block_cap))
                           (\<lambda>m. ret (yielded_with [AppendMessage m]))
                    else andThen (emit_message V (denial_notification V plugin)) (\<lambda>_.
                           ret (applied [AppendMessage
                             (set_message_meta ''stop_hook'' DENIED (JBool True)
                               (denial_context_message V plugin reason))]))))))"

definition StopHookOperation :: "op_env \<Rightarrow> nat \<Rightarrow> Operation" where
  "StopHookOperation V block_cap = (Operation_default ''stop_hook'')\<lparr>op_run := stop_hook_run V block_cap\<rparr>"

subsection \<open>Direct shell commands\<close>

definition SHELL_TOOL_NAME :: string where
  "SHELL_TOOL_NAME = ''shell''"

definition bang_shell_command :: "string \<Rightarrow> string option" where
  "bang_shell_command s =
     (case strip_prefix ''!'' (trim_start s) of
        None \<Rightarrow> None
      | Some rest \<Rightarrow> let command = trim_start rest in if command = [] then None else Some command)"

definition bang_shell_run :: "op_env \<Rightarrow> Session \<Rightarrow> Conversation \<Rightarrow> OperationResult op" where
  "bang_shell_run V session c =
     andThen (lift (messages_since_kickoff c)) (\<lambda>ms.
       case first_opt ms of
         None \<Rightarrow> ret NotApplicable
       | Some kickoff \<Rightarrow>
           (case bang_shell_command (as_concat_text kickoff) of
              None \<Rightarrow> ret NotApplicable
            | Some command \<Rightarrow>
                if 1 < length ms
                then andThen (lift (last_effective_role ms)) (\<lambda>r.
                       ret (if r = ETool then yielded else NotApplicable))
                else (\<lambda>w.
                  case gen_uuid V w of
                    (u, w') \<Rightarrow>
                      (let call = \<lparr>ctr_name = SHELL_TOOL_NAME,
                                   ctr_arguments = Some [(''command'', JStr command)]\<rparr>;
                           request = with_tool_request (Message_assistant (oe_now V)) (''bang_shell_'' @ u) (Inr call)
                       in andThen (emit_message V request) (\<lambda>m. ret (applied [AppendMessage m])) w'))))"

definition BangShellOperation :: "op_env \<Rightarrow> Operation" where
  "BangShellOperation V = (Operation_default ''bang_shell'')\<lparr>op_run := bang_shell_run V\<rparr>"

subsection \<open>Slash commands\<close>

definition parse_slash_command :: "string \<Rightarrow> SlashCommand option" where
  "parse_slash_command s =
     (let t = trim s;
          message = (if t \<in> {''/compact'', ''Please compact this conversation'', ''/summarize''} then ''/compact'' else t)
      in case strip_prefix ''/'' message of
           None \<Rightarrow> None
         | Some command \<Rightarrow>
             (case split_once '' '' command of
                Some (cmd, params) \<Rightarrow> Some \<lparr>sc_command = cmd, sc_params_str = trim params\<rparr>
              | None \<Rightarrow> Some \<lparr>sc_command = command, sc_params_str = []\<rparr>))"

fun try_commands ::
  "Operation list \<Rightarrow> SlashCommand \<Rightarrow> Session \<Rightarrow> Conversation \<Rightarrow> OperationResult op" where
  "try_commands [] cmd session c = ret NotApplicable"
| "try_commands (operation # ops) cmd session c =
     andThen (op_run_command operation cmd session c) (\<lambda>result.
       case result of
         NotApplicable \<Rightarrow> try_commands ops cmd session c
       | Applied r \<Rightarrow> ret (Applied r))"

definition slash_command_run :: "Operation list \<Rightarrow> Session \<Rightarrow> Conversation \<Rightarrow> OperationResult op" where
  "slash_command_run ops session c =
     andThen (lift (messages_since_kickoff c)) (\<lambda>ms.
       case first_opt ms of
         None \<Rightarrow> ret NotApplicable
       | Some m \<Rightarrow>
           if length ms \<noteq> 1 then ret NotApplicable
           else (case parse_slash_command (as_concat_text m) of
                   None \<Rightarrow> ret NotApplicable
                 | Some cmd \<Rightarrow> try_commands ops cmd session c))"

definition SlashCommandOperation :: "Operation list \<Rightarrow> Operation" where
  "SlashCommandOperation ops = (Operation_default ''slash_command'')\<lparr>op_run := slash_command_run ops\<rparr>"

subsection \<open>Projects\<close>

record ProjectEntry =
  pe_name :: string
  pe_description :: string
  pe_content :: string

definition project_prompt_parts ::
  "(string \<Rightarrow> ProjectEntry option) \<Rightarrow> Session \<Rightarrow> Conversation \<Rightarrow> (string \<times> string) list op" where
  "project_prompt_parts read_project session c =
     ret (case Option.bind (s_project_id session) read_project of
            None \<Rightarrow> []
          | Some entry \<Rightarrow>
              [(''project'', str_join (nl @ nl)
                 ([''# Project: '' @ pe_name entry] @
                  (if pe_description entry \<noteq> [] then [pe_description entry] else []) @
                  (if pe_content entry \<noteq> [] then [pe_content entry] else [])))])"

definition ProjectOperation :: "(string \<Rightarrow> ProjectEntry option) \<Rightarrow> Operation" where
  "ProjectOperation read_project =
     (Operation_default ''project'')\<lparr>op_prompt_parts := project_prompt_parts read_project\<rparr>"

subsection \<open>Commands that answer for the kickoff message\<close>

text \<open>The kickoff message and its id, or the error each of the command handlers returns.\<close>

definition command_message :: "string \<Rightarrow> Conversation \<Rightarrow> error + Message \<times> string" where
  "command_message what c =
     (case messages_since_kickoff c of
        Inl e \<Rightarrow> Inl e
      | Inr ms \<Rightarrow>
          (case first_opt ms of
             None \<Rightarrow> Inl (Anyhow (what @ '' conversation has no kickoff message''))
           | Some m \<Rightarrow>
               (case m_id m of
                  None \<Rightarrow> Inl (Anyhow ''Persisted slash command message has no id'')
                | Some i \<Rightarrow> Inr (m, i))))"

definition doctor_run_command ::
  "op_env \<Rightarrow> (string \<Rightarrow> error + (string + Message)) \<Rightarrow> SlashCommand \<Rightarrow> Session \<Rightarrow> Conversation \<Rightarrow>
     OperationResult op" where
  "doctor_run_command V doctor cmd session c =
     (if sc_command cmd \<noteq> ''doctor'' then ret NotApplicable
      else
        andThen (lift (command_message ''doctor command'' c)) (\<lambda>(m, i).
        andThen (lift (doctor (s_id session))) (\<lambda>outcome.
          let result = (case outcome of Inr r \<Rightarrow> r | Inl e \<Rightarrow> assistant_message V e)
          in if m_role result = Assistant
             then andThen (emit_message V (with_visibility m True False)) (\<lambda>_.
                  andThen (emit_message V (with_visibility result True False)) (\<lambda>result'.
                    ret (yielded_with [SetMessageVisibility i True False, AppendMessage result'])))
             else ret (applied [SetMessageVisibility i True False,
                                AppendMessage (with_visibility result False True)]))))"

definition DoctorOperation :: "op_env \<Rightarrow> (string \<Rightarrow> error + (string + Message)) \<Rightarrow> Operation" where
  "DoctorOperation V doctor =
     (Operation_default ''doctor'')\<lparr>op_run_command := doctor_run_command V doctor\<rparr>"

end
