(* ===== verification/Permission_Properties.thy ===== *)
theory Permission_Properties
  imports Permission
begin

text \<open>
  The permission manager is a store of levels: the last update of a tool wins and no other tool is
  touched (locale \<open>level_store\<close>, interpreted for both categories), and what is in memory is what the
  file gives back. The permission store answers with the last decision that has not expired.
\<close>

subsection \<open>Levels\<close>

locale level_store =
  fixes level :: "'s \<Rightarrow> 'k \<Rightarrow> 'l option"
    and set_level :: "'k \<Rightarrow> 'l \<Rightarrow> 's \<Rightarrow> 's"
  assumes level_set: "level (set_level k l s) k' = (if k' = k then Some l else level s k')"
begin

definition set_all :: "('k \<times> 'l) list \<Rightarrow> 's \<Rightarrow> 's" where
  "set_all kls s = fold (\<lambda>(k, l). set_level k l) kls s"

lemma level_set_all:
  "level (set_all kls s) k = (case map_of (rev kls) k of Some l \<Rightarrow> Some l | None \<Rightarrow> level s k)"
  by (induction kls arbitrary: s)
    (auto simp: set_all_def level_set map_add_def split: option.splits if_splits)

end

lemma get_update_permission:
  "get_permission category (update_permission category tool level pm) tool' =
     (if tool' = tool then Some level else get_permission category pm tool')"
  by (cases level; cases "map_of (pm_map pm) category"; cases "tool' = tool")
    (simp_all add: update_permission_def write_map_def forget_tool_def entry_or_default_def
      get_permission_def PermissionConfig_default_def)

lemma get_update_other_category:
  "category' \<noteq> category \<Longrightarrow>
   get_permission category' (update_permission category tool level pm) = get_permission category' pm"
  by (rule ext) (simp add: get_permission_def update_permission_def write_map_def)

interpretation user_levels: level_store get_user_permission update_user_permission
  by unfold_locales (simp add: get_user_permission_def update_user_permission_def get_update_permission)

interpretation smart_levels: level_store get_smart_approve_permission update_smart_approve_permission
  by unfold_locales
    (simp add: get_smart_approve_permission_def update_smart_approve_permission_def get_update_permission)

lemma update_permission_file: "pm_file (update_permission category tool level pm) = Some (pm_map (update_permission category tool level pm))"
  by (simp add: update_permission_def write_map_def)

lemma updates_file:
  "kls \<noteq> [] \<Longrightarrow>
   pm_file (fold (\<lambda>(k, l). update_user_permission k l) kls pm) =
     Some (pm_map (fold (\<lambda>(k, l). update_user_permission k l) kls pm))"
  by (induction kls rule: rev_induct) (auto simp: update_user_permission_def update_permission_file)

text \<open>After any sequence of updates a restart reads back a manager in which every tool has the level of its
  last update, and every tool that was not updated the level it had before.\<close>

theorem remembered_levels:
  assumes "kls \<noteq> []"
  shows "\<exists>pm'. PermissionManager_new (Some (pm_file (fold (\<lambda>(k, l). update_user_permission k l) kls pm))) = Inr pm' \<and>
     (\<forall>tool. get_user_permission pm' tool =
        (case map_of (rev kls) tool of Some l \<Rightarrow> Some l | None \<Rightarrow> get_user_permission pm tool))"
proof -
  let ?pm = "fold (\<lambda>(k, l). update_user_permission k l) kls pm"
  have "PermissionManager_new (Some (pm_file ?pm)) = Inr \<lparr>pm_map = pm_map ?pm, pm_file = Some (pm_map ?pm)\<rparr>"
    by (simp add: PermissionManager_new_def updates_file [OF assms])
  moreover have "get_user_permission \<lparr>pm_map = pm_map ?pm, pm_file = Some (pm_map ?pm)\<rparr> tool =
      get_user_permission ?pm tool" for tool
    by (simp add: get_user_permission_def get_permission_def)
  moreover have "get_user_permission ?pm tool =
      (case map_of (rev kls) tool of Some l \<Rightarrow> Some l | None \<Rightarrow> get_user_permission pm tool)" for tool
    using user_levels.level_set_all [of kls pm tool] by (simp add: user_levels.set_all_def)
  ultimately show ?thesis by auto
qed

theorem remembered_levels_witness:
  "\<exists>pm'. PermissionManager_new (Some (pm_file (fold (\<lambda>(k, l). update_user_permission k l)
        [(''a'', PAlwaysAllow), (''b'', PAskBefore), (''a'', PNeverAllow)] \<lparr>pm_map = [], pm_file = None\<rparr>))) = Inr pm' \<and>
     get_user_permission pm' ''a'' = Some PNeverAllow \<and> get_user_permission pm' ''c'' = None"
proof -
  have "get_user_permission \<lparr>pm_map = [], pm_file = None\<rparr> tool = None" for tool
    by (simp add: get_user_permission_def get_permission_def)
  with remembered_levels [of "[(''a'', PAlwaysAllow), (''b'', PAskBefore), (''a'', PNeverAllow)]"
      "\<lparr>pm_map = [], pm_file = None\<rparr>"]
  show ?thesis by fastforce
qed

subsection \<open>Annotations\<close>

lemma get_bulk_update:
  "get_permission SMART_APPROVE_PERMISSION (bulk_update_smart_approve_permissions tools level pm) tool =
     (if tool \<in> set tools then Some level else get_permission SMART_APPROVE_PERMISSION pm tool)"
proof -
  let ?f = "\<lambda>tool cfg. add_tool tool level (forget_tool tool cfg)"
  have "tool \<in> set (always_allow (fold ?f tools cfg)) \<longleftrightarrow>
        (if tool \<in> set tools then level = PAlwaysAllow else tool \<in> set (always_allow cfg))"
    "tool \<in> set (ask_before (fold ?f tools cfg)) \<longleftrightarrow>
        (if tool \<in> set tools then level = PAskBefore else tool \<in> set (ask_before cfg))"
    "tool \<in> set (never_allow (fold ?f tools cfg)) \<longleftrightarrow>
        (if tool \<in> set tools then level = PNeverAllow else tool \<in> set (never_allow cfg))" for cfg
    by (induction tools arbitrary: cfg) (cases level; auto simp: forget_tool_def)+
  then show ?thesis
    by (cases level; cases "map_of (pm_map pm) SMART_APPROVE_PERMISSION"; cases "tool \<in> set tools")
      (simp_all add: bulk_update_smart_approve_permissions_def write_map_def
        entry_or_default_def get_permission_def PermissionConfig_default_def)
qed

subsection \<open>Removing an extension\<close>

lemma map_of_remove_extension:
  "map_of (pm_map (remove_extension e pm)) category = map_option (forget_extension e) (map_of (pm_map pm) category)"
  by (simp add: remove_extension_def write_map_def map_of_map)

text \<open>Removing an extension forgets, in every category, exactly the tools whose name begins with the
  extension's name, and keeps the level of every other tool.\<close>

theorem remove_extension_levels:
  "get_permission category (remove_extension ext_name pm) tool =
     (if starts_with ext_name tool then None else get_permission category pm tool)"
  by (auto simp: get_permission_def map_of_remove_extension forget_extension_def split: option.splits)

text \<open>Names are not compared up to the separator: removing the extension \<open>dev\<close> also forgets that the user
  never allows the shell of \<open>developer\<close>.\<close>

theorem remove_extension_forgets_longer_name:
  "get_user_permission (remove_extension ''dev''
      (update_user_permission ''developer__shell'' PNeverAllow \<lparr>pm_map = [], pm_file = None\<rparr>))
    ''developer__shell'' = None"
  by (simp add: get_user_permission_def get_permission_def map_of_remove_extension forget_extension_def
      update_user_permission_def update_permission_def write_map_def entry_or_default_def forget_tool_def
      starts_with_def PermissionConfig_default_def)

subsection \<open>The permission store\<close>

lemma rfind_snoc [simp]: "rfind p (xs @ [x]) = (if p x then Some x else rfind p xs)"
  by (simp add: rfind_def)

lemma rfind_simps [simp]: "rfind p [] = None" "rfind p [x] = (if p x then Some x else None)"
  by (simp_all add: rfind_def)

text \<open>C13: a recorded decision answers every later request of the same tool and arguments until it expires; before
  and after that, and for every other tool or arguments, the answer is the one there was.\<close>

theorem recorded_decision_answers:
  assumes "record_permission E blake3 t req is_allowed secs s = Inr s'"
    and "tr_tool_call req = Inr call" "tr_tool_call req' = Inr call'"
    and "case secs of None \<Rightarrow> True | Some d \<Rightarrow> int d < 2 ^ 62 \<and> 0 \<le> t \<and> t < 2 ^ 62"
  shows "check_permission E blake3 now req' s' =
     (if permission_key E blake3 call' = permission_key E blake3 call \<and>
         (case secs of None \<Rightarrow> True | Some d \<Rightarrow> now < t + int d)
      then Inr (Some is_allowed) else check_permission E blake3 now req' s)"
proof -
  have wrap: "wrap_i64 (t + wrap_i64 (int d)) = t + int d" if "secs = Some d" for d
    using assms(4) that by (simp add: wrap_i64_def)
  show ?thesis
    using assms(1-3) wrap
    by (auto simp: record_permission_def check_permission_def Let_def save_def unexpired_def
        split: option.splits)
qed

text \<open>Dropping expired records never changes an answer, now or later, and afterwards no expired record is left.\<close>

theorem cleanup_keeps_answers:
  assumes "now \<le> t" "distinct (map fst (tps_permissions s))"
  shows "check_permission E blake3 t req (cleanup_expired now s) = check_permission E blake3 t req s \<and>
     list_all (\<lambda>(k, rs). rs \<noteq> [] \<and> list_all (unexpired now) rs) (tps_permissions (cleanup_expired now s))"
proof
  have later: "unexpired t r \<Longrightarrow> unexpired now r" for r
    using assms(1) by (auto simp: unexpired_def split: option.splits)
  have rf: "rfind (unexpired t) (filter (unexpired now) rs) = rfind (unexpired t) rs" for rs
    by (induction rs rule: rev_induct) (auto dest: later)
  let ?ret = "\<lambda>ps. filter (\<lambda>(k, rs). rs \<noteq> []) (map (\<lambda>(k, rs). (k, filter (unexpired now) rs)) ps)"
  have perms: "tps_permissions (cleanup_expired now s) = ?ret (tps_permissions s)"
    by (simp add: cleanup_expired_def Let_def save_def)
  have none: "map_of (?ret ps) k = None" if "k \<notin> fst ` set ps" for k ps
    using that by (force simp: map_of_eq_None_iff)
  have "map_of (?ret ps) k =
      (case map_of ps k of None \<Rightarrow> None
       | Some rs \<Rightarrow> if filter (unexpired now) rs = [] then None else Some (filter (unexpired now) rs))"
    if "distinct (map fst ps)" for ps k
    using that by (induction ps) (auto simp: none)
  from this [OF assms(2)] rf
  show "check_permission E blake3 t req (cleanup_expired now s) = check_permission E blake3 t req s"
    by (auto simp: check_permission_def perms split: sum.splits option.splits)
      (metis option.simps(8) rf rfind_simps(1))+
  show "list_all (\<lambda>(k, rs). rs \<noteq> [] \<and> list_all (unexpired now) rs) (tps_permissions (cleanup_expired now s))"
    by (auto simp: perms list_all_iff)
qed

subsection \<open>Witnesses\<close>

definition request0 :: "string \<Rightarrow> string \<Rightarrow> ToolRequest" where
  "request0 i name = \<lparr>tr_id = i, tr_tool_call = Inr \<lparr>ctr_name = name, ctr_arguments = None\<rparr>,
                      tr_metadata = None, tr_tool_meta = None\<rparr>"

definition empty_permissions :: ToolPermissionStore where
  "empty_permissions = ToolPermissionStore_new None"

theorem recorded_decision_answers_witness:
  "\<exists>s'. record_permission ext0 id 10 (request0 ''1'' ''shell'') True (Some 5) empty_permissions = Inr s' \<and>
     check_permission ext0 id 12 (request0 ''2'' ''shell'') s' = Inr (Some True) \<and>
     check_permission ext0 id 15 (request0 ''2'' ''shell'') s' = Inr None \<and>
     check_permission ext0 id 12 (request0 ''2'' ''write'') s' = Inr None"
proof -
  obtain s' where s': "record_permission ext0 id 10 (request0 ''1'' ''shell'') True (Some 5) empty_permissions = Inr s'"
    by (simp add: record_permission_def request0_def Let_def)
  have call: "tr_tool_call (request0 i name) = Inr \<lparr>ctr_name = name, ctr_arguments = None\<rparr>" for i name
    by (simp add: request0_def)
  have none: "check_permission ext0 id now (request0 i name) empty_permissions = Inr None" for now i name
    by (simp add: check_permission_def request0_def empty_permissions_def ToolPermissionStore_new_def)
  note answers = recorded_decision_answers [OF s' call call]
  show ?thesis
    using s' answers [of 12 "''2''" "''shell''"] answers [of 15 "''2''" "''shell''"] answers [of 12 "''2''" "''write''"]
    by (simp add: none permission_key_def)
qed

theorem cleanup_keeps_answers_witness:
  "\<exists>s'. record_permission ext0 id 10 (request0 ''1'' ''shell'') True (Some 5) empty_permissions = Inr s' \<and>
     check_permission ext0 id 20 (request0 ''1'' ''shell'') (cleanup_expired 20 s') =
       check_permission ext0 id 20 (request0 ''1'' ''shell'') s'"
proof -
  obtain s' where s': "record_permission ext0 id 10 (request0 ''1'' ''shell'') True (Some 5) empty_permissions = Inr s'"
    by (simp add: record_permission_def request0_def Let_def)
  then have "distinct (map fst (tps_permissions s'))"
    by (auto simp: record_permission_def request0_def Let_def empty_permissions_def ToolPermissionStore_new_def save_def)
  with cleanup_keeps_answers [of 20 20 s' ext0 id "request0 ''1'' ''shell''"] s' show ?thesis by simp
qed

text \<open>Cleaning writes the file only when a key loses all its records, so an expired record of a key that keeps
  another one stays in the file although it is gone from memory.\<close>

theorem cleanup_leaves_expired_on_disk:
  "\<exists>s now. tps_file s = Some (tps_permissions s) \<and>
     tps_permissions (cleanup_expired now s) \<noteq> tps_permissions s \<and>
     tps_file (cleanup_expired now s) = Some (tps_permissions s)"
proof -
  let ?r = "\<lambda>e. \<lparr>tpr_tool_name = [], tpr_allowed = True, tpr_context_hash = [], tpr_readable_context = None,
      tpr_timestamp = 0, tpr_expiry = e\<rparr>"
  let ?s = "\<lparr>tps_permissions = [([], [?r (Some 1), ?r None])], tps_file = Some [([], [?r (Some 1), ?r None])]\<rparr>"
  have "tps_permissions (cleanup_expired 2 ?s) \<noteq> tps_permissions ?s"
    "tps_file (cleanup_expired 2 ?s) = Some (tps_permissions ?s)"
    by (simp_all add: cleanup_expired_def Let_def unexpired_def)
  then show ?thesis by (intro exI [of _ ?s] exI [of _ 2]) simp
qed

end
