(* ===== verification/Tool_Inspection.thy ===== *)
theory Tool_Inspection
  imports Permission_Properties
begin

text \<open>
  \<open>tool_monitor.rs\<close>, \<open>tool_inspection.rs\<close> and \<open>permission/permission_inspector.rs\<close>: before a tool runs, every
  enabled inspector looks at the pending requests. The permission inspector's verdict is the
  baseline; the others can only make it stricter. Inspectors act on the permission manager, which
  they share. The security, egress and adversary inspectors (pattern and model classifiers) are
  arbitrary inspectors here.
\<close>

subsection \<open>Verdicts\<close>

datatype InspectionAction = IAllow | IDeny | IRequireApproval "string option"

record InspectionResult =
  ir_tool_request_id :: string
  ir_action :: InspectionAction
  ir_reason :: string
  ir_confidence :: f64
  ir_inspector_name :: string
  ir_finding_id :: "string option"

record PermissionCheckResult =
  approved :: "ToolRequest list"
  needs_approval :: "ToolRequest list"
  denied :: "ToolRequest list"

subsection \<open>The repetition inspector\<close>

record InternalToolCall =
  itc_name :: string
  itc_parameters :: json

definition call_matches :: "InternalToolCall \<Rightarrow> InternalToolCall \<Rightarrow> bool" where
  "call_matches a b = (itc_name a = itc_name b \<and> json_eq (itc_parameters a) (itc_parameters b))"

definition from_tool_call :: "CallToolRequestParams \<Rightarrow> InternalToolCall" where
  "from_tool_call call =
     \<lparr>itc_name = ctr_name call,
      itc_parameters = (case ctr_arguments call of Some m \<Rightarrow> JObj m | None \<Rightarrow> JNull)\<rparr>"

record RepetitionInspector =
  max_repetitions :: "nat option"
  last_call :: "InternalToolCall option"
  repeat_count :: nat
  call_counts :: "(string \<times> nat) list"

definition RepetitionInspector_new :: "nat option \<Rightarrow> RepetitionInspector" where
  "RepetitionInspector_new limit =
     \<lparr>max_repetitions = limit, last_call = None, repeat_count = 0, call_counts = []\<rparr>"

definition count_call :: "string \<Rightarrow> (string \<times> nat) list \<Rightarrow> (string \<times> nat) list" where
  "count_call name counts =
     obj_insert name (Suc (case map_of counts name of Some n \<Rightarrow> n | None \<Rightarrow> 0)) counts"

definition check_tool_call :: "CallToolRequestParams \<Rightarrow> RepetitionInspector \<Rightarrow> bool \<times> RepetitionInspector" where
  "check_tool_call call ins =
     (let c = from_tool_call call;
          ins1 = ins\<lparr>call_counts := count_call (itc_name c) (call_counts ins)\<rparr>
      in case max_repetitions ins of
           None \<Rightarrow> (True, ins1\<lparr>last_call := Some c, repeat_count := 1\<rparr>)
         | Some limit \<Rightarrow>
             (case last_call ins of
                Some l \<Rightarrow>
                  if call_matches l c
                  then (let n = Suc (repeat_count ins)
                        in if limit < n then (False, ins1\<lparr>repeat_count := n\<rparr>)
                           else (True, ins1\<lparr>last_call := Some c, repeat_count := n\<rparr>))
                  else (True, ins1\<lparr>last_call := Some c, repeat_count := 1\<rparr>)
              | None \<Rightarrow> (True, ins1\<lparr>last_call := Some c, repeat_count := 1\<rparr>)))"

definition repetition_reset :: "RepetitionInspector \<Rightarrow> RepetitionInspector" where
  "repetition_reset ins = ins\<lparr>last_call := None, repeat_count := 0, call_counts := []\<rparr>"

definition repetition_finding :: "string \<Rightarrow> string \<Rightarrow> InspectionResult" where
  "repetition_finding i name =
     \<lparr>ir_tool_request_id = i, ir_action = IDeny,
      ir_reason = ''Tool '' @ quoted name @ '' has exceeded maximum repetitions'',
      ir_confidence = 1, ir_inspector_name = ''repetition'', ir_finding_id = Some ''REP-001''\<rparr>"

text \<open>The state is copied for each request, and the copy is thrown away.\<close>

definition repetition_inspect :: "RepetitionInspector \<Rightarrow> ToolRequest list \<Rightarrow> InspectionResult list" where
  "repetition_inspect ins reqs =
     filter_map (\<lambda>req.
       case tr_tool_call req of
         Inl _ \<Rightarrow> None
       | Inr call \<Rightarrow>
           if fst (check_tool_call call ins) then None
           else Some (repetition_finding (tr_id req) (ctr_name call))) reqs"

subsection \<open>The permission inspector\<close>

definition MANAGE_EXTENSIONS_TOOL_NAME_COMPLETE :: string where
  "MANAGE_EXTENSIONS_TOOL_NAME_COMPLETE = ''extensionmanager__manage_extensions''"

record PermissionInspector =
  pi_readonly_tools :: "string set"
  pi_judge :: "string \<Rightarrow> ToolRequest list \<Rightarrow> string list"

text \<open>The judge is \<open>detect_read_only_requests\<close>, or answers nothing when no provider is set.\<close>

definition PermissionInspector_new :: "judge_ext option \<Rightarrow> int \<Rightarrow> PermissionInspector" where
  "PermissionInspector_new provider now =
     \<lparr>pi_readonly_tools = {},
      pi_judge = (case provider of
                    Some J \<Rightarrow> detect_read_only_requests J now
                  | None \<Rightarrow> (\<lambda>_ _. []))\<rparr>"

definition pi_apply_tool_annotations ::
  "Tool list \<Rightarrow> PermissionInspector \<Rightarrow> PermissionManager \<Rightarrow> PermissionInspector \<times> PermissionManager" where
  "pi_apply_tool_annotations tools pin pm =
     (pin\<lparr>pi_readonly_tools := tl_name ` set (filter (\<lambda>t. tl_annotations t = Some (Some True)) tools)\<rparr>,
      pm_apply_tool_annotations tools pm)"

definition is_readonly_annotated_tool :: "PermissionInspector \<Rightarrow> string \<Rightarrow> bool" where
  "is_readonly_annotated_tool pin tool = (tool \<in> pi_readonly_tools pin)"

text \<open>\<open>Some (Some action)\<close> is a verdict, \<open>Some None\<close> defers to the judge, \<open>None\<close> skips the request.\<close>

definition permission_action ::
  "PermissionInspector \<Rightarrow> PermissionManager \<Rightarrow> GooseMode \<Rightarrow> string \<Rightarrow> InspectionAction option option" where
  "permission_action pin pm mode tool =
     (case mode of
        Chat \<Rightarrow> None
      | Auto \<Rightarrow> Some (Some IAllow)
      | _ \<Rightarrow>
          (case get_user_permission pm tool of
             Some PAlwaysAllow \<Rightarrow> Some (Some IAllow)
           | Some PNeverAllow \<Rightarrow> Some (Some IDeny)
           | Some PAskBefore \<Rightarrow> Some (Some (IRequireApproval None))
           | None \<Rightarrow>
               if mode = SmartApprove \<and> is_readonly_annotated_tool pin tool then Some (Some IAllow)
               else if tool = MANAGE_EXTENSIONS_TOOL_NAME_COMPLETE
               then Some (Some (IRequireApproval (Some ''Extension management requires approval for security'')))
               else if mode = SmartApprove \<and>
                       get_smart_approve_permission pm tool \<in> {None, Some PAlwaysAllow}
               then Some None
               else Some (Some (IRequireApproval None))))"

definition permission_reason :: "PermissionInspector \<Rightarrow> GooseMode \<Rightarrow> string \<Rightarrow> InspectionAction \<Rightarrow> string" where
  "permission_reason pin mode tool action =
     (case action of
        IAllow \<Rightarrow>
          if mode = Auto then ''Auto mode - all tools approved''
          else if is_readonly_annotated_tool pin tool then ''Tool annotated as read-only''
          else ''User permission allows this tool''
      | IDeny \<Rightarrow> ''User permission denies this tool''
      | IRequireApproval _ \<Rightarrow>
          if tool = MANAGE_EXTENSIONS_TOOL_NAME_COMPLETE then ''Extension management requires user approval''
          else ''Tool requires user approval'')"

definition permission_finding :: "string \<Rightarrow> InspectionAction \<Rightarrow> string \<Rightarrow> InspectionResult" where
  "permission_finding i action reason =
     \<lparr>ir_tool_request_id = i, ir_action = action, ir_reason = reason, ir_confidence = 1,
      ir_inspector_name = ''permission'', ir_finding_id = None\<rparr>"

definition permission_verdict ::
  "PermissionInspector \<Rightarrow> PermissionManager \<Rightarrow> GooseMode \<Rightarrow> ToolRequest \<Rightarrow> InspectionResult option" where
  "permission_verdict pin pm mode req =
     (case tr_tool_call req of
        Inl _ \<Rightarrow> None
      | Inr call \<Rightarrow>
          (case permission_action pin pm mode (ctr_name call) of
             Some (Some action) \<Rightarrow>
               Some (permission_finding (tr_id req) action (permission_reason pin mode (ctr_name call) action))
           | _ \<Rightarrow> None))"

definition deferred ::
  "PermissionInspector \<Rightarrow> PermissionManager \<Rightarrow> GooseMode \<Rightarrow> ToolRequest \<Rightarrow> bool" where
  "deferred pin pm mode req =
     (case tr_tool_call req of
        Inl _ \<Rightarrow> False
      | Inr call \<Rightarrow> permission_action pin pm mode (ctr_name call) = Some None)"

definition cache_non_readonly_decision :: "ToolRequest \<Rightarrow> bool \<Rightarrow> PermissionManager \<Rightarrow> PermissionManager" where
  "cache_non_readonly_decision req is_readonly pm =
     (if is_readonly then pm
      else (case tr_tool_call req of
              Inl _ \<Rightarrow> pm
            | Inr call \<Rightarrow> update_smart_approve_permission (ctr_name call) PAskBefore pm))"

definition judged_finding :: "ToolRequest \<Rightarrow> bool \<Rightarrow> InspectionResult" where
  "judged_finding req is_readonly =
     permission_finding (tr_id req)
       (if is_readonly then IAllow else IRequireApproval None)
       (if is_readonly then ''LLM detected as read-only'' else ''Tool requires user approval'')"

definition permission_inspect ::
  "PermissionInspector \<Rightarrow> string \<Rightarrow> ToolRequest list \<Rightarrow> GooseMode \<Rightarrow> PermissionManager \<Rightarrow>
     InspectionResult list \<times> PermissionManager" where
  "permission_inspect pin sid reqs mode pm =
     (let candidates = filter (deferred pin pm mode) reqs;
          readonly = (\<lambda>req. tr_id req \<in> set (if candidates = [] then [] else pi_judge pin sid candidates))
      in (filter_map (permission_verdict pin pm mode) reqs @ map (\<lambda>req. judged_finding req (readonly req)) candidates,
          fold (\<lambda>req. cache_non_readonly_decision req (readonly req)) candidates pm))"

subsection \<open>The inspection manager\<close>

text \<open>A trait object: its name, whether it is enabled, its inspection (\<open>Inl\<close> is an error) and, for the
  permission inspector, the downcast.\<close>

record Inspector =
  in_name :: string
  in_enabled :: bool
  in_inspect :: "string \<Rightarrow> ToolRequest list \<Rightarrow> Message list \<Rightarrow> GooseMode \<Rightarrow> PermissionManager \<Rightarrow>
                   (error + InspectionResult list) \<times> PermissionManager"
  in_permission :: "PermissionInspector option"

definition permission_inspector :: "PermissionInspector \<Rightarrow> Inspector" where
  "permission_inspector pin =
     \<lparr>in_name = ''permission'', in_enabled = True,
      in_inspect = (\<lambda>sid reqs _ mode pm.
        case permission_inspect pin sid reqs mode pm of (rs, pm') \<Rightarrow> (Inr rs, pm')),
      in_permission = Some pin\<rparr>"

definition repetition_inspector :: "RepetitionInspector \<Rightarrow> Inspector" where
  "repetition_inspector ins =
     \<lparr>in_name = ''repetition'', in_enabled = True,
      in_inspect = (\<lambda>_ reqs _ _ pm. (Inr (repetition_inspect ins reqs), pm)), in_permission = None\<rparr>"

fun inspect_tools ::
  "Inspector list \<Rightarrow> string \<Rightarrow> ToolRequest list \<Rightarrow> Message list \<Rightarrow> GooseMode \<Rightarrow> PermissionManager \<Rightarrow>
     InspectionResult list \<times> PermissionManager" where
  "inspect_tools [] sid reqs msgs mode pm = ([], pm)"
| "inspect_tools (i # is) sid reqs msgs mode pm =
     (if \<not> in_enabled i then inspect_tools is sid reqs msgs mode pm
      else (case in_inspect i sid reqs msgs mode pm of
              (Inr rs, pm') \<Rightarrow>
                (case inspect_tools is sid reqs msgs mode pm' of (rest, pm'') \<Rightarrow> (rs @ rest, pm''))
            | (Inl _, pm') \<Rightarrow> inspect_tools is sid reqs msgs mode pm'))"

definition inspector_names :: "Inspector list \<Rightarrow> string list" where
  "inspector_names is = map in_name is"

definition get_permission_inspector :: "Inspector list \<Rightarrow> PermissionInspector option" where
  "get_permission_inspector is = Option.bind (find (\<lambda>i. in_name i = ''permission'') is) in_permission"

definition update_permission_manager ::
  "Inspector list \<Rightarrow> string \<Rightarrow> PermissionLevel \<Rightarrow> PermissionManager \<Rightarrow> PermissionManager" where
  "update_permission_manager is tool level pm =
     (case get_permission_inspector is of
        Some _ \<Rightarrow> update_user_permission tool level pm
      | None \<Rightarrow> pm)"

definition has_request :: "string \<Rightarrow> ToolRequest list \<Rightarrow> bool" where
  "has_request i reqs = list_ex (\<lambda>req. tr_id req = i) reqs"

definition without :: "string \<Rightarrow> ToolRequest list \<Rightarrow> ToolRequest list" where
  "without i reqs = filter (\<lambda>req. tr_id req \<noteq> i) reqs"

definition apply_inspection_result ::
  "(string \<Rightarrow> ToolRequest option) \<Rightarrow> InspectionResult \<Rightarrow> PermissionCheckResult \<Rightarrow> PermissionCheckResult" where
  "apply_inspection_result all_requests result r =
     (let i = ir_tool_request_id result
      in case ir_action result of
           IDeny \<Rightarrow>
             (let r' = r\<lparr>approved := without i (approved r), needs_approval := without i (needs_approval r)\<rparr>
              in case all_requests i of
                   Some req \<Rightarrow> if has_request i (denied r) then r' else r'\<lparr>denied := denied r @ [req]\<rparr>
                 | None \<Rightarrow> r')
         | IRequireApproval _ \<Rightarrow>
             (let r' = r\<lparr>approved := without i (approved r)\<rparr>
              in case all_requests i of
                   Some req \<Rightarrow>
                     if has_request i (denied r) \<or> has_request i (needs_approval r) then r'
                     else r'\<lparr>needs_approval := needs_approval r @ [req]\<rparr>
                 | None \<Rightarrow> r')
         | IAllow \<Rightarrow> r)"

text \<open>The map is filled in this order, so a later request of the same id replaces an earlier one.\<close>

definition request_map :: "PermissionCheckResult \<Rightarrow> string \<Rightarrow> ToolRequest option" where
  "request_map r = map_of (rev (map (\<lambda>req. (tr_id req, req)) (approved r @ needs_approval r @ denied r)))"

definition apply_inspection_results_to_permissions ::
  "PermissionCheckResult \<Rightarrow> InspectionResult list \<Rightarrow> PermissionCheckResult" where
  "apply_inspection_results_to_permissions r results =
     (if results = [] then r else fold (apply_inspection_result (request_map r)) results r)"

definition add_baseline ::
  "InspectionResult list \<Rightarrow> ToolRequest \<Rightarrow> PermissionCheckResult \<Rightarrow> PermissionCheckResult" where
  "add_baseline results req r =
     (case find (\<lambda>res. ir_tool_request_id res = tr_id req) results of
        Some res \<Rightarrow>
          (case ir_action res of
             IAllow \<Rightarrow> r\<lparr>approved := approved r @ [req]\<rparr>
           | IDeny \<Rightarrow> r\<lparr>denied := denied r @ [req]\<rparr>
           | IRequireApproval _ \<Rightarrow> r\<lparr>needs_approval := needs_approval r @ [req]\<rparr>)
      | None \<Rightarrow> r\<lparr>needs_approval := needs_approval r @ [req]\<rparr>)"

definition process_inspection_results ::
  "ToolRequest list \<Rightarrow> InspectionResult list \<Rightarrow> PermissionCheckResult" where
  "process_inspection_results reqs results =
     (let permission_results = filter (\<lambda>res. ir_inspector_name res = ''permission'') results;
          baseline = fold (add_baseline permission_results) reqs
                       \<lparr>approved = [], needs_approval = [], denied = []\<rparr>;
          others = filter (\<lambda>res. ir_inspector_name res \<noteq> ''permission'') results
      in if others \<noteq> [] then apply_inspection_results_to_permissions baseline others else baseline)"

definition process_inspection_results_with_permission_inspector ::
  "Inspector list \<Rightarrow> ToolRequest list \<Rightarrow> InspectionResult list \<Rightarrow> PermissionCheckResult option" where
  "process_inspection_results_with_permission_inspector is reqs results =
     map_option (\<lambda>_. process_inspection_results reqs results) (get_permission_inspector is)"

definition get_security_finding_id_from_results :: "string \<Rightarrow> InspectionResult list \<Rightarrow> string option" where
  "get_security_finding_id_from_results i results =
     Option.bind (find (\<lambda>res. ir_tool_request_id res = i \<and> ir_inspector_name res = ''security'') results)
       ir_finding_id"

end
