(* ===== verification/Tool_Inspection_Properties.thy ===== *)
theory Tool_Inspection_Properties
  imports Tool_Inspection "HOL-Library.Multiset"
begin

text \<open>
  The verdict on a request is the strictest of the permission inspector's and of every other
  inspector's, each request lands in exactly one of the three lists, and outside \<open>Auto\<close> mode nothing is
  approved that the user, an annotation or the judge did not allow. The repetition limit is enforced
  by \<open>check_tool_call\<close>, but never by \<open>inspect\<close>.
\<close>

subsection \<open>Combining verdicts\<close>

fun strictness :: "InspectionAction \<Rightarrow> nat" where
  "strictness IAllow = 0"
| "strictness (IRequireApproval _) = 1"
| "strictness IDeny = 2"

definition level_of :: "PermissionCheckResult \<Rightarrow> ToolRequest \<Rightarrow> nat" where
  "level_of r req =
     (if req \<in> set (denied r) then 2 else if req \<in> set (needs_approval r) then 1 else 0)"

text \<open>Every request is in exactly one list, once.\<close>

definition sorted_out :: "ToolRequest list \<Rightarrow> PermissionCheckResult \<Rightarrow> bool" where
  "sorted_out reqs r =
     (distinct (approved r @ needs_approval r @ denied r) \<and>
      set (approved r @ needs_approval r @ denied r) = set reqs)"

lemma distinct_ids_eq:
  "distinct (map tr_id reqs) \<Longrightarrow> a \<in> set reqs \<Longrightarrow> b \<in> set reqs \<Longrightarrow> tr_id a = tr_id b \<Longrightarrow> a = b"
  by (auto simp: distinct_map inj_on_def)

lemma set_without: "set (without i xs) = {x \<in> set xs. tr_id x \<noteq> i}"
  by (auto simp: without_def)

lemma without_absent: "\<forall>x \<in> set xs. tr_id x \<noteq> i \<Longrightarrow> without i xs = xs"
  by (auto simp: without_def)

lemma distinct_without [simp]: "distinct xs \<Longrightarrow> distinct (without i xs)"
  by (simp add: without_def)

lemma has_request_iff:
  assumes "distinct (map tr_id reqs)" "set xs \<subseteq> set reqs" "req \<in> set reqs" "tr_id req = i"
  shows "has_request i xs \<longleftrightarrow> req \<in> set xs"
  using assms distinct_ids_eq by (fastforce simp: has_request_def list_ex_iff)

lemma set_without_req:
  assumes "distinct (map tr_id reqs)" "set xs \<subseteq> set reqs" "req \<in> set reqs" "tr_id req = i"
  shows "set (without i xs) = set xs - {req}"
  using assms distinct_ids_eq by (fastforce simp: set_without)

lemma apply_result_unknown:
  assumes "sorted_out reqs r" "all_requests (ir_tool_request_id res) = None"
    and "\<forall>req \<in> set reqs. tr_id req \<noteq> ir_tool_request_id res"
  shows "apply_inspection_result all_requests res r = r"
proof -
  from assms(1,3) have "without (ir_tool_request_id res) (approved r) = approved r"
    "without (ir_tool_request_id res) (needs_approval r) = needs_approval r"
    by (intro without_absent; auto simp: sorted_out_def)+
  with assms(2) show ?thesis
    by (auto simp: apply_inspection_result_def Let_def split: InspectionAction.splits)
qed

lemma apply_result_known:
  assumes d: "distinct (map tr_id reqs)" and ok: "sorted_out reqs r"
    and req: "req \<in> set reqs" "ir_tool_request_id res = tr_id req" "all_requests (tr_id req) = Some req"
  shows "sorted_out reqs (apply_inspection_result all_requests res r)" (is ?A)
    and "level_of (apply_inspection_result all_requests res r) req =
           max (level_of r req) (strictness (ir_action res))" (is ?B)
    and "req' \<noteq> req \<Longrightarrow> level_of (apply_inspection_result all_requests res r) req' = level_of r req'"
      (is "_ \<Longrightarrow> ?C")
proof -
  have sub: "set (approved r) \<subseteq> set reqs" "set (needs_approval r) \<subseteq> set reqs" "set (denied r) \<subseteq> set reqs"
    using ok by (auto simp: sorted_out_def)
  note has = has_request_iff [OF d _ req(1) refl] and wo = set_without_req [OF d _ req(1) refl]
  note facts = has [OF sub(2)] has [OF sub(3)] wo [OF sub(1)] wo [OF sub(2)]
  show ?A
    by (cases "ir_action res")
      (use ok req in \<open>auto simp: apply_inspection_result_def Let_def facts sorted_out_def\<close>)
  show ?B
    by (cases "ir_action res")
      (use ok req in \<open>auto simp: apply_inspection_result_def Let_def facts level_of_def sorted_out_def\<close>)
  show ?C if "req' \<noteq> req"
    by (cases "ir_action res")
      (use that req in \<open>auto simp: apply_inspection_result_def Let_def facts level_of_def\<close>)
qed

definition other_strictness :: "InspectionResult list \<Rightarrow> ToolRequest \<Rightarrow> nat" where
  "other_strictness results req =
     fold max (map (strictness \<circ> ir_action) (filter (\<lambda>res. ir_tool_request_id res = tr_id req) results)) 0"

lemma fold_max_init: "fold max ns (m :: nat) = max m (fold max ns 0)"
proof (induction ns arbitrary: m)
  case (Cons n ns)
  from Cons.IH [of "max n m"] Cons.IH [of n] show ?case by simp
qed simp

lemma apply_results_levels:
  assumes d: "distinct (map tr_id reqs)" and ok: "sorted_out reqs r"
    and all: "\<And>i. all_requests i = find (\<lambda>req. tr_id req = i) reqs"
  shows "sorted_out reqs (fold (apply_inspection_result all_requests) results r) \<and>
     (\<forall>req \<in> set reqs. level_of (fold (apply_inspection_result all_requests) results r) req =
        max (level_of r req) (other_strictness results req))"
  using ok
proof (induction results arbitrary: r)
  case Nil
  then show ?case by (simp add: other_strictness_def)
next
  case (Cons res results)
  let ?r = "apply_inspection_result all_requests res r"
  have step: "sorted_out reqs ?r \<and> (\<forall>req \<in> set reqs. level_of ?r req =
      (if ir_tool_request_id res = tr_id req then max (level_of r req) (strictness (ir_action res)) else level_of r req))"
  proof (cases "all_requests (ir_tool_request_id res)")
    case None
    then have "\<forall>req \<in> set reqs. tr_id req \<noteq> ir_tool_request_id res" by (auto simp: all find_None_iff)
    with apply_result_unknown [of reqs r all_requests res] None Cons.prems show ?thesis by auto
  next
    case (Some req)
    then have req: "req \<in> set reqs" "ir_tool_request_id res = tr_id req" "all_requests (tr_id req) = Some req"
      by (auto simp: all find_Some_iff)
    note known = apply_result_known [of reqs r req res all_requests, OF d Cons.prems req]
    from known(1,2) known(3) show ?thesis
      using req(2) distinct_ids_eq [OF d _ req(1)] by metis
  qed
  from Cons.IH [of ?r] step show ?case
    by (auto simp: other_strictness_def fold_max_init [of _ "max _ _"] fold_max_init [of _ "strictness _"])
qed

subsection \<open>The baseline\<close>

definition baseline_strictness :: "InspectionResult list \<Rightarrow> ToolRequest \<Rightarrow> nat" where
  "baseline_strictness results req =
     (case find (\<lambda>res. ir_tool_request_id res = tr_id req) results of
        Some res \<Rightarrow> strictness (ir_action res)
      | None \<Rightarrow> 1)"

lemma strictness_cases: "strictness a = 0 \<longleftrightarrow> a = IAllow" "strictness a = 2 \<longleftrightarrow> a = IDeny"
  "strictness a = Suc 0 \<longleftrightarrow> (\<exists>m. a = IRequireApproval m)"
  by (cases a; simp)+

lemma baseline_lists:
  "fold (add_baseline results) reqs r =
     \<lparr>approved = approved r @ filter (\<lambda>req. baseline_strictness results req = 0) reqs,
      needs_approval = needs_approval r @ filter (\<lambda>req. baseline_strictness results req = 1) reqs,
      denied = denied r @ filter (\<lambda>req. baseline_strictness results req = 2) reqs\<rparr>"
  by (induction reqs arbitrary: r)
    (auto simp: add_baseline_def baseline_strictness_def split: option.splits InspectionAction.splits)

lemma baseline_le_2: "baseline_strictness results req \<le> 2"
  by (auto simp: baseline_strictness_def split: option.split) (case_tac "ir_action x2"; simp)

abbreviation baseline :: "InspectionResult list \<Rightarrow> ToolRequest list \<Rightarrow> PermissionCheckResult" where
  "baseline results reqs \<equiv>
     fold (add_baseline results) reqs \<lparr>approved = [], needs_approval = [], denied = []\<rparr>"

lemma baseline_ok:
  assumes "distinct (map tr_id reqs)"
  shows "sorted_out reqs (baseline results reqs)"
    and "req \<in> set reqs \<Longrightarrow> level_of (baseline results reqs) req = baseline_strictness results req"
proof -
  from assms have "distinct reqs" by (simp add: distinct_map)
  moreover have "baseline_strictness results req = Suc 0"
    if "0 < baseline_strictness results req" "baseline_strictness results req \<noteq> 2" for req
    using that baseline_le_2 [of results req] by linarith
  ultimately show "sorted_out reqs (baseline results reqs)"
    by (auto simp: baseline_lists sorted_out_def)
  show "level_of (baseline results reqs) req = baseline_strictness results req" if "req \<in> set reqs"
    using that baseline_le_2 [of results req] by (auto simp: baseline_lists level_of_def)
qed

lemma map_of_ids_find:
  assumes "distinct (map tr_id reqs)" "distinct (map tr_id reqs')" "set reqs' = set reqs"
  shows "map_of (map (\<lambda>req. (tr_id req, req)) reqs') i = find (\<lambda>req. tr_id req = i) reqs"
proof (cases "find (\<lambda>req. tr_id req = i) reqs")
  case None
  with assms(3) have "map_of (map (\<lambda>req. (tr_id req, req)) reqs') i = None"
    by (auto simp: find_None_iff map_of_eq_None_iff)
  with None show ?thesis by simp
next
  case (Some req)
  then have "req \<in> set reqs'" "tr_id req = i" using assms(3) by (auto simp: find_Some_iff)
  with assms(2) Some show ?thesis by (auto simp: comp_def intro!: map_of_is_SomeI)
qed

lemma request_map_find:
  assumes d: "distinct (map tr_id reqs)" and ok: "sorted_out reqs r"
  shows "request_map r i = find (\<lambda>req. tr_id req = i) reqs"
proof -
  let ?xs = "rev (approved r @ needs_approval r @ denied r)"
  have set: "set ?xs = set reqs" and "distinct ?xs" using ok by (auto simp: sorted_out_def)
  moreover have "inj_on tr_id (set reqs)" using d by (simp add: distinct_map)
  ultimately have "distinct (map tr_id ?xs)" by (metis distinct_map)
  from map_of_ids_find [OF d this set, of i] show ?thesis by (simp add: request_map_def rev_map)
qed

subsection \<open>The verdict\<close>

definition by_permission :: "InspectionResult list \<Rightarrow> InspectionResult list" where
  "by_permission results = filter (\<lambda>res. ir_inspector_name res = ''permission'') results"

definition by_others :: "InspectionResult list \<Rightarrow> InspectionResult list" where
  "by_others results = filter (\<lambda>res. ir_inspector_name res \<noteq> ''permission'') results"

definition verdict :: "InspectionResult list \<Rightarrow> ToolRequest \<Rightarrow> nat" where
  "verdict results req =
     max (baseline_strictness (by_permission results) req) (other_strictness (by_others results) req)"

lemma processed_levels:
  assumes d: "distinct (map tr_id reqs)"
  shows "sorted_out reqs (process_inspection_results reqs results)"
    and "req \<in> set reqs \<Longrightarrow> level_of (process_inspection_results reqs results) req = verdict results req"
proof -
  let ?base = "baseline (by_permission results) reqs"
  have eq: "process_inspection_results reqs results =
      fold (apply_inspection_result (request_map ?base)) (by_others results) ?base"
    by (simp add: process_inspection_results_def by_permission_def by_others_def Let_def
        apply_inspection_results_to_permissions_def)
  note base = baseline_ok [OF d, where results = "by_permission results"]
  from apply_results_levels [OF d base(1) request_map_find [OF d base(1)], of "by_others results"]
  show "sorted_out reqs (process_inspection_results reqs results)"
    and "req \<in> set reqs \<Longrightarrow> level_of (process_inspection_results reqs results) req = verdict results req"
    by (auto simp: eq verdict_def base(2))
qed

lemma sorted_out_member:
  assumes "sorted_out reqs r" "req \<in> set reqs"
  shows "req \<in> set (approved r) \<longleftrightarrow> level_of r req = 0"
    "req \<in> set (needs_approval r) \<longleftrightarrow> level_of r req = 1"
    "req \<in> set (denied r) \<longleftrightarrow> level_of r req = 2"
  using assms by (auto simp: sorted_out_def level_of_def)

text \<open>C14: for requests with distinct ids the three lists together hold every request exactly once, and a request is
  denied, must be approved by the user or is approved according to the strictest verdict on it: the
  permission inspector's, where silence asks the user, or any other inspector's.\<close>

theorem verdict_is_strictest:
  assumes "distinct (map tr_id reqs)" and r: "r = process_inspection_results reqs results"
  shows "mset (approved r @ needs_approval r @ denied r) = mset reqs \<and>
     list_all (\<lambda>req. (req \<in> set (approved r)) = (verdict results req = 0) \<and>
                     (req \<in> set (needs_approval r)) = (verdict results req = 1) \<and>
                     (req \<in> set (denied r)) = (verdict results req = 2)) reqs"
proof
  note p = processed_levels [OF assms(1), where results = results]
  from p(1) assms show "mset (approved r @ needs_approval r @ denied r) = mset reqs"
    by (metis distinct_map set_eq_iff_mset_eq_distinct sorted_out_def)
  show "list_all (\<lambda>req. (req \<in> set (approved r)) = (verdict results req = 0) \<and>
                     (req \<in> set (needs_approval r)) = (verdict results req = 1) \<and>
                     (req \<in> set (denied r)) = (verdict results req = 2)) reqs"
    using sorted_out_member [OF p(1)] p(2) r by (simp add: list_all_iff)
qed

subsection \<open>What the permission inspector allows\<close>

text \<open>The other inspectors report under their own names and leave the permission manager alone.\<close>

definition bystander :: "Inspector \<Rightarrow> bool" where
  "bystander i =
     (\<forall>sid reqs msgs mode pm.
        snd (in_inspect i sid reqs msgs mode pm) = pm \<and>
        (\<forall>rs. fst (in_inspect i sid reqs msgs mode pm) = Inr rs \<longrightarrow>
           list_all (\<lambda>res. ir_inspector_name res \<noteq> ''permission'') rs))"

lemma repetition_inspect_named:
  assumes "res \<in> set (repetition_inspect ins reqs)"
  shows "ir_inspector_name res = ''repetition''"
proof -
  from assms obtain req :: ToolRequest where
    "(case tr_tool_call req of Inl _ \<Rightarrow> None
      | Inr call \<Rightarrow> if fst (check_tool_call call ins) then None
                   else Some (repetition_finding (tr_id req) (ctr_name call))) = Some res"
    unfolding repetition_inspect_def set_filter_map by blast
  then show ?thesis by (cases "tr_tool_call req") (auto simp: repetition_finding_def split: if_splits)
qed

lemma repetition_bystander: "bystander (repetition_inspector ins)"
  by (auto simp: bystander_def repetition_inspector_def list_all_iff dest: repetition_inspect_named)

lemma by_permission_append: "by_permission (rs @ rs') = by_permission rs @ by_permission rs'"
  by (simp add: by_permission_def)

lemma bystanders_results:
  assumes "list_all bystander is" "inspect_tools is sid reqs msgs mode pm = (rs, pm')"
  shows "by_permission rs = [] \<and> pm' = pm"
  using assms
proof (induction "is" arbitrary: rs pm')
  case Nil
  then show ?case by (simp add: by_permission_def)
next
  case (Cons i "is")
  from Cons.prems(1) obtain o1 where o1: "in_inspect i sid reqs msgs mode pm = (o1, pm)"
      "\<And>rs. o1 = Inr rs \<Longrightarrow> by_permission rs = []"
    by (auto simp: bystander_def by_permission_def list_all_iff filter_empty_conv) (metis prod.collapse)
  with Cons show ?case
    by (auto simp: by_permission_append split: if_splits sum.splits prod.splits)
qed

lemma inspect_tools_append:
  "inspect_tools (is1 @ is2) sid reqs msgs mode pm =
     (case inspect_tools is1 sid reqs msgs mode pm of
        (rs1, pm1) \<Rightarrow> (case inspect_tools is2 sid reqs msgs mode pm1 of (rs2, pm2) \<Rightarrow> (rs1 @ rs2, pm2)))"
  by (induction is1 arbitrary: pm) (auto split: prod.splits sum.splits)

lemma permission_results_found:
  assumes "by_permission rs = rs" "inspectors = is1 @ permission_inspector pin # is2" "list_all bystander (is1 @ is2)"
    and "rs = fst (permission_inspect pin sid reqs mode pm)"
  shows "by_permission (fst (inspect_tools inspectors sid reqs msgs mode pm)) = rs"
proof -
  obtain rs1 pm1 where i1: "inspect_tools is1 sid reqs msgs mode pm = (rs1, pm1)" by fastforce
  with bystanders_results [of is1] assms(3) have s1: "by_permission rs1 = []" "pm1 = pm" by auto
  obtain pm2 where p: "permission_inspect pin sid reqs mode pm = (rs, pm2)" using assms(4) by (metis prod.collapse)
  obtain rs2 pm3 where i2: "inspect_tools is2 sid reqs msgs mode pm2 = (rs2, pm3)" by fastforce
  with bystanders_results [of is2] assms(3) have "by_permission rs2 = []" by auto
  with i1 i2 s1 p assms(1,2) show ?thesis
    by (simp add: inspect_tools_append permission_inspector_def by_permission_append)
qed

lemma verdict_name: "permission_verdict pin pm mode req = Some res \<Longrightarrow>
    ir_inspector_name res = ''permission'' \<and> ir_tool_request_id res = tr_id req"
  by (auto simp: permission_verdict_def permission_finding_def split: sum.splits option.splits)

lemma judged_name: "ir_inspector_name (judged_finding req b) = ''permission''"
    "ir_tool_request_id (judged_finding req b) = tr_id req"
  by (auto simp: judged_finding_def permission_finding_def)

lemma permission_inspect_named: "by_permission (fst (permission_inspect pin sid reqs mode pm)) = fst (permission_inspect pin sid reqs mode pm)"
  by (auto simp: by_permission_def permission_inspect_def Let_def filter_id_conv set_filter_map judged_name
      dest: verdict_name)

definition judged_read_only ::
  "PermissionInspector \<Rightarrow> string \<Rightarrow> PermissionManager \<Rightarrow> GooseMode \<Rightarrow> ToolRequest list \<Rightarrow> ToolRequest \<Rightarrow> bool" where
  "judged_read_only pin sid pm mode reqs req =
     (deferred pin pm mode req \<and> tr_id req \<in> set (pi_judge pin sid (filter (deferred pin pm mode) reqs)))"

lemma permission_inspect_result:
  assumes "distinct (map tr_id reqs)" "req \<in> set reqs"
    and "res \<in> set (fst (permission_inspect pin sid reqs mode pm))" "ir_tool_request_id res = tr_id req"
  shows "permission_verdict pin pm mode req = Some res \<or>
    deferred pin pm mode req \<and> res = judged_finding req (judged_read_only pin sid pm mode reqs req)"
proof -
  from assms(3) consider req' where "req' \<in> set reqs" "permission_verdict pin pm mode req' = Some res"
    | req' where "req' \<in> set reqs" "deferred pin pm mode req'"
        "res = judged_finding req' (judged_read_only pin sid pm mode reqs req')"
    by (auto simp: permission_inspect_def Let_def set_filter_map judged_read_only_def filter_empty_conv split: if_splits)
  then show ?thesis
  proof cases
    case 1
    with verdict_name [OF 1(2)] assms(4) distinct_ids_eq [OF assms(1) 1(1) assms(2)] show ?thesis by simp
  next
    case 2
    with judged_name assms(4) distinct_ids_eq [OF assms(1) 2(1) assms(2)] show ?thesis by simp
  qed
qed

text \<open>Every parsed request gets a result unless the mode is \<open>Chat\<close>.\<close>

lemma permission_inspect_covers:
  assumes "req \<in> set reqs" "tr_tool_call req = Inr call" "mode \<noteq> Chat"
  shows "\<exists>res \<in> set (fst (permission_inspect pin sid reqs mode pm)). ir_tool_request_id res = tr_id req"
proof -
  from assms(3) have "permission_action pin pm mode (ctr_name call) \<noteq> None"
    by (auto simp: permission_action_def split: GooseMode.splits option.splits PermissionLevel.splits)
  then obtain a where a: "permission_action pin pm mode (ctr_name call) = Some a" by blast
  show ?thesis
  proof (cases a)
    case None
    with a assms have "deferred pin pm mode req" by (simp add: deferred_def)
    with assms(1) have "judged_finding req (judged_read_only pin sid pm mode reqs req) \<in>
        set (fst (permission_inspect pin sid reqs mode pm))"
      by (auto simp: permission_inspect_def Let_def judged_read_only_def filter_empty_conv)
    with judged_name show ?thesis by blast
  next
    case (Some action)
    with a assms(2) obtain res where "permission_verdict pin pm mode req = Some res"
      by (simp add: permission_verdict_def)
    with assms(1) verdict_name show ?thesis
      by (fastforce simp: permission_inspect_def Let_def set_filter_map)
  qed
qed

lemma verdict_zero:
  assumes "verdict results req = 0"
  shows "\<exists>res \<in> set (by_permission results). ir_tool_request_id res = tr_id req \<and> ir_action res = IAllow"
proof (cases "find (\<lambda>res. ir_tool_request_id res = tr_id req) (by_permission results)")
  case (Some res)
  then have "res \<in> set (by_permission results)" "ir_tool_request_id res = tr_id req"
    by (auto simp: find_Some_iff)
  with Some assms show ?thesis by (auto simp: verdict_def baseline_strictness_def strictness_cases)
qed (use assms in \<open>simp add: verdict_def baseline_strictness_def\<close>)

abbreviation inspected ::
  "Inspector list \<Rightarrow> string \<Rightarrow> ToolRequest list \<Rightarrow> Message list \<Rightarrow> GooseMode \<Rightarrow> PermissionManager \<Rightarrow> PermissionCheckResult" where
  "inspected inspectors sid reqs msgs mode pm \<equiv>
     process_inspection_results reqs (fst (inspect_tools inspectors sid reqs msgs mode pm))"

text \<open>Outside \<open>Auto\<close> mode a request is approved without asking only if it parsed and the user always allows its
  tool, or, in \<open>SmartApprove\<close> mode and when the user said nothing, the tool is annotated as read-only or
  the judge found this request to be read-only; whatever the other inspectors report.\<close>

theorem approved_only_if_allowed:
  assumes "distinct (map tr_id reqs)" "inspectors = is1 @ permission_inspector pin # is2"
    and "list_all bystander (is1 @ is2)" "mode \<noteq> Auto"
    and "req \<in> set (approved (inspected inspectors sid reqs msgs mode pm))"
  shows "\<exists>call. tr_tool_call req = Inr call \<and>
     (get_user_permission pm (ctr_name call) = Some PAlwaysAllow \<or>
      (mode = SmartApprove \<and> get_user_permission pm (ctr_name call) = None \<and>
       (is_readonly_annotated_tool pin (ctr_name call) \<or>
        (ctr_name call \<noteq> MANAGE_EXTENSIONS_TOOL_NAME_COMPLETE \<and>
         judged_read_only pin sid pm mode reqs req))))"
proof -
  let ?results = "fst (inspect_tools inspectors sid reqs msgs mode pm)"
  note p = processed_levels [OF assms(1), where results = ?results]
  from assms(5) p(1) have req: "req \<in> set reqs" by (auto simp: sorted_out_def)
  with sorted_out_member(1) [OF p(1) req] assms(5) p(2) have "verdict ?results req = 0" by simp
  from verdict_zero [OF this] obtain res where res: "res \<in> set (by_permission ?results)"
      "ir_tool_request_id res = tr_id req" "ir_action res = IAllow" by blast
  from permission_results_found [OF permission_inspect_named assms(2,3) refl] res(1)
  have "res \<in> set (fst (permission_inspect pin sid reqs mode pm))" by simp
  from permission_inspect_result [OF assms(1) req this res(2)] show ?thesis
  proof (elim disjE conjE)
    assume "permission_verdict pin pm mode req = Some res"
    with res(3) assms(4) show ?thesis
      by (auto simp: permission_verdict_def permission_finding_def permission_action_def
          split: sum.splits option.splits GooseMode.splits PermissionLevel.splits if_splits)
  next
    assume "deferred pin pm mode req" "res = judged_finding req (judged_read_only pin sid pm mode reqs req)"
    with res(3) show ?thesis
      by (auto simp: judged_finding_def permission_finding_def deferred_def permission_action_def
          split: sum.splits option.splits GooseMode.splits PermissionLevel.splits if_splits)
  qed
qed

text \<open>A tool the user never allows is denied in both approval modes, whatever the other inspectors report.\<close>

theorem never_allowed_denied:
  assumes "distinct (map tr_id reqs)" "inspectors = is1 @ permission_inspector pin # is2"
    and "list_all bystander (is1 @ is2)" "mode = Approve \<or> mode = SmartApprove"
    and "req \<in> set reqs" "tr_tool_call req = Inr call" "get_user_permission pm (ctr_name call) = Some PNeverAllow"
  shows "req \<in> set (denied (inspected inspectors sid reqs msgs mode pm))"
proof -
  let ?results = "fst (inspect_tools inspectors sid reqs msgs mode pm)"
  note p = processed_levels [OF assms(1), where results = ?results]
  have perm: "by_permission ?results = fst (permission_inspect pin sid reqs mode pm)"
    by (rule permission_results_found [OF permission_inspect_named assms(2,3) refl])
  from assms(4) have "mode \<noteq> Chat" by auto
  with permission_inspect_covers [OF assms(5,6)] perm
  obtain res where res: "find (\<lambda>res. ir_tool_request_id res = tr_id req) (by_permission ?results) = Some res"
    by (metis (mono_tags, lifting) find_None_iff not_None_eq)
  then have "res \<in> set (fst (permission_inspect pin sid reqs mode pm))" "ir_tool_request_id res = tr_id req"
    by (auto simp: perm find_Some_iff)
  from permission_inspect_result [OF assms(1,5) this] assms(4,6,7) have "ir_action res = IDeny"
    by (auto simp: permission_verdict_def permission_finding_def permission_action_def deferred_def)
  with res have "verdict ?results req \<ge> 2" by (simp add: verdict_def baseline_strictness_def)
  with p(2) [OF assms(5)] have "level_of (inspected inspectors sid reqs msgs mode pm) req \<ge> 2" by simp
  then show ?thesis by (auto simp: level_of_def split: if_splits)
qed

subsection \<open>Repetitions\<close>

fun check_calls :: "CallToolRequestParams list \<Rightarrow> RepetitionInspector \<Rightarrow> bool list" where
  "check_calls [] ins = []"
| "check_calls (c # cs) ins = (case check_tool_call c ins of (b, ins') \<Rightarrow> b # check_calls cs ins')"

definition well_formed_call :: "CallToolRequestParams \<Rightarrow> bool" where
  "well_formed_call call = (case ctr_arguments call of None \<Rightarrow> True | Some m \<Rightarrow> json_wf (JObj m))"

lemma call_matches_refl: "well_formed_call call \<Longrightarrow> call_matches (from_tool_call call) (from_tool_call call)"
  by (cases "ctr_arguments call")
    (auto simp: call_matches_def from_tool_call_def well_formed_call_def simp del: json_wf.simps json_eq.simps(7)
      intro: json_eq_refl)

lemma upt_shift: "map f [0..<Suc n] = f 0 # map (\<lambda>i. f (Suc i)) [0..<n]"
  by (simp only: upt_conv_Cons [OF zero_less_Suc] list.map map_Suc_upt [symmetric] map_map comp_def)

lemma repeated_calls:
  assumes "well_formed_call call" "max_repetitions ins = Some k" "last_call ins = Some (from_tool_call call)"
  shows "check_calls (replicate n call) ins = map (\<lambda>i. repeat_count ins + i < k) [0..<n]"
  using assms(2,3)
proof (induction n arbitrary: ins)
  case (Suc n)
  obtain b ins' where c: "check_tool_call call ins = (b, ins')" by fastforce
  with Suc.prems call_matches_refl [OF assms(1)] have "b = (repeat_count ins < k)"
      "max_repetitions ins' = Some k" "last_call ins' = Some (from_tool_call call)"
      "repeat_count ins' = Suc (repeat_count ins)"
    by (auto simp: check_tool_call_def Let_def split: if_splits)
  with Suc.IH [of ins'] c show ?case by (simp add: upt_shift del: upt_Suc)
qed simp

text \<open>after a different call, or at the start, a call may be made as often in a row as the limit says (at least
  once), and every further one is refused.\<close>

theorem repetition_limit_enforced:
  assumes "well_formed_call call" "max_repetitions ins = Some k"
    and "case last_call ins of None \<Rightarrow> True | Some l \<Rightarrow> \<not> call_matches l (from_tool_call call)"
  shows "check_calls (replicate n call) ins = map (\<lambda>i. i < max 1 k) [0..<n]"
proof (cases n)
  case (Suc j)
  obtain b ins' where c: "check_tool_call call ins = (b, ins')" by fastforce
  with assms(2,3) have first: "b" "max_repetitions ins' = Some k" "last_call ins' = Some (from_tool_call call)"
      "repeat_count ins' = 1"
    by (auto simp: check_tool_call_def Let_def split: if_splits option.splits)
  from repeated_calls [OF assms(1) first(2,3), of j] c first Suc show ?thesis
    by (auto simp: upt_shift simp del: upt_Suc)
qed simp

lemma fresh_check: "fst (check_tool_call call (RepetitionInspector_new limit))"
  by (simp add: check_tool_call_def RepetitionInspector_new_def Let_def split: option.splits)

lemma fresh_inspect: "repetition_inspect (RepetitionInspector_new limit) reqs = []"
  by (auto simp: repetition_inspect_def filter_map_eq_Nil fresh_check split: sum.splits)

text \<open>The inspection of a batch never reports a repetition, however the limit is set and however often a call
  is repeated in the batch: \<open>inspect\<close> checks each request against a copy of the initial counters, and no
  call of the interface advances them, although the same calls one after another exceed the limit.\<close>

theorem inspection_never_counts:
  "repetition_inspect (RepetitionInspector_new limit) reqs = [] \<and>
   \<not> list_all id (check_calls (replicate 3 \<lparr>ctr_name = ''shell'', ctr_arguments = None\<rparr>)
                   (RepetitionInspector_new (Some 2)))"
  by (rule conjI, rule fresh_inspect)
    (simp add: numeral_3_eq_3 check_tool_call_def RepetitionInspector_new_def Let_def
      from_tool_call_def call_matches_def)

subsection \<open>Witnesses\<close>

definition inspector0 :: PermissionInspector where
  "inspector0 = PermissionInspector_new None 0"

definition manager0 :: PermissionManager where
  "manager0 = update_user_permission ''shell'' PAlwaysAllow
     (update_user_permission ''write'' PNeverAllow \<lparr>pm_map = [], pm_file = None\<rparr>)"

definition inspectors0 :: "Inspector list" where
  "inspectors0 = [] @ permission_inspector inspector0 # [repetition_inspector (RepetitionInspector_new None)]"

definition batch0 :: "ToolRequest list" where
  "batch0 = [request0 ''1'' ''shell'', request0 ''2'' ''write'', request0 ''3'' ''read'']"

lemma batch0_distinct: "distinct (map tr_id batch0)"
  by (simp add: batch0_def request0_def)

lemma manager0_levels: "get_user_permission manager0 tool =
    (if tool = ''shell'' then Some PAlwaysAllow else if tool = ''write'' then Some PNeverAllow else None)"
  by (simp add: manager0_def user_levels.level_set) (simp add: get_user_permission_def get_permission_def)

lemma inspected0: "fst (inspect_tools inspectors0 sid batch0 msgs Approve manager0) =
    [permission_finding ''1'' IAllow ''User permission allows this tool'',
     permission_finding ''2'' IDeny ''User permission denies this tool'',
     permission_finding ''3'' (IRequireApproval None) ''Tool requires user approval'']"
  by (simp add: inspectors0_def batch0_def request0_def permission_inspector_def permission_inspect_def Let_def
      permission_verdict_def deferred_def permission_action_def manager0_levels permission_reason_def
      is_readonly_annotated_tool_def inspector0_def PermissionInspector_new_def
      MANAGE_EXTENSIONS_TOOL_NAME_COMPLETE_def repetition_inspector_def fresh_inspect)

theorem verdict_is_strictest_witness:
  "request0 ''1'' ''shell'' \<in> set (denied (process_inspection_results batch0
      [permission_finding ''1'' IAllow [], repetition_finding ''1'' ''shell'']))"
proof -
  have "verdict [permission_finding ''1'' IAllow [], repetition_finding ''1'' ''shell''] (request0 ''1'' ''shell'') = 2"
    by (simp add: verdict_def baseline_strictness_def other_strictness_def by_permission_def by_others_def
        permission_finding_def repetition_finding_def request0_def)
  with verdict_is_strictest [OF batch0_distinct refl, of
      "[permission_finding ''1'' IAllow [], repetition_finding ''1'' ''shell'']"]
  show ?thesis by (simp add: batch0_def)
qed

lemma inspectors0_bystanders: "list_all bystander ([] @ [repetition_inspector (RepetitionInspector_new None)])"
  by (simp add: repetition_bystander)

lemma approved0: "approved (inspected inspectors0 ''s'' batch0 [] Approve manager0) = [request0 ''1'' ''shell'']"
  unfolding inspected0
  by (simp add: process_inspection_results_def Let_def batch0_def add_baseline_def permission_finding_def request0_def)

theorem approved_only_if_allowed_witness:
  "get_user_permission manager0 ''shell'' = Some PAlwaysAllow"
proof -
  have "request0 ''1'' ''shell'' \<in> set (approved (inspected inspectors0 ''s'' batch0 [] Approve manager0))"
    by (simp add: approved0)
  from approved_only_if_allowed [OF batch0_distinct inspectors0_def inspectors0_bystanders _ this]
  show ?thesis by (auto simp: request0_def)
qed

theorem never_allowed_denied_witness:
  "request0 ''2'' ''write'' \<in> set (denied (inspected inspectors0 ''s'' batch0 [] SmartApprove manager0))"
proof (rule never_allowed_denied [OF batch0_distinct inspectors0_def inspectors0_bystanders])
  show "request0 ''2'' ''write'' \<in> set batch0" by (simp add: batch0_def)
  show "tr_tool_call (request0 ''2'' ''write'') = Inr \<lparr>ctr_name = ''write'', ctr_arguments = None\<rparr>"
    by (simp add: request0_def)
qed (simp_all add: manager0_levels)

theorem repetition_limit_enforced_witness:
  "check_calls (replicate 4 \<lparr>ctr_name = ''shell'', ctr_arguments = None\<rparr>) (RepetitionInspector_new (Some 2)) =
     [True, True, False, False]"
  using repetition_limit_enforced [of "\<lparr>ctr_name = ''shell'', ctr_arguments = None\<rparr>" "RepetitionInspector_new (Some 2)" 2 4]
  by (simp add: well_formed_call_def RepetitionInspector_new_def upt_rec)

end
