(* ===== verification/Tool_Approval.thy ===== *)
theory Tool_Approval
  imports Ops_Turn Tool_Inspection_Properties
begin

text \<open>
  \<open>ops_tool_approval.rs\<close> and the classification of pending requests in \<open>ops_toolcalling.rs\<close>: which tool requests
  of the turn are unanswered, which of them the user has to approve, and which of them may run. A
  request carries its permission to run in its metadata under \<open>goose.executable\<close>.
\<close>

definition TOOL_EXECUTABLE_KEY :: string where
  "TOOL_EXECUTABLE_KEY = ''goose.executable''"

definition request_executable :: "ToolRequest \<Rightarrow> bool option" where
  "request_executable req = Option.bind (tool_meta_get TOOL_EXECUTABLE_KEY req) as_bool"

definition permission_allows :: "Permission \<Rightarrow> bool" where
  "permission_allows p = (p = AllowOnce \<or> p = AlwaysAllow)"

definition mark_executable :: "string \<Rightarrow> bool \<Rightarrow> StateEffect" where
  "mark_executable i executable = PatchToolRequestMeta i (JObj [(TOOL_EXECUTABLE_KEY, JBool executable)])"

subsection \<open>The state of the approvals\<close>

record ApprovalState =
  as_answered :: "string list"
  as_approval_requests :: "string list"
  as_approval_responses :: "(string \<times> Permission) list"
  as_tool_requests :: "ToolRequest list"

definition ApprovalState_empty :: ApprovalState where
  "ApprovalState_empty =
     \<lparr>as_answered = [], as_approval_requests = [], as_approval_responses = [], as_tool_requests = []\<rparr>"

text \<open>A later response to the same request replaces an earlier one.\<close>

fun scan_approval :: "MessageContentBlock \<Rightarrow> ApprovalState \<Rightarrow> ApprovalState" where
  "scan_approval (ToolResponse r) s = s\<lparr>as_answered := tp_id r # as_answered s\<rparr>"
| "scan_approval (ToolRequest r) s = s\<lparr>as_tool_requests := as_tool_requests s @ [r]\<rparr>"
| "scan_approval (ActionRequired (ToolConfirmation i _ _ _)) s =
     s\<lparr>as_approval_requests := i # as_approval_requests s\<rparr>"
| "scan_approval (ActionRequired (ToolConfirmationResponse i p)) s =
     s\<lparr>as_approval_responses := (i, p) # as_approval_responses s\<rparr>"
| "scan_approval _ s = s"

definition from_messages :: "Message list \<Rightarrow> ApprovalState" where
  "from_messages ms = fold scan_approval (concat (map m_content ms)) ApprovalState_empty"

record PendingResponse =
  pr_tool_call_id :: string
  pr_tool_name :: "string option"
  pr_permission :: Permission
  pr_executable :: "bool option"

definition responses :: "ApprovalState \<Rightarrow> PendingResponse list" where
  "responses s =
     filter_map (\<lambda>req.
       if tr_id req \<in> set (as_answered s) then None
       else map_option (\<lambda>p. \<lparr>pr_tool_call_id = tr_id req,
              pr_tool_name = (case tr_tool_call req of Inr call \<Rightarrow> Some (ctr_name call) | Inl _ \<Rightarrow> None),
              pr_permission = p, pr_executable = request_executable req\<rparr>)
            (map_of (as_approval_responses s) (tr_id req))) (as_tool_requests s)"

definition is_pending :: "ApprovalState \<Rightarrow> ToolRequest \<Rightarrow> bool" where
  "is_pending s req =
     (\<not> (tr_id req \<in> set (as_answered s) \<or> tr_id req \<in> set (as_approval_requests s) \<or>
         map_of (as_approval_responses s) (tr_id req) \<noteq> None \<or> request_executable req = Some False \<or>
         \<not> is_ok (tr_tool_call req)))"

definition pending_requests :: "ApprovalState \<Rightarrow> ToolRequest list" where
  "pending_requests s = filter (is_pending s) (as_tool_requests s)"

subsection \<open>The approval operation\<close>

text \<open>The answers of the user: permissions to remember, and marks that are not set yet.\<close>

definition remember_answer :: "Inspector list \<Rightarrow> PendingResponse \<Rightarrow> PermissionManager \<Rightarrow> PermissionManager" where
  "remember_answer inspectors p pm =
     (case pr_tool_name p of
        None \<Rightarrow> pm
      | Some tool \<Rightarrow>
          if pr_permission p = AlwaysAllow \<and> pr_executable p \<noteq> Some True
          then update_permission_manager inspectors tool PAlwaysAllow pm
          else if pr_permission p = AlwaysDeny
          then update_permission_manager inspectors tool PNeverAllow pm
          else pm)"

definition answer_effects :: "PendingResponse list \<Rightarrow> StateEffect list" where
  "answer_effects ps =
     filter_map (\<lambda>p. let executable = permission_allows (pr_permission p)
                     in if pr_executable p \<noteq> Some executable
                        then Some (mark_executable (pr_tool_call_id p) executable) else None) ps"

definition security_message :: "string \<Rightarrow> InspectionResult list \<Rightarrow> string option" where
  "security_message i results =
     (case find (\<lambda>res. ir_tool_request_id res = i) results of
        Some res \<Rightarrow> (case ir_action res of IRequireApproval (Some m) \<Rightarrow> Some m | _ \<Rightarrow> None)
      | None \<Rightarrow> None)"

definition approval_message :: "op_env \<Rightarrow> InspectionResult list \<Rightarrow> ToolRequest \<Rightarrow> CallToolRequestParams \<Rightarrow> Message" where
  "approval_message V results req call =
     user_only (with_action_required (Message_assistant (oe_now V)) (tr_id req) (ctr_name call)
       (case ctr_arguments call of Some m \<Rightarrow> m | None \<Rightarrow> []) (security_message (tr_id req) results))"

fun ask_approvals ::
  "op_env \<Rightarrow> InspectionResult list \<Rightarrow> ToolRequest list \<Rightarrow> StateEffect list op" where
  "ask_approvals V results [] = ret []"
| "ask_approvals V results (req # reqs) =
     (case tr_tool_call req of
        Inl e \<Rightarrow> fail (Anyhow (show_error_data (oe_ext V) e))
      | Inr call \<Rightarrow>
          andThen (emit_message V (approval_message V results req call)) (\<lambda>m.
          andThen (ask_approvals V results reqs) (\<lambda>es.
            ret (mark_executable (tr_id req) False # AppendMessage m # es))))"

definition check_pending ::
  "op_env \<Rightarrow> Inspector list \<Rightarrow> GooseMode \<Rightarrow> Session \<Rightarrow> Conversation \<Rightarrow> ToolRequest list \<Rightarrow> StateEffect list op" where
  "check_pending V inspectors mode session c reqs w =
     (if reqs = [] then ret [] w
      else (case inspect_tools inspectors (s_id session) reqs c mode (w_permissions w) of
              (results, pm) \<Rightarrow>
                (let r = (case process_inspection_results_with_permission_inspector inspectors reqs results of
                            Some r \<Rightarrow> r
                          | None \<Rightarrow> \<lparr>approved = [], needs_approval = [], denied = []\<rparr>)
                 in andThen (ask_approvals V results (needs_approval r)) (\<lambda>es.
                      ret (map (\<lambda>req. mark_executable (tr_id req) False) (denied r) @ es))
                      (w\<lparr>w_permissions := pm\<rparr>))))"

definition tool_approval_run :: "op_env \<Rightarrow> Inspector list \<Rightarrow> Session \<Rightarrow> Conversation \<Rightarrow> OperationResult op" where
  "tool_approval_run V inspectors session c w =
     (let mode = w_goose_mode w
      in if mode = Chat then ret NotApplicable w
         else andThen (lift (messages_since_kickoff c)) (\<lambda>ms w.
                let state = from_messages ms;
                    answers = responses state;
                    w' = w\<lparr>w_permissions := fold (remember_answer inspectors) answers (w_permissions w)\<rparr>
                in andThen (check_pending V inspectors mode session c (pending_requests state)) (\<lambda>es.
                     let all = answer_effects answers @ es
                     in ret (if all = [] then NotApplicable else applied all)) w') w)"

definition ToolApprovalOperation :: "op_env \<Rightarrow> Inspector list \<Rightarrow> Operation" where
  "ToolApprovalOperation V inspectors =
     (Operation_default ''tool_approval'')\<lparr>op_run := tool_approval_run V inspectors\<rparr>"

subsection \<open>Pending requests\<close>

datatype ToolDisposition = Execute | Decline | ParseError string

definition approval_denied :: "Permission option \<Rightarrow> bool" where
  "approval_denied p = (p = Some DenyOnce \<or> p = Some AlwaysDeny \<or> p = Some Cancel)"

definition disposition :: "ext \<Rightarrow> ApprovalState \<Rightarrow> ToolRequest \<Rightarrow> ToolDisposition option" where
  "disposition E s req =
     (if tr_id req \<in> set (as_answered s) then None
      else (case tr_tool_call req of
              Inl e \<Rightarrow> Some (ParseError (show_error_data E e))
            | Inr _ \<Rightarrow>
                if (case request_executable req of Some b \<Rightarrow> b | None \<Rightarrow> True) then Some Execute
                else if tr_id req \<in> set (as_approval_requests s) \<and>
                        \<not> approval_denied (map_of (as_approval_responses s) (tr_id req))
                then None
                else Some Decline))"

definition pending_tool_requests :: "ext \<Rightarrow> Message list \<Rightarrow> (ToolRequest \<times> ToolDisposition) list" where
  "pending_tool_requests E ms =
     (let s = from_messages ms
      in filter_map (\<lambda>req. map_option (Pair req) (disposition E s req))
           (filter_map as_tool_request (concat (map m_content (filter (\<lambda>m. m_role m = Assistant) ms)))))"

end
