(* ===== verification/Ops_Tools.thy ===== *)
theory Ops_Tools
  imports Tool_Approval
begin

text \<open>
  \<open>ops_toolcalling.rs\<close>, \<open>ops_unknown_tool.rs\<close> and \<open>large_response_handler.rs\<close>: running the pending tool requests. What
  the extensions do is the record \<open>tool_env\<close>: their tools, the stream of notifications and the result of
  each call, the order in which the concurrent streams deliver (\<open>te_merge\<close>, which may stop early when the
  turn is cancelled), their prompts and their state. Calls handed to an extension are recorded in the
  world.
\<close>

datatype StreamEvent = SMessage json | SActionRequired Message

datatype StreamItem = SEvent StreamEvent | SResult "CallToolResult ToolResult"

record PromptArgument =
  pa_name :: string
  pa_description :: "string option"

record Prompt =
  pt_name :: string
  pt_description :: "string option"
  pt_arguments :: "PromptArgument list option"

record ExtensionInfo =
  ei_name :: string
  ei_instructions :: string
  ei_has_resources :: bool

record tool_env =
  te_tools :: "string \<Rightarrow> Tool list"
  te_dispatch :: "string \<Rightarrow> string \<Rightarrow> CallToolRequestParams \<Rightarrow> ErrorData + StreamEvent list \<times> CallToolResult ToolResult"
  te_merge :: "(string \<times> StreamItem) list list \<Rightarrow> (string \<times> StreamItem) list"
  te_cancelled :: bool
  te_extension_state :: "error + json"
  te_threshold :: nat
  te_write_file :: "string \<Rightarrow> string + string"
  te_list_prompts :: "string \<Rightarrow> ErrorData + (string \<times> Prompt list) list"
  te_get_prompt :: "string \<Rightarrow> string \<Rightarrow> string \<Rightarrow> (string \<times> string) list \<Rightarrow> string + (Role \<times> ContentBlock) list"
  te_moim :: "string \<Rightarrow> string list"
  te_hints :: "json_object option list \<Rightarrow> string \<Rightarrow> (string \<times> string) list"
  te_extensions :: "string \<Rightarrow> ExtensionInfo list"

subsection \<open>Large responses\<close>

definition process_content :: "tool_env \<Rightarrow> ContentBlock \<Rightarrow> ContentBlock" where
  "process_content T b =
     (case b of
        CText t \<Rightarrow>
          if te_threshold T < char_count (tc_text t)
          then (case te_write_file T (tc_text t) of
                  Inr file_path \<Rightarrow>
                    ContentBlock_text (''The response returned from the tool call was larger ('' @
                      show_nat (char_count (tc_text t)) @
                      '' characters) and is stored in the file which you can use other tools to examine or search in: '' @
                      file_path)
                | Inl e \<Rightarrow>
                    ContentBlock_text (''Warning: Failed to write large response to file: '' @ e @
                      ''. Showing full content instead.'' @ nl @ nl @ tc_text t))
          else b
      | _ \<Rightarrow> b)"

definition process_tool_response :: "tool_env \<Rightarrow> CallToolResult ToolResult \<Rightarrow> CallToolResult ToolResult" where
  "process_tool_response T response =
     (case response of
        Inl e \<Rightarrow> Inl e
      | Inr result \<Rightarrow> Inr (result\<lparr>cr_content := map (process_content T) (cr_content result)\<rparr>))"

subsection \<open>Hooks around a call\<close>

datatype ToolCategory = ShellTool | ReadTool | WriteTool | OtherTool

definition categorize_tool :: "string \<Rightarrow> ToolCategory" where
  "categorize_tool name =
     (let base = after_last ''__'' name
      in if base \<in> {''shell'', ''bash'', ''exec'', ''run''} then ShellTool
         else if base \<in> {''read'', ''view'', ''cat'', ''read_file''} then ReadTool
         else if base \<in> {''write'', ''edit'', ''patch'', ''write_file'', ''edit_file''} then WriteTool
         else OtherTool)"

definition string_argument :: "json \<Rightarrow> string list \<Rightarrow> string option" where
  "string_argument input keys =
     (case as_object input of
        None \<Rightarrow> None
      | Some m \<Rightarrow>
          find_map (\<lambda>k. case Option.bind (map_of m k) as_str of
                          Some v \<Rightarrow> if v \<noteq> [] then Some v else None
                        | None \<Rightarrow> None) keys)"

definition PATH_KEYS :: "string list" where
  "PATH_KEYS = [''path'', ''file'', ''file_path'']"

definition tool_context :: "HookEvent \<Rightarrow> Session \<Rightarrow> string \<Rightarrow> json option \<Rightarrow> HookContext" where
  "tool_context event session name input =
     with_working_dir (s_working_dir session) (with_tool name input (HookContext_new event (s_id session)))"

definition emit_with_matcher ::
  "op_env \<Rightarrow> HookEvent \<Rightarrow> Session \<Rightarrow> string \<Rightarrow> string \<Rightarrow> json option \<Rightarrow> unit op" where
  "emit_with_matcher V event session matcher name input =
     (if \<not> has_hooks (oe_hook_manager V) event then ret ()
      else emit_hook V event ((tool_context event session name input)\<lparr>hc_matcher_context := Some matcher\<rparr>))"

definition emit_extended_pre_hooks :: "op_env \<Rightarrow> string \<Rightarrow> json option \<Rightarrow> Session \<Rightarrow> unit op" where
  "emit_extended_pre_hooks V name input session =
     (case categorize_tool name of
        ShellTool \<Rightarrow>
          (case Option.bind input (\<lambda>i. string_argument i [''command'']) of
             Some m \<Rightarrow> emit_with_matcher V BeforeShellExecution session m name input
           | None \<Rightarrow> ret ())
      | ReadTool \<Rightarrow>
          (case Option.bind input (\<lambda>i. string_argument i PATH_KEYS) of
             Some m \<Rightarrow> emit_with_matcher V BeforeReadFile session m name input
           | None \<Rightarrow> ret ())
      | _ \<Rightarrow> ret ())"

definition call_input :: "CallToolRequestParams \<Rightarrow> json option" where
  "call_input call = map_option JObj (ctr_arguments call)"

definition result_succeeded :: "CallToolResult ToolResult \<Rightarrow> bool" where
  "result_succeeded res = (case res of Inr r \<Rightarrow> cr_is_error r \<noteq> Some True | Inl _ \<Rightarrow> False)"

definition post_hooks :: "op_env \<Rightarrow> Session \<Rightarrow> CallToolRequestParams \<Rightarrow> CallToolResult ToolResult \<Rightarrow> unit op" where
  "post_hooks V session call res =
     (let name = ctr_name call; input = call_input call;
          event = (if result_succeeded res then PostToolUse else PostToolUseFailure)
      in andThen (if has_hooks (oe_hook_manager V) event
                  then emit_hook V event (tool_context event session name input) else ret ()) (\<lambda>_.
           if event = PostToolUse
           then (case categorize_tool name of
                   ShellTool \<Rightarrow>
                     (case Option.bind input (\<lambda>i. string_argument i [''command'']) of
                        Some m \<Rightarrow> emit_with_matcher V AfterShellExecution session m name input
                      | None \<Rightarrow> ret ())
                 | WriteTool \<Rightarrow>
                     (case Option.bind input (\<lambda>i. string_argument i PATH_KEYS) of
                        Some m \<Rightarrow> emit_with_matcher V AfterFileEdit session m name input
                      | None \<Rightarrow> ret ())
                 | _ \<Rightarrow> ret ())
           else ret ()))"

subsection \<open>Dispatching\<close>

definition denied_by_hook :: "string \<Rightarrow> string \<Rightarrow> ErrorData" where
  "denied_by_hook plugin reason =
     \<lparr>ed_code = - 32603,
      ed_message = ''Tool call denied by policy hook '' @ ticked plugin @ '': '' @ reason @
        ''. Do not retry; this is a policy denial, not a transient failure.'',
      ed_data = None\<rparr>"

definition pre_tool_use :: "op_env \<Rightarrow> Session \<Rightarrow> CallToolRequestParams \<Rightarrow> HookDecision op" where
  "pre_tool_use V session call =
     (if has_hooks (oe_hook_manager V) PreToolUse
      then emit_hook_blocking V PreToolUse (tool_context PreToolUse session (ctr_name call) (call_input call))
      else ret Allow)"

text \<open>\<open>Inl\<close> is a denial; \<open>Inr\<close> the stream of a call that was handed to its extension.\<close>

definition dispatch_tool_call ::
  "op_env \<Rightarrow> tool_env \<Rightarrow> Session \<Rightarrow> string \<Rightarrow> CallToolRequestParams \<Rightarrow>
     (ErrorData + StreamEvent list \<times> CallToolResult ToolResult) op" where
  "dispatch_tool_call V T session request_id call =
     andThen (pre_tool_use V session call) (\<lambda>decision.
       case decision of
         Deny reason plugin \<Rightarrow> ret (Inl (denied_by_hook plugin reason))
       | Allow \<Rightarrow>
           andThen (emit_extended_pre_hooks V (ctr_name call) (call_input call) session) (\<lambda>_ w.
             ret (Inr (case te_dispatch T (s_id session) request_id call of
                         Inl e \<Rightarrow> ([], Inl e)
                       | Inr stream \<Rightarrow> stream))
               (w\<lparr>w_tool_calls := w_tool_calls w @ [(request_id, call)]\<rparr>)))"

text \<open>A started request: its id, its call if an extension has it, and its stream of items.\<close>

type_synonym started = "string \<times> CallToolRequestParams option \<times> StreamItem list"

definition started_of ::
  "string \<Rightarrow> CallToolRequestParams \<Rightarrow> ErrorData + StreamEvent list \<times> CallToolResult ToolResult \<Rightarrow> started" where
  "started_of i call outcome =
     (case outcome of
        Inl e \<Rightarrow> (i, None, [SResult (Inl e)])
      | Inr (evs, res) \<Rightarrow> (i, Some call, map SEvent evs @ [SResult res]))"

fun start_requests ::
  "op_env \<Rightarrow> tool_env \<Rightarrow> Session \<Rightarrow> (ToolRequest \<times> ToolDisposition) list \<Rightarrow> started list op" where
  "start_requests V T session [] = ret []"
| "start_requests V T session ((req, d) # rest) =
     (if d \<noteq> Execute then start_requests V T session rest
      else (case tr_tool_call req of
              Inl e \<Rightarrow> fail (Anyhow (''tool call could not be parsed: '' @ show_error_data (oe_ext V) e))
            | Inr call \<Rightarrow>
                andThen (dispatch_tool_call V T session (tr_id req) call) (\<lambda>outcome.
                andThen (start_requests V T session rest) (\<lambda>ss.
                  ret (started_of (tr_id req) call outcome # ss)))))"

subsection \<open>Collecting the results\<close>

definition DECLINED_RESPONSE :: string where
  "DECLINED_RESPONSE =
     ''The user has declined to run this tool. DO NOT attempt to call this tool again. '' @
     ''If there are no alternative methods to proceed, clearly explain the situation and STOP.''"

definition CHAT_MODE_TOOL_SKIPPED_RESPONSE :: string where
  "CHAT_MODE_TOOL_SKIPPED_RESPONSE =
     ''Let the user know the tool call was skipped in Obelus chat mode. '' @
     ''DO NOT apologize for skipping the tool call. DO NOT say sorry. '' @
     ''Provide an explanation of what the tool call would do, structured as a '' @
     ''plan for the user. Again, DO NOT apologize. **Example Plan:**'' @ nl @
     '' 1. **Identify Task Scope** - Determine the purpose and expected outcome.'' @ nl @
     '' 2. **Outline Steps** - Break down the steps.'' @ nl @
     '' If needed, adjust the explanation based on user preferences or questions.''"

definition error_result :: "string \<Rightarrow> CallToolResult ToolResult" where
  "error_result s = Inr (CallToolResult_error [ContentBlock_text s])"

definition platform_notification :: "CallToolResult \<Rightarrow> json option" where
  "platform_notification result =
     (case Option.bind (cr_meta result) (\<lambda>m. map_of m ''platform_notification'') of
        None \<Rightarrow> None
      | Some n \<Rightarrow>
          (case Option.bind (json_get ''method'' n) as_str of
             None \<Rightarrow> None
           | Some mthd \<Rightarrow>
               Some (JObj ((''method'', JStr mthd) #
                      (case json_get ''params'' n of Some p \<Rightarrow> [(''params'', p)] | None \<Rightarrow> [])))))"

definition request_metadata :: "ToolRequest list \<Rightarrow> string \<Rightarrow> ProviderMetadata option" where
  "request_metadata reqs i = Option.bind (find (\<lambda>r. tr_id r = i) reqs) tr_metadata"

definition answer_unexecuted :: "ToolRequest \<times> ToolDisposition \<Rightarrow> Message \<Rightarrow> Message" where
  "answer_unexecuted rd response =
     (case rd of
        (req, Execute) \<Rightarrow> response
      | (req, Decline) \<Rightarrow>
          add_tool_response_with_metadata response (tr_id req) (error_result DECLINED_RESPONSE) (tr_metadata req)
      | (req, ParseError e) \<Rightarrow>
          add_tool_response_with_metadata response (tr_id req)
            (error_result (''The tool call could not be parsed: '' @ e @
               ''. Correct the arguments and try again.'')) (tr_metadata req))"

record Collected =
  co_response :: Message
  co_effects :: "StateEffect list"
  co_change_failed :: bool

text \<open>A result passes through the large-response handler and the post hooks if an extension produced it.\<close>

definition finish_result ::
  "op_env \<Rightarrow> tool_env \<Rightarrow> Session \<Rightarrow> started list \<Rightarrow> string \<Rightarrow> CallToolResult ToolResult \<Rightarrow> CallToolResult ToolResult op" where
  "finish_result V T session ss i res =
     (case map_of ss i of
        Some (Some call, _) \<Rightarrow>
          (let res' = process_tool_response T res
           in andThen (post_hooks V session call res') (\<lambda>_. ret res'))
      | _ \<Rightarrow> ret res)"

fun collect_items ::
  "op_env \<Rightarrow> tool_env \<Rightarrow> Session \<Rightarrow> started list \<Rightarrow> ToolRequest list \<Rightarrow> string list \<Rightarrow>
     (string \<times> StreamItem) list \<Rightarrow> Collected \<Rightarrow> Collected op" where
  "collect_items V T session ss reqs manage_ids [] co = ret co"
| "collect_items V T session ss reqs manage_ids ((i, SResult res) # items) co =
     andThen (finish_result V T session ss i res) (\<lambda>output w.
       let w' = (case output of
                   Inr result \<Rightarrow>
                     (case platform_notification result of
                        Some n \<Rightarrow> emit_event (McpNotification i n) w
                      | None \<Rightarrow> w)
                 | Inl _ \<Rightarrow> w)
       in collect_items V T session ss reqs manage_ids items
            (co\<lparr>co_change_failed := co_change_failed co \<or> (i \<in> set manage_ids \<and> \<not> is_ok output),
                co_response := add_tool_response_with_metadata (co_response co) i output (request_metadata reqs i)\<rparr>) w')"
| "collect_items V T session ss reqs manage_ids ((i, SEvent (SMessage n)) # items) co =
     (\<lambda>w. collect_items V T session ss reqs manage_ids items co (emit_event (McpNotification i n) w))"
| "collect_items V T session ss reqs manage_ids ((i, SEvent (SActionRequired m)) # items) co =
     andThen (emit_message V m) (\<lambda>m'.
       collect_items V T session ss reqs manage_ids items (co\<lparr>co_effects := co_effects co @ [AppendMessage m']\<rparr>))"

definition answer_interrupted :: "string set \<Rightarrow> ToolRequest \<Rightarrow> Message \<Rightarrow> Message" where
  "answer_interrupted answered req response =
     (if tr_id req \<in> answered then response
      else add_tool_response_with_metadata response (tr_id req)
             (error_result ''Tool call was interrupted before completing'') (tr_metadata req))"

definition extension_state_effect :: "tool_env \<Rightarrow> Session \<Rightarrow> error + StateEffect" where
  "extension_state_effect T session =
     (case te_extension_state T of
        Inl e \<Rightarrow> Inl e
      | Inr v \<Rightarrow> Inr (SetExtensionData (obj_insert ''enabled_extensions.v0'' v (s_extension_data session))))"

subsection \<open>The tool execution operation\<close>

definition known_pending ::
  "tool_env \<Rightarrow> Session \<Rightarrow> (ToolRequest \<times> ToolDisposition) list \<Rightarrow> (ToolRequest \<times> ToolDisposition) list" where
  "known_pending T session pending =
     filter (\<lambda>(req, d). case tr_tool_call req of
               Inr call \<Rightarrow> ctr_name call \<in> tl_name ` set (te_tools T (s_id session))
             | Inl _ \<Rightarrow> False) pending"

definition skip_in_chat :: "ToolRequest \<times> ToolDisposition \<Rightarrow> Message \<Rightarrow> Message" where
  "skip_in_chat rd response =
     add_tool_response_with_metadata response (tr_id (fst rd))
       (case snd rd of
          ParseError e \<Rightarrow> error_result (''The tool call could not be parsed: '' @ e @ ''.'')
        | _ \<Rightarrow> Inr (CallToolResult_success [ContentBlock_text CHAT_MODE_TOOL_SKIPPED_RESPONSE]))
       (tr_metadata (fst rd))"

definition manages_extensions :: "ToolRequest \<Rightarrow> bool" where
  "manages_extensions req =
     (case tr_tool_call req of
        Inr call \<Rightarrow> ctr_name call = MANAGE_EXTENSIONS_TOOL_NAME_COMPLETE
      | Inl _ \<Rightarrow> False)"

definition execute_pending ::
  "op_env \<Rightarrow> tool_env \<Rightarrow> Session \<Rightarrow> (ToolRequest \<times> ToolDisposition) list \<Rightarrow> OperationResult op" where
  "execute_pending V T session pending =
     (let reqs = map fst pending;
          manage_ids = map tr_id (filter manages_extensions reqs);
          unexecuted = fold answer_unexecuted pending (Message_user (oe_now V))
      in andThen (start_requests V T session pending) (\<lambda>ss.
         andThen (collect_items V T session ss reqs manage_ids
                    (te_merge T (map (\<lambda>(i, _, items). map (Pair i) items) ss))
                    \<lparr>co_response = unexecuted, co_effects = [], co_change_failed = False\<rparr>) (\<lambda>co w.
           let response = fold (answer_interrupted (get_tool_response_ids (co_response co))) reqs (co_response co);
               w' = w\<lparr>w_cancelled := w_cancelled w \<or> te_cancelled T\<rparr>
           in andThen (if manage_ids \<noteq> [] \<and> \<not> co_change_failed co
                       then andThen (lift (extension_state_effect T session)) (\<lambda>e. ret [e])
                       else ret []) (\<lambda>state_effect.
              andThen (emit_message V response) (\<lambda>m.
                ret (applied (co_effects co @ state_effect @ [AppendMessage m])))) w')))"

definition tool_execution_run :: "op_env \<Rightarrow> tool_env \<Rightarrow> Session \<Rightarrow> Conversation \<Rightarrow> OperationResult op" where
  "tool_execution_run V T session c =
     andThen (lift (messages_since_kickoff c)) (\<lambda>ms w.
       let pending = known_pending T session (pending_tool_requests (oe_ext V) ms)
       in if pending = [] then ret NotApplicable w
          else if w_goose_mode w = Chat
          then andThen (emit_message V (fold skip_in_chat pending (Message_user (oe_now V))))
                 (\<lambda>m. ret (applied [AppendMessage m])) w
          else execute_pending V T session pending w)"

definition tool_inference_tools :: "tool_env \<Rightarrow> Session \<Rightarrow> Tool list op" where
  "tool_inference_tools T session = ret (te_tools T (s_id session))"

definition tool_moim_parts :: "tool_env \<Rightarrow> Session \<Rightarrow> Conversation \<Rightarrow> string list op" where
  "tool_moim_parts T session c = ret (te_moim T (s_id session))"

subsection \<open>Unknown tools\<close>

definition UNCLAIMED_TOOL_ERROR :: string where
  "UNCLAIMED_TOOL_ERROR = ''goose.unclaimed_tool''"

definition unclaimed_answer :: "op_env \<Rightarrow> ToolRequest \<times> ToolDisposition \<Rightarrow> CallToolResult ToolResult \<times> bool" where
  "unclaimed_answer V rd =
     (case snd rd of
        ParseError e \<Rightarrow>
          (error_result (''The tool call could not be parsed: '' @ e @
             ''. Correct the arguments and try again.''), False)
      | _ \<Rightarrow>
          (case tr_tool_call (fst rd) of
             Inr call \<Rightarrow> (error_result (''Tool '' @ quoted (ctr_name call) @ '' is not available.''), True)
           | Inl e \<Rightarrow> (error_result (''The tool call could not be parsed: '' @
                        show_error_data (oe_ext V) e @ ''.''), False)))"

definition answer_unclaimed :: "op_env \<Rightarrow> ToolRequest \<times> ToolDisposition \<Rightarrow> Message \<Rightarrow> Message" where
  "answer_unclaimed V rd response =
     (case unclaimed_answer V rd of
        (result, unclaimed) \<Rightarrow>
          add_tool_response_with_metadata response (tr_id (fst rd)) result
            (if unclaimed
             then Some (obj_insert UNCLAIMED_TOOL_ERROR (JBool True)
                    (case tr_metadata (fst rd) of Some m \<Rightarrow> m | None \<Rightarrow> []))
             else tr_metadata (fst rd)))"

definition unknown_tool_run :: "op_env \<Rightarrow> Session \<Rightarrow> Conversation \<Rightarrow> OperationResult op" where
  "unknown_tool_run V session c =
     andThen (lift (messages_since_kickoff c)) (\<lambda>ms.
       let pending = pending_tool_requests (oe_ext V) ms
       in if pending = [] then ret NotApplicable
          else andThen (emit_message V (fold (answer_unclaimed V) pending (Message_user (oe_now V))))
                 (\<lambda>m. ret (applied [AppendMessage m])))"

definition UnknownToolOperation :: "op_env \<Rightarrow> Operation" where
  "UnknownToolOperation V = (Operation_default ''unknown_tool'')\<lparr>op_run := unknown_tool_run V\<rparr>"

end
