(* ===== verification/Ops_Recipe.thy ===== *)
theory Ops_Recipe
  imports Ops_Tools "HOL-Library.List_Lexorder"
begin

text \<open>
  \<open>ops_recipe.rs\<close>, \<open>final_output_tool.rs\<close> and the prompt commands of \<open>ops_toolcalling.rs\<close>: recipes that demand a
  structured final output, and prompts of extensions run as commands. JSON schemas (meta-validation
  and validation, with the error texts), the printing of JSON and the lookup of recipe files are
  parameters.
\<close>

subsection \<open>Command responses\<close>

text \<open>\<open>command_error\<close> of the recipe operation and \<open>command_response\<close> of the tool operation: the command stays with the
  user, and so does the answer.\<close>

definition command_response :: "op_env \<Rightarrow> string \<Rightarrow> Conversation \<Rightarrow> string \<Rightarrow> OperationResult op" where
  "command_response V what c text =
     andThen (lift (command_message what c)) (\<lambda>(m, i).
     andThen (emit_message V (with_visibility m True False)) (\<lambda>_.
     andThen (emit_message V (with_visibility (assistant_message V text) True False)) (\<lambda>response.
       ret (yielded_with [SetMessageVisibility i True False, AppendMessage response]))))"

subsection \<open>Prompt commands\<close>

definition prompt_listing :: "(string \<times> Prompt list) list \<Rightarrow> string" where
  "prompt_listing prompts =
     (if prompts = [] then ''No prompts available.'' @ nl
      else ''Available prompts:'' @ nl @ nl @
        concat (map (\<lambda>(ext_name, ps). ''**'' @ ext_name @ ''**:'' @ nl @
          concat (map (\<lambda>p. ''  - '' @ pt_name p @ nl) ps) @ nl) prompts))"

definition list_prompts_command ::
  "op_env \<Rightarrow> tool_env \<Rightarrow> SlashCommand \<Rightarrow> Session \<Rightarrow> Conversation \<Rightarrow> OperationResult op" where
  "list_prompts_command V T cmd session c =
     (case te_list_prompts T (s_id session) of
        Inl e \<Rightarrow> command_response V ''prompt command'' c (''Failed to list prompts: '' @ ed_message e)
      | Inr prompts \<Rightarrow>
          (case first_opt (split_whitespace (sc_params_str cmd)) of
             Some flt \<Rightarrow>
               if map_of prompts flt = None
               then command_response V ''prompt command'' c (''Extension '' @ quoted flt @ '' not found'')
               else command_response V ''prompt command'' c
                      (prompt_listing (filter (\<lambda>(ext_name, _). ext_name = flt) prompts))
           | None \<Rightarrow> command_response V ''prompt command'' c (prompt_listing prompts)))"

definition find_prompt :: "string \<Rightarrow> (string \<times> Prompt list) list \<Rightarrow> (string \<times> Prompt) option" where
  "find_prompt name prompts =
     find_map (\<lambda>(ext_name, ps). map_option (Pair ext_name) (find (\<lambda>p. pt_name p = name) ps)) prompts"

definition prompt_info :: "string \<Rightarrow> Prompt \<Rightarrow> string" where
  "prompt_info ext_name p =
     ''**Prompt: '' @ pt_name p @ ''**'' @ nl @ nl @
     (case pt_description p of Some d \<Rightarrow> ''Description: '' @ d @ nl @ nl | None \<Rightarrow> []) @
     ''Extension: '' @ ext_name @ nl @ nl @
     (case pt_arguments p of
        None \<Rightarrow> []
      | Some args \<Rightarrow>
          ''Arguments:'' @ nl @
          concat (map (\<lambda>a. ''  - '' @ pa_name a @
            (case pa_description a of Some d \<Rightarrow> '': '' @ d | None \<Rightarrow> []) @ nl) args))"

definition prompt_arguments :: "string list \<Rightarrow> (string \<times> string) list" where
  "prompt_arguments params =
     fold (\<lambda>(k, v). obj_insert k v)
       (map (\<lambda>(k, v). (k, trim_matches (CHR 0x22) v)) (filter_map (split_once ''='') params)) []"

fun role_debug :: "Role \<Rightarrow> string" where
  "role_debug User = ''User''"
| "role_debug Assistant = ''Assistant''"

definition expected_role :: "nat \<Rightarrow> Role" where
  "expected_role i = (if even i then User else Assistant)"

text \<open>The first message out of turn is the error.\<close>

fun check_prompt_roles :: "nat \<Rightarrow> (Role \<times> ContentBlock) list \<Rightarrow> string option" where
  "check_prompt_roles i [] = None"
| "check_prompt_roles i ((r, _) # ms) =
     (if r \<noteq> expected_role i
      then Some (''Expected '' @ role_debug (expected_role i) @ '' message at position '' @ show_nat i @
                 '', but found '' @ role_debug r)
      else check_prompt_roles (Suc i) ms)"

definition run_prompt ::
  "op_env \<Rightarrow> tool_env \<Rightarrow> SlashCommand \<Rightarrow> Session \<Rightarrow> Conversation \<Rightarrow> OperationResult op" where
  "run_prompt V T cmd session c =
     (let params = split_whitespace (sc_params_str cmd);
          respond = command_response V ''prompt command'' c
      in case first_opt params of
           None \<Rightarrow> respond ''Prompt name argument is required''
         | Some name \<Rightarrow>
             (case te_list_prompts T (s_id session) of
                Inl e \<Rightarrow> respond (''Failed to list prompts: '' @ ed_message e)
              | Inr prompts \<Rightarrow>
                  (case find_prompt name prompts of
                     None \<Rightarrow> respond (''Prompt '' @ quoted name @ '' not found'')
                   | Some (ext_name, p) \<Rightarrow>
                       if list_get params 1 = Some ''--info'' then respond (prompt_info ext_name p)
                       else
                         (case te_get_prompt T (s_id session) ext_name name (prompt_arguments (drop 1 params)) of
                            Inl e \<Rightarrow> respond e
                          | Inr ms \<Rightarrow>
                              andThen (lift (command_message ''prompt command'' c)) (\<lambda>(m, i).
                                case check_prompt_roles 0 ms of
                                  Some e \<Rightarrow> respond e
                                | None \<Rightarrow>
                                    if ms = [] then respond (''Prompt '' @ quoted name @ '' returned no messages'')
                                    else ret (applied (SetMessageVisibility i True False #
                                      map (\<lambda>(r, b). AppendMessage (with_visibility
                                        (message_of_prompt (oe_ext V) (oe_now V) r b) False True)) ms)))))))"

definition tool_run_command ::
  "op_env \<Rightarrow> tool_env \<Rightarrow> SlashCommand \<Rightarrow> Session \<Rightarrow> Conversation \<Rightarrow> OperationResult op" where
  "tool_run_command V T cmd session c =
     (if sc_command cmd = ''prompts'' then list_prompts_command V T cmd session c
      else if sc_command cmd = ''prompt'' then run_prompt V T cmd session c
      else ret NotApplicable)"

text \<open>The prompt of the extensions, sorted by name; code mode is a build without this part.\<close>

definition extension_lines :: "ExtensionInfo \<Rightarrow> string list" where
  "extension_lines e =
     [''## '' @ ei_name e] @
     (if ei_has_resources e then [ei_name e @ '' supports resources.''] else []) @
     (if ei_instructions e \<noteq> [] then [''### Instructions'' @ nl @ ei_instructions e] else [])"

definition EXTENSIONS_INTRO :: "string list" where
  "EXTENSIONS_INTRO =
     [''# Extensions'',
      ''Extensions provide additional tools and context from different data sources and applications.'' @ nl @
      ''You can dynamically enable or disable extensions as needed to help complete tasks.'' @ nl @ nl @
      ''Because you dynamically load extensions, your conversation history may refer to interactions with '' @
      ''extensions that are not currently active. The currently active extensions are below. Each of these '' @
      ''extensions provides tools that are in your tool specification.'']"

definition tool_prompt_parts :: "tool_env \<Rightarrow> Session \<Rightarrow> Conversation \<Rightarrow> (string \<times> string) list op" where
  "tool_prompt_parts T session c =
     (let calls = filter_map (\<lambda>b. case as_tool_request b of
                      Some req \<Rightarrow> (case tr_tool_call req of Inr call \<Rightarrow> Some (ctr_arguments call) | Inl _ \<Rightarrow> None)
                    | None \<Rightarrow> None) (concat (map m_content c));
          hints = te_hints T calls (s_working_dir session);
          exts = sort_key (\<lambda>e. map of_char (ei_name e) :: nat list)
                   (filter (\<lambda>e. ei_name e \<noteq> ''skills'') (te_extensions T (s_working_dir session)))
      in ret (if exts = [] then hints
              else hints @ [(''extensions'', str_join (nl @ nl) (EXTENSIONS_INTRO @ concat (map extension_lines exts)))]))"

definition ToolExecutionOperation :: "op_env \<Rightarrow> tool_env \<Rightarrow> Operation" where
  "ToolExecutionOperation V T =
     (Operation_default ''tool_execution'')
       \<lparr>op_run_command := tool_run_command V T, op_inference_tools := tool_inference_tools T,
        op_moim_parts := tool_moim_parts T, op_prompt_parts := tool_prompt_parts T,
        op_run := tool_execution_run V T\<rparr>"

subsection \<open>The final output tool\<close>

definition FINAL_OUTPUT_TOOL_NAME :: string where
  "FINAL_OUTPUT_TOOL_NAME = ''recipe__final_output''"

definition FINAL_OUTPUT_CONTINUATION_MESSAGE :: string where
  "FINAL_OUTPUT_CONTINUATION_MESSAGE =
     ''You MUST call the '' @ ticked ''final_output'' @ '' tool NOW with the final output for the user.''"

record recipe_env =
  re_meta_validate :: "json \<Rightarrow> string option"
  re_compile :: "json \<Rightarrow> string option"
  re_schema_errors :: "json \<Rightarrow> json \<Rightarrow> (string \<times> string) list"
  re_pretty :: "json \<Rightarrow> string"
  re_to_string :: "json \<Rightarrow> string"
  re_resolve :: "string \<Rightarrow> string \<Rightarrow> string + (Recipe \<times> string) option"

record FinalOutputTool =
  fo_json_schema :: json
  fo_final_output :: "string option"

text \<open>\<open>re_meta_validate\<close> and \<open>re_compile\<close> return the error, if there is one.\<close>

definition FinalOutputTool_try_new :: "recipe_env \<Rightarrow> json option \<Rightarrow> string + FinalOutputTool" where
  "FinalOutputTool_try_new R schema_opt =
     (case schema_opt of
        None \<Rightarrow> Inl ''json_schema is required''
      | Some schema \<Rightarrow>
          (case as_object schema of
             None \<Rightarrow> Inl ''json_schema must be an object''
           | Some m \<Rightarrow>
               if m = [] then Inl ''empty json_schema is not allowed''
               else (case re_meta_validate R schema of
                       Some e \<Rightarrow> Inl e
                     | None \<Rightarrow> Inr \<lparr>fo_json_schema = schema, fo_final_output = None\<rparr>)))"

definition final_output_tool :: "FinalOutputTool \<Rightarrow> Tool" where
  "final_output_tool f = \<lparr>tl_name = FINAL_OUTPUT_TOOL_NAME, tl_annotations = Some (Some False), tl_meta = None\<rparr>"

definition final_output_system_prompt :: "recipe_env \<Rightarrow> FinalOutputTool \<Rightarrow> string" where
  "final_output_system_prompt R f =
     ''# Final Output Instructions'' @ nl @ nl @
     ''You MUST use the '' @ ticked ''final_output'' @
     '' tool to collect the final output for the user rather than providing the output directly in your response.'' @ nl @
     ''The final output MUST be a valid JSON object that is provided to the '' @ ticked ''final_output'' @
     '' tool when called and it must match the following schema:'' @ nl @ nl @
     re_pretty R (fo_json_schema f) @ nl @ nl @ ''----'' @ nl"

definition validate_json_output :: "recipe_env \<Rightarrow> FinalOutputTool \<Rightarrow> json \<Rightarrow> string + json" where
  "validate_json_output R f output =
     (case re_compile R (fo_json_schema f) of
        Some e \<Rightarrow> Inl (''Internal error: Failed to compile schema: '' @ e)
      | None \<Rightarrow>
          (let errors = map (\<lambda>(path, e). ''- '' @ path @ '': '' @ e) (re_schema_errors R (fo_json_schema f) output)
           in if errors = [] then Inr output
              else Inl (''Validation failed:'' @ nl @ str_join nl errors @ nl @ nl @ ''Expected format:'' @ nl @
                     re_pretty R (fo_json_schema f) @ nl @ nl @
                     ''Please correct your output to match the expected JSON schema and try again.'')))"

definition arguments_value :: "json_object option \<Rightarrow> json" where
  "arguments_value a = (case a of Some m \<Rightarrow> JObj m | None \<Rightarrow> JNull)"

definition execute_final_output ::
  "recipe_env \<Rightarrow> CallToolRequestParams \<Rightarrow> FinalOutputTool \<Rightarrow> CallToolResult ToolResult \<times> FinalOutputTool" where
  "execute_final_output R call f =
     (if ctr_name call = FINAL_OUTPUT_TOOL_NAME
      then (case validate_json_output R f (arguments_value (ctr_arguments call)) of
              Inr v \<Rightarrow>
                (Inr (CallToolResult_success [ContentBlock_text ''Final output successfully collected.'']),
                 f\<lparr>fo_final_output := Some (re_to_string R v)\<rparr>)
            | Inl e \<Rightarrow> (Inl \<lparr>ed_code = - 32602, ed_message = e, ed_data = None\<rparr>, f))
      else (Inl \<lparr>ed_code = - 32600, ed_message = ''Unknown tool: '' @ ctr_name call, ed_data = None\<rparr>, f))"

subsection \<open>The recipe operation\<close>

definition final_output :: "recipe_env \<Rightarrow> Session \<Rightarrow> error + FinalOutputTool option" where
  "final_output R session =
     (case Option.bind (s_recipe session) rc_response of
        None \<Rightarrow> Inr None
      | Some schema_opt \<Rightarrow>
          (case FinalOutputTool_try_new R schema_opt of
             Inl e \<Rightarrow> Inl (Anyhow e)
           | Inr f \<Rightarrow> Inr (Some f)))"

fun successful_response_id :: "MessageContentBlock \<Rightarrow> string option" where
  "successful_response_id (ToolResponse r) =
     (if result_succeeded (tp_tool_result r) then Some (tp_id r) else None)"
| "successful_response_id _ = None"

definition final_output_of :: "recipe_env \<Rightarrow> string set \<Rightarrow> MessageContentBlock \<Rightarrow> string option" where
  "final_output_of R successful b =
     (case as_tool_request b of
        Some req \<Rightarrow>
          if tr_id req \<in> successful
          then (case tr_tool_call req of
                  Inr call \<Rightarrow>
                    if ctr_name call = FINAL_OUTPUT_TOOL_NAME
                    then Some (re_to_string R (JObj (case ctr_arguments call of Some m \<Rightarrow> m | None \<Rightarrow> [])))
                    else None
                | Inl _ \<Rightarrow> None)
          else None
      | None \<Rightarrow> None)"

definition successful_final_output :: "recipe_env \<Rightarrow> Message list \<Rightarrow> string option" where
  "successful_final_output R ms =
     (let blocks = concat (map m_content ms)
      in find_map (final_output_of R (set (filter_map successful_response_id blocks))) (rev blocks))"

definition wants_final_output :: "ToolRequest \<times> ToolDisposition \<Rightarrow> bool" where
  "wants_final_output rd =
     (snd rd = Execute \<and>
      (case tr_tool_call (fst rd) of Inr call \<Rightarrow> ctr_name call = FINAL_OUTPUT_TOOL_NAME | Inl _ \<Rightarrow> False))"

definition recipe_run_command ::
  "op_env \<Rightarrow> recipe_env \<Rightarrow> SlashCommand \<Rightarrow> Session \<Rightarrow> Conversation \<Rightarrow> OperationResult op" where
  "recipe_run_command V R cmd session c =
     (case re_resolve R (sc_command cmd) (sc_params_str cmd) of
        Inl e \<Rightarrow> command_response V ''recipe command'' c e
      | Inr None \<Rightarrow> ret NotApplicable
      | Inr (Some (recipe, prompt)) \<Rightarrow>
          (case (case rc_response recipe of
                   Some schema_opt \<Rightarrow>
                     (case FinalOutputTool_try_new R schema_opt of Inl e \<Rightarrow> Some e | Inr _ \<Rightarrow> None)
                 | None \<Rightarrow> None) of
             Some e \<Rightarrow> command_response V ''recipe command'' c (''Recipe is not valid: '' @ e)
           | None \<Rightarrow>
               andThen (lift (command_message ''recipe command'' c)) (\<lambda>(m, i).
                 ret (applied [SetMessageVisibility i True False, SetRecipe (Some recipe),
                               AppendMessage (with_visibility (user_message V prompt) False True)]))))"

definition recipe_inference_tools :: "recipe_env \<Rightarrow> Session \<Rightarrow> Tool list op" where
  "recipe_inference_tools R session =
     andThen (lift (final_output R session)) (\<lambda>f.
       ret (case f of Some t \<Rightarrow> [final_output_tool t] | None \<Rightarrow> []))"

definition recipe_prompt_parts :: "recipe_env \<Rightarrow> Session \<Rightarrow> Conversation \<Rightarrow> (string \<times> string) list op" where
  "recipe_prompt_parts R session c =
     andThen (lift (final_output R session)) (\<lambda>f.
       ret (case f of Some t \<Rightarrow> [(''final_output'', final_output_system_prompt R t)] | None \<Rightarrow> []))"

definition recipe_run :: "op_env \<Rightarrow> recipe_env \<Rightarrow> Session \<Rightarrow> Conversation \<Rightarrow> OperationResult op" where
  "recipe_run V R session c =
     andThen (lift (final_output R session)) (\<lambda>f_opt.
       case f_opt of
         None \<Rightarrow> ret NotApplicable
       | Some f \<Rightarrow>
           andThen (lift (messages_since_kickoff c)) (\<lambda>ms.
             case find wants_final_output (pending_tool_requests (oe_ext V) ms) of
               Some (req, _) \<Rightarrow>
                 (case tr_tool_call req of
                    Inl e \<Rightarrow> fail (Anyhow (''final output tool call could not be parsed: '' @ show_error_data (oe_ext V) e))
                  | Inr call \<Rightarrow>
                      andThen (emit_message V (add_tool_response_with_metadata (Message_user (oe_now V)) (tr_id req)
                                 (fst (execute_final_output R call f)) (tr_metadata req)))
                        (\<lambda>m. ret (applied [AppendMessage m])))
             | None \<Rightarrow>
                 (case successful_final_output R ms of
                    Some output \<Rightarrow>
                      andThen (lift (last_effective_role ms)) (\<lambda>r.
                        if r = ETool
                        then andThen (emit_message V (assistant_message V output)) (\<lambda>m. ret (applied [AppendMessage m]))
                        else ret NotApplicable)
                  | None \<Rightarrow>
                      if ends_turn ms
                      then andThen (emit_message V (user_message V FINAL_OUTPUT_CONTINUATION_MESSAGE))
                             (\<lambda>m. ret (applied [AppendMessage m]))
                      else ret NotApplicable)))"

definition RecipeOperation :: "op_env \<Rightarrow> recipe_env \<Rightarrow> Operation" where
  "RecipeOperation V R =
     (Operation_default ''recipe'')
       \<lparr>op_run_command := recipe_run_command V R, op_inference_tools := recipe_inference_tools R,
        op_prompt_parts := recipe_prompt_parts R, op_run := recipe_run V R\<rparr>"

end
