(* ===== verification/Context_Mgmt.thy ===== *)
theory Context_Mgmt
  imports Ops_Recipe Conversation_Repair
begin

text \<open>
  \<open>context_mgmt/mod.rs\<close>, \<open>ops_compaction.rs\<close> and \<open>ops_tool_pair_compaction.rs\<close>: replacing a long conversation by a
  summary the model writes, and old tool calls by short descriptions. The originals stay in the
  conversation, visible to the user only. The model, the prompt templates, the parsing of a structured
  summary and the estimate of missing usage are the record \<open>compact_env\<close>; ratios are exact.
\<close>

record compact_env =
  ce_complete :: "string \<Rightarrow> Message list \<Rightarrow> ProviderError + Message \<times> ProviderUsage"
  ce_render :: "string \<Rightarrow> string + string"
  ce_ensure_usage :: "ProviderUsage \<Rightarrow> string \<Rightarrow> Message list \<Rightarrow> Message \<Rightarrow> string + ProviderUsage"
  ce_structured :: "string \<Rightarrow> (string + string) option"
  ce_manages_own_context :: bool
  ce_context_limit :: nat
  ce_threshold :: f64

definition DEFAULT_COMPACTION_THRESHOLD :: f64 where
  "DEFAULT_COMPACTION_THRESHOLD = 8 / 10"

definition TOOLCALL_SUMMARIZATION_BATCH_SIZE :: nat where
  "TOOLCALL_SUMMARIZATION_BATCH_SIZE = 10"

definition summary_rules :: string where
  "summary_rules = nl @
     ''Do not mention that you read a summary or that conversation summarization occurred.'' @ nl"

definition CONVERSATION_CONTINUATION_TEXT :: string where
  "CONVERSATION_CONTINUATION_TEXT =
     ''Your context was compacted. The previous message contains a summary of the conversation so far.'' @
     summary_rules @ ''Just continue the conversation naturally based on the summarized context.''"

definition TOOL_LOOP_CONTINUATION_TEXT :: string where
  "TOOL_LOOP_CONTINUATION_TEXT =
     ''Your context was compacted. The previous message contains a summary of the conversation so far.'' @
     summary_rules @ ''Continue calling tools as necessary to complete the task.''"

definition MANUAL_COMPACT_CONTINUATION_TEXT :: string where
  "MANUAL_COMPACT_CONTINUATION_TEXT =
     ''Your context was compacted at the user's request. The previous message contains a summary of the conversation so far.'' @
     summary_rules @ ''Just continue the conversation naturally based on the summarized context.''"

subsection \<open>Writing messages down\<close>

fun compacting_part :: "ext \<Rightarrow> MessageContentBlock \<Rightarrow> string option" where
  "compacting_part E (Text t) = Some (tc_text t)"
| "compacting_part E (Image i) = Some (''[image: '' @ ic_mime_type i @ '']'')"
| "compacting_part E (ToolRequest req) =
     (case tr_tool_call req of
        Inr call \<Rightarrow>
          Some (''tool_request('' @ ctr_name call @ ''): '' @
            (case json_to_string E (ctr_arguments call) of Some s \<Rightarrow> s | None \<Rightarrow> ''<<invalid json>>''))
      | Inl _ \<Rightarrow> Some ''tool_request: [error]'')"
| "compacting_part E (ToolResponse res) =
     (case tp_tool_result res of
        Inr result \<Rightarrow>
          (let texts = filter_map content_as_text (cr_content result)
           in if texts \<noteq> [] then Some (''tool_response: '' @ str_join nl texts)
              else Some ''tool_response: [non-text content]'')
      | Inl _ \<Rightarrow> Some ''tool_response: [error]'')"
| "compacting_part E (ToolConfirmationRequest req) = Some (''tool_confirmation_request: '' @ tcr_tool_name req)"
| "compacting_part E (ActionRequired (ToolConfirmation _ tname _ _)) =
     Some (''action_required(tool_confirmation): '' @ tname)"
| "compacting_part E (ActionRequired (Elicitation _ msg _)) = Some (''action_required(elicitation): '' @ msg)"
| "compacting_part E (ActionRequired (ElicitationResponse i _ _)) =
     Some (''action_required(elicitation_response): '' @ i)"
| "compacting_part E (ActionRequired (ToolConfirmationResponse i _)) =
     Some (''action_required(tool_confirmation_response): '' @ i)"
| "compacting_part E (FrontendToolRequest req) =
     (case ft_tool_call req of
        Inr call \<Rightarrow> Some (''frontend_tool_request: '' @ ctr_name call)
      | Inl _ \<Rightarrow> Some ''frontend_tool_request: [error]'')"
| "compacting_part E (Thinking _) = None"
| "compacting_part E (RedactedThinking _) = None"
| "compacting_part E (SystemNotification n) = Some (''system_notification: '' @ sn_msg n)"
| "compacting_part E (Error e) = Some (''error: '' @ ec_message e)"

definition format_message_for_compacting :: "ext \<Rightarrow> Message \<Rightarrow> string" where
  "format_message_for_compacting E m =
     (let parts = filter_map (compacting_part E) (m_content m);
          role = (case m_role m of User \<Rightarrow> ''user'' | Assistant \<Rightarrow> ''assistant'')
      in if parts = [] then ''['' @ role @ '']: <empty message>''
         else ''['' @ role @ '']: '' @ str_join nl parts)"

subsection \<open>Leaving out tool responses\<close>

definition tool_response_indices :: "Message list \<Rightarrow> nat list" where
  "tool_response_indices ms = filter (\<lambda>i. is_tool_response (ms ! i)) [0..<length ms]"

text \<open>The loop over \<open>i\<close>: one index to the left of the middle, one to the right, and so on.\<close>

definition middle_out :: "nat list \<Rightarrow> nat \<Rightarrow> nat option" where
  "middle_out idx i =
     (let middle = length idx div 2; offset = i div 2
      in if even i then (if offset < middle then Some (idx ! (middle - offset - 1)) else None)
         else (if middle + offset < length idx then Some (idx ! (middle + offset)) else None))"

definition filter_tool_responses :: "Message list \<Rightarrow> nat \<Rightarrow> Message list" where
  "filter_tool_responses ms remove_percent =
     (let idx = tool_response_indices ms
      in if remove_percent = 0 \<or> idx = [] then ms
         else (let num_to_remove = max 1 (length idx * remove_percent div 100);
                   removed = filter_map (middle_out idx) [0..<num_to_remove]
               in map (nth ms) (filter (\<lambda>i. i \<notin> set removed) [0..<length ms])))"

subsection \<open>Summarising\<close>

definition apply_structured_summary :: "compact_env \<Rightarrow> Message \<Rightarrow> Message" where
  "apply_structured_summary C response =
     (case ce_structured C (as_concat_text response) of
        Some (Inr rendered) \<Rightarrow>
          if trim rendered \<noteq> [] then response\<lparr>m_content := [block_text rendered]\<rparr> else response
      | _ \<Rightarrow> response)"

definition summarization_request :: "op_env \<Rightarrow> Message list" where
  "summarization_request V =
     [user_message V ''Please summarize the conversation history provided in the system prompt.'']"

fun try_compact ::
  "op_env \<Rightarrow> compact_env \<Rightarrow> Message list \<Rightarrow> nat list \<Rightarrow> string + Message \<times> ProviderUsage" where
  "try_compact V C ms [] = Inl ''Unexpected: exhausted all attempts without returning''"
| "try_compact V C ms (percent # rest) =
     (let text = str_join nl (map (format_message_for_compacting (oe_ext V)) (filter_tool_responses ms percent))
      in case ce_render C text of
           Inl e \<Rightarrow> Inl e
         | Inr system_prompt \<Rightarrow>
             (case ce_complete C system_prompt (summarization_request V) of
                Inr (response, u) \<Rightarrow>
                  (let response' = response\<lparr>m_role := User\<rparr>
                   in case ce_ensure_usage C u system_prompt (summarization_request V) response' of
                        Inl e \<Rightarrow> Inl (''Failed to ensure usage tokens: '' @ e)
                      | Inr u' \<Rightarrow> Inr (apply_structured_summary C response', u'))
              | Inl (ContextLengthExceededError s) \<Rightarrow>
                  if rest \<noteq> [] then try_compact V C ms rest
                  else Inl ''Failed to compact: context limit exceeded even after removing all tool responses''
              | Inl e \<Rightarrow> Inl (display_provider_error e)))"

definition do_compact :: "op_env \<Rightarrow> compact_env \<Rightarrow> Message list \<Rightarrow> string + Message \<times> ProviderUsage" where
  "do_compact V C ms =
     try_compact V C (agent_visible_messages (filter (\<lambda>m. \<not> is_turn_context m) ms)) [0, 10, 20, 50, 100]"

subsection \<open>Compacting\<close>

definition has_text_only :: "Message \<Rightarrow> bool" where
  "has_text_only m =
     (list_ex is_text_block (m_content m) \<and>
      \<not> list_ex (\<lambda>b. is_tool_request_block b \<or> is_tool_response_block b) (m_content m))"

definition preserved_of :: "op_env \<Rightarrow> Message \<Rightarrow> Message option" where
  "preserved_of V m =
     (if \<not> is_agent_visible m \<or> is_turn_context m \<or> m_role m \<noteq> User then None
      else (let projected = agent_visible_content m
            in if \<not> has_text_only projected then None
               else Some (fold (\<lambda>b acc. with_content acc b) (filter is_text_block (m_content projected))
                      (with_metadata (Message_user (oe_now V)) md_agent_only))))"

definition find_preserved :: "op_env \<Rightarrow> Message list \<Rightarrow> (nat \<times> Message) option" where
  "find_preserved V ms =
     find_map (\<lambda>i. map_option (Pair i) (preserved_of V (ms ! i))) (rev [0..<length ms])"

definition hide_from_agent :: "Message \<Rightarrow> Message" where
  "hide_from_agent m = with_metadata m (with_agent_invisible (m_metadata m))"

definition continuation_text :: "bool \<Rightarrow> bool \<Rightarrow> string" where
  "continuation_text manual_compact is_most_recent =
     (if manual_compact then MANUAL_COMPACT_CONTINUATION_TEXT
      else if is_most_recent then CONVERSATION_CONTINUATION_TEXT
      else TOOL_LOOP_CONTINUATION_TEXT)"

definition carried_context :: "Message list \<Rightarrow> Message list \<Rightarrow> Message list" where
  "carried_context later final_messages =
     (case rfind (\<lambda>m. is_turn_context m \<and> is_agent_visible m) later of
        None \<Rightarrow> []
      | Some m \<Rightarrow>
          [m\<lparr>m_id := None,
             m_created := (if final_messages = [] then m_created m
                           else max (m_created m) (Max (set (map m_created final_messages))))\<rparr>])"

record CompactionResult =
  cres_conversation :: Conversation
  cres_usage :: ProviderUsage
  cres_retained_context_tokens :: i32

definition compacted_conversation ::
  "op_env \<Rightarrow> Conversation \<Rightarrow> bool \<Rightarrow> Message \<Rightarrow> Conversation" where
  "compacted_conversation V c manual_compact summary =
     (let found = (if manual_compact then None else find_preserved V c);
          is_most_recent = (case found of Some (i, _) \<Rightarrow> list_all is_turn_context (drop (Suc i) c) | None \<Rightarrow> False);
          continuation = with_metadata (assistant_message V (continuation_text manual_compact is_most_recent)) md_agent_only;
          merged = fst (merge_consecutive_messages [with_metadata summary md_agent_only, continuation]);
          kept = map hide_from_agent c @ merged @
                 (case found of Some (_, m) \<Rightarrow> [m\<lparr>m_created := m_created continuation\<rparr>] | None \<Rightarrow> [])
      in kept @ (case found of Some (i, _) \<Rightarrow> carried_context (drop (Suc i) c) kept | None \<Rightarrow> []))"

definition compact_messages ::
  "op_env \<Rightarrow> compact_env \<Rightarrow> Conversation \<Rightarrow> bool \<Rightarrow> string + CompactionResult" where
  "compact_messages V C c manual_compact =
     (case do_compact V C c of
        Inl e \<Rightarrow> Inl e
      | Inr (summary, u) \<Rightarrow>
          (let c' = compacted_conversation V c manual_compact summary
           in Inr \<lparr>cres_conversation = c', cres_usage = u,
                   cres_retained_context_tokens =
                     (case count_context_tokens V c' of
                        Inr tokens \<Rightarrow> tokens
                      | Inl _ \<Rightarrow> (case output_tokens (pu_usage u) of Some t \<Rightarrow> t | None \<Rightarrow> 0))\<rparr>))"

definition check_if_compaction_needed ::
  "op_env \<Rightarrow> compact_env \<Rightarrow> f64 option \<Rightarrow> Session \<Rightarrow> Conversation \<Rightarrow> bool" where
  "check_if_compaction_needed V C threshold_override session c =
     (if ce_manages_own_context C then False
      else (let threshold = (case threshold_override of Some t \<Rightarrow> t | None \<Rightarrow> ce_threshold C);
                current = (case total_tokens (s_usage session) of
                             Some t \<Rightarrow> sint t mod 2 ^ 64
                           | None \<Rightarrow> int (sum_list (map (oe_count_tokens V) (filter is_agent_visible c))));
                usage_ratio = of_int current / of_nat (ce_context_limit C)
            in if threshold \<le> 0 \<or> 1 \<le> threshold then False else threshold < usage_ratio))"

subsection \<open>Old tool calls\<close>

definition compute_tool_call_cutoff :: "nat \<Rightarrow> f64 \<Rightarrow> nat" where
  "compute_tool_call_cutoff context_limit compaction_threshold =
     (let threshold = (if 0 < compaction_threshold \<and> compaction_threshold \<le> 1 then compaction_threshold
                       else DEFAULT_COMPACTION_THRESHOLD);
          effective_limit = nat (floor (of_nat context_limit * threshold))
      in max 10 (min 500 (3 * effective_limit div 20000)))"

definition visible_tool_call_ids :: "Conversation \<Rightarrow> string list" where
  "visible_tool_call_ids c =
     map tr_id (filter_map as_tool_request (concat (map m_content (filter is_agent_visible c))))"

definition tool_ids_to_summarize :: "Conversation \<Rightarrow> nat \<Rightarrow> nat \<Rightarrow> string list" where
  "tool_ids_to_summarize c cutoff protect_last_n =
     (let ids = visible_tool_call_ids c;
          eligible = length ids - protect_last_n
      in if eligible \<le> cutoff + TOOLCALL_SUMMARIZATION_BATCH_SIZE then []
         else take TOOLCALL_SUMMARIZATION_BATCH_SIZE ids)"

definition concerns_tool :: "string \<Rightarrow> Message \<Rightarrow> bool" where
  "concerns_tool tool_id m = list_ex (\<lambda>b. tool_block_id b = Some tool_id) (m_content m)"

definition agent_visible_tool_pair :: "Conversation \<Rightarrow> string \<Rightarrow> string + Message list" where
  "agent_visible_tool_pair c tool_id =
     (let ms = agent_visible_messages (filter (concerns_tool tool_id) c)
      in if list_ex (\<lambda>m. tool_id \<in> get_tool_request_ids m) ms \<and> list_ex (\<lambda>m. tool_id \<in> get_tool_response_ids m) ms
         then Inr ms
         else Inl (''No agent-visible tool pair found for tool id: '' @ tool_id))"

definition SUMMARIZE_TOOL_PROMPT :: string where
  "SUMMARIZE_TOOL_PROMPT =
     ''Your task is to summarize a tool call & response pair to save tokens.'' @ nl @ nl @
     ''Reply with a single message that describes what happened. Typically a tool call'' @ nl @
     ''asks for something using a bunch of parameters and then the result is also some'' @ nl @
     ''structured output. So the tool might ask to look up something on github and the'' @ nl @
     ''reply might be a json document. So you could reply with something like:'' @ nl @ nl @
     [CHR 0x22] @ ''A call to github was made to get the project status'' @ [CHR 0x22] @ nl @ nl @
     ''if that is what it was.'' @ nl"

definition summarize_tool_call ::
  "op_env \<Rightarrow> compact_env \<Rightarrow> Conversation \<Rightarrow> string \<Rightarrow> World \<Rightarrow> (string + Message) \<times> World" where
  "summarize_tool_call V C c tool_id w =
     (case agent_visible_tool_pair c tool_id of
        Inl e \<Rightarrow> (Inl e, w)
      | Inr ms \<Rightarrow>
          (case ce_complete C SUMMARIZE_TOOL_PROMPT
                  [user_message V (str_join nl (map (format_message_for_compacting (oe_ext V)) ms))] of
             Inl e \<Rightarrow> (Inl (display_provider_error e), w)
           | Inr (response, _) \<Rightarrow>
               (case gen_uuid V w of
                  (u, w') \<Rightarrow>
                    (Inr (with_generated_id u
                       (response\<lparr>m_role := User, m_created := m_created (last ms), m_metadata := md_agent_only\<rparr>)), w'))))"

subsection \<open>The compaction operation\<close>

definition MAX_CONTEXT_ERROR_COMPACTIONS :: nat where
  "MAX_CONTEXT_ERROR_COMPACTIONS = 2"

definition trunc_i32 :: "f64 \<Rightarrow> int" where
  "trunc_i32 x = max (- (2 ^ 31)) (min (2 ^ 31 - 1) (if 0 \<le> x then floor x else ceiling x))"

definition compaction_part :: "i32 option \<Rightarrow> nat \<Rightarrow> f64 \<Rightarrow> string option" where
  "compaction_part total_opt context_limit threshold =
     (case total_opt of
        None \<Rightarrow> None
      | Some tot \<Rightarrow>
          if sint tot \<le> 0 \<or> context_limit = 0 \<or> threshold \<le> 0 \<or> 1 \<le> threshold then None
          else (let compaction_at = trunc_i32 (of_nat context_limit * threshold)
                in if compaction_at \<le> 0 \<or> (of_int (sint tot) / of_int compaction_at :: f64) < 1 / 2 then None
                   else Some (''<compaction>~'' @
                     show_int (let d = max (- (2 ^ 31)) (compaction_at - sint tot)
                               in if 0 \<le> d then d div 1000 else - ((- d) div 1000)) @
                     ''k tokens remaining</compaction>'')))"

definition over_threshold :: "compact_env \<Rightarrow> int \<Rightarrow> bool" where
  "over_threshold C tokens =
     (if ce_threshold C \<le> 0 \<or> 1 \<le> ce_threshold C then False
      else ce_threshold C < of_int tokens / of_nat (ce_context_limit C))"

definition clear_command :: "op_env \<Rightarrow> Conversation \<Rightarrow> OperationResult op" where
  "clear_command V c =
     andThen (lift (messages_since_kickoff c)) (\<lambda>ms.
       case first_opt ms of
         None \<Rightarrow> fail (Anyhow ''clear command conversation has no kickoff message'')
       | Some m \<Rightarrow>
           andThen (emit_message V (with_visibility m True False)) (\<lambda>cmd.
           andThen (emit_message V (with_visibility (assistant_message V ''Conversation cleared'') True False)) (\<lambda>response.
             ret (yielded_with [ReplaceConversation [] None, AppendMessage cmd, AppendMessage response]))))"

definition compaction_run_command ::
  "op_env \<Rightarrow> compact_env \<Rightarrow> SlashCommand \<Rightarrow> Session \<Rightarrow> Conversation \<Rightarrow> OperationResult op" where
  "compaction_run_command V C cmd session c =
     (if sc_command cmd = ''clear'' then clear_command V c
      else if sc_command cmd \<noteq> ''compact'' then ret NotApplicable
      else (case compact_messages V C c True of
              Inl e \<Rightarrow> command_response V ''compact command'' c e
            | Inr result \<Rightarrow>
                andThen (lift (messages_since_kickoff c)) (\<lambda>ms.
                  case first_opt ms of
                    None \<Rightarrow> fail (Anyhow ''compact command conversation has no kickoff message'')
                  | Some m \<Rightarrow>
                      andThen (emit_message V (with_visibility m True False)) (\<lambda>_.
                      andThen (emit_message V (with_visibility (assistant_message V ''Compaction complete'') True False)) (\<lambda>response.
                        ret (yielded_with [ReplaceConversation (cres_conversation result) (Some (cres_usage result)),
                                           AppendMessage response]))))))"

definition compaction_moim_parts :: "compact_env \<Rightarrow> Session \<Rightarrow> Conversation \<Rightarrow> string list op" where
  "compaction_moim_parts C session c =
     ret (if ce_manages_own_context C then []
          else (case compaction_part (total_tokens (s_usage session)) (ce_context_limit C) (ce_threshold C) of
                  Some p \<Rightarrow> [p] | None \<Rightarrow> []))"

definition context_errors :: "Message list \<Rightarrow> nat" where
  "context_errors ms =
     length (filter (\<lambda>m. error_kind m = Some ContextLengthExceeded \<and> \<not> is_agent_visible m) ms)"

definition COMPACTION_THINKING_TEXT :: string where
  "COMPACTION_THINKING_TEXT = ''Obelus is refining the conversation context...''"

definition perform_compaction :: "op_env \<Rightarrow> compact_env \<Rightarrow> Conversation \<Rightarrow> OperationResult op" where
  "perform_compaction V C c =
     andThen (emit_message V (inline_notification V
       (''Exceeded auto-compact threshold of '' @ show_nat (nat (floor (ce_threshold C * 100))) @
        ''%. Performing auto-compaction...''))) (\<lambda>_.
     andThen (emit_message V (with_system_notification (Message_assistant (oe_now V)) ThinkingMessage
       COMPACTION_THINKING_TEXT)) (\<lambda>_.
       case compact_messages V C c False of
         Inr result \<Rightarrow>
           andThen (emit_message V (inline_notification V ''Compaction complete'')) (\<lambda>_.
             ret (applied [ReplaceConversation (cres_conversation result) (Some (cres_usage result))]))
       | Inl e \<Rightarrow>
           andThen (emit_message V (assistant_message V (''Ran into this error trying to compact: '' @ e @ ''.'' @ nl @ nl @
             ''Please try again or create a new session''))) (\<lambda>_. ret yielded)))"

definition compaction_run :: "op_env \<Rightarrow> compact_env \<Rightarrow> Session \<Rightarrow> Conversation \<Rightarrow> OperationResult op" where
  "compaction_run V C session c =
     (if ce_manages_own_context C then ret NotApplicable
      else
        andThen (lift (messages_since_kickoff c)) (\<lambda>ms.
          if trailing_error c = Some ContextLengthExceeded
          then (if MAX_CONTEXT_ERROR_COMPACTIONS < context_errors ms then ret NotApplicable
                else perform_compaction V C (update_last hide_from_agent c))
          else
            andThen (lift (last_effective_role ms)) (\<lambda>role.
              if role \<noteq> EUser then ret NotApplicable
              else (case total_tokens (s_usage session) of
                      Some t \<Rightarrow>
                        if 0 < sint t \<and> over_threshold C (sint t) then perform_compaction V C c
                        else ret NotApplicable
                    | None \<Rightarrow> ret NotApplicable))))"

definition CompactionOperation :: "op_env \<Rightarrow> compact_env \<Rightarrow> Operation" where
  "CompactionOperation V C =
     (Operation_default ''compaction'')
       \<lparr>op_run_command := compaction_run_command V C, op_moim_parts := compaction_moim_parts C,
        op_run := compaction_run V C\<rparr>"

subsection \<open>The tool pair operation\<close>

definition tool_pair :: "Conversation \<Rightarrow> string \<Rightarrow> Message list" where
  "tool_pair c tool_id = filter (\<lambda>m. m_id m \<noteq> None \<and> concerns_tool tool_id m) c"

definition pair_to_hide :: "Conversation \<Rightarrow> string set \<Rightarrow> string \<Rightarrow> Message list option" where
  "pair_to_hide c hidden tool_id =
     (let pair = tool_pair c tool_id
      in if length pair \<noteq> 2 then None
         else if list_ex (\<lambda>m. case m_id m of Some i \<Rightarrow> i \<in> hidden | None \<Rightarrow> False) pair then None
         else if (\<Union> (set (map get_tool_request_ids pair))) \<noteq> (\<Union> (set (map get_tool_response_ids pair))) then None
         else Some pair)"

definition hide_effects :: "Message list \<Rightarrow> StateEffect list" where
  "hide_effects pair =
     filter_map (\<lambda>m. map_option (\<lambda>i. SetMessageVisibility i (is_user_visible m) False) (m_id m)) pair"

fun summarize_pairs ::
  "op_env \<Rightarrow> compact_env \<Rightarrow> Conversation \<Rightarrow> string list \<Rightarrow> string set \<Rightarrow> World \<Rightarrow> StateEffect list \<times> World" where
  "summarize_pairs V C c [] hidden w = ([], w)"
| "summarize_pairs V C c (tool_id # ids) hidden w =
     (case pair_to_hide c hidden tool_id of
        None \<Rightarrow> summarize_pairs V C c ids hidden w
      | Some pair \<Rightarrow>
          (case summarize_tool_call V C c tool_id w of
             (Inl _, w') \<Rightarrow> summarize_pairs V C c ids hidden w'
           | (Inr summary, w') \<Rightarrow>
               (case summarize_pairs V C c ids (hidden \<union> set (filter_map m_id pair)) w' of
                  (es, w'') \<Rightarrow> (hide_effects pair @ AppendMessage summary # es, w''))))"

definition tool_pair_compaction_run ::
  "op_env \<Rightarrow> compact_env \<Rightarrow> nat \<Rightarrow> bool \<Rightarrow> Session \<Rightarrow> Conversation \<Rightarrow> OperationResult op" where
  "tool_pair_compaction_run V C cutoff enabled session c =
     (if \<not> enabled then ret NotApplicable
      else
        andThen (lift (messages_since_kickoff c)) (\<lambda>ms w.
          let protected = length (filter is_tool_request_block (concat (map m_content ms)));
              ids = tool_ids_to_summarize c cutoff protected
          in case summarize_pairs V C c ids {} w of
               (es, w') \<Rightarrow> ret (if es = [] then NotApplicable else applied es) w'))"

definition ToolPairCompactionOperation :: "op_env \<Rightarrow> compact_env \<Rightarrow> nat \<Rightarrow> bool \<Rightarrow> Operation" where
  "ToolPairCompactionOperation V C cutoff enabled =
     (Operation_default ''tool_pair_compaction'')\<lparr>op_run := tool_pair_compaction_run V C cutoff enabled\<rparr>"

end
