(* ===== verification/Ops_Llm.thy ===== *)
theory Ops_Llm
  imports Context_Mgmt Ops_Tools Conversation_Repair
begin

text \<open>
  \<open>sm/ops_llm.rs\<close>, with what it uses of \<open>agents/reply_parts.rs\<close>, \<open>agents/moim.rs\<close> and \<open>providers/usage_estimator.rs\<close>: building
  the request to the provider, reading its stream, and answering what a cancelled turn leaves open. The record
  \<open>llm_env\<close> holds the provider (what its stream delivers for a request, its models and limits), the measured
  times, the moment of cancellation, the system prompt templates, the interpreter of tool calls in text and the token
  counter. The build without the optional code mode is modelled. The set of read-only tools inside the
  permission inspector is not part of the world.
\<close>

type_synonym chunk = "Message option \<times> ProviderUsage option"

record llm_env =
  le_provider_name :: string
  le_model_name :: string
  le_toolshim :: bool
  le_config_limit :: nat
  le_provider_limit :: "nat option"
  le_stream :: "string \<Rightarrow> string \<Rightarrow> Message list \<Rightarrow> Tool list \<Rightarrow> ProviderError + (ProviderError + chunk) list"
  le_recommended_models :: "string list option"
  le_model_error :: "string \<Rightarrow> bool"
  le_resolved_model :: "string option"
  le_clock :: "nat \<Rightarrow> nat"
  le_cancel_after :: "nat option"
  le_frontend_instructions :: "string option"
  le_system_prompt :: "string \<Rightarrow> (string \<times> string) list \<Rightarrow> GooseMode \<Rightarrow> string"
  le_tool_info :: "Tool list \<Rightarrow> string"
  le_interpret :: "Message \<Rightarrow> Tool list \<Rightarrow> Message option"
  le_sanitize :: "Message \<Rightarrow> Message"
  le_timestamp :: "int \<Rightarrow> string"
  le_skip_moim :: bool
  le_token_counter :: "error + (string \<Rightarrow> Message list \<Rightarrow> Tool list \<Rightarrow> nat) \<times> (string \<Rightarrow> nat)"

subsection \<open>Turn context\<close>

definition TURN_CONTEXT_TAG :: string where "TURN_CONTEXT_TAG = ''turn-context''"
definition CURRENT_TIME_TAG :: string where "CURRENT_TIME_TAG = ''current-time''"
definition WORKING_DIRECTORY_TAG :: string where "WORKING_DIRECTORY_TAG = ''working-directory''"
definition MIN_CONTEXT_FOR_MOIM :: nat where "MIN_CONTEXT_FOR_MOIM = 32000"

definition open_tag :: "string \<Rightarrow> string" where
  "open_tag name = ''<'' @ name @ ''>''"

definition close_tag :: "string \<Rightarrow> string" where
  "close_tag name = ''</'' @ name @ ''>''"

definition escape_xml_text :: "string \<Rightarrow> string" where
  "escape_xml_text v =
     concat (map (\<lambda>c. if c = CHR ''&'' then ''&amp;'' else if c = CHR ''<'' then ''&lt;''
                      else if c = CHR ''>'' then ''&gt;'' else [c]) v)"

definition xml_tag :: "string \<Rightarrow> string \<Rightarrow> string" where
  "xml_tag name v = open_tag name @ escape_xml_text v @ close_tag name"

definition should_skip_moim :: "nat option \<Rightarrow> bool" where
  "should_skip_moim context_limit = (case context_limit of Some n \<Rightarrow> n < MIN_CONTEXT_FOR_MOIM | None \<Rightarrow> False)"

definition compose_moim :: "string \<Rightarrow> string list \<Rightarrow> string \<Rightarrow> string" where
  "compose_moim working_dir parts timestamp =
     str_join nl
       ([open_tag TURN_CONTEXT_TAG, xml_tag CURRENT_TIME_TAG timestamp, xml_tag WORKING_DIRECTORY_TAG working_dir] @
        concat (map (\<lambda>p. [[], p]) (filter (\<lambda>p. trim p \<noteq> []) parts)) @
        [close_tag TURN_CONTEXT_TAG])"

definition turn_context_event :: "op_env \<Rightarrow> bool \<Rightarrow> string \<Rightarrow> nat option \<Rightarrow> string list \<Rightarrow> string \<Rightarrow> Message option" where
  "turn_context_event V skip working_dir context_limit parts timestamp =
     (if skip \<or> should_skip_moim context_limit then None
      else Some (with_metadata (with_text (oe_ext V) (Message_user (oe_now V)) (compose_moim working_dir parts timestamp))
                   (md_with_turn_context md_agent_only)))"

subsection \<open>Tools\<close>

fun as_array :: "json \<Rightarrow> json list option" where
  "as_array (JArr vs) = Some vs"
| "as_array _ = None"

definition is_tool_visible_to_model :: "Tool \<Rightarrow> bool" where
  "is_tool_visible_to_model t =
     (case Option.bind (Option.bind (Option.bind (tl_meta t) (\<lambda>m. map_of m ''ui'')) (json_get ''visibility'')) as_array of
        Some vs \<Rightarrow> list_ex (\<lambda>v. as_str v = Some ''model'') vs
      | None \<Rightarrow> True)"

definition prepare_inference_tools :: "Tool list \<Rightarrow> Tool list" where
  "prepare_inference_tools tools = sort_key (\<lambda>t. map byte (tl_name t)) (filter is_tool_visible_to_model tools)"

definition modify_system_prompt_for_tool_json :: "llm_env \<Rightarrow> string \<Rightarrow> Tool list \<Rightarrow> string" where
  "modify_system_prompt_for_tool_json L prompt tools =
     prompt @ nl @ nl @ le_tool_info L tools @ nl @ nl @
     ''Break down your task into smaller steps and do one step and tool call at a time. Do not try to use multiple '' @
     ''tools at once. If you want to use a tool, tell the user what tool to use by specifying the tool in this JSON format'' @ nl @
     ''{'' @ nl @ ''  \"name\": \"tool_name\",'' @ nl @ ''  \"arguments\": {'' @ nl @ ''    \"parameter1\": \"value1\",'' @ nl @
     ''    \"parameter2\": \"value2\"'' @ nl @ '' }'' @ nl @
     ''}. After you get the tool result back, consider the result and then proceed to do the next step and tool call if required.''"

definition prepare_tools_for_provider :: "llm_env \<Rightarrow> Tool list \<Rightarrow> string \<Rightarrow> Tool list \<times> Tool list \<times> string" where
  "prepare_tools_for_provider L tools prompt =
     (if le_toolshim L then ([], tools, modify_system_prompt_for_tool_json L prompt tools) else (tools, [], prompt))"

subsection \<open>Messages\<close>

text \<open>Requests of earlier turns that nothing will answer any more are dropped.\<close>

definition keeps_request :: "string set \<Rightarrow> MessageContentBlock \<Rightarrow> bool" where
  "keeps_request answered b = (case b of ToolRequest r \<Rightarrow> tr_id r \<in> answered | _ \<Rightarrow> True)"

definition messages_for_provider :: "Conversation \<Rightarrow> Message list \<Rightarrow> Message list" where
  "messages_for_provider c turn =
     (let answered = (\<Union>m \<in> set c. get_tool_response_ids m); start = length c - length turn
      in filter (\<lambda>m. m_content m \<noteq> [])
           (map (\<lambda>(i, m). let m' = agent_visible_content m
                          in if i < start then m'\<lparr>m_content := filter (keeps_request answered) (m_content m')\<rparr> else m')
             (filter (\<lambda>(i, m). is_agent_visible m) (enumerate 0 c))))"

definition ends_with_provider_turn :: "Message list \<Rightarrow> bool" where
  "ends_with_provider_turn ms =
     (case last_opt ms of Some m \<Rightarrow> effective_role m = EUser \<or> effective_role m = ETool | None \<Rightarrow> False)"

definition inference_applies :: "Conversation \<Rightarrow> bool" where
  "inference_applies c =
     (case messages_since_kickoff c of
        Inl _ \<Rightarrow> False
      | Inr turn \<Rightarrow> trailing_error c = None \<and> ends_with_provider_turn (messages_for_provider c turn))"

text \<open>A response that says a tool is not known lists the tools there are.\<close>

definition name_available_tools :: "string \<Rightarrow> MessageContentBlock \<Rightarrow> MessageContentBlock" where
  "name_available_tools available b =
     (case b of
        ToolResponse r \<Rightarrow>
          (case tp_metadata r of
             None \<Rightarrow> b
           | Some md \<Rightarrow>
               (if map_of md UNCLAIMED_TOOL_ERROR = None then b
                else ToolResponse (r\<lparr>tp_metadata := Some (filter (\<lambda>p. fst p \<noteq> UNCLAIMED_TOOL_ERROR) md),
                       tp_tool_result :=
                         map_sum id (\<lambda>result. result\<lparr>cr_content := cr_content result @
                           [ContentBlock_text (''Available tools: ['' @ available @ ''].'')]\<rparr>) (tp_tool_result r)\<rparr>)))
      | _ \<Rightarrow> b)"

definition available_tools :: "Tool list \<Rightarrow> string" where
  "available_tools tools = str_join '', '' (remdups_adj (sort_key (map byte) (map tl_name tools)))"

subsection \<open>The stream of the provider\<close>

definition enhance_model_error :: "llm_env \<Rightarrow> ProviderError \<Rightarrow> ProviderError" where
  "enhance_model_error L e =
     (case e of
        RequestFailed msg \<Rightarrow>
          if \<not> le_model_error L msg then e
          else (case le_recommended_models L of
                  None \<Rightarrow> e
                | Some models \<Rightarrow>
                    if models = [] then e
                    else RequestFailed (msg @ ''. Available models for this provider: '' @ str_join '', '' models))
      | _ \<Rightarrow> e)"

fun is_notification :: "MessageContentBlock \<Rightarrow> bool" where
  "is_notification (SystemNotification _) = True"
| "is_notification _ = False"

definition message_has_timing_content :: "Message \<Rightarrow> bool" where
  "message_has_timing_content m = list_ex (\<lambda>b. \<not> is_notification b) (m_content m)"

definition ProviderStats_default :: ProviderStats where
  "ProviderStats_default =
     \<lparr>ps_time_to_first_token_ms = None, ps_model_load_ms = None, ps_elapsed_ms = None, ps_output_tokens = None, ps_draft = None\<rparr>"

text \<open>Times are milliseconds since the request was sent.\<close>

definition fill_stream_timing :: "nat \<Rightarrow> nat option \<Rightarrow> ProviderUsage \<Rightarrow> ProviderUsage" where
  "fill_stream_timing elapsed first_content u =
     (let st = (case pu_stats u of Some st \<Rightarrow> st | None \<Rightarrow> ProviderStats_default);
          st1 = (if ps_time_to_first_token_ms st = None then st\<lparr>ps_time_to_first_token_ms := first_content\<rparr> else st);
          st2 = (if ps_elapsed_ms st1 = None then st1\<lparr>ps_elapsed_ms := Some elapsed\<rparr> else st1)
      in u\<lparr>pu_stats := Some st2\<rparr>)"

definition first_content :: "nat \<Rightarrow> Message option \<Rightarrow> nat option \<Rightarrow> nat option" where
  "first_content now msg seen =
     (case seen of
        Some t \<Rightarrow> Some t
      | None \<Rightarrow> (case msg of Some m \<Rightarrow> if message_has_timing_content m then Some now else None | None \<Rightarrow> None))"

fun is_plain_block :: "MessageContentBlock \<Rightarrow> bool" where
  "is_plain_block (Text _) = True"
| "is_plain_block (Thinking _) = True"
| "is_plain_block (RedactedThinking _) = True"
| "is_plain_block _ = False"

definition is_mergeable_assistant_chunk :: "Message \<Rightarrow> bool" where
  "is_mergeable_assistant_chunk m = (m_role m = Assistant \<and> m_content m \<noteq> [] \<and> list_all is_plain_block (m_content m))"

text \<open>A chunk without an identifier joins the group of plain chunks before it, or gets an identifier of its own.\<close>

definition assign_chunk_id :: "op_env \<Rightarrow> string option \<Rightarrow> Message \<Rightarrow> World \<Rightarrow> (Message \<times> string option) \<times> World" where
  "assign_chunk_id V active m w =
     (if m_id m \<noteq> None then ((m, None), w)
      else if is_mergeable_assistant_chunk m
      then (case active of
              Some i \<Rightarrow> ((with_id i m, Some i), w)
            | None \<Rightarrow> (case gen_uuid V w of (u, w') \<Rightarrow> ((with_id (''msg_'' @ u) m, Some (''msg_'' @ u)), w')))
      else (case gen_uuid V w of (u, w') \<Rightarrow> ((with_generated_id u m, None), w')))"

record Reading =
  rd_count :: nat
  rd_first :: "nat option"
  rd_active :: "string option"

definition Reading_start :: Reading where
  "Reading_start = \<lparr>rd_count = 0, rd_first = None, rd_active = None\<rparr>"

definition read_chunk :: "op_env \<Rightarrow> llm_env \<Rightarrow> chunk \<Rightarrow> Reading \<Rightarrow> World \<Rightarrow> (chunk \<times> Reading) \<times> World" where
  "read_chunk V L ch rd w =
     (let now = le_clock L (rd_count rd); first' = first_content now (fst ch) (rd_first rd);
          u' = map_option (fill_stream_timing now first') (snd ch);
          rd' = rd\<lparr>rd_count := Suc (rd_count rd), rd_first := first'\<rparr>
      in case fst ch of
           None \<Rightarrow> (((None, u'), rd'), w)
         | Some m \<Rightarrow>
             (case assign_chunk_id V (rd_active rd) m w of
                ((m', active'), w') \<Rightarrow> (((Some m', u'), rd'\<lparr>rd_active := active'\<rparr>), w')))"

text \<open>With the tool interpreter the whole answer is collected first; meanwhile nothing is delivered.\<close>

definition join_text :: "MessageContentBlock \<Rightarrow> MessageContentBlock list \<Rightarrow> MessageContentBlock list" where
  "join_text b bs =
     (case (last_opt bs, b) of
        (Some (Text l), Text n) \<Rightarrow>
          if audience_of (tc_annotations l) = audience_of (tc_annotations n)
          then butlast bs @ [Text (l\<lparr>tc_text := tc_text l @ tc_text n\<rparr>)] else bs @ [b]
      | _ \<Rightarrow> bs @ [b])"

definition accumulate_shim :: "Message option \<Rightarrow> Message option \<Rightarrow> Message option" where
  "accumulate_shim msg so_far =
     (case (msg, so_far) of
        (None, _) \<Rightarrow> so_far
      | (Some m, Some prev) \<Rightarrow> Some (prev\<lparr>m_content := fold join_text (m_content m) (m_content prev)\<rparr>)
      | (Some m, None) \<Rightarrow> Some m)"

definition toolshim_postprocess :: "llm_env \<Rightarrow> Message \<Rightarrow> Tool list \<Rightarrow> Message" where
  "toolshim_postprocess L m tools = (case le_interpret L m tools of Some m' \<Rightarrow> m' | None \<Rightarrow> le_sanitize L m)"

fun shim_stream :: "llm_env \<Rightarrow> Tool list \<Rightarrow> nat \<Rightarrow> nat option \<Rightarrow> Message option \<Rightarrow> ProviderUsage option \<Rightarrow>
    (ProviderError + chunk) list \<Rightarrow> (ProviderError + chunk) list" where
  "shim_stream L tools n seen acc u [] =
     (let u' = map_option (fill_stream_timing (le_clock L n) seen) u
      in case acc of
           Some m \<Rightarrow> [Inr (Some (toolshim_postprocess L m tools), u')]
         | None \<Rightarrow> if u' \<noteq> None then [Inr (None, u')] else [])"
| "shim_stream L tools n seen acc u (Inl e # items) = [Inl e]"
| "shim_stream L tools n seen acc u (Inr (msg, v) # items) =
     Inr (None, None) #
     shim_stream L tools (Suc n) (first_content (le_clock L n) msg seen) (accumulate_shim msg acc)
       (case v of Some _ \<Rightarrow> v | None \<Rightarrow> u) items"

fun text_of_tool_block :: "op_env \<Rightarrow> MessageContentBlock \<Rightarrow> MessageContentBlock" where
  "text_of_tool_block V (ToolRequest r) =
     block_text
       (case tr_tool_call r of
          Inr call \<Rightarrow> ''Using tool: '' @ ctr_name call @ nl @ ''{'' @ nl @ ''  \"name\": \"'' @ ctr_name call @ ''\",'' @ nl @
            ''  \"arguments\": '' @
            (case json_to_string_pretty (oe_ext V) (ctr_arguments call) of Some s \<Rightarrow> s | None \<Rightarrow> []) @ nl @ ''}''
        | Inl _ \<Rightarrow> ''Tool request failed'')"
| "text_of_tool_block V (ToolResponse r) =
     block_text
       (case tp_tool_result r of
          Inr result \<Rightarrow> ''Tool result:'' @ nl @ str_join nl (filter_map content_as_text (cr_content result))
        | Inl e \<Rightarrow> ''Tool error: '' @ show_error_data (oe_ext V) e)"
| "text_of_tool_block V b = b"

definition convert_tool_messages_to_text :: "op_env \<Rightarrow> Message list \<Rightarrow> Conversation" where
  "convert_tool_messages_to_text V ms =
     map (\<lambda>m. if list_ex (\<lambda>b. is_tool_request_block b \<or> is_tool_response_block b) (m_content m)
              then Message_new (m_role m) (m_created m) (map (text_of_tool_block V) (m_content m)) else m) ms"

text \<open>What is sent to the provider: the agent's view, repaired, with neighbours of one role joined.\<close>

definition provider_request :: "op_env \<Rightarrow> llm_env \<Rightarrow> Message list \<Rightarrow> Message list" where
  "provider_request V L ms =
     (let fixed = fst (fix_conversation (oe_ext V) (oe_now V) (agent_visible_messages ms));
          merged = merge_consecutive_messages_for_request fixed
      in if le_toolshim L then convert_tool_messages_to_text V merged else merged)"

definition stream_response_from_provider ::
  "op_env \<Rightarrow> llm_env \<Rightarrow> string \<Rightarrow> string \<Rightarrow> Message list \<Rightarrow> Tool list \<Rightarrow> Tool list \<Rightarrow> (ProviderError + chunk) list" where
  "stream_response_from_provider V L sid prompt ms tools toolshim_tools =
     (case le_stream L sid prompt (provider_request V L ms) tools of
        Inl e \<Rightarrow> [Inl (enhance_model_error L e)]
      | Inr items \<Rightarrow> if le_toolshim L then shim_stream L toolshim_tools 0 None None None items else items)"

subsection \<open>Reading the answer\<close>

fun is_thinking :: "MessageContentBlock \<Rightarrow> bool" where
  "is_thinking (Thinking _) = True"
| "is_thinking (RedactedThinking _) = True"
| "is_thinking _ = False"

text \<open>Thinking that was streamed before a tool request moves to the chunk with the request.\<close>

definition gives_thinking :: "Message \<Rightarrow> Message \<Rightarrow> bool" where
  "gives_thinking chunk m = (m_role m = m_role chunk \<and> \<not> list_ex is_tool_request_block (m_content m))"

definition insert_before_request :: "MessageContentBlock list \<Rightarrow> MessageContentBlock list \<Rightarrow> MessageContentBlock list" where
  "insert_before_request thinking bs =
     takeWhile (\<lambda>b. \<not> is_tool_request_block b) bs @ thinking @ dropWhile (\<lambda>b. \<not> is_tool_request_block b) bs"

definition normalize_tool_call_thinking :: "Conversation \<Rightarrow> Message \<Rightarrow> Conversation \<times> Message" where
  "normalize_tool_call_thinking acc chunk =
     (if \<not> list_ex is_tool_request_block (m_content chunk) then (acc, chunk)
      else
        (let prior = concat (map (\<lambda>m. if gives_thinking chunk m then filter is_thinking (m_content m) else []) acc);
             acc' = filter (\<lambda>m. m_content m \<noteq> [])
               (map (\<lambda>m. if gives_thinking chunk m then m\<lparr>m_content := filter (\<lambda>b. \<not> is_thinking b) (m_content m)\<rparr> else m) acc);
             chunk' = (if \<not> list_ex is_thinking (m_content chunk) \<and> prior \<noteq> []
                       then chunk\<lparr>m_content := insert_before_request prior (m_content chunk)\<rparr> else chunk)
         in (acc', chunk')))"

text \<open>A tool request whose identifier was seen before is dropped.\<close>

fun drop_repeated :: "string set \<Rightarrow> MessageContentBlock list \<Rightarrow> MessageContentBlock list \<times> string set" where
  "drop_repeated seen [] = ([], seen)"
| "drop_repeated seen (ToolRequest r # bs) =
     (if tr_id r \<in> seen then drop_repeated seen bs
      else (case drop_repeated (insert (tr_id r) seen) bs of (kept, seen') \<Rightarrow> (ToolRequest r # kept, seen')))"
| "drop_repeated seen (b # bs) = (case drop_repeated seen bs of (kept, seen') \<Rightarrow> (b # kept, seen'))"

record Answer =
  an_accumulator :: Conversation
  an_request_ids :: "string set"
  an_effects :: "StateEffect list"
  an_error :: "ProviderError option"

definition take_message :: "op_env \<Rightarrow> InferenceMetadata option \<Rightarrow> Message \<Rightarrow> Answer \<Rightarrow> Answer op" where
  "take_message V im m an =
     (let m1 = (case im of Some i \<Rightarrow> with_inference_if_assistant m i | None \<Rightarrow> m);
          (content, ids) = drop_repeated (an_request_ids an) (m_content m1);
          (acc, chunk) = normalize_tool_call_thinking (an_accumulator an) (m1\<lparr>m_content := content\<rparr>);
          an' = an\<lparr>an_request_ids := ids\<rparr>
      in if m_content chunk = [] \<and> \<not> output_token_limit_reached (m_metadata chunk)
         then ret (an'\<lparr>an_accumulator := conv_push chunk acc\<rparr>)
         else andThen (emit_message V chunk) (\<lambda>chunk'. ret (an'\<lparr>an_accumulator := conv_push chunk' acc\<rparr>)))"

definition read_shim_chunk :: "op_env \<Rightarrow> chunk \<Rightarrow> World \<Rightarrow> chunk \<times> World" where
  "read_shim_chunk V ch w =
     (case fst ch of
        None \<Rightarrow> (ch, w)
      | Some m \<Rightarrow> (case id_if_missing V m w of (m', w') \<Rightarrow> ((Some m', snd ch), w')))"

definition next_chunk :: "op_env \<Rightarrow> llm_env \<Rightarrow> chunk \<Rightarrow> Reading \<Rightarrow> World \<Rightarrow> (chunk \<times> Reading) \<times> World" where
  "next_chunk V L ch rd w =
     (if le_toolshim L then (case read_shim_chunk V ch w of (ch', w') \<Rightarrow> ((ch', rd), w')) else read_chunk V L ch rd w)"

fun read_stream :: "op_env \<Rightarrow> llm_env \<Rightarrow> InferenceMetadata option \<Rightarrow> (ProviderError + chunk) list \<Rightarrow> Reading \<Rightarrow> Answer \<Rightarrow> Answer op" where
  "read_stream V L im [] rd an w = (Inr an, w)"
| "read_stream V L im (item # items) rd an w =
     (if w_cancelled w then (Inr an, w)
      else
        (case item of
           Inl e \<Rightarrow> (Inr (an\<lparr>an_error := Some e\<rparr>), w)
         | Inr ch \<Rightarrow>
             (case next_chunk V L ch rd w of
                (((msg, u), rd'), w') \<Rightarrow>
                  (let an1 = (case u of Some v \<Rightarrow> an\<lparr>an_effects := an_effects an @ [RecordUsage v]\<rparr> | None \<Rightarrow> an)
                   in andThen (case msg of Some m \<Rightarrow> take_message V im m an1 | None \<Rightarrow> ret an1)
                        (read_stream V L im items rd') w'))))"

text \<open>The token may be triggered while the stream is read: the rest is not read then.\<close>

definition read_until_cancelled ::
  "op_env \<Rightarrow> llm_env \<Rightarrow> InferenceMetadata option \<Rightarrow> (ProviderError + chunk) list \<Rightarrow> Answer \<Rightarrow> Answer op" where
  "read_until_cancelled V L im items an w =
     (case le_cancel_after L of
        Some n \<Rightarrow>
          if n \<le> length items
          then (case read_stream V L im (take n items) Reading_start an w of
                  (r, w') \<Rightarrow> (r, w'\<lparr>w_cancelled := True\<rparr>))
          else read_stream V L im items Reading_start an w
      | None \<Rightarrow> read_stream V L im items Reading_start an w)"

subsection \<open>The inference operation\<close>

definition EMPTY_RESPONSE_MESSAGE :: string where
  "EMPTY_RESPONSE_MESSAGE = ''The model returned an empty response. Please resend your message to continue.''"

fun is_blank_block :: "MessageContentBlock \<Rightarrow> bool" where
  "is_blank_block (Text t) = (trim (tc_text t) = [])"
| "is_blank_block (Thinking t) = (trim (th_thinking t) = [])"
| "is_blank_block _ = False"

definition empty_response :: "Conversation \<Rightarrow> bool" where
  "empty_response acc =
     (\<not> list_ex (\<lambda>m. output_token_limit_reached (m_metadata m)) acc \<and> list_all (\<lambda>m. list_all is_blank_block (m_content m)) acc)"

fun is_usage_effect :: "StateEffect \<Rightarrow> bool" where
  "is_usage_effect (RecordUsage _) = True"
| "is_usage_effect _ = False"

definition ensure_usage_tokens ::
  "op_env \<Rightarrow> llm_env \<Rightarrow> string \<Rightarrow> Message list \<Rightarrow> Message \<Rightarrow> Tool list \<Rightarrow> ProviderUsage \<Rightarrow> error + ProviderUsage" where
  "ensure_usage_tokens V L prompt ms response tools pu =
     (case pu_usage pu of
        Usage inp out tot cr cw \<Rightarrow>
          if inp \<noteq> None \<and> out \<noteq> None then Inr pu
          else (case le_token_counter L of
                  Inl e \<Rightarrow> Inl e
                | Inr (count_chat, count_text) \<Rightarrow>
                    (let i = (case inp of Some n \<Rightarrow> n | None \<Rightarrow> word_of_nat (count_chat prompt ms tools));
                         t = (case out of Some n \<Rightarrow> n
                              | None \<Rightarrow> word_of_nat (count_text (str_join '' '' (map (block_display (oe_ext V)) (m_content response)))))
                     in Inr (pu\<lparr>pu_usage := Usage (Some i) (Some t) (Some (i + t)) cr cw\<rparr>))))"

definition context_limit :: "llm_env \<Rightarrow> nat" where
  "context_limit L = (case le_provider_limit L of Some n \<Rightarrow> n | None \<Rightarrow> le_config_limit L)"

definition error_outcome :: "op_env \<Rightarrow> ProviderError \<Rightarrow> StateEffect list op" where
  "error_outcome V e = andThen (emit_message V (from_provider_error (oe_now V) e)) (\<lambda>m. ret [AppendMessage m])"

text \<open>What is done with the answer once the stream has ended.\<close>

definition finish_answer ::
  "op_env \<Rightarrow> llm_env \<Rightarrow> string \<Rightarrow> Message list \<Rightarrow> Tool list \<Rightarrow> Answer \<Rightarrow> OperationResult op" where
  "finish_answer V L prompt ms tools an =
     (let acc = an_accumulator an; es = an_effects an
      in case an_error an of
           Some e \<Rightarrow> andThen (error_outcome V e) (\<lambda>err. ret (applied (es @ map AppendMessage acc @ err)))
         | None \<Rightarrow>
             if empty_response acc
             then andThen (emit_message V (assistant_message V EMPTY_RESPONSE_MESSAGE)) (\<lambda>m.
                    ret (yielded_with (es @ [AppendMessage m])))
             else
               andThen
                 (if list_ex is_usage_effect es then ret []
                  else (case last_opt acc of
                          None \<Rightarrow> ret []
                        | Some response \<Rightarrow>
                            andThen (lift (ensure_usage_tokens V L prompt ms response tools
                                      (ProviderUsage_new (le_model_name L) Usage_default)))
                              (\<lambda>u. ret [RecordUsage u])))
                 (\<lambda>recorded. ret (applied (es @ recorded @ map AppendMessage acc))))"

record Prepared =
  pr_tools :: "Tool list"
  pr_shim_tools :: "Tool list"
  pr_prompt :: string
  pr_messages :: "Message list"
  pr_turn_context :: "Message option"

text \<open>The tools, the system prompt and the messages of the request; a turn context that has changed is appended.\<close>

definition prepare_request ::
  "op_env \<Rightarrow> llm_env \<Rightarrow> GooseMode \<Rightarrow> Session \<Rightarrow> Conversation \<Rightarrow> Message list \<Rightarrow> InferenceInput \<Rightarrow> Prepared" where
  "prepare_request V L mode session c turn input =
     (let parts = ii_prompt_parts input @
            (case le_frontend_instructions L of Some s \<Rightarrow> [(''frontend'', s)] | None \<Rightarrow> []);
          (tools, shim_tools, prompt) =
            prepare_tools_for_provider L (prepare_inference_tools (ii_tools input))
              (le_system_prompt L (s_working_dir session) parts mode);
          named = map (\<lambda>m. m\<lparr>m_content := map (name_available_tools (available_tools (tools @ shim_tools))) (m_content m)\<rparr>)
            (messages_for_provider c turn);
          last_context = map_option as_concat_text (rfind is_turn_context turn);
          fresh = turn_context_event V (le_skip_moim L) (s_working_dir session) (Some (context_limit L)) (ii_moim_parts input)
            (le_timestamp L (m_created (hd turn)));
          changed = (case fresh of Some e \<Rightarrow> if Some (as_concat_text e) = last_context then None else Some e | None \<Rightarrow> None)
      in \<lparr>pr_tools = tools, pr_shim_tools = shim_tools, pr_prompt = prompt,
          pr_messages = named @ (case changed of Some e \<Rightarrow> [e] | None \<Rightarrow> []), pr_turn_context = changed\<rparr>)"

definition infer :: "op_env \<Rightarrow> llm_env \<Rightarrow> Session \<Rightarrow> Conversation \<Rightarrow> InferenceInput \<Rightarrow> OperationResult op" where
  "infer V L session c input =
     andThen (lift (messages_since_kickoff c)) (\<lambda>turn w.
       if trailing_error c \<noteq> None \<or> \<not> ends_with_provider_turn (messages_for_provider c turn) then ret NotApplicable w
       else
         (let mode = w_goose_mode w;
              w1 = (if mode = SmartApprove
                    then w\<lparr>w_permissions := pm_apply_tool_annotations (ii_tools input) (w_permissions w)\<rparr> else w);
              pr = prepare_request V L mode session c turn input;
              items = stream_response_from_provider V L (s_id session) (pr_prompt pr) (pr_messages pr) (pr_tools pr) (pr_shim_tools pr);
              im = map_option (\<lambda>resolved. \<lparr>im_provider = le_provider_name L, im_requested_model = le_model_name L,
                                            im_resolved_model = Some resolved\<rparr>) (le_resolved_model L)
          in andThen
               (read_until_cancelled V L im items
                  \<lparr>an_accumulator = [], an_request_ids = {},
                   an_effects = (case pr_turn_context pr of Some e \<Rightarrow> [AppendMessage e] | None \<Rightarrow> []), an_error = None\<rparr>)
               (finish_answer V L (pr_prompt pr) (pr_messages pr) (pr_tools pr)) w1))"

subsection \<open>Cancellation and the status command\<close>

definition CANCELLED_TOOL_RESPONSE :: string where
  "CANCELLED_TOOL_RESPONSE = ''Tool call was cancelled before execution''"

fun unique_requests :: "string set \<Rightarrow> ToolRequest list \<Rightarrow> ToolRequest list" where
  "unique_requests seen [] = []"
| "unique_requests seen (r # rs) =
     (if tr_id r \<in> seen then unique_requests seen rs else r # unique_requests (insert (tr_id r) seen) rs)"

fun appended_message :: "StateEffect \<Rightarrow> Message option" where
  "appended_message (AppendMessage m) = Some m"
| "appended_message _ = None"

definition new_messages :: "OperationResult \<Rightarrow> Message list" where
  "new_messages result = (case result of Applied r \<Rightarrow> filter_map appended_message (effects r) | NotApplicable \<Rightarrow> [])"

definition answer_cancelled :: "string set \<Rightarrow> ToolRequest \<Rightarrow> Message \<Rightarrow> Message" where
  "answer_cancelled answered r response =
     (if tr_id r \<in> answered then response
      else add_tool_response_with_metadata response (tr_id r) (error_result CANCELLED_TOOL_RESPONSE) (tr_metadata r))"

definition llm_cancel :: "op_env \<Rightarrow> Session \<Rightarrow> Conversation \<Rightarrow> OperationResult \<Rightarrow> OperationResult op" where
  "llm_cancel V session c result =
     andThen (lift (messages_since_kickoff c)) (\<lambda>turn.
       let seen = turn @ new_messages result;
           answered = (\<Union>m \<in> set c. get_tool_response_ids m) \<union> (\<Union>m \<in> set seen. get_tool_response_ids m);
           requests = unique_requests {} (filter_map as_tool_request (concat (map m_content seen)));
           response = fold (answer_cancelled answered) requests (Message_user (oe_now V))
       in if get_tool_response_ids response = {} then ret result
          else andThen (emit_message V response) (\<lambda>m.
            ret (case result of
                   NotApplicable \<Rightarrow> applied [AppendMessage m]
                 | Applied r \<Rightarrow> Applied (r\<lparr>effects := effects r @ [AppendMessage m]\<rparr>))))"

fun display_goose_mode :: "GooseMode \<Rightarrow> string" where
  "display_goose_mode Auto = ''auto''"
| "display_goose_mode Approve = ''approve''"
| "display_goose_mode SmartApprove = ''smart_approve''"
| "display_goose_mode Chat = ''chat''"

definition count_or_zero :: "i32 option \<Rightarrow> nat" where
  "count_or_zero n = (case n of Some k \<Rightarrow> nat (max 0 (sint k)) | None \<Rightarrow> 0)"

definition context_percent :: "nat \<Rightarrow> nat \<Rightarrow> string" where
  "context_percent tokens limit =
     (if 0 < limit
      then show_nat (min 100 (nat (floor ((of_nat tokens / of_nat limit * 100 :: f64) + 1 / 2)))) @ ''%'' else ''N/A'')"

definition status_text :: "llm_env \<Rightarrow> Session \<Rightarrow> string" where
  "status_text L session =
     (let limit = context_limit L; tokens = count_or_zero (total_tokens (s_usage session))
      in ''**Session status**'' @ nl @ nl @
         ''- Model: '' @ le_model_name L @ nl @
         ''- Provider: '' @ le_provider_name L @ nl @
         ''- Mode: '' @ display_goose_mode (s_goose_mode session) @ nl @
         ''- Tokens (lifetime): '' @ show_nat (count_or_zero (total_tokens (s_accumulated_usage session))) @ nl @
         ''- Context: '' @ show_nat tokens @ '' / '' @ show_nat limit @ '' tokens ('' @ context_percent tokens limit @ '')'')"

definition llm_run_command :: "op_env \<Rightarrow> llm_env \<Rightarrow> SlashCommand \<Rightarrow> Session \<Rightarrow> Conversation \<Rightarrow> OperationResult op" where
  "llm_run_command V L cmd session c =
     (if sc_command cmd \<noteq> ''status'' then ret NotApplicable
      else
        andThen (lift (messages_since_kickoff c)) (\<lambda>ms.
          case first_opt ms of
            None \<Rightarrow> fail (Anyhow ''status command conversation has no kickoff message'')
          | Some m \<Rightarrow>
              (case m_id m of
                 None \<Rightarrow> fail (Anyhow ''Persisted slash command message has no id'')
               | Some i \<Rightarrow>
                   andThen (emit_message V (with_visibility m True False)) (\<lambda>_.
                   andThen (emit_message V (with_visibility (assistant_message V (status_text L session)) True False)) (\<lambda>response.
                     ret (yielded_with [SetMessageVisibility i True False, AppendMessage response]))))))"

definition InferenceRunner :: "op_env \<Rightarrow> llm_env \<Rightarrow> Inference" where
  "InferenceRunner V L =
     \<lparr>inf_operation = (Operation_default ''llm'')\<lparr>op_cancel := llm_cancel V, op_run_command := llm_run_command V L\<rparr>,
      inf_infer = infer V L\<rparr>"

end
