(* ===== verification/Text_Std.thy ===== *)
theory Text_Std
  imports Obelus_Prelude
begin

text \<open>
  More of \<open>str\<close> than the prelude has: ASCII classes and case, \<open>replace\<close>, \<open>match_indices\<close>, \<open>ends_with\<close>, \<open>split\<close> on a class of
  ASCII characters and \<open>parse::<u16>\<close>, with the lemmas that relate matches to decompositions of the text.
\<close>

definition ascii_digit :: "char \<Rightarrow> bool" where
  "ascii_digit c = (48 \<le> byte c \<and> byte c \<le> 57)"

definition ascii_upper :: "char \<Rightarrow> bool" where
  "ascii_upper c = (65 \<le> byte c \<and> byte c \<le> 90)"

definition ascii_lowercase :: "char \<Rightarrow> bool" where
  "ascii_lowercase c = (97 \<le> byte c \<and> byte c \<le> 122)"

definition ascii_alphanumeric :: "char \<Rightarrow> bool" where
  "ascii_alphanumeric c = (ascii_digit c \<or> ascii_upper c \<or> ascii_lowercase c)"

definition ascii_lower :: "char \<Rightarrow> char" where
  "ascii_lower c = (if ascii_upper c then char_of (byte c + 32) else c)"

definition to_ascii_lowercase :: "string \<Rightarrow> string" where
  "to_ascii_lowercase s = map ascii_lower s"

definition eq_ignore_ascii_case :: "string \<Rightarrow> string \<Rightarrow> bool" where
  "eq_ignore_ascii_case a b = (to_ascii_lowercase a = to_ascii_lowercase b)"

definition ends_with :: "string \<Rightarrow> string \<Rightarrow> bool" where
  "ends_with p s = starts_with (rev p) (rev s)"

text \<open>\<open>split\<close> at every character that is not an ASCII letter or digit, without the empty parts. The bytes of
  longer characters are no ASCII characters, so the words come out the same byte by byte.\<close>

fun ascii_words_from :: "string \<Rightarrow> string \<Rightarrow> string list" where
  "ascii_words_from word [] = (if word = [] then [] else [word])"
| "ascii_words_from word (c # cs) =
     (if ascii_alphanumeric c then ascii_words_from (word @ [c]) cs
      else (if word = [] then [] else [word]) @ ascii_words_from [] cs)"

definition ascii_words :: "string \<Rightarrow> string list" where
  "ascii_words s = ascii_words_from [] s"

definition parse_digits :: "string \<Rightarrow> nat" where
  "parse_digits s = foldl (\<lambda>n c. 10 * n + (byte c - 48)) 0 s"

text \<open>\<open>parse::<u16>\<close> of a word of letters and digits (which has no sign).\<close>

definition parse_u16 :: "string \<Rightarrow> nat option" where
  "parse_u16 s =
     (if s \<noteq> [] \<and> list_all ascii_digit s \<and> parse_digits s < 2 ^ 16 then Some (parse_digits s) else None)"

text \<open>\<open>str::replace\<close> with a pattern that is not empty.\<close>

function str_replace_all :: "string \<Rightarrow> string \<Rightarrow> string \<Rightarrow> string" where
  "str_replace_all pat new s =
     (if s = [] \<or> pat = [] then s
      else if starts_with pat s then new @ str_replace_all pat new (drop (length pat) s)
      else hd s # str_replace_all pat new (tl s))"
  by pat_completeness auto

termination
  by (relation "measure (\<lambda>(_, _, s). length s)") auto

declare str_replace_all.simps [simp del]

text \<open>\<open>match_indices\<close> with a pattern that is not empty: matches do not overlap, and the search goes on after the
  match. The first argument is the position of the text that is left.\<close>

function match_indices_from :: "nat \<Rightarrow> string \<Rightarrow> string \<Rightarrow> nat list" where
  "match_indices_from i pat s =
     (if s = [] \<or> pat = [] then []
      else if starts_with pat s then i # match_indices_from (i + length pat) pat (drop (length pat) s)
      else match_indices_from (Suc i) pat (tl s))"
  by pat_completeness auto

termination
  by (relation "measure (\<lambda>(_, _, s). length s)") auto

declare match_indices_from.simps [simp del]

definition match_indices :: "string \<Rightarrow> string \<Rightarrow> nat list" where
  "match_indices pat s = match_indices_from 0 pat s"

subsection \<open>Lemmas\<close>

lemma starts_with_iff: "starts_with p s \<longleftrightarrow> (\<exists>t. s = p @ t)"
  unfolding starts_with_def
  by (induction p s rule: strip_prefix.induct) auto

lemma starts_with_take: "starts_with p s \<longleftrightarrow> take (length p) s = p"
  by (auto simp: starts_with_iff) (metis append_take_drop_id)

lemma str_contains_iff: "str_contains p s \<longleftrightarrow> (\<exists>u t. s = u @ p @ t)"
proof (induction s)
  case (Cons c cs)
  then show ?case
    by (auto simp: starts_with_iff) (metis append_Cons append_Nil neq_Nil_conv list.inject)+
qed auto

lemma match_indices_from_sound:
  "j \<in> set (match_indices_from i pat s) \<Longrightarrow>
   i \<le> j \<and> j + length pat \<le> i + length s \<and> take (length pat) (drop (j - i) s) = pat"
proof (induction i pat s rule: match_indices_from.induct)
  case (1 i pat s)
  show ?case
  proof (cases "s = [] \<or> pat = []")
    case True
    with 1(3) show ?thesis by (simp add: match_indices_from.simps)
  next
    case False
    show ?thesis
    proof (cases "starts_with pat s")
      case True
      then obtain t where t: "s = pat @ t" by (auto simp: starts_with_iff)
      from 1(3) False True consider "j = i" | "j \<in> set (match_indices_from (i + length pat) pat (drop (length pat) s))"
        by (subst (asm) match_indices_from.simps) auto
      then show ?thesis
      proof cases
        case 2
        from 1(1) [OF False True 2] t show ?thesis
          by (auto simp: le_diff_conv2)
      qed (use t in auto)
    next
      case nomatch: False
      with 1(3) False have "j \<in> set (match_indices_from (Suc i) pat (tl s))"
        by (subst (asm) match_indices_from.simps) auto
      from 1(2) [OF False nomatch this] False show ?thesis
        by (cases s) (auto simp: drop_Cons')
    qed
  qed
qed

lemma match_indices_sound:
  "j \<in> set (match_indices pat s) \<Longrightarrow> j + length pat \<le> length s \<and> take (length pat) (drop j s) = pat"
  using match_indices_from_sound [of j 0 pat s] by (simp add: match_indices_def)

subsection \<open>Paths\<close>

text \<open>\<open>Path\<close> on Unix: the components of a path, with the root as \<open>/\<close>. Repeated separators and inner dots do not
  count.\<close>

fun split_slash :: "string \<Rightarrow> string \<Rightarrow> string list" where
  "split_slash acc [] = [acc]"
| "split_slash acc (c # cs) = (if c = CHR ''/'' then acc # split_slash [] cs else split_slash (acc @ [c]) cs)"

definition path_components :: "string \<Rightarrow> string list" where
  "path_components p =
     (case split_slash [] p of
        [] \<Rightarrow> []
      | s # ss \<Rightarrow>
          (if starts_with ''/'' p then [''/''] else if s = [] then [] else [s]) @
          filter (\<lambda>x. x \<noteq> [] \<and> x \<noteq> ''.'') ss)"

fun components_after :: "string list \<Rightarrow> string list \<Rightarrow> string list option" where
  "components_after [] ys = Some ys"
| "components_after (x # xs) (y # ys) = (if x = y then components_after xs ys else None)"
| "components_after (x # xs) [] = None"

definition path_strip_prefix :: "string \<Rightarrow> string \<Rightarrow> string option" where
  "path_strip_prefix base p =
     map_option (str_join ''/'') (components_after (path_components base) (path_components p))"

definition path_starts_with :: "string \<Rightarrow> string \<Rightarrow> bool" where
  "path_starts_with p base = (components_after (path_components base) (path_components p) \<noteq> None)"

definition forward_slashes :: "string \<Rightarrow> string" where
  "forward_slashes s = map (\<lambda>c. if c = CHR 0x5C then CHR ''/'' else c) s"

subsection \<open>Checks\<close>

text \<open>A sequence of checks that stops at the first failure, as \<open>?\<close> does.\<close>

fun first_error :: "'e option list \<Rightarrow> 'e option" where
  "first_error [] = None"
| "first_error (None # es) = first_error es"
| "first_error (Some e # es) = Some e"

end
