(* ===== verification/Skills.thy ===== *)
theory Skills
  imports Session_Store Text_Std
begin

text \<open>
  \<open>skills/mod.rs\<close>, \<open>skills/arguments.rs\<close> and \<open>utils.rs\<close>: which skills there are, and the text a loaded skill becomes. The
  file system (which skill files a directory holds, with the files beside them, the canonical path a path leads to, and
  the text of the file at a canonical path), the YAML of the front matter, the match of the placeholder pattern (\<open>sk_pieces\<close> splits a text
  into literals and captures) and the configuration are parameters.
\<close>

subsection \<open>Sources\<close>

datatype SourceType = SkillSource | BuiltinSkill | RecipeSource | Subrecipe | AgentSource | ProjectSource

fun display_source_type :: "SourceType \<Rightarrow> string" where
  "display_source_type SkillSource = ''skill''"
| "display_source_type BuiltinSkill = ''builtin skill''"
| "display_source_type RecipeSource = ''recipe''"
| "display_source_type Subrecipe = ''subrecipe''"
| "display_source_type AgentSource = ''agent''"
| "display_source_type ProjectSource = ''project''"

record SourceEntry =
  se_source_type :: SourceType
  se_name :: string
  se_description :: string
  se_content :: string
  se_path :: string
  se_global :: bool
  se_writable :: bool
  se_supporting_files :: "string list"
  se_properties :: json_object

record SkillFrontmatter =
  sf_name :: "string option"
  sf_description :: string
  sf_metadata :: json_object

text \<open>A file \<open>SKILL.md\<close> found by the walk: the directory it is in, and the files a walk of that directory finds beside it.\<close>

record SkillFile =
  kf_dir :: string
  kf_supporting :: "string list"

datatype ArgPiece = Literal string | ArgIndex string | ArgPosition string | ArgName string string | AllArgs

record skill_env =
  sk_dirs :: "string \<Rightarrow> (string \<times> bool) list"
  sk_files :: "string \<Rightarrow> SkillFile list"
  sk_frontmatter :: "string \<Rightarrow> (SkillFrontmatter \<times> string) option"
  sk_builtins :: "string list"
  sk_docs_root :: "string + string option"
  sk_pieces :: "string \<Rightarrow> ArgPiece list"
  sk_parse_usize :: "string \<Rightarrow> nat option"
  sk_canonicalize :: "string \<Rightarrow> string + string"
  sk_read :: "string \<Rightarrow> string + string"
  sk_lower :: "string \<Rightarrow> string"
  sk_param_error :: "json_object \<Rightarrow> string"

text \<open>\<open>read_to_string\<close> follows symbolic links: it gives the text of the file the path leads to.\<close>

definition read_to_string :: "skill_env \<Rightarrow> string \<Rightarrow> string + string" where
  "read_to_string S path =
     (case sk_canonicalize S path of Inl e \<Rightarrow> Inl e | Inr canonical \<Rightarrow> sk_read S canonical)"

subsection \<open>Discovery\<close>

definition skill_file_path :: "SkillFile \<Rightarrow> string" where
  "skill_file_path f = kf_dir f @ ''/SKILL.md''"

definition parse_skill_content :: "skill_env \<Rightarrow> string \<Rightarrow> string \<Rightarrow> bool \<Rightarrow> SourceEntry option" where
  "parse_skill_content S content path global =
     (case sk_frontmatter S content of
        None \<Rightarrow> None
      | Some (meta, body) \<Rightarrow>
          (case sf_name meta of
             None \<Rightarrow> None
           | Some name \<Rightarrow>
               if name = [] \<or> str_contains ''/'' name then None
               else Some \<lparr>se_source_type = SkillSource, se_name = name, se_description = sf_description meta,
                          se_content = body, se_path = path, se_global = global, se_writable = True,
                          se_supporting_files = [], se_properties = sf_metadata meta\<rparr>))"

text \<open>The names seen so far are passed along: a name that is taken hides later skills of that name.\<close>

definition scan_skill_file ::
  "skill_env \<Rightarrow> bool \<Rightarrow> SkillFile \<Rightarrow> SourceEntry list \<times> string set \<Rightarrow> SourceEntry list \<times> string set" where
  "scan_skill_file S global f acc =
     (case acc of (sources, seen) \<Rightarrow>
        (case read_to_string S (skill_file_path f) of
           Inl _ \<Rightarrow> acc
         | Inr content \<Rightarrow>
             (case parse_skill_content S content (kf_dir f) global of
                None \<Rightarrow> acc
              | Some source \<Rightarrow>
                  if se_name source \<in> seen then acc
                  else (sources @ [source\<lparr>se_supporting_files := kf_supporting f\<rparr>], insert (se_name source) seen))))"

definition scan_skills_from_dir ::
  "skill_env \<Rightarrow> string \<times> bool \<Rightarrow> SourceEntry list \<times> string set \<Rightarrow> SourceEntry list \<times> string set" where
  "scan_skills_from_dir S dg acc = fold (scan_skill_file S (snd dg)) (sk_files S (fst dg)) acc"

definition add_builtin ::
  "skill_env \<Rightarrow> string \<Rightarrow> SourceEntry list \<times> string set \<Rightarrow> SourceEntry list \<times> string set" where
  "add_builtin S content acc =
     (case acc of (sources, seen) \<Rightarrow>
        (case parse_skill_content S content [] True of
           None \<Rightarrow> acc
         | Some source \<Rightarrow>
             if se_name source \<in> seen then acc
             else (sources @ [source\<lparr>se_source_type := BuiltinSkill,
                                     se_path := ''builtin://skills/'' @ se_name source\<rparr>],
                   insert (se_name source) seen)))"

definition discover_skills :: "skill_env \<Rightarrow> string \<Rightarrow> SourceEntry list" where
  "discover_skills S working_dir =
     fst (fold (add_builtin S) (sk_builtins S)
            (fold (scan_skills_from_dir S) (sk_dirs S working_dir) ([], {})))"

definition UPSTREAM_GOOSE_DOC_SKILL_NAME :: string where
  "UPSTREAM_GOOSE_DOC_SKILL_NAME = ''goose-doc-guide''"

definition is_upstream_goose_doc_skill :: "SourceEntry \<Rightarrow> bool" where
  "is_upstream_goose_doc_skill skill =
     (se_name skill = UPSTREAM_GOOSE_DOC_SKILL_NAME \<and> se_source_type skill = BuiltinSkill)"

definition runtime_builtin_skill_enabled :: "SourceEntry \<Rightarrow> string option \<Rightarrow> bool" where
  "runtime_builtin_skill_enabled skill docs_root =
     (\<not> is_upstream_goose_doc_skill skill \<or> (case docs_root of Some r \<Rightarrow> trim r \<noteq> [] | None \<Rightarrow> False))"

definition discover_runtime_skills :: "skill_env \<Rightarrow> string \<Rightarrow> SourceEntry list" where
  "discover_runtime_skills S working_dir =
     (let docs_root = (case sk_docs_root S of Inr r \<Rightarrow> r | Inl _ \<Rightarrow> None)
      in filter (\<lambda>skill. runtime_builtin_skill_enabled skill docs_root) (discover_skills S working_dir))"

definition list_installed_skills :: "skill_env \<Rightarrow> string \<Rightarrow> SourceEntry list" where
  "list_installed_skills S working_dir = discover_runtime_skills S working_dir"

subsection \<open>Arguments\<close>

text \<open>\<open>split_command_args\<close>: the part being read, and whether a double or a single quote is open.\<close>

function split_args :: "string \<Rightarrow> bool \<Rightarrow> bool \<Rightarrow> string \<Rightarrow> string + string list" where
  "split_args current dq sq s =
     (if s = [] then
        (if dq \<or> sq then Inl ''Unmatched quote in command''
         else Inr (if current = [] then [] else [current]))
      else if hd s = CHR 0x22 \<and> \<not> sq then split_args current (\<not> dq) sq (tl s)
      else if hd s = CHR 0x27 \<and> \<not> dq \<and> (sq \<or> current = []) then split_args current dq (\<not> sq) (tl s)
      else if ws_len_front s \<noteq> 0 \<and> \<not> dq \<and> \<not> sq
      then (case split_args [] dq sq (drop (ws_len_front s) s) of
              Inl e \<Rightarrow> Inl e
            | Inr parts \<Rightarrow> Inr (if current = [] then parts else current # parts))
      else split_args (current @ [hd s]) dq sq (tl s))"
  by pat_completeness auto

termination
  by (relation "measure (\<lambda>(_, _, _, s). length s)") auto

declare split_args.simps [simp del]

definition split_command_args :: "string \<Rightarrow> string + string list" where
  "split_command_args s = split_args [] False False s"

fun is_resolvable :: "string list \<Rightarrow> ArgPiece \<Rightarrow> bool" where
  "is_resolvable names (Literal _) = False"
| "is_resolvable names (ArgName _ n) = (n \<in> set names)"
| "is_resolvable names _ = True"

definition nth_arg :: "string list \<Rightarrow> nat \<Rightarrow> string" where
  "nth_arg tokens i = (case list_get tokens i of Some t \<Rightarrow> t | None \<Rightarrow> [])"

fun position_of :: "string \<Rightarrow> string list \<Rightarrow> nat option" where
  "position_of x [] = None"
| "position_of x (y # ys) = (if y = x then Some 0 else map_option Suc (position_of x ys))"

text \<open>A number that does not fit is the largest one for an index, and 0 for a position.\<close>

fun render_piece :: "skill_env \<Rightarrow> string list \<Rightarrow> string list \<Rightarrow> string \<Rightarrow> ArgPiece \<Rightarrow> string" where
  "render_piece S names tokens raw (Literal s) = s"
| "render_piece S names tokens raw (ArgIndex n) =
     nth_arg tokens (case sk_parse_usize S n of Some i \<Rightarrow> i | None \<Rightarrow> 2 ^ 64 - 1)"
| "render_piece S names tokens raw (ArgPosition n) =
     (case (case sk_parse_usize S n of Some i \<Rightarrow> i | None \<Rightarrow> 0) of 0 \<Rightarrow> [] | Suc i \<Rightarrow> nth_arg tokens i)"
| "render_piece S names tokens raw (ArgName whole n) =
     (case position_of n names of Some i \<Rightarrow> nth_arg tokens i | None \<Rightarrow> whole)"
| "render_piece S names tokens raw AllArgs = raw"

definition apply_skill_arguments :: "skill_env \<Rightarrow> string \<Rightarrow> string \<Rightarrow> string list \<Rightarrow> string + string" where
  "apply_skill_arguments S content raw names =
     (let pieces = sk_pieces S content
      in if \<not> list_ex (is_resolvable names) pieces then Inr (content @ nl @ nl @ ''ARGUMENTS: '' @ raw)
         else (case split_command_args raw of
                 Inl e \<Rightarrow> Inl e
               | Inr tokens \<Rightarrow> Inr (concat (map (render_piece S names tokens raw) pieces))))"

subsection \<open>Loading\<close>

definition GOOSE_DOCS_ROOT_PLACEHOLDER :: string where
  "GOOSE_DOCS_ROOT_PLACEHOLDER = ''{{GOOSE_DOCS_ROOT}}''"

definition resolve_docs_root_placeholder :: "SourceEntry \<Rightarrow> string \<Rightarrow> string \<Rightarrow> string" where
  "resolve_docs_root_placeholder skill content docs_root =
     (if \<not> is_upstream_goose_doc_skill skill then content
      else str_replace_all GOOSE_DOCS_ROOT_PLACEHOLDER docs_root content)"

definition supporting_file_line :: "SourceEntry \<Rightarrow> string \<Rightarrow> string" where
  "supporting_file_line skill file =
     (case path_strip_prefix (se_path skill) file of
        None \<Rightarrow> []
      | Some relative \<Rightarrow>
          ''- '' @ forward_slashes relative @ '' '' @ [CHR 0xE2, CHR 0x86, CHR 0x92] @ '' '' @
          forward_slashes file @ '' (load_skill(name: '' @ [CHR 0x22] @ se_name skill @ ''/'' @
          forward_slashes relative @ [CHR 0x22] @ ''))'' @ nl)"

definition loaded_skill_context :: "skill_env \<Rightarrow> SourceEntry \<Rightarrow> string \<Rightarrow> string + string" where
  "loaded_skill_context S skill content =
     (let resolved =
        (if is_upstream_goose_doc_skill skill
         then (case sk_docs_root S of
                 Inl e \<Rightarrow> Inl e
               | Inr None \<Rightarrow>
                   Inl (''The upstream Goose documentation compatibility skill is disabled. Set '' @
                        ''GOOSE_DOCS_ROOT explicitly to a trusted documentation root to opt in.'')
               | Inr (Some docs_root) \<Rightarrow> Inr (resolve_docs_root_placeholder skill content docs_root))
         else Inr content)
      in case resolved of
           Inl e \<Rightarrow> Inl e
         | Inr text \<Rightarrow>
             Inr (''# Loaded Skill: '' @ se_name skill @ '' ('' @ display_source_type (se_source_type skill) @ '')'' @
                  nl @ nl @ se_description skill @ nl @ nl @ ''## Content'' @ nl @ nl @ text @ nl @
                  (if se_supporting_files skill = [] then []
                   else nl @ ''## Supporting Files'' @ nl @ nl @ ''Skill directory: '' @ se_path skill @ nl @ nl @
                        ''Relative paths in this skill resolve from the skill directory. '' @
                        ''The shell tool runs in the session working directory, so use the '' @
                        ''resolved path below or `cd` into the skill directory before running '' @
                        ''supporting scripts.'' @ nl @ nl @
                        concat (map (supporting_file_line skill) (se_supporting_files skill)))))"

definition skill_argument_names :: "SourceEntry \<Rightarrow> string list" where
  "skill_argument_names skill =
     (case map_of (se_properties skill) ''arguments'' of
        Some (JArr items) \<Rightarrow> filter (\<lambda>n. n \<noteq> []) (filter_map as_str items)
      | _ \<Rightarrow> [])"

definition loaded_skill_context_with_args :: "skill_env \<Rightarrow> SourceEntry \<Rightarrow> string option \<Rightarrow> string + string" where
  "loaded_skill_context_with_args S skill args =
     (case args of
        None \<Rightarrow> loaded_skill_context S skill (se_content skill)
      | Some a \<Rightarrow>
          (case apply_skill_arguments S (se_content skill) a (skill_argument_names skill) of
             Inl e \<Rightarrow> Inl e
           | Inr content \<Rightarrow> loaded_skill_context S skill content))"

subsection \<open>What discovery finds\<close>

definition scan_ok :: "SourceEntry list \<times> string set \<Rightarrow> bool" where
  "scan_ok acc = (distinct (map se_name (fst acc)) \<and> snd acc = se_name ` set (fst acc) \<and>
     list_all (\<lambda>s. se_name s \<noteq> [] \<and> \<not> str_contains ''/'' (se_name s)) (fst acc))"

lemma parse_skill_content_name:
  "parse_skill_content S content path g = Some s \<Longrightarrow> se_name s \<noteq> [] \<and> \<not> str_contains ''/'' (se_name s)"
  by (auto simp: parse_skill_content_def split: option.splits if_splits)

lemma scan_skill_file_ok: "scan_ok acc \<Longrightarrow> scan_ok (scan_skill_file S g f acc)"
  by (auto simp: scan_ok_def scan_skill_file_def split: prod.splits option.splits sum.splits
      dest: parse_skill_content_name)

lemma add_builtin_ok: "scan_ok acc \<Longrightarrow> scan_ok (add_builtin S content acc)"
  by (auto simp: scan_ok_def add_builtin_def split: prod.splits option.splits dest: parse_skill_content_name)

lemma scan_skills_from_dir_ok: "scan_ok acc \<Longrightarrow> scan_ok (scan_skills_from_dir S dg acc)"
proof -
  have "scan_ok acc \<Longrightarrow> scan_ok (fold (scan_skill_file S g) fs acc)" for g fs
    by (induction fs arbitrary: acc) (simp_all add: scan_skill_file_ok)
  then show "scan_ok acc \<Longrightarrow> scan_ok (scan_skills_from_dir S dg acc)" by (simp add: scan_skills_from_dir_def)
qed

lemma scan_dirs_ok: "scan_ok acc \<Longrightarrow> scan_ok (fold (scan_skills_from_dir S) dirs acc)"
  by (induction dirs arbitrary: acc) (simp_all add: scan_skills_from_dir_ok)

lemma add_builtins_ok: "scan_ok acc \<Longrightarrow> scan_ok (fold (add_builtin S) bs acc)"
  by (induction bs arbitrary: acc) (simp_all add: add_builtin_ok)

lemma discovered_ok: "scan_ok (fold (add_builtin S) bs (fold (scan_skills_from_dir S) dirs ([], {})))"
  by (intro add_builtins_ok scan_dirs_ok) (simp add: scan_ok_def)

theorem discovered_names:
  "distinct (map se_name (discover_runtime_skills S wd)) \<and>
   (\<forall>skill \<in> set (discover_runtime_skills S wd). se_name skill \<noteq> [] \<and> \<not> str_contains ''/'' (se_name skill))"
  using discovered_ok [of S "sk_builtins S" "sk_dirs S wd"]
  by (auto simp: scan_ok_def discover_runtime_skills_def discover_skills_def list_all_iff distinct_map_filter)

lemma components_after_append: "components_after xs (xs @ ys) = Some ys"
  by (induction xs) auto

lemma components_after_SomeD: "components_after xs zs = Some ys \<Longrightarrow> zs = xs @ ys"
  by (induction xs zs rule: components_after.induct) (auto split: if_splits)

end
