(* ===== verification/Ops_Retry.thy ===== *)
theory Ops_Retry
  imports Ops_Turn Tool_Inspection_Properties
begin

text \<open>
  \<open>agents/retry.rs\<close> and \<open>ops_retry.rs\<close>: success checks, the retry operation of the state machine with its goals,
  and the retry manager of the older reply loop. A shell process is a parameter: its outcome may
  depend on the commands run before it.
\<close>

subsection \<open>Shell commands\<close>

record Output =
  out_success :: bool
  out_status :: string
  out_stderr :: string

datatype ShellOutcome = Finished Output | ShellFailed string | ShellTimedOut

type_synonym shell = "string list \<Rightarrow> string \<Rightarrow> nat \<Rightarrow> ShellOutcome"

text \<open>The \<open>Debug\<close> form of a duration of whole seconds.\<close>

definition show_secs :: "nat \<Rightarrow> string" where
  "show_secs n = (if n = 0 then ''0ns'' else show_nat n @ ''s'')"

type_synonym 'a checked = "World \<Rightarrow> (string + 'a) \<times> World"

definition execute_shell_command :: "shell \<Rightarrow> string \<Rightarrow> nat \<Rightarrow> Output checked" where
  "execute_shell_command sh command timeout w =
     ((case sh (w_commands w) command timeout of
         Finished output \<Rightarrow> Inr output
       | ShellFailed e \<Rightarrow> Inl e
       | ShellTimedOut \<Rightarrow> Inl (''Shell command timed out after '' @ show_secs timeout @ '': '' @ command)),
      w\<lparr>w_commands := w_commands w @ [command]\<rparr>)"

fun execute_success_checks_with_timeout :: "shell \<Rightarrow> SuccessCheck list \<Rightarrow> nat \<Rightarrow> bool checked" where
  "execute_success_checks_with_timeout sh [] timeout w = (Inr True, w)"
| "execute_success_checks_with_timeout sh (Shell command # cs) timeout w =
     (case execute_shell_command sh command timeout w of
        (Inl e, w') \<Rightarrow> (Inl e, w')
      | (Inr output, w') \<Rightarrow>
          if \<not> out_success output then (Inr False, w')
          else execute_success_checks_with_timeout sh cs timeout w')"

definition execute_on_failure_command_with_timeout :: "shell \<Rightarrow> string \<Rightarrow> nat \<Rightarrow> unit checked" where
  "execute_on_failure_command_with_timeout sh command timeout w =
     (case execute_shell_command sh command timeout w of
        (Inl e, w') \<Rightarrow>
          (Inl (if str_contains ''timed out'' e
                then ''On_failure command timed out after '' @ show_secs timeout @ '': '' @ command
                else e), w')
      | (Inr output, w') \<Rightarrow>
          if \<not> out_success output
          then (Inl (''On_failure command failed: command '' @ quoted command @ '' exited with status '' @
                     out_status output @ '', stderr: '' @ out_stderr output), w')
          else (Inr (), w'))"

subsection \<open>The retry operation\<close>

definition NUDGED :: string where
  "NUDGED = ''nudged''"

definition ATTEMPTS :: string where
  "ATTEMPTS = ''attempts''"

definition retry_error :: "op_env \<Rightarrow> string \<Rightarrow> Message" where
  "retry_error V e =
     with_error (Message_assistant (oe_now V)) OtherError (''Retry logic encountered an error: '' @ e)"

definition retry_config :: "Session \<Rightarrow> RetryConfig option" where
  "retry_config session = Option.bind (s_recipe session) rc_retry"

definition reset_conversation :: "Conversation \<Rightarrow> error + Conversation" where
  "reset_conversation c =
     (case messages_since_kickoff c of
        Inl e \<Rightarrow> Inl e
      | Inr ms \<Rightarrow> Inr (take (Suc (length c - length ms)) c))"

definition goal_was_nudged :: "Message list \<Rightarrow> bool" where
  "goal_was_nudged ms = list_ex (\<lambda>m. message_meta ''retry'' m NUDGED \<noteq> None) ms"

definition attempts :: "Message list \<Rightarrow> nat" where
  "attempts ms =
     (case Option.bind (Option.bind (first_opt ms) (\<lambda>m. message_meta ''retry'' m ATTEMPTS)) as_u64 of
        Some n \<Rightarrow> n mod 2 ^ 32
      | None \<Rightarrow> 0)"

definition goal_nudge :: "op_env \<Rightarrow> string \<Rightarrow> Message" where
  "goal_nudge V goal =
     set_message_meta ''retry'' NUDGED (JBool True)
       (with_visibility (user_message V
         (''Before finishing, check whether the following goal has been fully met:'' @ nl @ nl @
          ''**Goal:** '' @ goal @ nl @ nl @ ''If not, continue working toward it.'')) False True)"

definition grind_nudge :: "op_env \<Rightarrow> string \<Rightarrow> Message" where
  "grind_nudge V grind =
     with_visibility (user_message V
       (''Keep working. The grind goal is not yet complete:'' @ nl @ nl @
        ''**Goal:** '' @ grind @ nl @ nl @ ''Continue until it is fully done.'')) False True"

definition max_retries_message :: "op_env \<Rightarrow> nat \<Rightarrow> Message" where
  "max_retries_message V n =
     with_error (Message_assistant (oe_now V)) OtherError
       (''Maximum retry attempts ('' @ show_nat n @
        '') exceeded. Unable to complete the task successfully.'')"

definition fail_retry :: "op_env \<Rightarrow> Message \<Rightarrow> OperationResult op" where
  "fail_retry V m = andThen (emit_message V m) (\<lambda>m'. ret (applied [AppendMessage m']))"

text \<open>The failure command, if there is one.\<close>

definition run_on_failure :: "shell \<Rightarrow> nat \<Rightarrow> RetryConfig \<Rightarrow> unit checked" where
  "run_on_failure sh on_failure_timeout cfg w =
     (case on_failure cfg of
        None \<Rightarrow> (Inr (), w)
      | Some command \<Rightarrow>
          execute_on_failure_command_with_timeout sh command
            (case on_failure_timeout_seconds cfg of Some t \<Rightarrow> t | None \<Rightarrow> on_failure_timeout) w)"

definition retry_again ::
  "op_env \<Rightarrow> shell \<Rightarrow> nat \<Rightarrow> RetryConfig \<Rightarrow> Message list \<Rightarrow> Conversation \<Rightarrow> OperationResult op" where
  "retry_again V sh on_failure_timeout cfg ms c w =
     (if max_retries cfg \<le> attempts ms then fail_retry V (max_retries_message V (max_retries cfg)) w
      else (case run_on_failure sh on_failure_timeout cfg w of
              (Inl e, w') \<Rightarrow> fail_retry V (retry_error V e) w'
            | (Inr _, w') \<Rightarrow>
                andThen (lift (reset_conversation c)) (\<lambda>reset.
                  ret (applied [ReplaceConversation
                    (update_last (set_message_meta ''retry'' ATTEMPTS (JInt (int (attempts ms + 1)))) reset) None])) w'))"

definition check_retry ::
  "op_env \<Rightarrow> shell \<Rightarrow> nat \<Rightarrow> nat \<Rightarrow> Session \<Rightarrow> Message list \<Rightarrow> Conversation \<Rightarrow> OperationResult op" where
  "check_retry V sh retry_timeout on_failure_timeout session ms c w =
     (case retry_config session of
        None \<Rightarrow> ret NotApplicable w
      | Some cfg \<Rightarrow>
          (case execute_success_checks_with_timeout sh (checks cfg)
                  (case timeout_seconds cfg of Some t \<Rightarrow> t | None \<Rightarrow> retry_timeout) w of
             (Inl e, w') \<Rightarrow> fail_retry V (retry_error V e) w'
           | (Inr True, w') \<Rightarrow> ret NotApplicable w'
           | (Inr False, w') \<Rightarrow> retry_again V sh on_failure_timeout cfg ms c w'))"

definition retry_run ::
  "op_env \<Rightarrow> shell \<Rightarrow> nat \<Rightarrow> nat \<Rightarrow> Session \<Rightarrow> Conversation \<Rightarrow> OperationResult op" where
  "retry_run V sh retry_timeout on_failure_timeout session c =
     andThen (lift (messages_since_kickoff c)) (\<lambda>ms w.
       if \<not> ends_turn ms then ret NotApplicable w
       else (case (if goal_was_nudged ms then None else w_goal w) of
               Some goal \<Rightarrow>
                 andThen (emit_message V (inline_notification V (''Goal: '' @ goal)))
                   (\<lambda>_. ret (applied [AppendMessage (goal_nudge V goal)])) w
             | None \<Rightarrow>
                 (case w_grind w of
                    Some grind \<Rightarrow>
                      andThen (emit_message V (inline_notification V (''Grind: '' @ grind)))
                        (\<lambda>_. ret (applied [AppendMessage (grind_nudge V grind)])) w
                  | None \<Rightarrow>
                      check_retry V sh retry_timeout on_failure_timeout session ms c
                        (w\<lparr>w_goal := None, w_grind := None\<rparr>))))"

subsection \<open>Goal commands\<close>

definition starts_turn :: "string \<Rightarrow> bool" where
  "starts_turn params = (params \<noteq> [] \<and> params \<notin> {''off'', ''clear'', ''none''})"

definition goal_text :: "bool \<Rightarrow> string \<Rightarrow> string option \<Rightarrow> string" where
  "goal_text is_goal params current =
     (if params = []
      then (let label = (if is_goal then ''goal'' else ''grind goal'')
            in case current of
                 Some v \<Rightarrow> ''Current '' @ label @ '': '' @ v
               | None \<Rightarrow> ''No '' @ label @ '' set. Use '' @
                   ticked (''/'' @ (if is_goal then ''goal'' else ''grind'') @ '' <description>'') @ '' to set one.'')
      else if \<not> starts_turn params
      then (if is_goal then ''Goal cleared. The agent will finish normally.''
            else ''Grind cleared. The agent will finish normally.'')
      else if is_goal
      then ''Goal set. The agent will verify this goal is met before finishing:'' @ nl @ nl @ ''> '' @ params
      else ''Grind goal set. The agent will keep working until max_turns is reached:'' @ nl @ nl @ ''> '' @ params)"

definition set_goal :: "bool \<Rightarrow> string \<Rightarrow> World \<Rightarrow> World" where
  "set_goal is_goal params w =
     (if params = [] then w
      else (let v = (if starts_turn params then Some params else None)
            in if is_goal then w\<lparr>w_goal := v\<rparr> else w\<lparr>w_grind := v\<rparr>))"

definition start_message :: "op_env \<Rightarrow> string \<Rightarrow> Message" where
  "start_message V params =
     with_visibility (user_message V
       (''Start working toward this goal now:'' @ nl @ nl @ ''**Goal:** '' @ params)) False True"

definition retry_run_command :: "op_env \<Rightarrow> SlashCommand \<Rightarrow> Session \<Rightarrow> Conversation \<Rightarrow> OperationResult op" where
  "retry_run_command V cmd session c w =
     (if sc_command cmd \<noteq> ''goal'' \<and> sc_command cmd \<noteq> ''grind'' then ret NotApplicable w
      else
        (let is_goal = (sc_command cmd = ''goal'');
             params = sc_params_str cmd;
             response = with_visibility
               (assistant_message V (goal_text is_goal params (if is_goal then w_goal w else w_grind w))) True False
         in andThen (lift (command_message ''slash command'' c)) (\<lambda>(m, i).
            andThen (emit_message V (with_visibility m True False)) (\<lambda>_.
            andThen (emit_message V response) (\<lambda>response'.
              let es = [SetMessageVisibility i True False, AppendMessage response']
              in ret (if starts_turn params then applied (es @ [AppendMessage (start_message V params)])
                      else yielded_with es)))) (set_goal is_goal params w)))"

definition RetryOperation :: "op_env \<Rightarrow> shell \<Rightarrow> nat \<Rightarrow> nat \<Rightarrow> Operation" where
  "RetryOperation V sh retry_timeout on_failure_timeout =
     (Operation_default ''retry'')\<lparr>op_run_command := retry_run_command V,
        op_run := retry_run V sh retry_timeout on_failure_timeout\<rparr>"

subsection \<open>The retry manager\<close>

record RetryManager =
  rm_attempts :: nat
  rm_inspector :: "RepetitionInspector option"

definition RetryManager_new :: RetryManager where
  "RetryManager_new = \<lparr>rm_attempts = 0, rm_inspector = None\<rparr>"

definition with_repetition_inspector :: "RepetitionInspector option \<Rightarrow> RetryManager" where
  "with_repetition_inspector ins = \<lparr>rm_attempts = 0, rm_inspector = ins\<rparr>"

definition reset_attempts :: "RetryManager \<Rightarrow> RetryManager" where
  "reset_attempts rm = rm\<lparr>rm_attempts := 0, rm_inspector := map_option repetition_reset (rm_inspector rm)\<rparr>"

definition increment_attempts :: "RetryManager \<Rightarrow> nat \<times> RetryManager" where
  "increment_attempts rm = (Suc (rm_attempts rm), rm\<lparr>rm_attempts := Suc (rm_attempts rm)\<rparr>)"

datatype RetryResult = Skipped | MaxAttemptsReached Message | SuccessChecksPassed | Retried

definition DEFAULT_RETRY_TIMEOUT_SECONDS :: nat where
  "DEFAULT_RETRY_TIMEOUT_SECONDS = 300"

definition DEFAULT_ON_FAILURE_TIMEOUT_SECONDS :: nat where
  "DEFAULT_ON_FAILURE_TIMEOUT_SECONDS = 600"

definition get_retry_timeout :: "nat option \<Rightarrow> RetryConfig \<Rightarrow> nat" where
  "get_retry_timeout config cfg =
     (case timeout_seconds cfg of
        Some t \<Rightarrow> t
      | None \<Rightarrow> (case config of Some t \<Rightarrow> t | None \<Rightarrow> DEFAULT_RETRY_TIMEOUT_SECONDS))"

definition get_on_failure_timeout :: "nat option \<Rightarrow> RetryConfig \<Rightarrow> nat" where
  "get_on_failure_timeout config cfg =
     (case on_failure_timeout_seconds cfg of
        Some t \<Rightarrow> t
      | None \<Rightarrow> (case config of Some t \<Rightarrow> t | None \<Rightarrow> DEFAULT_ON_FAILURE_TIMEOUT_SECONDS))"

definition max_attempts_text :: "nat \<Rightarrow> string" where
  "max_attempts_text n =
     ''Maximum retry attempts ('' @ show_nat n @ '') exceeded. Unable to complete the task successfully.''"

text \<open>\<open>config\<close> holds the two global timeouts, if they are set.\<close>

definition handle_retry_logic ::
  "op_env \<Rightarrow> shell \<Rightarrow> nat option \<times> nat option \<Rightarrow> RetryConfig option \<Rightarrow> Conversation \<Rightarrow> Conversation \<Rightarrow>
     RetryManager \<Rightarrow> World \<Rightarrow> (string + RetryResult) \<times> Conversation \<times> RetryManager \<times> World" where
  "handle_retry_logic V sh config cfg_opt messages initial_messages rm w =
     (case cfg_opt of
        None \<Rightarrow> (Inr Skipped, messages, rm, w)
      | Some cfg \<Rightarrow>
          (case execute_success_checks_with_timeout sh (checks cfg) (get_retry_timeout (fst config) cfg) w of
             (Inl e, w') \<Rightarrow> (Inl e, messages, rm, w')
           | (Inr True, w') \<Rightarrow> (Inr SuccessChecksPassed, messages, rm, w')
           | (Inr False, w') \<Rightarrow>
               if max_retries cfg \<le> rm_attempts rm
               then (Inr (MaxAttemptsReached (assistant_message V (max_attempts_text (max_retries cfg)))), messages, rm, w')
               else (case (case on_failure cfg of
                             None \<Rightarrow> (Inr (), w')
                           | Some command \<Rightarrow>
                               execute_on_failure_command_with_timeout sh command
                                 (get_on_failure_timeout (snd config) cfg) w') of
                       (Inl e, w'') \<Rightarrow> (Inl e, messages, rm, w'')
                     | (Inr _, w'') \<Rightarrow>
                         (Inr Retried, initial_messages, snd (increment_attempts rm), w''))))"

end
