(* ===== verification/Ops_Turn_Properties.thy ===== *)
theory Ops_Turn_Properties
  imports Ops_Retry
begin

text \<open>
  What bounds a turn: the budget counts blocks of assistant messages, a stop hook can deny only up to its
  cap, a goal nudges once, and a recipe is retried at most as often as it says. Each of these
  operations leaves its count on the messages themselves, so it survives a restart of the machine.
\<close>

subsection \<open>Text messages\<close>

lemma text_message_simps [simp]:
  "m_role (user_message V s) = User" "m_role (assistant_message V s) = Assistant"
  "m_role (inline_notification V s) = Assistant"
  "m_metadata (user_message V s) = MessageMetadata_default"
  "m_id (user_message V s) = None"
  by (simp_all add: user_message_def assistant_message_def inline_notification_def with_text_def with_content_def
      with_system_notification_def with_metadata_def Message_user_def Message_assistant_def Message_new_def)

lemma with_visibility_simps [simp]:
  "m_role (with_visibility m uv av) = m_role m" "m_id (with_visibility m uv av) = m_id m"
  "m_content (with_visibility m uv av) = m_content m" "m_created (with_visibility m uv av) = m_created m"
  "user_visible (m_metadata (with_visibility m uv av)) = uv"
  "agent_visible (m_metadata (with_visibility m uv av)) = av"
  "operations (m_metadata (with_visibility m uv av)) = operations (m_metadata m)"
  by (simp_all add: with_visibility_def)

lemma set_message_meta_simps [simp]:
  "m_role (set_message_meta n k v m) = m_role m" "m_id (set_message_meta n k v m) = m_id m"
  "m_content (set_message_meta n k v m) = m_content m"
  "user_visible (m_metadata (set_message_meta n k v m)) = user_visible (m_metadata m)"
  "agent_visible (m_metadata (set_message_meta n k v m)) = agent_visible (m_metadata m)"
  by (simp_all add: set_message_meta_def set_operation_note_def Let_def)

text \<open>A message as it is stored and read back: its id may have been filled in, its time raised, its content
  changed by the encoding.\<close>

definition stored_as :: "Message \<Rightarrow> Message \<Rightarrow> bool" where
  "stored_as m m' = (m' = m\<lparr>m_id := m_id m', m_created := m_created m', m_content := m_content m'\<rparr>)"

lemma stored_as_meta: "stored_as m m' \<Longrightarrow> m_metadata m' = m_metadata m"
  unfolding stored_as_def by (cases m; cases m') simp

lemma stored_as_note: "stored_as m m' \<Longrightarrow> message_meta n m' k = message_meta n m k"
  by (simp add: message_meta_def stored_as_meta)

lemma stored_agent_only: "stored_as m m' \<Longrightarrow> \<not> user_visible (m_metadata m) \<Longrightarrow> \<not> is_kickoff m'"
  by (simp add: agent_only_not_kickoff stored_as_meta)

subsection \<open>Turn budget\<close>

text \<open>The turns taken are the blocks of assistant messages; a block ends where no assistant message follows.\<close>

definition assistant_at :: "Message list \<Rightarrow> nat \<Rightarrow> bool" where
  "assistant_at ms i = (i < length ms \<and> m_role (ms ! i) = Assistant)"

definition assistant_blocks :: "Message list \<Rightarrow> nat" where
  "assistant_blocks ms = card {i. assistant_at ms i \<and> \<not> assistant_at ms (Suc i)}"

lemma assistant_at_Cons [simp]:
  "assistant_at (m # ms) (Suc i) = assistant_at ms i" "assistant_at (m # ms) 0 = (m_role m = Assistant)"
  by (simp_all add: assistant_at_def)

lemma assistant_blocks_Cons:
  "assistant_blocks (m # ms) =
     (if m_role m = Assistant \<and> \<not> assistant_at ms 0 then Suc (assistant_blocks ms) else assistant_blocks ms)"
proof -
  let ?B = "{i. assistant_at ms i \<and> \<not> assistant_at ms (Suc i)}"
  have fin: "finite ?B" by (rule finite_subset [of _ "{..<length ms}"]) (auto simp: assistant_at_def)
  have split: "{i. assistant_at (m # ms) i \<and> \<not> assistant_at (m # ms) (Suc i)} =
      Suc ` ?B \<union> (if m_role m = Assistant \<and> \<not> assistant_at ms 0 then {0} else {})" (is "?L = ?R")
  proof (rule set_eqI)
    fix i
    show "i \<in> ?L \<longleftrightarrow> i \<in> ?R" by (cases i) auto
  qed
  have "card (Suc ` ?B) = card ?B" by (simp add: card_image)
  with fin show ?thesis unfolding assistant_blocks_def split by auto
qed

lemma assistant_turn_count_fold:
  "fold (\<lambda>m (turns, in_block).
      if m_role m = Assistant then (if in_block then turns else Suc turns, True) else (turns, False))
     (rev ms) (0, False) = (assistant_blocks ms, assistant_at ms 0)"
proof (induction ms)
  case Nil
  then show ?case by (simp add: assistant_blocks_def assistant_at_def)
next
  case (Cons m ms)
  then show ?case by (auto simp: assistant_blocks_Cons)
qed

lemma assistant_turn_count_blocks: "assistant_turn_count ms = assistant_blocks ms"
  by (simp add: assistant_turn_count_def assistant_turn_count_fold)

text \<open>C15: the machine goes on past the budget check exactly when fewer blocks of assistant messages than
  \<open>max_turns\<close> follow the kickoff; otherwise the turn ends with one message to the user, which is also
  emitted as an event.\<close>

theorem turn_budget_enforced:
  assumes "messages_since_kickoff c = Inr ms"
  shows "(assistant_blocks ms < max_turns \<and> max_turns_run V max_turns session c w = (Inr NotApplicable, w)) \<or>
     (max_turns \<le> assistant_blocks ms \<and>
      (\<exists>m w'. max_turns_run V max_turns session c w = (Inr (yielded_with [AppendMessage m]), w') \<and>
         m_role m = Assistant \<and> m_id m \<noteq> None \<and> w_events w' = w_events w @ [MessageEvent m]))"
proof (cases "assistant_blocks ms < max_turns")
  case False
  obtain m w1 where m: "id_if_missing V (assistant_message V MAX_TURNS_MESSAGE) w = (m, w1)" by fastforce
  then have "m_role m = Assistant" "m_id m \<noteq> None" "w_events w1 = w_events w"
    by (auto simp: id_if_missing_def gen_uuid_def with_generated_id_if_missing_def with_generated_id_def with_id_def
        split: if_splits)
  with False assms m show ?thesis
    by (simp add: max_turns_run_def assistant_turn_count_blocks emit_event_def)
qed (use assms in \<open>simp add: max_turns_run_def assistant_turn_count_blocks\<close>)

subsection \<open>Stop hooks\<close>

lemma denials_append: "denials (ms @ [m]) = denials ms + (if message_meta ''stop_hook'' m DENIED \<noteq> None then 1 else 0)"
  by (simp add: denials_def)

text \<open>C16: a denial of the stop hook either ends the turn or appends one agent-only message that counts as a denial
  and does not start a new turn, and the latter happens only while at most \<open>block_cap\<close> denials result.\<close>

theorem stop_hook_denials_bounded:
  assumes "messages_since_kickoff c = Inr ms" "denials ms < 2 ^ 32 - 1"
    and "stop_hook_run V block_cap session c w = (Inr (Applied r), w')" "\<not> yield_to_client r"
  shows "\<exists>m. effects r = [AppendMessage m] \<and>
     (\<forall>m'. stored_as m m' \<longrightarrow>
        messages_since_kickoff (c @ [m']) = Inr (ms @ [m']) \<and>
        denials (ms @ [m']) = Suc (denials ms) \<and> denials (ms @ [m']) \<le> block_cap)"
proof -
  let ?m = "\<lambda>plugin reason. set_message_meta ''stop_hook'' DENIED (JBool True) (denial_context_message V plugin reason)"
  from assms(1,3,4) obtain reason plugin where
    r: "effects r = [AppendMessage (?m plugin reason)]" "\<not> block_cap < (denials ms mod 2 ^ 32 + 1) mod 2 ^ 32"
    by (auto simp: stop_hook_run_def Let_def andThen_def emit_hook_blocking_def emit_message_def applied_def yielded_def
        yielded_with_def split: if_splits HookDecision.splits prod.splits)
  from assms(2) have "(denials ms mod 2 ^ 32 + 1) mod 2 ^ 32 = Suc (denials ms)" by simp
  with r(2) have cap: "Suc (denials ms) \<le> block_cap" by simp
  have "messages_since_kickoff (c @ [m']) = Inr (ms @ [m']) \<and> denials (ms @ [m']) = Suc (denials ms)"
    if "stored_as (?m plugin reason) m'" for m'
  proof
    have "\<not> is_kickoff m'" by (rule stored_agent_only [OF that]) (simp add: denial_context_message_def)
    with messages_since_kickoff_append [OF assms(1), of "[m']"] show "messages_since_kickoff (c @ [m']) = Inr (ms @ [m'])"
      by simp
    show "denials (ms @ [m']) = Suc (denials ms)" by (simp add: denials_append stored_as_note [OF that])
  qed
  with r(1) cap show ?thesis by auto
qed

subsection \<open>Goals\<close>

text \<open>A goal nudges once per turn: the nudge neither starts a new turn nor lets the goal nudge again in it.\<close>

theorem goal_nudges_once:
  assumes "messages_since_kickoff c = Inr ms" "stored_as (goal_nudge V goal) m'"
    and "list_all (\<lambda>v. \<not> is_kickoff v) vs"
  shows "messages_since_kickoff (c @ [m'] @ vs) = Inr (ms @ [m'] @ vs) \<and> goal_was_nudged (ms @ [m'] @ vs)"
proof
  have "\<not> is_kickoff m'" by (rule stored_agent_only [OF assms(2)]) (simp add: goal_nudge_def)
  with assms(3) messages_since_kickoff_append [OF assms(1), of "m' # vs"]
  show "messages_since_kickoff (c @ [m'] @ vs) = Inr (ms @ [m'] @ vs)" by (auto simp: list_all_iff)
  show "goal_was_nudged (ms @ [m'] @ vs)"
    by (simp add: goal_was_nudged_def stored_as_note [OF assms(2)] goal_nudge_def)
qed

subsection \<open>Retries\<close>

lemma is_kickoff_note [simp]: "is_kickoff (set_message_meta n k v m) = is_kickoff m"
  by (simp add: is_kickoff_def is_user_visible_def is_tool_response_def)

lemma reset_conversation_kickoff:
  assumes "messages_since_kickoff c = Inr ms"
  shows "\<exists>us k vs. c = us @ k # vs \<and> ms = k # vs \<and> is_kickoff k \<and> reset_conversation c = Inr (us @ [k])"
proof -
  from assms obtain us k vs where "c = us @ k # vs" "ms = k # vs" "is_kickoff k"
    by (auto simp: messages_since_kickoff_Inr)
  with assms show ?thesis by (auto simp: reset_conversation_def)
qed

lemma run_on_failure_world: "run_on_failure sh t cfg w = (res, w') \<Longrightarrow> w_events w' = w_events w"
  by (auto simp: run_on_failure_def execute_on_failure_command_with_timeout_def execute_shell_command_def
      split: option.splits ShellOutcome.splits if_splits)

text \<open>C17: when the retry operation replaces the conversation, the new one is the old up to and including the kickoff,
  changed only in the kickoff's count of attempts, which is one more and within \<open>max_retries\<close>.\<close>

theorem retry_attempts_bounded:
  assumes "messages_since_kickoff c = Inr ms" "retry_config session = Some cfg" "max_retries cfg < 2 ^ 32"
    and "retry_run V sh t1 t2 session c w = (Inr (Applied r), w')"
    and "ReplaceConversation c' u \<in> set (effects r)"
  shows "\<exists>us k vs k'. c = us @ k # vs \<and> ms = k # vs \<and> c' = us @ [k'] \<and> u = None \<and>
     k' = set_message_meta ''retry'' ATTEMPTS (JInt (int (attempts ms + 1))) k \<and>
     messages_since_kickoff c' = Inr [k'] \<and> attempts [k'] = Suc (attempts ms) \<and> attempts [k'] \<le> max_retries cfg"
proof -
  from reset_conversation_kickoff [OF assms(1)] obtain us k vs where
    k: "c = us @ k # vs" "ms = k # vs" "is_kickoff k" "reset_conversation c = Inr (us @ [k])" by blast
  let ?k = "set_message_meta ''retry'' ATTEMPTS (JInt (int (attempts ms + 1))) k"
  from assms(1,2,4,5) k(4) have "c' = us @ [?k]" "u = None" "\<not> max_retries cfg \<le> attempts ms"
    by (auto simp: retry_run_def check_retry_def retry_again_def fail_retry_def andThen_def emit_message_def applied_def
        split: if_splits option.splits prod.splits sum.splits bool.splits)
  moreover have "messages_since_kickoff (us @ [?k]) = Inr [?k]"
    using k(3) by (auto simp: messages_since_kickoff_Inr)
  moreover have "attempts [?k] = Suc (attempts ms)"
    using calculation(3) assms(3) by (simp add: attempts_def)
  ultimately show ?thesis using k by auto
qed

end
