(* ===== verification/Ops_Tools_Properties.thy ===== *)
theory Ops_Tools_Properties
  imports Ops_Recipe Ops_Turn_Properties
begin

text \<open>
  What the tool operations guarantee together: a request that inspection did not approve is marked and never
  reaches an extension; every request that is taken up is answered exactly once, whatever the order in
  which results arrive and even when the turn is cancelled; and nothing stays pending after the unknown
  tools have been answered.
\<close>

subsection \<open>Response ids\<close>

definition resp_ids :: "Message \<Rightarrow> string list" where
  "resp_ids m = map tp_id (filter_map as_tool_response (m_content m))"

lemma resp_ids_add [simp]:
  "resp_ids (add_tool_response_with_metadata m i res md) = resp_ids m @ [i]"
  by (simp add: resp_ids_def add_tool_response_with_metadata_def tool_response_with_metadata_def)

lemma resp_ids_user [simp]:
  "resp_ids (Message_user now) = []" "m_role (Message_user now) = User" "m_content (Message_user now) = []"
  by (simp_all add: resp_ids_def Message_user_def Message_new_def)

lemma get_tool_response_ids_resp: "get_tool_response_ids m = set (resp_ids m)"
  by (auto simp: get_tool_response_ids_def resp_ids_def set_filter_map)

lemma resp_ids_fold:
  assumes "\<And>x m. resp_ids (f x m) = resp_ids m @ ids x"
  shows "resp_ids (fold f xs m) = resp_ids m @ concat (map ids xs)"
  by (induction xs arbitrary: m) (simp_all add: assms)

lemma resp_ids_unclaimed: "resp_ids (fold (answer_unclaimed V) rds m) = resp_ids m @ map (tr_id \<circ> fst) rds"
  by (subst resp_ids_fold [where ids = "\<lambda>rd. [tr_id (fst rd)]"])
    (auto simp: answer_unclaimed_def split: prod.splits)

lemma resp_ids_chat: "resp_ids (fold skip_in_chat rds m) = resp_ids m @ map (tr_id \<circ> fst) rds"
  by (subst resp_ids_fold [where ids = "\<lambda>rd. [tr_id (fst rd)]"]) (auto simp: skip_in_chat_def)

lemma resp_ids_unexecuted:
  "resp_ids (fold answer_unexecuted rds m) = resp_ids m @ map (tr_id \<circ> fst) (filter (\<lambda>rd. snd rd \<noteq> Execute) rds)"
proof (induction rds arbitrary: m)
  case (Cons rd rds)
  then show ?case by (cases rd; cases "snd rd") (auto simp: answer_unexecuted_def)
qed simp

lemma resp_ids_interrupted:
  "resp_ids (fold (answer_interrupted A) reqs m) = resp_ids m @ filter (\<lambda>i. i \<notin> A) (map tr_id reqs)"
  by (induction reqs arbitrary: m) (simp_all add: answer_interrupted_def)

lemma resp_ids_emitted: "id_if_missing V m w = (m', w') \<Longrightarrow> resp_ids m' = resp_ids m \<and> m_role m' = m_role m \<and> m_content m' = m_content m"
  by (auto simp: id_if_missing_def gen_uuid_def with_generated_id_if_missing_def with_generated_id_def with_id_def
      resp_ids_def split: if_splits)

subsection \<open>Answered requests\<close>

lemma answered_scan:
  "set (as_answered (fold scan_approval bs s)) = set (as_answered s) \<union> tp_id ` set (filter_map as_tool_response bs)"
proof (induction bs arbitrary: s)
  case (Cons b bs)
  show ?case
  proof (cases b)
    case (ActionRequired a)
    with Cons.IH show ?thesis by (cases a) auto
  qed (use Cons.IH in auto)
qed simp

lemma answered_from_messages: "set (as_answered (from_messages ms)) = (\<Union>m \<in> set ms. set (resp_ids m))"
  by (auto simp: from_messages_def ApprovalState_empty_def answered_scan resp_ids_def set_filter_map)

lemma pending_unanswered:
  assumes "(req, d) \<in> set (pending_tool_requests E ms)"
  shows "\<forall>m \<in> set ms. tr_id req \<notin> set (resp_ids m)"
proof -
  from assms have "disposition E (from_messages ms) req = Some d"
    by (auto simp: pending_tool_requests_def Let_def set_filter_map)
  then have "tr_id req \<notin> set (as_answered (from_messages ms))"
    by (auto simp: disposition_def split: if_splits)
  then show ?thesis by (auto simp: answered_from_messages)
qed

text \<open>A message of responses is no kickoff.\<close>

lemma response_not_kickoff: "resp_ids m \<noteq> [] \<Longrightarrow> \<not> is_kickoff m"
proof -
  assume "resp_ids m \<noteq> []"
  then obtain b r where "b \<in> set (m_content m)" "as_tool_response b = Some r"
    by (auto simp: resp_ids_def filter_map_eq_Nil)
  moreover from this(2) have "is_tool_response_block b" by (cases b) auto
  ultimately have "is_tool_response m" unfolding is_tool_response_def list_ex_iff by blast
  then show ?thesis by (simp add: is_kickoff_def)
qed

text \<open>A message that only holds responses changes no disposition but those of the requests it answers.\<close>

lemma scan_responses:
  "\<forall>b \<in> set bs. is_tool_response_block b \<Longrightarrow>
   as_approval_requests (fold scan_approval bs s) = as_approval_requests s \<and>
   as_approval_responses (fold scan_approval bs s) = as_approval_responses s"
proof (induction bs arbitrary: s)
  case (Cons b bs)
  then show ?case by (cases b) auto
qed simp

lemma pending_after_responses:
  assumes "m_role m = User" "\<forall>b \<in> set (m_content m). is_tool_response_block b"
    and d: "(req, d) \<in> set (pending_tool_requests E (ms @ [m]))"
  shows "(req, d) \<in> set (pending_tool_requests E ms) \<and> tr_id req \<notin> set (resp_ids m)"
proof
  from d have dd: "disposition E (from_messages (ms @ [m])) req = Some d"
    and mem: "req \<in> set (filter_map as_tool_request (concat (map m_content (filter (\<lambda>m. m_role m = Assistant) ms))))"
    using assms(1) by (auto simp: pending_tool_requests_def Let_def set_filter_map)
  from pending_unanswered [OF d] have un: "\<forall>k \<in> set ms. tr_id req \<notin> set (resp_ids k)" "tr_id req \<notin> set (resp_ids m)"
    by auto
  from scan_responses [OF assms(2), of "from_messages ms"] have
    "as_approval_requests (from_messages (ms @ [m])) = as_approval_requests (from_messages ms)"
    "as_approval_responses (from_messages (ms @ [m])) = as_approval_responses (from_messages ms)"
    by (simp_all add: from_messages_def)
  with dd un have "disposition E (from_messages ms) req = Some d"
    by (auto simp: disposition_def answered_from_messages split: if_splits)
  with mem show "(req, d) \<in> set (pending_tool_requests E ms)"
    by (force simp: pending_tool_requests_def Let_def set_filter_map)
  show "tr_id req \<notin> set (resp_ids m)" by (rule un(2))
qed

subsection \<open>Executing\<close>

lemma world_calls [simp]:
  "w_tool_calls (emit_event e w) = w_tool_calls w"
  by (simp add: emit_event_def)

lemma emit_hook_calls: "emit_hook V e h w = (r, w') \<Longrightarrow> r = Inr () \<and> w_tool_calls w' = w_tool_calls w"
  by (auto simp: emit_hook_def)

lemma emit_with_matcher_calls: "emit_with_matcher V e s mt n i w = (r, w') \<Longrightarrow> r = Inr () \<and> w_tool_calls w' = w_tool_calls w"
  by (auto simp: emit_with_matcher_def dest: emit_hook_calls split: if_splits)

lemma pre_hooks_calls: "emit_extended_pre_hooks V n i s w = (r, w') \<Longrightarrow> r = Inr () \<and> w_tool_calls w' = w_tool_calls w"
  by (auto simp: emit_extended_pre_hooks_def dest: emit_with_matcher_calls split: ToolCategory.splits option.splits)

lemma post_hooks_calls: "post_hooks V s call res w = (r, w') \<Longrightarrow> r = Inr () \<and> w_tool_calls w' = w_tool_calls w"
  by (fastforce simp: post_hooks_def Let_def andThen_def dest: emit_hook_calls emit_with_matcher_calls
      split: ToolCategory.splits option.splits if_splits prod.splits sum.splits)

lemma pre_tool_use_calls: "pre_tool_use V s call w = (r, w') \<Longrightarrow> (\<exists>d. r = Inr d) \<and> w_tool_calls w' = w_tool_calls w"
  by (auto simp: pre_tool_use_def emit_hook_blocking_def split: if_splits prod.splits)

text \<open>What a hook said does not depend on the world.\<close>

definition hook_allows :: "op_env \<Rightarrow> Session \<Rightarrow> CallToolRequestParams \<Rightarrow> bool" where
  "hook_allows V session call =
     (has_hooks (oe_hook_manager V) PreToolUse \<longrightarrow>
      fst (emit_blocking (oe_hooks V) (oe_hook_manager V) PreToolUse
        (tool_context PreToolUse session (ctr_name call) (call_input call))) = Allow)"

lemma pre_tool_use_allows: "pre_tool_use V session call w = (Inr Allow, w') \<Longrightarrow> hook_allows V session call"
  by (auto simp: pre_tool_use_def hook_allows_def emit_hook_blocking_def split: if_splits prod.splits)

lemma dispatch_calls:
  assumes "dispatch_tool_call V T session i call w = (r, w')"
  shows "(\<exists>e. r = Inr (Inl e) \<and> w_tool_calls w' = w_tool_calls w) \<or>
    (\<exists>s. r = Inr (Inr s) \<and> w_tool_calls w' = w_tool_calls w @ [(i, call)] \<and> hook_allows V session call)"
proof -
  obtain d w1 where p: "pre_tool_use V session call w = (Inr d, w1)" and w1: "w_tool_calls w1 = w_tool_calls w"
    using pre_tool_use_calls by (metis prod.collapse)
  show ?thesis
  proof (cases d)
    case Allow
    obtain w2 where e: "emit_extended_pre_hooks V (ctr_name call) (call_input call) session w1 = (Inr (), w2)"
        "w_tool_calls w2 = w_tool_calls w1"
      using pre_hooks_calls by (metis prod.collapse)
    with assms p w1 Allow pre_tool_use_allows [of V session call w w1] show ?thesis
      by (auto simp: dispatch_tool_call_def andThen_def)
  next
    case (Deny reason plugin)
    with assms p w1 show ?thesis by (auto simp: dispatch_tool_call_def andThen_def)
  qed
qed

definition executes :: "ToolRequest \<times> ToolDisposition \<Rightarrow> bool" where
  "executes rd = (snd rd = Execute)"

lemma executes_simp [simp]: "executes (req, d) = (d = Execute)"
  by (simp add: executes_def)

text \<open>Starting hands over only allowed calls of executable requests, and starts every executable request.\<close>

lemma start_requests_calls:
  assumes "start_requests V T session rds w = (r, w')"
  shows "\<exists>calls. w_tool_calls w' = w_tool_calls w @ calls \<and>
     (\<forall>(i, call) \<in> set calls. hook_allows V session call \<and>
        (\<exists>req. (req, Execute) \<in> set rds \<and> tr_id req = i \<and> tr_tool_call req = Inr call)) \<and>
     (\<forall>ss. r = Inr ss \<longrightarrow> map fst ss = map (tr_id \<circ> fst) (filter executes rds) \<and>
        (\<forall>s \<in> set ss. \<exists>evs res. snd (snd s) = map SEvent evs @ [SResult res]))"
  using assms
proof (induction rds arbitrary: w r w')
  case (Cons rd rds)
  obtain req d where rd: "rd = (req, d)" by fastforce
  show ?case
  proof (cases "d = Execute \<and> is_ok (tr_tool_call req)")
    case True
    then obtain call where call: "tr_tool_call req = Inr call" by (auto simp: is_ok_def split: sum.splits)
    obtain o1 w1 where disp: "dispatch_tool_call V T session (tr_id req) call w = (Inr o1, w1)"
      using dispatch_calls by (metis prod.collapse)
    obtain r2 w2 where rest: "start_requests V T session rds w1 = (r2, w2)" by fastforce
    from Cons.IH [OF rest] obtain calls where calls: "w_tool_calls w2 = w_tool_calls w1 @ calls"
      "\<forall>(i, call) \<in> set calls. hook_allows V session call \<and>
        (\<exists>req. (req, Execute) \<in> set rds \<and> tr_id req = i \<and> tr_tool_call req = Inr call)"
      "\<forall>ss. r2 = Inr ss \<longrightarrow> map fst ss = map (tr_id \<circ> fst) (filter executes rds) \<and>
        (\<forall>s \<in> set ss. \<exists>evs res. snd (snd s) = map SEvent evs @ [SResult res])" by blast
    have shape: "fst (started_of i call o1) = i \<and> (\<exists>evs res. snd (snd (started_of i call o1)) = map SEvent evs @ [SResult res])" for i
    proof (cases o1)
      case (Inl e)
      have "[SResult (Inl e)] = map SEvent [] @ [SResult (Inl e)]" by simp
      with Inl show ?thesis by (auto simp: started_of_def simp del: append_Nil)
    qed (auto simp: started_of_def split: prod.splits)
    from Cons.prems True rd call disp rest
    have res: "w' = w2" "r = (case r2 of Inl e \<Rightarrow> Inl e | Inr ss \<Rightarrow> Inr (started_of (tr_id req) call o1 # ss))"
      by (auto simp: andThen_def split: sum.splits)
    from dispatch_calls [OF disp] obtain pre where pre: "w_tool_calls w1 = w_tool_calls w @ pre"
        "pre = [] \<or> pre = [(tr_id req, call)] \<and> hook_allows V session call" by auto
    show ?thesis
      using calls pre res shape True rd call
      by (intro exI [of _ "pre @ calls"]) (auto split: sum.splits)
  next
    case False
    then consider "d \<noteq> Execute" | e where "d = Execute" "tr_tool_call req = Inl e"
      by (auto simp: is_ok_def split: sum.splits)
    then show ?thesis
    proof cases
      case 1
      with Cons.prems rd have "start_requests V T session rds w = (r, w')" by simp
      from Cons.IH [OF this] obtain calls where "w_tool_calls w' = w_tool_calls w @ calls"
        "\<forall>(i, call) \<in> set calls. hook_allows V session call \<and>
          (\<exists>req. (req, Execute) \<in> set rds \<and> tr_id req = i \<and> tr_tool_call req = Inr call)"
        "\<forall>ss. r = Inr ss \<longrightarrow> map fst ss = map (tr_id \<circ> fst) (filter executes rds) \<and>
          (\<forall>s \<in> set ss. \<exists>evs res. snd (snd s) = map SEvent evs @ [SResult res])" by blast
      with 1 rd show ?thesis by (intro exI [of _ calls]) fastforce
    next
      case 2
      with Cons.prems rd show ?thesis by auto
    qed
  qed
qed (auto simp: ret_def)

fun result_id :: "string \<times> StreamItem \<Rightarrow> string option" where
  "result_id (i, SResult _) = Some i"
| "result_id (i, SEvent _) = None"

lemma finish_result_ok: "finish_result V T session ss i res w = (r, w') \<Longrightarrow> (\<exists>out. r = Inr out) \<and> w_tool_calls w' = w_tool_calls w"
  by (fastforce simp: finish_result_def Let_def andThen_def dest: post_hooks_calls
      split: option.splits prod.splits sum.splits)

lemma collect_items_ids:
  "collect_items V T session ss reqs mids items co w = (r, w') \<Longrightarrow>
     (\<exists>co'. r = Inr co' \<and> resp_ids (co_response co') = resp_ids (co_response co) @ filter_map result_id items \<and>
        m_role (co_response co') = m_role (co_response co)) \<and>
     w_tool_calls w' = w_tool_calls w"
proof (induction items arbitrary: co w)
  case Nil
  then show ?case by (auto simp: ret_def)
next
  case (Cons it items)
  obtain i x where it: "it = (i, x)" by fastforce
  show ?case
  proof (cases x)
    case (SResult res)
    obtain out w1 where f: "finish_result V T session ss i res w = (Inr out, w1)" "w_tool_calls w1 = w_tool_calls w"
      using finish_result_ok by (metis prod.collapse)
    let ?co = "co\<lparr>co_change_failed := co_change_failed co \<or> (i \<in> set mids \<and> \<not> is_ok out),
      co_response := add_tool_response_with_metadata (co_response co) i out (request_metadata reqs i)\<rparr>"
    let ?w = "case out of Inr result \<Rightarrow> (case platform_notification result of
        Some n \<Rightarrow> emit_event (McpNotification i n) w1 | None \<Rightarrow> w1) | Inl _ \<Rightarrow> w1"
    from Cons.prems it SResult f have "collect_items V T session ss reqs mids items ?co ?w = (r, w')"
      by (simp add: andThen_def Let_def)
    from Cons.IH [OF this] have ih: "(\<exists>co'. r = Inr co' \<and>
        resp_ids (co_response co') = resp_ids (co_response co) @ [i] @ filter_map result_id items \<and>
        m_role (co_response co') = m_role (co_response ?co)) \<and> w_tool_calls w' = w_tool_calls ?w" by simp
    moreover have "w_tool_calls ?w = w_tool_calls w" using f(2) by (auto split: sum.split option.split)
    moreover have "m_role (co_response ?co) = m_role (co_response co)" by (simp add: add_tool_response_with_metadata_def)
    ultimately show ?thesis by (simp add: it SResult)
  next
    case (SEvent ev)
    show ?thesis
    proof (cases ev)
      case (SMessage n)
      with Cons.prems it SEvent Cons.IH [of co "emit_event (McpNotification i n) w"] show ?thesis by simp
    next
      case (SActionRequired m)
      obtain m' w1 where e: "id_if_missing V m w = (m', w1)" by fastforce
      then have "w_tool_calls w1 = w_tool_calls w"
        by (auto simp: id_if_missing_def gen_uuid_def split: if_splits)
      with Cons.prems it SEvent SActionRequired e
        Cons.IH [of "co\<lparr>co_effects := co_effects co @ [AppendMessage m']\<rparr>" "emit_event (MessageEvent m') w1"]
      show ?thesis by simp
    qed
  qed
qed

lemma event_results [simp]: "filter_map result_id (map (Pair i \<circ> SEvent) evs) = []"
  by (induction evs) auto

lemma stream_results:
  assumes "\<forall>s \<in> set ss. \<exists>evs res. snd (snd s) = map SEvent evs @ [SResult res]"
  shows "filter_map result_id (concat (map (\<lambda>(i, _, items). map (Pair i) items) ss)) = map fst ss"
  using assms by (induction ss) auto

lemma filter_map_mset: "mset (filter_map f xs) = image_mset (the \<circ> f) (filter_mset (\<lambda>x. f x \<noteq> None) (mset xs))"
  by (induction xs) (auto split: option.splits)

lemma filter_map_submset: "mset xs \<subseteq># mset ys \<Longrightarrow> mset (filter_map f xs) \<subseteq># mset (filter_map f ys)"
  by (simp add: filter_map_mset image_mset_subseteq_mono multiset_filter_mono)

lemma distinct_submset:
  assumes "mset xs \<subseteq># mset ys" "distinct ys"
  shows "distinct xs \<and> set xs \<subseteq> set ys"
proof
  have "count (mset xs) a \<le> (if a \<in> set ys then 1 else 0)" for a
    using mset_subset_eq_count [OF assms(1), of a] assms(2) by (simp add: distinct_count_atmost_1)
  moreover have "0 < count (mset xs) a" if "a \<in> set xs" for a using that by simp
  ultimately have "count (mset xs) a = (if a \<in> set xs then 1 else 0)" for a
    by (metis (full_types) One_nat_def Suc_leI count_eq_zero_iff le_antisym le_zero_eq not_gr_zero set_mset_mset)
  then show "distinct xs" by (simp add: distinct_count_atmost_1)
  show "set xs \<subseteq> set ys" using set_mset_mono [OF assms(1)] by simp
qed

text \<open>The scheduler delivers items of the streams, each at most as often as a stream yields it.\<close>

definition fair_merge :: "tool_env \<Rightarrow> bool" where
  "fair_merge T = (\<forall>xss. mset (te_merge T xss) \<subseteq># mset (concat xss))"

lemma partition_ids:
  fixes pending :: "(ToolRequest \<times> ToolDisposition) list"
  assumes "distinct (map (tr_id \<circ> fst) pending)"
    and "distinct rs" "set rs \<subseteq> set (map (tr_id \<circ> fst) (filter executes pending))"
  defines "ids \<equiv> map (tr_id \<circ> fst) (filter (\<lambda>rd. snd rd \<noteq> Execute) pending) @ rs"
  shows "distinct (ids @ filter (\<lambda>i. i \<notin> set ids) (map (tr_id \<circ> fst) pending)) \<and>
    set (ids @ filter (\<lambda>i. i \<notin> set ids) (map (tr_id \<circ> fst) pending)) = set (map (tr_id \<circ> fst) pending)"
proof
  have inj: "inj_on (tr_id \<circ> fst) (set pending)" using assms(1) by (simp add: distinct_map)
  have "distinct (map (tr_id \<circ> fst) (filter (\<lambda>rd. snd rd \<noteq> Execute) pending))"
    using assms(1) by (simp add: distinct_map_filter)
  moreover have "set (map (tr_id \<circ> fst) (filter (\<lambda>rd. snd rd \<noteq> Execute) pending)) \<inter> set rs = {}"
  proof (rule ccontr)
    assume "\<not> ?thesis"
    then obtain i where "i \<in> (tr_id \<circ> fst) ` {rd \<in> set pending. snd rd \<noteq> Execute}" "i \<in> set rs" by auto
    moreover from this(2) assms(3) have "i \<in> (tr_id \<circ> fst) ` {rd \<in> set pending. executes rd}" by auto
    ultimately obtain rd1 rd2 where "rd1 \<in> {rd \<in> set pending. snd rd \<noteq> Execute}" "rd2 \<in> {rd \<in> set pending. executes rd}"
        "i = (tr_id \<circ> fst) rd1" "i = (tr_id \<circ> fst) rd2" by blast
    then have rd: "rd1 \<in> set pending" "snd rd1 \<noteq> Execute" "rd2 \<in> set pending" "executes rd2"
        "(tr_id \<circ> fst) rd1 = (tr_id \<circ> fst) rd2" by simp_all
    from inj_onD [OF inj rd(5,1,3)] rd(2,4) show False by (simp add: executes_def)
  qed
  ultimately have "distinct ids" using assms(2) by (simp add: ids_def)
  then show "distinct (ids @ filter (\<lambda>i. i \<notin> set ids) (map (tr_id \<circ> fst) pending))"
    using assms(1) by auto
  show "set (ids @ filter (\<lambda>i. i \<notin> set ids) (map (tr_id \<circ> fst) pending)) = set (map (tr_id \<circ> fst) pending)"
    using assms(3) by (auto simp: ids_def)
qed

lemma execute_pending_answers:
  assumes "execute_pending V T session pending w = (Inr (Applied r), w')"
    and "distinct (map (tr_id \<circ> fst) pending)" "fair_merge T"
  shows "\<exists>es m. effects r = es @ [AppendMessage m] \<and> m_role m = User \<and> distinct (resp_ids m) \<and>
     set (resp_ids m) = set (map (tr_id \<circ> fst) pending) \<and> \<not> yield_to_client r"
proof -
  let ?reqs = "map fst pending"
  let ?mids = "map tr_id (filter manages_extensions ?reqs)"
  let ?un = "fold answer_unexecuted pending (Message_user (oe_now V))"
  let ?items = "\<lambda>ss :: started list. te_merge T (map (\<lambda>(i, _, items). map (Pair i) items) ss)"
  obtain rs w1 where st: "start_requests V T session pending w = (rs, w1)" by fastforce
  with assms(1) obtain ss where ss: "rs = Inr ss"
    by (cases rs) (auto simp: execute_pending_def Let_def andThen_def)
  from start_requests_calls [OF st] ss have shape: "map fst ss = map (tr_id \<circ> fst) (filter executes pending)"
      "\<forall>s \<in> set ss. \<exists>evs res. snd (snd s) = map SEvent evs @ [SResult res]" by auto
  obtain rc w2 where co: "collect_items V T session ss ?reqs ?mids (?items ss)
      \<lparr>co_response = ?un, co_effects = [], co_change_failed = False\<rparr> w1 = (rc, w2)" by fastforce
  from collect_items_ids [OF co] obtain c1 where c1: "rc = Inr c1"
      "resp_ids (co_response c1) = resp_ids ?un @ filter_map result_id (?items ss)" by auto
  let ?response = "fold (answer_interrupted (get_tool_response_ids (co_response c1))) ?reqs (co_response c1)"
  let ?results = "filter_map result_id (?items ss)"
  have "mset ?results \<subseteq># mset (map fst ss)"
    using assms(3) filter_map_submset stream_results [OF shape(2)] unfolding fair_merge_def by metis
  moreover have "distinct (map fst ss)" using assms(2) by (simp add: shape(1) distinct_map_filter)
  ultimately have d: "distinct ?results" "set ?results \<subseteq> set (map (tr_id \<circ> fst) (filter executes pending))"
    using distinct_submset shape(1) by metis+
  have "resp_ids ?un = map (tr_id \<circ> fst) (filter (\<lambda>rd. snd rd \<noteq> Execute) pending)"
    by (simp add: resp_ids_unexecuted)
  with c1(2) partition_ids [OF assms(2) d] have ids: "distinct (resp_ids ?response)"
      "set (resp_ids ?response) = set (map (tr_id \<circ> fst) pending)"
    by (simp_all add: resp_ids_interrupted get_tool_response_ids_resp)
  have role: "m_role ?response = User"
  proof -
    have "m_role (fold answer_unexecuted rds m) = m_role m" for rds m
      by (induction rds arbitrary: m)
        (auto simp: answer_unexecuted_def add_tool_response_with_metadata_def split: ToolDisposition.splits)
    moreover have "m_role (fold (answer_interrupted A) reqs m) = m_role m" for A reqs m
      by (induction reqs arbitrary: m) (simp_all add: answer_interrupted_def add_tool_response_with_metadata_def)
    moreover have "m_role (co_response c1) = m_role ?un" using collect_items_ids [OF co] c1(1) by auto
    ultimately show ?thesis by (simp add: Message_user_def Message_new_def)
  qed
  from assms(1) st ss co c1(1) obtain es m w3 w4 where m: "id_if_missing V ?response w3 = (m, w4)"
      "effects r = es @ [AppendMessage m]" "\<not> yield_to_client r"
    by (auto simp: execute_pending_def Let_def andThen_def emit_message_def applied_def
        split: if_splits prod.splits sum.splits)
  with resp_ids_emitted [OF m(1)] ids role show ?thesis by auto
qed

text \<open>C18: whenever the tool operation takes up requests with distinct ids, in whatever order their streams deliver and
  even if the turn is cancelled half way, it appends one user message that answers every one of them
  exactly once, and answers nothing else.\<close>

theorem every_request_answered_once:
  assumes "messages_since_kickoff c = Inr ms"
    and "tool_execution_run V T session c w = (Inr (Applied r), w')"
    and "distinct (map (tr_id \<circ> fst) (known_pending T session (pending_tool_requests (oe_ext V) ms)))" "fair_merge T"
  shows "\<exists>es m. effects r = es @ [AppendMessage m] \<and> m_role m = User \<and> distinct (resp_ids m) \<and>
     set (resp_ids m) = (tr_id \<circ> fst) ` set (known_pending T session (pending_tool_requests (oe_ext V) ms))"
proof -
  let ?p = "known_pending T session (pending_tool_requests (oe_ext V) ms)"
  from assms(1,2) have nonempty: "?p \<noteq> []"
    by (auto simp: tool_execution_run_def Let_def split: if_splits)
  show ?thesis
  proof (cases "w_goose_mode w = Chat")
    case True
    let ?m = "fold skip_in_chat ?p (Message_user (oe_now V))"
    obtain m w1 where m: "id_if_missing V ?m w = (m, w1)" by fastforce
    have "m_role (fold skip_in_chat rds m0) = m_role m0" for rds m0
      by (induction rds arbitrary: m0) (simp_all add: skip_in_chat_def add_tool_response_with_metadata_def)
    with resp_ids_emitted [OF m] have "resp_ids m = map (tr_id \<circ> fst) ?p" "m_role m = User"
      by (simp_all add: resp_ids_chat)
    moreover from assms(1,2) nonempty True m have "effects r = [] @ [AppendMessage m]"
      by (auto simp: tool_execution_run_def Let_def applied_def)
    ultimately show ?thesis using assms(3) by (metis list.set_map)
  next
    case False
    with assms(1,2) nonempty have "execute_pending V T session ?p w = (Inr (Applied r), w')"
      by (auto simp: tool_execution_run_def Let_def)
    from execute_pending_answers [OF this assms(3,4)] show ?thesis by auto
  qed
qed

lemma start_requests_frame:
  "execute_pending V T session pending w = (res, w') \<Longrightarrow>
   \<exists>rs w1. start_requests V T session pending w = (rs, w1) \<and> w_tool_calls w' = w_tool_calls w1"
proof -
  assume ex: "execute_pending V T session pending w = (res, w')"
  obtain rs w1 where st: "start_requests V T session pending w = (rs, w1)" by fastforce
  have calls: "id_if_missing V m w0 = (m', w0') \<Longrightarrow> w_tool_calls w0' = w_tool_calls w0" for m w0 m' w0'
    by (auto simp: id_if_missing_def gen_uuid_def split: if_splits)
  from ex st have "w_tool_calls w' = w_tool_calls w1"
    by (auto simp: execute_pending_def Let_def andThen_def emit_message_def
        dest!: collect_items_ids calls split: if_splits prod.splits sum.splits)
  with st show ?thesis by blast
qed

lemma execute_disposition:
  assumes "(req, Execute) \<in> set (pending_tool_requests E ms)"
  shows "request_executable req \<noteq> Some False \<and> (\<exists>m \<in> set ms. m_role m = Assistant \<and> ToolRequest req \<in> set (m_content m))"
proof -
  from assms have "disposition E (from_messages ms) req = Some Execute"
    "req \<in> set (filter_map as_tool_request (concat (map m_content (filter (\<lambda>m. m_role m = Assistant) ms))))"
    by (auto simp: pending_tool_requests_def Let_def set_filter_map)
  moreover have "as_tool_request b = Some req \<Longrightarrow> b = ToolRequest req" for b by (cases b) auto
  ultimately show ?thesis
    by (fastforce simp: disposition_def set_filter_map split: if_splits sum.splits option.splits)
qed

text \<open>Every call that the tool operation hands to an extension is the call of a request of an assistant message of
  this turn that no response answers, whose metadata does not forbid it to run, whose tool the
  extensions offer, and that the policy hooks allow; in chat mode there is none.\<close>

theorem only_permitted_calls_dispatched:
  assumes "messages_since_kickoff c = Inr ms" "tool_execution_run V T session c w = (res, w')"
  shows "\<exists>calls. w_tool_calls w' = w_tool_calls w @ calls \<and>
     list_all (\<lambda>(i, call). w_goose_mode w \<noteq> Chat \<and> hook_allows V session call \<and>
       ctr_name call \<in> tl_name ` set (te_tools T (s_id session)) \<and>
       list_all (\<lambda>m. i \<notin> set (resp_ids m)) ms \<and>
       list_ex (\<lambda>m. m_role m = Assistant \<and> list_ex (\<lambda>b. \<exists>req. b = ToolRequest req \<and> tr_id req = i \<and>
         tr_tool_call req = Inr call \<and> request_executable req \<noteq> Some False) (m_content m)) ms) calls"
proof -
  let ?p = "known_pending T session (pending_tool_requests (oe_ext V) ms)"
  have calls: "id_if_missing V m w0 = (m', w0') \<Longrightarrow> w_tool_calls w0' = w_tool_calls w0" for m w0 m' w0'
    by (auto simp: id_if_missing_def gen_uuid_def split: if_splits)
  consider "w_tool_calls w' = w_tool_calls w"
    | "w_goose_mode w \<noteq> Chat" "execute_pending V T session ?p w = (res, w')"
    using assms by (auto simp: tool_execution_run_def Let_def emit_message_def split: if_splits prod.splits dest!: calls)
  then show ?thesis
  proof cases
    case 1
    then show ?thesis by (intro exI [of _ "[]"]) simp
  next
    case 2
    from start_requests_frame [OF 2(2)] obtain rs w1 where st: "start_requests V T session ?p w = (rs, w1)"
        "w_tool_calls w' = w_tool_calls w1" by blast
    from start_requests_calls [OF st(1)] obtain cs where cs: "w_tool_calls w1 = w_tool_calls w @ cs"
        "\<forall>(i, call) \<in> set cs. hook_allows V session call \<and>
          (\<exists>req. (req, Execute) \<in> set ?p \<and> tr_id req = i \<and> tr_tool_call req = Inr call)" by blast
    have "hook_allows V session call \<and> ctr_name call \<in> tl_name ` set (te_tools T (s_id session)) \<and>
        (\<forall>m \<in> set ms. i \<notin> set (resp_ids m)) \<and>
        (\<exists>m \<in> set ms. m_role m = Assistant \<and> (\<exists>b \<in> set (m_content m). \<exists>req. b = ToolRequest req \<and> tr_id req = i \<and>
         tr_tool_call req = Inr call \<and> request_executable req \<noteq> Some False))" if "(i, call) \<in> set cs" for i call
    proof -
      from that cs(2) obtain req where req: "(req, Execute) \<in> set ?p" "tr_id req = i" "tr_tool_call req = Inr call"
          "hook_allows V session call" by fastforce
      from req(1) have p: "(req, Execute) \<in> set (pending_tool_requests (oe_ext V) ms)" by (simp add: known_pending_def)
      from req(1,3) have "ctr_name call \<in> tl_name ` set (te_tools T (s_id session))" by (auto simp: known_pending_def)
      with pending_unanswered [OF p] execute_disposition [OF p] req show ?thesis by blast
    qed
    with cs(1) st(2) 2(1) show ?thesis
      by (intro exI [of _ cs]) (auto simp: list_all_iff list_ex_iff)
  qed
qed

lemma unclaimed_block: "\<exists>r. m_content (answer_unclaimed V rd m) = m_content m @ [ToolResponse r]"
  by (auto simp: answer_unclaimed_def add_tool_response_with_metadata_def tool_response_with_metadata_def split: prod.splits)

lemma unclaimed_blocks:
  "\<forall>b \<in> set (m_content m). is_tool_response_block b \<Longrightarrow>
   \<forall>b \<in> set (m_content (fold (answer_unclaimed V) rds m)). is_tool_response_block b"
proof (induction rds arbitrary: m)
  case (Cons rd rds)
  obtain r where r: "m_content (answer_unclaimed V rd m) = m_content m @ [ToolResponse r]"
    using unclaimed_block by blast
  have "\<forall>b \<in> set (m_content (answer_unclaimed V rd m)). is_tool_response_block b"
    unfolding r using Cons.prems by simp
  from Cons.IH [OF this] show ?case by (simp only: fold_Cons comp_apply)
qed simp

text \<open>After the unknown tools have been answered nothing of the turn is pending any more.\<close>

theorem unknown_tool_clears_pending:
  assumes "messages_since_kickoff c = Inr ms"
    and "unknown_tool_run V session c w = (Inr (Applied r), w')"
  shows "\<exists>m. effects r = [AppendMessage m] \<and> messages_since_kickoff (c @ [m]) = Inr (ms @ [m]) \<and>
     pending_tool_requests (oe_ext V) (ms @ [m]) = []"
proof -
  let ?p = "pending_tool_requests (oe_ext V) ms"
  let ?m = "fold (answer_unclaimed V) ?p (Message_user (oe_now V))"
  obtain m w1 where m: "id_if_missing V ?m w = (m, w1)" by fastforce
  from assms m have r: "effects r = [AppendMessage m]" "?p \<noteq> []"
    by (auto simp: unknown_tool_run_def Let_def applied_def split: if_splits)
  have "m_role (fold (answer_unclaimed V) rds m0) = m_role m0" for rds m0
    by (induction rds arbitrary: m0)
      (simp_all add: answer_unclaimed_def add_tool_response_with_metadata_def split: prod.splits)
  with resp_ids_emitted [OF m] have ids: "resp_ids m = map (tr_id \<circ> fst) ?p" and role: "m_role m = User"
    by (simp_all add: resp_ids_unclaimed)
  have "\<not> is_kickoff m" using ids r(2) by (intro response_not_kickoff) simp
  with messages_since_kickoff_append [OF assms(1), of "[m]"] have "messages_since_kickoff (c @ [m]) = Inr (ms @ [m])"
    by simp
  moreover have "pending_tool_requests (oe_ext V) (ms @ [m]) = []"
  proof (rule ccontr)
    assume "pending_tool_requests (oe_ext V) (ms @ [m]) \<noteq> []"
    then obtain req d where "(req, d) \<in> set (pending_tool_requests (oe_ext V) (ms @ [m]))"
      by (metis list.set_intros(1) neq_Nil_conv surj_pair)
    from pending_after_responses [OF role _ this] resp_ids_emitted [OF m] unclaimed_blocks [of "Message_user (oe_now V)"]
    have "(req, d) \<in> set ?p" "tr_id req \<notin> set (resp_ids m)" by auto
    then show False by (force simp: ids)
  qed
  ultimately show ?thesis using r(1) by blast
qed

end
