(* ===== verification/Ops_Skills.thy ===== *)
theory Ops_Skills
  imports Skills Ops_Tools_Properties
begin

text \<open>
  \<open>ops_skills.rs\<close> and \<open>slash_commands/skill_slash_command.rs\<close>: skills offered to the model as the tool \<open>load_skill\<close>, listed in
  the system prompt, and run as slash commands. A supporting file is read only where its canonical path
  lies inside the skill's directory.
\<close>

definition LOAD_SKILL_TOOL_NAME :: string where
  "LOAD_SKILL_TOOL_NAME = ''load_skill''"

definition skill_tool :: Tool where
  "skill_tool = \<lparr>tl_name = LOAD_SKILL_TOOL_NAME, tl_annotations = None, tl_meta = None\<rparr>"

definition is_skill_source :: "SourceEntry \<Rightarrow> bool" where
  "is_skill_source s = (se_source_type s = SkillSource \<or> se_source_type s = BuiltinSkill)"

definition skill_instructions :: "skill_env \<Rightarrow> string \<Rightarrow> string option" where
  "skill_instructions S working_dir =
     (let skills = sort_key (\<lambda>s. (map byte (se_name s), map byte (se_path s)))
                     (filter is_skill_source (discover_runtime_skills S working_dir))
      in if skills = [] then None
         else Some (''# Skills'' @ nl @ nl @
                ''You have these skills at your disposal. Load one when it can help with the task or when the user asks for it:'' @
                concat (map (\<lambda>s. nl @ ''- '' @ se_name s @ '': '' @ se_description s) skills)))"

subsection \<open>Loading a skill\<close>

record LoadSkillParams =
  lsp_name :: string
  lsp_args :: "string option"

text \<open>The derived deserialisation: a name that is a string, and arguments that are absent, null or a string.\<close>

definition parse_load_skill_params :: "skill_env \<Rightarrow> json_object \<Rightarrow> string + LoadSkillParams" where
  "parse_load_skill_params S args =
     (case map_of args ''name'' of
        Some (JStr name) \<Rightarrow>
          (case map_of args ''args'' of
             None \<Rightarrow> Inr \<lparr>lsp_name = name, lsp_args = None\<rparr>
           | Some JNull \<Rightarrow> Inr \<lparr>lsp_name = name, lsp_args = None\<rparr>
           | Some (JStr a) \<Rightarrow> Inr \<lparr>lsp_name = name, lsp_args = Some a\<rparr>
           | Some _ \<Rightarrow> Inl (sk_param_error S args))
      | _ \<Rightarrow> Inl (sk_param_error S args))"

definition tool_error :: "string \<Rightarrow> CallToolResult" where
  "tool_error s = CallToolResult_error [ContentBlock_text s]"

definition tool_success :: "string \<Rightarrow> CallToolResult" where
  "tool_success s = CallToolResult_success [ContentBlock_text s]"

definition read_supporting_file :: "skill_env \<Rightarrow> SourceEntry \<Rightarrow> string \<Rightarrow> string \<Rightarrow> CallToolResult" where
  "read_supporting_file S skill skill_name file_path =
     (let canonical_skill_dir =
        (case sk_canonicalize S (se_path skill) of Inr d \<Rightarrow> d | Inl _ \<Rightarrow> se_path skill)
      in case sk_canonicalize S file_path of
           Inl e \<Rightarrow> tool_error (''Failed to resolve '' @ quoted skill_name @ '': '' @ e)
         | Inr canonical \<Rightarrow>
             if \<not> path_starts_with canonical canonical_skill_dir
             then tool_error (''Refusing to load '' @ quoted skill_name @ '': resolves outside the skill directory'')
             else (case sk_read S canonical of
                     Inr content \<Rightarrow>
                       tool_success (''# Loaded: '' @ skill_name @ nl @ nl @ content @ nl @ nl @ ''---'' @ nl @
                         ''File loaded into context.'')
                   | Inl e \<Rightarrow> tool_error (''Failed to read '' @ quoted skill_name @ '': '' @ e)))"

definition load_supporting_file :: "skill_env \<Rightarrow> SourceEntry \<Rightarrow> string \<Rightarrow> string \<Rightarrow> CallToolResult" where
  "load_supporting_file S skill skill_name relative_path =
     (let relative = (\<lambda>file. map_option forward_slashes (path_strip_prefix (se_path skill) file))
      in case find (\<lambda>file. relative file = Some relative_path) (se_supporting_files skill) of
           Some file_path \<Rightarrow> read_supporting_file S skill skill_name file_path
         | None \<Rightarrow>
             (let available = take 10 (filter_map relative (se_supporting_files skill))
              in if available = [] then tool_error (''Skill '' @ quoted (se_name skill) @ '' has no supporting files.'')
                 else tool_error (''File '' @ quoted skill_name @ '' not found. Available: '' @ str_join '', '' available)))"

definition skill_not_found :: "skill_env \<Rightarrow> SourceEntry list \<Rightarrow> string \<Rightarrow> CallToolResult" where
  "skill_not_found S skills skill_name =
     (let suggestions = map se_name (take 3 (filter (\<lambda>s.
            str_contains (sk_lower S skill_name) (sk_lower S (se_name s)) \<or>
            str_contains (sk_lower S (se_name s)) (sk_lower S skill_name)) skills))
      in if suggestions = [] then tool_error (''Skill '' @ quoted skill_name @ '' not found.'')
         else tool_error (''Skill '' @ quoted skill_name @ '' not found. Did you mean: '' @
                str_join '', '' suggestions @ ''?''))"

definition execute_skill :: "skill_env \<Rightarrow> string \<Rightarrow> json_object option \<Rightarrow> CallToolResult" where
  "execute_skill S working_dir arguments =
     (case arguments of
        None \<Rightarrow> tool_error ''Missing arguments''
      | Some args \<Rightarrow>
          (case parse_load_skill_params S args of
             Inl e \<Rightarrow> tool_error (''Invalid arguments: '' @ e)
           | Inr p \<Rightarrow>
               (let skills = discover_runtime_skills S working_dir; name = lsp_name p
                in case find (\<lambda>s. se_name s = name) skills of
                     Some skill \<Rightarrow>
                       (case loaded_skill_context_with_args S skill (lsp_args p) of
                          Inr rendered \<Rightarrow> tool_success rendered
                        | Inl e \<Rightarrow> tool_error (''Failed to parse skill arguments: '' @ e))
                   | None \<Rightarrow>
                       (case split_once ''/'' name of
                          None \<Rightarrow> skill_not_found S skills name
                        | Some (parent, raw_relative) \<Rightarrow>
                            (case find (\<lambda>s. se_name s = parent \<and> is_skill_source s) skills of
                               Some skill \<Rightarrow> load_supporting_file S skill name (forward_slashes raw_relative)
                             | None \<Rightarrow> skill_not_found S skills name)))))"

subsection \<open>The operation\<close>

definition format_installed_skills :: "skill_env \<Rightarrow> string \<Rightarrow> string" where
  "format_installed_skills S working_dir =
     (let skills = filter is_skill_source (list_installed_skills S working_dir)
      in if skills = []
         then ''No skills installed.'' @ nl @ nl @ ''Skills are loaded from SKILL.md files in:'' @ nl @
              ''  - ~/.agents/skills/ (global)'' @ nl @ ''  - ~/.agents/plugins/*/skills/ (installed plugins)'' @ nl @
              ''  - .agents/skills/ (in current project)'' @ nl
         else ''**Installed skills ('' @ show_nat (length skills) @ ''):**'' @ nl @ nl @
              concat (map (\<lambda>s. ''- **'' @ se_name s @ ''**'' @
                (if se_source_type s = BuiltinSkill then '' *(builtin)*'' else []) @ '': '' @
                se_description s @ nl) skills))"

definition resolve_skill_command :: "skill_env \<Rightarrow> string \<Rightarrow> string \<Rightarrow> string \<Rightarrow> string + string option" where
  "resolve_skill_command S command params_str working_dir =
     (case find (\<lambda>s. eq_ignore_ascii_case (se_name s) command) (list_installed_skills S working_dir) of
        None \<Rightarrow> Inr None
      | Some skill \<Rightarrow>
          (case loaded_skill_context_with_args S skill (if params_str = [] then None else Some params_str) of
             Inl e \<Rightarrow> Inl (''Skill /'' @ command @ '': '' @ e)
           | Inr prompt \<Rightarrow> Inr (Some prompt)))"

definition skill_run_command ::
  "op_env \<Rightarrow> skill_env \<Rightarrow> SlashCommand \<Rightarrow> Session \<Rightarrow> Conversation \<Rightarrow> OperationResult op" where
  "skill_run_command V S cmd session c =
     (if sc_command cmd = ''skills''
      then command_response V ''skill command'' c (format_installed_skills S (s_working_dir session))
      else (case resolve_skill_command S (sc_command cmd) (sc_params_str cmd) (s_working_dir session) of
              Inl e \<Rightarrow> command_response V ''skill command'' c e
            | Inr None \<Rightarrow> ret NotApplicable
            | Inr (Some prompt) \<Rightarrow>
                andThen (lift (command_message ''skill command'' c)) (\<lambda>(m, i).
                  ret (applied [SetMessageVisibility i True False,
                                AppendMessage (with_visibility (user_message V prompt) False True)]))))"

definition skill_prompt_parts :: "skill_env \<Rightarrow> Session \<Rightarrow> Conversation \<Rightarrow> (string \<times> string) list op" where
  "skill_prompt_parts S session c =
     ret (case skill_instructions S (s_working_dir session) of Some t \<Rightarrow> [(''skills'', t)] | None \<Rightarrow> [])"

definition asks_for_skill :: "ToolRequest \<Rightarrow> bool" where
  "asks_for_skill req =
     (case tr_tool_call req of Inr call \<Rightarrow> ctr_name call = LOAD_SKILL_TOOL_NAME | Inl _ \<Rightarrow> False)"

definition skill_result :: "skill_env \<Rightarrow> Session \<Rightarrow> ToolRequest \<times> ToolDisposition \<Rightarrow> CallToolResult" where
  "skill_result S session rd =
     (case snd rd of
        Execute \<Rightarrow>
          if s_goose_mode session = Chat then tool_success CHAT_MODE_TOOL_SKIPPED_RESPONSE
          else (case tr_tool_call (fst rd) of
                  Inr call \<Rightarrow> execute_skill S (s_working_dir session) (ctr_arguments call)
                | Inl _ \<Rightarrow> tool_error [])
      | Decline \<Rightarrow> tool_error DECLINED_RESPONSE
      | ParseError e \<Rightarrow> tool_error (''The tool call could not be parsed: '' @ e @
          ''. Correct the arguments and try again.''))"

definition answer_skill :: "skill_env \<Rightarrow> Session \<Rightarrow> ToolRequest \<times> ToolDisposition \<Rightarrow> Message \<Rightarrow> Message" where
  "answer_skill S session rd response =
     add_tool_response_with_metadata response (tr_id (fst rd)) (Inr (skill_result S session rd)) (tr_metadata (fst rd))"

text \<open>The error for a request that is to be executed but has no call cannot occur: only requests whose call is
  \<open>load_skill\<close> are taken up.\<close>

definition skill_run :: "op_env \<Rightarrow> skill_env \<Rightarrow> Session \<Rightarrow> Conversation \<Rightarrow> OperationResult op" where
  "skill_run V S session c =
     andThen (lift (messages_since_kickoff c)) (\<lambda>ms.
       let pending = filter (\<lambda>(req, _). asks_for_skill req) (pending_tool_requests (oe_ext V) ms)
       in if pending = [] then ret NotApplicable
          else andThen (emit_message V (fold (answer_skill S session) pending (Message_user (oe_now V))))
                 (\<lambda>m. ret (applied [AppendMessage m])))"

definition SkillOperation :: "op_env \<Rightarrow> skill_env \<Rightarrow> Operation" where
  "SkillOperation V S =
     (Operation_default ''skills'')
       \<lparr>op_run_command := skill_run_command V S, op_inference_tools := (\<lambda>_. ret [skill_tool]),
        op_prompt_parts := skill_prompt_parts S, op_run := skill_run V S\<rparr>"

subsection \<open>What loading a skill can read\<close>

definition canonical_skill_dir :: "skill_env \<Rightarrow> SourceEntry \<Rightarrow> string" where
  "canonical_skill_dir S skill = (case sk_canonicalize S (se_path skill) of Inr d \<Rightarrow> d | Inl _ \<Rightarrow> se_path skill)"

text \<open>The files that discovery reads: what the paths of the skill files it finds lead to.\<close>

definition skill_file_targets :: "skill_env \<Rightarrow> string \<Rightarrow> string set" where
  "skill_file_targets S wd =
     {q. \<exists>dg \<in> set (sk_dirs S wd). \<exists>kf \<in> set (sk_files S (fst dg)). sk_canonicalize S (skill_file_path kf) = Inr q}"

lemma discovery_reads_skill_files:
  assumes "\<And>q. q \<in> skill_file_targets S wd \<Longrightarrow> f q = sk_read S q"
  shows "discover_runtime_skills (S\<lparr>sk_read := f\<rparr>) wd = discover_runtime_skills S wd"
proof -
  let ?S = "S\<lparr>sk_read := f\<rparr>"
  have parse: "parse_skill_content ?S = parse_skill_content S"
    by (intro ext) (simp add: parse_skill_content_def)
  then have builtin: "add_builtin ?S = add_builtin S"
    by (auto intro!: ext simp: add_builtin_def split: option.splits)
  have scan: "scan_skill_file ?S g kf acc = scan_skill_file S g kf acc"
    if "dg \<in> set (sk_dirs S wd)" "kf \<in> set (sk_files S (fst dg))" for g kf acc dg
  proof -
    have "read_to_string ?S (skill_file_path kf) = read_to_string S (skill_file_path kf)"
      using that assms by (auto simp: read_to_string_def skill_file_targets_def split: sum.splits)
    then show ?thesis unfolding scan_skill_file_def parse by simp
  qed
  have dir: "scan_skills_from_dir ?S dg acc = scan_skills_from_dir S dg acc" if "dg \<in> set (sk_dirs S wd)" for dg acc
  proof -
    have "fold (scan_skill_file ?S (snd dg)) (sk_files S (fst dg)) acc = fold (scan_skill_file S (snd dg)) (sk_files S (fst dg)) acc"
      by (rule fold_cong) (auto intro!: ext scan [OF that])
    then show ?thesis by (simp add: scan_skills_from_dir_def)
  qed
  have "fold (scan_skills_from_dir ?S) (sk_dirs S wd) acc = fold (scan_skills_from_dir S) (sk_dirs S wd) acc" for acc
    by (rule fold_cong) (auto intro!: ext dir)
  then show ?thesis by (simp add: discover_runtime_skills_def discover_skills_def builtin)
qed

lemma rendering_reads_no_file [simp]:
  "loaded_skill_context_with_args (S\<lparr>sk_read := f\<rparr>) skill args = loaded_skill_context_with_args S skill args"
proof -
  have "render_piece (S\<lparr>sk_read := f\<rparr>) names tokens raw p = render_piece S names tokens raw p" for names tokens raw p
    by (cases p) simp_all
  then have "render_piece (S\<lparr>sk_read := f\<rparr>) = render_piece S" by (intro ext)
  then have "apply_skill_arguments (S\<lparr>sk_read := f\<rparr>) = apply_skill_arguments S"
    by (intro ext) (simp add: apply_skill_arguments_def Let_def split: sum.splits)
  then show ?thesis
    by (simp add: loaded_skill_context_with_args_def loaded_skill_context_def split: option.splits sum.splits)
qed

lemma supporting_file_confined:
  assumes "\<And>p. path_starts_with p (canonical_skill_dir S skill) \<Longrightarrow> f p = sk_read S p"
  shows "load_supporting_file (S\<lparr>sk_read := f\<rparr>) skill name rel = load_supporting_file S skill name rel"
proof -
  have "read_supporting_file (S\<lparr>sk_read := f\<rparr>) skill name path = read_supporting_file S skill name path" for path
    using assms by (auto simp: read_supporting_file_def Let_def canonical_skill_dir_def split: sum.splits)
  then show ?thesis by (simp add: load_supporting_file_def Let_def split: option.splits)
qed

lemma find_SomeD: "find p xs = Some x \<Longrightarrow> x \<in> set xs \<and> p x"
  by (auto simp: find_Some_iff)


definition skills0 :: skill_env where
  "skills0 =
     \<lparr>sk_dirs = (\<lambda>_. [(''/s'', False)]),
      sk_files = (\<lambda>_. [\<lparr>kf_dir = ''/s/demo'', kf_supporting = [''/s/demo/n.md'', ''/s/demo/link'']\<rparr>]),
      sk_frontmatter = (\<lambda>_. Some (\<lparr>sf_name = Some ''demo'', sf_description = [], sf_metadata = []\<rparr>, ''body'')),
      sk_builtins = [], sk_docs_root = Inr None, sk_pieces = (\<lambda>s. [Literal s]), sk_parse_usize = (\<lambda>_. None),
      sk_canonicalize = (\<lambda>p. Inr (if p = ''/s/demo/link'' then ''/etc/passwd'' else p)),
      sk_read = (\<lambda>p. Inr p), sk_lower = (\<lambda>s. s), sk_param_error = (\<lambda>_. [])\<rparr>"

lemma skills0_found: "map se_path (discover_runtime_skills skills0 []) = [''/s/demo'']"
  by code_simp

lemma skills0_dir: "skill \<in> set (discover_runtime_skills skills0 []) \<Longrightarrow> canonical_skill_dir skills0 skill = ''/s/demo''"
proof -
  assume "skill \<in> set (discover_runtime_skills skills0 [])"
  then have "se_path skill \<in> set (map se_path (discover_runtime_skills skills0 []))" by auto
  then show ?thesis unfolding skills0_found by (simp add: canonical_skill_dir_def skills0_def)
qed

lemma skills0_target: "path_starts_with ''/s/demo/SKILL.md'' ''/s/demo''"
  by code_simp

text \<open>A \<open>SKILL.md\<close> that is a link to a file outside is read all the same: the text of that file is what is parsed
  for the skill.\<close>

definition linked_skills :: skill_env where
  "linked_skills = skills0\<lparr>sk_frontmatter := (\<lambda>s. Some (\<lparr>sf_name = Some ''demo'', sf_description = [], sf_metadata = []\<rparr>, s)),
     sk_canonicalize := (\<lambda>p. Inr (if p = ''/s/demo/SKILL.md'' then ''/etc/passwd'' else p)),
     sk_read := (\<lambda>p. if p = ''/etc/passwd'' then Inr ''secret'' else Inl ''no such file'')\<rparr>"

theorem linked_skill_file_read:
  "map se_content (discover_runtime_skills linked_skills []) = [''secret''] \<and>
   \<not> path_starts_with ''/etc/passwd'' ''/s/demo''"
  by code_simp


subsection \<open>Answers\<close>

lemma resp_ids_skill: "resp_ids (fold (answer_skill S session) rds m) = resp_ids m @ map (tr_id \<circ> fst) rds"
  by (subst resp_ids_fold [where ids = "\<lambda>rd. [tr_id (fst rd)]"]) (auto simp: answer_skill_def)

theorem skill_requests_answered:
  assumes "messages_since_kickoff c = Inr ms" "skill_run V S session c w = (Inr (Applied r), w')"
  shows "\<exists>m. effects r = [AppendMessage m] \<and> m_role m = User \<and>
     resp_ids m = map (tr_id \<circ> fst) (filter (\<lambda>(req, _). asks_for_skill req) (pending_tool_requests (oe_ext V) ms))"
proof -
  let ?p = "filter (\<lambda>(req, _). asks_for_skill req) (pending_tool_requests (oe_ext V) ms)"
  let ?m = "fold (answer_skill S session) ?p (Message_user (oe_now V))"
  have role: "m_role (fold (answer_skill S session) rds m) = m_role m" for rds m
    by (induction rds arbitrary: m) (simp_all add: answer_skill_def add_tool_response_with_metadata_def)
  obtain m w1 where m: "id_if_missing V ?m w = (m, w1)" by fastforce
  with assms have "effects r = [AppendMessage m]"
    by (auto simp: skill_run_def Let_def applied_def split: if_splits)
  with resp_ids_emitted [OF m] role [of ?p] show ?thesis by (auto simp: resp_ids_skill)
qed

end
