(* ===== verification/Agent_Machine.thy ===== *)
theory Agent_Machine
  imports Ops_Llm Ops_Recipe Ops_Skills Ops_Retry
begin

text \<open>
  \<open>agents/agent.rs\<close>, \<open>create_state_machine\<close> and \<open>reply_with_state_machine\<close>: the operations of the agent in their order, and a
  reply: the prompt is stored, the machine is built for the session's model and run. The record \<open>agent_env\<close>
  holds what the agent owns (inspectors, extensions, skills, recipes) and the configuration values it reads. The
  session's name, which a background task may set meanwhile, is not modelled, and the channel to the client is the
  list of events of the world.
\<close>

definition DEFAULT_MAX_TURNS :: nat where "DEFAULT_MAX_TURNS = 1000"
definition DEFAULT_STOP_HOOK_BLOCK_CAP :: nat where "DEFAULT_STOP_HOOK_BLOCK_CAP = 8"

record agent_env =
  ag_ops :: op_env
  ag_compact :: compact_env
  ag_tools :: tool_env
  ag_inspectors :: "Inspector list"
  ag_skills :: skill_env
  ag_recipes :: recipe_env
  ag_shell :: shell
  ag_project :: "string \<Rightarrow> ProjectEntry option"
  ag_doctor :: "string \<Rightarrow> error + (string + Message)"
  ag_provider :: "(json \<Rightarrow> llm_env) option"
  ag_default_model :: "error + json"
  ag_max_turns :: "nat option"
  ag_retry_timeout :: "nat option"
  ag_on_failure_timeout :: "nat option"
  ag_stop_hook_block_cap :: "nat option"
  ag_compaction_threshold :: "f64 option"
  ag_tool_call_cutoff :: "nat option"
  ag_tool_pair_summarization :: "bool option"

definition unwrap_or :: "'a \<Rightarrow> 'a option \<Rightarrow> 'a" where
  "unwrap_or d v = (case v of Some x \<Rightarrow> x | None \<Rightarrow> d)"

definition tool_pair_summarization_enabled :: "agent_env \<Rightarrow> bool" where
  "tool_pair_summarization_enabled A = unwrap_or True (ag_tool_pair_summarization A)"

text \<open>The agent's inspectors in their order. The security, egress and adversary inspectors are given: pattern and model based
  judgements, of which the manager sees the name, whether they are enabled, and the findings.\<close>

definition create_tool_inspection_manager ::
  "Inspector \<Rightarrow> Inspector \<Rightarrow> Inspector \<Rightarrow> PermissionInspector \<Rightarrow> Inspector list" where
  "create_tool_inspection_manager security egress adversary pin =
     [security\<lparr>in_name := ''security'', in_permission := None\<rparr>,
      egress\<lparr>in_name := ''egress'', in_permission := None\<rparr>,
      adversary\<lparr>in_name := ''adversary'', in_permission := None\<rparr>,
      permission_inspector pin,
      repetition_inspector (RepetitionInspector_new None)]"

text \<open>The operations before inference, except for the slash commands, which ask the others.\<close>

definition agent_operations :: "agent_env \<Rightarrow> nat \<Rightarrow> nat option \<Rightarrow> Operation list" where
  "agent_operations A limit max_turns =
     (let V = ag_ops A;
          threshold = unwrap_or DEFAULT_COMPACTION_THRESHOLD (ag_compaction_threshold A);
          C = (ag_compact A)\<lparr>ce_context_limit := limit, ce_threshold := threshold\<rparr>
      in [SteerOperation V,
          MaxTurnsOperation V (unwrap_or (unwrap_or DEFAULT_MAX_TURNS (ag_max_turns A)) max_turns),
          BangShellOperation V,
          CompactionOperation V C,
          ToolPairCompactionOperation V C
            (unwrap_or (compute_tool_call_cutoff limit threshold) (ag_tool_call_cutoff A))
            (tool_pair_summarization_enabled A \<and> \<not> ce_manages_own_context C),
          ToolApprovalOperation V (ag_inspectors A),
          DoctorOperation V (ag_doctor A),
          ProjectOperation (ag_project A),
          SkillOperation V (ag_skills A),
          RecipeOperation V (ag_recipes A),
          ToolExecutionOperation V (ag_tools A),
          UnknownToolOperation V,
          RetryOperation V (ag_shell A) (unwrap_or DEFAULT_RETRY_TIMEOUT_SECONDS (ag_retry_timeout A))
            (unwrap_or DEFAULT_ON_FAILURE_TIMEOUT_SECONDS (ag_on_failure_timeout A)),
          StopHookOperation V (unwrap_or DEFAULT_STOP_HOOK_BLOCK_CAP (ag_stop_hook_block_cap A)),
          ExitOnErrorOperation])"

definition create_state_machine :: "agent_env \<Rightarrow> llm_env \<Rightarrow> nat \<Rightarrow> nat option \<Rightarrow> Step list" where
  "create_state_machine A L limit max_turns =
     (let ops = agent_operations A limit max_turns; inferring = InferenceRunner (ag_ops A) L
      in map OperationStep (SlashCommandOperation (ops @ [inf_operation inferring]) # ops) @ [InferenceStep inferring])"

record SessionConfig =
  sc_id :: string
  sc_schedule_id :: "string option"
  sc_max_turns :: "nat option"
  sc_retry_config :: "RetryConfig option"

text \<open>A reply: \<open>None\<close> means that the fuel of the run did not suffice.\<close>

definition reply_with_state_machine ::
  "nat \<Rightarrow> agent_env \<Rightarrow> sql_ext \<Rightarrow> Message \<Rightarrow> SessionConfig \<Rightarrow> Store \<Rightarrow> World \<Rightarrow>
     ((error + Session \<times> Usage) \<times> Store \<times> World) option" where
  "reply_with_state_machine fuel A X m cfg st w =
     (let V = ag_ops A; sid = sc_id cfg
      in case get_session X sid False st of
           Inl e \<Rightarrow> Some (Inl e, st, w)
         | Inr entry \<Rightarrow>
             (case (case sc_schedule_id cfg of
                      Some i \<Rightarrow> apply_update sid (oe_now V) (SessionUpdateBuilder_new\<lparr>ub_schedule_id := Some (Some i)\<rparr>) st
                    | None \<Rightarrow> Inr st) of
                Inl e \<Rightarrow> Some (Inl e, st, w)
              | Inr st1 \<Rightarrow>
                  (case add_message (oe_ext V) sid (oe_now V) (oe_uuid V 0) m st1 of
                     Inl e \<Rightarrow> Some (Inl e, st1, w)
                   | Inr st2 \<Rightarrow>
                       (case ag_provider A of
                          None \<Rightarrow> Some (Inl (Anyhow ''Provider not set''), st2, w)
                        | Some llm \<Rightarrow>
                            (case (case s_model_config entry of Some mc \<Rightarrow> Inr mc | None \<Rightarrow> ag_default_model A) of
                               Inl e \<Rightarrow> Some (Inl e, st2, w)
                             | Inr mc \<Rightarrow>
                                 run fuel V X (create_state_machine A (llm mc) (context_limit (llm mc)) (sc_max_turns cfg))
                                   sid st2 w)))))"

end
