(* ===== verification/Ops_Llm_Properties.thy ===== *)
theory Ops_Llm_Properties
  imports Ops_Llm Ops_Tools_Properties Conversation_Properties "HOL-Library.Sublist"
begin

text \<open>
  What the inference operation guarantees: the request it sends holds only what the agent may see, with roles that alternate;
  the tool requests it takes from the answer are those the provider delivered, one per identifier; and a
  cancelled turn leaves no tool request without a response.
\<close>

subsection \<open>The request\<close>

lemma merge_for_request_visible:
  assumes "\<forall>m \<in> set ms. visible m"
  shows "\<forall>m \<in> set (merge_consecutive_messages_for_request ms). visible m"
proof -
  obtain out iss where f: "fold (merge_step True) ms ([], []) = (out, iss)" by fastforce
  have "\<forall>md \<in> m_metadata ` set out. agent_visible md"
    using merge_fold_metadata [OF f] assms by auto
  then show ?thesis
    by (simp add: merge_consecutive_messages_for_request_def merge_consecutive_def f)
qed

lemma view_visible: "\<forall>m \<in> set (agent_visible_messages c). visible m"
  by (auto simp: agent_visible_messages_def agent_visible_content_def)

lemma fix_visible:
  assumes "\<forall>m \<in> set c. visible m"
  shows "(\<forall>m \<in> set (fst (fix_conversation E now c)). visible m) \<and>
    fst (fix_conversation E now c) = (if c = [] then [] else fst (fix_messages E now c))"
proof -
  let ?out = "fst (fix_conversation E now c)"
  from assms have v: "filter visible c = c" "filter (\<lambda>m. \<not> visible m) c = []" by (auto simp: filter_id_conv)
  have "filter (\<lambda>m. \<not> visible m) ?out = []"
    using fix_conversation_parts(2) [of E now c] v(2) by simp
  then have all: "\<forall>m \<in> set ?out. visible m" by (simp add: filter_empty_conv)
  then have "?out = take (length c) (fst (fix_messages E now c))"
    using fix_conversation_parts(1) [of E now c] v(1) by (simp add: filter_id_conv)
  moreover have "length (fst (fix_messages E now c)) \<le> length c" if "c \<noteq> []"
    using fix_messages_length [of E now c] that by (cases c) auto
  ultimately show ?thesis using all by simp
qed

text \<open>C23: what is sent to a provider that calls tools itself is the content of the repaired agent view, nothing more and
  nothing less and in its order; every message of it is one the agent may see; and neighbouring messages have different roles,
  tool results counting as a role of their own.\<close>

theorem request_visible_and_alternating:
  assumes "\<not> le_toolshim L"
  shows "successively (\<lambda>a b. effective_role a \<noteq> effective_role b) (provider_request V L ms) \<and>
     list_all (\<lambda>m. agent_visible (m_metadata m)) (provider_request V L ms) \<and>
     concat (map m_content (provider_request V L ms)) =
       (if agent_visible_messages ms = [] then []
        else concat (map m_content (fst (fix_messages (oe_ext V) (oe_now V) (agent_visible_messages ms)))))"
proof -
  let ?fixed = "fst (fix_conversation (oe_ext V) (oe_now V) (agent_visible_messages ms))"
  from assms have req: "provider_request V L ms = merge_consecutive_messages_for_request ?fixed"
    by (simp add: provider_request_def Let_def)
  have "\<forall>m \<in> set (provider_request V L ms). visible m"
    unfolding req by (intro merge_for_request_visible fix_visible [THEN conjunct1] view_visible)
  with merge_for_request_alternates [of ?fixed] fix_visible [OF view_visible, of "oe_ext V" "oe_now V" ms]
  show ?thesis by (simp add: req list_all_iff)
qed

subsection \<open>Tool requests\<close>

definition message_requests :: "Message \<Rightarrow> ToolRequest list" where
  "message_requests m = filter_map as_tool_request (m_content m)"

definition tool_requests :: "Message list \<Rightarrow> ToolRequest list" where
  "tool_requests ms = concat (map message_requests ms)"

lemma tool_requests_simps [simp]:
  "tool_requests [] = []" "tool_requests (m # ms) = message_requests m @ tool_requests ms"
  "tool_requests (ms @ ms') = tool_requests ms @ tool_requests ms'"
  by (simp_all add: tool_requests_def)

lemma requests_of_concat: "filter_map as_tool_request (concat (map m_content ms)) = tool_requests ms"
  by (induction ms) (simp_all add: message_requests_def)

lemma message_requests_cong: "m_content m = m_content m' \<Longrightarrow> message_requests m = message_requests m'"
  by (simp add: message_requests_def)

text \<open>Keeping the first request of each identifier.\<close>

lemma unique_requests_append:
  "unique_requests seen (xs @ ys) = unique_requests seen xs @ unique_requests (seen \<union> tr_id ` set xs) ys"
proof (induction xs arbitrary: seen)
  case (Cons x xs)
  then show ?case by (auto simp: insert_absorb)
qed simp

lemma unique_requests_ids: "tr_id ` set (unique_requests seen rs) = tr_id ` set rs - seen"
  by (induction rs arbitrary: seen) auto

lemma unique_requests_distinct: "distinct (map tr_id (unique_requests seen rs))"
proof (induction rs arbitrary: seen)
  case (Cons r rs)
  then show ?case using unique_requests_ids [of "insert (tr_id r) seen" rs] by auto
qed simp

lemma unique_requests_subseq: "subseq (unique_requests seen rs) rs"
  by (induction rs arbitrary: seen) auto

lemma drop_repeated_unique:
  "filter_map as_tool_request (fst (drop_repeated seen bs)) = unique_requests seen (filter_map as_tool_request bs) \<and>
   snd (drop_repeated seen bs) = seen \<union> tr_id ` set (filter_map as_tool_request bs)"
proof (induction bs arbitrary: seen)
  case (Cons b bs)
  show ?case
  proof (cases b)
    case (ToolRequest r)
    with Cons.IH [of seen] Cons.IH [of "insert (tr_id r) seen"] show ?thesis
      by (auto split: prod.splits)
  qed (use Cons.IH [of seen] in \<open>auto split: prod.splits\<close>)
qed simp

text \<open>Nothing that is done to the accumulated answer loses or adds a tool request.\<close>

lemma last_no_request:
  assumes "last_opt bs = Some b" "as_tool_request b = None"
  shows "filter_map as_tool_request (butlast bs) = filter_map as_tool_request bs"
    and "length bs = Suc 0 \<Longrightarrow> filter_map as_tool_request bs = []"
proof -
  from last_opt_SomeD [OF assms(1)] obtain xs where "bs = xs @ [b]" by blast
  with assms(2) show "filter_map as_tool_request (butlast bs) = filter_map as_tool_request bs"
    and "length bs = Suc 0 \<Longrightarrow> filter_map as_tool_request bs = []" by simp_all
qed

lemma extend_content_requests:
  "filter_map as_tool_request (extend_content old new) = filter_map as_tool_request (old @ new)"
  by (auto simp: extend_content_def last_no_request split: option.splits MessageContentBlock.splits)

lemma tool_requests_update_last:
  assumes "ms \<noteq> []" "message_requests (f (last ms)) = message_requests (last ms) @ rs"
  shows "tool_requests (update_last f ms) = tool_requests ms @ rs"
  using assms by (cases ms rule: rev_cases) simp_all

lemma tool_requests_update_rfind:
  "update_rfind p f ms = Some ms' \<Longrightarrow> (\<And>m. message_requests (f m) = message_requests m) \<Longrightarrow>
   tool_requests ms' = tool_requests ms"
  by (induction ms arbitrary: ms') (auto split: option.splits if_splits)

lemma conv_push_requests: "tool_requests (conv_push m ms) = tool_requests ms @ message_requests m"
proof (cases "m_content m = [] \<and> (inference (m_metadata m) \<noteq> None \<or> output_token_limit_reached (m_metadata m))")
  case True
  have "message_requests (absorb_marker m x) = message_requests x" for x
    by (simp add: absorb_marker_def message_requests_def Let_def split: option.splits)
  moreover from True have "message_requests m = []" "message_requests (with_visibility m True False) = []"
    by (simp_all add: message_requests_def with_visibility_def)
  ultimately show ?thesis using True
    by (auto simp: conv_push_def dest: tool_requests_update_rfind split: option.splits)
next
  case False
  have abs: "message_requests (absorb_delta m l) = message_requests l @ message_requests m" for l
    by (simp add: absorb_delta_def message_requests_def Let_def extend_content_requests)
  from False show ?thesis
    by (auto simp: conv_push_def last_opt_def abs intro!: tool_requests_update_last split: option.splits if_splits)
qed

lemma thinking_no_request: "is_thinking b \<Longrightarrow> as_tool_request b = None"
  by (cases b) auto

lemma thinking_requests:
  "filter_map as_tool_request (filter is_thinking bs) = []"
  "filter_map as_tool_request (filter (\<lambda>b. \<not> is_thinking b) bs) = filter_map as_tool_request bs"
  by (induction bs) (auto simp: thinking_no_request split: option.splits)

lemma insert_before_request_requests:
  assumes "filter_map as_tool_request thinking = []"
  shows "filter_map as_tool_request (insert_before_request thinking bs) = filter_map as_tool_request bs"
proof -
  have "filter_map as_tool_request bs = filter_map as_tool_request
      (takeWhile (\<lambda>b. \<not> is_tool_request_block b) bs @ dropWhile (\<lambda>b. \<not> is_tool_request_block b) bs)" by simp
  with assms show ?thesis unfolding insert_before_request_def filter_map_append by simp
qed

lemma filter_nonempty_requests: "tool_requests (filter (\<lambda>m. m_content m \<noteq> []) ms) = tool_requests ms"
  by (induction ms) (auto simp: message_requests_def)

lemma map_requests: "(\<And>m. message_requests (f m) = message_requests m) \<Longrightarrow> tool_requests (map f ms) = tool_requests ms"
  by (simp add: tool_requests_def comp_def)

lemma normalize_requests:
  assumes "normalize_tool_call_thinking acc chunk = (acc', chunk')"
  shows "tool_requests acc' = tool_requests acc \<and> message_requests chunk' = message_requests chunk"
proof -
  let ?f = "\<lambda>m. if gives_thinking chunk m then m\<lparr>m_content := filter (\<lambda>b. \<not> is_thinking b) (m_content m)\<rparr> else m"
  let ?prior = "concat (map (\<lambda>m. if gives_thinking chunk m then filter is_thinking (m_content m) else []) acc)"
  have "tool_requests (map ?f acc) = tool_requests acc"
    by (rule map_requests) (simp add: message_requests_def thinking_requests)
  moreover have "filter_map as_tool_request ?prior = []"
    by (induction acc) (simp_all add: thinking_requests)
  ultimately show ?thesis using assms
    by (auto simp: normalize_tool_call_thinking_def Let_def filter_nonempty_requests message_requests_def
        insert_before_request_requests split: if_splits)
qed

subsection \<open>Reading the answer\<close>

lemma emit_message_content:
  assumes "emit_message V m w = (r, w')"
  shows "\<exists>m'. r = Inr m' \<and> m_content m' = m_content m \<and> w_cancelled w' = w_cancelled w"
proof -
  obtain m' w1 where e: "id_if_missing V m w = (m', w1)" by fastforce
  moreover from e have "w_cancelled w1 = w_cancelled w"
    by (auto simp: id_if_missing_def gen_uuid_def split: if_splits)
  ultimately show ?thesis using assms resp_ids_emitted [OF e]
    by (auto simp: emit_message_def emit_event_def)
qed

lemma take_message_requests:
  assumes "take_message V im m an w = (r, w')"
  shows "\<exists>an'. r = Inr an' \<and> w_cancelled w' = w_cancelled w \<and> an_effects an' = an_effects an \<and> an_error an' = an_error an \<and>
    tool_requests (an_accumulator an') =
      tool_requests (an_accumulator an) @ unique_requests (an_request_ids an) (message_requests m) \<and>
    an_request_ids an' = an_request_ids an \<union> tr_id ` set (message_requests m)"
proof -
  let ?m1 = "case im of Some i \<Rightarrow> with_inference_if_assistant m i | None \<Rightarrow> m"
  obtain content ids where d: "drop_repeated (an_request_ids an) (m_content ?m1) = (content, ids)" by fastforce
  obtain acc chunk where n: "normalize_tool_call_thinking (an_accumulator an) (?m1\<lparr>m_content := content\<rparr>) = (acc, chunk)"
    by fastforce
  obtain r1 w1 where e: "emit_message V chunk w = (r1, w1)" by fastforce
  from emit_message_content [OF e] obtain chunk' where c: "r1 = Inr chunk'" "m_content chunk' = m_content chunk"
      "w_cancelled w1 = w_cancelled w" by blast
  have m1: "m_content ?m1 = m_content m"
    by (simp add: with_inference_if_assistant_def with_inference_def split: option.splits)
  have "ids = an_request_ids an \<union> tr_id ` set (message_requests m)"
    "tool_requests acc = tool_requests (an_accumulator an)"
    "message_requests chunk = unique_requests (an_request_ids an) (message_requests m)"
    using drop_repeated_unique [of "an_request_ids an" "m_content ?m1"] normalize_requests [OF n] d
    by (simp_all add: m1 message_requests_def)
  with assms d n e c message_requests_cong [OF c(2)] show ?thesis
    by (auto simp: take_message_def Let_def andThen_def conv_push_requests split: if_splits)
qed

text \<open>The tool requests of what was delivered before an error.\<close>

fun chunk_requests :: "ProviderError + chunk \<Rightarrow> ToolRequest list" where
  "chunk_requests (Inr (Some m, _)) = message_requests m"
| "chunk_requests _ = []"

definition delivered_requests :: "(ProviderError + chunk) list \<Rightarrow> ToolRequest list" where
  "delivered_requests items = concat (map chunk_requests (takeWhile is_ok items))"

lemma delivered_requests_simps [simp]:
  "delivered_requests [] = []" "delivered_requests (Inl e # items) = []"
  "delivered_requests (Inr ch # items) = chunk_requests (Inr ch) @ delivered_requests items"
  by (simp_all add: delivered_requests_def is_ok_def)

lemma next_chunk_requests:
  assumes "next_chunk V L ch rd w = ((ch', rd'), w')"
  shows "chunk_requests (Inr ch') = chunk_requests (Inr ch) \<and> w_cancelled w' = w_cancelled w"
  using assms
  by (cases ch)
    (auto simp: next_chunk_def read_shim_chunk_def read_chunk_def assign_chunk_id_def id_if_missing_def gen_uuid_def Let_def
      with_generated_id_if_missing_def with_generated_id_def with_id_def message_requests_def
      split: if_splits option.splits prod.splits)

lemma read_stream_requests:
  assumes "read_stream V L im items rd an w = (r, w')" "\<not> w_cancelled w"
  shows "\<exists>an'. r = Inr an' \<and> (\<exists>us. an_effects an' = an_effects an @ map RecordUsage us) \<and>
    tool_requests (an_accumulator an') =
      tool_requests (an_accumulator an) @ unique_requests (an_request_ids an) (delivered_requests items)"
  using assms
proof (induction items arbitrary: rd an w)
  case (Cons item items)
  show ?case
  proof (cases item)
    case (Inl e)
    with Cons.prems show ?thesis by (auto intro: exI [of _ "[]"])
  next
    case (Inr ch)
    obtain msg u rd1 w1 where n: "next_chunk V L ch rd w = (((msg, u), rd1), w1)" by (metis prod.collapse)
    let ?an = "case u of Some v \<Rightarrow> an\<lparr>an_effects := an_effects an @ [RecordUsage v]\<rparr> | None \<Rightarrow> an"
    have an: "an_accumulator ?an = an_accumulator an" "an_request_ids ?an = an_request_ids an"
      "\<exists>us. an_effects ?an = an_effects an @ map RecordUsage us"
      by (cases u; auto intro: exI [of _ "[]"] exI [of _ "[v]" for v])+
    let ?step = "case msg of Some m \<Rightarrow> take_message V im m ?an | None \<Rightarrow> ret ?an"
    obtain r1 w2 where st: "?step w1 = (r1, w2)" by fastforce
    have "\<exists>an1. r1 = Inr an1 \<and> w_cancelled w2 = w_cancelled w1 \<and> an_effects an1 = an_effects ?an \<and>
      tool_requests (an_accumulator an1) =
        tool_requests (an_accumulator an) @ unique_requests (an_request_ids an) (chunk_requests (Inr (msg, u))) \<and>
      an_request_ids an1 = an_request_ids an \<union> tr_id ` set (chunk_requests (Inr (msg, u)))"
      using st take_message_requests an(1,2) by (cases msg) fastforce+
    then obtain an1 where an1: "r1 = Inr an1" "w_cancelled w2 = w_cancelled w1" "an_effects an1 = an_effects ?an"
      "tool_requests (an_accumulator an1) =
        tool_requests (an_accumulator an) @ unique_requests (an_request_ids an) (chunk_requests (Inr (msg, u)))"
      "an_request_ids an1 = an_request_ids an \<union> tr_id ` set (chunk_requests (Inr (msg, u)))" by blast
    from Cons.prems Inr n st an1(1) have rest: "read_stream V L im items rd1 an1 w2 = (r, w')"
      by (simp add: andThen_def)
    from next_chunk_requests [OF n] Cons.prems(2) an1(2) have "\<not> w_cancelled w2" by simp
    from Cons.IH [OF rest this] obtain an' us where an': "r = Inr an'" "an_effects an' = an_effects an1 @ map RecordUsage us"
      "tool_requests (an_accumulator an') =
        tool_requests (an_accumulator an1) @ unique_requests (an_request_ids an1) (delivered_requests items)" by blast
    from an(3) obtain vs where "an_effects ?an = an_effects an @ map RecordUsage vs" by blast
    with an'(2) an1(3) have "\<exists>us. an_effects an' = an_effects an @ map RecordUsage us"
      by (auto intro: exI [of _ "vs @ us"])
    with an' an1 next_chunk_requests [OF n] Inr show ?thesis by (simp add: unique_requests_append)
  qed
qed (auto intro: exI [of _ "[]"])

lemma read_until_cancelled_requests:
  assumes "read_until_cancelled V L im items an w = (r, w')" "\<not> w_cancelled w"
  shows "\<exists>an'. r = Inr an' \<and> (\<exists>us. an_effects an' = an_effects an @ map RecordUsage us) \<and>
    tool_requests (an_accumulator an') = tool_requests (an_accumulator an) @ unique_requests (an_request_ids an)
      (delivered_requests (case le_cancel_after L of None \<Rightarrow> items | Some n \<Rightarrow> take n items))"
  using assms read_stream_requests
  by (fastforce simp: read_until_cancelled_def split: option.splits if_splits prod.splits)

subsection \<open>The new messages\<close>

lemma new_messages_applied [simp]:
  "new_messages (Applied r) = filter_map appended_message (effects r)"
  "new_messages (applied es) = filter_map appended_message es"
  "new_messages (yielded_with es) = filter_map appended_message es"
  "new_messages NotApplicable = []"
  by (simp_all add: new_messages_def applied_def yielded_with_def)

lemma appended_map [simp]:
  "filter_map appended_message (map AppendMessage ms) = ms" "filter_map appended_message (map RecordUsage us) = []"
  by (induction ms, simp_all) (induction us, simp_all)

lemma no_requests [simp]:
  "message_requests (from_provider_error now e) = []" "message_requests (assistant_message V t) = []"
  by (simp_all add: message_requests_def from_provider_error_def with_error_def with_metadata_def block_error_def with_content_def Message_assistant_def
      Message_new_def assistant_message_def with_text_def Let_def)

lemma blank_no_requests: "empty_response acc \<Longrightarrow> tool_requests acc = []"
proof -
  have "is_blank_block b \<Longrightarrow> as_tool_request b = None" for b by (cases b) auto
  then show "empty_response acc \<Longrightarrow> tool_requests acc = []"
    by (auto simp: empty_response_def tool_requests_def message_requests_def list_all_iff filter_map_eq_Nil)
qed

lemma turn_context_no_requests: "turn_context_event V skip wd limit parts t = Some e \<Longrightarrow> message_requests e = []"
  by (auto simp: turn_context_event_def message_requests_def with_metadata_def with_text_def with_content_def Message_user_def
      Message_new_def split: if_splits)

lemma prepared_context_no_requests:
  "pr_turn_context (prepare_request V L mode session c turn input) = Some e \<Longrightarrow> message_requests e = []"
  by (auto simp: prepare_request_def Let_def dest: turn_context_no_requests split: prod.splits option.splits if_splits)

lemma finish_answer_requests:
  assumes "finish_answer V L prompt ms tools an w = (Inr result, w')"
  shows "tool_requests (new_messages result) =
    tool_requests (filter_map appended_message (an_effects an)) @ tool_requests (an_accumulator an)"
proof (cases "an_error an")
  case (Some e)
  with assms show ?thesis
    by (auto simp: finish_answer_def Let_def error_outcome_def andThen_def split: sum.splits prod.splits
        dest!: emit_message_content message_requests_cong)
next
  case None
  show ?thesis
  proof (cases "empty_response (an_accumulator an)")
    case True
    with None assms blank_no_requests [OF True] show ?thesis
      by (auto simp: finish_answer_def Let_def andThen_def split: sum.splits prod.splits
          dest!: emit_message_content message_requests_cong)
  next
    case False
    with None assms show ?thesis
      by (auto simp: finish_answer_def Let_def andThen_def lift_def split: sum.splits prod.splits option.splits if_splits)
  qed
qed

lemma finish_answer_outcome:
  "\<exists>out w'. finish_answer V L prompt ms tools an w = (out, w') \<and>
     (case out of Inl e \<Rightarrow> le_token_counter L = Inl e | Inr result \<Rightarrow> result \<noteq> NotApplicable)"
  by (cases "finish_answer V L prompt ms tools an w")
    (auto simp: finish_answer_def Let_def andThen_def lift_def error_outcome_def ensure_usage_tokens_def emit_message_def
      applied_def yielded_with_def split: sum.splits prod.splits option.splits if_splits Usage.splits)

text \<open>C22: an inference that applies gives a result, unless the token counter fails; and the tool requests it
  appends to the conversation are the requests the provider delivered before an error or the cancellation:
  in the order of delivery, with every identifier that was delivered, and each of them once.\<close>

theorem inferred_requests_delivered:
  assumes "inference_applies c" "messages_since_kickoff c = Inr turn" "\<not> w_cancelled w"
    and "pr = prepare_request V L (w_goose_mode w) session c turn input"
    and "items = stream_response_from_provider V L (s_id session) (pr_prompt pr) (pr_messages pr) (pr_tools pr) (pr_shim_tools pr)"
    and "rs = delivered_requests (case le_cancel_after L of None \<Rightarrow> items | Some n \<Rightarrow> take n items)"
  shows "\<exists>out w'. infer V L session c input w = (out, w') \<and>
    (case out of
       Inl e \<Rightarrow> le_token_counter L = Inl e
     | Inr result \<Rightarrow> result \<noteq> NotApplicable \<and> distinct (map tr_id (tool_requests (new_messages result))) \<and>
         subseq (tool_requests (new_messages result)) rs \<and>
         tr_id ` set (tool_requests (new_messages result)) = tr_id ` set rs)"
proof -
  let ?im = "map_option (\<lambda>resolved. \<lparr>im_provider = le_provider_name L, im_requested_model = le_model_name L,
                                       im_resolved_model = Some resolved\<rparr>) (le_resolved_model L)"
  let ?w = "if w_goose_mode w = SmartApprove
            then w\<lparr>w_permissions := pm_apply_tool_annotations (ii_tools input) (w_permissions w)\<rparr> else w"
  let ?an = "\<lparr>an_accumulator = [], an_request_ids = {},
    an_effects = (case pr_turn_context pr of Some e \<Rightarrow> [AppendMessage e] | None \<Rightarrow> []), an_error = None\<rparr>"
  obtain r1 w1 where read: "read_until_cancelled V L ?im items ?an ?w = (r1, w1)" by fastforce
  from assms(3) have "\<not> w_cancelled ?w" by simp
  from read_until_cancelled_requests [OF read this] obtain an us where an: "r1 = Inr an"
      "an_effects an = an_effects ?an @ map RecordUsage us" "tool_requests (an_accumulator an) = unique_requests {} rs"
    by (auto simp: assms(6))
  obtain out w' where fin: "finish_answer V L (pr_prompt pr) (pr_messages pr) (pr_tools pr) an w1 = (out, w')"
      "case out of Inl e \<Rightarrow> le_token_counter L = Inl e | Inr result \<Rightarrow> result \<noteq> NotApplicable"
    using finish_answer_outcome [of V L "pr_prompt pr" "pr_messages pr" "pr_tools pr" an w1] by blast
  from assms(1,2) read an(1) fin(1) have out: "infer V L session c input w = (out, w')"
    by (simp add: inference_applies_def infer_def andThen_def lift_def Let_def assms(4,5))
  have "tool_requests (new_messages result) = unique_requests {} rs" if "out = Inr result" for result
    using finish_answer_requests [OF fin(1) [unfolded that]] an(2,3)
      prepared_context_no_requests [of V L "w_goose_mode w" session c turn input]
    by (auto simp: assms(4) split: option.splits)
  then have "\<forall>result. out = Inr result \<longrightarrow> distinct (map tr_id (tool_requests (new_messages result))) \<and>
      subseq (tool_requests (new_messages result)) rs \<and> tr_id ` set (tool_requests (new_messages result)) = tr_id ` set rs"
    by (simp add: unique_requests_distinct unique_requests_subseq unique_requests_ids)
  with out fin(2) show ?thesis by (auto split: sum.splits)
qed

subsection \<open>Cancellation\<close>

lemma resp_ids_cancelled:
  "resp_ids (fold (answer_cancelled A) reqs m) = resp_ids m @ filter (\<lambda>i. i \<notin> A) (map tr_id reqs)"
  by (induction reqs arbitrary: m) (simp_all add: answer_cancelled_def)

lemma message_requests_cancelled: "message_requests (fold (answer_cancelled A) reqs m) = message_requests m"
  by (induction reqs arbitrary: m)
    (simp_all add: answer_cancelled_def add_tool_response_with_metadata_def message_requests_def
      tool_response_with_metadata_def)

definition response_ids :: "Message list \<Rightarrow> string list" where
  "response_ids ms = concat (map resp_ids ms)"

lemma response_ids_append [simp]: "response_ids (ms @ ms') = response_ids ms @ response_ids ms'"
  by (simp add: response_ids_def)

lemma set_response_ids: "set (response_ids ms) = (\<Union>m \<in> set ms. get_tool_response_ids m)"
  by (simp add: response_ids_def get_tool_response_ids_resp)

text \<open>A result with messages added after its effects: nothing that it holds is lost.\<close>

definition add_answers :: "Message list \<Rightarrow> OperationResult \<Rightarrow> OperationResult" where
  "add_answers ms result =
     (case result of
        NotApplicable \<Rightarrow> if ms = [] then NotApplicable else Applied \<lparr>effects = map AppendMessage ms, yield_to_client = False\<rparr>
      | Applied r \<Rightarrow> Applied \<lparr>effects = effects r @ map AppendMessage ms, yield_to_client = yield_to_client r\<rparr>)"

lemma cancel_answers_open:
  assumes "messages_since_kickoff c = Inr turn"
  shows "\<exists>result' w' answers. llm_cancel V session c result w = (Inr result', w') \<and> result' = add_answers answers result \<and>
     length answers \<le> 1 \<and> new_messages result' = new_messages result @ answers \<and> distinct (response_ids answers) \<and>
     set (response_ids answers) =
       tr_id ` set (tool_requests (turn @ new_messages result)) - set (response_ids (c @ turn @ new_messages result)) \<and>
     tr_id ` set (tool_requests (turn @ new_messages result')) \<subseteq> set (response_ids (c @ turn @ new_messages result'))"
proof -
  let ?seen = "turn @ new_messages result"
  let ?A = "(\<Union>m \<in> set c. get_tool_response_ids m) \<union> (\<Union>m \<in> set ?seen. get_tool_response_ids m)"
  let ?rs = "unique_requests {} (filter_map as_tool_request (concat (map m_content ?seen)))"
  let ?m = "fold (answer_cancelled ?A) ?rs (Message_user (oe_now V))"
  have ids: "resp_ids ?m = filter (\<lambda>i. i \<notin> ?A) (map tr_id ?rs)" by (simp add: resp_ids_cancelled)
  have A: "?A = set (response_ids (c @ ?seen))" by (auto simp: set_response_ids)
  have d: "distinct (resp_ids ?m)" unfolding ids by (intro distinct_filter unique_requests_distinct)
  have "set (resp_ids ?m) = tr_id ` set ?rs - ?A" unfolding ids by auto
  then have answered: "set (resp_ids ?m) = tr_id ` set (tool_requests ?seen) - set (response_ids (c @ ?seen))"
    unfolding A unique_requests_ids requests_of_concat Diff_empty .
  have none: "message_requests ?m = []" unfolding message_requests_cancelled by (simp add: message_requests_def)
  show ?thesis
  proof (cases "resp_ids ?m = []")
    case True
    then have "llm_cancel V session c result w = (Inr result, w)"
      using assms by (simp add: llm_cancel_def Let_def andThen_def lift_def get_tool_response_ids_resp)
    moreover have "result = add_answers [] result" by (simp add: add_answers_def split: OperationResult.split)
    ultimately show ?thesis using True answered
      by (intro exI [of _ result] exI [of _ w] exI [of _ "[]"]) (auto simp: response_ids_def)
  next
    case False
    obtain m w1 where m: "id_if_missing V ?m w = (m, w1)" by fastforce
    let ?result = "case result of NotApplicable \<Rightarrow> applied [AppendMessage m]
                   | Applied r \<Rightarrow> Applied (r\<lparr>effects := effects r @ [AppendMessage m]\<rparr>)"
    have m': "resp_ids m = resp_ids ?m" "message_requests m = []"
      using resp_ids_emitted [OF m] none by (auto simp: message_requests_def)
    have new: "new_messages ?result = new_messages result @ [m]" by (cases result) simp_all
    have add: "?result = add_answers [m] result" by (simp add: add_answers_def applied_def split: OperationResult.split)
    have "llm_cancel V session c result w = (Inr ?result, emit_event (MessageEvent m) w1)"
      using assms m False
      by (simp add: llm_cancel_def Let_def andThen_def lift_def get_tool_response_ids_resp emit_message_def)
    then show ?thesis using d answered m' new add
      by (intro exI [of _ ?result] exI [of _ "emit_event (MessageEvent m) w1"] exI [of _ "[m]"])
        (auto simp: response_ids_def)
  qed
qed

text \<open>C21: cancelling a turn keeps every effect of the interrupted operation, in order and with its wish to yield, and adds at
  most one message after them, which answers exactly the tool requests of the turn and of that operation that have no response yet, each of them once; so no
  request of the turn stays open.\<close>

theorem cancelled_requests_answered:
  assumes "messages_since_kickoff c = Inr turn"
  shows "\<exists>result' w' answers. llm_cancel V session c result w = (Inr result', w') \<and> result' = add_answers answers result \<and>
     length answers \<le> 1 \<and> new_messages result' = new_messages result @ answers \<and> distinct (response_ids answers) \<and>
     set (response_ids answers) =
       tr_id ` set (tool_requests (turn @ new_messages result)) - set (response_ids (c @ turn @ new_messages result)) \<and>
     tr_id ` set (tool_requests (turn @ new_messages result')) \<subseteq> set (response_ids (c @ turn @ new_messages result'))"
  by (rule cancel_answers_open [OF assms])

end
