(* ===== verification/Session_Properties.thy ===== *)
theory Session_Properties
  imports Session_Ops
begin

text \<open>
  The invariant of the session store and what its operations do to the conversation a session is
  read back as: appending puts a message last whatever its timestamp, truncating keeps a prefix,
  replacing gives back the new conversation, and recording usage raises the reported totals by
  exactly the recorded amount.
\<close>

subsection \<open>The store invariant\<close>

definition row_ok :: "Store \<Rightarrow> MessageRow \<Rightarrow> bool" where
  "row_ok st r =
     (mr_id r < st_next_row st \<and> role_of_string (mr_role r) \<noteq> None \<and> mr_message_id r \<noteq> None \<and>
      mr_metadata r \<noteq> None \<and> session_exists (mr_session_id r) st)"

definition store_ok :: "Store \<Rightarrow> bool" where
  "store_ok st =
     (sorted_wrt (<) (map mr_id (st_messages st)) \<and>
      list_all (row_ok st) (st_messages st) \<and>
      list_all (\<lambda>l. session_exists (lr_session_id l) st) (st_ledger st) \<and>
      distinct (map sr_id (st_sessions st)))"

lemma role_round_trip [simp]: "role_of_string (role_to_string r) = Some r"
  by (cases r) (simp_all add: role_of_string_def)

lemma session_exists_update [simp]:
  "(\<And>s. sr_id (f s) = sr_id s) \<Longrightarrow> session_exists i (update_session sid f st) = session_exists i st"
  by (auto simp: session_exists_def update_session_def list_ex_iff)

lemma session_exists_cong:
  "st_sessions st' = st_sessions st \<Longrightarrow> session_exists i st' = session_exists i st"
  by (simp add: session_exists_def)

lemma store_ok_update_session [simp]:
  assumes "\<And>s. sr_id (f s) = sr_id s"
  shows "store_ok (update_session sid f st) = store_ok st"
proof -
  have "map sr_id (st_sessions (update_session sid f st)) = map sr_id (st_sessions st)"
    by (simp add: update_session_def assms)
  moreover have "session_exists i (update_session sid f st) = session_exists i st" for i
    by (rule session_exists_update) (rule assms)
  moreover have "st_messages (update_session sid f st) = st_messages st"
      "st_next_row (update_session sid f st) = st_next_row st"
      "st_ledger (update_session sid f st) = st_ledger st"
    by (simp_all add: update_session_def)
  ultimately show ?thesis by (simp add: store_ok_def row_ok_def [abs_def])
qed

lemma store_ok_insert:
  assumes "store_ok st" "insert_message_row E sid mid c m st = Inr st'"
  shows "store_ok st'"
proof -
  from assms(2) have ex: "session_exists sid st" and st': "st' =
      st\<lparr>st_messages := st_messages st @
            [\<lparr>mr_id = st_next_row st, mr_message_id = Some mid, mr_session_id = sid,
              mr_role = role_to_string (m_role m), mr_content = stored_content E (m_content m),
              mr_created = c, mr_metadata = Some (m_metadata m)\<rparr>],
         st_next_row := Suc (st_next_row st)\<rparr>"
    by (auto simp: insert_message_row_def split: if_splits)
  have "session_exists i st' = session_exists i st" for i
    by (simp add: st' session_exists_def)
  with assms(1) ex show ?thesis
    by (auto simp: store_ok_def row_ok_def st' list_all_iff sorted_wrt_append less_Suc_eq)
qed

lemma store_ok_add_message:
  "store_ok st \<Longrightarrow> add_message E sid now uuid m st = Inr st' \<Longrightarrow> store_ok st'"
  by (auto simp: add_message_def Let_def split: sum.splits dest: store_ok_insert)

lemma sorted_ids_filter:
  "sorted_wrt (<) (map mr_id (rs :: MessageRow list)) \<Longrightarrow> sorted_wrt (<) (map mr_id (filter q rs))"
  by (induction rs) auto

lemma store_ok_delete: "store_ok st \<Longrightarrow> store_ok (delete_messages p st)"
proof -
  have "session_exists i (delete_messages p st) = session_exists i st" for i
    by (simp add: delete_messages_def session_exists_def)
  then show "store_ok st \<Longrightarrow> store_ok (delete_messages p st)"
    by (auto simp: store_ok_def row_ok_def delete_messages_def list_all_iff sorted_ids_filter)
qed

lemma store_ok_insert_all:
  "store_ok st \<Longrightarrow> insert_all E sid uuid n ms st = Inr st' \<Longrightarrow> store_ok st'"
  by (induction ms arbitrary: n st) (auto split: sum.splits dest: store_ok_insert)

lemma store_ok_replace:
  "store_ok st \<Longrightarrow> replace_conversation E sid uuid c st = Inr st' \<Longrightarrow> store_ok st'"
  by (auto simp: replace_conversation_def intro: store_ok_insert_all store_ok_delete)

lemma store_ok_update_rows:
  assumes "store_ok st" "\<And>r. mr_id (f r) = mr_id r" "\<And>r. row_ok st r \<Longrightarrow> row_ok st (f r)"
  shows "store_ok (update_rows p f st)"
proof -
  let ?st' = "update_rows p f st"
  have "session_exists i ?st' = session_exists i st" for i
    by (simp add: update_rows_def session_exists_def)
  moreover from this have "row_ok ?st' = row_ok st"
    by (simp add: row_ok_def fun_eq_iff update_rows_def)
  moreover have "map mr_id (st_messages ?st') = map mr_id (st_messages st)"
    using assms(2) by (simp add: update_rows_def)
  moreover have "list_all (row_ok st) (st_messages ?st')"
    using assms(1,3) by (auto simp: store_ok_def update_rows_def list_all_iff)
  moreover have "st_ledger ?st' = st_ledger st" "st_sessions ?st' = st_sessions st"
    by (simp_all add: update_rows_def)
  ultimately show ?thesis using assms(1) by (simp add: store_ok_def)
qed

subsection \<open>Order of the rows\<close>

lemma insort_key_append_max:
  "\<forall>z \<in> set zs. f z \<le> f x \<Longrightarrow> f y \<le> f x \<Longrightarrow> insort_key f y (zs @ [x]) = insort_key f y zs @ [x]"
  by (induction zs) auto

lemma sort_key_snoc_max:
  "\<forall>y \<in> set xs. f y \<le> f x \<Longrightarrow> sort_key f (xs @ [x]) = sort_key f xs @ [x]"
  by (induction xs) (simp_all add: insort_key_append_max)

lemma insort_key_cong:
  "(\<And>y. y \<in> set ys \<Longrightarrow> f x \<le> f y \<longleftrightarrow> g x \<le> g y) \<Longrightarrow> insort_key f x ys = insort_key g x ys"
  by (induction ys) auto

text \<open>Row ids only grow, so ordering by timestamp and id is the stable order by timestamp.\<close>

lemma order_by_created_stable:
  "sorted_wrt (<) (map mr_id rs) \<Longrightarrow> order_by_created rs = sort_key mr_created rs"
proof (induction rs)
  case (Cons r rs)
  have "insort_key (\<lambda>r. (mr_created r, mr_id r)) r (sort_key mr_created rs) =
      insort_key mr_created r (sort_key mr_created rs)"
    by (rule insort_key_cong) (use Cons.prems in \<open>auto simp: less_eq_prod_def\<close>)
  with Cons show ?case by (simp add: order_by_created_def)
qed (simp add: order_by_created_def)

lemma rows_of_sorted: "store_ok st \<Longrightarrow> sorted_wrt (<) (map mr_id (rows_of sid st))"
  by (simp add: store_ok_def rows_of_def sorted_ids_filter)

lemma get_conversation_stable:
  "store_ok st \<Longrightarrow> get_conversation sid st = filter_map message_of_row (sort_key mr_created (rows_of sid st))"
  by (simp add: get_conversation_def order_by_created_stable rows_of_sorted)

subsection \<open>Appending\<close>

lemma latest_created_None: "latest_created sid st = None \<longleftrightarrow> rows_of sid st = []"
  by (auto simp: latest_created_def split: list.splits)

lemma fold_max_ge: "(t :: int) \<le> fold max ts t \<and> (\<forall>u \<in> set ts. u \<le> fold max ts t)"
  by (induction ts arbitrary: t) (auto simp: max_def intro: order.trans, (meson nle_le order_trans)+)

lemma latest_created_ge:
  "latest_created sid st = Some t \<Longrightarrow> r \<in> set (rows_of sid st) \<Longrightarrow> mr_created r \<le> t"
proof -
  assume l: "latest_created sid st = Some t" and r: "r \<in> set (rows_of sid st)"
  then obtain u us where us: "map mr_created (rows_of sid st) = u # us" "t = fold max us u"
    by (auto simp: latest_created_def split: list.splits)
  from r have "mr_created r \<in> set (u # us)" by (metis us(1) image_eqI list.set_map)
  with us(2) fold_max_ge [of u us] show "mr_created r \<le> t" by auto
qed

definition reloaded :: "ext \<Rightarrow> Message \<Rightarrow> Message" where
  "reloaded E m = m\<lparr>m_content := stored_content E (m_content m)\<rparr>"

definition stored :: "ext \<Rightarrow> string \<Rightarrow> int \<Rightarrow> Message \<Rightarrow> Message" where
  "stored E mid created m = (reloaded E m)\<lparr>m_id := Some mid, m_created := created\<rparr>"

lemma message_of_inserted:
  "message_of_row \<lparr>mr_id = n, mr_message_id = Some mid, mr_session_id = sid,
     mr_role = role_to_string (m_role m), mr_content = stored_content E (m_content m), mr_created = c,
     mr_metadata = Some (m_metadata m)\<rparr> = Some (stored E mid c m)"
  by (simp add: message_of_row_def stored_def reloaded_def Message_new_def with_id_def)

definition append_created :: "string \<Rightarrow> Store \<Rightarrow> Message \<Rightarrow> int" where
  "append_created sid st m =
     max (m_created m) (case latest_created sid st of Some t \<Rightarrow> t | None \<Rightarrow> m_created m)"

lemma get_conversation_insert:
  assumes ok: "store_ok st" and ins: "insert_message_row E sid mid c m st = Inr st'"
    and c: "\<And>r. r \<in> set (rows_of sid st) \<Longrightarrow> mr_created r \<le> c"
  shows "get_conversation sid st' = get_conversation sid st @ [stored E mid c m]"
    and "i \<noteq> sid \<Longrightarrow> get_conversation i st' = get_conversation i st"
proof -
  let ?new = "\<lparr>mr_id = st_next_row st, mr_message_id = Some mid, mr_session_id = sid,
     mr_role = role_to_string (m_role m), mr_content = stored_content E (m_content m), mr_created = c,
     mr_metadata = Some (m_metadata m)\<rparr>"
  from ins have st': "st_messages st' = st_messages st @ [?new]"
    by (auto simp: insert_message_row_def split: if_splits)
  have rows: "rows_of i st' = rows_of i st @ (if i = sid then [?new] else [])" for i
    by (simp add: rows_of_def st')
  then show "get_conversation i st' = get_conversation i st" if "i \<noteq> sid"
    using that by (simp add: get_conversation_def)
  from store_ok_insert [OF ok ins] have "get_conversation sid st' =
      filter_map message_of_row (sort_key mr_created (rows_of sid st @ [?new]))"
    by (simp add: get_conversation_stable rows)
  also have "sort_key mr_created (rows_of sid st @ [?new]) = sort_key mr_created (rows_of sid st) @ [?new]"
    by (rule sort_key_snoc_max) (use c in auto)
  finally show "get_conversation sid st' = get_conversation sid st @ [stored E mid c m]"
    using ok by (simp add: get_conversation_stable message_of_inserted)
qed

lemma get_conversation_update_session [simp]:
  "get_conversation i (update_session sid f st) = get_conversation i st"
  by (simp add: get_conversation_def rows_of_def update_session_def)

lemma add_message_last:
  assumes "store_ok st" "session_exists sid st"
  shows "\<exists>st'. add_message E sid now uuid m st = Inr st' \<and> store_ok st' \<and>
     get_conversation sid st' =
       get_conversation sid st @ [(reloaded E m)\<lparr>m_id := Some (message_id_or sid uuid m),
                                              m_created := append_created sid st m\<rparr>] \<and>
     (\<forall>i. i \<noteq> sid \<longrightarrow> get_conversation i st' = get_conversation i st)"
proof -
  let ?c = "append_created sid st m"
  obtain st1 where ins: "insert_message_row E sid (message_id_or sid uuid m) ?c m st = Inr st1"
    using assms(2) by (simp add: insert_message_row_def)
  let ?st' = "update_session sid (\<lambda>s. s\<lparr>sr_updated_at := now\<rparr>) st1"
  from ins have add: "add_message E sid now uuid m st = Inr ?st'"
    by (simp add: add_message_def append_created_def Let_def)
  have "mr_created r \<le> ?c" if "r \<in> set (rows_of sid st)" for r
    using that latest_created_ge [of sid st] latest_created_None [of sid st]
    by (fastforce simp: append_created_def split: option.splits)
  note g = get_conversation_insert [OF assms(1) ins this]
  from add store_ok_add_message [OF assms(1) add] g show ?thesis
    by (intro exI [of _ ?st']) (simp add: stored_def)
qed

text \<open>A message added to an existing session is read back as the last one of its conversation,
  with its role and metadata, and its content up to what the JSON of an error loses, whatever its timestamp; the
  other sessions do not change.\<close>

theorem add_message_appends:
  assumes "store_ok st" "session_exists sid st"
  shows "\<exists>st'. add_message E sid now uuid m st = Inr st' \<and> store_ok st' \<and>
     get_conversation sid st' =
       get_conversation sid st @ [(reloaded E m)\<lparr>m_id := Some (message_id_or sid uuid m),
                                              m_created := append_created sid st m\<rparr>] \<and>
     (\<forall>i. i \<noteq> sid \<longrightarrow> get_conversation i st' = get_conversation i st)"
  by (rule add_message_last [OF assms])

subsection \<open>The store as a message log\<close>

text \<open>What the state machine relies on: a message with an id that is appended to a good log is its last
  message from then on, up to the timestamp the log gives it and to what its encoding loses.\<close>

definition untimed :: "Message \<Rightarrow> Message" where
  "untimed m = m\<lparr>m_created := 0\<rparr>"

locale message_log =
  fixes good :: "'s \<Rightarrow> bool"
    and load :: "'s \<Rightarrow> Message list"
    and append :: "Message \<Rightarrow> 's \<Rightarrow> error + 's"
    and encoded :: "Message \<Rightarrow> Message"
  assumes append_last:
    "good s \<Longrightarrow> m_id m \<noteq> None \<Longrightarrow>
     \<exists>s' m'. append m s = Inr s' \<and> good s' \<and> load s' = load s @ [m'] \<and> untimed m' = untimed (encoded m)"
begin

primrec append_all :: "Message list \<Rightarrow> 's \<Rightarrow> error + 's" where
  "append_all [] s = Inr s"
| "append_all (m # ms) s = (case append m s of Inl e \<Rightarrow> Inl e | Inr s' \<Rightarrow> append_all ms s')"

lemma append_all_last:
  "good s \<Longrightarrow> list_all (\<lambda>m. m_id m \<noteq> None) ms \<Longrightarrow>
   \<exists>s' ms'. append_all ms s = Inr s' \<and> good s' \<and> load s' = load s @ ms' \<and> map untimed ms' = map (untimed \<circ> encoded) ms"
proof (induction ms arbitrary: s)
  case (Cons m ms)
  then obtain s1 m' where m': "append m s = Inr s1" "good s1" "load s1 = load s @ [m']" "untimed m' = untimed (encoded m)"
    using append_last [of s m] by auto
  from Cons.IH [OF m'(2)] Cons.prems obtain s' ms' where
    "append_all ms s1 = Inr s'" "good s'" "load s' = load s1 @ ms'" "map untimed ms' = map (untimed \<circ> encoded) ms"
    by auto
  with m' show ?case by (intro exI [of _ s'] exI [of _ "m' # ms'"]) simp
qed simp

end

lemma append_same_session:
  "add_message E sid now uuid m st = Inr st' \<Longrightarrow> session_exists i st' = session_exists i st"
  by (auto simp: add_message_def insert_message_row_def Let_def split: if_splits)
    (auto simp: session_exists_def)

interpretation log: message_log
  "\<lambda>st. store_ok st \<and> session_exists sid st" "get_conversation sid" "add_message E sid now uuid" "reloaded E"
  for E sid now uuid
proof
  fix st and m :: Message
  assume st: "store_ok st \<and> session_exists sid st" and m: "m_id m \<noteq> None"
  from add_message_last [of st sid E now uuid m] st obtain st' where
    st': "add_message E sid now uuid m st = Inr st'" "store_ok st'"
      "get_conversation sid st' = get_conversation sid st @
         [(reloaded E m)\<lparr>m_id := Some (message_id_or sid uuid m), m_created := append_created sid st m\<rparr>]"
    by blast
  moreover from m have "m_id m = Some (message_id_or sid uuid m)" by (auto simp: message_id_or_def)
  then have "untimed ((reloaded E m)\<lparr>m_id := Some (message_id_or sid uuid m), m_created := append_created sid st m\<rparr>) =
      untimed (reloaded E m)"
    by (simp add: untimed_def reloaded_def)
  moreover have "session_exists sid st'" using st append_same_session [OF st'(1)] by simp
  ultimately show "\<exists>st' m'. add_message E sid now uuid m st = Inr st' \<and>
      (store_ok st' \<and> session_exists sid st') \<and>
      get_conversation sid st' = get_conversation sid st @ [m'] \<and> untimed m' = untimed (reloaded E m)"
    by blast
qed

subsection \<open>Replacing\<close>

definition row_message :: "MessageRow \<Rightarrow> Message" where
  "row_message r =
     \<lparr>m_id = mr_message_id r, m_role = the (role_of_string (mr_role r)), m_created = mr_created r,
      m_content = mr_content r,
      m_metadata = (case mr_metadata r of Some md \<Rightarrow> md | None \<Rightarrow> MessageMetadata_default)\<rparr>"

lemma message_of_row_eq:
  "role_of_string (mr_role r) \<noteq> None \<Longrightarrow> message_of_row r = Some (row_message r)"
  by (auto simp: message_of_row_def row_message_def Message_new_def with_id_def Let_def split: option.splits)

lemma filter_map_all_Some: "(\<And>x. x \<in> set xs \<Longrightarrow> f x = Some (g x)) \<Longrightarrow> filter_map f xs = map g xs"
  by (induction xs) auto

lemma get_conversation_map:
  "store_ok st \<Longrightarrow> get_conversation sid st = map row_message (sort_key mr_created (rows_of sid st))"
  by (simp add: get_conversation_stable)
    (rule filter_map_all_Some, auto simp: message_of_row_eq store_ok_def row_ok_def rows_of_def list_all_iff)

lemma map_insort_key: "map g (insort_key (\<lambda>a. f (g a)) x xs) = insort_key f (g x) (map g xs)"
  by (induction xs) auto

lemma map_sort_key: "map g (sort_key (\<lambda>a. f (g a)) xs) = sort_key f (map g xs)"
  by (induction xs) (simp_all add: map_insort_key)

lemma get_conversation_sort:
  "store_ok st \<Longrightarrow> get_conversation sid st = sort_key m_created (map row_message (rows_of sid st))"
  using map_sort_key [of row_message m_created "rows_of sid st"]
  by (simp add: get_conversation_map row_message_def)

definition with_stored_ids :: "ext \<Rightarrow> string \<Rightarrow> (nat \<Rightarrow> string) \<Rightarrow> nat \<Rightarrow> Message list \<Rightarrow> Message list" where
  "with_stored_ids E sid uuid n ms =
     map (\<lambda>(k, m). (reloaded E m)\<lparr>m_id := Some (message_id_or sid (uuid k) m)\<rparr>) (enumerate n ms)"

lemma insert_all_rows:
  "session_exists sid st \<Longrightarrow>
   \<exists>st'. insert_all E sid uuid n ms st = Inr st' \<and>
     map row_message (rows_of sid st') = map row_message (rows_of sid st) @ with_stored_ids E sid uuid n ms \<and>
     (\<forall>i. i \<noteq> sid \<longrightarrow> rows_of i st' = rows_of i st)"
proof (induction ms arbitrary: n st)
  case (Cons m ms)
  let ?st1 = "st\<lparr>st_messages := st_messages st @
      [\<lparr>mr_id = st_next_row st, mr_message_id = Some (message_id_or sid (uuid n) m), mr_session_id = sid,
        mr_role = role_to_string (m_role m), mr_content = stored_content E (m_content m),
        mr_created = m_created m, mr_metadata = Some (m_metadata m)\<rparr>],
      st_next_row := Suc (st_next_row st)\<rparr>"
  from Cons.prems have "session_exists sid ?st1" by (simp add: session_exists_def)
  from Cons.IH [OF this, of "Suc n"] Cons.prems show ?case
    by (auto simp: insert_message_row_def rows_of_def row_message_def with_stored_ids_def reloaded_def)
qed (simp add: with_stored_ids_def)

lemma rows_of_delete:
  "rows_of i (delete_messages p st) = filter (\<lambda>r. \<not> p r) (rows_of i st)"
  by (simp add: rows_of_def delete_messages_def conj_commute)

text \<open>A replaced conversation is read back in the order of its timestamps, messages with equal
  timestamps in the order given; one whose timestamps do not decrease is read back in its order, with
  an id for every message and its errors reduced to their text. No other session changes.\<close>

theorem replace_conversation_reads_back:
  assumes "store_ok st" "session_exists sid st"
  shows "\<exists>st'. replace_conversation E sid uuid c st = Inr st' \<and> store_ok st' \<and>
     get_conversation sid st' = sort_key m_created (with_stored_ids E sid uuid 0 c) \<and>
     (sorted (map m_created c) \<longrightarrow> get_conversation sid st' = with_stored_ids E sid uuid 0 c) \<and>
     (\<forall>i. i \<noteq> sid \<longrightarrow> get_conversation i st' = get_conversation i st)"
proof -
  let ?st0 = "delete_messages (\<lambda>r. mr_session_id r = sid) st"
  have "session_exists sid ?st0" using assms(2) by (simp add: session_exists_def delete_messages_def)
  from insert_all_rows [OF this, of E uuid 0 c] obtain st' where
    st': "replace_conversation E sid uuid c st = Inr st'"
      "map row_message (rows_of sid st') = map row_message (rows_of sid ?st0) @ with_stored_ids E sid uuid 0 c"
      "\<And>i. i \<noteq> sid \<Longrightarrow> rows_of i st' = rows_of i ?st0"
    by (auto simp: replace_conversation_def)
  note ok = store_ok_replace [OF assms(1) st'(1)]
  have empty: "rows_of sid ?st0 = []" by (simp add: rows_of_def delete_messages_def)
  then have conv: "get_conversation sid st' = sort_key m_created (with_stored_ids E sid uuid 0 c)"
    using ok st'(2) by (simp add: get_conversation_sort)
  have "map m_created (with_stored_ids E sid uuid n c) = map m_created c" for n
    by (induction c arbitrary: n) (simp_all add: with_stored_ids_def reloaded_def)
  then have "sorted (map m_created c) \<longrightarrow> get_conversation sid st' = with_stored_ids E sid uuid 0 c"
    by (simp add: conv sort_key_id_if_sorted)
  moreover have "get_conversation i st' = get_conversation i st" if "i \<noteq> sid" for i
  proof -
    have "filter (\<lambda>r. mr_session_id r \<noteq> sid) (rows_of i st) = rows_of i st"
      using that by (simp add: rows_of_def) (rule filter_cong, auto)
    with st'(3) [OF that] show ?thesis by (simp add: get_conversation_def rows_of_delete)
  qed
  ultimately show ?thesis using st'(1) ok conv by blast
qed

subsection \<open>Truncating\<close>

lemma sorted_key_distinct_take:
  fixes f :: "'a \<Rightarrow> 'b::linorder"
  assumes "sorted_wrt (\<lambda>x y. f x < f y) (us @ b # vs)"
  shows "filter (\<lambda>x. f x < f b) (us @ b # vs) = us"
proof -
  from assms have "\<forall>x \<in> set us. f x < f b" "\<forall>x \<in> set vs. \<not> f x < f b"
    by (auto simp: sorted_wrt_append)
  then show ?thesis by (simp add: filter_True filter_False)
qed

lemma order_by_created_strict:
  assumes "sorted_wrt (<) (map mr_id rs)"
  shows "sorted_wrt (\<lambda>x y. (mr_created x, mr_id x) < (mr_created y, mr_id y)) (order_by_created rs)"
proof -
  let ?k = "\<lambda>r. (mr_created r, mr_id r)"
  have "distinct (map mr_id rs)" using assms by (simp add: strict_sorted_iff)
  then have "inj_on ?k (set rs)" by (auto simp: inj_on_def distinct_map)
  moreover have "distinct rs" using \<open>distinct (map mr_id rs)\<close> by (simp add: distinct_map)
  ultimately have "distinct (map ?k (order_by_created rs))"
    by (simp add: order_by_created_def distinct_map)
  moreover have "sorted (map ?k (order_by_created rs))"
    by (simp add: order_by_created_def)
  ultimately have "sorted_wrt (<) (map ?k (order_by_created rs))" by (simp add: strict_sorted_iff)
  then show ?thesis by (simp add: sorted_wrt_map)
qed

lemma takeWhile_boundary:
  "\<forall>u \<in> set us. \<not> P u \<Longrightarrow> P b \<Longrightarrow> takeWhile (\<lambda>x. \<not> P x) (us @ b # vs) = us"
  by (induction us) auto

lemma get_conversation_ordered:
  "store_ok st \<Longrightarrow> get_conversation sid st = map row_message (order_by_created (rows_of sid st))"
  by (simp add: get_conversation_map order_by_created_stable rows_of_sorted)

text \<open>Truncating from a message keeps exactly the messages before its first occurrence, in their
  order, and leaves every other session alone.\<close>

theorem truncate_from_message_prefix:
  assumes "store_ok st"
  shows "get_conversation sid (truncate_conversation_from_message sid mid st) =
           takeWhile (\<lambda>m. m_id m \<noteq> Some mid) (get_conversation sid st) \<and>
         (i \<noteq> sid \<longrightarrow>
           get_conversation i (truncate_conversation_from_message sid mid st) = get_conversation i st)"
proof -
  let ?k = "\<lambda>r. (mr_created r, mr_id r)"
  let ?rs = "rows_of sid st" and ?P = "\<lambda>r. mr_message_id r = Some mid"
  have fs: "order_by_created (filter ?P ?rs) = filter ?P (order_by_created ?rs)"
    by (simp add: order_by_created_def filter_sort)
  show ?thesis
  proof (cases "filter ?P (order_by_created ?rs)")
    case Nil
    then have "truncate_conversation_from_message sid mid st = st"
      by (simp add: truncate_conversation_from_message_def fs)
    moreover from Nil assms have "\<forall>m \<in> set (get_conversation sid st). m_id m \<noteq> Some mid"
      by (auto simp: get_conversation_ordered filter_empty_conv row_message_def)
    then have "takeWhile (\<lambda>m. m_id m \<noteq> Some mid) (get_conversation sid st) = get_conversation sid st"
      by (simp only: takeWhile_eq_all_conv)
    ultimately show ?thesis by (simp only: simp_thms)
  next
    case (Cons b bs)
    from filter_eq_ConsD [OF Cons] obtain us vs where
      uv: "order_by_created ?rs = us @ b # vs" "?P b" "\<forall>u \<in> set us. \<not> ?P u" by blast
    let ?st' = "truncate_conversation_from_message sid mid st"
    have t: "?st' = delete_messages (\<lambda>r. mr_session_id r = sid \<and> \<not> ?k r < ?k b) st"
      by (auto simp: truncate_conversation_from_message_def fs Cons less_prod_def
          intro!: arg_cong2 [where f = delete_messages])
    have rows: "rows_of j ?st' = filter (\<lambda>r. mr_session_id r \<noteq> sid \<or> ?k r < ?k b) (rows_of j st)" for j
      by (simp add: t rows_of_delete)
    have other: "rows_of i ?st' = rows_of i st" if "i \<noteq> sid"
      unfolding rows using that by (simp add: rows_of_def) (rule filter_cong, auto)
    have "rows_of sid ?st' = filter (\<lambda>r. ?k r < ?k b) ?rs"
      unfolding rows by (rule filter_cong) (auto simp: rows_of_def)
    then have "order_by_created (rows_of sid ?st') = us"
      using sorted_key_distinct_take [of ?k us b vs] order_by_created_strict [OF rows_of_sorted [OF assms], of sid]
      by (simp add: order_by_created_def filter_sort [symmetric] uv(1) [unfolded order_by_created_def])
    moreover have "store_ok ?st'" using assms by (simp add: t store_ok_delete)
    moreover have "takeWhile (\<lambda>m. m_id m \<noteq> Some mid) (map row_message (us @ b # vs)) = map row_message us"
      using takeWhile_boundary [of "map row_message us" "\<lambda>m. m_id m = Some mid" "row_message b"
          "map row_message vs"] uv by (simp add: row_message_def)
    ultimately show ?thesis
      using assms other by (simp add: get_conversation_ordered uv(1))
  qed
qed

subsection \<open>Updating messages in place\<close>

lemma distinct_filter_map_inj:
  "distinct (filter_map h xs) \<Longrightarrow> x \<in> set xs \<Longrightarrow> y \<in> set xs \<Longrightarrow> h x = Some v \<Longrightarrow> h y = Some v \<Longrightarrow> x = y"
  by (induction xs) (auto simp: set_filter_map split: option.splits)

lemma sort_key_map_same:
  "(\<And>r. mr_created (g r) = mr_created r) \<Longrightarrow>
   sort_key mr_created (map g rs) = map g (sort_key mr_created (rs :: MessageRow list))"
  using map_sort_key [of g mr_created rs] by simp

lemma get_conversation_map_rows:
  assumes "store_ok st" "store_ok st'" "rows_of sid st' = map g (rows_of sid st)"
    and "\<And>r. mr_created (g r) = mr_created r"
    and "\<And>r. r \<in> set (rows_of sid st) \<Longrightarrow> row_message (g r) = h (row_message r)"
  shows "get_conversation sid st' = map h (get_conversation sid st)"
  using assms by (simp add: get_conversation_map sort_key_map_same)

lemma set_get_conversation:
  "store_ok st \<Longrightarrow> set (get_conversation sid st) = row_message ` set (rows_of sid st)"
  by (simp add: get_conversation_map)

lemma distinct_ids_rows:
  assumes "store_ok st" "distinct (filter_map m_id (get_conversation sid st))"
    and "r \<in> set (rows_of sid st)" "r' \<in> set (rows_of sid st)"
    and "mr_message_id r = Some mid" "mr_message_id r' = Some mid"
  shows "r = r'"
proof -
  have "filter_map m_id (map row_message rs) = filter_map mr_message_id rs" for rs
    by (induction rs) (auto simp: row_message_def split: option.splits)
  with assms(1,2) have "distinct (filter_map mr_message_id (sort_key mr_created (rows_of sid st)))"
    by (simp add: get_conversation_map)
  from distinct_filter_map_inj [OF this _ _ assms(5,6)] assms(3,4) show ?thesis by simp
qed

lemma rows_of_update_rows:
  "(\<And>r. mr_session_id (f r) = mr_session_id r) \<Longrightarrow>
   rows_of i (update_rows p f st) = map (\<lambda>r. if p r then f r else r) (rows_of i st)"
proof -
  assume f: "\<And>r. mr_session_id (f r) = mr_session_id r"
  have "filter (\<lambda>r. mr_session_id r = i) (map (\<lambda>r. if p r then f r else r) rs) =
      map (\<lambda>r. if p r then f r else r) (filter (\<lambda>r. mr_session_id r = i) rs)" for rs
    by (induction rs) (auto simp: f)
  then show ?thesis by (simp add: rows_of_def update_rows_def)
qed

text \<open>With distinct message ids, \<open>update_message_metadata\<close> changes the metadata of the named
  message and nothing else of the conversation; for an unknown id it fails.\<close>

theorem update_message_metadata_frame:
  assumes "store_ok st" "distinct (filter_map m_id (get_conversation sid st))"
  shows "if Some mid \<in> m_id ` set (get_conversation sid st)
         then \<exists>st'. update_message_metadata sid mid f st = Inr st' \<and> store_ok st' \<and>
           get_conversation sid st' =
             map (\<lambda>m. if m_id m = Some mid then m\<lparr>m_metadata := f (m_metadata m)\<rparr> else m)
               (get_conversation sid st)
         else update_message_metadata sid mid f st = Inl RowNotFound"
proof (cases "filter (\<lambda>r. mr_message_id r = Some mid) (rows_of sid st)")
  case Nil
  then have "Some mid \<notin> m_id ` set (get_conversation sid st)"
    using assms(1) by (auto simp: set_get_conversation row_message_def filter_empty_conv)
  with Nil show ?thesis by (simp add: update_message_metadata_def)
next
  case (Cons r rs)
  then have r: "r \<in> set (rows_of sid st)" "mr_message_id r = Some mid"
    by (auto dest: filter_eq_ConsD)
  then have ex: "Some mid \<in> m_id ` set (get_conversation sid st)"
    using assms(1) by (force simp: set_get_conversation row_message_def)
  from r assms(1) obtain md where md: "mr_metadata r = Some md"
    by (auto simp: store_ok_def row_ok_def rows_of_def list_all_iff)
  let ?f = "\<lambda>r. r\<lparr>mr_metadata := Some (f md)\<rparr>"
  let ?p = "\<lambda>r. mr_message_id r = Some mid \<and> mr_session_id r = sid"
  have upd: "update_message_metadata sid mid f st = Inr (update_rows ?p ?f st)"
    by (simp add: update_message_metadata_def Cons md)
  have ok: "store_ok (update_rows ?p ?f st)"
    by (rule store_ok_update_rows) (use assms(1) in \<open>auto simp: row_ok_def\<close>)
  have "row_message (if ?p x then ?f x else x) =
      (if m_id (row_message x) = Some mid
       then (row_message x)\<lparr>m_metadata := f (m_metadata (row_message x))\<rparr> else row_message x)"
    if "x \<in> set (rows_of sid st)" for x
    using that distinct_ids_rows [OF assms that r(1) _ r(2)] md
    by (auto simp: row_message_def rows_of_def)
  from get_conversation_map_rows [OF assms(1) ok rows_of_update_rows _ this]
  have "get_conversation sid (update_rows ?p ?f st) =
      map (\<lambda>m. if m_id m = Some mid then m\<lparr>m_metadata := f (m_metadata m)\<rparr> else m)
        (get_conversation sid st)"
    by simp
  with upd ok ex show ?thesis by simp
qed

lemma patch_content_None: "patch_content tid patch bs = None \<longleftrightarrow> \<not> list_ex (requests_tool tid) bs"
  by (induction bs) (auto simp: requests_tool_def split: MessageContentBlock.splits)

definition patch_message :: "ext \<Rightarrow> string \<Rightarrow> json \<Rightarrow> Message \<Rightarrow> Message" where
  "patch_message E tid patch m =
     (case patch_content tid patch (m_content m) of Some c \<Rightarrow> m\<lparr>m_content := stored_content E c\<rparr> | None \<Rightarrow> m)"

lemma unique_row:
  assumes "length (filter P xs) \<le> 1" "x \<in> set xs" "y \<in> set xs" "P x" "P y"
  shows "x = y"
proof -
  from assms have "{x, y} \<subseteq> set (filter P xs)" by auto
  moreover from assms(1) obtain z where "set (filter P xs) \<subseteq> {z}"
    by (cases "filter P xs") auto
  ultimately show ?thesis by auto
qed

lemma length_get_conversation: "store_ok st \<Longrightarrow> length (get_conversation sid st) = length (rows_of sid st)"
  by (simp add: get_conversation_map)

lemma requesting_rows:
  "store_ok st \<Longrightarrow>
   length (filter (\<lambda>r. list_ex (requests_tool tid) (mr_content r)) (rows_of sid st)) =
   length (filter (\<lambda>m. list_ex (requests_tool tid) (m_content m)) (get_conversation sid st))"
  by (simp add: get_conversation_map filter_map comp_def row_message_def filter_sort [symmetric]
      del: filter_map.simps) (simp add: filter_sort)

lemma sort_ids: "store_ok st \<Longrightarrow> sort_key mr_id (rows_of sid st) = rows_of sid st"
  using rows_of_sorted [of st sid] by (simp add: sort_key_id_if_sorted strict_sorted_iff)

lemma same_row_id:
  "store_ok st \<Longrightarrow> r \<in> set (rows_of sid st) \<Longrightarrow> r' \<in> set (rows_of sid st) \<Longrightarrow> mr_id r = mr_id r' \<Longrightarrow> r = r'"
  using rows_of_sorted [of st sid] by (auto simp: strict_sorted_iff distinct_map inj_on_def)

lemma filter_singleton:
  assumes "distinct xs" "x \<in> set xs" "P x" "\<And>y. y \<in> set xs \<Longrightarrow> P y \<Longrightarrow> y = x"
  shows "filter P xs = [x]"
proof -
  obtain us vs where xs: "xs = us @ x # vs" using split_list [OF assms(2)] by blast
  have "\<not> P y" if y: "y \<in> set us \<union> set vs" for y
  proof
    assume "P y"
    from y have "y \<in> set xs" by (auto simp: xs)
    from assms(4) [OF this \<open>P y\<close>] y assms(1) show False by (auto simp: xs)
  qed
  then have "filter P us = []" "filter P vs = []" by (auto simp: filter_empty_conv)
  with assms(3) show ?thesis by (simp add: xs)
qed

lemma patch_message_other:
  "\<not> list_ex (requests_tool tid) (m_content m) \<Longrightarrow> patch_message E tid patch m = m"
  using patch_content_None [of tid patch "m_content m"] by (simp add: patch_message_def)

text \<open>In a session of at most a hundred messages whose ids are distinct, patching the metadata of a
  tool request that one message makes patches that request in the conversation read back, and of that message
  writes the errors once more; no other message changes, and for an unknown request nothing does.\<close>

theorem tool_meta_patched:
  assumes "store_ok st" "distinct (filter_map m_id (get_conversation sid st))"
    and "length (get_conversation sid st) \<le> 100"
    and "length (filter (\<lambda>m. list_ex (requests_tool tid) (m_content m)) (get_conversation sid st)) \<le> 1"
  shows "get_conversation sid (update_tool_request_meta E sid tid patch st) =
           map (patch_message E tid patch) (get_conversation sid st)"
proof -
  let ?rows = "rows_of sid st" and ?P = "\<lambda>r. list_ex (requests_tool tid) (mr_content r)"
  from assms(1,3) have t: "take 100 (rev (sort_key mr_id ?rows)) = rev ?rows"
    by (simp add: sort_ids length_get_conversation)
  have uniq: "x = y" if "x \<in> set ?rows" "y \<in> set ?rows" "?P x" "?P y" for x y
    using unique_row [of ?P ?rows x y] assms(1,4) that by (simp add: requesting_rows)
  show ?thesis
  proof (cases "List.find ?P (rev ?rows)")
    case None
    then have "patch_message E tid patch m = m" if "m \<in> set (get_conversation sid st)" for m
      using that assms(1)
      by (auto simp: find_None_iff set_get_conversation row_message_def intro!: patch_message_other)
    then have "map (patch_message E tid patch) (get_conversation sid st) = get_conversation sid st"
      by (simp add: map_idI)
    with None show ?thesis by (simp only: update_tool_request_meta_def t option.case)
  next
    case (Some r)
    then have r: "r \<in> set ?rows" "?P r" by (auto simp: find_Some_iff) (metis nth_mem rev_rev_ident set_rev length_rev)
    from r(1) assms(1) obtain mid where mid: "mr_message_id r = Some mid"
      by (auto simp: store_ok_def row_ok_def rows_of_def list_all_iff)
    from r(2) obtain c where c: "patch_content tid patch (mr_content r) = Some c"
      using patch_content_None [of tid patch "mr_content r"] by auto
    have "distinct ?rows" using rows_of_sorted [OF assms(1), of sid]
      by (simp add: strict_sorted_iff distinct_map)
    then have "filter (\<lambda>r. mr_message_id r = Some mid) ?rows = [r]"
      by (rule filter_singleton) (use r mid distinct_ids_rows [OF assms(1,2)] in auto)
    then have st': "update_tool_request_meta E sid tid patch st =
        update_rows (\<lambda>x. mr_id x = mr_id r) (\<lambda>x. x\<lparr>mr_content := stored_content E c\<rparr>) st"
      by (simp add: update_tool_request_meta_def t Some mid c update_tool_request_meta_by_message_id_def)
    have ok: "store_ok (update_rows (\<lambda>x. mr_id x = mr_id r) (\<lambda>x. x\<lparr>mr_content := stored_content E c\<rparr>) st)"
      by (rule store_ok_update_rows) (use assms(1) in \<open>auto simp: row_ok_def\<close>)
    have "row_message (if mr_id x = mr_id r then x\<lparr>mr_content := stored_content E c\<rparr> else x) =
        patch_message E tid patch (row_message x)" if x: "x \<in> set ?rows" for x
    proof (cases "x = r")
      case False
      with uniq [OF x r(1) _ r(2)] have "\<not> ?P x" by blast
      then have "patch_message E tid patch (row_message x) = row_message x"
        by (intro patch_message_other) (simp add: row_message_def)
      with False same_row_id [OF assms(1) x r(1)] show ?thesis by auto
    qed (simp add: patch_message_def row_message_def c)
    from get_conversation_map_rows [OF assms(1) ok rows_of_update_rows _ this] show ?thesis
      by (simp add: st')
  qed
qed

end
