(* ===== verification/Machine_Properties.thy ===== *)
theory Machine_Properties
  imports Machine Session_Properties
begin

text \<open>
  What the state machine guarantees whatever its operations are: the first operation that applies
  decides, everything it appends can be persisted and is read back at the end of the conversation (as it is stored),
  a cancelled turn comes back to the client, and more fuel never changes a result.
\<close>

subsection \<open>Message ids\<close>

fun effect_messages :: "StateEffect \<Rightarrow> Message list" where
  "effect_messages (AppendMessage m) = [m]"
| "effect_messages (ReplaceConversation c _) = c"
| "effect_messages _ = []"

definition has_id :: "Message \<Rightarrow> bool" where
  "has_id m = (m_id m \<noteq> None)"

lemma ensure_ids_has: "ensure_ids V ms w = (ms', w') \<Longrightarrow> list_all has_id ms'"
proof (induction ms arbitrary: w ms')
  case (Cons m ms)
  then show ?case
    by (auto simp: has_id_def split: prod.splits dest: id_if_missing_id)
qed simp

lemma effect_ensure_ids_has: "effect_ensure_ids V e w = (e', w') \<Longrightarrow> list_all has_id (effect_messages e')"
  by (cases e) (auto simp: has_id_def split: prod.splits dest: id_if_missing_id ensure_ids_has)

lemma effects_ensure_ids_has:
  "effects_ensure_ids V es w = (es', w') \<Longrightarrow> list_all (\<lambda>e. list_all has_id (effect_messages e)) es'"
  by (induction es arbitrary: w es') (auto split: prod.splits dest: effect_ensure_ids_has)

text \<open>Assigning ids changes nothing else.\<close>

fun erase_ids :: "StateEffect \<Rightarrow> StateEffect" where
  "erase_ids (AppendMessage m) = AppendMessage (m\<lparr>m_id := None\<rparr>)"
| "erase_ids (ReplaceConversation c u) = ReplaceConversation (map (\<lambda>m. m\<lparr>m_id := None\<rparr>) c) u"
| "erase_ids e = e"

lemma id_if_missing_erase: "id_if_missing V m w = (m', w') \<Longrightarrow> m'\<lparr>m_id := None\<rparr> = m\<lparr>m_id := None\<rparr>"
  by (drule id_if_missing_id) (metis Message.update_convs(1) Message.surjective)

lemma ensure_ids_erase:
  "ensure_ids V ms w = (ms', w') \<Longrightarrow> map (\<lambda>m. m\<lparr>m_id := None\<rparr>) ms' = map (\<lambda>m. m\<lparr>m_id := None\<rparr>) ms"
  by (induction ms arbitrary: w ms') (auto split: prod.splits dest: id_if_missing_erase)

lemma effect_ensure_ids_erase: "effect_ensure_ids V e w = (e', w') \<Longrightarrow> erase_ids e' = erase_ids e"
  by (cases e) (auto split: prod.splits dest: id_if_missing_erase ensure_ids_erase)

lemma effects_ensure_ids_erase:
  "effects_ensure_ids V es w = (es', w') \<Longrightarrow> map erase_ids es' = map erase_ids es"
  by (induction es arbitrary: w es') (auto split: prod.splits dest: effect_ensure_ids_erase)

subsection \<open>The first operation that applies\<close>

text \<open>How a step answers, told from the operation's own functions and the token: with the token cancelled it
  is only asked to cancel, on nothing; otherwise it does its work, and when the token is cancelled by then its
  \<open>cancel\<close> turns the result it has into the answer. The flag says whether the token was cancelled.\<close>

definition work :: "Step list \<Rightarrow> Session \<Rightarrow> Conversation \<Rightarrow> Step \<Rightarrow> OperationResult op" where
  "work steps session c s =
     (case s of
        OperationStep operation \<Rightarrow> op_run operation session c
      | InferenceStep infer \<Rightarrow>
          andThen (gather_input session c (map step_operation steps) InferenceInput_default) (inf_infer infer session c))"

inductive answers ::
  "Step list \<Rightarrow> Session \<Rightarrow> Conversation \<Rightarrow> Step \<Rightarrow> World \<Rightarrow> OperationResult \<Rightarrow> bool \<Rightarrow> World \<Rightarrow> bool"
  for steps session c s where
  cancelled_before: "w_cancelled w \<Longrightarrow> op_cancel (step_operation s) session c NotApplicable w = (Inr result, w') \<Longrightarrow>
    answers steps session c s w result True w'"
| cancelled_meanwhile: "\<not> w_cancelled w \<Longrightarrow> work steps session c s w = (Inr result, w1) \<Longrightarrow> w_cancelled w1 \<Longrightarrow>
    op_cancel (step_operation s) session c result w1 = (Inr result', w') \<Longrightarrow>
    answers steps session c s w result' True w'"
| not_cancelled: "\<not> w_cancelled w \<Longrightarrow> work steps session c s w = (Inr result, w') \<Longrightarrow> \<not> w_cancelled w' \<Longrightarrow>
    answers steps session c s w result False w'"

lemma run_or_cancel_answers:
  "run_or_cancel steps session c s w = (Inr (result, k), w') \<longleftrightarrow> answers steps session c s w result k w'"
proof -
  have "run_one steps session c s w = (if w_cancelled w then (Inr NotApplicable, w) else work steps session c s w)"
    by (cases s) (simp_all add: run_one_def work_def)
  then show ?thesis
    by (auto simp: run_or_cancel_def andThen_def answers.simps split: prod.splits sum.splits if_splits)
qed

text \<open>\<open>declined\<close> is the run of a list of steps none of which applies.\<close>

inductive declined :: "Step list \<Rightarrow> Session \<Rightarrow> Conversation \<Rightarrow> World \<Rightarrow> Step list \<Rightarrow> World \<Rightarrow> bool"
  for steps session c where
  declined_Nil: "declined steps session c w [] w"
| declined_Cons: "answers steps session c s w NotApplicable k w1 \<Longrightarrow>
    declined steps session c w1 ss w2 \<Longrightarrow> declined steps session c w (s # ss) w2"

inductive_simps declined_Nil_iff: "declined steps session c w [] w'"
inductive_simps declined_Cons_iff: "declined steps session c w (s # ss) w'"

lemma try_steps_Cons_None:
  "try_steps V steps session c (s # ss) w = (Inr None, w') \<longleftrightarrow>
   (\<exists>k w1. answers steps session c s w NotApplicable k w1 \<and> try_steps V steps session c ss w1 = (Inr None, w'))"
proof (cases "run_or_cancel steps session c s w")
  case (Pair res w1)
  show ?thesis
  proof (cases res)
    case (Inr p)
    obtain result k where p: "p = (result, k)" by fastforce
    show ?thesis
      by (cases result) (auto simp: andThen_def Pair Inr p simp flip: run_or_cancel_answers split: prod.splits)
  qed (simp add: andThen_def Pair flip: run_or_cancel_answers)
qed

lemma try_steps_None:
  "try_steps V steps session c ss w = (Inr None, w') \<longleftrightarrow> declined steps session c w ss w'"
proof (induction ss arbitrary: w)
  case Nil
  then show ?case by (auto simp: declined_Nil_iff)
next
  case (Cons s ss)
  show ?case unfolding try_steps_Cons_None Cons.IH declined_Cons_iff ..
qed

text \<open>The result of a step, as the machine hands it on: ids where there were none, and a cancelled one yields.\<close>

definition handed_on :: "op_env \<Rightarrow> StepResult \<Rightarrow> bool \<Rightarrow> World \<Rightarrow> StepResult \<times> World" where
  "handed_on V r k w =
     (case effects_ensure_ids V (effects r) w of
        (es, w') \<Rightarrow> (r\<lparr>effects := es, yield_to_client := k \<or> yield_to_client r\<rparr>, w'))"

lemma try_steps_Cons:
  "try_steps V steps session c (s # ss) w = (Inr (Some r), w') \<longleftrightarrow>
   (\<exists>k w1. answers steps session c s w NotApplicable k w1 \<and>
      try_steps V steps session c ss w1 = (Inr (Some r), w')) \<or>
   (\<exists>r0 k w1. answers steps session c s w (Applied r0) k w1 \<and> handed_on V r0 k w1 = (r, w'))"
proof (cases "run_or_cancel steps session c s w")
  case (Pair res w1)
  show ?thesis
  proof (cases res)
    case (Inr p)
    obtain result k where p: "p = (result, k)" by fastforce
    show ?thesis
      by (cases result)
        (auto simp: andThen_def Pair Inr p handed_on_def ensure_message_ids_def simp flip: run_or_cancel_answers
          split: prod.splits)
  qed (simp add: andThen_def Pair flip: run_or_cancel_answers)
qed

lemma first_split:
  "(\<exists>us t vs. s # ss = us @ t # vs \<and> P us t) \<longleftrightarrow> P [] s \<or> (\<exists>us t vs. ss = us @ t # vs \<and> P (s # us) t)"
  by (auto simp: Cons_eq_append_conv)

definition first_applies ::
  "op_env \<Rightarrow> Step list \<Rightarrow> Session \<Rightarrow> Conversation \<Rightarrow> World \<Rightarrow> StepResult \<Rightarrow> World \<Rightarrow> Step list \<Rightarrow> Step \<Rightarrow> bool" where
  "first_applies V steps session c w r w' us s \<longleftrightarrow>
     (\<exists>w1 r0 k w2. declined steps session c w us w1 \<and> answers steps session c s w1 (Applied r0) k w2 \<and>
        handed_on V r0 k w2 = (r, w'))"

lemma try_steps_Some:
  "try_steps V steps session c ss w = (Inr (Some r), w') \<longleftrightarrow>
   (\<exists>us s vs. ss = us @ s # vs \<and> first_applies V steps session c w r w' us s)"
proof (induction ss arbitrary: w)
  case (Cons s ss)
  have nil: "first_applies V steps session c w r w' [] s \<longleftrightarrow>
      (\<exists>r0 k w1. answers steps session c s w (Applied r0) k w1 \<and> handed_on V r0 k w1 = (r, w'))"
    by (simp add: first_applies_def declined_Nil_iff)
  have cons: "first_applies V steps session c w r w' (s # us) t \<longleftrightarrow>
      (\<exists>k w1. answers steps session c s w NotApplicable k w1 \<and> first_applies V steps session c w1 r w' us t)" for us t
    unfolding first_applies_def declined_Cons_iff by blast
  let ?F = "\<lambda>w. first_applies V steps session c w r w'"
  let ?A = "\<lambda>k w1. answers steps session c s w NotApplicable k w1"
  have "try_steps V steps session c (s # ss) w = (Inr (Some r), w') \<longleftrightarrow>
      ?F w [] s \<or> (\<exists>k w1. ?A k w1 \<and> (\<exists>us t vs. ss = us @ t # vs \<and> ?F w1 us t))"
    unfolding try_steps_Cons nil Cons.IH by (rule disj_commute)
  also have "\<dots> \<longleftrightarrow> ?F w [] s \<or> (\<exists>us t vs. ss = us @ t # vs \<and> ?F w (s # us) t)"
    using cons by blast
  also have "\<dots> \<longleftrightarrow> (\<exists>us t vs. s # ss = us @ t # vs \<and> ?F w us t)" by (rule first_split [symmetric])
  finally show ?case .
qed simp

lemma emit_entry_hooks_cancelled:
  "emit_entry_hooks V session c w = (res, w') \<Longrightarrow> w_cancelled w' = w_cancelled w"
  by (auto simp: emit_entry_hooks_def Let_def andThen_def emit_hook_def split: sum.splits if_splits)

lemma handed_on_result:
  assumes "handed_on V r0 k w = (r, w')"
  shows "map erase_ids (effects r) = map erase_ids (effects r0)"
    and "list_all (\<lambda>e. list_all has_id (effect_messages e)) (effects r)"
    and "yield_to_client r \<longleftrightarrow> k \<or> yield_to_client r0"
proof -
  from assms obtain es where es: "effects_ensure_ids V (effects r0) w = (es, w')"
      "r = r0\<lparr>effects := es, yield_to_client := k \<or> yield_to_client r0\<rparr>"
    by (auto simp: handed_on_def split: prod.splits)
  then show "map erase_ids (effects r) = map erase_ids (effects r0)"
    "list_all (\<lambda>e. list_all has_id (effect_messages e)) (effects r)"
    "yield_to_client r \<longleftrightarrow> k \<or> yield_to_client r0"
    using effects_ensure_ids_erase [OF es(1)] effects_ensure_ids_has [OF es(1)] by simp_all
qed

text \<open>C9: a step returns a result exactly when, after the entry hooks, some operation applies while every one
  before it declines, and then it asks no operation after it: the result is what that operation did. An
  operation whose token is cancelled does no work and is only asked to cancel; one whose token is cancelled
  while it works has its result replaced by what its \<open>cancel\<close> makes of it; in both cases, and only then or
  when the operation itself asks for it, the result yields to the client. Every message of the effects has an
  id, and nothing else of them changed. The step returns nothing exactly when every operation declines.\<close>

theorem step_first_applicable:
  assumes "s_conversation session = Some c"
  shows "(step V steps session w = (Inr (Some r), w') \<longleftrightarrow>
            (\<exists>us s vs w0 w1 r0 k w2.
               steps = us @ s # vs \<and> emit_entry_hooks V session c w = (Inr (), w0) \<and>
               declined steps session c w0 us w1 \<and>
               answers steps session c s w1 (Applied r0) k w2 \<and> handed_on V r0 k w2 = (r, w') \<and>
               map erase_ids (effects r) = map erase_ids (effects r0) \<and>
               list_all (\<lambda>e. list_all has_id (effect_messages e)) (effects r) \<and>
               (yield_to_client r \<longleftrightarrow> k \<or> yield_to_client r0))) \<and>
         (step V steps session w = (Inr None, w') \<longleftrightarrow>
            (\<exists>w0. emit_entry_hooks V session c w = (Inr (), w0) \<and> declined steps session c w0 steps w'))"
proof -
  have st: "step V steps session w = (Inr res, w') \<longleftrightarrow>
      (\<exists>w0. emit_entry_hooks V session c w = (Inr (), w0) \<and> try_steps V steps session c steps w0 = (Inr res, w'))" for res
    using assms by (auto simp: step_def andThen_def split: prod.splits sum.splits)
  have h: "(handed_on V r0 k w2 = (r, w') \<and> map erase_ids (effects r) = map erase_ids (effects r0) \<and>
      list_all (\<lambda>e. list_all has_id (effect_messages e)) (effects r) \<and> (yield_to_client r \<longleftrightarrow> k \<or> yield_to_client r0)) \<longleftrightarrow>
      handed_on V r0 k w2 = (r, w')" for r0 k w2
    using handed_on_result [of V r0 k w2 r w'] by auto
  have "step V steps session w = (Inr (Some r), w') \<longleftrightarrow>
      (\<exists>us s vs w0 w1 r0 k w2. steps = us @ s # vs \<and> emit_entry_hooks V session c w = (Inr (), w0) \<and>
         declined steps session c w0 us w1 \<and> answers steps session c s w1 (Applied r0) k w2 \<and>
         handed_on V r0 k w2 = (r, w'))"
    unfolding st try_steps_Some first_applies_def by blast
  then show ?thesis unfolding h by (simp only: st try_steps_None simp_thms)
qed

subsection \<open>Cancellation\<close>

text \<open>A token once cancelled stays cancelled: that is what the operations' \<open>cancel\<close> may rely on.\<close>

definition keeps_cancelled :: "Step \<Rightarrow> bool" where
  "keeps_cancelled s =
     (\<forall>session c result w. w_cancelled w \<longrightarrow>
        w_cancelled (snd (op_cancel (step_operation s) session c result w)))"

lemma try_steps_cancelled:
  assumes "list_all keeps_cancelled ss" "w_cancelled w"
    and "try_steps V steps session c ss w = (Inr (Some r), w')"
  shows "yield_to_client r"
  using assms
proof (induction ss arbitrary: w)
  case (Cons s ss)
  from Cons.prems(2,3) obtain result w1 where
    rc: "op_cancel (step_operation s) session c NotApplicable w = (Inr result, w1)"
    by (auto simp: run_or_cancel_def run_one_def andThen_def split: prod.splits sum.splits)
  with Cons.prems(2) have run: "run_or_cancel steps session c s w = (Inr (result, True), w1)"
    by (simp add: run_or_cancel_def run_one_def andThen_def)
  show ?case
  proof (cases result)
    case NotApplicable
    with rc Cons.prems(1,2) have "w_cancelled w1" by (auto simp: keeps_cancelled_def) (metis snd_conv)
    with Cons.IH [of w1] Cons.prems NotApplicable run show ?thesis by (simp add: andThen_def)
  next
    case (Applied r0)
    with Cons.prems(3) run show ?thesis by (auto simp: andThen_def split: prod.splits)
  qed
qed simp

text \<open>A cancelled machine runs no operation any more, only their \<open>cancel\<close>, and always comes back to the
  client: one iteration is enough.\<close>

theorem cancelled_run_returns:
  assumes "w_cancelled w" "list_all keeps_cancelled steps"
  shows "\<exists>result. run (Suc n) V X steps sid st w = Some result"
proof -
  have "\<exists>result. run_loop (Suc n) V X steps sid (0 :: Usage) st w = Some result"
  proof (cases "get_session X sid True st")
    case (Inr session)
    obtain res w1 where sw: "step V steps session w = (res, w1)" by fastforce
    have yield: "yield_to_client r" if "res = Inr (Some r)" for r
    proof -
      from that sw obtain c w0 where "s_conversation session = Some c"
          "emit_entry_hooks V session c w = (Inr (), w0)" "try_steps V steps session c steps w0 = (Inr (Some r), w1)"
        by (auto simp: step_def andThen_def split: option.splits prod.splits sum.splits)
      moreover from this assms(1) have "w_cancelled w0" using emit_entry_hooks_cancelled by blast
      ultimately show ?thesis using try_steps_cancelled [OF assms(2)] by blast
    qed
    show ?thesis
    proof (cases res)
      case (Inr ro)
      then show ?thesis
        using Inr sw yield \<open>get_session X sid True st = Inr session\<close>
        by (cases ro) (auto simp: Let_def split: prod.splits sum.splits)
    qed (use sw Inr in simp)
  qed simp
  then obtain result where "run_loop (Suc n) V X steps sid 0 st w = Some result" by blast
  then show ?thesis
    by (simp add: run_def split: sum.split option.split prod.split del: run_loop.simps)
qed

subsection \<open>Fuel\<close>

lemma run_loop_more_fuel:
  "run_loop n V X steps sid u st w = Some result \<Longrightarrow> n \<le> k \<Longrightarrow> run_loop k V X steps sid u st w = Some result"
proof (induction n arbitrary: k u st w)
  case (Suc n)
  then obtain j where k: "k = Suc j" "n \<le> j" by (cases k) auto
  with Suc.prems Suc.IH show ?case
    by (auto simp: Let_def split: sum.splits prod.splits option.splits if_splits)
qed simp

text \<open>A run that returns returns the same with more fuel, so the result does not depend on the bound.\<close>

theorem run_fuel_irrelevant:
  assumes "run n V X steps sid st w = Some result" "n \<le> k"
  shows "run k V X steps sid st w = Some result"
proof (cases "get_session X sid True st")
  case (Inr session)
  with assms(1) obtain r where "run_loop n V X steps sid 0 st w = Some r"
    by (auto simp: run_def split: option.splits)
  moreover from run_loop_more_fuel [OF this assms(2)] have "run_loop k V X steps sid 0 st w = Some r" .
  ultimately show ?thesis using assms(1) Inr by (simp add: run_def)
qed (use assms(1) in \<open>simp add: run_def\<close>)

subsection \<open>Persisting appended messages\<close>

lemma apply_appends_eq:
  "apply_effects V session (map AppendMessage ms) st =
     (case log.append_all (oe_ext V) (s_id session) (oe_now V) (oe_uuid V 0) ms st of
        Inr st' \<Rightarrow> (Inr (), st')
      | Inl e \<Rightarrow> (Inl e, snd (apply_effects V session (map AppendMessage ms) st)))"
proof (induction ms arbitrary: st)
  case (Cons m ms)
  show ?case
  proof (cases "add_message (oe_ext V) (s_id session) (oe_now V) (oe_uuid V 0) m st")
    case (Inr st1)
    with Cons.IH [of st1] show ?thesis
      by (simp add: then_tx_def commit_def split: sum.splits)
  qed (simp add: then_tx_def commit_def)
qed (simp add: no_tx_def)

text \<open>C11: applying a result that appends messages with ids succeeds on a well-formed store and puts
  exactly these messages, in order, at the end of the conversation that is read back, the same but for
  their timestamps, which may have been raised, and for the errors of tool calls and tool results they hold, which come back as
  internal errors with the text of the error and no data, as \<open>tool_result_serde.rs\<close> encodes them.\<close>

theorem apply_appends_messages:
  assumes "store_ok st" "session_exists (s_id session) st" "list_all (\<lambda>m. m_id m \<noteq> None) ms"
  shows "\<exists>st' ms'. apply_effects V session (map AppendMessage ms) st = (Inr (), st') \<and> store_ok st' \<and>
     get_conversation (s_id session) st' = get_conversation (s_id session) st @ ms' \<and>
     map untimed ms' = map (untimed \<circ> reloaded (oe_ext V)) ms"
proof -
  from log.append_all_last [of st "s_id session" ms "oe_ext V" "oe_now V" "oe_uuid V 0"] assms
  obtain st' ms' where "log.append_all (oe_ext V) (s_id session) (oe_now V) (oe_uuid V 0) ms st = Inr st'"
      "store_ok st'" "get_conversation (s_id session) st' = get_conversation (s_id session) st @ ms'"
      "map untimed ms' = map (untimed \<circ> reloaded (oe_ext V)) ms"
    by blast
  then show ?thesis using apply_appends_eq [of V session ms st] by auto
qed

end
