(* ===== verification/Agent_Frame.thy ===== *)
theory Agent_Frame
  imports Agent_Machine Ops_Llm_Properties Machine_Properties
begin

text \<open>
  What each operation of the agent leaves alone: the tool calls made so far, the mode, the permissions and the token. All but
  the approval, the execution and the inference leave all of it alone, so that the order of these three decides.
\<close>

subsection \<open>What an operation leaves alone\<close>

definition keeps :: "(World \<Rightarrow> 'b) \<Rightarrow> 'a op \<Rightarrow> bool" where
  "keeps g f = (\<forall>w. g (snd (f w)) = g w)"

text \<open>What decides about tool calls, and the calls made so far.\<close>

definition authority :: "World \<Rightarrow> (string \<times> CallToolRequestParams) list \<times> GooseMode \<times> PermissionManager \<times> bool" where
  "authority w = (w_tool_calls w, w_goose_mode w, w_permissions w, w_cancelled w)"

named_theorems quiet

lemma keepsD: "keeps g f \<Longrightarrow> f w = (r, w') \<Longrightarrow> g w' = g w"
  by (metis keeps_def snd_conv)

lemma keeps_ret [quiet]: "keeps g (ret x)"
  by (simp add: keeps_def)

lemma keeps_fail [quiet]: "keeps g (fail e)"
  by (simp add: keeps_def fail_def)

lemma keeps_lift [quiet]: "keeps g (lift r)"
  by (simp add: keeps_def lift_def)

lemma keeps_andThen [quiet]: "keeps g f \<Longrightarrow> (\<And>x. keeps g (h x)) \<Longrightarrow> keeps g (andThen f h)"
  by (auto simp: keeps_def andThen_def split: prod.splits sum.splits) (metis snd_conv)+

lemma keeps_if [quiet]: "(b \<Longrightarrow> keeps g f) \<Longrightarrow> (\<not> b \<Longrightarrow> keeps g h) \<Longrightarrow> keeps g (if b then f else h)"
  by simp

lemma keeps_option [quiet]: "keeps g f \<Longrightarrow> (\<And>x. keeps g (h x)) \<Longrightarrow> keeps g (case v of None \<Rightarrow> f | Some x \<Rightarrow> h x)"
  by (cases v) simp_all

lemma keeps_sum [quiet]: "(\<And>e. keeps g (f e)) \<Longrightarrow> (\<And>x. keeps g (h x)) \<Longrightarrow> keeps g (case v of Inl e \<Rightarrow> f e | Inr x \<Rightarrow> h x)"
  by (cases v) simp_all

lemma keeps_prod [quiet]: "(\<And>x y. keeps g (h x y)) \<Longrightarrow> keeps g (case v of (x, y) \<Rightarrow> h x y)"
  by (cases v) simp

lemma keeps_result [quiet]:
  "keeps g f \<Longrightarrow> (\<And>x. keeps g (h x)) \<Longrightarrow> keeps g (case v of NotApplicable \<Rightarrow> f | Applied x \<Rightarrow> h x)"
  by (cases v) simp_all

lemma keeps_decision [quiet]:
  "keeps g f \<Longrightarrow> (\<And>x y. keeps g (h x y)) \<Longrightarrow> keeps g (case v of Allow \<Rightarrow> f | Deny x y \<Rightarrow> h x y)"
  by (cases v) simp_all

lemma keeps_emit_message [quiet]: "keeps authority (emit_message V m)"
  by (auto simp: keeps_def emit_message_def id_if_missing_def gen_uuid_def emit_event_def authority_def)

lemma keeps_emit_hook [quiet]: "keeps authority (emit_hook V e h)" "keeps authority (emit_hook_blocking V e h)"
  by (auto simp: keeps_def emit_hook_def emit_hook_blocking_def authority_def split: prod.splits)

lemma keeps_calls: "keeps authority f \<Longrightarrow> keeps w_tool_calls f"
  by (auto simp: keeps_def authority_def)

subsection \<open>The operations\<close>

lemma keeps_steer_messages [quiet]: "keeps authority (steer_messages V session ms)"
proof (induction ms)
  case (Cons m ms)
  then show ?case unfolding steer_messages.simps by (intro quiet)
qed (simp add: keeps_def)

lemma keeps_steer [quiet]: "keeps authority (steer_run V session c)"
proof -
  have a: "keeps authority (andThen (steer_messages V session ms) (\<lambda>es. ret (applied es)))" for ms
    by (intro quiet)
  have "authority (w\<lparr>w_steer_queue := []\<rparr>) = authority w" for w by (simp add: authority_def)
  with a have "keeps authority (\<lambda>w. if \<not> b then ret NotApplicable w
       else (let pending = map with_steer (w_steer_queue w); w' = w\<lparr>w_steer_queue := []\<rparr>
             in if pending = [] then ret NotApplicable w'
                else andThen (steer_messages V session pending) (\<lambda>es. ret (applied es)) w'))" for b
    by (simp add: keeps_def Let_def)
  then show ?thesis unfolding steer_run_def by (intro quiet)
qed

lemma keeps_turn [quiet]:
  "keeps authority (max_turns_run V n session c)" "keeps authority (max_turns_moim_parts n session c)"
  "keeps authority (exit_on_error_run session c)" "keeps authority (stop_hook_run V cap session c)"
  "keeps authority (project_prompt_parts read session c)" "keeps authority (doctor_run_command V d cmd session c)"
  unfolding max_turns_run_def max_turns_moim_parts_def exit_on_error_run_def stop_hook_run_def project_prompt_parts_def
    doctor_run_command_def Let_def
  by (intro quiet)+

lemma keeps_bang_shell [quiet]: "keeps authority (bang_shell_run V session c)"
proof -
  have "keeps authority (andThen (emit_message V m) (\<lambda>m. ret (applied [AppendMessage m])))" for m by (intro quiet)
  moreover have "authority (w\<lparr>w_fresh := n\<rparr>) = authority w" for w n by (simp add: authority_def)
  ultimately have "keeps authority (\<lambda>w. case gen_uuid V w of (u, w') \<Rightarrow>
      (let call = \<lparr>ctr_name = SHELL_TOOL_NAME, ctr_arguments = Some [(''command'', JStr command)]\<rparr>;
           request = with_tool_request (Message_assistant (oe_now V)) (''bang_shell_'' @ u) (Inr call)
       in andThen (emit_message V request) (\<lambda>m. ret (applied [AppendMessage m])) w'))" for command
    by (simp add: keeps_def gen_uuid_def Let_def)
  then show ?thesis unfolding bang_shell_run_def by (intro quiet)
qed

lemma keeps_command_response [quiet]: "keeps authority (command_response V what c e)"
  unfolding command_response_def by (intro quiet)

lemma keeps_compaction [quiet]:
  "keeps authority (compaction_run V C session c)" "keeps authority (compaction_run_command V C cmd session c)"
  "keeps authority (compaction_moim_parts C session c)"
  unfolding compaction_run_def perform_compaction_def compaction_run_command_def clear_command_def compaction_moim_parts_def
  by (intro quiet)+

lemma keeps_summarize_tool_call: "authority (snd (summarize_tool_call V C c i w)) = authority w"
  by (auto simp: summarize_tool_call_def authority_def gen_uuid_def id_if_missing_def Let_def split: sum.splits option.splits prod.splits)

lemma keeps_summarize_pairs: "authority (snd (summarize_pairs V C c ids hidden w)) = authority w"
proof (induction ids arbitrary: hidden w)
  case (Cons i ids)
  show ?case
    using Cons.IH keeps_summarize_tool_call [of V C c i w]
    by (auto split: option.splits prod.splits sum.splits) (metis snd_conv)+
qed simp

lemma keeps_tool_pair [quiet]: "keeps authority (tool_pair_compaction_run V C cutoff b session c)"
proof -
  have "keeps authority (\<lambda>w. let protected = p ms; ids = f protected
      in case summarize_pairs V C c ids {} w of (es, w') \<Rightarrow> ret (if es = [] then NotApplicable else applied es) w')"
    for p :: "Message list \<Rightarrow> nat" and f ms
    using keeps_summarize_pairs by (auto simp: keeps_def Let_def split: prod.splits) (metis snd_conv)
  then show ?thesis unfolding tool_pair_compaction_run_def by (intro quiet)
qed

lemma keeps_skill [quiet]:
  "keeps authority (skill_run V S session c)" "keeps authority (skill_run_command V S cmd session c)"
  "keeps authority (skill_prompt_parts S session c)"
  unfolding skill_run_def skill_run_command_def skill_prompt_parts_def Let_def by (intro quiet)+

lemma keeps_recipe [quiet]:
  "keeps authority (recipe_run V R session c)" "keeps authority (recipe_run_command V R cmd session c)"
  "keeps authority (recipe_inference_tools R session)" "keeps authority (recipe_prompt_parts R session c)"
  unfolding recipe_run_def recipe_run_command_def recipe_inference_tools_def recipe_prompt_parts_def by (intro quiet)+

lemma keeps_tool_parts [quiet]:
  "keeps authority (tool_run_command V T cmd session c)" "keeps authority (tool_inference_tools T session)"
  "keeps authority (tool_moim_parts T session c)" "keeps authority (tool_prompt_parts T session c)"
  "keeps authority (unknown_tool_run V session c)"
  unfolding tool_run_command_def list_prompts_command_def run_prompt_def tool_inference_tools_def tool_moim_parts_def
    tool_prompt_parts_def unknown_tool_run_def Let_def
  by (intro quiet)+

lemma keeps_checks: "authority (snd (execute_success_checks_with_timeout sh cs t w)) = authority w"
proof (induction sh cs t w rule: execute_success_checks_with_timeout.induct)
  case (2 sh command cs t w)
  then show ?case
    by (auto simp: execute_shell_command_def authority_def split: sum.splits ShellOutcome.splits)
qed simp

lemma keeps_on_failure: "authority (snd (run_on_failure sh t cfg w)) = authority w"
  by (auto simp: run_on_failure_def execute_on_failure_command_with_timeout_def execute_shell_command_def authority_def
      split: option.splits sum.splits)

lemma keeps_fail_retry [quiet]: "keeps authority (fail_retry V m)"
  unfolding fail_retry_def by (intro quiet)

lemma keeps_retry_again: "authority (snd (retry_again V sh t cfg ms c w)) = authority w"
  using keeps_on_failure [of sh t cfg w] keeps_fail_retry
  by (auto simp: retry_again_def keeps_def andThen_def lift_def ret_def split: prod.splits sum.splits)

lemma keeps_check_retry: "authority (snd (check_retry V sh t1 t2 session ms c w)) = authority w"
proof (cases "retry_config session")
  case (Some cfg)
  obtain r w1 where e: "execute_success_checks_with_timeout sh (checks cfg)
      (case timeout_seconds cfg of Some t \<Rightarrow> t | None \<Rightarrow> t1) w = (r, w1)" by fastforce
  with keeps_checks have "authority w1 = authority w" by (metis snd_conv)
  with Some e keeps_fail_retry [of V] keeps_retry_again [of V sh t2 cfg ms c w1] show ?thesis
    by (auto simp: check_retry_def keeps_def split: sum.splits bool.splits)
qed (simp add: check_retry_def)

lemma keeps_retry [quiet]: "keeps authority (retry_run V sh t1 t2 session c)"
proof -
  have a: "keeps authority (andThen (emit_message V m) (\<lambda>_. ret r))" for m and r :: OperationResult by (intro quiet)
  have "authority (w\<lparr>w_goal := None, w_grind := None\<rparr>) = authority w" for w by (simp add: authority_def)
  with a keeps_check_retry have "keeps authority (\<lambda>w. if \<not> ends_turn ms then ret NotApplicable w
       else (case (if goal_was_nudged ms then None else w_goal w) of
               Some goal \<Rightarrow> andThen (emit_message V (inline_notification V (''Goal: '' @ goal)))
                   (\<lambda>_. ret (applied [AppendMessage (goal_nudge V goal)])) w
             | None \<Rightarrow> (case w_grind w of
                    Some grind \<Rightarrow> andThen (emit_message V (inline_notification V (''Grind: '' @ grind)))
                        (\<lambda>_. ret (applied [AppendMessage (grind_nudge V grind)])) w
                  | None \<Rightarrow> check_retry V sh t1 t2 session ms c (w\<lparr>w_goal := None, w_grind := None\<rparr>))))" for ms
    by (auto simp: keeps_def split: option.splits)
  then show ?thesis unfolding retry_run_def by (intro quiet)
qed

lemma keeps_retry_command [quiet]: "keeps authority (retry_run_command V cmd session c)"
proof -
  have a: "keeps authority (andThen (lift (command_message what c)) (\<lambda>(m, i).
      andThen (emit_message V (with_visibility m True False)) (\<lambda>_. andThen (emit_message V response) (\<lambda>x. ret (f m i x)))))"
    for what response and f :: "Message \<Rightarrow> string \<Rightarrow> Message \<Rightarrow> OperationResult" by (intro quiet)
  have "authority (set_goal b params w) = authority w" for b params w by (simp add: set_goal_def authority_def Let_def)
  with a show ?thesis by (simp add: keeps_def retry_run_command_def Let_def)
qed

subsection \<open>Inference\<close>

lemma keeps_llm_commands [quiet]:
  "keeps authority (llm_run_command V L cmd session c)" "keeps authority (llm_cancel V session c result)"
  unfolding llm_run_command_def llm_cancel_def Let_def by (intro quiet)+

lemma keeps_take_message [quiet]: "keeps authority (take_message V im m an)"
  unfolding take_message_def Let_def by (intro quiet)

lemma keeps_next_chunk: "authority (snd (next_chunk V L ch rd w)) = authority w"
  by (auto simp: next_chunk_def read_shim_chunk_def read_chunk_def assign_chunk_id_def id_if_missing_def gen_uuid_def Let_def
      authority_def split: option.splits prod.splits)

lemma keeps_read_stream [quiet]: "keeps authority (read_stream V L im items rd an)"
proof (induction items arbitrary: rd an)
  case (Cons item items)
  have "authority (snd (read_stream V L im (item # items) rd an w)) = authority w" for w
  proof (cases "w_cancelled w \<or> \<not> is_ok item")
    case False
    then obtain ch where ch: "item = Inr ch" by (cases item) (auto simp: is_ok_def)
    obtain msg u rd1 w1 where n: "next_chunk V L ch rd w = (((msg, u), rd1), w1)" by (metis prod.collapse)
    have "keeps authority (andThen (case msg of Some m \<Rightarrow> take_message V im m an1 | None \<Rightarrow> ret an1)
        (read_stream V L im items rd1))" for an1
      by (intro quiet Cons.IH)
    with n keeps_next_chunk [of V L ch rd w] ch False show ?thesis by (simp add: keeps_def Let_def)
  qed (cases item; auto simp: is_ok_def)
  then show ?case by (simp add: keeps_def)
qed (simp add: keeps_def)

lemma keeps_read_until_cancelled [quiet]: "keeps w_tool_calls (read_until_cancelled V L im items an)"
  using keeps_read_stream [THEN keeps_calls]
  by (auto simp: keeps_def read_until_cancelled_def split: option.splits prod.splits) (metis snd_conv)

lemma keeps_finish_answer [quiet]: "keeps authority (finish_answer V L prompt ms tools an)"
  unfolding finish_answer_def error_outcome_def Let_def by (intro quiet)

lemma keeps_infer [quiet]: "keeps w_tool_calls (infer V L session c input)"
proof -
  have "keeps w_tool_calls (andThen (read_until_cancelled V L im items an) (finish_answer V L prompt ms tools))"
    for im items an prompt ms tools
    by (intro quiet keeps_calls)
  then have "w_tool_calls (snd (infer V L session c input w)) = w_tool_calls w" for w
    by (cases "messages_since_kickoff c") (simp_all add: infer_def andThen_def [of "lift _"] lift_def Let_def keeps_def)
  then show ?thesis by (simp add: keeps_def)
qed

subsection \<open>The machine\<close>

text \<open>Everything but running an operation leaves the authority over tools alone, and most operations do as well.\<close>

definition modest :: "Operation \<Rightarrow> bool" where
  "modest P =
     (\<forall>session c. keeps authority (op_prompt_parts P session c) \<and> keeps authority (op_moim_parts P session c) \<and>
        keeps authority (op_inference_tools P session) \<and> (\<forall>cmd. keeps authority (op_run_command P cmd session c)) \<and>
        (\<forall>result. keeps authority (op_cancel P session c result)))"

definition bystander :: "Operation \<Rightarrow> bool" where
  "bystander P = (modest P \<and> (\<forall>session c. keeps authority (op_run P session c)))"

lemma keeps_try_commands: "list_all modest ops \<Longrightarrow> keeps authority (try_commands ops cmd session c)"
proof (induction ops)
  case (Cons P ops)
  then show ?case unfolding try_commands.simps by (intro quiet) (auto simp: modest_def)
qed (simp add: keeps_def)

lemma keeps_gather_input: "list_all modest ops \<Longrightarrow> keeps authority (gather_input session c ops input)"
proof (induction ops arbitrary: input)
  case (Cons P ops)
  then show ?case unfolding gather_input.simps by (intro quiet) (auto simp: modest_def)
qed (simp add: keeps_def)

lemmas operation_defs = SteerOperation_def MaxTurnsOperation_def BangShellOperation_def CompactionOperation_def
  ToolPairCompactionOperation_def ToolApprovalOperation_def DoctorOperation_def ProjectOperation_def SkillOperation_def
  RecipeOperation_def ToolExecutionOperation_def UnknownToolOperation_def RetryOperation_def StopHookOperation_def
  ExitOnErrorOperation_def InferenceRunner_def SlashCommandOperation_def Operation_default_def

lemma modest_operations:
  "list_all modest (agent_operations A limit turns @ [inf_operation (InferenceRunner V L)])"
  by (simp add: agent_operations_def Let_def modest_def operation_defs quiet)

lemma bystanders:
  "list_all bystander [SteerOperation V, MaxTurnsOperation V n, BangShellOperation V, CompactionOperation V C,
     ToolPairCompactionOperation V C k b, DoctorOperation V d, ProjectOperation p, SkillOperation V S, RecipeOperation V R,
     UnknownToolOperation V, RetryOperation V sh t1 t2, StopHookOperation V cap, ExitOnErrorOperation]"
  by (simp add: bystander_def modest_def operation_defs quiet)

lemma slash_bystander: "list_all modest ops \<Longrightarrow> bystander (SlashCommandOperation ops)"
proof -
  assume "list_all modest ops"
  then have "keeps authority (slash_command_run ops session c)" for session c
    unfolding slash_command_run_def by (intro quiet keeps_try_commands)
  then show ?thesis by (simp add: bystander_def modest_def operation_defs quiet)
qed

text \<open>The machine is: bystanders, approval, bystanders, execution, bystanders, inference.\<close>

lemma machine_parts:
  obtains pre mid post where
    "create_state_machine A L limit turns =
       map OperationStep pre @ OperationStep (ToolApprovalOperation (ag_ops A) (ag_inspectors A)) #
       map OperationStep mid @ OperationStep (ToolExecutionOperation (ag_ops A) (ag_tools A)) #
       map OperationStep post @ [InferenceStep (InferenceRunner (ag_ops A) L)]"
    "list_all bystander pre" "list_all bystander mid" "list_all bystander post"
proof -
  obtain pre mid post where ops: "agent_operations A limit turns =
       pre @ ToolApprovalOperation (ag_ops A) (ag_inspectors A) # mid @ ToolExecutionOperation (ag_ops A) (ag_tools A) # post"
      "list_all bystander pre" "list_all bystander mid" "list_all bystander post"
  proof
    let ?V = "ag_ops A" and ?t = "unwrap_or DEFAULT_COMPACTION_THRESHOLD (ag_compaction_threshold A)"
    let ?C = "(ag_compact A)\<lparr>ce_context_limit := limit, ce_threshold := ?t\<rparr>"
    let ?pre = "[SteerOperation ?V, MaxTurnsOperation ?V (unwrap_or (unwrap_or DEFAULT_MAX_TURNS (ag_max_turns A)) turns),
      BangShellOperation ?V, CompactionOperation ?V ?C, ToolPairCompactionOperation ?V ?C
        (unwrap_or (compute_tool_call_cutoff limit ?t) (ag_tool_call_cutoff A))
        (tool_pair_summarization_enabled A \<and> \<not> ce_manages_own_context ?C)]"
    let ?mid = "[DoctorOperation ?V (ag_doctor A), ProjectOperation (ag_project A), SkillOperation ?V (ag_skills A),
      RecipeOperation ?V (ag_recipes A)]"
    let ?post = "[UnknownToolOperation ?V, RetryOperation ?V (ag_shell A)
        (unwrap_or DEFAULT_RETRY_TIMEOUT_SECONDS (ag_retry_timeout A))
        (unwrap_or DEFAULT_ON_FAILURE_TIMEOUT_SECONDS (ag_on_failure_timeout A)),
      StopHookOperation ?V (unwrap_or DEFAULT_STOP_HOOK_BLOCK_CAP (ag_stop_hook_block_cap A)), ExitOnErrorOperation]"
    show "agent_operations A limit turns =
        ?pre @ ToolApprovalOperation ?V (ag_inspectors A) # ?mid @ ToolExecutionOperation ?V (ag_tools A) # ?post"
      by (simp add: agent_operations_def Let_def)
    show "list_all bystander ?pre" "list_all bystander ?mid" "list_all bystander ?post"
      using bystanders by simp_all
  qed
  let ?slash = "SlashCommandOperation (agent_operations A limit turns @ [inf_operation (InferenceRunner (ag_ops A) L)])"
  have "list_all bystander (?slash # pre)" using ops(2) slash_bystander [OF modest_operations] by simp
  from that [OF _ this ops(3,4)] show thesis
    by (simp add: create_state_machine_def Let_def ops(1))
qed

end
