(* ===== verification/Session_Accounting.thy ===== *)
theory Session_Accounting
  imports Session_Properties
begin

text \<open>
  Session ids and usage accounting: a created session gets an id no session has, recording usage
  raises the totals reported for the session and its ancestors by the recorded amount, up to the cap of
  the report, and the reported tree is the session with its descendants.
\<close>

subsection \<open>Fresh session ids\<close>

lemma cast_digits_append:
  "list_all (\<lambda>c. 48 \<le> byte c \<and> byte c \<le> 57) xs \<Longrightarrow>
   cast_digits acc (xs @ ys) = cast_digits (cast_digits acc xs) ys"
  by (induction xs arbitrary: acc) auto

lemma byte_digit: "k < 10 \<Longrightarrow> byte (char_of (48 + k)) = 48 + k"
  by (simp add: byte_def)

lemma show_nat_digits: "list_all (\<lambda>c. 48 \<le> byte c \<and> byte c \<le> 57) (show_nat n)"
proof (induction n rule: show_nat.induct)
  case (1 n)
  then show ?case
    by (subst show_nat.simps) (auto simp: byte_digit)
qed

lemma show_nat_not_Nil: "show_nat n \<noteq> []"
  by (subst show_nat.simps) simp

lemma cast_show_nat: "cast_digits 0 (show_nat n) = int n"
proof (induction n rule: show_nat.induct)
  case (1 n)
  show ?case
  proof (cases "n < 10")
    case True
    then show ?thesis by (subst show_nat.simps) (simp add: byte_digit)
  next
    case False
    with 1 have "cast_digits 0 (show_nat (n div 10)) = int (n div 10)" by simp
    moreover have m: "n mod 10 < 10" by simp
    ultimately show ?thesis
      using False show_nat_digits [of "n div 10"] byte_digit [OF m]
      by (subst show_nat.simps) (simp add: cast_digits_append, presburger)
  qed
qed

lemma cast_show_int: "cast_integer (show_int i) = i"
proof (cases "i < 0")
  case True
  have "\<not> ascii_ws (CHR ''-'')" "byte (CHR ''-'') = 45" by (simp_all add: ascii_ws_def byte_def)
  with True show ?thesis by (simp add: show_int_def cast_integer_def cast_show_nat)
next
  case False
  obtain c cs where c: "show_nat (nat i) = c # cs"
    using show_nat_not_Nil [of "nat i"] by (cases "show_nat (nat i)") auto
  with show_nat_digits [of "nat i"] have "48 \<le> byte c" "byte c \<le> 57" by auto
  then have "\<not> ascii_ws c" "byte c \<noteq> 45" "byte c \<noteq> 43" by (auto simp: ascii_ws_def)
  with False c cast_show_nat [of "nat i"] show ?thesis
    by (simp add: show_int_def cast_integer_def)
qed

lemma starts_with_append [simp]: "starts_with p (p @ r)"
  by (simp add: starts_with_def)

lemma next_number_above:
  assumes "s \<in> set rows" "same_day today (sr_id s)"
  shows "cast_integer (drop 9 (sr_id s)) < next_number today rows"
proof -
  let ?ns = "map (\<lambda>s. cast_integer (drop 9 (sr_id s))) (filter (\<lambda>s. same_day today (sr_id s)) rows)"
  have mem: "cast_integer (drop 9 (sr_id s)) \<in> set ?ns" using assms by auto
  then obtain n ns where ns: "?ns = n # ns" by (cases ?ns) auto
  with mem fold_max_ge [of n ns] have "cast_integer (drop 9 (sr_id s)) \<le> fold max ns n" by auto
  then show ?thesis by (simp add: next_number_def ns)
qed

text \<open>creating a session never collides: the id it makes up for the day is one no session has,
  and the store stays well formed.\<close>

theorem create_session_fresh:
  assumes "store_ok st" "length today = 8"
  shows "\<exists>sid st'. create_session today now wd name ty mode st = Inr (sid, st') \<and>
     \<not> session_exists sid st \<and> session_exists sid st' \<and> starts_with today sid \<and>
     store_ok st' \<and> get_conversation sid st' = []"
proof -
  let ?n = "next_number today (st_sessions st)"
  let ?sid = "today @ ''_'' @ show_int ?n"
  have day: "same_day today ?sid" by (simp add: same_day_def)
  have num: "cast_integer (drop 9 ?sid) = ?n" using assms(2) by (simp add: cast_show_int)
  have fresh: "\<not> session_exists ?sid st"
  proof
    assume "session_exists ?sid st"
    then obtain s where s: "s \<in> set (st_sessions st)" "sr_id s = ?sid"
      unfolding session_exists_def list_ex_iff by blast
    have "same_day today (sr_id s)" by (simp only: s(2) day)
    from next_number_above [OF s(1) this] show False by (simp only: s(2) num less_irrefl)
  qed
  obtain row where row_def: "row = new_session_row ?sid now wd name ty mode" by blast
  have row: "sr_id row = ?sid" by (simp add: row_def new_session_row_def)
  have c: "create_session today now wd name ty mode st = Inr (?sid, st\<lparr>st_sessions := st_sessions st @ [row]\<rparr>)"
    using fresh by (simp add: create_session_def Let_def row_def)
  let ?st' = "st\<lparr>st_sessions := st_sessions st @ [row]\<rparr>"
  have ex: "session_exists i ?st' = (session_exists i st \<or> i = ?sid)" for i
    by (auto simp: session_exists_def row)
  have "store_ok ?st'"
    using assms(1) fresh row
    by (auto simp: store_ok_def row_ok_def ex list_all_iff session_exists_def list_ex_iff)
  moreover have "rows_of ?sid ?st' = []"
    using assms(1) fresh by (auto simp: rows_of_def filter_empty_conv store_ok_def row_ok_def list_all_iff)
  then have "get_conversation ?sid ?st' = []" by (simp add: get_conversation_def order_by_created_def)
  ultimately show ?thesis using c fresh by (intro exI [of _ ?sid] exI [of _ ?st']) (simp add: ex)
qed

subsection \<open>Recording usage\<close>

lemma coalesce_sql_sum: "coalesce 0 (sql_sum cs) = sum_list (map (coalesce 0) cs)"
proof -
  have "sum_list (filter_map id cs) = sum_list (map (coalesce 0) cs)"
    by (induction cs) (auto simp: coalesce_def split: option.splits)
  then show ?thesis
    by (cases "filter_map id cs") (auto simp: sql_sum_def coalesce_def)
qed

lemma coalesce_append: "coalesce 0 (sql_sum (xs @ ys)) = coalesce 0 (sql_sum xs) + coalesce 0 (sql_sum ys)"
  by (simp add: coalesce_sql_sum)

lemma coalesce_simps [simp]: "coalesce d (Some v) = v" "coalesce d None = d"
  by (simp_all add: coalesce_def)

lemma coalesce_sum_single [simp]: "coalesce 0 (sql_sum [c]) = coalesce 0 c"
  by (simp add: coalesce_sql_sum)

lemma coalesce_sum_Nil [simp]: "coalesce 0 (sql_sum []) = 0"
  by (simp add: coalesce_sql_sum)

lemma find_session:
  "distinct (map sr_id rows) \<Longrightarrow> List.find (\<lambda>s. sr_id s = sid) rows = Some r \<Longrightarrow>
   filter (\<lambda>s. sr_id s = sid) rows = [r]"
proof (induction rows)
  case (Cons a rows)
  then show ?case
  proof (cases "sr_id a = sid")
    case True
    with Cons.prems have "sid \<notin> set (map sr_id rows)" "a = r" by auto
    then have "filter (\<lambda>s. sr_id s = sid) rows = []" by (auto simp: filter_empty_conv)
    with True \<open>a = r\<close> show ?thesis by simp
  qed simp
qed simp

lemma find_session_update:
  "List.find (\<lambda>s. sr_id s = sid) rows = Some r \<Longrightarrow> (\<And>s. sr_id (f s) = sr_id s) \<Longrightarrow>
   List.find (\<lambda>s. sr_id s = sid) (map (\<lambda>s. if sr_id s = sid then f s else s) rows) = Some (f r)"
  by (induction rows) (auto split: if_splits)

lemma record_usage_metrics_ledger:
  fixes now :: int
  assumes "store_ok st" "List.find (\<lambda>s. sr_id s = sid) (st_sessions st) = Some r"
  defines "carry \<equiv> (if carry_needed r st then [carry_row now r st] else [])"
  shows "\<exists>st'. record_usage_metrics sid now sched u model entry st = Inr st' \<and>
     ledger_of sid st' = ledger_of sid st @ carry @ [usage_ledger_row sid now (Some model) entry] \<and>
     (\<forall>i. i \<noteq> sid \<longrightarrow> ledger_of i st' = ledger_of i st) \<and>
     st_sessions st' = map (\<lambda>s. if sr_id s = sid then accumulate sched u entry now s else s) (st_sessions st) \<and>
     st_messages st' = st_messages st"
proof -
  have rid: "sr_id r = sid" using assms(2) by (auto simp: find_Some_iff)
  have sr: "sr_id (accumulate sched u entry now s) = sr_id s" for s by (simp add: accumulate_def)
  from find_session [OF _ assms(2)] assms(1)
  have "filter (\<lambda>s. sr_id s = sid) (st_sessions st) = [r]" by (simp add: store_ok_def)
  then have "filter (\<lambda>s. sr_id s = sid \<and> carry_needed s st) (st_sessions st) =
      filter (\<lambda>s. carry_needed s st) [r]"
    by (simp only: filter_filter [symmetric])
  then have cf: "st_ledger (carry_forward sid now st) = st_ledger st @ carry"
    by (simp add: carry_forward_def carry_def)
  have "session_exists sid st" using assms(2) by (auto simp: session_exists_def list_ex_iff find_Some_iff)
  then have "session_exists sid (carry_forward sid now st)"
    by (simp add: carry_forward_def session_exists_def)
  then have ex: "session_exists sid (update_session sid (accumulate sched u entry now) (carry_forward sid now st))"
    by (simp add: sr)
  let ?new = "usage_ledger_row sid now (Some model) entry"
  let ?st2 = "update_session sid (accumulate sched u entry now) (carry_forward sid now st)"
  let ?st' = "?st2\<lparr>st_ledger := st_ledger ?st2 @ [?new]\<rparr>"
  have "\<forall>l \<in> set (carry @ [?new]). lr_session_id l = sid"
    by (simp add: carry_def carry_row_def rid usage_ledger_row_def)
  then have own: "filter (\<lambda>l. lr_session_id l = sid) (carry @ [?new]) = carry @ [?new]"
      and foreign: "i \<noteq> sid \<Longrightarrow> filter (\<lambda>l. lr_session_id l = i) (carry @ [?new]) = []" for i
    by (simp_all only: filter_id_conv) (auto simp: filter_empty_conv)
  have led: "st_ledger ?st' = st_ledger st @ carry @ [?new]"
    using cf by (simp add: update_session_def)
  have "record_usage_metrics sid now sched u model entry st = Inr ?st'"
    using ex by (simp add: record_usage_metrics_def Let_def)
  moreover have "ledger_of sid ?st' = ledger_of sid st @ carry @ [?new]"
    unfolding ledger_of_def led filter_append [of _ "st_ledger st"] own ..
  moreover have "\<forall>i. i \<noteq> sid \<longrightarrow> ledger_of i ?st' = ledger_of i st"
    unfolding ledger_of_def led filter_append [of _ "st_ledger st"] using foreign by simp
  moreover have "st_sessions ?st' =
      map (\<lambda>s. if sr_id s = sid then accumulate sched u entry now s else s) (st_sessions st)"
      "st_messages ?st' = st_messages st"
    by (simp_all add: update_session_def carry_forward_def)
  ultimately show ?thesis by blast
qed

lemma session_tree_map:
  assumes "\<And>s. sr_id (f s) = sr_id s" "\<And>s. sr_parent_session_id (f s) = sr_parent_session_id s"
  shows "session_tree i (map f rows) = session_tree i rows"
proof -
  have "tree_step (map f rows) = tree_step rows"
    by (rule ext) (simp add: tree_step_def filter_map comp_def assms)
  then show ?thesis by (simp add: session_tree_def filter_map comp_def assms)
qed

lemma sum_list_one_raised:
  assumes "distinct (map k xs)"
    and "\<And>x. x \<in> set xs \<Longrightarrow> g x = h x + (if k x = i then d else (0::int))"
  shows "sum_list (map g xs) = sum_list (map h xs) + (if i \<in> k ` set xs then d else 0)"
  using assms
proof (induction xs)
  case (Cons x xs)
  then have "sum_list (map g xs) = sum_list (map h xs) + (if i \<in> k ` set xs then d else 0)" by simp
  moreover have "g x = h x + (if k x = i then d else 0)" using Cons.prems(2) by simp
  moreover have "k x \<notin> k ` set xs" using Cons.prems(1) by simp
  ultimately show ?case by auto
qed simp

definition tree_rows :: "string \<Rightarrow> Store \<Rightarrow> SessionRow list" where
  "tree_rows i st = filter (\<lambda>r. sr_id r \<in> set (session_tree i (st_sessions st))) (st_sessions st)"

lemma recorded_row:
  assumes ok: "store_ok st" and ex: "session_exists sid st"
    and rec: "record_usage_metrics sid now sched u model entry st = Inr st'"
    and col: "col \<in> {col_input, col_output, col_total, col_cache_read, col_cache_write}"
    and s: "s \<in> set (st_sessions st)"
  defines "s' \<equiv> if sr_id s = sid then accumulate sched u entry now s else s"
  shows "larger (col (sr_accumulated s')) (ledger_sum col (sr_id s) st') =
    larger (col (sr_accumulated s)) (ledger_sum col (sr_id s) st) +
      (if sr_id s = sid then coalesce 0 (col (columns_of_ledger entry)) else 0)"
proof -
  from ex obtain r where r: "List.find (\<lambda>s. sr_id s = sid) (st_sessions st) = Some r"
    by (cases "List.find (\<lambda>s. sr_id s = sid) (st_sessions st)")
      (auto simp: session_exists_def find_None_iff list_ex_iff)
  note led = record_usage_metrics_ledger [OF ok r, of now sched u model entry, simplified rec sum.inject ex_simps]
  show ?thesis
  proof (cases "sr_id s = sid")
    case True
    have "set (filter (\<lambda>s. sr_id s = sid) (st_sessions st)) = {r}"
      using find_session [OF _ r] ok by (simp add: store_ok_def)
    with s True have sr: "s = r" by auto
    have l: "ledger_of sid st' = ledger_of sid st @ (if carry_needed r st then [carry_row now r st] else []) @
        [usage_ledger_row sid now (Some model) entry]"
      using led by simp
    have acc: "coalesce 0 (col (sr_accumulated (accumulate sched u entry now r))) =
        coalesce 0 (col (sr_accumulated r)) + coalesce 0 (col (columns_of_ledger entry))"
      using col by (auto simp: accumulate_def add_columns_def)
    have car: "col (lr_tokens (carry_row now r st)) = carry_column col r st"
      using col by (auto simp: carry_row_def)
    show ?thesis
      using acc car True sr
      by (auto simp: s'_def larger_def ledger_sum_def l coalesce_append carry_column_def
          usage_ledger_row_def max_def simp del: filter_map.simps)
  next
    case False
    with led have "ledger_of (sr_id s) st' = ledger_of (sr_id s) st" by simp
    with False show ?thesis by (simp add: s'_def ledger_sum_def)
  qed
qed

lemma i32_or_max_Some [simp]: "i32_or_max v \<noteq> None"
  by (simp add: i32_or_max_def)

lemma i32_or_max_unsaturated:
  assumes "i32_or_max v = Some w" "w \<noteq> 2 ^ 31 - 1"
  shows "sint w = v"
proof -
  from assms have v: "- (2 ^ 31) \<le> v" "v < 2 ^ 31" "w = word_of_int v"
    by (auto simp: i32_or_max_def split: if_splits)
  then show ?thesis by (simp add: signed_of_int signed_take_bit_int_eq_self)
qed

subsection \<open>The tree of a session\<close>

definition child_of :: "SessionRow list \<Rightarrow> (string \<times> string) set" where
  "child_of rows = {(p, sr_id s) |p s. s \<in> set rows \<and> sr_parent_session_id s = Some p}"

lemma set_tree_step: "set (tree_step rows ids) = set ids \<union> child_of rows `` set ids"
  by (auto simp: tree_step_def child_of_def)

lemma tree_steps_sub:
  assumes "set ids \<subseteq> sr_id ` set rows"
  shows "set ((tree_step rows ^^ k) ids) \<subseteq> (child_of rows)\<^sup>* `` set ids \<inter> sr_id ` set rows"
proof (induction k)
  case 0
  with assms show ?case by auto
next
  case (Suc k)
  have "child_of rows `` ((child_of rows)\<^sup>* `` set ids) \<subseteq> (child_of rows)\<^sup>* `` set ids"
    by (auto intro: rtrancl_into_rtrancl)
  moreover have "child_of rows `` X \<subseteq> sr_id ` set rows" for X by (auto simp: child_of_def)
  ultimately show ?case using Suc by (simp add: set_tree_step) blast
qed

lemma tree_steps_grow:
  "(\<exists>j < k. set (tree_step rows ((tree_step rows ^^ j) ids)) = set ((tree_step rows ^^ j) ids)) \<or>
   k \<le> card (set ((tree_step rows ^^ k) ids))"
proof (induction k)
  case (Suc k)
  let ?X = "(tree_step rows ^^ k) ids"
  show ?case
  proof (cases "set (tree_step rows ?X) = set ?X")
    case True
    then show ?thesis by blast
  next
    case False
    then have "set ?X \<subset> set (tree_step rows ?X)" by (auto simp: set_tree_step)
    then have "card (set ?X) < card (set (tree_step rows ?X))" by (simp add: psubset_card_mono)
    with Suc show ?thesis by (auto simp: less_Suc_eq)
  qed
qed simp

lemma tree_fixpoint:
  "set (tree_step rows X) = set X \<Longrightarrow> set ((tree_step rows ^^ n) X) = set X"
proof (induction n)
  case (Suc n)
  then have "set ((tree_step rows ^^ n) X) = set X" by simp
  with Suc.prems show ?case by (simp add: set_tree_step)
qed simp

text \<open>The tree whose usage is totalled holds exactly the session and the sessions reached from it by
  parent links, cycles included: as many rounds as there are sessions are enough.\<close>

theorem session_tree_descendants:
  "set (session_tree sid rows) = {i. sid \<in> sr_id ` set rows \<and> (sid, i) \<in> (child_of rows)\<^sup>*}"
proof -
  let ?n = "length rows" and ?X = "map sr_id (filter (\<lambda>s. sr_id s = sid) rows)"
  have X: "set ?X = (if sid \<in> sr_id ` set rows then {sid} else {})" by auto
  have sub: "set ?X \<subseteq> sr_id ` set rows" by auto
  note tree = tree_steps_sub [OF sub]
  have "\<exists>j \<le> ?n. set (tree_step rows ((tree_step rows ^^ j) ?X)) = set ((tree_step rows ^^ j) ?X)"
  proof (rule ccontr)
    assume "\<not> ?thesis"
    then have "Suc ?n \<le> card (set ((tree_step rows ^^ Suc ?n) ?X))"
      using tree_steps_grow [of "Suc ?n" rows ?X] by (auto simp: less_Suc_eq_le)
    also have "\<dots> \<le> card (sr_id ` set rows)" using tree [of "Suc ?n"] by (intro card_mono) auto
    also have "\<dots> \<le> ?n" using card_image_le card_length order.trans by (metis List.finite_set)
    finally show False by simp
  qed
  then obtain j where j: "j \<le> ?n" "set (tree_step rows ((tree_step rows ^^ j) ?X)) = set ((tree_step rows ^^ j) ?X)"
    by blast
  let ?T = "(tree_step rows ^^ j) ?X"
  have "(tree_step rows ^^ ?n) ?X = (tree_step rows ^^ (?n - j)) ?T"
    using j(1) by (metis comp_apply funpow_add le_add_diff_inverse2)
  then have eq: "set (session_tree sid rows) = set ?T"
    using tree_fixpoint [OF j(2)] by (simp add: session_tree_def)
  have closed: "child_of rows `` set ?T \<subseteq> set ?T" using j(2) by (auto simp: set_tree_step)
  have "set ?X \<subseteq> set ((tree_step rows ^^ k) ?X)" for k by (induction k) (auto simp: set_tree_step)
  then have start: "set ?X \<subseteq> set ?T" .
  have "i \<in> set ?T" if "(sid, i) \<in> (child_of rows)\<^sup>*" "sid \<in> set ?T" for i
    using that by (induction) (use closed in auto)
  with start tree [of j] X show ?thesis by (auto simp: eq split: if_splits)
qed

lemma total_recorded:
  assumes ok: "store_ok st" and ex: "session_exists sid st"
    and rec: "record_usage_metrics sid now sched u model entry st = Inr st'"
    and col: "col \<in> {col_input, col_output, col_total, col_cache_read, col_cache_write}"
  shows "total_of col (tree_rows i st') st' = total_of col (tree_rows i st) st +
    (if sid \<in> set (session_tree i (st_sessions st)) then coalesce 0 (col (columns_of_ledger entry)) else 0)"
proof -
  let ?f = "\<lambda>s. if sr_id s = sid then accumulate sched u entry now s else s"
  from ex obtain r where r: "List.find (\<lambda>s. sr_id s = sid) (st_sessions st) = Some r"
    by (cases "List.find (\<lambda>s. sr_id s = sid) (st_sessions st)")
      (auto simp: session_exists_def find_None_iff list_ex_iff)
  from record_usage_metrics_ledger [OF ok r, of now sched u model entry] rec
  have rows: "st_sessions st' = map ?f (st_sessions st)" by auto
  have f: "sr_id (?f s) = sr_id s" "sr_parent_session_id (?f s) = sr_parent_session_id s" for s
    by (simp_all add: accumulate_def)
  have tree: "tree_rows i st' = map ?f (tree_rows i st)"
    unfolding tree_rows_def rows session_tree_map [of ?f, OF f] by (simp add: filter_map comp_def f del: filter_map.simps)
  have d: "distinct (map sr_id (tree_rows i st))"
    using ok by (simp add: tree_rows_def store_ok_def distinct_map_filter)
  have mem: "sid \<in> sr_id ` set (tree_rows i st) \<longleftrightarrow> sid \<in> set (session_tree i (st_sessions st))"
    using ex by (auto simp: tree_rows_def session_exists_def list_ex_iff)
  have "total_of col (tree_rows i st') st' =
      sum_list (map (\<lambda>s. larger (col (sr_accumulated (?f s))) (ledger_sum col (sr_id s) st')) (tree_rows i st))"
    by (simp add: total_of_def tree comp_def f)
  also have "\<dots> = total_of col (tree_rows i st) st +
      (if sid \<in> sr_id ` set (tree_rows i st) then coalesce 0 (col (columns_of_ledger entry)) else 0)"
    unfolding total_of_def
    by (rule sum_list_one_raised [OF d]) (rule recorded_row [OF ok ex rec col], simp add: tree_rows_def)
  finally show ?thesis unfolding mem .
qed

lemma reported_total:
  assumes "(field, col) \<in> {(input_tokens, col_input), (output_tokens, col_output), (total_tokens, col_total),
      (cache_read_input_tokens, col_cache_read), (cache_write_input_tokens, col_cache_write)}"
  shows "field (su_accumulated_usage (get_session_usage_totals i st)) = i32_or_max (total_of col (tree_rows i st) st)"
  using assms by (auto simp: get_session_usage_totals_def tree_rows_def Let_def Usage_new_def)

text \<open>C12: recording a call's usage shows in the totals \<open>get_session_usage_totals\<close> reports. For the session of
  the call and for every session it descends from, each token total that read less than the cap of
  \<open>i32::MAX\<close> then reads what it read plus what the call used, or the cap when that does not fit; for every
  other session it reads what it read. This is so whether or not the session row and the ledger agreed
  before.\<close>

theorem usage_recorded_exactly:
  assumes "store_ok st" "session_exists sid st"
  shows "\<exists>st'. record_usage_metrics sid now sched u model entry st = Inr st' \<and>
     (\<forall>i field col w.
        (field, col) \<in> {(input_tokens, col_input), (output_tokens, col_output), (total_tokens, col_total),
          (cache_read_input_tokens, col_cache_read), (cache_write_input_tokens, col_cache_write)} \<longrightarrow>
        field (su_accumulated_usage (get_session_usage_totals i st)) = Some w \<longrightarrow>
        (if (i, sid) \<in> (child_of (st_sessions st))\<^sup>* \<and> session_exists i st
         then w \<noteq> 2 ^ 31 - 1 \<longrightarrow>
           field (su_accumulated_usage (get_session_usage_totals i st')) =
             i32_or_max (sint w + coalesce 0 (col (columns_of_ledger entry)))
         else field (su_accumulated_usage (get_session_usage_totals i st')) = Some w))"
proof -
  from assms(2) obtain r where r: "List.find (\<lambda>s. sr_id s = sid) (st_sessions st) = Some r"
    by (cases "List.find (\<lambda>s. sr_id s = sid) (st_sessions st)")
      (auto simp: session_exists_def find_None_iff list_ex_iff)
  obtain st' where st': "record_usage_metrics sid now sched u model entry st = Inr st'"
    using record_usage_metrics_ledger [OF assms(1) r, of now sched u model entry] by blast
  have tree: "sid \<in> set (session_tree i (st_sessions st)) \<longleftrightarrow>
      (i, sid) \<in> (child_of (st_sessions st))\<^sup>* \<and> session_exists i st" for i
    by (auto simp: session_tree_descendants session_exists_def list_ex_iff)
  have "if (i, sid) \<in> (child_of (st_sessions st))\<^sup>* \<and> session_exists i st
        then w \<noteq> 2 ^ 31 - 1 \<longrightarrow>
          field (su_accumulated_usage (get_session_usage_totals i st')) =
            i32_or_max (sint w + coalesce 0 (col (columns_of_ledger entry)))
        else field (su_accumulated_usage (get_session_usage_totals i st')) = Some w"
    if p: "(field, col) \<in> {(input_tokens, col_input), (output_tokens, col_output), (total_tokens, col_total),
          (cache_read_input_tokens, col_cache_read), (cache_write_input_tokens, col_cache_write)}"
      and w: "field (su_accumulated_usage (get_session_usage_totals i st)) = Some w" for i field col w
  proof -
    from p have col: "col \<in> {col_input, col_output, col_total, col_cache_read, col_cache_write}" by auto
    note rep = reported_total [OF p]
    from total_recorded [OF assms st' col, of i] i32_or_max_unsaturated [OF w [unfolded rep]] w
    show ?thesis by (simp add: rep tree)
  qed
  with st' show ?thesis by blast
qed

subsection \<open>A concrete store\<close>

definition store1 :: Store where
  "store1 = \<lparr>st_sessions = [new_session_row ''20250101_1'' 0 ''/'' ''first'' SUser Auto],
             st_messages = [], st_next_row = 1, st_ledger = []\<rparr>"

lemma store1_ok: "store_ok store1" "session_exists ''20250101_1'' store1"
  by (simp_all add: store_ok_def store1_def session_exists_def new_session_row_def)

theorem create_session_fresh_witness:
  "\<exists>sid st'. create_session ''20250101'' 5 ''/'' ''second'' SUser Auto store1 = Inr (sid, st') \<and>
     \<not> session_exists sid store1 \<and> session_exists sid st' \<and> starts_with ''20250101'' sid \<and>
     store_ok st' \<and> get_conversation sid st' = []"
  by (rule create_session_fresh [OF store1_ok(1)]) simp

definition entry1 :: MessageUsage where
  "entry1 = from_provider_usage (ProviderUsage_new ''m'' (Usage_new (Some 7) (Some 5) None)) False"

definition store3 :: Store where
  "store3 = store1\<lparr>st_sessions := st_sessions store1 @
     [(new_session_row ''20250101_2'' 0 ''/'' ''sub'' SubAgent Auto)\<lparr>sr_parent_session_id := Some ''20250101_1''\<rparr>]\<rparr>"

lemma store3_ok: "store_ok store3" "session_exists ''20250101_2'' store3" "session_exists ''20250101_1'' store3"
  by (simp_all add: store_ok_def store3_def store1_def session_exists_def new_session_row_def)

text \<open>What a subagent uses is reported for the session that started it.\<close>

theorem usage_recorded_exactly_witness:
  "\<exists>st'. record_usage_metrics ''20250101_2'' 5 None (Usage_new (Some 7) (Some 5) None) ''m'' entry1 store3 = Inr st' \<and>
     input_tokens (su_accumulated_usage (get_session_usage_totals ''20250101_1'' st')) = Some 7"
proof -
  have used: "coalesce 0 (col_input (columns_of_ledger entry1)) = 7"
    by (simp add: entry1_def from_provider_usage_def ProviderUsage_new_def Usage_new_def columns_of_ledger_def)
  have before: "input_tokens (su_accumulated_usage (get_session_usage_totals ''20250101_1'' store3)) = Some 0"
    by (simp add: reported_total [of _ col_input] tree_rows_def)
      (simp add: store3_def store1_def new_session_row_def total_of_def larger_def no_tokens_def ledger_sum_def
        ledger_of_def i32_or_max_def)
  have "(''20250101_1'', ''20250101_2'') \<in> child_of (st_sessions store3)"
    unfolding child_of_def store3_def store1_def new_session_row_def by simp (metis SessionRow.select_convs(1,21))
  then have tree: "(''20250101_1'', ''20250101_2'') \<in> (child_of (st_sessions store3))\<^sup>*" by blast
  obtain st' where st': "record_usage_metrics ''20250101_2'' 5 None (Usage_new (Some 7) (Some 5) None) ''m'' entry1 store3 = Inr st'"
      "\<And>i field col w.
        (field, col) \<in> {(input_tokens, col_input), (output_tokens, col_output), (total_tokens, col_total),
          (cache_read_input_tokens, col_cache_read), (cache_write_input_tokens, col_cache_write)} \<Longrightarrow>
        field (su_accumulated_usage (get_session_usage_totals i store3)) = Some w \<Longrightarrow>
        (if (i, ''20250101_2'') \<in> (child_of (st_sessions store3))\<^sup>* \<and> session_exists i store3
         then w \<noteq> 2 ^ 31 - 1 \<longrightarrow>
           field (su_accumulated_usage (get_session_usage_totals i st')) =
             i32_or_max (sint w + coalesce 0 (col (columns_of_ledger entry1)))
         else field (su_accumulated_usage (get_session_usage_totals i st')) = Some w)"
    using usage_recorded_exactly [OF store3_ok(1,2), of 5 None "Usage_new (Some 7) (Some 5) None" "''m''" entry1]
    by blast
  from st'(2) [where field = input_tokens and col = col_input, OF _ before] tree store3_ok(3) used
  have "input_tokens (su_accumulated_usage (get_session_usage_totals ''20250101_1'' st')) = i32_or_max 7" by simp
  with st'(1) show ?thesis by (simp add: i32_or_max_def)
qed

definition store2 :: Store where
  "store2 = store1\<lparr>st_messages :=
     [\<lparr>mr_id = 1, mr_message_id = Some ''a'', mr_session_id = ''20250101_1'', mr_role = ''user'',
       mr_content = [block_text ''hi''], mr_created = 10, mr_metadata = Some MessageMetadata_default\<rparr>,
      \<lparr>mr_id = 2, mr_message_id = Some ''b'', mr_session_id = ''20250101_1'', mr_role = ''assistant'',
       mr_content = [tool_request ''t'' (Inr \<lparr>ctr_name = ''shell'', ctr_arguments = None\<rparr>)],
       mr_created = 9, mr_metadata = Some MessageMetadata_default\<rparr>],
     st_next_row := 3\<rparr>"

lemma store2_ok: "store_ok store2" "session_exists ''20250101_1'' store2"
  by (simp_all add: store_ok_def row_ok_def store2_def store1_def session_exists_def new_session_row_def
      role_of_string_def)

lemma store2_conversation:
  "map m_id (get_conversation ''20250101_1'' store2) = [Some ''b'', Some ''a'']"
  "map m_content (get_conversation ''20250101_1'' store2) =
     [[tool_request ''t'' (Inr \<lparr>ctr_name = ''shell'', ctr_arguments = None\<rparr>)], [block_text ''hi'']]"
  by (simp_all add: get_conversation_map [OF store2_ok(1)] rows_of_def)
    (simp_all add: store2_def store1_def row_message_def)

theorem add_message_appends_witness:
  "\<exists>st'. add_message E ''20250101_1'' 0 ''u'' (Message_user 3) store2 = Inr st' \<and>
     map m_id (get_conversation ''20250101_1'' st') = [Some ''b'', Some ''a'', Some ''msg_20250101_1_u'']"
proof -
  have "message_id_or ''20250101_1'' ''u'' (Message_user 3) = ''msg_20250101_1_u''"
    by (simp add: message_id_or_def Message_user_def Message_new_def)
  with add_message_appends [OF store2_ok, of E 0 "''u''" "Message_user 3"] store2_conversation(1)
  show ?thesis by auto
qed

theorem replace_conversation_reads_back_witness:
  "\<exists>st'. replace_conversation E ''20250101_1'' (\<lambda>_. ''u'') [Message_user 3, Message_assistant 4] store2 = Inr st' \<and>
     map m_role (get_conversation ''20250101_1'' st') = [User, Assistant]"
proof -
  have s: "sorted (map m_created [Message_user 3, Message_assistant 4])"
    by (simp add: Message_user_def Message_assistant_def Message_new_def)
  have "map m_role (with_stored_ids E ''20250101_1'' (\<lambda>_. ''u'') 0 [Message_user 3, Message_assistant 4]) =
      [User, Assistant]"
    by (simp add: with_stored_ids_def reloaded_def Message_user_def Message_assistant_def Message_new_def)
  with replace_conversation_reads_back [OF store2_ok, of E "\<lambda>_. ''u''" "[Message_user 3, Message_assistant 4]"] s
  show ?thesis by metis
qed

theorem truncate_from_message_prefix_witness:
  "map m_id (get_conversation ''20250101_1'' (truncate_conversation_from_message ''20250101_1'' ''a'' store2)) =
     [Some ''b'']"
proof -
  obtain m n where mn: "get_conversation ''20250101_1'' store2 = [m, n]" "m_id m = Some ''b''" "m_id n = Some ''a''"
    using store2_conversation(1) by (auto simp: map_eq_Cons_conv)
  with truncate_from_message_prefix [OF store2_ok(1), of "''20250101_1''" "''a''"] show ?thesis by simp
qed

lemma store2_distinct_ids: "distinct (filter_map m_id (get_conversation ''20250101_1'' store2))"
proof -
  obtain m n where "get_conversation ''20250101_1'' store2 = [m, n]" "m_id m = Some ''b''" "m_id n = Some ''a''"
    using store2_conversation(1) by (auto simp: map_eq_Cons_conv)
  then show ?thesis by simp
qed

theorem update_message_metadata_frame_witness:
  "\<exists>st'. update_message_metadata ''20250101_1'' ''a'' with_agent_invisible store2 = Inr st' \<and> store_ok st'"
proof -
  have "Some ''a'' \<in> m_id ` set (get_conversation ''20250101_1'' store2)"
    using store2_conversation(1) by (metis list.set_intros list.set_map)
  with update_message_metadata_frame [OF store2_ok(1) store2_distinct_ids, of "''a''" with_agent_invisible]
  show ?thesis by auto
qed

theorem tool_meta_patched_witness:
  "get_conversation ''20250101_1'' (update_tool_request_meta E ''20250101_1'' ''t'' (JObj []) store2) =
     map (patch_message E ''t'' (JObj [])) (get_conversation ''20250101_1'' store2)"
proof (rule tool_meta_patched [OF store2_ok(1) store2_distinct_ids])
  obtain m n where mn: "get_conversation ''20250101_1'' store2 = [m, n]" "m_content n = [block_text ''hi'']"
    using store2_conversation(2) by (auto simp: map_eq_Cons_conv)
  then show "length (get_conversation ''20250101_1'' store2) \<le> 100" by simp
  from mn show "length (filter (\<lambda>m. list_ex (requests_tool ''t'') (m_content m))
      (get_conversation ''20250101_1'' store2)) \<le> 1"
    by (simp add: block_text_def requests_tool_def)
qed

end
