(* ===== verification/Session_Invariant.thy ===== *)
theory Session_Invariant
  imports Machine_Properties Session_Accounting
begin

text \<open>
  The session store as a transition system: \<open>store_step\<close> has one rule for each operation of
  \<open>SessionStorage\<close> that writes. Every state it reaches is well formed, and every transaction of the state
  machine, a failed run included, is a sequence of such steps.
\<close>

inductive store_step :: "Store \<Rightarrow> Store \<Rightarrow> bool" where
  step_create: "create_session today now wd name ty mode st = Inr (sid, st') \<Longrightarrow> store_step st st'"
| step_delete: "delete_session sid st = Inr st' \<Longrightarrow> store_step st st'"
| step_update: "apply_update sid now b st = Inr st' \<Longrightarrow> store_step st st'"
| step_add: "add_message E sid now uuid m st = Inr st' \<Longrightarrow> store_step st st'"
| step_replace: "replace_conversation E sid uuids c st = Inr st' \<Longrightarrow> store_step st st'"
| step_truncate: "store_step st (truncate_conversation sid ts st)"
| step_truncate_from: "store_step st (truncate_conversation_from_message sid mid st)"
| step_metadata: "update_message_metadata sid mid f st = Inr st' \<Longrightarrow> store_step st st'"
| step_tool_meta: "store_step st (update_tool_request_meta E sid tid patch st)"
| step_usage: "record_usage_metrics sid now sched u model entry st = Inr st' \<Longrightarrow> store_step st st'"

definition empty_store :: Store where
  "empty_store = \<lparr>st_sessions = [], st_messages = [], st_next_row = 1, st_ledger = []\<rparr>"

subsection \<open>Every operation keeps the store well formed\<close>

lemma store_ok_add_session:
  assumes "store_ok st" "\<not> session_exists (sr_id row) st"
  shows "store_ok (st\<lparr>st_sessions := st_sessions st @ [row]\<rparr>)"
proof -
  have "session_exists i (st\<lparr>st_sessions := st_sessions st @ [row]\<rparr>) = (session_exists i st \<or> i = sr_id row)" for i
    by (auto simp: session_exists_def)
  with assms show ?thesis
    by (auto simp: store_ok_def row_ok_def list_all_iff session_exists_def list_ex_iff)
qed

lemma store_ok_delete_session:
  assumes "store_ok st" "delete_session sid st = Inr st'"
  shows "store_ok st'"
proof -
  from assms(2) have st': "st' = st\<lparr>st_messages := filter (\<lambda>r. mr_session_id r \<noteq> sid) (st_messages st),
      st_ledger := filter (\<lambda>l. lr_session_id l \<noteq> sid) (st_ledger st),
      st_sessions := filter (\<lambda>s. sr_id s \<noteq> sid) (st_sessions st)\<rparr>"
    by (auto simp: delete_session_def split: if_splits)
  have "session_exists i st' = (session_exists i st \<and> i \<noteq> sid)" for i
    by (auto simp: st' session_exists_def list_ex_iff)
  with assms(1) show ?thesis
    by (auto simp: store_ok_def row_ok_def list_all_iff st' sorted_ids_filter distinct_map_filter)
qed

lemma store_ok_ledger:
  assumes "store_ok st" "list_all (\<lambda>l. session_exists (lr_session_id l) st) ls"
  shows "store_ok (st\<lparr>st_ledger := st_ledger st @ ls\<rparr>)"
proof -
  have "session_exists i (st\<lparr>st_ledger := st_ledger st @ ls\<rparr>) = session_exists i st" for i
    by (simp add: session_exists_def)
  with assms show ?thesis by (auto simp: store_ok_def row_ok_def list_all_iff)
qed

lemma store_ok_carry: "store_ok st \<Longrightarrow> store_ok (carry_forward sid now st)"
  unfolding carry_forward_def
  by (rule store_ok_ledger) (auto simp: list_all_iff carry_row_def session_exists_def list_ex_iff)

lemma store_ok_usage:
  assumes "store_ok st" "record_usage_metrics sid now sched u model entry st = Inr st'"
  shows "store_ok st'"
proof -
  let ?st2 = "update_session sid (accumulate sched u entry now) (carry_forward sid now st)"
  have "store_ok ?st2" using store_ok_carry [OF assms(1)] by (simp add: accumulate_def)
  with assms(2) show ?thesis
    by (auto simp: record_usage_metrics_def Let_def usage_ledger_row_def split: if_splits intro!: store_ok_ledger)
qed

lemma store_ok_metadata: "store_ok st \<Longrightarrow> update_message_metadata sid mid f st = Inr st' \<Longrightarrow> store_ok st'"
  by (auto simp: update_message_metadata_def row_ok_def split: option.splits intro!: store_ok_update_rows)

lemma store_ok_tool_meta: "store_ok st \<Longrightarrow> store_ok (update_tool_request_meta E sid tid patch st)"
  by (auto simp: update_tool_request_meta_def update_tool_request_meta_by_message_id_def row_ok_def
      split: option.split prod.split intro!: store_ok_update_rows)

lemma store_ok_create: "store_ok st \<Longrightarrow> create_session today now wd name ty mode st = Inr (sid, st') \<Longrightarrow> store_ok st'"
  by (auto simp: create_session_def Let_def new_session_row_def split: if_splits intro!: store_ok_add_session)

lemma store_ok_apply_update: "store_ok st \<Longrightarrow> apply_update sid now b st = Inr st' \<Longrightarrow> store_ok st'"
  by (auto simp: apply_update_def apply_builder_def split: if_splits)

lemma store_ok_truncate_from: "store_ok st \<Longrightarrow> store_ok (truncate_conversation_from_message sid mid st)"
  by (auto simp: truncate_conversation_from_message_def intro: store_ok_delete split: option.split)

lemma store_step_ok:
  assumes "store_step st st'" "store_ok st"
  shows "store_ok st'"
  using assms(1)
proof cases
  case (step_truncate sid ts)
  with assms(2) show ?thesis by (simp add: truncate_conversation_def store_ok_delete)
qed (use assms(2) in \<open>blast intro: store_ok_create store_ok_delete_session store_ok_apply_update store_ok_add_message
  store_ok_replace store_ok_truncate_from store_ok_metadata store_ok_tool_meta store_ok_usage\<close>)+

lemma store_steps_ok: "store_step\<^sup>*\<^sup>* st st' \<Longrightarrow> store_ok st \<Longrightarrow> store_ok st'"
  by (induction rule: rtranclp_induct) (auto dest: store_step_ok)

lemma empty_store_ok: "store_ok empty_store"
  by (simp add: empty_store_def store_ok_def)

subsection \<open>What a reader gets\<close>

text \<open>C7: whatever operations a database has gone through since it was created, in whatever order, its row ids grow, no
  two sessions share an id, every message row and every ledger row belongs to a session that exists, and
  reading a conversation drops no row of it.\<close>

theorem reachable_store_well_formed:
  assumes "store_step\<^sup>*\<^sup>* empty_store st"
  shows "store_ok st \<and> length (get_conversation sid st) = length (rows_of sid st) \<and>
     list_all (\<lambda>m. m_id m \<noteq> None) (get_conversation sid st) \<and>
     sorted (map m_created (get_conversation sid st))"
proof -
  have ok: "store_ok st" using store_steps_ok [OF assms] empty_store_ok by blast
  have "m_id m \<noteq> None" if "m \<in> set (get_conversation sid st)" for m
    using that ok by (auto simp: set_get_conversation row_message_def store_ok_def row_ok_def rows_of_def list_all_iff)
  moreover have "sorted (map m_created (get_conversation sid st))"
    using get_conversation_sort [OF ok, of sid] by simp
  ultimately show ?thesis using ok length_get_conversation [OF ok] by (simp add: list_all_iff)
qed

subsection \<open>The state machine\<close>

lemma commit_steps: "commit f st = (res, st') \<Longrightarrow> (\<And>a b. f a = Inr b \<Longrightarrow> store_step a b) \<Longrightarrow> store_step\<^sup>*\<^sup>* st st'"
  by (auto simp: commit_def split: sum.splits)

lemma then_tx_steps:
  assumes "then_tx a b st = (res, st')"
    and "\<And>s r s'. a s = (r, s') \<Longrightarrow> store_step\<^sup>*\<^sup>* s s'" "\<And>s r s'. b s = (r, s') \<Longrightarrow> store_step\<^sup>*\<^sup>* s s'"
  shows "store_step\<^sup>*\<^sup>* st st'"
  using assms(1) by (auto simp: then_tx_def split: prod.splits sum.splits dest!: assms(2,3) intro: rtranclp_trans)

lemma apply_effect_steps: "apply_effect V session e st = (res, st') \<Longrightarrow> store_step\<^sup>*\<^sup>* st st'"
proof (induction V session e arbitrary: st res st' rule: apply_effect.induct)
  case (2 V session c u)
  then show ?case
    by (auto simp: no_tx_def record_usage_def intro: store_step.intros elim!: then_tx_steps commit_steps
        split: option.splits sum.splits)
qed (auto simp: record_usage_def intro: store_step.intros elim!: commit_steps)

lemma apply_effects_steps: "apply_effects V session es st = (res, st') \<Longrightarrow> store_step\<^sup>*\<^sup>* st st'"
  by (induction es arbitrary: st res st') (auto simp: no_tx_def elim!: then_tx_steps dest: apply_effect_steps)

lemma apply_result_steps: "apply_result V session r st w = (res, st', w') \<Longrightarrow> store_step\<^sup>*\<^sup>* st st'"
  by (auto simp: apply_result_def Let_def split: prod.splits sum.splits dest: apply_effects_steps)

lemma run_loop_steps: "run_loop n V X steps sid u st w = Some (res, st', w') \<Longrightarrow> store_step\<^sup>*\<^sup>* st st'"
proof (induction n arbitrary: u st w)
  case (Suc n)
  from Suc.prems show ?case
    by (auto simp: Let_def split: sum.splits prod.splits option.splits if_splits
        dest!: apply_result_steps Suc.IH intro: rtranclp_trans)
qed simp

text \<open>A run of the state machine, whatever its operations are and whether it ends well, fails or is cancelled,
  changes the database only through the store's operations and so keeps it well formed.\<close>

lemma run_steps: "run n V X steps sid st w = Some (res, st', w') \<Longrightarrow> store_step\<^sup>*\<^sup>* st st'"
  by (auto simp: run_def split: sum.splits option.splits prod.splits dest: run_loop_steps)

theorem run_keeps_store:
  assumes "run n V X steps sid st w = Some (res, st', w')" "store_ok st"
  shows "store_step\<^sup>*\<^sup>* st st' \<and> store_ok st'"
  using run_steps [OF assms(1)] store_steps_ok assms(2) by blast

lemma copy_session_steps: "copy_session E X today now uuid sid name st = (res, st') \<Longrightarrow> store_step\<^sup>*\<^sup>* st st'"
  by (auto simp: copy_session_def copy_into_def split: sum.splits prod.splits option.splits
      dest!: step_create step_update step_replace)

end
