(* ===== verification/Session_Isolation.thy ===== *)
theory Session_Isolation
  imports Session_Invariant
begin

text \<open>
  Sessions share three tables, and the writers name their rows by session, by message id or by row id. What the state
  machine writes while it runs for one session stays in the rows of that session: for every other session the row,
  the messages and the ledger entries are what they were. The patch of a tool request, which updates by row id
  alone, needs for this that no two rows share an id.
\<close>

definition aside :: "string \<Rightarrow> Store \<Rightarrow> SessionRow list \<times> MessageRow list \<times> LedgerRow list" where
  "aside i st = (filter (\<lambda>s. sr_id s = i) (st_sessions st), rows_of i st, ledger_of i st)"

definition confined :: "string \<Rightarrow> Store \<Rightarrow> Store \<Rightarrow> bool" where
  "confined sid st st' = (store_ok st \<longrightarrow> store_ok st' \<and> (\<forall>i. i \<noteq> sid \<longrightarrow> aside i st' = aside i st))"

lemma confined_refl [simp]: "confined sid st st"
  by (simp add: confined_def)

lemma confined_trans [trans]: "confined sid a b \<Longrightarrow> confined sid b c \<Longrightarrow> confined sid a c"
  by (simp add: confined_def)

subsection \<open>The writers\<close>

lemma aside_update_session:
  assumes "i \<noteq> sid" "\<And>s. sr_id (f s) = sr_id s"
  shows "aside i (update_session sid f st) = aside i st"
proof -
  have "filter (\<lambda>s. sr_id s = i) (map (\<lambda>s. if sr_id s = sid then f s else s) rows) = filter (\<lambda>s. sr_id s = i) rows" for rows
    using assms by (induction rows) auto
  then show ?thesis by (simp add: aside_def update_session_def rows_of_def ledger_of_def)
qed

lemma aside_insert: "insert_message_row E sid mid t m st = Inr st' \<Longrightarrow> i \<noteq> sid \<Longrightarrow> aside i st' = aside i st"
  by (auto simp: insert_message_row_def aside_def rows_of_def ledger_of_def split: if_splits)

lemma confined_add: "add_message E sid now uuid m st = Inr st' \<Longrightarrow> confined sid st st'"
  by (auto simp: confined_def add_message_def Let_def aside_update_session aside_insert
      split: sum.splits dest: store_ok_insert)

lemma aside_insert_all: "insert_all E sid uuid n ms st = Inr st' \<Longrightarrow> i \<noteq> sid \<Longrightarrow> aside i st' = aside i st"
  by (induction ms arbitrary: n st) (auto split: sum.splits dest: aside_insert)

lemma aside_delete: "i \<noteq> sid \<Longrightarrow> aside i (delete_messages (\<lambda>r. mr_session_id r = sid) st) = aside i st"
  by (auto simp: aside_def delete_messages_def rows_of_def ledger_of_def intro!: filter_cong)

lemma confined_replace: "replace_conversation E sid uuid c st = Inr st' \<Longrightarrow> confined sid st st'"
  using store_ok_replace [of st E sid uuid c st']
  by (auto simp: confined_def replace_conversation_def aside_delete dest: aside_insert_all)

lemma aside_update_rows:
  assumes "\<And>r. r \<in> set (st_messages st) \<Longrightarrow> p r \<Longrightarrow> mr_session_id r = sid \<and> mr_session_id (f r) = sid" "i \<noteq> sid"
  shows "aside i (update_rows p f st) = aside i st"
proof -
  have "filter (\<lambda>r. mr_session_id r = i) (map (\<lambda>r. if p r then f r else r) rs) = filter (\<lambda>r. mr_session_id r = i) rs"
    if "\<And>r. r \<in> set rs \<Longrightarrow> p r \<Longrightarrow> mr_session_id r = sid \<and> mr_session_id (f r) = sid" for rs
    using that assms(2) by (induction rs) auto
  with assms(1) show ?thesis by (simp add: aside_def update_rows_def rows_of_def ledger_of_def)
qed

lemma confined_metadata: "update_message_metadata sid mid f st = Inr st' \<Longrightarrow> confined sid st st'"
  using store_ok_metadata [of st sid mid f st']
  by (auto simp: confined_def update_message_metadata_def split: option.splits intro!: aside_update_rows)

lemma find_map_Some: "find_map f xs = Some y \<Longrightarrow> \<exists>x \<in> set xs. f x = Some y"
  by (induction xs) (auto split: option.splits)

lemma confined_tool_meta_by_id: "confined sid st (update_tool_request_meta_by_message_id E sid mid tid patch st)"
proof (cases "store_ok st \<and> update_tool_request_meta_by_message_id E sid mid tid patch st \<noteq> st")
  case True
  then obtain rid c where f: "find_map (\<lambda>r. map_option (\<lambda>c. (mr_id r, c)) (patch_content tid patch (mr_content r)))
      (sort_key mr_id (filter (\<lambda>r. mr_message_id r = Some mid) (rows_of sid st))) = Some (rid, c)"
    and st': "update_tool_request_meta_by_message_id E sid mid tid patch st =
      update_rows (\<lambda>r. mr_id r = rid) (\<lambda>r. r\<lparr>mr_content := stored_content E c\<rparr>) st"
    by (auto simp: update_tool_request_meta_by_message_id_def split: option.splits)
  from find_map_Some [OF f] obtain r where r: "r \<in> set (st_messages st)" "mr_session_id r = sid" "mr_id r = rid"
    by (auto simp: rows_of_def)
  from True have "sorted_wrt (<) (map mr_id (st_messages st))" by (simp add: store_ok_def)
  then have "inj_on mr_id (set (st_messages st))" by (simp add: strict_sorted_iff distinct_map)
  with r have own: "mr_session_id x = sid" if "x \<in> set (st_messages st)" "mr_id x = rid" for x
    using that by (metis inj_onD)
  have "aside i (update_rows (\<lambda>r. mr_id r = rid) (\<lambda>r. r\<lparr>mr_content := stored_content E c\<rparr>) st) = aside i st"
    if "i \<noteq> sid" for i
    using that by (intro aside_update_rows) (auto dest: own)
  moreover have "store_ok (update_rows (\<lambda>r. mr_id r = rid) (\<lambda>r. r\<lparr>mr_content := stored_content E c\<rparr>) st)"
    by (rule store_ok_update_rows) (use True in \<open>auto simp: row_ok_def\<close>)
  ultimately show ?thesis by (simp add: confined_def st')
qed (auto simp: confined_def)

lemma confined_tool_meta: "confined sid st (update_tool_request_meta E sid tid patch st)"
  by (simp add: update_tool_request_meta_def confined_tool_meta_by_id split: option.split)

lemma confined_update: "apply_update sid now b st = Inr st' \<Longrightarrow> confined sid st st'"
  using store_ok_apply_update [of st sid now b st']
  by (auto simp: confined_def apply_update_def apply_builder_def aside_update_session split: if_splits)

lemma confined_usage: "record_usage_metrics sid now sched u model entry st = Inr st' \<Longrightarrow> confined sid st st'"
proof -
  assume r: "record_usage_metrics sid now sched u model entry st = Inr st'"
  have "aside i (st\<lparr>st_ledger := st_ledger st @ ls\<rparr>) = aside i st"
    if "i \<noteq> sid" "list_all (\<lambda>l. lr_session_id l = sid) ls" for i ls and st :: Store
    using that by (auto simp: aside_def rows_of_def ledger_of_def filter_empty_conv list_all_iff)
  note ledger = this
  have carry: "aside i (carry_forward sid now st) = aside i st" if "i \<noteq> sid" for i
    unfolding carry_forward_def using that by (intro ledger) (auto simp: list_all_iff carry_row_def)
  have "aside i st' = aside i st" if "i \<noteq> sid" for i
    using r that
    by (auto simp: record_usage_metrics_def Let_def usage_ledger_row_def ledger aside_update_session accumulate_def carry
        split: if_splits)
  with store_ok_usage [OF _ r] show ?thesis by (simp add: confined_def)
qed

subsection \<open>The machine\<close>

lemma commit_confined: "commit f st = (res, st') \<Longrightarrow> (\<And>a b. f a = Inr b \<Longrightarrow> confined sid a b) \<Longrightarrow> confined sid st st'"
  by (auto simp: commit_def split: sum.splits)

lemma then_tx_confined:
  assumes "then_tx a b st = (res, st')"
    and "\<And>s r s'. a s = (r, s') \<Longrightarrow> confined sid s s'" "\<And>s r s'. b s = (r, s') \<Longrightarrow> confined sid s s'"
  shows "confined sid st st'"
  using assms(1) by (auto simp: then_tx_def split: prod.splits sum.splits dest!: assms(2,3) intro: confined_trans)

lemmas writers_confined = confined_add confined_replace confined_metadata confined_tool_meta confined_update confined_usage

lemma apply_effect_confined: "apply_effect V session e st = (res, st') \<Longrightarrow> confined (s_id session) st st'"
proof (induction V session e arbitrary: st res st' rule: apply_effect.induct)
  case (2 V session c u)
  then show ?case
    by (auto simp: no_tx_def record_usage_def intro: writers_confined elim!: then_tx_confined commit_confined
        split: option.splits sum.splits)
qed (auto simp: record_usage_def intro: writers_confined elim!: commit_confined)

lemma apply_effects_confined: "apply_effects V session es st = (res, st') \<Longrightarrow> confined (s_id session) st st'"
  by (induction es arbitrary: st res st') (auto simp: no_tx_def elim!: then_tx_confined dest: apply_effect_confined)

lemma apply_result_confined: "apply_result V session r st w = (res, st', w') \<Longrightarrow> confined (s_id session) st st'"
  by (auto simp: apply_result_def Let_def split: prod.splits sum.splits dest: apply_effects_confined)

lemma get_session_id: "get_session X sid b st = Inr session \<Longrightarrow> s_id session = sid"
  by (auto simp: get_session_def session_of_row_def Let_def find_Some_iff split: option.splits sum.splits if_splits)

lemma run_loop_confined: "run_loop n V X steps sid u st w = Some (res, st', w') \<Longrightarrow> confined sid st st'"
proof (induction n arbitrary: u st w)
  case (Suc n)
  show ?case
  proof (cases "get_session X sid True st")
    case (Inr session)
    note result = apply_result_confined [of V session, unfolded get_session_id [OF Inr]]
    from Suc.prems Inr show ?thesis
      by (auto simp: Let_def split: sum.splits prod.splits option.splits if_splits
          dest!: result Suc.IH intro: confined_trans)
  qed (use Suc.prems in simp)
qed simp

lemma run_confined: "run n V X steps sid st w = Some (res, st', w') \<Longrightarrow> confined sid st st'"
  by (auto simp: run_def split: sum.splits option.splits prod.splits dest: run_loop_confined)

end
