(* ===== verification/Agent_Properties.thy ===== *)
theory Agent_Properties
  imports Agent_Frame Session_Isolation
begin

text \<open>
  What the agent's machine guarantees as a whole, from its operations and their order: a tool call reaches an extension only
  after inspection or with the user's permission, a cancelled turn is closed, and a reply stays in its session.
\<close>

subsection \<open>One step\<close>

definition standing :: "World \<Rightarrow> (string \<times> CallToolRequestParams) list \<times> GooseMode \<times> bool" where
  "standing w = (w_tool_calls w, w_goose_mode w, w_cancelled w)"

lemma keeps_standing: "keeps authority f \<Longrightarrow> keeps standing f"
  by (auto simp: keeps_def authority_def standing_def)

lemma ids_authority: "authority (snd (effects_ensure_ids V es w)) = authority w"
proof (induction es arbitrary: w)
  case (Cons e es)
  have id: "authority (snd (id_if_missing V m w)) = authority w" for m w
    by (auto simp: id_if_missing_def gen_uuid_def authority_def)
  have "authority (snd (ensure_ids V ms w)) = authority w" for ms w
  proof (induction ms arbitrary: w)
    case (Cons m ms)
    with id [of m w] show ?case by (auto split: prod.splits) (metis snd_conv)
  qed simp
  with id have "authority (snd (effect_ensure_ids V e w)) = authority w"
    by (cases e) (auto split: prod.splits, (metis snd_conv)+)
  with Cons.IH show ?case by (auto split: prod.splits) (metis snd_conv)
qed simp

lemma ensure_message_ids_authority: "authority (snd (ensure_message_ids V r w)) = authority w"
  using ids_authority [of V "effects r" w] by (auto simp: ensure_message_ids_def split: prod.splits)

lemma keeps_run_or_cancel:
  assumes "keeps g (run_one steps session c s)" "\<And>result. keeps g (op_cancel (step_operation s) session c result)"
  shows "keeps g (run_or_cancel steps session c s)"
  unfolding run_or_cancel_def
proof (rule keeps_andThen [OF assms(1)])
  fix result
  have "keeps g (andThen (op_cancel (step_operation s) session c result) (\<lambda>result'. ret (result', True)))"
    by (intro quiet assms(2))
  then show "keeps g (\<lambda>w. if w_cancelled w
      then andThen (op_cancel (step_operation s) session c result) (\<lambda>result'. ret (result', True)) w
      else ret (result, False) w)"
    by (simp add: keeps_def)
qed

lemma keeps_bystander: "bystander P \<Longrightarrow> keeps authority (run_or_cancel steps session c (OperationStep P))"
  by (rule keeps_run_or_cancel) (auto simp: keeps_def run_one_def bystander_def modest_def)

text \<open>Bystanders at the front either end the step or leave it to the others.\<close>

lemma try_steps_bystanders:
  assumes "list_all bystander ps" "try_steps V steps session c (map OperationStep ps @ rest) w = (r, w')"
  shows "authority w' = authority w \<or>
    (\<exists>w1. authority w1 = authority w \<and> try_steps V steps session c rest w1 = (r, w'))"
  using assms
proof (induction ps arbitrary: w)
  case (Cons P ps)
  obtain x w1 where rc: "run_or_cancel steps session c (OperationStep P) w = (x, w1)" by fastforce
  with Cons.prems(1) keepsD [OF keeps_bystander] have a: "authority w1 = authority w" by fastforce
  show ?case
  proof (cases x)
    case (Inl e)
    with Cons.prems(2) rc a show ?thesis by (simp add: andThen_def)
  next
    case (Inr y)
    obtain result k where y: "y = (result, k)" by fastforce
    show ?thesis
    proof (cases result)
      case NotApplicable
      with Cons.prems rc Inr y have "try_steps V steps session c (map OperationStep ps @ rest) w1 = (r, w')"
        by (simp add: andThen_def)
      from Cons.IH [OF _ this] Cons.prems(1) a show ?thesis by simp
    next
      case (Applied r0)
      with Cons.prems rc Inr y ensure_message_ids_authority [of V r0 w1] a show ?thesis
        by (auto simp: andThen_def split: prod.splits)
    qed
  qed
qed auto

lemma try_steps_last:
  assumes "list_all bystander ps" "list_all modest (map step_operation steps)"
    and "try_steps V steps session c (map OperationStep ps @ [InferenceStep (InferenceRunner V' L)]) w = (r, w')"
  shows "w_tool_calls w' = w_tool_calls w"
proof -
  have one: "keeps w_tool_calls (run_one steps session c (InferenceStep (InferenceRunner V' L)))"
  proof -
    have "keeps w_tool_calls (andThen (gather_input session c (map step_operation steps) InferenceInput_default)
        (infer V' L session c))"
      using assms(2) by (intro quiet keeps_calls [OF keeps_gather_input])
    then show ?thesis by (auto simp: keeps_def run_one_def InferenceRunner_def)
  qed
  have rc: "keeps w_tool_calls (run_or_cancel steps session c (InferenceStep (InferenceRunner V' L)))"
  proof (rule keeps_run_or_cancel [OF one])
    show "keeps w_tool_calls (op_cancel (step_operation (InferenceStep (InferenceRunner V' L))) session c result)" for result
      using keeps_llm_commands(2) [THEN keeps_calls] by (simp add: InferenceRunner_def)
  qed
  have last: "w_tool_calls w2 = w_tool_calls w1"
    if "try_steps V steps session c [InferenceStep (InferenceRunner V' L)] w1 = (r, w2)" for w1 w2
    using that rc ensure_message_ids_authority
    by (auto simp: andThen_def keeps_def authority_def split: prod.splits sum.splits OperationResult.splits) (metis snd_conv prod.inject)+
  from try_steps_bystanders [OF assms(1,3)] last show ?thesis by (auto simp: authority_def)
qed

subsection \<open>Approval\<close>

text \<open>The inspectors, asked about these requests, all let this one pass: the permission inspector allows it, and no other
  inspector denies it or wants it approved.\<close>

definition cleared ::
  "Inspector list \<Rightarrow> Session \<Rightarrow> Conversation \<Rightarrow> GooseMode \<Rightarrow> PermissionManager \<Rightarrow> ToolRequest list \<Rightarrow> ToolRequest \<Rightarrow> bool" where
  "cleared is session c mode pm reqs req =
     (let results = filter (\<lambda>res. ir_tool_request_id res = tr_id req)
            (fst (inspect_tools is (s_id session) reqs c mode pm))
      in list_ex (\<lambda>res. ir_inspector_name res = ''permission'' \<and> ir_action res = IAllow) results \<and>
         list_all (\<lambda>res. ir_inspector_name res \<noteq> ''permission'' \<longrightarrow> ir_action res = IAllow) results)"

definition held :: "string \<Rightarrow> PermissionCheckResult \<Rightarrow> bool" where
  "held i r = (has_request i (needs_approval r) \<or> has_request i (denied r))"

lemma has_request_simps [simp]:
  "has_request i (xs @ ys) = (has_request i xs \<or> has_request i ys)"
  "has_request i [req] = (tr_id req = i)" "has_request i (without j xs) = (i \<noteq> j \<and> has_request i xs)"
  by (auto simp: has_request_def without_def list_ex_iff)

lemma apply_result_holds:
  assumes "all i = Some q" "tr_id q = i" "held i r \<or> ir_tool_request_id res = i \<and> ir_action res \<noteq> IAllow"
  shows "held i (apply_inspection_result all res r)"
proof (cases "ir_tool_request_id res = i")
  case True
  then show ?thesis
    using assms by (cases "ir_action res") (simp_all add: held_def apply_inspection_result_def Let_def)
next
  case False
  then have "held i r" using assms(3) by simp
  with False show ?thesis
    by (cases "ir_action res"; cases "all (ir_tool_request_id res)") (auto simp: held_def apply_inspection_result_def Let_def)
qed

lemma apply_results_hold:
  assumes "all i = Some q" "tr_id q = i"
    and "held i r \<or> (\<exists>res \<in> set results. ir_tool_request_id res = i \<and> ir_action res \<noteq> IAllow)"
  shows "held i (fold (apply_inspection_result all) results r)"
  using assms(3)
proof (induction results arbitrary: r)
  case (Cons res results)
  then show ?case
    using apply_result_holds [of all i q r res] assms(1,2) by (cases "held i (apply_inspection_result all res r)") auto
qed simp

text \<open>A request that is neither denied nor to be approved was let pass by every inspector.\<close>

lemma nothing_held:
  assumes "r = process_inspection_results reqs results" "denied r = []" "needs_approval r = []" "req \<in> set reqs"
  shows "list_ex (\<lambda>res. ir_inspector_name res = ''permission'' \<and> ir_action res = IAllow)
      (filter (\<lambda>res. ir_tool_request_id res = tr_id req) results)"
    and "list_all (\<lambda>res. ir_inspector_name res \<noteq> ''permission'' \<longrightarrow> ir_action res = IAllow)
      (filter (\<lambda>res. ir_tool_request_id res = tr_id req) results)"
proof -
  let ?perm = "filter (\<lambda>res. ir_inspector_name res = ''permission'') results"
    and ?others = "filter (\<lambda>res. ir_inspector_name res \<noteq> ''permission'') results"
  let ?base = "fold (add_baseline ?perm) reqs \<lparr>approved = [], needs_approval = [], denied = []\<rparr>"
  have r: "r = fold (apply_inspection_result (request_map ?base)) ?others ?base"
    by (simp add: assms(1) process_inspection_results_def Let_def apply_inspection_results_to_permissions_def)
  have le: "baseline_strictness ?perm req \<le> 2" by (rule baseline_le_2)
  have "req \<in> set (approved ?base @ needs_approval ?base @ denied ?base)"
    using assms(4) le by (auto simp: baseline_lists numeral_2_eq_2 le_Suc_eq)
  then have "request_map ?base (tr_id req) \<noteq> None"
    unfolding request_map_def map_of_eq_None_iff by (force simp: image_iff)
  then obtain q where q: "request_map ?base (tr_id req) = Some q" by auto
  then have "tr_id q = tr_id req" unfolding request_map_def by (auto dest!: map_of_SomeD)
  note hold = apply_results_hold [of "request_map ?base" "tr_id req" q ?base ?others, OF q this, folded r]
  have "\<not> held (tr_id req) r" using assms(2,3) by (simp add: held_def has_request_def)
  with hold have base: "\<not> held (tr_id req) ?base"
    and others: "\<forall>res \<in> set ?others. ir_tool_request_id res = tr_id req \<longrightarrow> ir_action res = IAllow" by blast+
  show "list_all (\<lambda>res. ir_inspector_name res \<noteq> ''permission'' \<longrightarrow> ir_action res = IAllow)
      (filter (\<lambda>res. ir_tool_request_id res = tr_id req) results)"
    using others by (auto simp: list_all_iff)
  have "baseline_strictness ?perm req = 0"
    using base assms(4) le
    by (auto simp: held_def baseline_lists has_request_def list_ex_iff numeral_2_eq_2 le_Suc_eq)
  then obtain res where "find (\<lambda>res. ir_tool_request_id res = tr_id req) ?perm = Some res" "ir_action res = IAllow"
    by (auto simp: baseline_strictness_def strictness_cases split: option.splits)
  then show "list_ex (\<lambda>res. ir_inspector_name res = ''permission'' \<and> ir_action res = IAllow)
      (filter (\<lambda>res. ir_tool_request_id res = tr_id req) results)"
    using find_SomeD by (fastforce simp: list_ex_iff)
qed

lemma ask_approvals_empty: "ask_approvals V results reqs w = (Inr [], w') \<Longrightarrow> reqs = []"
  by (cases reqs) (auto simp: andThen_def split: sum.splits prod.splits)

lemma keeps_ask_approvals [quiet]: "keeps authority (ask_approvals V results reqs)"
proof (induction reqs)
  case (Cons req reqs)
  then show ?case unfolding ask_approvals.simps by (intro quiet)
qed (simp add: keeps_def)

lemma keeps_check_pending: "keeps standing (check_pending V is mode session c reqs)"
proof -
  have "keeps standing (andThen (ask_approvals V results reqs') (\<lambda>es. ret (f es)))" for results reqs' and f :: "StateEffect list \<Rightarrow> StateEffect list"
    by (intro quiet keeps_standing)
  moreover have "standing (w\<lparr>w_permissions := pm\<rparr>) = standing w" for w pm by (simp add: standing_def)
  ultimately show ?thesis by (auto simp: keeps_def check_pending_def Let_def split: prod.splits)
qed

lemma keeps_approval: "keeps standing (tool_approval_run V is session c)"
proof -
  have "keeps standing (andThen (check_pending V is mode session c reqs) (\<lambda>es. ret (f es)))"
    for mode reqs and f :: "StateEffect list \<Rightarrow> OperationResult"
    by (intro quiet keeps_check_pending)
  moreover have "standing (w\<lparr>w_permissions := pm\<rparr>) = standing w" for w pm by (simp add: standing_def)
  ultimately have "standing (snd (tool_approval_run V is session c w)) = standing w" for w
    by (cases "messages_since_kickoff c") (simp_all add: tool_approval_run_def Let_def andThen_def [of "lift _"] lift_def keeps_def)
  then show ?thesis by (simp add: keeps_def)
qed

text \<open>When approval has nothing to do, every pending request has been cleared and every answer is already marked.\<close>

lemma check_pending_empty:
  assumes "check_pending V is mode session c reqs w = (Inr [], w')" "get_permission_inspector is = Some pin" "req \<in> set reqs"
  shows "cleared is session c mode (w_permissions w) reqs req"
proof -
  obtain results pm where i: "inspect_tools is (s_id session) reqs c mode (w_permissions w) = (results, pm)" by fastforce
  let ?r = "process_inspection_results reqs results"
  have p: "process_inspection_results_with_permission_inspector is reqs results = Some ?r"
    by (simp add: process_inspection_results_with_permission_inspector_def assms(2))
  from assms(3) have "reqs \<noteq> []" by auto
  with assms(1) i p obtain es w1 where "ask_approvals V results (needs_approval ?r) (w\<lparr>w_permissions := pm\<rparr>) = (Inr es, w1)"
      "map (\<lambda>req. mark_executable (tr_id req) False) (denied ?r) @ es = []"
    by (auto simp: check_pending_def Let_def andThen_def split: prod.splits sum.splits)
  with ask_approvals_empty have "needs_approval ?r = []" "denied ?r = []" by auto
  from nothing_held [OF refl this(2,1) assms(3)] show ?thesis by (simp add: cleared_def i Let_def)
qed

lemma approval_declines:
  assumes "tool_approval_run V is session c w = (Inr NotApplicable, w')" "w_goose_mode w \<noteq> Chat"
    and "messages_since_kickoff c = Inr ms" "get_permission_inspector is = Some pin"
  shows "answer_effects (responses (from_messages ms)) = [] \<and>
    (\<forall>req \<in> set (pending_requests (from_messages ms)).
     cleared is session c (w_goose_mode w) (fold (remember_answer is) (responses (from_messages ms)) (w_permissions w))
       (pending_requests (from_messages ms)) req)"
proof -
  let ?w = "w\<lparr>w_permissions := fold (remember_answer is) (responses (from_messages ms)) (w_permissions w)\<rparr>"
  obtain x w1 where x: "check_pending V is (w_goose_mode w) session c (pending_requests (from_messages ms)) ?w = (x, w1)"
    by fastforce
  with assms obtain es where es: "x = Inr es" "answer_effects (responses (from_messages ms)) @ es = []"
    by (auto simp: tool_approval_run_def Let_def andThen_def lift_def applied_def split: sum.splits if_splits)
  with x check_pending_empty [of V "is" "w_goose_mode w" session c "pending_requests (from_messages ms)" ?w w1, OF _ assms(4)]
  show ?thesis by auto
qed

lemma scanned_requests: "as_tool_requests (fold scan_approval bs s) = as_tool_requests s @ filter_map as_tool_request bs"
proof (induction bs arbitrary: s)
  case (Cons b bs)
  show ?case
  proof (cases b)
    case (ActionRequired a)
    with Cons.IH show ?thesis by (cases a) auto
  qed (use Cons.IH in auto)
qed simp

text \<open>A confirmation with this id is on record in the turn, without an answer, and the request carries no mark that holds it
  back. The approval operation does not bring this about for a request it asks about: the result that records the
  confirmation marks the request first.\<close>

definition unmarked_confirmation :: "ApprovalState \<Rightarrow> ToolRequest \<Rightarrow> bool" where
  "unmarked_confirmation s req =
     (tr_id req \<in> set (as_approval_requests s) \<and> map_of (as_approval_responses s) (tr_id req) = None \<and>
      request_executable req \<noteq> Some False)"

lemma executable_cleared:
  assumes "(req, Execute) \<in> set (pending_tool_requests E ms)" "answer_effects (responses (from_messages ms)) = []"
  shows "req \<in> set (as_tool_requests (from_messages ms)) \<and> tr_id req \<notin> set (as_answered (from_messages ms)) \<and>
    ((\<exists>p. map_of (as_approval_responses (from_messages ms)) (tr_id req) = Some p \<and> permission_allows p) \<or>
     req \<in> set (pending_requests (from_messages ms)) \<or> unmarked_confirmation (from_messages ms) req)"
proof -
  let ?s = "from_messages ms"
  have mem: "req \<in> set (as_tool_requests ?s)"
    using assms(1) by (force simp: pending_tool_requests_def Let_def set_filter_map from_messages_def scanned_requests)
  have d: "disposition E ?s req = Some Execute"
    using assms(1) by (auto simp: pending_tool_requests_def Let_def set_filter_map)
  then have un: "tr_id req \<notin> set (as_answered ?s)" and ok: "is_ok (tr_tool_call req)" and ex: "request_executable req \<noteq> Some False"
    by (auto simp: disposition_def is_ok_def split: if_splits sum.splits option.splits)
  show ?thesis
  proof (cases "map_of (as_approval_responses ?s) (tr_id req)")
    case (Some p)
    have "permission_allows p"
    proof (rule ccontr)
      assume "\<not> permission_allows p"
      let ?p = "\<lparr>pr_tool_call_id = tr_id req,
        pr_tool_name = (case tr_tool_call req of Inr call \<Rightarrow> Some (ctr_name call) | Inl _ \<Rightarrow> None),
        pr_permission = p, pr_executable = request_executable req\<rparr>"
      have "?p \<in> set (responses ?s)" using mem un Some by (auto simp: responses_def set_filter_map intro!: bexI [of _ req])
      with \<open>\<not> permission_allows p\<close> ex assms(2) show False
        by (auto simp: answer_effects_def filter_map_eq_Nil Let_def)
    qed
    with Some mem un show ?thesis by blast
  next
    case None
    with mem un ok ex show ?thesis by (auto simp: pending_requests_def is_pending_def unmarked_confirmation_def)
  qed
qed

lemma agent_permission_inspector:
  "get_permission_inspector (create_tool_inspection_manager security egress adversary pin) = Some pin"
  by (simp add: get_permission_inspector_def create_tool_inspection_manager_def permission_inspector_def)

subsection \<open>Execution\<close>

lemma execution_calls:
  assumes "messages_since_kickoff c = Inr ms" "tool_execution_run V T session c w = (r, w')"
  shows "\<exists>calls. w_tool_calls w' = w_tool_calls w @ calls \<and>
    (\<forall>(i, call) \<in> set calls. w_goose_mode w \<noteq> Chat \<and> hook_allows V session call \<and>
       (\<exists>req. (req, Execute) \<in> set (pending_tool_requests (oe_ext V) ms) \<and> tr_id req = i \<and> tr_tool_call req = Inr call))"
proof -
  let ?p = "known_pending T session (pending_tool_requests (oe_ext V) ms)"
  have chat: "keeps authority (andThen (emit_message V m) (\<lambda>m. ret (applied [AppendMessage m])))" for m by (intro quiet)
  have run: "(if ?p = [] then ret NotApplicable w
       else if w_goose_mode w = Chat
       then andThen (emit_message V (fold skip_in_chat ?p (Message_user (oe_now V)))) (\<lambda>m. ret (applied [AppendMessage m])) w
       else execute_pending V T session ?p w) = (r, w')"
    using assms by (simp add: tool_execution_run_def Let_def andThen_def [of "lift _"] lift_def)
  consider "w_tool_calls w' = w_tool_calls w" | "w_goose_mode w \<noteq> Chat" "execute_pending V T session ?p w = (r, w')"
  proof (cases "?p = [] \<or> w_goose_mode w \<noteq> Chat")
    case True
    with run that show ?thesis by (auto simp: ret_def split: if_splits)
  next
    case False
    with run have "authority w' = authority w" by (auto intro: keepsD [OF chat])
    with that(1) show ?thesis by (simp add: authority_def)
  qed
  then show ?thesis
  proof cases
    case 1
    then show ?thesis by (intro exI [of _ "[]"]) simp
  next
    case 2
    from start_requests_frame [OF 2(2)] obtain rs w1 where st: "start_requests V T session ?p w = (rs, w1)"
        "w_tool_calls w' = w_tool_calls w1" by blast
    have known: "set ?p \<subseteq> set (pending_tool_requests (oe_ext V) ms)" by (auto simp: known_pending_def)
    from start_requests_calls [OF st(1)] obtain cs where "w_tool_calls w1 = w_tool_calls w @ cs"
        "\<forall>(i, call) \<in> set cs. hook_allows V session call \<and>
          (\<exists>req. (req, Execute) \<in> set ?p \<and> tr_id req = i \<and> tr_tool_call req = Inr call)" by blast
    with st(2) 2(1) known show ?thesis by (intro exI [of _ cs]) fastforce
  qed
qed

lemma try_steps_Cons_calls:
  assumes "try_steps V steps session c (s # rest) w = (r, w')"
  obtains x w1 where "run_or_cancel steps session c s w = (x, w1)"
    "w_tool_calls w' = w_tool_calls w1 \<or> (\<exists>k. x = Inr (NotApplicable, k) \<and> try_steps V steps session c rest w1 = (r, w'))"
proof -
  obtain x w1 where rc: "run_or_cancel steps session c s w = (x, w1)" by fastforce
  have "w_tool_calls w' = w_tool_calls w1 \<or> (\<exists>k. x = Inr (NotApplicable, k) \<and> try_steps V steps session c rest w1 = (r, w'))"
  proof (cases "\<exists>k. x = Inr (NotApplicable, k)")
    case False
    with assms rc ensure_message_ids_authority show ?thesis
      by (auto simp: andThen_def authority_def split: sum.splits OperationResult.splits prod.splits) (metis snd_conv prod.inject)
  qed (use assms rc in \<open>auto simp: andThen_def\<close>)
  with rc that show thesis by blast
qed

lemma run_or_cancel_default:
  assumes "run_or_cancel steps session c (OperationStep P) w = (x, w1)" "op_cancel P = (\<lambda>_ _. ret)" "\<not> w_cancelled w"
  shows "\<exists>y. op_run P session c w = (y, w1) \<and> (\<forall>k. x = Inr (NotApplicable, k) \<longrightarrow> y = Inr NotApplicable)"
  using assms
  by (auto simp: run_or_cancel_def run_one_def andThen_def ret_def split: sum.splits prod.splits if_splits)

lemma try_steps_cancelled_calls:
  assumes "list_all modest (map step_operation ss)" "w_cancelled w" "try_steps V steps session c ss w = (r, w')"
  shows "w_tool_calls w' = w_tool_calls w"
  using assms
proof (induction ss arbitrary: w)
  case (Cons s ss)
  from Cons.prems(3) obtain x w1 where x: "run_or_cancel steps session c s w = (x, w1)"
    "w_tool_calls w' = w_tool_calls w1 \<or> (\<exists>k. x = Inr (NotApplicable, k) \<and> try_steps V steps session c ss w1 = (r, w'))"
    by (rule try_steps_Cons_calls)
  have "keeps authority (andThen (op_cancel (step_operation s) session c NotApplicable) (\<lambda>result'. ret (result', True)))"
    using Cons.prems(1) by (intro quiet) (simp add: modest_def)
  moreover have "run_or_cancel steps session c s w =
      andThen (op_cancel (step_operation s) session c NotApplicable) (\<lambda>result'. ret (result', True)) w"
    using Cons.prems(2) by (simp add: run_or_cancel_def run_one_def andThen_def ret_def)
  ultimately have "authority w1 = authority w" using x(1) keepsD by metis
  with x(2) Cons.IH [of w1] Cons.prems(1,2) show ?case by (auto simp: authority_def)
qed simp

lemma machine_modest: "list_all modest (map step_operation (create_state_machine A L limit turns))"
proof -
  let ?ops = "agent_operations A limit turns" and ?inf = "inf_operation (InferenceRunner (ag_ops A) L)"
  from modest_operations [of A limit turns "ag_ops A" L] slash_bystander [OF modest_operations, of A limit turns "ag_ops A" L]
  have "list_all modest (SlashCommandOperation (?ops @ [?inf]) # ?ops @ [?inf])"
    by (simp add: bystander_def)
  then show ?thesis by (simp add: create_state_machine_def Let_def comp_def)
qed

lemma default_cancel:
  "op_cancel (ToolApprovalOperation V is) = (\<lambda>_ _. ret)" "op_cancel (ToolExecutionOperation V T) = (\<lambda>_ _. ret)"
  "op_run (ToolApprovalOperation V is) = tool_approval_run V is" "op_run (ToolExecutionOperation V T) = tool_execution_run V T"
  by (simp_all add: operation_defs)

lemma keeps_entry_hooks: "keeps authority (emit_entry_hooks V session c)"
  unfolding emit_entry_hooks_def Let_def by (intro quiet)

text \<open>The part of a step from the execution on, after approval has declined.\<close>

lemma step_tail_execution:
  assumes "list_all bystander post" "list_all modest (map step_operation steps)" "\<not> w_cancelled w"
    and "try_steps V' steps session c (OperationStep (ToolExecutionOperation V T) #
           map OperationStep post @ [InferenceStep (InferenceRunner V'' L)]) w = (r, w')"
  shows "\<exists>y w1. tool_execution_run V T session c w = (y, w1) \<and> w_tool_calls w' = w_tool_calls w1"
proof -
  from assms(4) obtain x w1 where x: "run_or_cancel steps session c (OperationStep (ToolExecutionOperation V T)) w = (x, w1)"
    "w_tool_calls w' = w_tool_calls w1 \<or> (\<exists>k. x = Inr (NotApplicable, k) \<and>
       try_steps V' steps session c (map OperationStep post @ [InferenceStep (InferenceRunner V'' L)]) w1 = (r, w'))"
    by (rule try_steps_Cons_calls)
  from run_or_cancel_default [OF x(1) default_cancel(2) assms(3)] obtain y where
    "tool_execution_run V T session c w = (y, w1)" by (auto simp: default_cancel)
  moreover have "w_tool_calls w' = w_tool_calls w1" using x(2) try_steps_last [OF assms(1,2)] by blast
  ultimately show ?thesis by blast
qed

lemma step_tail_calls:
  assumes "list_all bystander post" "list_all modest (map step_operation steps)" "messages_since_kickoff c = Inr ms"
    and "\<not> w_cancelled w"
    and "try_steps V' steps session c (OperationStep (ToolExecutionOperation V T) #
           map OperationStep post @ [InferenceStep (InferenceRunner V'' L)]) w = (r, w')"
  shows "\<exists>calls. w_tool_calls w' = w_tool_calls w @ calls \<and>
    (\<forall>(i, call) \<in> set calls. w_goose_mode w \<noteq> Chat \<and> hook_allows V session call \<and>
       (\<exists>req. (req, Execute) \<in> set (pending_tool_requests (oe_ext V) ms) \<and> tr_id req = i \<and> tr_tool_call req = Inr call))"
  using step_tail_execution [OF assms(1,2,4,5)] execution_calls [OF assms(3)] by fastforce

text \<open>A step that makes calls comes to the approval with nothing changed, and approval declines.\<close>

lemma step_reaches_approval:
  assumes "step (ag_ops A) steps session w = (r, w')" "steps = create_state_machine A L limit turns"
    and "s_conversation session = Some c" "w_tool_calls w' \<noteq> w_tool_calls w"
  obtains mid post w1 where "list_all bystander mid" "list_all bystander post" "authority w1 = authority w" "\<not> w_cancelled w"
    "try_steps (ag_ops A) steps session c (OperationStep (ToolApprovalOperation (ag_ops A) (ag_inspectors A)) #
       map OperationStep mid @ OperationStep (ToolExecutionOperation (ag_ops A) (ag_tools A)) #
       map OperationStep post @ [InferenceStep (InferenceRunner (ag_ops A) L)]) w1 = (r, w')"
proof -
  obtain e w0 where e: "emit_entry_hooks (ag_ops A) session c w = (e, w0)" by fastforce
  from keepsD [OF keeps_entry_hooks e] have a0: "authority w0 = authority w" .
  from assms(1,3,4) e a0 have t0: "try_steps (ag_ops A) steps session c steps w0 = (r, w')"
    by (auto simp: step_def andThen_def authority_def split: sum.splits)
  have not: "\<not> w_cancelled w"
    using try_steps_cancelled_calls [OF _ _ t0] machine_modest [of A L limit turns] assms(4) a0
    by (auto simp: assms(2) authority_def)
  obtain pre mid post where parts: "steps = map OperationStep pre @
       OperationStep (ToolApprovalOperation (ag_ops A) (ag_inspectors A)) #
       map OperationStep mid @ OperationStep (ToolExecutionOperation (ag_ops A) (ag_tools A)) #
       map OperationStep post @ [InferenceStep (InferenceRunner (ag_ops A) L)]"
      "list_all bystander pre" "list_all bystander mid" "list_all bystander post"
    using machine_parts [of A L limit turns] unfolding assms(2) by metis
  from try_steps_bystanders [OF parts(2) t0 [unfolded arg_cong [OF parts(1), of "try_steps (ag_ops A) steps session c"]]]
  show thesis using that [OF parts(3,4) _ not] assms(4) a0 by (auto simp: authority_def)
qed

lemma approval_then_execution:
  assumes "try_steps V steps session c (OperationStep (ToolApprovalOperation V is) #
       map OperationStep mid @ OperationStep (ToolExecutionOperation V T) #
       map OperationStep post @ [InferenceStep (InferenceRunner V L)]) w = (r, w')"
    and "list_all bystander mid" "list_all bystander post" "list_all modest (map step_operation steps)"
    and "messages_since_kickoff c = Inr ms" "\<not> w_cancelled w" "w_tool_calls w' \<noteq> w_tool_calls w"
  shows "(\<exists>w2. tool_approval_run V is session c w = (Inr NotApplicable, w2)) \<and>
    (\<exists>calls. w_tool_calls w' = w_tool_calls w @ calls \<and>
      (\<forall>(i, call) \<in> set calls. w_goose_mode w \<noteq> Chat \<and> hook_allows V session call \<and>
         (\<exists>req. (req, Execute) \<in> set (pending_tool_requests (oe_ext V) ms) \<and> tr_id req = i \<and> tr_tool_call req = Inr call)))"
proof -
  let ?after = "map OperationStep mid @ OperationStep (ToolExecutionOperation V T) #
       map OperationStep post @ [InferenceStep (InferenceRunner V L)]"
  from assms(1) obtain x w2 where x: "run_or_cancel steps session c (OperationStep (ToolApprovalOperation V is)) w = (x, w2)"
    "w_tool_calls w' = w_tool_calls w2 \<or> (\<exists>k. x = Inr (NotApplicable, k) \<and> try_steps V steps session c ?after w2 = (r, w'))"
    by (rule try_steps_Cons_calls)
  from run_or_cancel_default [OF x(1) default_cancel(1) assms(6)] obtain y where
    y: "tool_approval_run V is session c w = (y, w2)" "\<forall>k. x = Inr (NotApplicable, k) \<longrightarrow> y = Inr NotApplicable"
    by (auto simp: default_cancel)
  from keepsD [OF keeps_approval y(1)] have s2: "standing w2 = standing w" .
  with x(2) assms(7) have x2: "y = Inr NotApplicable" "try_steps V steps session c ?after w2 = (r, w')"
    using y(2) by (auto simp: standing_def)
  from try_steps_bystanders [OF assms(2) x2(2)] assms(7) s2 obtain w3 where w3: "authority w3 = authority w2"
      "try_steps V steps session c (OperationStep (ToolExecutionOperation V T) #
         map OperationStep post @ [InferenceStep (InferenceRunner V L)]) w3 = (r, w')"
    by (auto simp: authority_def standing_def)
  from w3(1) s2 assms(6) have "\<not> w_cancelled w3" "w_tool_calls w3 = w_tool_calls w" "w_goose_mode w3 = w_goose_mode w"
    by (auto simp: authority_def standing_def)
  with step_tail_calls [OF assms(3-5) _ w3(2)] y(1) x2(1) show ?thesis by simp
qed

text \<open>C19: whatever the agent's machine does in a step, a tool call reaches an extension only if no chat mode is on and the turn
  is not cancelled, the policy hooks allow it, and it belongs to an unanswered request of the turn that the user has
  permitted, or which the inspectors of the agent, asked in this step with the permissions of this step, let pass -
  the permission inspector allows it and no other inspector objects. One more case is in the code and is stated as it
  is: a request whose id has a confirmation on record in the turn, not yet answered, and which carries no mark against running,
  is neither inspected again nor held back.\<close>

theorem agent_dispatches_cleared_calls:
  assumes "step V steps session w = (r, w')" "steps = create_state_machine A L limit turns" "V = ag_ops A"
    and "s_conversation session = Some c" "messages_since_kickoff c = Inr ms" "s = from_messages ms"
    and "ag_inspectors A = create_tool_inspection_manager security egress adversary pin"
  shows "\<exists>calls. w_tool_calls w' = w_tool_calls w @ calls \<and>
    list_all (\<lambda>(i, call). w_goose_mode w \<noteq> Chat \<and> \<not> w_cancelled w \<and> hook_allows V session call \<and>
      list_ex (\<lambda>req. tr_id req = i \<and> tr_tool_call req = Inr call \<and> i \<notin> set (as_answered s) \<and>
        ((\<exists>p. map_of (as_approval_responses s) i = Some p \<and> permission_allows p) \<or>
         (req \<in> set (pending_requests s) \<and>
          cleared (ag_inspectors A) session c (w_goose_mode w)
            (fold (remember_answer (ag_inspectors A)) (responses s) (w_permissions w)) (pending_requests s) req) \<or>
         unmarked_confirmation s req))
        (as_tool_requests s)) calls"
    (is "\<exists>calls. _ \<and> list_all ?good calls")
proof (cases "w_tool_calls w' = w_tool_calls w")
  case True
  then show ?thesis by (intro exI [of _ "[]"]) simp
next
  case False
  let ?is = "ag_inspectors A"
  obtain mid post w1 where
    bys: "list_all bystander mid" "list_all bystander post" and w1: "authority w1 = authority w" and not: "\<not> w_cancelled w"
    and t: "try_steps V steps session c (OperationStep (ToolApprovalOperation V ?is) #
       map OperationStep mid @ OperationStep (ToolExecutionOperation V (ag_tools A)) #
       map OperationStep post @ [InferenceStep (InferenceRunner V L)]) w1 = (r, w')"
    by (rule step_reaches_approval [OF assms(1) [unfolded assms(3)] assms(2,4) False]) (simp add: assms(3))
  have modest: "list_all modest (map step_operation steps)" unfolding assms(2) by (rule machine_modest)
  from w1 not False have "\<not> w_cancelled w1" "w_tool_calls w' \<noteq> w_tool_calls w1" by (auto simp: authority_def)
  from approval_then_execution [OF t bys modest assms(5) this] w1 obtain w2 calls where
    y: "tool_approval_run V ?is session c w1 = (Inr NotApplicable, w2)" and calls: "w_tool_calls w' = w_tool_calls w @ calls"
      "\<forall>(i, call) \<in> set calls. w_goose_mode w \<noteq> Chat \<and> hook_allows V session call \<and>
       (\<exists>req. (req, Execute) \<in> set (pending_tool_requests (oe_ext V) ms) \<and> tr_id req = i \<and> tr_tool_call req = Inr call)"
    by (auto simp: authority_def)
  have "?good (i, call)" if "(i, call) \<in> set calls" for i call
  proof -
    from that calls(2) obtain req where req: "w_goose_mode w \<noteq> Chat" "hook_allows V session call"
      "(req, Execute) \<in> set (pending_tool_requests (oe_ext V) ms)" "tr_id req = i" "tr_tool_call req = Inr call" by fastforce
    have "answer_effects (responses s) = [] \<and> (\<forall>req \<in> set (pending_requests s). cleared ?is session c (w_goose_mode w)
            (fold (remember_answer ?is) (responses s) (w_permissions w)) (pending_requests s) req)"
      using approval_declines [OF y _ assms(5), of pin] agent_permission_inspector [of security egress adversary pin] req(1) w1
      by (auto simp: authority_def assms(6,7))
    with executable_cleared [OF req(3)] req not show ?thesis
      by (auto simp: assms(6) list_ex_iff intro!: bexI [of _ req])
  qed
  then show ?thesis using calls(1) by (auto simp: list_all_iff)
qed

subsection \<open>Cancellation\<close>

lemma cancelled_skips:
  assumes "w_cancelled w" "list_all (\<lambda>P. op_cancel P = (\<lambda>_ _. ret)) ps"
  shows "try_steps V steps session c (map OperationStep ps @ rest) w = try_steps V steps session c rest w"
  using assms(2)
proof (induction ps)
  case (Cons P ps)
  with assms(1) show ?case by (simp add: run_or_cancel_def run_one_def andThen_def ret_def)
qed simp

lemma operations_default_cancel:
  "list_all (\<lambda>P. op_cancel P = (\<lambda>_ _. ret)) (SlashCommandOperation ops # agent_operations A limit turns)"
  by (simp add: agent_operations_def Let_def operation_defs)

lemma ensure_one_id:
  assumes "ensure_message_ids V r w = (r', w')" "effects r = [AppendMessage m]"
  shows "\<exists>m'. effects r' = [AppendMessage m'] \<and> m_content m' = m_content m \<and> w_tool_calls w' = w_tool_calls w"
proof -
  obtain m' w1 where i: "id_if_missing V m w = (m', w1)" by fastforce
  moreover from i have "w_tool_calls w1 = w_tool_calls w" by (auto simp: id_if_missing_def gen_uuid_def split: if_splits)
  ultimately show ?thesis using assms resp_ids_emitted [OF i] by (auto simp: ensure_message_ids_def)
qed

text \<open>Cancelling when no operation was running gives nothing, or one message of responses.\<close>

lemma cancel_idle:
  assumes "llm_cancel V session c NotApplicable w = (Inr result, w')" "result \<noteq> NotApplicable"
  shows "\<exists>m. result = applied [AppendMessage m] \<and> new_messages result = [m]"
  using assms by (auto simp: llm_cancel_def Let_def andThen_def lift_def emit_message_def split: sum.splits if_splits prod.splits)

lemma response_ids_content: "m_content m = m_content m' \<Longrightarrow> resp_ids m = resp_ids m'"
  by (simp add: resp_ids_def)

text \<open>A cancelled step passes over every operation but inference.\<close>

lemma cancelled_step_infers:
  assumes "w_cancelled w" "s_conversation session = Some c" "messages_since_kickoff c = Inr turn"
  shows "\<exists>w0. w_cancelled w0 \<and> w_tool_calls w0 = w_tool_calls w \<and>
    step (ag_ops A) (create_state_machine A L limit turns) session w =
      try_steps (ag_ops A) (create_state_machine A L limit turns) session c [InferenceStep (InferenceRunner (ag_ops A) L)] w0"
proof -
  let ?steps = "create_state_machine A L limit turns" and ?V = "ag_ops A"
  obtain e w0 where e: "emit_entry_hooks ?V session c w = (e, w0)" by fastforce
  from e assms(3) have "e = Inr ()"
    by (auto simp: emit_entry_hooks_def Let_def andThen_def lift_def emit_hook_def ret_def split: if_splits)
  from keepsD [OF keeps_entry_hooks e] assms(1) have w0: "w_cancelled w0" "w_tool_calls w0 = w_tool_calls w"
    by (auto simp: authority_def)
  have "try_steps ?V steps session c ?steps w0 = try_steps ?V steps session c [InferenceStep (InferenceRunner ?V L)] w0" for steps
    unfolding create_state_machine_def Let_def by (rule cancelled_skips [OF w0(1) operations_default_cancel])
  with e \<open>e = Inr ()\<close> assms(2) w0 show ?thesis by (auto simp: step_def andThen_def)
qed

text \<open>C20: a step of the agent's machine whose token is cancelled never fails and starts no tool; either every tool request of
  the turn has its response already, or the step gives the client a single message that supplies the missing ones.\<close>

theorem cancelled_step_closes_turn:
  assumes "w_cancelled w" "steps = create_state_machine A L limit turns" "V = ag_ops A"
    and "s_conversation session = Some c" "messages_since_kickoff c = Inr turn"
  shows "\<exists>out w'. step V steps session w = (Inr out, w') \<and> w_tool_calls w' = w_tool_calls w \<and>
    (case out of
       None \<Rightarrow> tr_id ` set (tool_requests turn) \<subseteq> set (response_ids (c @ turn))
     | Some r \<Rightarrow> yield_to_client r \<and> (\<exists>m. effects r = [AppendMessage m] \<and>
         tr_id ` set (tool_requests turn) \<subseteq> set (response_ids (c @ turn @ [m]))))"
proof -
  from cancelled_step_infers [OF assms(1,4,5), of A L limit turns] obtain w0 where w0: "w_cancelled w0"
      "w_tool_calls w0 = w_tool_calls w"
    and st: "step V steps session w = try_steps V steps session c [InferenceStep (InferenceRunner V L)] w0"
    unfolding assms(2,3) by blast
  obtain result w1 answers where cancel: "llm_cancel V session c NotApplicable w0 = (Inr result, w1)"
    and answers: "tr_id ` set (tool_requests (turn @ new_messages result)) \<subseteq> set (response_ids (c @ turn @ new_messages result))"
    using cancel_answers_open [OF assms(5), of V session NotApplicable w0] by blast
  from keepsD [OF keeps_llm_commands(2) cancel] w0(2) have calls: "w_tool_calls w1 = w_tool_calls w"
    by (auto simp: authority_def)
  have rc: "run_or_cancel steps session c (InferenceStep (InferenceRunner V L)) w0 = (Inr (result, True), w1)"
    using w0(1) cancel by (simp add: run_or_cancel_def run_one_def andThen_def ret_def InferenceRunner_def)
  show ?thesis
  proof (cases "result = NotApplicable")
    case True
    with st rc calls answers show ?thesis by (simp add: andThen_def ret_def)
  next
    case False
    from cancel_idle [OF cancel False] obtain m where m: "result = applied [AppendMessage m]" "new_messages result = [m]" by blast
    obtain r w2 where ids: "ensure_message_ids V \<lparr>effects = [AppendMessage m], yield_to_client = False\<rparr> w1 = (r, w2)"
      by fastforce
    from ensure_one_id [OF ids] obtain m' where m': "effects r = [AppendMessage m']" "m_content m' = m_content m"
      "w_tool_calls w2 = w_tool_calls w1" by auto
    from st rc m(1) ids have "step V steps session w = (Inr (Some (r\<lparr>yield_to_client := True\<rparr>)), w2)"
      by (simp add: andThen_def applied_def)
    moreover have "response_ids [m'] = response_ids [m]"
      using response_ids_content [OF m'(2)] by (simp add: response_ids_def)
    ultimately show ?thesis using m' m(2) answers calls by auto
  qed
qed

subsection \<open>A reply\<close>

lemma machine_keeps_cancelled: "list_all keeps_cancelled (create_state_machine A L limit turns)"
proof -
  have "keeps_cancelled s" if "modest (step_operation s)" for s
    using that by (auto simp: modest_def keeps_cancelled_def keeps_def authority_def)
  with machine_modest [of A L limit turns] show ?thesis by (auto simp: list_all_iff)
qed

lemma cancelled_agent_returns:
  "w_cancelled w \<Longrightarrow> \<exists>result. run (Suc n) V X (create_state_machine A L limit turns) sid st w = Some result"
  by (rule cancelled_run_returns [OF _ machine_keeps_cancelled])

lemma cancelled_reply_some:
  "w_cancelled w \<Longrightarrow> \<exists>result. reply_with_state_machine (Suc n) A X m cfg st w = Some result"
  using cancelled_agent_returns [of w]
  by (auto simp: reply_with_state_machine_def Let_def split: sum.splits option.splits)

text \<open>C10: a reply whose token is cancelled before the machine starts comes back to the client: one iteration of the machine
  with the agent's operations is enough.\<close>

theorem cancelled_reply_returns:
  assumes "w_cancelled w"
  shows "\<exists>result. reply_with_state_machine (Suc n) A X m cfg st w = Some result"
  by (rule cancelled_reply_some [OF assms])

lemma reply_confined:
  assumes "reply_with_state_machine fuel A X m cfg st w = Some (res, st', w')" "store_ok st" "sid = sc_id cfg" "V = ag_ops A"
  shows "store_ok st' \<and> (\<forall>i. i \<noteq> sid \<longrightarrow> aside i st' = aside i st) \<and>
    (case get_session X sid False st of
       Inl e \<Rightarrow> res = Inl e \<and> st' = st \<and> w' = w
     | Inr entry \<Rightarrow>
         \<exists>st2 t. get_conversation sid st2 =
             get_conversation sid st @ [(reloaded (oe_ext V) m)\<lparr>m_id := Some (message_id_or sid (oe_uuid V 0) m), m_created := t\<rparr>] \<and>
           list_all (\<lambda>n. m_created n \<le> t) (get_conversation sid st) \<and> m_created m \<le> t \<and>
           ((\<exists>e. res = Inl e \<and> st' = st2 \<and> w' = w) \<or>
            (\<exists>llm mc. ag_provider A = Some llm \<and>
               run fuel V X (create_state_machine A (llm mc) (context_limit (llm mc)) (sc_max_turns cfg)) sid st2 w =
                 Some (res, st', w'))))"
proof (cases "get_session X sid False st")
  case (Inl e)
  with assms show ?thesis by (simp add: reply_with_state_machine_def Let_def)
next
  case (Inr entry)
  have ex: "session_exists sid st"
    using Inr by (auto simp: get_session_def session_exists_def list_ex_iff find_Some_iff split: option.splits)
  let ?upd = "case sc_schedule_id cfg of
      Some i \<Rightarrow> apply_update sid (oe_now V) (SessionUpdateBuilder_new\<lparr>ub_schedule_id := Some (Some i)\<rparr>) st
    | None \<Rightarrow> Inr st"
  obtain st1 where st1: "?upd = Inr st1" "confined sid st st1" "session_exists sid st1"
      "rows_of sid st1 = rows_of sid st" "get_conversation sid st1 = get_conversation sid st"
  proof (cases "sc_schedule_id cfg")
    case (Some i)
    let ?b = "SessionUpdateBuilder_new\<lparr>ub_schedule_id := Some (Some i)\<rparr>"
    have u: "apply_update sid (oe_now V) ?b st = Inr (update_session sid (\<lambda>r. (apply_builder ?b r)\<lparr>sr_updated_at := oe_now V\<rparr>) st)"
      using ex by (simp add: apply_update_def SessionUpdateBuilder_new_def)
    have id: "sr_id ((apply_builder ?b r)\<lparr>sr_updated_at := oe_now V\<rparr>) = sr_id r" for r by (simp add: apply_builder_def)
    have rows: "rows_of sid (update_session sid f st) = rows_of sid st" for f by (simp add: rows_of_def update_session_def)
    from that [OF _ confined_update [OF u]] u Some session_exists_update [OF id, of sid sid st] ex rows show thesis by simp
  qed (use that ex in simp)
  have ok1: "store_ok st1" using st1(2) assms(2) by (simp add: confined_def)
  from add_message_last [OF ok1 st1(3), of "oe_ext V" "oe_now V" "oe_uuid V 0" m] obtain st2 where
    st2: "add_message (oe_ext V) sid (oe_now V) (oe_uuid V 0) m st1 = Inr st2" "store_ok st2"
      "get_conversation sid st2 = get_conversation sid st @
        [(reloaded (oe_ext V) m)\<lparr>m_id := Some (message_id_or sid (oe_uuid V 0) m), m_created := append_created sid st1 m\<rparr>]"
    using st1(5) by auto
  have late: "list_all (\<lambda>n. m_created n \<le> append_created sid st1 m) (get_conversation sid st)" "m_created m \<le> append_created sid st1 m"
  proof -
    have "mr_created r \<le> append_created sid st1 m" if "r \<in> set (rows_of sid st1)" for r
      using that latest_created_ge [of sid st1] latest_created_None [of sid st1]
      by (fastforce simp: append_created_def split: option.splits)
    then show "list_all (\<lambda>n. m_created n \<le> append_created sid st1 m) (get_conversation sid st)"
      by (auto simp: list_all_iff st1(5) [symmetric] set_get_conversation [OF ok1] row_message_def)
  qed (simp add: append_created_def)
  have c2: "confined sid st st2" using st1(2) confined_add [OF st2(1)] by (rule confined_trans)
  from assms(1) Inr st1(1) st2(1) have tail: "(\<exists>e. res = Inl e \<and> st' = st2 \<and> w' = w) \<or>
      (\<exists>llm mc. ag_provider A = Some llm \<and>
         run fuel V X (create_state_machine A (llm mc) (context_limit (llm mc)) (sc_max_turns cfg)) sid st2 w = Some (res, st', w'))"
    unfolding assms(3,4)
    by (simp add: reply_with_state_machine_def Let_def split: option.splits sum.splits) (metis sum.exhaust)+
  then have "confined sid st st'" using c2 run_confined confined_trans by blast
  with assms(2) have "store_ok st'" "\<forall>i. i \<noteq> sid \<longrightarrow> aside i st' = aside i st" by (simp_all add: confined_def)
  with Inr st2(3) late tail show ?thesis by (simp only: sum.case) blast
qed


end
