(* ===== verification/Machine_Witnesses.thy ===== *)
theory Machine_Witnesses
  imports Session_Invariant Ops_Turn_Properties
begin

text \<open>
  A concrete agent on which the properties of the machine and of the turn's operations are exercised: no
  clock, ids \<open>u0\<close>, \<open>u1\<close>, \dots, one session and a conversation that begins with a user's prompt.
\<close>

definition hooks0 :: hook_ext where
  "hooks0 = \<lparr>regex_valid = (\<lambda>_. True), regex_match = (\<lambda>_ _. True), json_parse = (\<lambda>_. None),
             run_hook = (\<lambda>_ _ _. Some \<lparr>ho_code = Some 2, ho_stdout = [], ho_stderr = ''no''\<rparr>)\<rparr>"

definition env0 :: op_env where
  "env0 = \<lparr>oe_ext = ext0, oe_now = 100, oe_uuid = (\<lambda>n. ''u'' @ show_nat n), oe_hooks = hooks0,
           oe_hook_manager = (\<lambda>_. []), oe_count_tokens = (\<lambda>_. 1), oe_estimate_cost = (\<lambda>_ _ _. None)\<rparr>"

definition world0 :: World where
  "world0 = \<lparr>w_fresh = 0, w_events = [], w_hook_runs = [], w_cancelled = False, w_goal = None, w_grind = None,
             w_steer_queue = [], w_goose_mode = Auto, w_commands = [],
             w_permissions = \<lparr>pm_map = [], pm_file = None\<rparr>, w_tool_calls = []\<rparr>"

definition sql0 :: sql_ext where
  "sql0 = \<lparr>sql_i32 = (\<lambda>i. Some (word_of_int i)), timestamp_opt = Some\<rparr>"

definition prompt0 :: Message where
  "prompt0 = (Message_user 1)\<lparr>m_id := Some ''k'', m_content := [block_text ''do it'']\<rparr>"

definition answer0 :: Message where
  "answer0 = (Message_assistant 2)\<lparr>m_id := Some ''r'', m_content := [block_text ''done'']\<rparr>"

definition session0 :: Session where
  "session0 = \<lparr>s_id = ''20250101_1'', s_working_dir = ''/'', s_name = ''first'', s_user_set_name = False,
     s_session_type = SUser, s_created_at = 0, s_updated_at = 0, s_extension_data = [], s_usage = 0,
     s_accumulated_usage = 0, s_accumulated_cost = None, s_schedule_id = None, s_recipe = None,
     s_user_recipe_values = None, s_conversation = Some [prompt0], s_message_count = 1, s_last_message_at = None,
     s_provider_name = None, s_model_config = None, s_goose_mode = Auto, s_archived_at = None,
     s_project_id = None, s_parent_session_id = None\<rparr>"

lemma prompt0_kickoff [simp]: "is_kickoff prompt0"
  by (simp add: is_kickoff_def prompt0_def is_user_visible_def is_tool_response_def Message_user_def Message_new_def
      MessageMetadata_default_def block_text_def)

lemma answer0_not_kickoff [simp]: "\<not> is_kickoff answer0" "m_role answer0 = Assistant"
  by (simp_all add: is_kickoff_def answer0_def Message_assistant_def Message_new_def)

lemma since_prompt0: "list_all (\<lambda>v. \<not> is_kickoff v) vs \<Longrightarrow> messages_since_kickoff (prompt0 # vs) = Inr (prompt0 # vs)"
  by (auto simp: messages_since_kickoff_Inr list_all_iff)

lemma prompt0_role [simp]: "m_role prompt0 = User"
  by (simp add: prompt0_def Message_user_def Message_new_def)

subsection \<open>The machine\<close>

definition steps0 :: "Step list" where
  "steps0 = [OperationStep (ExitOnErrorOperation), OperationStep (MaxTurnsOperation env0 0)]"

lemma steps0_keep: "list_all keeps_cancelled steps0"
  by (simp add: steps0_def keeps_cancelled_def ExitOnErrorOperation_def MaxTurnsOperation_def Operation_default_def)

lemma no_error0: "trailing_error [prompt0] = None"
  by (simp add: trailing_error_def last_opt_def error_kind_def prompt0_def block_text_def)

lemma step0: "\<exists>r w'. step env0 steps0 session0 world0 = (Inr (Some r), w')"
  by (simp add: step_def session0_def steps0_def emit_entry_hooks_def since_prompt0 has_agent_reply_def emit_hook_def
      run_or_cancel_def run_one_def ExitOnErrorOperation_def MaxTurnsOperation_def exit_on_error_run_def no_error0
      max_turns_run_def assistant_turn_count_def emit_event_def ensure_message_ids_def yielded_with_def world0_def
      emit_message_def id_if_missing_def gen_uuid_def andThen_def Let_def first_opt_def
      split: prod.split if_split)

theorem step_first_applicable_witness:
  "\<exists>r w' us s vs w0 w1 r0 k w2. step env0 steps0 session0 world0 = (Inr (Some r), w') \<and>
     steps0 = us @ s # vs \<and> emit_entry_hooks env0 session0 [prompt0] world0 = (Inr (), w0) \<and>
     declined steps0 session0 [prompt0] w0 us w1 \<and>
     answers steps0 session0 [prompt0] s w1 (Applied r0) k w2 \<and>
     list_all (\<lambda>e. list_all has_id (effect_messages e)) (effects r)"
proof -
  from step0 obtain r w' where "step env0 steps0 session0 world0 = (Inr (Some r), w')" by blast
  with step_first_applicable [of session0 "[prompt0]" env0 steps0 world0 r w'] show ?thesis
    by (simp add: session0_def) metis
qed

theorem cancelled_run_returns_witness:
  "\<exists>result. run 1 env0 sql0 steps0 ''20250101_1'' store2 (world0\<lparr>w_cancelled := True\<rparr>) = Some result"
  using cancelled_run_returns [of "world0\<lparr>w_cancelled := True\<rparr>" steps0 0 env0 sql0 "''20250101_1''" store2] steps0_keep
  by simp

lemma run_no_steps: "\<exists>res st' w'. run 1 V X [] sid st w = Some (res, st', w')"
proof (cases "get_session X sid True st")
  case (Inr session)
  have "\<exists>res w'. step V [] session w = (Inl res, w') \<or> step V [] session w = (Inr None, w')"
    by (auto simp: step_def andThen_def split: option.split prod.split sum.split)
  with Inr show ?thesis by (auto simp: run_def split: sum.split)
qed (simp add: run_def)

theorem run_keeps_store_witness:
  "\<exists>res st' w'. run 1 env0 sql0 [] ''20250101_1'' store2 world0 = Some (res, st', w') \<and> store_ok st'"
proof -
  from run_no_steps obtain res st' w' where "run 1 env0 sql0 [] ''20250101_1'' store2 world0 = Some (res, st', w')"
    by blast
  with run_keeps_store [OF this store2_ok(1)] show ?thesis by blast
qed

theorem apply_appends_messages_witness:
  "\<exists>st'. apply_effects env0 session0 [AppendMessage prompt0, AppendMessage answer0] store2 = (Inr (), st') \<and>
     map m_id (get_conversation ''20250101_1'' st') = [Some ''b'', Some ''a'', Some ''k'', Some ''r'']"
proof -
  have s: "s_id session0 = ''20250101_1''" by (simp add: session0_def)
  have ids: "list_all (\<lambda>m. m_id m \<noteq> None) [prompt0, answer0]" "map m_id [prompt0, answer0] = [Some ''k'', Some ''r'']"
    by (simp_all add: prompt0_def answer0_def)
  from apply_appends_messages [of store2 session0 "[prompt0, answer0]" env0] store2_ok ids(1)
  obtain st' ms' where st': "apply_effects env0 session0 (map AppendMessage [prompt0, answer0]) store2 = (Inr (), st')"
      "get_conversation ''20250101_1'' st' = get_conversation ''20250101_1'' store2 @ ms'"
      "map untimed ms' = map (untimed \<circ> reloaded (oe_ext env0)) [prompt0, answer0]"
    unfolding s by blast
  from arg_cong [OF st'(3), of "map m_id"] have "map (m_id \<circ> untimed) ms' = map m_id [prompt0, answer0]"
    by (simp add: untimed_def reloaded_def)
  then have "map m_id ms' = [Some ''k'', Some ''r'']"
    using ids(2) by (simp add: untimed_def comp_def)
  with st' store2_conversation(1) show ?thesis by auto
qed

theorem reachable_store_well_formed_witness:
  "\<exists>st. store_step\<^sup>*\<^sup>* empty_store st \<and> session_exists ''20250101_1'' st \<and> store_ok st"
proof -
  have one: "show_int 1 = ''1''" by code_simp
  let ?st = "empty_store\<lparr>st_sessions := [new_session_row ''20250101_1'' 5 ''/'' ''n'' SUser Auto]\<rparr>"
  have "create_session ''20250101'' 5 ''/'' ''n'' SUser Auto empty_store = Inr (''20250101_1'', ?st)"
    by (simp add: create_session_def Let_def next_number_def empty_store_def session_exists_def one)
  then have r: "store_step\<^sup>*\<^sup>* empty_store ?st" by (intro r_into_rtranclp step_create)
  with reachable_store_well_formed [OF r] show ?thesis
    by (intro exI [of _ ?st]) (simp add: session_exists_def new_session_row_def)
qed

subsection \<open>The operations of a turn\<close>

definition turn0 :: "Message list" where
  "turn0 = [prompt0, answer0]"

lemma since_turn0: "messages_since_kickoff turn0 = Inr turn0"
  by (simp add: turn0_def since_prompt0)

lemma turn0_ends: "ends_turn turn0"
  by (simp add: ends_turn_def turn0_def last_opt_def error_kind_def)
    (simp add: answer0_def block_text_def)

lemma turn0_notes: "operation_note (m_metadata prompt0) n k = None" "operation_note (m_metadata answer0) n k = None"
  by (simp_all add: prompt0_def answer0_def Message_user_def Message_assistant_def Message_new_def
      MessageMetadata_default_def operation_note_def)

theorem turn_budget_enforced_witness:
  "max_turns_run env0 3 session0 turn0 world0 = (Inr NotApplicable, world0)"
proof -
  have "assistant_blocks turn0 < 3" using assistant_turn_count_blocks [of turn0]
    by (simp add: turn0_def assistant_turn_count_def)
  with turn_budget_enforced [OF since_turn0, of 3 env0 session0 world0] show ?thesis by auto
qed

definition denying_env :: op_env where
  "denying_env = env0\<lparr>oe_hook_manager := (\<lambda>_. [\<lparr>hr_plugin_name = ''p'', hr_plugin_root = ''/p'', hr_matcher = None,
     hr_actions = [\<lparr>la_command = ''check'', la_timeout = 30\<rparr>]\<rparr>])\<rparr>"

lemma denied0: "emit_blocking (oe_hooks denying_env) (oe_hook_manager denying_env) event ctx = (Deny ''no'' ''p'', [''check''])"
proof -
  have "trim ''no'' = ''no''" by code_simp
  then show ?thesis
    by (simp add: emit_blocking_def hook_actions_def denying_env_def env0_def rule_matches_def action_denies_def
        hooks0_def deny_reason_def non_empty_def)
qed

theorem stop_hook_denials_bounded_witness:
  "\<exists>r w' m. stop_hook_run denying_env 3 session0 turn0 world0 = (Inr (Applied r), w') \<and> effects r = [AppendMessage m] \<and>
     denials (turn0 @ [m]) = 1"
proof -
  have d: "denials turn0 = 0" by (simp add: denials_def turn0_def message_meta_def turn0_notes)
  obtain m' w1 where m': "id_if_missing denying_env (denial_notification denying_env ''p'')
      (world0\<lparr>w_hook_runs := w_hook_runs world0 @ [''check'']\<rparr>) = (m', w1)"
    by fastforce
  have "\<exists>r w'. stop_hook_run denying_env 3 session0 turn0 world0 = (Inr (Applied r), w') \<and> \<not> yield_to_client r"
    by (simp add: stop_hook_run_def since_turn0 turn0_ends emit_hook_blocking_def denied0 d applied_def andThen_def
        emit_message_def m' Let_def)
  then obtain r w' where r: "stop_hook_run denying_env 3 session0 turn0 world0 = (Inr (Applied r), w')" "\<not> yield_to_client r"
    by blast
  from stop_hook_denials_bounded [OF since_turn0 _ r] d obtain m where
    "effects r = [AppendMessage m]" "stored_as m m \<longrightarrow> denials (turn0 @ [m]) = Suc 0" by auto
  with r(1) show ?thesis by (auto simp: stored_as_def)
qed

definition retry0 :: RetryConfig where
  "retry0 = \<lparr>max_retries = 2, checks = [Shell ''make test''], on_failure = None, timeout_seconds = None,
             on_failure_timeout_seconds = None\<rparr>"

definition retry_session :: Session where
  "retry_session = session0\<lparr>s_recipe := Some \<lparr>rc_title = ''t'', rc_response = None, rc_retry = Some retry0, rc_rest = JNull\<rparr>\<rparr>"

definition failing_shell :: shell where
  "failing_shell _ _ _ = Finished \<lparr>out_success = False, out_status = ''exit status: 1'', out_stderr = []\<rparr>"

theorem retry_attempts_bounded_witness:
  "\<exists>r w' k. retry_run env0 failing_shell 300 600 retry_session turn0 world0 = (Inr (Applied r), w') \<and>
     effects r = [ReplaceConversation [k] None] \<and> attempts [k] = 1"
proof -
  have cfg: "retry_config retry_session = Some retry0" by (simp add: retry_config_def retry_session_def)
  have att: "attempts turn0 = 0" by (simp add: attempts_def turn0_def first_opt_def message_meta_def turn0_notes)
  have reset: "reset_conversation turn0 = Inr [prompt0]" by (simp add: reset_conversation_def since_turn0) (simp add: turn0_def)
  have nudged: "\<not> goal_was_nudged turn0" by (simp add: goal_was_nudged_def turn0_def message_meta_def turn0_notes)
  obtain r w' k where r: "retry_run env0 failing_shell 300 600 retry_session turn0 world0 = (Inr (Applied r), w')"
      "effects r = [ReplaceConversation [k] None]"
    by (simp add: retry_run_def since_turn0 turn0_ends nudged check_retry_def cfg retry0_def execute_shell_command_def
        failing_shell_def retry_again_def att run_on_failure_def reset applied_def world0_def)
  from retry_attempts_bounded [OF since_turn0 cfg _ r(1), of "[k]" None] r(2) att show ?thesis
    using r by (auto simp: retry0_def)
qed

end
