(* ===== verification/Approval_Properties.thy ===== *)
theory Approval_Properties
  imports Ops_Tools_Properties Session_Accounting
begin

text \<open>
  Approval and execution together: what inspection does not approve is marked, the mark is what decides once it is
  stored, and a recipe that insists on its final output starts a new turn each time.
\<close>

subsection \<open>Marks\<close>

definition executable_patch :: "bool \<Rightarrow> json" where
  "executable_patch b = JObj [(TOOL_EXECUTABLE_KEY, JBool b)]"

lemma mark_executable_patch: "mark_executable i b = PatchToolRequestMeta i (executable_patch b)"
  by (simp add: mark_executable_def executable_patch_def)

lemma merged_mark:
  "request_executable (req\<lparr>tr_tool_meta := Some (merge_tool_meta (tr_tool_meta req) (executable_patch b))\<rparr>) = Some b"
  by (simp add: request_executable_def tool_meta_get_def merge_tool_meta_def executable_patch_def Let_def)

lemma patched_requests:
  assumes "patch_content i (executable_patch b) bs = Some bs'"
    and "distinct (map tr_id (filter_map as_tool_request bs))" "ToolRequest req \<in> set bs'" "tr_id req = i"
  shows "request_executable req = Some b"
  using assms
proof (induction bs arbitrary: bs')
  case (Cons x bs)
  have rest: ?case if "patch_content i (executable_patch b) (x # bs) = map_option ((#) x) (patch_content i (executable_patch b) bs)"
      "x \<noteq> ToolRequest req"
    using that Cons by (auto split: option.splits)
  show ?case
  proof (cases "as_tool_request x")
    case None
    then have "patch_content i (executable_patch b) (x # bs) = map_option ((#) x) (patch_content i (executable_patch b) bs)"
      "x \<noteq> ToolRequest req" by (cases x; simp)+
    then show ?thesis by (rule rest)
  next
    case (Some r)
    then have x: "x = ToolRequest r" by (cases x) auto
    show ?thesis
    proof (cases "tr_id r = i")
      case True
      have "req = r\<lparr>tr_tool_meta := Some (merge_tool_meta (tr_tool_meta r) (executable_patch b))\<rparr>"
      proof (rule ccontr)
        assume "\<not> ?thesis"
        with Cons.prems(1,3) x True have "ToolRequest req \<in> set bs" by auto
        then have "req \<in> set (filter_map as_tool_request bs)" by (force simp: set_filter_map)
        with Cons.prems(2,4) x True show False by force
      qed
      then show ?thesis using merged_mark by simp
    next
      case False
      with Cons.prems(4) x have "x \<noteq> ToolRequest req" by auto
      with False x show ?thesis by (intro rest) simp_all
    qed
  qed
qed simp

text \<open>A request is read back with its id and its mark.\<close>

lemma stored_request:
  assumes "ToolRequest req \<in> set (stored_content E bs)"
  obtains req0 where "ToolRequest req0 \<in> set bs" "tr_id req0 = tr_id req" "request_executable req = request_executable req0"
proof -
  from assms obtain b where b: "b \<in> set bs" "stored_block E b = ToolRequest req" by (auto simp: stored_content_def)
  from b(2) obtain r where r: "b = ToolRequest r"
    "req = r\<lparr>tr_tool_call := stored_result E (tr_tool_call r), tr_tool_meta := stored_value (tr_tool_meta r)\<rparr>"
    by (cases b) auto
  have "request_executable req = request_executable r"
    by (simp add: r(2) request_executable_def tool_meta_get_def stored_value_def)
  with that b(1) r show thesis by simp
qed

lemma patched_message_request:
  assumes "ToolRequest req \<in> set (m_content (patch_message E i (executable_patch b) m))" "tr_id req = i"
    and "distinct (map tr_id (filter_map as_tool_request (m_content m)))"
  shows "request_executable req = Some b"
proof (cases "patch_content i (executable_patch b) (m_content m)")
  case None
  then have "\<not> list_ex (requests_tool i) (m_content m)" using patch_content_None by blast
  with assms(1,2) None show ?thesis
    by (auto simp: patch_message_def requests_tool_def list_ex_iff)
next
  case (Some bs')
  with assms(1) have "ToolRequest req \<in> set (stored_content E bs')" by (simp add: patch_message_def)
  then obtain req0 where req0: "ToolRequest req0 \<in> set bs'" "tr_id req0 = tr_id req"
      "request_executable req = request_executable req0"
    by (rule stored_request)
  with patched_requests [OF Some assms(3) req0(1)] assms(2) show ?thesis by simp
qed

text \<open>once a mark is stored it alone decides whether its request may run: a request marked not executable is never
  executed, one marked executable is executed if it parsed.\<close>

theorem marks_decide:
  assumes "list_all (\<lambda>m. distinct (map tr_id (filter_map as_tool_request (m_content m)))) ms"
  shows "list_all (\<lambda>(req, d). tr_id req = i \<longrightarrow> (d = Execute) = (b \<and> is_ok (tr_tool_call req)))
    (pending_tool_requests E (map (patch_message E i (executable_patch b)) ms))"
proof -
  let ?ms = "map (patch_message E i (executable_patch b)) ms"
  have "(d = Execute) = (b \<and> is_ok (tr_tool_call req))"
    if "(req, d) \<in> set (pending_tool_requests E ?ms)" "tr_id req = i" for req d
  proof -
    from that(1) have d: "disposition E (from_messages ?ms) req = Some d"
      and "req \<in> set (filter_map as_tool_request (concat (map m_content (filter (\<lambda>m. m_role m = Assistant) ?ms))))"
      by (auto simp: pending_tool_requests_def Let_def set_filter_map)
    then obtain m x where m: "m \<in> set ms" "x \<in> set (m_content (patch_message E i (executable_patch b) m))"
        "as_tool_request x = Some req"
      by (auto simp: set_filter_map)
    from m(3) have "x = ToolRequest req" by (cases x) auto
    with m(2) assms m(1) that(2) have "request_executable req = Some b"
      by (intro patched_message_request [of req E i b m]) (auto simp: list_all_iff)
    with d show ?thesis
      by (cases "tr_tool_call req") (auto simp: disposition_def is_ok_def split: if_splits)
  qed
  then show ?thesis by (auto simp: list_all_iff)
qed

subsection \<open>What inspection does not approve\<close>

lemma ask_approvals_marks:
  "ask_approvals V results reqs w = (Inr es, w') \<Longrightarrow> req \<in> set reqs \<Longrightarrow> mark_executable (tr_id req) False \<in> set es"
proof (induction reqs arbitrary: w es)
  case (Cons r reqs)
  from Cons.prems(1) obtain call where call: "tr_tool_call r = Inr call" by (auto split: sum.splits)
  obtain m w1 where m: "id_if_missing V (approval_message V results r call) w = (m, w1)" by fastforce
  with Cons.prems(1) call obtain es' where es': "es = mark_executable (tr_id r) False # AppendMessage m # es'"
      "ask_approvals V results reqs (emit_event (MessageEvent m) w1) = (Inr es', w')"
    by (auto simp: andThen_def emit_message_def split: prod.splits sum.splits)
  with Cons.prems(2) Cons.IH [OF es'(2)] show ?case by auto
qed simp

text \<open>C24: the approval operation marks as not executable every pending request whose strictest verdict, by the permissions
  after the user's answers were remembered, is not to allow it.\<close>

theorem unapproved_requests_marked:
  assumes "messages_since_kickoff c = Inr ms" "w_goose_mode w \<noteq> Chat"
    and "get_permission_inspector inspectors \<noteq> None"
    and "distinct (map tr_id (pending_requests (from_messages ms)))"
    and "req \<in> set (pending_requests (from_messages ms))"
    and "verdict (fst (inspect_tools inspectors (s_id session) (pending_requests (from_messages ms)) c (w_goose_mode w)
           (fold (remember_answer inspectors) (responses (from_messages ms)) (w_permissions w)))) req \<noteq> 0"
    and "tool_approval_run V inspectors session c w = (Inr result, w')"
  shows "\<exists>r. result = Applied r \<and> mark_executable (tr_id req) False \<in> set (effects r)"
proof -
  let ?s = "from_messages ms"
  let ?w = "w\<lparr>w_permissions := fold (remember_answer inspectors) (responses ?s) (w_permissions w)\<rparr>"
  obtain results pm where i: "inspect_tools inspectors (s_id session) (pending_requests ?s) c (w_goose_mode w) (w_permissions ?w) = (results, pm)"
    by fastforce
  let ?r = "process_inspection_results (pending_requests ?s) results"
  have pr: "process_inspection_results_with_permission_inspector inspectors (pending_requests ?s) results = Some ?r"
    using assms(3) by (auto simp: process_inspection_results_with_permission_inspector_def)
  note p = processed_levels [OF assms(4), where results = results]
  from assms(6) i p(2) [OF assms(5)] have "level_of ?r req \<noteq> 0" by simp
  then have where_req: "req \<in> set (denied ?r) \<or> req \<in> set (needs_approval ?r)" by (auto simp: level_of_def split: if_splits)
  obtain re w1 where ch: "check_pending V inspectors (w_goose_mode w) session c (pending_requests ?s) ?w = (re, w1)" by fastforce
  with assms(1,2,7) obtain es where es: "re = Inr es"
      "result = (if answer_effects (responses ?s) @ es = [] then NotApplicable else applied (answer_effects (responses ?s) @ es))"
    by (auto simp: tool_approval_run_def Let_def andThen_def split: sum.splits)
  from assms(5) have "pending_requests ?s \<noteq> []" by auto
  with ch i pr es(1) obtain es1 where "es = map (\<lambda>req. mark_executable (tr_id req) False) (denied ?r) @ es1"
      "ask_approvals V results (needs_approval ?r) (?w\<lparr>w_permissions := pm\<rparr>) = (Inr es1, w1)"
    by (auto simp: check_pending_def Let_def andThen_def split: prod.splits sum.splits)
  with where_req ask_approvals_marks have "mark_executable (tr_id req) False \<in> set es" by fastforce
  with es(2) show ?thesis by (auto simp: applied_def)
qed

subsection \<open>Final output\<close>

text \<open>C25: when a turn ends without its final output the recipe operation appends a message that is visible to the user and
  so becomes the new kickoff: the turn budget, the denials of the stop hook and the attempts of the retry
  operation all start again from nothing.\<close>

theorem continuation_restarts_turn:
  assumes "final_output R session = Inr (Some f)" "messages_since_kickoff c = Inr ms"
    and "find wants_final_output (pending_tool_requests (oe_ext V) ms) = None"
    and "successful_final_output R ms = None" "ends_turn ms"
  shows "\<exists>m w'. recipe_run V R session c w = (Inr (applied [AppendMessage m]), w') \<and>
     messages_since_kickoff (c @ [m]) = Inr [m] \<and> assistant_turn_count [m] = 0 \<and> denials [m] = 0 \<and> attempts [m] = 0"
proof -
  let ?m = "user_message V FINAL_OUTPUT_CONTINUATION_MESSAGE"
  obtain m w1 where m: "id_if_missing V ?m w = (m, w1)" by fastforce
  then have meta: "m_metadata m = MessageMetadata_default" "m_role m = User" "m_content m = m_content ?m"
    using resp_ids_emitted [OF m]
    by (auto simp: id_if_missing_def gen_uuid_def with_generated_id_if_missing_def with_generated_id_def with_id_def split: if_splits)
  have "m_content ?m = [Text (TextContent_new (sanitize_unicode_tags (oe_ext V) FINAL_OUTPUT_CONTINUATION_MESSAGE))]"
    by (simp add: user_message_def with_text_def with_content_def)
  with meta have "is_kickoff m"
    by (simp add: is_kickoff_def is_user_visible_def MessageMetadata_default_def is_tool_response_def)
  then have "messages_since_kickoff (c @ [m]) = Inr [m]" by (auto simp: messages_since_kickoff_Inr)
  moreover have "message_meta n m k = None" for n k
    by (simp add: message_meta_def operation_note_def meta MessageMetadata_default_def)
  ultimately show ?thesis
    using assms m meta by (intro exI [of _ m]) (simp add: recipe_run_def assistant_turn_count_def denials_def attempts_def)
qed

end
