(* ===== verification/Context_Properties.thy ===== *)
theory Context_Properties
  imports Context_Mgmt Ops_Turn_Properties
begin

text \<open>
  What compaction keeps and what it hides: which tool responses the summariser no longer sees, what is left
  of the conversation afterwards, how often a context error may compact, and which tool calls are old
  enough to be summarised.
\<close>

subsection \<open>Middle out\<close>

lemma odd_half: "odd i \<Longrightarrow> \<exists>h::nat. i = Suc (2 * h)"
  by (metis oddE Suc_eq_plus1)

lemma middle_out_window:
  "set (filter_map (middle_out idx) [0..<k]) =
     nth idx ` {length idx div 2 - Suc k div 2 ..< min (length idx) (length idx div 2 + k div 2)}"
    (is "?L = nth idx ` ?W")
proof (intro equalityI subsetI)
  fix y assume "y \<in> ?L"
  then obtain i where i: "i < k" "middle_out idx i = Some y" by (auto simp: set_filter_map)
  show "y \<in> nth idx ` ?W"
  proof (cases "even i")
    case True
    with i obtain h where "i = 2 * h" by (auto elim: evenE)
    with i show ?thesis
      by (intro image_eqI [of _ _ "length idx div 2 - h - 1"]) (auto simp: middle_out_def Let_def split: if_splits)
  next
    case False
    with odd_half obtain h where "i = Suc (2 * h)" by blast
    with i show ?thesis
      by (intro image_eqI [of _ _ "length idx div 2 + h"]) (auto simp: middle_out_def Let_def split: if_splits)
  qed
next
  fix y assume "y \<in> nth idx ` ?W"
  then obtain j where j: "y = idx ! j" "j \<in> ?W" by blast
  show "y \<in> ?L"
  proof (cases "j < length idx div 2")
    case True
    let ?i = "2 * (length idx div 2 - j - 1)"
    have "middle_out idx ?i = Some y" using True j by (simp add: middle_out_def Let_def)
    moreover have "?i < k" using True j by auto
    ultimately show ?thesis by (auto simp: set_filter_map intro!: bexI [of _ ?i])
  next
    case False
    let ?i = "Suc (2 * (j - length idx div 2))"
    have "middle_out idx ?i = Some y" using False j by (simp add: middle_out_def Let_def)
    moreover have "?i < k" using False j by auto
    ultimately show ?thesis by (auto simp: set_filter_map intro!: bexI [of _ ?i])
  qed
qed

lemma filter_outside:
  assumes mem: "\<And>i. i < length xs \<Longrightarrow> P (xs ! i) \<longleftrightarrow> i < a \<or> b \<le> i"
  shows "filter P xs = take a xs @ drop (max a b) xs"
proof -
  have xs: "xs = take a xs @ take (max a b - a) (drop a xs) @ drop (max a b) xs"
    by (metis append_take_drop_id drop_drop le_add_diff_inverse2 max.cobounded1)
  have "filter P (take a xs) = take a xs"
    using mem by (intro filter_True) (auto simp: in_set_conv_nth)
  moreover have "filter P (take (max a b - a) (drop a xs)) = []"
    using mem by (intro filter_False) (auto simp: in_set_conv_nth)
  moreover have "P (drop (max a b) xs ! i)" if i: "i + max a b < length xs" for i
  proof -
    from i have "max a b \<le> length xs" by linarith
    moreover have "P (xs ! (max a b + i))" using i mem [of "max a b + i"] by auto
    ultimately show ?thesis by simp
  qed
  then have "filter P (drop (max a b) xs) = drop (max a b) xs"
    by (intro filter_True) (auto simp: in_set_conv_nth less_diff_conv)
  ultimately show ?thesis using xs by (metis (no_types, lifting) append_Nil filter_append)
qed

lemma filter_outside_window:
  assumes "distinct xs"
  shows "filter (\<lambda>x. x \<notin> nth xs ` {a ..< min (length xs) b}) xs = take a xs @ drop (max a b) xs"
  using assms by (intro filter_outside) (auto simp: nth_eq_iff_index_eq)

lemma nth_filter_upt: "map (nth xs) (filter (\<lambda>i. P (xs ! i)) [0..<length xs]) = filter P xs"
proof -
  have "filter P xs = filter P (map (nth xs) [0..<length xs])" by (simp add: map_nth)
  then show ?thesis by (simp add: filter_map comp_def)
qed

lemma tool_responses_nth: "map (nth ms) (tool_response_indices ms) = filter is_tool_response ms"
  by (simp add: tool_response_indices_def nth_filter_upt)

lemma filter_filter_tool_responses:
  "filter P (map (nth ms) (filter Q [0..<length ms])) = map (nth ms) (filter Q (filter (\<lambda>i. P (ms ! i)) [0..<length ms]))"
  by (simp add: filter_map comp_def filter_filter conj_commute)

definition removal_count :: "nat \<Rightarrow> nat \<Rightarrow> nat" where
  "removal_count n remove_percent = max 1 (n * remove_percent div 100)"

lemma tool_responses_window:
  fixes ms :: "Message list"
  assumes "0 < p"
  defines "ts \<equiv> filter is_tool_response ms"
  defines "k \<equiv> removal_count (length ts) p"
  shows "filter (\<lambda>m. \<not> is_tool_response m) (filter_tool_responses ms p) = filter (\<lambda>m. \<not> is_tool_response m) ms \<and>
     filter is_tool_response (filter_tool_responses ms p) =
       take (length ts div 2 - Suc k div 2) ts @ drop (length ts div 2 + k div 2) ts"
proof -
  let ?idx = "tool_response_indices ms"
  let ?a = "length ts div 2 - Suc k div 2" and ?b = "length ts div 2 + k div 2"
  let ?R = "nth ?idx ` {?a ..< min (length ts) ?b}"
  have ts: "map (nth ms) ?idx = ts" by (simp add: tool_responses_nth ts_def)
  then have len: "length ?idx = length ts" by (metis length_map)
  show ?thesis
  proof (cases "?idx = []")
    case True
    with ts assms(1) show ?thesis by (auto simp: filter_tool_responses_def ts_def)
  next
    case False
    with assms(1) have eq: "filter_tool_responses ms p = map (nth ms) (filter (\<lambda>i. i \<notin> ?R) [0..<length ms])"
      by (simp add: filter_tool_responses_def middle_out_window removal_count_def len k_def Let_def del: upt_Suc)
    have idx: "distinct ?idx" "set ?idx = {i. i < length ms \<and> is_tool_response (ms ! i)}"
      by (auto simp: tool_response_indices_def)
    have sub: "?R \<subseteq> set ?idx" using len by (auto simp: set_conv_nth)
    have "filter (\<lambda>i. i \<notin> ?R) (filter (\<lambda>i. \<not> is_tool_response (ms ! i)) [0..<length ms]) =
        filter (\<lambda>i. \<not> is_tool_response (ms ! i)) [0..<length ms]"
      using sub idx(2) by (intro filter_True) auto
    moreover have "filter (\<lambda>i. i \<notin> ?R) ?idx = take ?a ?idx @ drop ?b ?idx"
      using filter_outside_window [OF idx(1), of ?a ?b] by (simp add: len max_def)
    ultimately show ?thesis
      by (simp add: eq nth_filter_upt [of ms "\<lambda>m. \<not> is_tool_response m"] filter_filter_tool_responses nth_filter_upt tool_response_indices_def [symmetric]
          take_map [symmetric] drop_map [symmetric] ts)
  qed
qed

text \<open>Leaving out tool responses keeps every other message and removes \<open>removal_count\<close> neighbouring responses around
  the middle one, cut off at the ends; the older and the newer ones stay in their order.\<close>

theorem tool_responses_removed_middle_out:
  assumes "0 < p" "ts = filter is_tool_response ms" "k = removal_count (length ts) p"
  shows "filter (\<lambda>m. \<not> is_tool_response m) (filter_tool_responses ms p) = filter (\<lambda>m. \<not> is_tool_response m) ms \<and>
     filter is_tool_response (filter_tool_responses ms p) =
       take (length ts div 2 - Suc k div 2) ts @ drop (length ts div 2 + k div 2) ts"
  using tool_responses_window [OF assms(1), of ms] assms(2,3) by simp

text \<open>Asked to remove all of them, the filter leaves the newest tool response in place whenever their number is odd.\<close>

theorem removing_all_leaves_one:
  "filter is_tool_response (filter_tool_responses ms 100) =
     (if even (length (filter is_tool_response ms)) then [] else [last (filter is_tool_response ms)])"
proof -
  let ?ts = "filter is_tool_response ms"
  have "drop (2 * (length ?ts div 2)) ?ts = (if even (length ?ts) then [] else [last ?ts])"
    by (cases ?ts rule: rev_cases) (auto simp del: filter_append)
  moreover have "?ts \<noteq> [] \<Longrightarrow> max (Suc 0) (length ?ts) = length ?ts" by (cases ?ts) auto
  ultimately show ?thesis
    using tool_responses_window [of 100 ms] by (cases "?ts = []") (auto simp: removal_count_def mult_2)
qed

subsection \<open>What a compaction leaves\<close>

lemma hide_from_agent_simps [simp]:
  "m_content (hide_from_agent m) = m_content m" "m_role (hide_from_agent m) = m_role m"
  "is_user_visible (hide_from_agent m) = is_user_visible m" "\<not> is_agent_visible (hide_from_agent m)"
  "is_turn_context (hide_from_agent m) = is_turn_context m"
  "error_kind (hide_from_agent m) = error_kind m" "is_tool_response (hide_from_agent m) = is_tool_response m"
  "hide_from_agent (hide_from_agent m) = hide_from_agent m" "m_id (hide_from_agent m) = m_id m"
  by (simp_all add: hide_from_agent_def with_metadata_def with_agent_invisible_def is_user_visible_def
      is_agent_visible_def is_turn_context_def error_kind_def is_tool_response_def)

lemma is_kickoff_hide [simp]: "is_kickoff (hide_from_agent m) = is_kickoff m"
  by (simp add: is_kickoff_def)

definition for_agent_only :: "Message \<Rightarrow> bool" where
  "for_agent_only m = (\<not> is_user_visible m \<and> is_agent_visible m)"

lemma md_agent_only_for_agent [simp]: "m_metadata m = md_agent_only \<Longrightarrow> for_agent_only m"
  by (simp add: for_agent_only_def md_agent_only_def is_user_visible_def is_agent_visible_def)

lemma merge_two_metadata:
  assumes "m_metadata a = md" "m_metadata b = md"
  shows "list_all (\<lambda>m. m_metadata m = md) (fst (merge_consecutive_messages [a, b]))"
  using assms by (simp add: merge_consecutive_messages_def merge_consecutive_def merge_step_def last_opt_def)

lemma fold_with_content_metadata [simp]: "m_metadata (fold (\<lambda>b acc. with_content acc b) bs m) = m_metadata m"
  by (induction bs arbitrary: m) (simp_all add: with_content_def)

lemma preserved_of_metadata: "preserved_of V m = Some m' \<Longrightarrow> m_metadata m' = md_agent_only"
  by (auto simp: preserved_of_def Let_def with_metadata_def split: if_splits)

lemma rfind_SomeD: "rfind p xs = Some x \<Longrightarrow> x \<in> set xs \<and> p x"
  by (metis (no_types, lifting) find_Some_iff nth_mem rfind_def set_rev)

lemma carried_context_for_agent:
  assumes "list_all (\<lambda>m. is_turn_context m \<longrightarrow> \<not> is_user_visible m) c"
  shows "list_all for_agent_only (carried_context (drop n c) kept)"
proof (cases "rfind (\<lambda>m. is_turn_context m \<and> is_agent_visible m) (drop n c)")
  case (Some m)
  from rfind_SomeD [OF this] assms have "\<not> is_user_visible m" "is_agent_visible m"
    by (auto simp: list_all_iff dest: in_set_dropD)
  with Some show ?thesis
    by (simp add: carried_context_def for_agent_only_def is_user_visible_def is_agent_visible_def)
qed (simp add: carried_context_def)

lemma compacted_conversation_split:
  assumes "list_all (\<lambda>m. is_turn_context m \<longrightarrow> \<not> is_user_visible m) c"
  shows "\<exists>new. compacted_conversation V c manual summary = map hide_from_agent c @ new \<and> list_all for_agent_only new"
proof -
  define found where "found = (if manual then None else find_preserved V c)"
  define cont where "cont = with_metadata (assistant_message V (continuation_text manual
    (case found of Some (i, _) \<Rightarrow> list_all is_turn_context (drop (Suc i) c) | None \<Rightarrow> False))) md_agent_only"
  define new where "new = fst (merge_consecutive_messages [with_metadata summary md_agent_only, cont]) @
    (case found of Some (_, m) \<Rightarrow> [m\<lparr>m_created := m_created cont\<rparr>] | None \<Rightarrow> [])"
  have "list_all (\<lambda>m. m_metadata m = md_agent_only) (fst (merge_consecutive_messages [with_metadata summary md_agent_only, cont]))"
    by (rule merge_two_metadata) (simp_all add: with_metadata_def cont_def)
  moreover have "m_metadata m = md_agent_only" if "found = Some (i, m)" for i m
    using that by (auto simp: found_def find_preserved_def split: if_splits dest!: find_map_SomeD preserved_of_metadata)
  ultimately have "list_all for_agent_only new"
    by (auto simp: new_def list_all_iff split: option.splits)
  with carried_context_for_agent [OF assms] show ?thesis
    unfolding compacted_conversation_def Let_def found_def [symmetric] cont_def [symmetric]
    by (auto simp: new_def split: option.splits)
qed

lemma user_visible_content_hide: "user_visible_content (hide_from_agent m) = hide_from_agent (user_visible_content m)"
  by (simp add: user_visible_content_def hide_from_agent_def with_metadata_def)

text \<open>C26: a compaction keeps the whole conversation for the user and hides it from the agent; what it adds (the summary,
  the continuation, the last thing the user said, the turn context) is for the agent only.\<close>

theorem compaction_swaps_views:
  assumes "list_all (\<lambda>m. is_turn_context m \<longrightarrow> \<not> is_user_visible m) c"
    and "compact_messages V C c manual = Inr result"
  shows "\<exists>new. cres_conversation result = map hide_from_agent c @ new \<and> list_all for_agent_only new \<and>
     agent_visible_messages (cres_conversation result) = agent_visible_messages new \<and>
     user_visible_messages (cres_conversation result) = map hide_from_agent (user_visible_messages c)"
proof -
  from assms(2) obtain summary where "cres_conversation result = compacted_conversation V c manual summary"
    by (auto simp: compact_messages_def Let_def split: sum.splits)
  with compacted_conversation_split [OF assms(1)] obtain new where
    new: "cres_conversation result = map hide_from_agent c @ new" "list_all for_agent_only new" by metis
  have "agent_visible_messages (map hide_from_agent c @ new) = agent_visible_messages new"
    by (simp add: agent_visible_messages_def filter_map comp_def flip: is_agent_visible_def)
  moreover have "filter is_user_visible new = []" using new(2)
    by (auto simp: filter_empty_conv list_all_iff for_agent_only_def)
  then have "user_visible_messages (map hide_from_agent c @ new) = map hide_from_agent (user_visible_messages c)"
    by (simp add: user_visible_messages_def filter_map comp_def user_visible_content_hide flip: is_user_visible_def)
  ultimately show ?thesis using new by auto
qed

subsection \<open>Context errors\<close>

definition all_context_errors :: "Message list \<Rightarrow> nat" where
  "all_context_errors ms = length (filter (\<lambda>m. error_kind m = Some ContextLengthExceeded) ms)"

lemma map_hide_update_last [simp]: "map hide_from_agent (update_last hide_from_agent c) = map hide_from_agent c"
  by (induction hide_from_agent c rule: update_last.induct) simp_all

lemma turn_contexts_update_last:
  "list_all (\<lambda>m. is_turn_context m \<longrightarrow> \<not> is_user_visible m) c \<Longrightarrow>
   list_all (\<lambda>m. is_turn_context m \<longrightarrow> \<not> is_user_visible m) (update_last hide_from_agent c)"
  by (induction hide_from_agent c rule: update_last.induct) simp_all

lemma messages_since_kickoff_hidden:
  assumes "messages_since_kickoff c = Inr ms" "list_all for_agent_only new"
  shows "messages_since_kickoff (map hide_from_agent c @ new) = Inr (map hide_from_agent ms @ new)"
proof (rule messages_since_kickoff_append)
  show "messages_since_kickoff (map hide_from_agent c) = Inr (map hide_from_agent ms)"
    using assms(1) by (fastforce simp: messages_since_kickoff_Inr)
  show "\<not> is_kickoff v" if "v \<in> set new" for v
    using that assms(2) by (auto simp: list_all_iff for_agent_only_def is_kickoff_def)
qed

lemma context_errors_hidden:
  assumes "list_all for_agent_only new"
  shows "context_errors (map hide_from_agent ms @ new) = all_context_errors ms"
proof -
  have "filter (\<lambda>m. error_kind m = Some ContextLengthExceeded \<and> \<not> is_agent_visible m) new = []"
    using assms by (auto simp: filter_empty_conv list_all_iff for_agent_only_def)
  then show ?thesis by (simp add: context_errors_def all_context_errors_def filter_map comp_def)
qed

text \<open>C27: a context error compacts only while at most two hidden context errors lie in the turn, and the compaction keeps
  the turn and counts every context error of it, so that they cannot go on for ever.\<close>

theorem context_compactions_bounded:
  assumes "messages_since_kickoff c = Inr ms" "trailing_error c = Some ContextLengthExceeded"
    and "list_all (\<lambda>m. is_turn_context m \<longrightarrow> \<not> is_user_visible m) c"
    and "compaction_run V C session c w = (Inr (Applied r), w')" "\<not> yield_to_client r"
  shows "context_errors ms \<le> 2 \<and>
     (\<exists>cc u ms'. effects r = [ReplaceConversation cc (Some u)] \<and> messages_since_kickoff cc = Inr ms' \<and>
        context_errors ms' = all_context_errors ms)"
proof -
  let ?c = "update_last hide_from_agent c"
  from assms(1,2,4) have le: "context_errors ms \<le> 2" and p: "perform_compaction V C ?c w = (Inr (Applied r), w')"
    by (auto simp: compaction_run_def MAX_CONTEXT_ERROR_COMPACTIONS_def split: if_splits)
  from p assms(5) obtain result where res: "compact_messages V C ?c False = Inr result"
      "effects r = [ReplaceConversation (cres_conversation result) (Some (cres_usage result))]"
    by (auto simp: perform_compaction_def applied_def yielded_def split: prod.splits sum.splits)
  from res(1) obtain summary where cc: "cres_conversation result = compacted_conversation V ?c False summary"
    by (auto simp: compact_messages_def Let_def split: sum.splits)
  from compacted_conversation_split [OF turn_contexts_update_last [OF assms(3)]] obtain new where
    "cres_conversation result = map hide_from_agent c @ new" "list_all for_agent_only new"
    unfolding cc by (metis map_hide_update_last)
  with messages_since_kickoff_hidden [OF assms(1)] context_errors_hidden le res(2) show ?thesis by metis
qed

subsection \<open>Old tool calls\<close>

lemma cutoff_bounds: "10 \<le> compute_tool_call_cutoff limit threshold" "compute_tool_call_cutoff limit threshold \<le> 500"
  by (simp_all add: compute_tool_call_cutoff_def Let_def)

text \<open>The tool calls that are summarised are the ten oldest the agent sees, and more than the cutoff
  remain besides the protected ones of the current turn; the cutoff the agent computes lies between ten and five hundred.\<close>

theorem summarised_calls_are_old:
  "10 \<le> compute_tool_call_cutoff limit threshold \<and> compute_tool_call_cutoff limit threshold \<le> 500 \<and>
     (tool_ids_to_summarize c cutoff n = [] \<or>
      (\<exists>rest. visible_tool_call_ids c = tool_ids_to_summarize c cutoff n @ rest \<and>
         length (tool_ids_to_summarize c cutoff n) = 10 \<and> cutoff + n < length rest))"
proof (intro conjI cutoff_bounds)
  show "tool_ids_to_summarize c cutoff n = [] \<or>
      (\<exists>rest. visible_tool_call_ids c = tool_ids_to_summarize c cutoff n @ rest \<and>
         length (tool_ids_to_summarize c cutoff n) = 10 \<and> cutoff + n < length rest)"
    by (auto simp: tool_ids_to_summarize_def Let_def TOOLCALL_SUMMARIZATION_BATCH_SIZE_def
        intro!: exI [of _ "drop 10 (visible_tool_call_ids c)"])
qed

lemma hide_effects_ids: "SetMessageVisibility i uv av \<in> set (hide_effects pair) \<Longrightarrow>
    \<not> av \<and> (\<exists>m \<in> set pair. m_id m = Some i \<and> uv = is_user_visible m)"
  by (auto simp: hide_effects_def set_filter_map)

fun hidden_id :: "StateEffect \<Rightarrow> string option" where
  "hidden_id (SetMessageVisibility i _ _) = Some i"
| "hidden_id _ = None"

lemma hidden_hide_effects: "filter_map hidden_id (hide_effects pair) = filter_map m_id pair"
  by (induction pair) (auto simp: hide_effects_def split: option.splits)

lemma filter_map_filter_distinct: "distinct (filter_map f xs) \<Longrightarrow> distinct (filter_map f (filter P xs))"
  by (induction xs) (auto simp: set_filter_map split: option.splits)

lemma summarize_pairs_ids:
  assumes "distinct (filter_map m_id c)" "summarize_pairs V C c ids hidden w = (es, w')"
  shows "distinct (filter_map hidden_id es) \<and> set (filter_map hidden_id es) \<inter> hidden = {}"
  using assms(2)
proof (induction ids arbitrary: hidden w es w')
  case (Cons i ids)
  show ?case
  proof (cases "pair_to_hide c hidden i")
    case (Some pair)
    then have pair: "pair = tool_pair c i" "set (filter_map m_id pair) \<inter> hidden = {}"
      by (auto simp: pair_to_hide_def Let_def list_ex_iff set_filter_map split: if_splits)
    from pair(1) assms(1) have "distinct (filter_map m_id pair)"
      by (simp add: tool_pair_def filter_map_filter_distinct)
    with Cons Some pair(2) show ?thesis
      by (fastforce simp: hidden_hide_effects split: prod.splits sum.splits)
  qed (use Cons in simp)
qed simp

end
