(* ===== verification/Ops_Witnesses.thy ===== *)
theory Ops_Witnesses
  imports Machine_Witnesses Approval_Properties Context_Properties
begin

text \<open>The tool, approval, recipe and compaction properties on concrete turns.\<close>

subsection \<open>Tools\<close>

definition asking :: "ToolRequest list \<Rightarrow> Message" where
  "asking reqs = (Message_assistant 2)\<lparr>m_id := Some ''q'', m_content := map ToolRequest reqs\<rparr>"

definition tools0 :: tool_env where
  "tools0 = \<lparr>te_tools = (\<lambda>_. [\<lparr>tl_name = ''shell'', tl_annotations = None, tl_meta = None\<rparr>, \<lparr>tl_name = ''read'', tl_annotations = None, tl_meta = None\<rparr>]),
     te_dispatch = (\<lambda>_ _ _. Inr ([], Inr (CallToolResult_success []))), te_merge = concat, te_cancelled = False,
     te_extension_state = Inr JNull, te_threshold = 200000, te_write_file = (\<lambda>_. Inl ''read only''),
     te_list_prompts = (\<lambda>_. Inr []), te_get_prompt = (\<lambda>_ _ _ _. Inr []), te_moim = (\<lambda>_. []),
     te_hints = (\<lambda>_ _. []), te_extensions = (\<lambda>_. [])\<rparr>"

lemma tools0_fair: "fair_merge tools0"
  by (simp add: fair_merge_def tools0_def)

lemma asking_role [simp]: "m_role (asking reqs) = Assistant" "m_content (asking reqs) = map ToolRequest reqs"
    "\<not> is_kickoff (asking reqs)"
  by (simp_all add: asking_def Message_assistant_def Message_new_def is_kickoff_def)

definition calls0 :: "Message list" where
  "calls0 = [prompt0, asking [request0 ''1'' ''shell'', request0 ''2'' ''read'']]"

lemma since_calls0: "messages_since_kickoff calls0 = Inr calls0"
  by (simp add: calls0_def since_prompt0)

lemma prompt0_content [simp]: "m_content prompt0 = [Text (TextContent_new ''do it'')]"
  by (simp add: prompt0_def block_text_def)

lemma pending0: "known_pending tools0 session0 (pending_tool_requests ext0 calls0) =
    [(request0 ''1'' ''shell'', Execute), (request0 ''2'' ''read'', Execute)]"
  by (simp add: known_pending_def pending_tool_requests_def calls0_def Let_def disposition_def request0_def
      tool_meta_get_def from_messages_def ApprovalState_empty_def request_executable_def tools0_def)

theorem every_request_answered_once_witness:
  "\<exists>r w' es m. tool_execution_run env0 tools0 session0 calls0 (world0\<lparr>w_goose_mode := Chat\<rparr>) = (Inr (Applied r), w') \<and>
     effects r = es @ [AppendMessage m] \<and> set (resp_ids m) = {''1'', ''2''}"
proof -
  have E: "oe_ext env0 = ext0" by (simp add: env0_def)
  have "\<exists>r w'. tool_execution_run env0 tools0 session0 calls0 (world0\<lparr>w_goose_mode := Chat\<rparr>) = (Inr (Applied r), w')"
    by (simp add: tool_execution_run_def since_calls0 E pending0 applied_def split: prod.split)
  then obtain r w' where r: "tool_execution_run env0 tools0 session0 calls0 (world0\<lparr>w_goose_mode := Chat\<rparr>) = (Inr (Applied r), w')"
    by blast
  have "distinct (map (tr_id \<circ> fst) (known_pending tools0 session0 (pending_tool_requests (oe_ext env0) calls0)))"
    by (simp add: E pending0 request0_def)
  from every_request_answered_once [OF since_calls0 r this tools0_fair] r show ?thesis
    by (auto simp: E pending0 request0_def)
qed

theorem only_permitted_calls_dispatched_witness:
  "\<exists>res w' calls. tool_execution_run env0 tools0 session0 calls0 world0 = (res, w') \<and>
     w_tool_calls w' = calls \<and> list_all (\<lambda>(i, call). ctr_name call \<in> {''shell'', ''read''}) calls"
proof -
  obtain res w' where r: "tool_execution_run env0 tools0 session0 calls0 world0 = (res, w')" by fastforce
  from only_permitted_calls_dispatched [OF since_calls0 r] obtain calls where
    calls: "w_tool_calls w' = w_tool_calls world0 @ calls"
      "list_all (\<lambda>(i, call). w_goose_mode world0 \<noteq> Chat \<and> hook_allows env0 session0 call \<and>
         ctr_name call \<in> tl_name ` set (te_tools tools0 (s_id session0)) \<and>
         list_all (\<lambda>m. i \<notin> set (resp_ids m)) calls0 \<and>
         list_ex (\<lambda>m. m_role m = Assistant \<and> list_ex (\<lambda>b. \<exists>req. b = ToolRequest req \<and> tr_id req = i \<and>
           tr_tool_call req = Inr call \<and> request_executable req \<noteq> Some False) (m_content m)) calls0) calls"
    by blast
  have "list_all (\<lambda>(i, call). ctr_name call \<in> {''shell'', ''read''}) calls"
    using calls(2) by (rule list.pred_mono_strong) (auto simp: tools0_def)
  with r calls(1) show ?thesis by (simp add: world0_def)
qed

subsection \<open>Approval\<close>

theorem marks_decide_witness:
  "list_all (\<lambda>(req, d). tr_id req = ''1'' \<longrightarrow> d \<noteq> Execute)
     (pending_tool_requests ext0 (map (patch_message ext0 ''1'' (executable_patch False)) calls0))"
proof -
  have "list_all (\<lambda>m. distinct (map tr_id (filter_map as_tool_request (m_content m)))) calls0"
    by (simp add: calls0_def request0_def)
  from marks_decide [OF this, of "''1''" False ext0] show ?thesis by (auto simp: list_all_iff)
qed

definition approving_world :: World where
  "approving_world = world0\<lparr>w_goose_mode := Approve, w_permissions := manager0\<rparr>"

definition batch_turn :: "Message list" where
  "batch_turn = [prompt0, asking batch0]"

lemma since_batch: "messages_since_kickoff batch_turn = Inr batch_turn"
  by (simp add: batch_turn_def since_prompt0)

lemma batch_state: "pending_requests (from_messages batch_turn) = batch0" "responses (from_messages batch_turn) = []"
  by (simp_all add: batch_turn_def tool_meta_get_def from_messages_def batch0_def request0_def pending_requests_def
      responses_def is_pending_def ApprovalState_empty_def request_executable_def is_ok_def)

lemma batch_verdict:
  "verdict (fst (inspect_tools inspectors0 (s_id session0) batch0 batch_turn Approve manager0)) (request0 ''2'' ''write'') \<noteq> 0"
  by (simp add: inspected0 verdict_def baseline_strictness_def other_strictness_def by_permission_def by_others_def
      permission_finding_def request0_def)

lemma ask_approvals_succeeds:
  "list_all (\<lambda>req. is_ok (tr_tool_call req)) reqs \<Longrightarrow> \<exists>es w'. ask_approvals V results reqs w = (Inr es, w')"
proof (induction reqs arbitrary: w)
  case (Cons req reqs)
  then obtain call where call: "tr_tool_call req = Inr call" by (auto simp: is_ok_def split: sum.splits)
  obtain m w1 where m: "id_if_missing V (approval_message V results req call) w = (m, w1)" by fastforce
  from Cons obtain es w2 where "ask_approvals V results reqs (emit_event (MessageEvent m) w1) = (Inr es, w2)"
    by auto blast
  with call m show ?case by (simp add: andThen_def emit_message_def)
qed simp

lemma batch_needs_approval:
  "needs_approval (process_inspection_results batch0
     (fst (inspect_tools inspectors0 sid batch0 msgs Approve manager0))) = [request0 ''3'' ''read'']"
  unfolding inspected0
  by (simp add: process_inspection_results_def Let_def batch0_def add_baseline_def permission_finding_def request0_def)

lemma approval_succeeds:
  "\<exists>result w'. tool_approval_run env0 inspectors0 session0 batch_turn approving_world = (Inr result, w')"
proof -
  obtain results pm where i: "inspect_tools inspectors0 (s_id session0) batch0 batch_turn Approve manager0 = (results, pm)"
    by fastforce
  let ?w = "approving_world\<lparr>w_permissions := pm\<rparr>"
  have need: "needs_approval (process_inspection_results batch0 results) = [request0 ''3'' ''read'']"
    using batch_needs_approval [of "s_id session0" batch_turn] by (simp add: i)
  have "list_all (\<lambda>req. is_ok (tr_tool_call req)) [request0 ''3'' ''read'']" by (simp add: request0_def is_ok_def)
  from ask_approvals_succeeds [OF this] obtain es w' where
    es: "ask_approvals env0 results [request0 ''3'' ''read''] ?w = (Inr es, w')" by blast
  have g: "get_permission_inspector inspectors0 \<noteq> None"
    by (simp add: get_permission_inspector_def inspectors0_def permission_inspector_def)
  then have p: "process_inspection_results_with_permission_inspector inspectors0 batch0 results =
      Some (process_inspection_results batch0 results)"
    by (auto simp: process_inspection_results_with_permission_inspector_def)
  have w: "w_goose_mode approving_world = Approve" "w_permissions approving_world = manager0" "batch0 \<noteq> []"
    by (simp_all add: approving_world_def batch0_def)
  have "check_pending env0 inspectors0 Approve session0 batch_turn batch0 approving_world =
      (Inr (map (\<lambda>req. mark_executable (tr_id req) False) (denied (process_inspection_results batch0 results)) @ es), w')"
    using w i es by (simp add: check_pending_def p need andThen_def)
  then show ?thesis
    by (simp add: tool_approval_run_def w since_batch batch_state andThen_def)
qed

theorem unapproved_requests_marked_witness:
  "\<exists>r w'. tool_approval_run env0 inspectors0 session0 batch_turn approving_world = (Inr (Applied r), w') \<and>
     mark_executable ''2'' False \<in> set (effects r)"
proof -
  have w: "w_goose_mode approving_world = Approve" "w_permissions approving_world = manager0"
    by (simp_all add: approving_world_def)
  obtain result w' where r: "tool_approval_run env0 inspectors0 session0 batch_turn approving_world = (Inr result, w')"
    using approval_succeeds by blast
  have "get_permission_inspector inspectors0 \<noteq> None"
    by (simp add: get_permission_inspector_def inspectors0_def permission_inspector_def)
  from unapproved_requests_marked [OF since_batch _ this _ _ _ r, of "request0 ''2'' ''write''"]
  show ?thesis using r w batch_state batch0_distinct batch_verdict
    by (auto simp: batch0_def request0_def)
qed

subsection \<open>Recipes\<close>

definition recipes0 :: recipe_env where
  "recipes0 = \<lparr>re_meta_validate = (\<lambda>_. None), re_compile = (\<lambda>_. None), re_schema_errors = (\<lambda>_ _. []),
     re_pretty = (\<lambda>_. []), re_to_string = (\<lambda>_. []), re_resolve = (\<lambda>_ _. Inr None)\<rparr>"

definition recipe_session :: Session where
  "recipe_session = session0\<lparr>s_recipe := Some \<lparr>rc_title = ''t'',
     rc_response = Some (Some (JObj [(''type'', JStr ''object'')])), rc_retry = None, rc_rest = JNull\<rparr>\<rparr>"

theorem continuation_restarts_turn_witness:
  "\<exists>m w'. recipe_run env0 recipes0 recipe_session turn0 world0 = (Inr (applied [AppendMessage m]), w') \<and>
     assistant_turn_count turn0 = 1 \<and> assistant_turn_count [m] = 0"
proof -
  have "final_output recipes0 recipe_session =
      Inr (Some \<lparr>fo_json_schema = JObj [(''type'', JStr ''object'')], fo_final_output = None\<rparr>)"
    by (simp add: final_output_def recipe_session_def FinalOutputTool_try_new_def recipes0_def)
  moreover have "find wants_final_output (pending_tool_requests (oe_ext env0) turn0) = None"
      "successful_final_output recipes0 turn0 = None"
    by (simp_all add: pending_tool_requests_def turn0_def Let_def successful_final_output_def)
      (simp_all add: answer0_def block_text_def final_output_of_def)
  moreover have "assistant_turn_count turn0 = 1" by (simp add: assistant_turn_count_def turn0_def)
  ultimately show ?thesis
    using continuation_restarts_turn [of recipes0 recipe_session _ turn0 turn0 env0 world0] since_turn0 turn0_ends by blast
qed

subsection \<open>Compaction\<close>

definition answering :: "string \<Rightarrow> Message" where
  "answering i = (Message_user 3)\<lparr>m_content := [tool_response i (Inr (CallToolResult_success []))]\<rparr>"

lemma answering_response [simp]: "is_tool_response (answering i)"
  by (simp add: answering_def is_tool_response_def tool_response_def)

theorem tool_responses_removed_middle_out_witness:
  "filter is_tool_response (filter_tool_responses (prompt0 # map answering [''a'', ''b'', ''c'', ''d'']) 50) =
     [answering ''a'', answering ''d'']"
proof -
  have "\<not> is_tool_response prompt0" by (simp add: is_tool_response_def)
  then have "map answering [''a'', ''b'', ''c'', ''d''] =
      filter is_tool_response (prompt0 # map answering [''a'', ''b'', ''c'', ''d''])" by simp
  from tool_responses_removed_middle_out [OF _ this refl, of 50] show ?thesis
    by (simp add: removal_count_def)
qed

definition compacts0 :: compact_env where
  "compacts0 = \<lparr>ce_complete = (\<lambda>_ _. Inr ((Message_assistant 5)\<lparr>m_content := [block_text ''so far'']\<rparr>,
       ProviderUsage_new ''m'' (Usage_new (Some 1) (Some 1) None))),
     ce_render = Inr, ce_ensure_usage = (\<lambda>u _ _ _. Inr u), ce_structured = (\<lambda>_. None),
     ce_manages_own_context = False, ce_context_limit = 1000, ce_threshold = 1 / 2\<rparr>"

lemma compacts0_succeeds: "\<exists>result. compact_messages env0 compacts0 c manual = Inr result"
  by (simp add: compact_messages_def do_compact_def compacts0_def Let_def)

lemma prompt0_metadata [simp]: "m_metadata prompt0 = MessageMetadata_default" "m_metadata answer0 = MessageMetadata_default"
  by (simp_all add: prompt0_def answer0_def Message_user_def Message_assistant_def Message_new_def)

theorem compaction_swaps_views_witness:
  "\<exists>result new. compact_messages env0 compacts0 turn0 False = Inr result \<and>
     cres_conversation result = map hide_from_agent turn0 @ new \<and>
     agent_visible_messages (cres_conversation result) = agent_visible_messages new"
proof -
  obtain result where r: "compact_messages env0 compacts0 turn0 False = Inr result"
    using compacts0_succeeds by blast
  have "list_all (\<lambda>m. is_turn_context m \<longrightarrow> \<not> is_user_visible m) turn0"
    by (simp add: turn0_def is_turn_context_def MessageMetadata_default_def)
  from compaction_swaps_views [OF this r] r show ?thesis by blast
qed

definition overflow0 :: Message where
  "overflow0 = from_provider_error 3 (ContextLengthExceededError ''too long'')"

lemma overflow0_facts: "error_kind overflow0 = Some ContextLengthExceeded" "m_metadata overflow0 = md_user_only"
    "m_role overflow0 = Assistant" "error_kind prompt0 = None"
  by (simp_all add: overflow0_def from_provider_error_def with_error_def with_metadata_def with_content_def
      error_kind_def block_error_def Message_assistant_def Message_new_def Let_def)

theorem context_compactions_bounded_witness:
  "\<exists>r w' cc u ms'. compaction_run env0 compacts0 session0 [prompt0, overflow0] world0 = (Inr (Applied r), w') \<and>
     effects r = [ReplaceConversation cc (Some u)] \<and> messages_since_kickoff cc = Inr ms' \<and> context_errors ms' = 1"
proof -
  let ?c = "[prompt0, overflow0]"
  have since: "messages_since_kickoff ?c = Inr ?c"
    by (rule since_prompt0) (simp add: is_kickoff_def overflow0_facts)
  have te: "trailing_error ?c = Some ContextLengthExceeded" by (simp add: trailing_error_def last_opt_def overflow0_facts)
  have tc: "list_all (\<lambda>m. is_turn_context m \<longrightarrow> \<not> is_user_visible m) ?c"
    by (simp add: is_turn_context_def overflow0_facts MessageMetadata_default_def md_user_only_def)
  have n: "context_errors ?c = 1" "all_context_errors ?c = 1"
    by (simp_all add: context_errors_def all_context_errors_def overflow0_facts is_agent_visible_def md_user_only_def)
  obtain result where res: "compact_messages env0 compacts0 (update_last hide_from_agent ?c) False = Inr result"
    using compacts0_succeeds by blast
  have "\<exists>r w'. compaction_run env0 compacts0 session0 ?c world0 = (Inr (Applied r), w') \<and> \<not> yield_to_client r"
    using res by (simp add: compaction_run_def since te n MAX_CONTEXT_ERROR_COMPACTIONS_def perform_compaction_def applied_def
        compacts0_def split: prod.split)
  then obtain r w' where r: "compaction_run env0 compacts0 session0 ?c world0 = (Inr (Applied r), w')" "\<not> yield_to_client r"
    by blast
  from context_compactions_bounded [OF since te tc r] n(2) r(1) show ?thesis by auto
qed

end
