(* ===== verification/Ops_Llm_Witnesses.thy ===== *)
theory Ops_Llm_Witnesses
  imports Ops_Llm_Properties Ops_Witnesses
begin

text \<open>The properties of the inference operation on a provider that repeats a tool request.\<close>

definition llm0 :: llm_env where
  "llm0 = \<lparr>le_provider_name = ''p'', le_model_name = ''m'', le_toolshim = False, le_config_limit = 1000,
     le_provider_limit = None,
     le_stream = (\<lambda>_ _ _ _. Inr [Inr (Some (asking [request0 ''1'' ''shell'', request0 ''2'' ''read'']), None),
                                  Inr (Some (asking [request0 ''1'' ''shell'']), None)]),
     le_recommended_models = None, le_model_error = (\<lambda>_. False), le_resolved_model = Some ''m-1'', le_clock = id,
     le_cancel_after = None, le_frontend_instructions = None, le_system_prompt = (\<lambda>_ _ _. ''You help.''),
     le_tool_info = (\<lambda>_. []), le_interpret = (\<lambda>_ _. None), le_sanitize = id, le_timestamp = (\<lambda>_. ''now''),
     le_skip_moim = False, le_token_counter = Inr (\<lambda>_ ms _. length ms, length)\<rparr>"

definition input0 :: InferenceInput where
  "input0 = \<lparr>ii_tools = [], ii_prompt_parts = [], ii_moim_parts = []\<rparr>"

theorem request_visible_and_alternating_witness:
  "successively (\<lambda>a b. effective_role a \<noteq> effective_role b) (provider_request env0 llm0 [prompt0, prompt0]) \<and>
   concat (map m_content (provider_request env0 llm0 [])) = []"
  using request_visible_and_alternating [of llm0 env0] by (simp add: llm0_def agent_visible_messages_def)

theorem inferred_requests_delivered_witness:
  "\<exists>r w'. infer env0 llm0 session0 [prompt0] input0 world0 = (Inr (Applied r), w') \<and>
     tr_id ` set (tool_requests (new_messages (Applied r))) = {''1'', ''2''} \<and>
     distinct (map tr_id (tool_requests (new_messages (Applied r))))"
proof -
  have "messages_for_provider [prompt0] [prompt0] = [prompt0]"
    by (simp add: messages_for_provider_def agent_visible_content_def for_audience_def)
      (simp add: prompt0_def Message_user_def Message_new_def MessageMetadata_default_def TextContent_new_def audience_of_def
        is_agent_visible_def)
  then have app: "inference_applies [prompt0]"
    by (simp add: inference_applies_def since_prompt0 no_error0 ends_with_provider_turn_def last_opt_def effective_role_def
        has_tool_response_def)
  have L: "le_cancel_after llm0 = None" "le_token_counter llm0 = Inr (\<lambda>_ ms _. length ms, length)" by (simp_all add: llm0_def)
  have items: "stream_response_from_provider env0 llm0 sid p ms ts shim =
      [Inr (Some (asking [request0 ''1'' ''shell'', request0 ''2'' ''read'']), None),
       Inr (Some (asking [request0 ''1'' ''shell'']), None)]" for sid p ms ts shim
    by (simp add: stream_response_from_provider_def llm0_def)
  have "tr_id ` set (message_requests (asking [request0 ''1'' ''shell'', request0 ''2'' ''read''])) = {''1'', ''2''}"
    "tr_id ` set (message_requests (asking [request0 ''1'' ''shell''])) = {''1''}"
    by (simp_all add: message_requests_def asking_def request0_def)
  then have ids: "tr_id ` set (delivered_requests (case le_cancel_after llm0 of
      None \<Rightarrow> stream_response_from_provider env0 llm0 sid p ms ts shim
    | Some n \<Rightarrow> take n (stream_response_from_provider env0 llm0 sid p ms ts shim))) = {''1'', ''2''}" for sid p ms ts shim
    by (auto simp: items L(1) image_Un)
  have k: "messages_since_kickoff [prompt0] = Inr [prompt0]" "\<not> w_cancelled world0"
    by (simp_all add: since_prompt0 world0_def)
  obtain out w' where "infer env0 llm0 session0 [prompt0] input0 world0 = (out, w')"
    "case out of Inl e \<Rightarrow> le_token_counter llm0 = Inl e
     | Inr result \<Rightarrow> result \<noteq> NotApplicable \<and> distinct (map tr_id (tool_requests (new_messages result))) \<and>
         tr_id ` set (tool_requests (new_messages result)) = {''1'', ''2''}"
    using inferred_requests_delivered [OF app k refl refl refl, of env0 llm0 session0 input0] unfolding ids
    by (fastforce split: sum.splits)
  with L(2) show ?thesis by (cases out; cases "projr out") auto
qed

theorem cancelled_requests_answered_witness:
  "\<exists>result' w'. llm_cancel env0 session0 calls0 NotApplicable world0 = (Inr result', w') \<and>
     set (response_ids (new_messages result')) = {''1'', ''2''} \<and> distinct (response_ids (new_messages result'))"
proof -
  have "tr_id ` set (tool_requests calls0) = {''1'', ''2''}" "response_ids calls0 = []"
    by (simp_all add: calls0_def message_requests_def asking_def request0_def response_ids_def resp_ids_def)
  with cancelled_requests_answered [OF since_calls0, of env0 session0 NotApplicable world0] show ?thesis by auto
qed

end
