(* ===== verification/Agent_Witnesses.thy ===== *)
theory Agent_Witnesses
  imports Agent_Properties Ops_Llm_Witnesses
begin

text \<open>The properties of the agent's machine on a turn with two open tool requests.\<close>

definition silent0 :: Inspector where
  "silent0 = \<lparr>in_name = [], in_enabled = False, in_inspect = (\<lambda>_ _ _ _ pm. (Inr [], pm)), in_permission = None\<rparr>"

definition agent0 :: agent_env where
  "agent0 = \<lparr>ag_ops = env0, ag_compact = compacts0, ag_tools = tools0, ag_inspectors = create_tool_inspection_manager silent0 silent0 silent0 inspector0,
     ag_skills = skills0,
     ag_recipes = recipes0, ag_shell = failing_shell, ag_project = (\<lambda>_. None), ag_doctor = (\<lambda>_. Inr (Inl ''ok'')),
     ag_provider = Some (\<lambda>_. llm0), ag_default_model = Inr JNull, ag_max_turns = None, ag_retry_timeout = None,
     ag_on_failure_timeout = None, ag_stop_hook_block_cap = None, ag_compaction_threshold = None,
     ag_tool_call_cutoff = None, ag_tool_pair_summarization = Some False\<rparr>"

definition calls_session :: Session where
  "calls_session = session0\<lparr>s_conversation := Some calls0\<rparr>"

lemma calls_session_simps: "s_conversation calls_session = Some calls0" "env0 = ag_ops agent0"
  by (simp_all add: calls_session_def agent0_def)

lemma calls0_state: "as_tool_requests (from_messages calls0) = [request0 ''1'' ''shell'', request0 ''2'' ''read'']"
    "as_approval_requests (from_messages calls0) = []"
  by (simp_all add: calls0_def from_messages_def ApprovalState_empty_def asking_def)

text \<open>The turn asks for two tools in auto mode. The operations before the execution decline, the approval among them because
  its inspectors let both pass, and the execution starts both.\<close>

lemma calls0_pending: "pending_requests (from_messages calls0) = [request0 ''1'' ''shell'', request0 ''2'' ''read'']"
  by (simp add: calls0_def from_messages_def ApprovalState_empty_def asking_def pending_requests_def is_pending_def request0_def
      request_executable_def tool_meta_get_def is_ok_def)

lemma calls0_responses: "responses (from_messages calls0) = []"
  by (simp add: calls0_def from_messages_def ApprovalState_empty_def asking_def responses_def request0_def)

lemma asking_visible: "m_metadata (asking reqs) = MessageMetadata_default"
  by (simp add: asking_def Message_assistant_def Message_new_def)

lemma calls0_shape:
  "has_agent_reply calls0" "first_opt calls0 = Some prompt0" "length calls0 = 2" "\<not> ends_turn calls0"
  "last_effective_role calls0 = Inr EAssistant" "trailing_error calls0 = None" "assistant_turn_count calls0 = 1"
  "as_concat_text prompt0 = ''do it''"
  by (simp_all add: calls0_def has_agent_reply_def asking_visible is_user_visible_def is_agent_visible_def
      MessageMetadata_default_def first_opt_def ends_turn_def last_opt_def last_effective_role_def effective_role_def
      trailing_error_def error_kind_def assistant_turn_count_def as_concat_text_def TextContent_new_def)

lemma calls0_hooks: "emit_entry_hooks env0 calls_session calls0 world0 = (Inr (), world0)"
  by (simp add: emit_entry_hooks_def since_calls0 calls0_shape)

lemma no_bang: "bang_shell_command ''do it'' = None"
  by code_simp

lemma calls0_early:
  "slash_command_run ops calls_session calls0 world0 = (Inr NotApplicable, world0)"
  "steer_run env0 calls_session calls0 world0 = (Inr NotApplicable, world0)"
  "max_turns_run env0 1000 calls_session calls0 world0 = (Inr NotApplicable, world0)"
  "bang_shell_run env0 calls_session calls0 world0 = (Inr NotApplicable, world0)"
  "compaction_run env0 C calls_session calls0 world0 = (Inr NotApplicable, world0)"
  "tool_pair_compaction_run env0 C k False calls_session calls0 world0 = (Inr NotApplicable, world0)"
  by (simp_all add: andThen_def lift_def ret_def slash_command_run_def steer_run_def max_turns_run_def bang_shell_run_def compaction_run_def
      tool_pair_compaction_run_def since_calls0 calls0_shape no_bang)

lemma calls0_inspected:
  "inspect_tools (ag_inspectors agent0) sid [request0 ''1'' ''shell'', request0 ''2'' ''read''] c Auto pm =
     ([permission_finding ''1'' IAllow ''Auto mode - all tools approved'',
       permission_finding ''2'' IAllow ''Auto mode - all tools approved''], pm)"
  by (simp add: agent0_def create_tool_inspection_manager_def silent0_def request0_def permission_inspector_def
      permission_inspect_def Let_def permission_verdict_def deferred_def permission_action_def permission_reason_def
      repetition_inspector_def fresh_inspect)

lemma calls0_judged:
  "process_inspection_results_with_permission_inspector (ag_inspectors agent0) [request0 ''1'' ''shell'', request0 ''2'' ''read'']
     [permission_finding ''1'' IAllow m, permission_finding ''2'' IAllow m] =
   Some \<lparr>approved = [request0 ''1'' ''shell'', request0 ''2'' ''read''], needs_approval = [], denied = []\<rparr>"
  by (simp add: process_inspection_results_with_permission_inspector_def agent0_def agent_permission_inspector
      process_inspection_results_def permission_finding_def add_baseline_def request0_def)

lemma calls0_approved:
  "tool_approval_run env0 (ag_inspectors agent0) calls_session calls0 world0 = (Inr NotApplicable, world0)"
proof -
  have "w_goose_mode world0 = Auto" "world0\<lparr>w_permissions := w_permissions world0\<rparr> = world0" by (simp_all add: world0_def)
  then show ?thesis
    by (simp add: tool_approval_run_def since_calls0 calls0_responses calls0_pending check_pending_def calls0_inspected
        calls0_judged answer_effects_def andThen_def lift_def ret_def)
qed

lemma calls0_open: "pending_tool_requests (oe_ext env0) calls0 =
    [(request0 ''1'' ''shell'', Execute), (request0 ''2'' ''read'', Execute)]"
  by (simp add: pending_tool_requests_def calls0_def Let_def disposition_def request0_def
      tool_meta_get_def from_messages_def ApprovalState_empty_def request_executable_def env0_def)

lemma calls0_late:
  "skill_run env0 S calls_session calls0 world0 = (Inr NotApplicable, world0)"
  "recipe_run env0 R calls_session calls0 world0 = (Inr NotApplicable, world0)"
  by (simp_all add: skill_run_def since_calls0 calls0_open asks_for_skill_def request0_def LOAD_SKILL_TOOL_NAME_def recipe_run_def
      final_output_def calls_session_def session0_def)

lemma calls0_executed: "map fst (w_tool_calls (snd (tool_execution_run env0 tools0 calls_session calls0 world0))) = [''1'', ''2'']"
proof -
  have mode: "w_goose_mode world0 \<noteq> Chat" by (simp add: world0_def)
  have p: "known_pending tools0 calls_session (pending_tool_requests (oe_ext env0) calls0) =
      [(request0 ''1'' ''shell'', Execute), (request0 ''2'' ''read'', Execute)]"
    unfolding calls0_open by (simp add: known_pending_def request0_def tools0_def)
  obtain r w' where e: "execute_pending env0 tools0 calls_session
      [(request0 ''1'' ''shell'', Execute), (request0 ''2'' ''read'', Execute)] world0 = (r, w')" by fastforce
  from start_requests_frame [OF e] obtain rs w1 where "start_requests env0 tools0 calls_session
      [(request0 ''1'' ''shell'', Execute), (request0 ''2'' ''read'', Execute)] world0 = (rs, w1)" "w_tool_calls w' = w_tool_calls w1"
    by blast
  moreover have "has_hooks (oe_hook_manager env0) ev = False" for ev by (simp add: has_hooks_def env0_def)
  moreover have "emit_extended_pre_hooks V name None session = ret ()" for V name session
    by (simp add: emit_extended_pre_hooks_def split: ToolCategory.split)
  ultimately have "map fst (w_tool_calls w') = [''1'', ''2'']"
    by (auto simp: request0_def dispatch_tool_call_def pre_tool_use_def call_input_def andThen_def ret_def world0_def tools0_def)
  moreover have "tool_execution_run env0 tools0 calls_session calls0 world0 = (r, w')"
    using e by (simp add: tool_execution_run_def since_calls0 p mode)
  ultimately show ?thesis by simp
qed

lemma try_declined:
  assumes "list_all (\<lambda>P. op_run P session c w = (Inr NotApplicable, w) \<and> op_cancel P = (\<lambda>_ _. ret)) ps" "\<not> w_cancelled w"
  shows "try_steps V steps session c (map OperationStep ps @ rest) w = try_steps V steps session c rest w"
  using assms(1)
proof (induction ps)
  case (Cons P ps)
  with assms(2) show ?case by (simp add: run_or_cancel_def run_one_def andThen_def ret_def)
qed simp

lemma calls0_reach_execution:
  obtains post where "list_all bystander post"
    "step env0 (create_state_machine agent0 llm0 1000 None) calls_session world0 =
       try_steps env0 (create_state_machine agent0 llm0 1000 None) calls_session calls0
         (OperationStep (ToolExecutionOperation env0 tools0) # map OperationStep post @ [InferenceStep (InferenceRunner env0 llm0)]) world0"
proof -
  let ?steps = "create_state_machine agent0 llm0 1000 None"
  let ?post = "drop 11 (agent_operations agent0 1000 None)"
  have "list_all bystander ?post"
    using bystanders by (simp add: agent_operations_def Let_def)
  moreover have "step env0 ?steps calls_session world0 = try_steps env0 ?steps calls_session calls0 ?steps world0"
    by (simp add: step_def calls_session_simps(1) calls0_hooks andThen_def)
  moreover have "try_steps env0 ?steps calls_session calls0 ?steps world0 = try_steps env0 ?steps calls_session calls0
      (OperationStep (ToolExecutionOperation env0 tools0) # map OperationStep ?post @ [InferenceStep (InferenceRunner env0 llm0)]) world0"
  proof -
    let ?slash = "SlashCommandOperation (agent_operations agent0 1000 None @ [inf_operation (InferenceRunner env0 llm0)])"
    have V: "ag_ops agent0 = env0" "ag_tools agent0 = tools0" "unwrap_or (unwrap_or DEFAULT_MAX_TURNS (ag_max_turns agent0)) None = 1000"
        "\<not> tool_pair_summarization_enabled agent0"
      by (simp_all add: agent0_def unwrap_or_def DEFAULT_MAX_TURNS_def tool_pair_summarization_enabled_def)
    have parts: "?steps = map OperationStep (?slash # take 10 (agent_operations agent0 1000 None)) @
        OperationStep (ToolExecutionOperation env0 tools0) # map OperationStep ?post @ [InferenceStep (InferenceRunner env0 llm0)]"
      by (simp add: create_state_machine_def agent_operations_def Let_def V)
    have d: "list_all (\<lambda>P. op_run P calls_session calls0 world0 = (Inr NotApplicable, world0) \<and> op_cancel P = (\<lambda>_ _. ret))
        (?slash # take 10 (agent_operations agent0 1000 None))"
      by (simp add: agent_operations_def Let_def V operation_defs calls0_early calls0_approved calls0_late)
    have not: "\<not> w_cancelled world0" by (simp add: world0_def)
    show ?thesis
      by (rule trans [OF arg_cong [OF parts, of "\<lambda>ss. try_steps env0 ?steps calls_session calls0 ss world0"]
            try_declined [OF d not]])
  qed
  ultimately show thesis using that by metis
qed

lemma calls0_dispatched:
  "map fst (w_tool_calls (snd (step env0 (create_state_machine agent0 llm0 1000 None) calls_session world0))) = [''1'', ''2'']"
proof -
  obtain post where post: "list_all bystander post"
    "step env0 (create_state_machine agent0 llm0 1000 None) calls_session world0 =
       try_steps env0 (create_state_machine agent0 llm0 1000 None) calls_session calls0
         (OperationStep (ToolExecutionOperation env0 tools0) # map OperationStep post @ [InferenceStep (InferenceRunner env0 llm0)]) world0"
    by (rule calls0_reach_execution)
  obtain r w' where r: "step env0 (create_state_machine agent0 llm0 1000 None) calls_session world0 = (r, w')" by fastforce
  have "\<not> w_cancelled world0" by (simp add: world0_def)
  from step_tail_execution [OF post(1) machine_modest this r [unfolded post(2)]] calls0_executed r show ?thesis by auto
qed

theorem agent_dispatches_cleared_calls_witness:
  "\<exists>r w' calls. step env0 (create_state_machine agent0 llm0 1000 None) calls_session world0 = (r, w') \<and>
     map fst calls = [''1'', ''2''] \<and> w_tool_calls w' = calls \<and>
     list_all (\<lambda>(i, call). \<exists>req. tr_id req = i \<and> cleared (ag_inspectors agent0) calls_session calls0 Auto
       (w_permissions world0) [request0 ''1'' ''shell'', request0 ''2'' ''read''] req) calls"
proof -
  obtain r w' where r: "step env0 (create_state_machine agent0 llm0 1000 None) calls_session world0 = (r, w')" by fastforce
  have insp: "ag_inspectors agent0 = create_tool_inspection_manager silent0 silent0 silent0 inspector0" by (simp add: agent0_def)
  have w: "w_goose_mode world0 = Auto" "w_tool_calls world0 = []" by (simp_all add: world0_def)
  have s: "as_approval_responses (from_messages calls0) = []"
    by (simp add: calls0_def from_messages_def ApprovalState_empty_def asking_def)
  from agent_dispatches_cleared_calls [OF r refl calls_session_simps(2,1) since_calls0 refl insp]
  have "list_all (\<lambda>(i, call). \<exists>req. tr_id req = i \<and> cleared (ag_inspectors agent0) calls_session calls0 Auto
       (w_permissions world0) [request0 ''1'' ''shell'', request0 ''2'' ''read''] req) (w_tool_calls w')"
    by (auto simp: w s calls0_responses calls0_pending calls0_state unmarked_confirmation_def list_all_iff list_ex_iff)
  with calls0_dispatched r show ?thesis by auto
qed

text \<open>The remaining case of the property, on a turn in which the confirmation for a request is on record and the request
  has no mark: the approval does not look at it again, and the execution takes it up.\<close>

definition unmarked_turn :: "Message list" where
  "unmarked_turn = [prompt0, asking [request0 ''1'' ''shell''],
     (Message_assistant 3)\<lparr>m_content := [action_required ''1'' ''shell'' [] None]\<rparr>]"

theorem unmarked_confirmation_executes:
  "unmarked_confirmation (from_messages unmarked_turn) (request0 ''1'' ''shell'') \<and>
   pending_requests (from_messages unmarked_turn) = [] \<and>
   pending_tool_requests (oe_ext env0) unmarked_turn = [(request0 ''1'' ''shell'', Execute)]"
  by (simp add: unmarked_turn_def unmarked_confirmation_def from_messages_def ApprovalState_empty_def asking_def request0_def
      action_required_def pending_requests_def is_pending_def is_ok_def pending_tool_requests_def Let_def disposition_def
      request_executable_def tool_meta_get_def Message_assistant_def Message_new_def env0_def)

theorem cancelled_step_closes_turn_witness:
  "\<exists>r w' m. step env0 (create_state_machine agent0 llm0 1000 None) calls_session (world0\<lparr>w_cancelled := True\<rparr>) =
       (Inr (Some r), w') \<and> effects r = [AppendMessage m] \<and> {''1'', ''2''} \<subseteq> set (resp_ids m)"
proof -
  have ids: "tr_id ` set (tool_requests calls0) = {''1'', ''2''}" "response_ids calls0 = []"
    by (simp_all add: calls0_def message_requests_def asking_def request0_def response_ids_def resp_ids_def)
  have cancelled: "w_cancelled (world0\<lparr>w_cancelled := True\<rparr>)" by simp
  from cancelled_step_closes_turn [OF cancelled refl calls_session_simps(2,1) since_calls0, of llm0 1000 None]
  obtain out w' where "step env0 (create_state_machine agent0 llm0 1000 None) calls_session (world0\<lparr>w_cancelled := True\<rparr>) = (Inr out, w')"
    "case out of None \<Rightarrow> {''1'', ''2''} \<subseteq> set (response_ids (calls0 @ calls0))
     | Some r \<Rightarrow> (\<exists>m. effects r = [AppendMessage m] \<and> {''1'', ''2''} \<subseteq> set (response_ids (calls0 @ calls0 @ [m])))"
    unfolding ids(1) by (fastforce split: option.splits)
  with ids(2) show ?thesis by (cases out) (auto simp: response_ids_def)
qed

definition config0 :: SessionConfig where
  "config0 = \<lparr>sc_id = ''20250101_1'', sc_schedule_id = None, sc_max_turns = None, sc_retry_config = None\<rparr>"

theorem cancelled_reply_returns_witness:
  "\<exists>result. reply_with_state_machine 1 agent0 sql0 prompt0 config0 store2 (world0\<lparr>w_cancelled := True\<rparr>) = Some result"
  using cancelled_reply_returns [of "world0\<lparr>w_cancelled := True\<rparr>" 0 agent0 sql0 prompt0 config0 store2] by simp

lemma config0_session: "\<exists>entry. get_session sql0 ''20250101_1'' False store3 = Inr entry"
  by (simp add: get_session_def store3_def store1_def new_session_row_def session_of_row_def usage_of_columns_def get_i32_def
      no_tokens_def Let_def)


end
