(* ===== verification/Serde.thy ===== *)
theory Serde
  imports Json
begin

text \<open>
  Derived deserialisation from a JSON value (\<open>serde\<close> with \<open>serde_json\<close>, dependencies of the workspace), as far as the sources
  rely on it: a struct is read from an object with its fields (with \<open>deny_unknown_fields\<close> and no others) or
  from an array of them in order; a missing \<open>Option\<close> field of an object is \<open>None\<close>; a unit variant is its
  name, or an object with the name and null. Every error is \<open>None\<close>.
\<close>

type_synonym 'a decoder = "json \<Rightarrow> 'a option"

fun dec_str :: "string decoder" where
  "dec_str (JStr s) = Some s"
| "dec_str _ = None"

fun dec_bool :: "bool decoder" where
  "dec_bool (JBool b) = Some b"
| "dec_bool _ = None"

fun dec_f64 :: "f64 decoder" where
  "dec_f64 (JFloat x) = Some x"
| "dec_f64 (JInt i) = Some (of_int i)"
| "dec_f64 _ = None"

fun dec_enum :: "(string \<times> 'a) list \<Rightarrow> 'a decoder" where
  "dec_enum table (JStr s) = map_of table s"
| "dec_enum table (JObj [(s, JNull)]) = map_of table s"
| "dec_enum table _ = None"

fun dec_all :: "'a decoder \<Rightarrow> json list \<Rightarrow> 'a list option" where
  "dec_all d [] = Some []"
| "dec_all d (v # vs) =
     (case d v of None \<Rightarrow> None | Some x \<Rightarrow> map_option (Cons x) (dec_all d vs))"

fun dec_list :: "'a decoder \<Rightarrow> 'a list decoder" where
  "dec_list d (JArr vs) = dec_all d vs"
| "dec_list d _ = None"

text \<open>The values of the fields \<open>ks\<close>, in this order; \<open>None\<close> for one that is missing.\<close>

fun struct_fields :: "string list \<Rightarrow> json \<Rightarrow> json option list option" where
  "struct_fields ks (JObj m) =
     (if list_all (\<lambda>(k, _). k \<in> set ks) m then Some (map (map_of m) ks) else None)"
| "struct_fields ks (JArr vs) = (if length vs = length ks then Some (map Some vs) else None)"
| "struct_fields ks _ = None"

definition field :: "'a decoder \<Rightarrow> json option list \<Rightarrow> nat \<Rightarrow> 'a option" where
  "field d vs i = (case vs ! i of None \<Rightarrow> None | Some v \<Rightarrow> d v)"

definition opt_field :: "'a decoder \<Rightarrow> json option list \<Rightarrow> nat \<Rightarrow> 'a option option" where
  "opt_field d vs i =
     (case vs ! i of
        None \<Rightarrow> Some None
      | Some JNull \<Rightarrow> Some None
      | Some v \<Rightarrow> map_option Some (d v))"

lemma dec_all_length: "dec_all d vs = Some xs \<Longrightarrow> length xs = length vs"
  by (induction vs arbitrary: xs) (auto split: option.splits)

lemma dec_all_encode:
  assumes "\<And>x. x \<in> set xs \<Longrightarrow> d (e x) = Some x"
  shows "dec_all d (map e xs) = Some xs"
  using assms by (induction xs) auto

end
