(* ===== verification/Fact_Check.thy ===== *)
theory Fact_Check
  imports Message Serde Text_Std
begin

text \<open>
  \<open>live_fact_check_model.rs\<close>: the assessment of a claim against retrieved evidence. The model only classifies the
  evidence; what it submits is validated (\<open>parse_draft\<close>) and the finding, the resolution and the
  confidence follow from it by a fixed policy (\<open>resolve_canonical_assessment\<close>). A deep assessment replaces a
  preliminary one only under \<open>select_canonical_assessment\<close>.

  What the model answers to an attempt is the parameter of \<open>synthesize_live_fact_check\<close>; the prompt, the payload and
  the JSON schema of the output tool are determined by the request and the attempt and are not modelled.
  Scores are exact rationals; a JSON number is always finite.
\<close>

subsection \<open>Types\<close>

datatype ModelStage = QuickStage | DeepStage

datatype RetrievalKind = SearchSnippet | PageExtract

datatype FactSourceType = Government | Academic | Official | Primary | Secondary | UnknownSource

datatype AssessmentStage = Preliminary | DeepAssessment

record Evidence =
  ev_citation_id :: string
  ev_publisher :: string
  ev_title :: string
  ev_publication_date :: "string option"
  ev_excerpt :: string
  ev_retrieval_kind :: RetrievalKind
  ev_url :: "string option"
  ev_canonical_url :: "string option"
  ev_accessed_at :: "string option"
  ev_source_type :: "FactSourceType option"
  ev_retrieval_stage :: "AssessmentStage option"

record ModelRequest =
  rq_stage :: ModelStage
  rq_normalized_claim :: string
  rq_exact_quote :: string
  rq_evidence :: "Evidence list"

datatype Verdict = VSupported | MostlySupported | Mixed | Unsupported | Unverifiable

datatype Resolution = Resolved | Unresolved

datatype EvidenceRelation = RSupports | RContradicts | RQualified | RConflicts | RNone

datatype Finding = Supported | Disputed | NeedsContext | Unverified

datatype Confidence = LowConfidence | MediumConfidence | HighConfidence

datatype EvidenceStance = Supports | Contradicts | Qualifies | Conflicts | Neutral

datatype SourceAuthority = Authoritative | Credible | Limited | UnknownAuthority

datatype SourceDirectness = Direct | Indirect

record CitedStatement =
  cs_text :: string
  cs_citation_ids :: "string list"

record SourceAssessment =
  sa_citation_id :: string
  sa_stance :: EvidenceStance
  sa_quality_score :: f64
  sa_quality_rationale :: string
  sa_authority :: SourceAuthority
  sa_directness :: SourceDirectness
  sa_addresses_claim :: bool
  sa_time_scope_match :: bool

record Draft =
  dr_confidence :: Confidence
  dr_conclusion :: string
  dr_conclusion_citation_ids :: "string list"
  dr_statements :: "CitedStatement list"
  dr_supports :: "CitedStatement list"
  dr_contradictions :: "CitedStatement list"
  dr_caveats :: "CitedStatement list"
  dr_limitations :: "CitedStatement list"
  dr_sources :: "SourceAssessment list"
  dr_change_explanation :: "CitedStatement option"

record CanonicalAssessment =
  ca_schema_version :: string
  ca_policy_version :: string
  ca_stage :: AssessmentStage
  ca_resolution :: Resolution
  ca_evidence_relation :: EvidenceRelation
  ca_finding :: Finding
  ca_confidence :: Confidence
  ca_conclusion :: string
  ca_conclusion_citation_ids :: "string list"
  ca_statements :: "CitedStatement list"
  ca_supports :: "CitedStatement list"
  ca_contradictions :: "CitedStatement list"
  ca_caveats :: "CitedStatement list"
  ca_limitations :: "CitedStatement list"
  ca_sources :: "SourceAssessment list"
  ca_change_explanation :: "CitedStatement option"
  ca_original_quote :: string
  ca_normalized_claim :: string
  ca_inventory :: "Evidence list"
  ca_completed_at :: string
  ca_ai_generated :: bool

record ModelResult =
  mr_canonical_assessment :: CanonicalAssessment
  mr_verdict :: Verdict
  mr_confidence :: Confidence
  mr_conclusion :: string
  mr_conclusion_citation_ids :: "string list"
  mr_supports :: "CitedStatement list"
  mr_contradictions :: "CitedStatement list"
  mr_caveats :: "CitedStatement list"
  mr_provider :: string
  mr_model :: string

datatype FactCheckError =
    InvalidRequest string
  | FactCheckTimeout
  | InvalidModelResponse
  | ProviderFailed ProviderError
  | ProviderInitialization

definition LIVE_FACT_CHECK_SCHEMA_VERSION :: string where
  "LIVE_FACT_CHECK_SCHEMA_VERSION = ''2.0.0''"

definition LIVE_FACT_CHECK_POLICY_VERSION :: string where
  "LIVE_FACT_CHECK_POLICY_VERSION = ''obelus-assessment-policy/2.0.0''"

definition LIVE_FACT_CHECK_PROVIDER :: string where
  "LIVE_FACT_CHECK_PROVIDER = ''chatgpt_codex''"

definition LIVE_FACT_CHECK_MODEL :: string where
  "LIVE_FACT_CHECK_MODEL = ''gpt-5.6-sol''"

definition LIVE_FACT_CHECK_TOOL_NAME :: string where
  "LIVE_FACT_CHECK_TOOL_NAME = ''submit_live_fact_check''"

subsection \<open>Validating a request\<close>

definition validate_nonempty_bounded :: "string \<Rightarrow> nat \<Rightarrow> string \<Rightarrow> FactCheckError option" where
  "validate_nonempty_bounded value maximum_bytes message =
     (if trim value = [] \<or> maximum_bytes < length value then Some (InvalidRequest message) else None)"

definition id_character :: "char \<Rightarrow> bool" where
  "id_character c = (ascii_alphanumeric c \<or> c = CHR ''-'' \<or> c = CHR ''_'')"

definition valid_citation_id :: "string \<Rightarrow> bool" where
  "valid_citation_id s = (s \<noteq> [] \<and> length s \<le> 32 \<and> list_all id_character s)"

definition valid_worker_request_id :: "string \<Rightarrow> bool" where
  "valid_worker_request_id s = (s \<noteq> [] \<and> length s \<le> 80 \<and> list_all id_character s)"

text \<open>The checks of a request in the order of the code; the first that fails is reported.\<close>

definition evidence_item_errors :: "string set \<Rightarrow> Evidence \<Rightarrow> FactCheckError option list" where
  "evidence_item_errors seen item =
     [if \<not> valid_citation_id (ev_citation_id item) \<or> ev_citation_id item \<in> seen
      then Some (InvalidRequest ''citation IDs are invalid or duplicated'') else None,
      validate_nonempty_bounded (ev_publisher item) 200 ''evidence publisher is empty or too long'',
      validate_nonempty_bounded (ev_title item) 500 ''evidence title is empty or too long'',
      (case ev_publication_date item of
         Some d \<Rightarrow> if d = [] \<or> 64 < length d then Some (InvalidRequest ''evidence publication date is invalid'') else None
       | None \<Rightarrow> None),
      validate_nonempty_bounded (ev_excerpt item) 4000 ''evidence excerpt is empty or too long'']"

fun evidence_errors :: "string set \<Rightarrow> Evidence list \<Rightarrow> FactCheckError option list" where
  "evidence_errors seen [] = []"
| "evidence_errors seen (item # items) =
     evidence_item_errors seen item @ evidence_errors (insert (ev_citation_id item) seen) items"

definition evidence_text_bytes :: "Evidence list \<Rightarrow> nat" where
  "evidence_text_bytes items =
     sum_list (map (\<lambda>item. length (ev_publisher item) + length (ev_title item) + length (ev_excerpt item)) items)"

definition validate_request :: "ModelRequest \<Rightarrow> FactCheckError option" where
  "validate_request request =
     first_error
       ([validate_nonempty_bounded (rq_normalized_claim request) 2000 ''normalized claim is empty or too long'',
         validate_nonempty_bounded (rq_exact_quote request) 4000 ''exact quote is empty or too long'',
         if rq_evidence request = [] \<or> 12 < length (rq_evidence request)
         then Some (InvalidRequest ''evidence item count is out of bounds'') else None] @
        evidence_errors {} (rq_evidence request) @
        [if 32000 < evidence_text_bytes (rq_evidence request)
         then Some (InvalidRequest ''evidence payload is too large'') else None])"

subsection \<open>Ambiguous comparisons\<close>

datatype ClaimOutputConstraint = GeneralClaim | AmbiguousOrganizationSize

definition organization_words :: "string list" where
  "organization_words =
     [''business'', ''businesses'', ''companies'', ''company'', ''corporation'', ''corporations'', ''employer'',
      ''employers'', ''enterprise'', ''enterprises'', ''firm'', ''firms'', ''organisation'', ''organisations'',
      ''organization'', ''organizations'']"

definition size_words :: "string list" where
  "size_words = [''biggest'', ''bigger'', ''largest'', ''larger'', ''size'', ''smallest'', ''smaller'']"

definition metric_words :: "string list" where
  "metric_words =
     [''assets'', ''asset'', ''cap'', ''capitalization'', ''customer'', ''customers'', ''earnings'', ''employee'',
      ''employees'', ''headcount'', ''income'', ''location'', ''locations'', ''marketcap'', ''profit'', ''profits'',
      ''revenue'', ''revenues'', ''sales'', ''store'', ''stores'', ''turnover'', ''user'', ''users'', ''valuation'',
      ''workforce'']"

definition date_words :: "string list" where
  "date_words = [''current'', ''currently'', ''latest'', ''now'', ''today'']"

definition contains_any :: "string list \<Rightarrow> string list \<Rightarrow> bool" where
  "contains_any ws candidates = list_ex (\<lambda>c. c \<in> set ws) candidates"

definition is_year :: "string \<Rightarrow> bool" where
  "is_year w = (length w = 4 \<and> (case parse_u16 w of Some y \<Rightarrow> 1900 \<le> y \<and> y \<le> 2200 | None \<Rightarrow> False))"

definition is_ambiguous_organization_size_claim :: "string \<Rightarrow> bool" where
  "is_ambiguous_organization_size_claim claim =
     (let ws = map to_ascii_lowercase (ascii_words claim)
      in contains_any ws organization_words \<and> contains_any ws size_words \<and>
         (\<not> contains_any ws metric_words \<or> \<not> (contains_any ws date_words \<or> list_ex is_year ws)))"

definition claim_output_constraint :: "ModelRequest \<Rightarrow> ClaimOutputConstraint" where
  "claim_output_constraint request =
     (if is_ambiguous_organization_size_claim (rq_normalized_claim request) \<or>
         is_ambiguous_organization_size_claim (rq_exact_quote request)
      then AmbiguousOrganizationSize else GeneralClaim)"

subsection \<open>Reading what the model submitted\<close>

definition dec_confidence :: "Confidence decoder" where
  "dec_confidence = dec_enum [(''low'', LowConfidence), (''medium'', MediumConfidence), (''high'', HighConfidence)]"

definition dec_stance :: "EvidenceStance decoder" where
  "dec_stance =
     dec_enum [(''supports'', Supports), (''contradicts'', Contradicts), (''qualifies'', Qualifies),
               (''conflicts'', Conflicts), (''neutral'', Neutral)]"

definition dec_authority :: "SourceAuthority decoder" where
  "dec_authority =
     dec_enum [(''authoritative'', Authoritative), (''credible'', Credible), (''limited'', Limited),
               (''unknown'', UnknownAuthority)]"

definition dec_directness :: "SourceDirectness decoder" where
  "dec_directness = dec_enum [(''direct'', Direct), (''indirect'', Indirect)]"

definition dec_cited_statement :: "CitedStatement decoder" where
  "dec_cited_statement v =
     (case struct_fields [''text'', ''citationIds''] v of
        None \<Rightarrow> None
      | Some fs \<Rightarrow>
          Option.bind (field dec_str fs 0) (\<lambda>t.
          Option.bind (field (dec_list dec_str) fs 1) (\<lambda>ids.
            Some \<lparr>cs_text = t, cs_citation_ids = ids\<rparr>)))"

definition dec_source_assessment :: "SourceAssessment decoder" where
  "dec_source_assessment v =
     (case struct_fields [''citationId'', ''stance'', ''qualityScore'', ''qualityRationale'', ''authority'', ''directness'',
                          ''addressesClaim'', ''timeScopeMatch''] v of
        None \<Rightarrow> None
      | Some fs \<Rightarrow>
          Option.bind (field dec_str fs 0) (\<lambda>cid.
          Option.bind (field dec_stance fs 1) (\<lambda>stance.
          Option.bind (field dec_f64 fs 2) (\<lambda>score.
          Option.bind (field dec_str fs 3) (\<lambda>rationale.
          Option.bind (field dec_authority fs 4) (\<lambda>auth.
          Option.bind (field dec_directness fs 5) (\<lambda>direct.
          Option.bind (field dec_bool fs 6) (\<lambda>addresses.
          Option.bind (field dec_bool fs 7) (\<lambda>tscope.
            Some \<lparr>sa_citation_id = cid, sa_stance = stance, sa_quality_score = score, sa_quality_rationale = rationale,
                  sa_authority = auth, sa_directness = direct, sa_addresses_claim = addresses,
                  sa_time_scope_match = tscope\<rparr>)))))))))"

definition dec_draft :: "Draft decoder" where
  "dec_draft v =
     (case struct_fields [''confidence'', ''conclusion'', ''conclusionCitationIds'', ''statements'', ''supports'',
                          ''contradictions'', ''caveats'', ''limitations'', ''sources'', ''changeExplanation''] v of
        None \<Rightarrow> None
      | Some fs \<Rightarrow>
          Option.bind (field dec_confidence fs 0) (\<lambda>conf.
          Option.bind (field dec_str fs 1) (\<lambda>concl.
          Option.bind (field (dec_list dec_str) fs 2) (\<lambda>ids.
          Option.bind (field (dec_list dec_cited_statement) fs 3) (\<lambda>statements.
          Option.bind (field (dec_list dec_cited_statement) fs 4) (\<lambda>supports.
          Option.bind (field (dec_list dec_cited_statement) fs 5) (\<lambda>contradictions.
          Option.bind (field (dec_list dec_cited_statement) fs 6) (\<lambda>caveats.
          Option.bind (field (dec_list dec_cited_statement) fs 7) (\<lambda>limitations.
          Option.bind (field (dec_list dec_source_assessment) fs 8) (\<lambda>sources.
          Option.bind (opt_field dec_cited_statement fs 9) (\<lambda>change.
            Some \<lparr>dr_confidence = conf, dr_conclusion = concl, dr_conclusion_citation_ids = ids,
                  dr_statements = statements, dr_supports = supports, dr_contradictions = contradictions,
                  dr_caveats = caveats, dr_limitations = limitations, dr_sources = sources,
                  dr_change_explanation = change\<rparr>)))))))))))"

text \<open>The loop over the content of a message: the arguments of the calls of the output tool, and whether there is
  anything else.\<close>

definition tool_call_arguments :: "string \<Rightarrow> MessageContentBlock \<Rightarrow> (json_object option \<times> bool)" where
  "tool_call_arguments expected b =
     (case b of
        ToolRequest req \<Rightarrow>
          (case tr_tool_call req of
             Inr call \<Rightarrow>
               if ctr_name call = expected
               then (case ctr_arguments call of Some args \<Rightarrow> (Some args, False) | None \<Rightarrow> (None, True))
               else (None, True)
           | Inl _ \<Rightarrow> (None, True))
      | Text t \<Rightarrow> (None, trim (tc_text t) \<noteq> [])
      | _ \<Rightarrow> (None, True))"

definition only_tool_call :: "string \<Rightarrow> Message \<Rightarrow> json_object option" where
  "only_tool_call expected message =
     (let found = map (tool_call_arguments expected) (m_content message)
      in if list_ex snd found then None
         else (case filter_map fst found of [args] \<Rightarrow> Some args | _ \<Rightarrow> None))"

subsection \<open>Validating what the model submitted\<close>

definition is_citation_id_character :: "char \<Rightarrow> bool" where
  "is_citation_id_character c = (ascii_alphanumeric c \<or> c = CHR ''_'')"

text \<open>The brackets are ASCII, or the UTF-8 bytes of U+3010 and U+3011.\<close>

fun has_bracket :: "string \<Rightarrow> bool" where
  "has_bracket (a # b # c # s) =
     (a = CHR ''['' \<or> a = CHR '']'' \<or>
      (a = CHR 0xE3 \<and> b = CHR 0x80 \<and> (c = CHR 0x90 \<or> c = CHR 0x91)) \<or> has_bracket (b # c # s))"
| "has_bracket s = list_ex (\<lambda>a. a = CHR ''['' \<or> a = CHR '']'') s"

definition marks_citation :: "string \<Rightarrow> string \<Rightarrow> nat \<Rightarrow> bool" where
  "marks_citation text cid start =
     (let stop = start + length cid
      in \<not> (0 < start \<and> is_citation_id_character (text ! (start - 1))) \<and>
         \<not> (stop < length text \<and> is_citation_id_character (text ! stop)))"

definition contains_inline_citation :: "string \<Rightarrow> string list \<Rightarrow> bool" where
  "contains_inline_citation text allowed =
     (has_bracket text \<or>
      (let lower = to_ascii_lowercase text
       in list_ex (\<lambda>cid. let lid = to_ascii_lowercase cid
                         in list_ex (marks_citation lower lid) (match_indices lid lower)) allowed))"

definition cited_statement_ok :: "string list \<Rightarrow> CitedStatement \<Rightarrow> bool" where
  "cited_statement_ok allowed st =
     (\<not> (trim (cs_text st) = [] \<or> 500 < length (cs_text st) \<or> contains_inline_citation (cs_text st) allowed) \<and>
      \<not> (cs_citation_ids st = [] \<or> 4 < length (cs_citation_ids st)) \<and>
      list_all (\<lambda>i. i \<in> set allowed) (cs_citation_ids st) \<and> distinct (cs_citation_ids st))"

definition validate_cited_statements :: "string list \<Rightarrow> CitedStatement list \<Rightarrow> (nat \<times> nat) option" where
  "validate_cited_statements allowed sts =
     (if 4 < length sts \<or> \<not> list_all (cited_statement_ok allowed) sts then None
      else Some (length sts, sum_list (map (length \<circ> cs_text) sts)))"

definition source_by_id :: "SourceAssessment list \<Rightarrow> string \<Rightarrow> SourceAssessment option" where
  "source_by_id sources i = find (\<lambda>s. sa_citation_id s = i) (rev sources)"

definition validate_statement_sources ::
  "SourceAssessment list \<Rightarrow> EvidenceStance option \<Rightarrow> CitedStatement list \<Rightarrow> bool" where
  "validate_statement_sources sources required sts =
     list_all (\<lambda>st. list_all (\<lambda>i. case source_by_id sources i of
         None \<Rightarrow> False
       | Some s \<Rightarrow> (case required of Some stance \<Rightarrow> sa_stance s = stance | None \<Rightarrow> True)) (cs_citation_ids st)) sts"

definition validate_caveat_sources :: "SourceAssessment list \<Rightarrow> CitedStatement list \<Rightarrow> bool" where
  "validate_caveat_sources sources sts =
     list_all (\<lambda>st. list_all (\<lambda>i. case source_by_id sources i of
         None \<Rightarrow> False
       | Some s \<Rightarrow> sa_stance s = Qualifies \<or> sa_stance s = Conflicts) (cs_citation_ids st)) sts"

definition source_ok :: "string list \<Rightarrow> SourceAssessment \<Rightarrow> bool" where
  "source_ok allowed s =
     (sa_citation_id s \<in> set allowed \<and> 0 \<le> sa_quality_score s \<and> sa_quality_score s \<le> 1 \<and>
      \<not> (trim (sa_quality_rationale s) = [] \<or> 600 < length (sa_quality_rationale s)) \<and>
      (sa_stance s = Neutral \<or> sa_addresses_claim s))"

definition conclusion_ok :: "string list \<Rightarrow> Draft \<Rightarrow> bool" where
  "conclusion_ok allowed d =
     (\<not> (trim (dr_conclusion d) = [] \<or> 280 < length (dr_conclusion d) \<or>
         contains_inline_citation (dr_conclusion d) allowed) \<and>
      length (dr_conclusion_citation_ids d) \<le> 4 \<and>
      list_all (\<lambda>i. i \<in> set allowed) (dr_conclusion_citation_ids d) \<and> distinct (dr_conclusion_citation_ids d))"

definition draft_sections :: "Draft \<Rightarrow> CitedStatement list list" where
  "draft_sections d = [dr_statements d, dr_supports d, dr_contradictions d, dr_caveats d, dr_limitations d]"

definition sections_ok :: "string list \<Rightarrow> Draft \<Rightarrow> bool" where
  "sections_ok allowed d =
     (let checked = map (validate_cited_statements allowed) (draft_sections d)
      in list_all (\<lambda>r. r \<noteq> None) checked \<and>
         sum_list (map (fst \<circ> the) checked) \<le> 8 \<and> sum_list (map (snd \<circ> the) checked) \<le> 2400 \<and>
         length (dr_supports d) + length (dr_contradictions d) + length (dr_caveats d) + length (dr_limitations d) \<noteq> 0)"

definition sources_ok :: "string list \<Rightarrow> Draft \<Rightarrow> bool" where
  "sources_ok allowed d =
     (dr_sources d \<noteq> [] \<and> length (dr_sources d) \<le> length (remdups allowed) \<and>
      list_all (source_ok allowed) (dr_sources d) \<and> distinct (map sa_citation_id (dr_sources d)))"

definition citations_ok :: "string list \<Rightarrow> Draft \<Rightarrow> bool" where
  "citations_ok allowed d =
     (let sources = dr_sources d
      in \<not> ((dr_supports d \<noteq> [] \<or> dr_contradictions d \<noteq> [] \<or> dr_caveats d \<noteq> []) \<and>
            dr_conclusion_citation_ids d = []) \<and>
         list_all (\<lambda>i. source_by_id sources i \<noteq> None) (dr_conclusion_citation_ids d) \<and>
         validate_statement_sources sources None (dr_statements d) \<and>
         validate_statement_sources sources (Some Supports) (dr_supports d) \<and>
         validate_statement_sources sources (Some Contradicts) (dr_contradictions d) \<and>
         validate_caveat_sources sources (dr_caveats d) \<and>
         validate_statement_sources sources None (dr_limitations d) \<and>
         (case dr_change_explanation d of
            None \<Rightarrow> True
          | Some e \<Rightarrow> validate_cited_statements allowed [e] \<noteq> None \<and> validate_statement_sources sources None [e]))"

text \<open>Every failure is the same error, so the order of the checks does not show.\<close>

definition parse_draft :: "Message \<Rightarrow> string list \<Rightarrow> ModelStage \<Rightarrow> Draft option" where
  "parse_draft message allowed stage =
     (case only_tool_call LIVE_FACT_CHECK_TOOL_NAME message of
        None \<Rightarrow> None
      | Some args \<Rightarrow>
          (case dec_draft (JObj args) of
             None \<Rightarrow> None
           | Some d \<Rightarrow>
               if conclusion_ok allowed d \<and> \<not> (stage = QuickStage \<and> dr_change_explanation d \<noteq> None) \<and>
                  sections_ok allowed d \<and> sources_ok allowed d \<and> citations_ok allowed d
               then Some d else None))"

subsection \<open>The assessment policy\<close>

definition cited_ids :: "CitedStatement list \<Rightarrow> string set" where
  "cited_ids sts = (\<Union>st \<in> set sts. set (cs_citation_ids st))"

definition draft_evidence_relation :: "Draft \<Rightarrow> ClaimOutputConstraint \<Rightarrow> EvidenceRelation" where
  "draft_evidence_relation d con =
     (let sup = dr_supports d \<noteq> []; contra = dr_contradictions d \<noteq> []; qual = dr_caveats d \<noteq> [];
          explicitly_conflicts = list_ex (\<lambda>s. sa_stance s = Conflicts \<and> sa_citation_id s \<in> cited_ids (dr_caveats d)) (dr_sources d)
      in if (sup \<and> contra) \<or> explicitly_conflicts then RConflicts
         else if qual \<or> (con = AmbiguousOrganizationSize \<and> (sup \<or> contra)) then RQualified
         else if sup then RSupports else if contra then RContradicts else RNone)"

fun finding_for_evidence_relation :: "EvidenceRelation \<Rightarrow> Resolution \<times> Finding" where
  "finding_for_evidence_relation RSupports = (Resolved, Supported)"
| "finding_for_evidence_relation RContradicts = (Resolved, Disputed)"
| "finding_for_evidence_relation RQualified = (Unresolved, NeedsContext)"
| "finding_for_evidence_relation RConflicts = (Unresolved, NeedsContext)"
| "finding_for_evidence_relation RNone = (Unresolved, Unverified)"

definition decisive_citation_ids :: "Draft \<Rightarrow> string set" where
  "decisive_citation_ids d = cited_ids (dr_supports d @ dr_contradictions d @ dr_caveats d)"

definition evidence_by_id :: "Evidence list \<Rightarrow> string \<Rightarrow> Evidence option" where
  "evidence_by_id evs i = find (\<lambda>e. ev_citation_id e = i) (rev evs)"

definition direct_authoritative_extract :: "Evidence list \<Rightarrow> SourceAssessment \<Rightarrow> bool" where
  "direct_authoritative_extract evs s =
     (case evidence_by_id evs (sa_citation_id s) of
        None \<Rightarrow> False
      | Some item \<Rightarrow>
          ev_retrieval_kind item = PageExtract \<and> sa_authority s = Authoritative \<and> sa_directness s = Direct \<and>
          sa_time_scope_match s \<and> 4 / 5 \<le> sa_quality_score s)"

definition canonical_confidence :: "Draft \<Rightarrow> Evidence list \<Rightarrow> EvidenceRelation \<Rightarrow> Confidence" where
  "canonical_confidence d evs relation =
     (if relation = RNone then LowConfidence
      else (let assessed = filter (\<lambda>s. sa_citation_id s \<in> decisive_citation_ids d \<and> sa_addresses_claim s) (dr_sources d)
            in if \<not> list_ex (\<lambda>s. 9 / 20 \<le> sa_quality_score s) assessed \<or> dr_confidence d = LowConfidence
               then LowConfidence
               else if dr_confidence d = HighConfidence \<and> list_ex (direct_authoritative_extract evs) assessed
               then HighConfidence else MediumConfidence))"

definition source_identity :: "Evidence \<Rightarrow> string" where
  "source_identity e =
     to_ascii_lowercase (ev_publisher e @ '' '' @ (case ev_url e of Some u \<Rightarrow> u | None \<Rightarrow> []) @ '' '' @
       (case ev_canonical_url e of Some u \<Rightarrow> u | None \<Rightarrow> []))"

definition authoritative_source_signal :: "Evidence \<Rightarrow> bool" where
  "authoritative_source_signal e =
     (ev_source_type e \<in> {Some Government, Some Academic, Some Official, Some Primary} \<or>
      list_ex (\<lambda>p. str_contains p (source_identity e)) [''nasa'', ''.gov'', ''.edu'', ''government''])"

definition normalize_source_authority :: "Evidence list \<Rightarrow> SourceAssessment \<Rightarrow> SourceAssessment" where
  "normalize_source_authority evs s =
     (if sa_authority s = Authoritative \<and>
         (case evidence_by_id evs (sa_citation_id s) of Some e \<Rightarrow> \<not> authoritative_source_signal e | None \<Rightarrow> False)
      then s\<lparr>sa_authority := Credible\<rparr> else s)"

definition infer_source_type :: "Evidence \<Rightarrow> FactSourceType" where
  "infer_source_type e =
     (if list_ex (\<lambda>p. str_contains p (source_identity e)) [''nasa'', ''.gov'', ''government''] then Government
      else if list_ex (\<lambda>p. str_contains p (source_identity e)) [''.edu'', ''university''] then Academic
      else UnknownSource)"

definition assessment_stage :: "ModelStage \<Rightarrow> AssessmentStage" where
  "assessment_stage s = (case s of QuickStage \<Rightarrow> Preliminary | DeepStage \<Rightarrow> DeepAssessment)"

definition inventory_item :: "string \<Rightarrow> AssessmentStage \<Rightarrow> Evidence \<Rightarrow> Evidence" where
  "inventory_item completed_at stage e =
     (let e1 = (if ev_canonical_url e = None then e\<lparr>ev_canonical_url := ev_url e\<rparr> else e);
          e2 = (if ev_accessed_at e1 = None then e1\<lparr>ev_accessed_at := Some completed_at\<rparr> else e1);
          e3 = (if ev_source_type e2 = None then e2\<lparr>ev_source_type := Some (infer_source_type e2)\<rparr> else e2)
      in e3\<lparr>ev_retrieval_stage := Some stage\<rparr>)"

definition resolve_canonical_assessment ::
  "string \<Rightarrow> Draft \<Rightarrow> ModelRequest \<Rightarrow> ClaimOutputConstraint \<Rightarrow> CanonicalAssessment" where
  "resolve_canonical_assessment completed_at draft request con =
     (let d = draft\<lparr>dr_sources := map (normalize_source_authority (rq_evidence request)) (dr_sources draft)\<rparr>;
          relation = draft_evidence_relation d con;
          stage = assessment_stage (rq_stage request)
      in \<lparr>ca_schema_version = LIVE_FACT_CHECK_SCHEMA_VERSION, ca_policy_version = LIVE_FACT_CHECK_POLICY_VERSION,
          ca_stage = stage, ca_resolution = fst (finding_for_evidence_relation relation),
          ca_evidence_relation = relation, ca_finding = snd (finding_for_evidence_relation relation),
          ca_confidence = canonical_confidence d (rq_evidence request) relation,
          ca_conclusion = dr_conclusion d, ca_conclusion_citation_ids = dr_conclusion_citation_ids d,
          ca_statements = dr_statements d, ca_supports = dr_supports d, ca_contradictions = dr_contradictions d,
          ca_caveats = dr_caveats d, ca_limitations = dr_limitations d, ca_sources = dr_sources d,
          ca_change_explanation = dr_change_explanation d, ca_original_quote = rq_exact_quote request,
          ca_normalized_claim = rq_normalized_claim request,
          ca_inventory = map (inventory_item completed_at stage) (rq_evidence request),
          ca_completed_at = completed_at, ca_ai_generated = True\<rparr>)"

subsection \<open>Results\<close>

fun take_distinct :: "nat \<Rightarrow> 'a list \<Rightarrow> 'a list \<Rightarrow> 'a list" where
  "take_distinct n acc [] = acc"
| "take_distinct n acc (x # xs) =
     (if length acc = n then acc
      else take_distinct n (if x \<in> set acc then acc else acc @ [x]) xs)"

definition legacy_conclusion_citations :: "CanonicalAssessment \<Rightarrow> string list" where
  "legacy_conclusion_citations a =
     take_distinct 4 []
       (ca_conclusion_citation_ids a @ concat (map cs_citation_ids (ca_limitations a)) @
        map sa_citation_id (ca_sources a) @ map ev_citation_id (ca_inventory a))"

fun legacy_verdict :: "Finding \<Rightarrow> Verdict" where
  "legacy_verdict Supported = VSupported"
| "legacy_verdict Disputed = Unsupported"
| "legacy_verdict NeedsContext = Mixed"
| "legacy_verdict Unverified = Unverifiable"

definition legacy_compatible_result :: "CanonicalAssessment \<Rightarrow> ModelStage \<Rightarrow> ModelResult" where
  "legacy_compatible_result a stage =
     \<lparr>mr_canonical_assessment = a, mr_verdict = legacy_verdict (ca_finding a), mr_confidence = ca_confidence a,
      mr_conclusion = ca_conclusion a, mr_conclusion_citation_ids = legacy_conclusion_citations a,
      mr_supports = (case stage of QuickStage \<Rightarrow> [] | DeepStage \<Rightarrow> ca_supports a),
      mr_contradictions = (case stage of QuickStage \<Rightarrow> [] | DeepStage \<Rightarrow> ca_contradictions a),
      mr_caveats =
        (case stage of
           QuickStage \<Rightarrow> []
         | DeepStage \<Rightarrow>
             if ca_supports a = [] \<and> ca_contradictions a = [] \<and> ca_caveats a = [] then ca_limitations a
             else ca_caveats a),
      mr_provider = LIVE_FACT_CHECK_PROVIDER, mr_model = LIVE_FACT_CHECK_MODEL\<rparr>"

text \<open>What an attempt gives: \<open>completion False\<close> answers the first prompt, \<open>completion True\<close> the prompt that asks for a
  repair. A timeout or an error of the provider ends the synthesis at once.\<close>

datatype Completion = TimedOut | Failed ProviderError | Completed Message

fun attempts_loop ::
  "(bool \<Rightarrow> Completion) \<Rightarrow> (Message \<Rightarrow> 'r option) \<Rightarrow> bool list \<Rightarrow> FactCheckError + 'r" where
  "attempts_loop completion parse [] = Inl InvalidModelResponse"
| "attempts_loop completion parse (repair # rest) =
     (case completion repair of
        TimedOut \<Rightarrow> Inl FactCheckTimeout
      | Failed e \<Rightarrow> Inl (ProviderFailed e)
      | Completed message \<Rightarrow>
          (case parse message of
             Some r \<Rightarrow> Inr r
           | None \<Rightarrow> attempts_loop completion parse rest))"

definition synthesize_live_fact_check ::
  "string \<Rightarrow> (bool \<Rightarrow> Completion) \<Rightarrow> ModelRequest \<Rightarrow> FactCheckError + ModelResult" where
  "synthesize_live_fact_check completed_at completion request =
     (case validate_request request of
        Some e \<Rightarrow> Inl e
      | None \<Rightarrow>
          (let con = claim_output_constraint request;
               allowed = map ev_citation_id (rq_evidence request)
           in attempts_loop completion
                (\<lambda>message. map_option (\<lambda>draft.
                    legacy_compatible_result (resolve_canonical_assessment completed_at draft request con)
                      (rq_stage request))
                  (parse_draft message allowed (rq_stage request)))
                [False, True]))"

subsection \<open>Choosing between assessments\<close>

datatype SelectionReason =
    DeepConfirmedOrStrengthened
  | DeepResolvedPreliminary
  | CitedNewEvidenceChangedFinding
  | PreliminaryStronger
  | DeepChangeLackedCitedNewEvidence

record AssessmentSelection =
  sl_assessment :: CanonicalAssessment
  sl_retained_preliminary :: bool
  sl_reason :: SelectionReason

definition assessment_strength :: "CanonicalAssessment \<Rightarrow> nat" where
  "assessment_strength a =
     (case ca_confidence a of LowConfidence \<Rightarrow> 1 | MediumConfidence \<Rightarrow> 2 | HighConfidence \<Rightarrow> 3) * 2 +
     (if ca_resolution a = Resolved then 1 else 0)"

definition has_cited_new_decisive_evidence :: "CanonicalAssessment \<Rightarrow> CanonicalAssessment \<Rightarrow> bool" where
  "has_cited_new_decisive_evidence preliminary deep =
     (case ca_change_explanation deep of
        None \<Rightarrow> False
      | Some explanation \<Rightarrow>
          (let preliminary_urls = set (filter_map ev_canonical_url (ca_inventory preliminary));
               decisive = cited_ids (ca_supports deep @ ca_contradictions deep @ ca_caveats deep)
           in list_ex (\<lambda>i. case Option.bind (evidence_by_id (ca_inventory deep) i) ev_canonical_url of
                  Some url \<Rightarrow> i \<in> decisive \<and> url \<notin> preliminary_urls
                | None \<Rightarrow> False) (cs_citation_ids explanation)))"

definition select_canonical_assessment :: "CanonicalAssessment \<Rightarrow> CanonicalAssessment \<Rightarrow> AssessmentSelection" where
  "select_canonical_assessment preliminary deep =
     (let ps = assessment_strength preliminary; ds = assessment_strength deep;
          keep = (\<lambda>reason. \<lparr>sl_assessment = preliminary, sl_retained_preliminary = True, sl_reason = reason\<rparr>);
          replace = (\<lambda>reason. \<lparr>sl_assessment = deep, sl_retained_preliminary = False, sl_reason = reason\<rparr>)
      in if ca_finding deep = ca_finding preliminary
         then (if ps \<le> ds then replace DeepConfirmedOrStrengthened else keep PreliminaryStronger)
         else if ca_resolution preliminary = Unresolved \<and> ca_resolution deep = Resolved \<and> ps < ds
         then replace DeepResolvedPreliminary
         else if \<not> has_cited_new_decisive_evidence preliminary deep then keep DeepChangeLackedCitedNewEvidence
         else if ds < ps then keep PreliminaryStronger
         else replace CitedNewEvidenceChangedFinding)"

subsection \<open>Errors and worker responses\<close>

record WorkerError =
  we_code :: string
  we_message :: string
  we_retryable :: bool

fun worker_error :: "FactCheckError \<Rightarrow> WorkerError" where
  "worker_error (InvalidRequest _) =
     \<lparr>we_code = ''invalid_request'', we_message = ''The fact-check model request was invalid.'', we_retryable = False\<rparr>"
| "worker_error FactCheckTimeout =
     \<lparr>we_code = ''chatgpt_timeout'', we_message = ''ChatGPT took too long to synthesize this fact-check.'',
      we_retryable = True\<rparr>"
| "worker_error InvalidModelResponse =
     \<lparr>we_code = ''invalid_model_response'',
      we_message = ''ChatGPT returned a fact-check response that could not be validated.'', we_retryable = True\<rparr>"
| "worker_error ProviderInitialization =
     \<lparr>we_code = ''chatgpt_auth_required'',
      we_message = ''Sign in to ChatGPT in Obelus before using live fact-checking.'', we_retryable = False\<rparr>"
| "worker_error (ProviderFailed e) =
     (case e of
        NotConfigured \<Rightarrow>
          \<lparr>we_code = ''chatgpt_auth_required'',
           we_message = ''Sign in to ChatGPT in Obelus before using live fact-checking.'', we_retryable = False\<rparr>
      | Authentication _ \<Rightarrow>
          \<lparr>we_code = ''chatgpt_auth_required'',
           we_message = ''Sign in to ChatGPT in Obelus before using live fact-checking.'', we_retryable = False\<rparr>
      | RateLimitExceeded _ _ \<Rightarrow>
          \<lparr>we_code = ''chatgpt_rate_limited'',
           we_message = ''ChatGPT is temporarily rate limited. Obelus will retry this check.'', we_retryable = True\<rparr>
      | CreditsExhaustedError _ _ \<Rightarrow>
          \<lparr>we_code = ''chatgpt_limit_reached'',
           we_message = ''The ChatGPT usage limit was reached. Obelus will retry when access resets.'',
           we_retryable = True\<rparr>
      | Refusal _ _ \<Rightarrow>
          \<lparr>we_code = ''chatgpt_refused'', we_message = ''ChatGPT could not synthesize this fact-check.'',
           we_retryable = False\<rparr>
      | _ \<Rightarrow>
          \<lparr>we_code = ''chatgpt_unavailable'',
           we_message = ''ChatGPT is temporarily unavailable. Obelus will retry this check.'', we_retryable = True\<rparr>)"

datatype OperationalState = AssessmentAvailable | ResearchUnavailable | BudgetDenied | WorkCancelled | WorkFailed

definition operational_state_for_error_code :: "string \<Rightarrow> OperationalState" where
  "operational_state_for_error_code code =
     (if code = ''budget_exceeded'' then BudgetDenied
      else if code \<in> {''cancelled'', ''chatgpt_cancelled''} then WorkCancelled
      else if code \<in> {''provider_unavailable'', ''provider_rejected'', ''invalid_provider_response'',
                       ''chatgpt_auth_required'', ''chatgpt_rate_limited'', ''chatgpt_limit_reached'', ''chatgpt_refused'',
                       ''chatgpt_unavailable'', ''chatgpt_timeout'', ''invalid_model_response''}
      then ResearchUnavailable else WorkFailed)"

end
