(* ===== verification/Claim_Detection.thy ===== *)
theory Claim_Detection
  imports Fact_Check
begin

text \<open>
  \<open>live_fact_check_model.rs\<close>, second part, and the worker of \<open>commands/live_fact_check_model.rs\<close>: claims the model finds in the
  finalised turns of a transcript. A candidate is accepted only if it is quoted from a contiguous run of
  turns; the turns go to the model under aliases. The Unicode tables (words of letters and digits, lower
  case, the normal form of a token) are the record \<open>text_ext\<close>, what the model answers is a parameter.
\<close>

record text_ext =
  tx_words :: "string \<Rightarrow> string list"
  tx_lower :: "string \<Rightarrow> string"
  tx_boundary :: "string \<Rightarrow> string"

subsection \<open>Requests\<close>

datatype DetectionSourceKind = Microphone | System | MixedSource

record DetectionTurn =
  dt_id :: string
  dt_speaker_id :: "string option"
  dt_source_kind :: "DetectionSourceKind option"
  dt_start_ms :: nat
  dt_end_ms :: nat
  dt_text :: string

record DetectionRequest =
  dq_turns :: "DetectionTurn list"
  dq_required_turn_ids :: "string list"
  dq_existing_claim_keys :: "string list"

record DetectionCandidate =
  dc_exact_quote :: string
  dc_normalized_claim :: string
  dc_segment_ids :: "string list"
  dc_checkworthy :: bool
  dc_consequence_score :: f64
  dc_dispute_likelihood_score :: f64
  dc_specificity_score :: f64
  dc_time_sensitive :: bool
  dc_selection_rationale :: string

record DetectionResult =
  dx_candidates :: "DetectionCandidate list"
  dx_provider :: string
  dx_model :: string

definition LIVE_CLAIM_DETECTION_TOOL_NAME :: string where
  "LIVE_CLAIM_DETECTION_TOOL_NAME = ''submit_live_claim_detection''"

definition turn_errors :: "string set \<Rightarrow> DetectionTurn \<Rightarrow> FactCheckError option list" where
  "turn_errors seen turn =
     [if \<not> valid_worker_request_id (dt_id turn) \<or> dt_id turn \<in> seen
      then Some (InvalidRequest ''claim detection turn IDs are invalid or duplicated'') else None,
      (case dt_speaker_id turn of
         Some i \<Rightarrow> if \<not> valid_worker_request_id i then Some (InvalidRequest ''claim detection speaker ID is invalid'') else None
       | None \<Rightarrow> None),
      if dt_end_ms turn < dt_start_ms turn
      then Some (InvalidRequest ''claim detection turn timestamps are invalid'') else None,
      validate_nonempty_bounded (dt_text turn) 2000 ''claim detection turn text is empty or too long'']"

fun turns_errors :: "string set \<Rightarrow> DetectionTurn list \<Rightarrow> FactCheckError option list" where
  "turns_errors seen [] = []"
| "turns_errors seen (turn # turns) = turn_errors seen turn @ turns_errors (insert (dt_id turn) seen) turns"

fun key_errors :: "string set \<Rightarrow> string list \<Rightarrow> FactCheckError option list" where
  "key_errors seen [] = []"
| "key_errors seen (k # ks) =
     [validate_nonempty_bounded k 256 ''existing claim key is empty or too long'',
      if k \<in> seen then Some (InvalidRequest ''existing claim keys are duplicated'') else None] @
     key_errors (insert k seen) ks"

definition validate_claim_detection_request :: "DetectionRequest \<Rightarrow> FactCheckError option" where
  "validate_claim_detection_request request =
     (let turns = dq_turns request; required = dq_required_turn_ids request
      in first_error
        ([if turns = [] \<or> 12 < length turns
          then Some (InvalidRequest ''claim detection turn count is out of bounds'') else None] @
         turns_errors {} turns @
         [if 12000 < sum_list (map (length \<circ> dt_text) turns)
          then Some (InvalidRequest ''claim detection transcript is too large'') else None,
          if required = [] \<or> length turns < length required
          then Some (InvalidRequest ''required claim detection turn count is out of bounds'') else None,
          if \<not> list_all (\<lambda>i. i \<in> dt_id ` set turns) required \<or> \<not> distinct required
          then Some (InvalidRequest ''required claim detection turn IDs are invalid or duplicated'') else None,
          if 50 < length (dq_existing_claim_keys request)
          then Some (InvalidRequest ''existing claim key count is out of bounds'') else None] @
         key_errors {} (dq_existing_claim_keys request)))"

definition claim_detection_turn_alias :: "nat \<Rightarrow> string" where
  "claim_detection_turn_alias index = ''T'' @ show_nat (index + 1)"

record DetectionPayload =
  dp_turns :: "(string \<times> string) list"
  dp_required_turn_ids :: "string list"

definition claim_detection_model_payload :: "DetectionRequest \<Rightarrow> DetectionPayload" where
  "claim_detection_model_payload request =
     (let indexed = zip [0..<length (dq_turns request)] (dq_turns request)
      in \<lparr>dp_turns = map (\<lambda>(i, turn). (claim_detection_turn_alias i, dt_text turn)) indexed,
          dp_required_turn_ids =
            map (\<lambda>(i, turn). claim_detection_turn_alias i)
              (filter (\<lambda>(i, turn). dt_id turn \<in> set (dq_required_turn_ids request)) indexed)\<rparr>)"

subsection \<open>Text heuristics\<close>

definition question_prefixes :: "string list" where
  "question_prefixes =
     [''what '', ''when '', ''where '', ''which '', ''who '', ''whose '', ''why '', ''how '', ''can you '', ''could you '',
      ''would you '', ''do you '', ''did you '', ''does it '', ''is there '', ''are there '']"

definition obvious_question :: "string \<Rightarrow> bool" where
  "obvious_question text =
     (let t = trim text
      in ends_with ''?'' t \<or> list_ex (\<lambda>p. starts_with p (to_ascii_lowercase t)) question_prefixes)"

definition non_claim_prefixes :: "string list" where
  "non_claim_prefixes =
     [''hello '', ''hi '', ''good morning'', ''good afternoon'', ''good evening'', ''thank you '', ''thanks for '',
      ''mic check'', ''microphone check'', ''audio check'', ''testing one two'']"

definition obvious_non_claim :: "text_ext \<Rightarrow> string \<Rightarrow> bool" where
  "obvious_non_claim X text =
     (let ws = tx_words X text;
          normalized = str_join '' '' (map to_ascii_lowercase ws)
      in length ws < 3 \<or> normalized = ''thank you'' \<or> list_ex (\<lambda>p. starts_with p normalized) non_claim_prefixes)"

definition normalized_detection_text :: "text_ext \<Rightarrow> string \<Rightarrow> string" where
  "normalized_detection_text X text = tx_lower X (str_join '' '' (split_whitespace text))"

subsection \<open>Joining turns\<close>

text \<open>The first argument is the position in the text, the second the start of the token being read.\<close>

function token_spans :: "nat \<Rightarrow> nat option \<Rightarrow> string \<Rightarrow> (nat \<times> nat) list" where
  "token_spans i start s =
     (if s = [] then (case start of Some st \<Rightarrow> [(st, i)] | None \<Rightarrow> [])
      else if ws_len_front s = 0
      then token_spans (Suc i) (case start of Some st \<Rightarrow> Some st | None \<Rightarrow> Some i) (tl s)
      else (case start of Some st \<Rightarrow> [(st, i)] | None \<Rightarrow> []) @
           token_spans (i + ws_len_front s) None (drop (ws_len_front s) s))"
  by pat_completeness auto

termination
  by (relation "measure (\<lambda>(_, _, s). length s)") auto

declare token_spans.simps [simp del]

definition whitespace_token_spans :: "string \<Rightarrow> (nat \<times> nat) list" where
  "whitespace_token_spans text = token_spans 0 None text"

definition slice :: "string \<Rightarrow> nat \<times> nat \<Rightarrow> string" where
  "slice s ab = take (snd ab - fst ab) (drop (fst ab) s)"

definition boundary_tokens_match :: "text_ext \<Rightarrow> string \<Rightarrow> string \<Rightarrow> (nat \<times> nat) \<times> (nat \<times> nat) \<Rightarrow> bool" where
  "boundary_tokens_match X left right spans =
     (let l = tx_boundary X (slice left (fst spans))
      in l \<noteq> [] \<and> l = tx_boundary X (slice right (snd spans)))"

definition longest_boundary_token_overlap ::
  "text_ext \<Rightarrow> string \<Rightarrow> (nat \<times> nat) list \<Rightarrow> string \<Rightarrow> (nat \<times> nat) list \<Rightarrow> nat" where
  "longest_boundary_token_overlap X left lts right rts =
     (let maximum = min (min (length lts) (length rts)) 8
      in case find (\<lambda>count. list_all (boundary_tokens_match X left right)
                      (zip (drop (length lts - count) lts) (take count rts))) (rev [1..<Suc maximum]) of
           Some count \<Rightarrow> count
         | None \<Rightarrow> 0)"

definition join_turn ::
  "text_ext \<Rightarrow> DetectionTurn \<Rightarrow> string \<times> (nat \<times> nat) list \<Rightarrow> string \<times> (nat \<times> nat) list" where
  "join_turn X turn acc =
     (case acc of (joined, ranges) \<Rightarrow>
        (let fragment = str_join '' '' (split_whitespace (dt_text turn))
         in if joined = [] then (fragment, ranges @ [(0, length fragment)])
            else
              (let jts = whitespace_token_spans joined; fts = whitespace_token_spans fragment;
                   overlap = longest_boundary_token_overlap X joined jts fragment fts;
                   overlap_start = (if overlap = 0 then None else map_option fst (list_get jts (length jts - overlap)));
                   remainder_start =
                     (if overlap = 0 then 0
                      else (case list_get fts (overlap - 1) of Some sp \<Rightarrow> snd sp | None \<Rightarrow> 0));
                   remainder = trim_start (drop remainder_start fragment);
                   from = (\<lambda>d. case overlap_start of Some st \<Rightarrow> st | None \<Rightarrow> d)
               in if remainder = [] then (joined, ranges @ [(from (length joined), length joined)])
                  else (joined @ '' '' @ remainder,
                        ranges @ [(from (Suc (length joined)), Suc (length joined) + length remainder)]))))"

definition overlap_aware_claim_text :: "text_ext \<Rightarrow> DetectionTurn list \<Rightarrow> string \<times> (nat \<times> nat) list" where
  "overlap_aware_claim_text X turns = fold (join_turn X) turns ([], [])"

definition quote_is_backed_by_every_turn :: "text_ext \<Rightarrow> string \<Rightarrow> DetectionTurn list \<Rightarrow> bool" where
  "quote_is_backed_by_every_turn X quote turns =
     (case overlap_aware_claim_text X turns of
        (joined, ranges) \<Rightarrow>
          list_ex (\<lambda>start. list_all (\<lambda>(turn_start, turn_end).
              start < turn_end \<and> turn_start < start + length quote) ranges) (match_indices quote joined))"

subsection \<open>Validating candidates\<close>

definition valid_detection_score :: "f64 \<Rightarrow> bool" where
  "valid_detection_score score = (0 \<le> score \<and> score \<le> 1)"

definition candidate_text_ok :: "text_ext \<Rightarrow> DetectionCandidate \<Rightarrow> bool" where
  "candidate_text_ok X c =
     (validate_nonempty_bounded (dc_exact_quote c) 4000 ''detected exact quote is empty or too long'' = None \<and>
      validate_nonempty_bounded (dc_normalized_claim c) 2000 ''detected normalized claim is empty or too long'' = None \<and>
      validate_nonempty_bounded (dc_selection_rationale c) 500 ''claim selection rationale is empty or too long'' = None \<and>
      trim (dc_exact_quote c) = dc_exact_quote c \<and> trim (dc_normalized_claim c) = dc_normalized_claim c \<and>
      trim (dc_selection_rationale c) = dc_selection_rationale c \<and> dc_checkworthy c \<and>
      \<not> obvious_question (dc_exact_quote c) \<and> \<not> obvious_non_claim X (dc_exact_quote c) \<and>
      \<not> obvious_question (dc_normalized_claim c) \<and> \<not> obvious_non_claim X (dc_normalized_claim c) \<and>
      valid_detection_score (dc_consequence_score c) \<and> valid_detection_score (dc_dispute_likelihood_score c) \<and>
      valid_detection_score (dc_specificity_score c) \<and> 1 / 2 \<le> dc_specificity_score c \<and>
      (9 / 20 \<le> dc_consequence_score c \<or> 11 / 20 \<le> dc_dispute_likelihood_score c))"

definition turn_position :: "DetectionTurn list \<Rightarrow> string \<Rightarrow> nat option" where
  "turn_position turns i = map_of (rev (zip (map dt_id turns) [0..<length turns])) i"

definition cited_turns_ok :: "text_ext \<Rightarrow> DetectionCandidate \<Rightarrow> DetectionTurn list \<Rightarrow> bool" where
  "cited_turns_ok X c cited =
     (length (remdups (filter_map dt_speaker_id cited)) \<le> 1 \<and>
      length (remdups (filter_map dt_source_kind cited)) \<le> 1 \<and>
      successively (\<lambda>a b. dt_start_ms b - dt_end_ms a \<le> 2500) cited \<and>
      quote_is_backed_by_every_turn X (dc_exact_quote c) cited)"

definition candidate_grounded :: "text_ext \<Rightarrow> DetectionRequest \<Rightarrow> DetectionCandidate \<Rightarrow> bool" where
  "candidate_grounded X request c =
     (let turns = dq_turns request; ids = dc_segment_ids c; found = map (turn_position turns) ids; positions = map the found
      in ids \<noteq> [] \<and> length ids \<le> 4 \<and> distinct ids \<and> list_all (\<lambda>p. p \<noteq> None) found \<and>
         successively (\<lambda>a b. b = Suc a) positions \<and> list_ex (\<lambda>i. i \<in> set (dq_required_turn_ids request)) ids \<and>
         cited_turns_ok X c (map (nth turns) positions))"

text \<open>The claims and quotes seen so far are passed along.\<close>

fun candidates_ok ::
  "text_ext \<Rightarrow> DetectionRequest \<Rightarrow> string set \<Rightarrow> string set \<Rightarrow> DetectionCandidate list \<Rightarrow> bool" where
  "candidates_ok X request claims quotes [] = True"
| "candidates_ok X request claims quotes (c # cs) =
     (let claim = normalized_detection_text X (dc_normalized_claim c);
          quote = normalized_detection_text X (dc_exact_quote c)
      in candidate_text_ok X c \<and>
         claim \<notin> set (map (normalized_detection_text X) (dq_existing_claim_keys request)) \<and>
         claim \<notin> claims \<and> quote \<notin> quotes \<and> candidate_grounded X request c \<and>
         candidates_ok X request (insert claim claims) (insert quote quotes) cs)"

definition validate_claim_detection_candidates ::
  "text_ext \<Rightarrow> DetectionRequest \<Rightarrow> DetectionCandidate list \<Rightarrow> bool" where
  "validate_claim_detection_candidates X request cs = (length cs \<le> 4 \<and> candidates_ok X request {} {} cs)"

subsection \<open>Detection\<close>

definition dec_candidate :: "DetectionCandidate decoder" where
  "dec_candidate v =
     (case struct_fields [''exactQuote'', ''normalizedClaim'', ''segmentIds'', ''checkworthy'', ''consequenceScore'',
                          ''disputeLikelihoodScore'', ''specificityScore'', ''timeSensitive'', ''selectionRationale''] v of
        None \<Rightarrow> None
      | Some fs \<Rightarrow>
          Option.bind (field dec_str fs 0) (\<lambda>quote.
          Option.bind (field dec_str fs 1) (\<lambda>claim.
          Option.bind (field (dec_list dec_str) fs 2) (\<lambda>ids.
          Option.bind (field dec_bool fs 3) (\<lambda>checkworthy.
          Option.bind (field dec_f64 fs 4) (\<lambda>consequence.
          Option.bind (field dec_f64 fs 5) (\<lambda>dispute.
          Option.bind (field dec_f64 fs 6) (\<lambda>specificity.
          Option.bind (field dec_bool fs 7) (\<lambda>sensitive.
          Option.bind (field dec_str fs 8) (\<lambda>rationale.
            Some \<lparr>dc_exact_quote = quote, dc_normalized_claim = claim, dc_segment_ids = ids,
                  dc_checkworthy = checkworthy, dc_consequence_score = consequence,
                  dc_dispute_likelihood_score = dispute, dc_specificity_score = specificity,
                  dc_time_sensitive = sensitive, dc_selection_rationale = rationale\<rparr>))))))))))"

definition dec_detection_draft :: "DetectionCandidate list decoder" where
  "dec_detection_draft v =
     (case struct_fields [''candidates''] v of None \<Rightarrow> None | Some fs \<Rightarrow> field (dec_list dec_candidate) fs 0)"

definition real_turn_id :: "DetectionRequest \<Rightarrow> string \<Rightarrow> string option" where
  "real_turn_id request alias =
     map_of (map (\<lambda>(i, turn). (claim_detection_turn_alias i, dt_id turn))
               (zip [0..<length (dq_turns request)] (dq_turns request))) alias"

definition with_real_ids :: "DetectionRequest \<Rightarrow> DetectionCandidate \<Rightarrow> DetectionCandidate option" where
  "with_real_ids request c =
     (let found = map (real_turn_id request) (dc_segment_ids c)
      in if list_all (\<lambda>r. r \<noteq> None) found then Some (c\<lparr>dc_segment_ids := map the found\<rparr>) else None)"

definition parse_claim_detection_draft ::
  "text_ext \<Rightarrow> DetectionRequest \<Rightarrow> Message \<Rightarrow> DetectionCandidate list option" where
  "parse_claim_detection_draft X request message =
     (case only_tool_call LIVE_CLAIM_DETECTION_TOOL_NAME message of
        None \<Rightarrow> None
      | Some args \<Rightarrow>
          (case dec_detection_draft (JObj args) of
             None \<Rightarrow> None
           | Some candidates \<Rightarrow>
               (let resolved = map (with_real_ids request) candidates
                in if list_all (\<lambda>r. r \<noteq> None) resolved \<and>
                      validate_claim_detection_candidates X request (map the resolved)
                   then Some (map the resolved) else None)))"

definition detect_live_claims ::
  "text_ext \<Rightarrow> (bool \<Rightarrow> Completion) \<Rightarrow> DetectionRequest \<Rightarrow> FactCheckError + DetectionResult" where
  "detect_live_claims X completion request =
     (case validate_claim_detection_request request of
        Some e \<Rightarrow> Inl e
      | None \<Rightarrow>
          attempts_loop completion
            (\<lambda>message. map_option (\<lambda>cs. \<lparr>dx_candidates = cs, dx_provider = LIVE_FACT_CHECK_PROVIDER,
                                         dx_model = LIVE_FACT_CHECK_MODEL\<rparr>)
               (parse_claim_detection_draft X request message))
            [False, True])"

subsection \<open>The worker\<close>

datatype WorkerOperation = Support | Synthesize ModelRequest | DetectClaims DetectionRequest

record WorkerRequest =
  wr_protocol_version :: nat
  wr_request_id :: string
  wr_operation :: WorkerOperation

record ModelSupport =
  ms_available :: bool
  ms_provider :: string
  ms_model :: string
  ms_reason :: "string option"

record WorkerResponse =
  wp_protocol_version :: nat
  wp_request_id :: string
  wp_ok :: bool
  wp_operational_state :: "OperationalState option"
  wp_support :: "ModelSupport option"
  wp_result :: "ModelResult option"
  wp_claim_detection :: "DetectionResult option"
  wp_error :: "WorkerError option"

definition response_success :: "string \<Rightarrow> ModelResult \<Rightarrow> WorkerResponse" where
  "response_success i r =
     \<lparr>wp_protocol_version = 1, wp_request_id = i, wp_ok = True, wp_operational_state = Some AssessmentAvailable,
      wp_support = None, wp_result = Some r, wp_claim_detection = None, wp_error = None\<rparr>"

definition response_support :: "string \<Rightarrow> ModelSupport \<Rightarrow> WorkerResponse" where
  "response_support i s =
     \<lparr>wp_protocol_version = 1, wp_request_id = i, wp_ok = True, wp_operational_state = None,
      wp_support = Some s, wp_result = None, wp_claim_detection = None, wp_error = None\<rparr>"

definition response_claim_detection :: "string \<Rightarrow> DetectionResult \<Rightarrow> WorkerResponse" where
  "response_claim_detection i r =
     \<lparr>wp_protocol_version = 1, wp_request_id = i, wp_ok = True, wp_operational_state = None,
      wp_support = None, wp_result = None, wp_claim_detection = Some r, wp_error = None\<rparr>"

definition response_failure :: "string \<Rightarrow> WorkerError \<Rightarrow> WorkerResponse" where
  "response_failure i e =
     \<lparr>wp_protocol_version = 1, wp_request_id = i, wp_ok = False,
      wp_operational_state = Some (operational_state_for_error_code (we_code e)),
      wp_support = None, wp_result = None, wp_claim_detection = None, wp_error = Some e\<rparr>"

definition validate_worker_request :: "WorkerRequest \<Rightarrow> FactCheckError option" where
  "validate_worker_request request =
     (if wr_protocol_version request \<noteq> 1 then Some (InvalidRequest ''worker protocol version is unsupported'')
      else if \<not> valid_worker_request_id (wr_request_id request) then Some (InvalidRequest ''worker request ID is invalid'')
      else (case wr_operation request of
              Support \<Rightarrow> None
            | Synthesize r \<Rightarrow> validate_request r
            | DetectClaims r \<Rightarrow> validate_claim_detection_request r))"

text \<open>What the worker uses from outside: the text tables, the parser of its input, the cached session of the provider
  (\<open>None\<close> if there is none) with what it answers to an attempt, and the time of completion.\<close>

record worker_env =
  wv_text :: text_ext
  wv_parse :: "string \<Rightarrow> WorkerRequest option"
  wv_session :: "(WorkerOperation \<Rightarrow> bool \<Rightarrow> Completion) option"
  wv_session_valid :: bool
  wv_completed_at :: string

definition chatgpt_subscription_support :: "worker_env \<Rightarrow> ModelSupport" where
  "chatgpt_subscription_support W =
     \<lparr>ms_available = wv_session_valid W, ms_provider = LIVE_FACT_CHECK_PROVIDER, ms_model = LIVE_FACT_CHECK_MODEL,
      ms_reason = (if wv_session_valid W then None
                   else Some ''Sign in to ChatGPT in Obelus before using live fact-checking.'')\<rparr>"

definition run_operation :: "worker_env \<Rightarrow> string \<Rightarrow> WorkerOperation \<Rightarrow> WorkerResponse" where
  "run_operation W i op =
     (case op of
        Support \<Rightarrow> response_support i (chatgpt_subscription_support W)
      | Synthesize r \<Rightarrow>
          (case (case wv_session W of
                   None \<Rightarrow> Inl ProviderInitialization
                 | Some ask \<Rightarrow> synthesize_live_fact_check (wv_completed_at W) (ask op) r) of
             Inr result \<Rightarrow> response_success i result
           | Inl e \<Rightarrow> response_failure i (worker_error e))
      | DetectClaims r \<Rightarrow>
          (case (case wv_session W of
                   None \<Rightarrow> Inl ProviderInitialization
                 | Some ask \<Rightarrow> detect_live_claims (wv_text W) (ask op) r) of
             Inr result \<Rightarrow> response_claim_detection i result
           | Inl e \<Rightarrow> response_failure i (worker_error e)))"

definition MAX_LIVE_FACT_CHECK_WORKER_INPUT_BYTES :: nat where
  "MAX_LIVE_FACT_CHECK_WORKER_INPUT_BYTES = 128 * 1024"

definition run_worker :: "worker_env \<Rightarrow> string \<Rightarrow> WorkerResponse" where
  "run_worker W input =
     (if MAX_LIVE_FACT_CHECK_WORKER_INPUT_BYTES < length input
      then response_failure [] (worker_error (InvalidRequest ''worker input is too large''))
      else (case wv_parse W input of
              None \<Rightarrow> response_failure [] (worker_error (InvalidRequest ''worker input is not valid JSON''))
            | Some request \<Rightarrow>
                (let i = (if valid_worker_request_id (wr_request_id request) then wr_request_id request else [])
                 in case validate_worker_request request of
                      Some e \<Rightarrow> response_failure i (worker_error e)
                    | None \<Rightarrow> run_operation W i (wr_operation request))))"

end
