(* ===== verification/Fact_Check_Properties.thy ===== *)
theory Fact_Check_Properties
  imports Claim_Detection
begin

text \<open>
  What a fact check promises: every citation of an assessment is a piece of the evidence that was submitted and
  was assessed with the stance its section needs, the finding is a function of which sections are filled,
  high confidence rests on a direct authoritative page extract, and choosing between a preliminary
  and a deep assessment never weakens the result. Detected claims are quoted from contiguous turns.
\<close>

subsection \<open>Validation\<close>

lemma first_error_None: "first_error es = None \<longleftrightarrow> (\<forall>e \<in> set es. e = None)"
  by (induction es rule: first_error.induct) auto

lemma evidence_errors_distinct:
  "(\<forall>e \<in> set (evidence_errors seen evs). e = None) \<Longrightarrow>
   distinct (map ev_citation_id evs) \<and> set (map ev_citation_id evs) \<inter> seen = {}"
  by (induction evs arbitrary: seen) (auto simp: evidence_item_errors_def split: if_splits)

lemma valid_request_distinct:
  "validate_request request = None \<Longrightarrow> distinct (map ev_citation_id (rq_evidence request))"
  using evidence_errors_distinct [of "{}" "rq_evidence request"] by (auto simp: validate_request_def first_error_None)

lemma find_rev_distinct:
  assumes "distinct (map f xs)" "x \<in> set xs"
  shows "find (\<lambda>y. f y = f x) (rev xs) = Some x"
proof -
  have "find (\<lambda>y. f y = f x) (rev xs) \<noteq> None" using assms(2) by (auto simp: find_None_iff)
  then obtain y where y: "find (\<lambda>y. f y = f x) (rev xs) = Some y" by blast
  then have "y \<in> set xs" "f y = f x" by (auto simp: find_Some_iff) (metis nth_mem length_rev set_rev)
  with assms y show ?thesis by (auto simp: distinct_map dest: inj_onD)
qed

lemma find_rev_SomeD: "find p (rev xs) = Some x \<Longrightarrow> x \<in> set xs \<and> p x"
  by (metis find_Some_iff length_rev nth_mem set_rev)

lemma attempts_loop_Inr:
  "attempts_loop completion parse rs = Inr r \<Longrightarrow>
   \<exists>repair message. repair \<in> set rs \<and> completion repair = Completed message \<and> parse message = Some r"
  by (induction rs) (auto split: Completion.splits option.splits)

lemma synthesize_Inr:
  assumes "synthesize_live_fact_check now completion request = Inr result"
  obtains draft message where
    "validate_request request = None"
    "parse_draft message (map ev_citation_id (rq_evidence request)) (rq_stage request) = Some draft"
    "mr_canonical_assessment result =
       resolve_canonical_assessment now draft request (claim_output_constraint request)"
    "result = legacy_compatible_result
       (resolve_canonical_assessment now draft request (claim_output_constraint request)) (rq_stage request)"
proof -
  from assms have v: "validate_request request = None"
    and loop: "attempts_loop completion
                (\<lambda>message. map_option (\<lambda>draft.
                    legacy_compatible_result (resolve_canonical_assessment now draft request (claim_output_constraint request))
                      (rq_stage request))
                  (parse_draft message (map ev_citation_id (rq_evidence request)) (rq_stage request)))
                [False, True] = Inr result"
    by (auto simp: synthesize_live_fact_check_def Let_def split: option.splits)
  from attempts_loop_Inr [OF loop] obtain message draft where
      "parse_draft message (map ev_citation_id (rq_evidence request)) (rq_stage request) = Some draft"
      "result = legacy_compatible_result
         (resolve_canonical_assessment now draft request (claim_output_constraint request)) (rq_stage request)"
    by auto
  with v show thesis by (intro that) (auto simp: legacy_compatible_result_def)
qed

subsection \<open>Citations\<close>

definition all_statements :: "CanonicalAssessment \<Rightarrow> CitedStatement list" where
  "all_statements a =
     ca_statements a @ ca_supports a @ ca_contradictions a @ ca_caveats a @ ca_limitations a @
     (case ca_change_explanation a of Some e \<Rightarrow> [e] | None \<Rightarrow> [])"

text \<open>\<open>assessed_as a i P\<close>: among the sources of the assessment there is one for \<open>i\<close>, it addresses the claim, and its
  stance satisfies \<open>P\<close>.\<close>

definition assessed_as :: "CanonicalAssessment \<Rightarrow> string \<Rightarrow> (EvidenceStance \<Rightarrow> bool) \<Rightarrow> bool" where
  "assessed_as a i P = list_ex (\<lambda>s. sa_citation_id s = i \<and> sa_addresses_claim s \<and> P (sa_stance s)) (ca_sources a)"

lemma parse_draft_SomeD:
  "parse_draft message allowed stage = Some d \<Longrightarrow>
   conclusion_ok allowed d \<and> sections_ok allowed d \<and> sources_ok allowed d \<and> citations_ok allowed d \<and>
   (stage = QuickStage \<longrightarrow> dr_change_explanation d = None)"
  by (auto simp: parse_draft_def split: option.splits if_splits)

lemma cited_statement_okD: "cited_statement_ok allowed st \<Longrightarrow> cs_citation_ids st \<noteq> [] \<and> set (cs_citation_ids st) \<subseteq> set allowed"
  by (auto simp: cited_statement_ok_def list_all_iff)

lemma validate_cited_statementsD:
  "validate_cited_statements allowed sts \<noteq> None \<Longrightarrow> st \<in> set sts \<Longrightarrow> cited_statement_ok allowed st"
  by (auto simp: validate_cited_statements_def list_all_iff split: if_splits)

lemma sections_ok_statement:
  "sections_ok allowed d \<Longrightarrow> sts \<in> set (draft_sections d) \<Longrightarrow> st \<in> set sts \<Longrightarrow> cited_statement_ok allowed st"
  by (rule validate_cited_statementsD [of allowed sts]) (auto simp: sections_ok_def Let_def list_all_iff)

lemma normalized_source_frame [simp]:
  "sa_citation_id (normalize_source_authority evs s) = sa_citation_id s"
  "sa_stance (normalize_source_authority evs s) = sa_stance s"
  "sa_addresses_claim (normalize_source_authority evs s) = sa_addresses_claim s"
  "sa_quality_score (normalize_source_authority evs s) = sa_quality_score s"
  "sa_directness (normalize_source_authority evs s) = sa_directness s"
  "sa_time_scope_match (normalize_source_authority evs s) = sa_time_scope_match s"
  by (simp_all add: normalize_source_authority_def)

lemma resolved_fields [simp]:
  "ca_supports (resolve_canonical_assessment now d rq con) = dr_supports d"
  "ca_contradictions (resolve_canonical_assessment now d rq con) = dr_contradictions d"
  "ca_caveats (resolve_canonical_assessment now d rq con) = dr_caveats d"
  "ca_statements (resolve_canonical_assessment now d rq con) = dr_statements d"
  "ca_limitations (resolve_canonical_assessment now d rq con) = dr_limitations d"
  "ca_change_explanation (resolve_canonical_assessment now d rq con) = dr_change_explanation d"
  "ca_conclusion_citation_ids (resolve_canonical_assessment now d rq con) = dr_conclusion_citation_ids d"
  "ca_sources (resolve_canonical_assessment now d rq con) =
     map (normalize_source_authority (rq_evidence rq)) (dr_sources d)"
  "ca_inventory (resolve_canonical_assessment now d rq con) =
     map (inventory_item now (assessment_stage (rq_stage rq))) (rq_evidence rq)"
  by (simp_all add: resolve_canonical_assessment_def Let_def)

lemma section_assessed:
  assumes "sources_ok allowed d" "st \<in> set sts" "i \<in> set (cs_citation_ids st)"
    and stances: "list_all (\<lambda>st. list_all (\<lambda>i. case source_by_id (dr_sources d) i of
         None \<Rightarrow> False | Some s \<Rightarrow> P (sa_stance s)) (cs_citation_ids st)) sts"
    and "\<not> P Neutral"
  shows "assessed_as (resolve_canonical_assessment now d rq con) i P"
proof -
  from assms(2,3) stances obtain s where s: "source_by_id (dr_sources d) i = Some s" "P (sa_stance s)"
    by (fastforce simp: list_all_iff split: option.splits)
  then have mem: "s \<in> set (dr_sources d)" "sa_citation_id s = i"
    using find_rev_SomeD by (fastforce simp: source_by_id_def)+
  with assms(1,5) s(2) have "sa_addresses_claim s"
    by (auto simp: sources_ok_def list_all_iff source_ok_def)
  with mem s(2) show ?thesis by (force simp: assessed_as_def list_ex_iff)
qed

text \<open>C28: an assessment cites only evidence that was submitted, and every citation of the supporting, contradicting or
  qualifying section is of a source that was assessed to address the claim with just that
  stance.\<close>

theorem assessment_grounded:
  assumes "synthesize_live_fact_check now completion request = Inr result"
  shows "set (ca_conclusion_citation_ids (mr_canonical_assessment result)) \<union>
           cited_ids (all_statements (mr_canonical_assessment result)) \<union>
           sa_citation_id ` set (ca_sources (mr_canonical_assessment result))
         \<subseteq> ev_citation_id ` set (rq_evidence request) \<and>
     list_all (\<lambda>st. list_all (\<lambda>i. assessed_as (mr_canonical_assessment result) i (\<lambda>s. s = Supports)) (cs_citation_ids st))
       (ca_supports (mr_canonical_assessment result)) \<and>
     list_all (\<lambda>st. list_all (\<lambda>i. assessed_as (mr_canonical_assessment result) i (\<lambda>s. s = Contradicts)) (cs_citation_ids st))
       (ca_contradictions (mr_canonical_assessment result)) \<and>
     list_all (\<lambda>st. list_all (\<lambda>i. assessed_as (mr_canonical_assessment result) i (\<lambda>s. s = Qualifies \<or> s = Conflicts))
       (cs_citation_ids st)) (ca_caveats (mr_canonical_assessment result))"
proof -
  let ?allowed = "map ev_citation_id (rq_evidence request)"
  obtain d message where d: "parse_draft message ?allowed (rq_stage request) = Some d"
      "mr_canonical_assessment result = resolve_canonical_assessment now d request (claim_output_constraint request)"
    using synthesize_Inr [OF assms] by blast
  note ok = parse_draft_SomeD [OF d(1)]
  then have sec: "cited_statement_ok ?allowed st" if "st \<in> set (all_statements (mr_canonical_assessment result))" for st
    using that sections_ok_statement [of ?allowed d _ st] validate_cited_statementsD [of ?allowed "[st]" st]
    by (auto simp: all_statements_def d(2) draft_sections_def citations_ok_def Let_def split: option.splits)
  have stances: "list_all (\<lambda>st. list_all (\<lambda>i. assessed_as (mr_canonical_assessment result) i P) (cs_citation_ids st)) sts"
    if "list_all (\<lambda>st. list_all (\<lambda>i. case source_by_id (dr_sources d) i of
         None \<Rightarrow> False | Some s \<Rightarrow> P (sa_stance s)) (cs_citation_ids st)) sts" "\<not> P Neutral" for P sts
    using section_assessed [OF _ _ _ that(1) that(2)] ok by (auto simp: list_all_iff d(2))
  have "cited_ids (all_statements (mr_canonical_assessment result)) \<subseteq> set ?allowed"
    using cited_statement_okD [OF sec] by (fastforce simp: cited_ids_def)
  moreover have "set (ca_conclusion_citation_ids (mr_canonical_assessment result)) \<subseteq> set ?allowed"
    using ok by (auto simp: d(2) conclusion_ok_def list_all_iff)
  moreover have "sa_citation_id ` set (ca_sources (mr_canonical_assessment result)) \<subseteq> set ?allowed"
    using ok by (auto simp: d(2) sources_ok_def source_ok_def list_all_iff)
  ultimately show ?thesis
    using ok stances [of "\<lambda>s. s = Supports" "dr_supports d"] stances [of "\<lambda>s. s = Contradicts" "dr_contradictions d"]
      stances [of "\<lambda>s. s = Qualifies \<or> s = Conflicts" "dr_caveats d"]
    by (simp add: d(2) citations_ok_def Let_def validate_statement_sources_def validate_caveat_sources_def cong: option.case_cong)
qed

subsection \<open>Findings\<close>

lemma no_caveat_no_conflict:
  "dr_caveats d = [] \<Longrightarrow>
   \<not> list_ex (\<lambda>s. sa_stance s = Conflicts \<and> sa_citation_id s \<in> cited_ids (dr_caveats d)) sources"
  by (simp add: cited_ids_def list_ex_iff)

text \<open>C29: the finding is determined by which sections are filled: supported only by support alone, disputed only by
  contradiction alone, unverified only when no section answers the claim, and everything else needs
  context. A comparison of the sizes of organisations without metric and date is never resolved.\<close>

theorem finding_follows_sections:
  "ca_finding (resolve_canonical_assessment now d request con) =
     (if dr_supports d = [] \<and> dr_contradictions d = [] \<and> dr_caveats d = [] then Unverified
      else if con = GeneralClaim \<and> dr_contradictions d = [] \<and> dr_caveats d = [] then Supported
      else if con = GeneralClaim \<and> dr_supports d = [] \<and> dr_caveats d = [] then Disputed
      else NeedsContext) \<and>
   (ca_resolution (resolve_canonical_assessment now d request con) = Resolved \<longleftrightarrow>
      ca_finding (resolve_canonical_assessment now d request con) \<in> {Supported, Disputed})"
  by (cases con; cases "dr_supports d = []"; cases "dr_contradictions d = []"; cases "dr_caveats d = []")
    (auto simp: resolve_canonical_assessment_def Let_def draft_evidence_relation_def cited_ids_def list_ex_iff)

text \<open>C30: high confidence is granted only when a citation of a deciding section is of a source that addresses the
  claim, was retrieved as a page extract, is direct, matches the time scope, has a quality of at least
  0.8 and is authoritative by its type or by its publisher or address.\<close>

theorem high_confidence_justified:
  assumes "synthesize_live_fact_check now completion request = Inr result" "mr_confidence result = HighConfidence"
  shows "\<exists>s e. s \<in> set (ca_sources (mr_canonical_assessment result)) \<and> e \<in> set (rq_evidence request) \<and>
     sa_citation_id s = ev_citation_id e \<and>
     sa_citation_id s \<in> cited_ids (ca_supports (mr_canonical_assessment result) @
       ca_contradictions (mr_canonical_assessment result) @ ca_caveats (mr_canonical_assessment result)) \<and>
     sa_addresses_claim s \<and> sa_directness s = Direct \<and> sa_time_scope_match s \<and> 4 / 5 \<le> sa_quality_score s \<and>
     ev_retrieval_kind e = PageExtract \<and> authoritative_source_signal e"
proof -
  obtain d message where d: "validate_request request = None"
      "mr_canonical_assessment result = resolve_canonical_assessment now d request (claim_output_constraint request)"
      "result = legacy_compatible_result
         (resolve_canonical_assessment now d request (claim_output_constraint request)) (rq_stage request)"
    using synthesize_Inr [OF assms(1)] by blast
  let ?norm = "normalize_source_authority (rq_evidence request)"
  from assms(2) have "ca_confidence (mr_canonical_assessment result) = HighConfidence"
    by (simp add: d(3) legacy_compatible_result_def)
  then obtain s where s: "s \<in> set (dr_sources d)" "sa_addresses_claim s"
      "sa_citation_id s \<in> cited_ids (dr_supports d @ dr_contradictions d @ dr_caveats d)"
      "direct_authoritative_extract (rq_evidence request) (?norm s)"
    by (auto simp: d(2) resolve_canonical_assessment_def canonical_confidence_def Let_def list_ex_iff
        decisive_citation_ids_def split: if_splits)
  then obtain e where e: "evidence_by_id (rq_evidence request) (sa_citation_id s) = Some e"
    by (auto simp: direct_authoritative_extract_def split: option.splits)
  with find_rev_SomeD have mem: "e \<in> set (rq_evidence request)" "ev_citation_id e = sa_citation_id s"
    by (fastforce simp: evidence_by_id_def)+
  from s(4) e have "authoritative_source_signal e"
    by (auto simp: direct_authoritative_extract_def normalize_source_authority_def split: if_splits)
  moreover from s(4) e have "ev_retrieval_kind e = PageExtract" "sa_directness s = Direct" "sa_time_scope_match s"
      "4 / 5 \<le> sa_quality_score s"
    by (auto simp: direct_authoritative_extract_def)
  ultimately show ?thesis
    using s mem by (intro exI [of _ "?norm s"] exI [of _ e]) (auto simp: d(2))
qed

subsection \<open>Selection\<close>

definition cites_new_page :: "CanonicalAssessment \<Rightarrow> CanonicalAssessment \<Rightarrow> bool" where
  "cites_new_page preliminary deep =
     (\<exists>explanation i e url. ca_change_explanation deep = Some explanation \<and> i \<in> set (cs_citation_ids explanation) \<and>
        i \<in> cited_ids (ca_supports deep @ ca_contradictions deep @ ca_caveats deep) \<and>
        e \<in> set (ca_inventory deep) \<and> ev_citation_id e = i \<and> ev_canonical_url e = Some url \<and>
        url \<notin> set (filter_map ev_canonical_url (ca_inventory preliminary)))"

lemma new_decisive_evidence_cites:
  assumes "has_cited_new_decisive_evidence preliminary deep"
  shows "cites_new_page preliminary deep"
proof -
  from assms obtain explanation i url where i: "ca_change_explanation deep = Some explanation"
      "i \<in> set (cs_citation_ids explanation)" "Option.bind (evidence_by_id (ca_inventory deep) i) ev_canonical_url = Some url"
      "i \<in> cited_ids (ca_supports deep @ ca_contradictions deep @ ca_caveats deep)"
      "url \<notin> set (filter_map ev_canonical_url (ca_inventory preliminary))"
    by (auto simp: has_cited_new_decisive_evidence_def Let_def list_ex_iff split: option.splits)
  then obtain e where "evidence_by_id (ca_inventory deep) i = Some e" "ev_canonical_url e = Some url"
    by (auto simp: bind_eq_Some_conv)
  with i find_rev_SomeD show ?thesis by (fastforce simp: evidence_by_id_def cites_new_page_def)
qed

text \<open>C31: choosing between a preliminary and a deep assessment never gives up strength, and the finding changes only
  if the deep one resolves what was unresolved with more strength, or explains the change with a
  deciding citation of a page the preliminary one had not seen.\<close>

theorem selection_never_weakens:
  "assessment_strength preliminary \<le> assessment_strength (sl_assessment (select_canonical_assessment preliminary deep)) \<and>
   sl_assessment (select_canonical_assessment preliminary deep) =
     (if sl_retained_preliminary (select_canonical_assessment preliminary deep) then preliminary else deep) \<and>
   (ca_finding (sl_assessment (select_canonical_assessment preliminary deep)) = ca_finding preliminary \<or>
      (ca_resolution preliminary = Unresolved \<and> ca_resolution deep = Resolved \<and>
         assessment_strength preliminary < assessment_strength deep) \<or>
      cites_new_page preliminary deep)"
  by (auto simp: select_canonical_assessment_def Let_def dest: new_decisive_evidence_cites)

text \<open>The test for an authoritative source looks for parts of words: a publisher whose name merely contains
  \<open>nasa\<close> passes it.\<close>

theorem substring_counts_as_authority:
  "authoritative_source_signal
     \<lparr>ev_citation_id = ''s1'', ev_publisher = ''Nasal Spray Reviews'', ev_title = ''t'', ev_publication_date = None,
      ev_excerpt = ''x'', ev_retrieval_kind = PageExtract, ev_url = None, ev_canonical_url = None, ev_accessed_at = None,
      ev_source_type = None, ev_retrieval_stage = None\<rparr>"
  by code_simp

text \<open>Matches are searched without overlap, so a citation mark that begins inside a match that is none is missed.\<close>

theorem overlapping_mark_missed:
  "\<not> contains_inline_citation ''xa-a-a'' [''a-a'']" "contains_inline_citation ''a-a'' [''a-a'']"
  by code_simp+

subsection \<open>The worker\<close>

lemma failure_is_no_assessment [simp]: "operational_state_for_error_code code \<noteq> AssessmentAvailable"
  by (simp add: operational_state_for_error_code_def del: insert_iff)

lemma response_simps [simp]:
  "wp_request_id (response_failure i e) = i" "wp_request_id (response_success i r) = i"
  "wp_request_id (response_support i s) = i" "wp_request_id (response_claim_detection i d) = i"
  by (simp_all add: response_success_def response_failure_def response_support_def response_claim_detection_def)

definition response_ok :: "WorkerResponse \<Rightarrow> bool" where
  "response_ok r \<longleftrightarrow> wp_protocol_version r = 1 \<and> (wp_ok r \<longleftrightarrow> wp_error r = None) \<and>
     (wp_operational_state r = Some AssessmentAvailable \<longleftrightarrow> wp_result r \<noteq> None) \<and>
     length (filter id [wp_error r \<noteq> None, wp_result r \<noteq> None, wp_claim_detection r \<noteq> None, wp_support r \<noteq> None]) = 1"

lemma responses_ok [simp]:
  "response_ok (response_failure i e)" "response_ok (response_success i r)"
  "response_ok (response_support i s)" "response_ok (response_claim_detection i d)"
  by (simp_all add: response_ok_def response_success_def response_failure_def response_support_def response_claim_detection_def)

lemma run_operation_ok [simp]: "response_ok (run_operation W i op)" "wp_request_id (run_operation W i op) = i"
  by (simp_all add: run_operation_def split: WorkerOperation.splits sum.splits option.splits)

text \<open>What a request has to be like to be admitted, told without the order of the checks.\<close>

definition proper_id :: "nat \<Rightarrow> string \<Rightarrow> bool" where
  "proper_id n s \<longleftrightarrow> 0 < length s \<and> length s \<le> n \<and> (\<forall>c \<in> set s. ascii_alphanumeric c \<or> c \<in> {CHR ''-'', CHR ''_''})"

definition proper_text :: "nat \<Rightarrow> string \<Rightarrow> bool" where
  "proper_text n s \<longleftrightarrow> trim s \<noteq> [] \<and> length s \<le> n"

definition proper_evidence :: "Evidence \<Rightarrow> bool" where
  "proper_evidence e \<longleftrightarrow> proper_id 32 (ev_citation_id e) \<and> proper_text 200 (ev_publisher e) \<and> proper_text 500 (ev_title e) \<and>
     (\<forall>d. ev_publication_date e = Some d \<longrightarrow> 0 < length d \<and> length d \<le> 64) \<and> proper_text 4000 (ev_excerpt e)"

definition proper_synthesis :: "ModelRequest \<Rightarrow> bool" where
  "proper_synthesis r \<longleftrightarrow> proper_text 2000 (rq_normalized_claim r) \<and> proper_text 4000 (rq_exact_quote r) \<and>
     length (rq_evidence r) \<in> {1..12} \<and> distinct (map ev_citation_id (rq_evidence r)) \<and>
     (\<forall>e \<in> set (rq_evidence r). proper_evidence e) \<and>
     (\<Sum>e \<leftarrow> rq_evidence r. length (ev_publisher e) + length (ev_title e) + length (ev_excerpt e)) \<le> 32000"

definition proper_turn :: "DetectionTurn \<Rightarrow> bool" where
  "proper_turn t \<longleftrightarrow> proper_id 80 (dt_id t) \<and> (\<forall>i. dt_speaker_id t = Some i \<longrightarrow> proper_id 80 i) \<and>
     dt_start_ms t \<le> dt_end_ms t \<and> proper_text 2000 (dt_text t)"

definition proper_detection :: "DetectionRequest \<Rightarrow> bool" where
  "proper_detection r \<longleftrightarrow> length (dq_turns r) \<in> {1..12} \<and> distinct (map dt_id (dq_turns r)) \<and>
     (\<forall>t \<in> set (dq_turns r). proper_turn t) \<and> (\<Sum>t \<leftarrow> dq_turns r. length (dt_text t)) \<le> 12000 \<and>
     dq_required_turn_ids r \<noteq> [] \<and> distinct (dq_required_turn_ids r) \<and>
     set (dq_required_turn_ids r) \<subseteq> set (map dt_id (dq_turns r)) \<and>
     length (dq_existing_claim_keys r) \<le> 50 \<and> distinct (dq_existing_claim_keys r) \<and>
     (\<forall>k \<in> set (dq_existing_claim_keys r). proper_text 256 k)"

definition proper_request :: "WorkerRequest \<Rightarrow> bool" where
  "proper_request q \<longleftrightarrow> wr_protocol_version q = 1 \<and> proper_id 80 (wr_request_id q) \<and>
     (case wr_operation q of Support \<Rightarrow> True | Synthesize r \<Rightarrow> proper_synthesis r | DetectClaims r \<Rightarrow> proper_detection r)"

lemma first_error_SomeD: "first_error es = Some e \<Longrightarrow> Some e \<in> set es"
  by (induction es rule: first_error.induct) auto

lemma bounded_None: "validate_nonempty_bounded s n m = None \<longleftrightarrow> proper_text n s"
  by (auto simp: validate_nonempty_bounded_def proper_text_def)

lemma ids_proper: "valid_citation_id s \<longleftrightarrow> proper_id 32 s" "valid_worker_request_id s \<longleftrightarrow> proper_id 80 s"
  by (auto simp: valid_citation_id_def valid_worker_request_id_def proper_id_def id_character_def list_all_iff)

lemma evidence_errors_None:
  "(\<forall>e \<in> set (evidence_errors seen items). e = None) \<longleftrightarrow>
   (\<forall>e \<in> set items. proper_evidence e) \<and> distinct (map ev_citation_id items) \<and> seen \<inter> ev_citation_id ` set items = {}"
proof (induction items arbitrary: seen)
  case (Cons item items)
  have "(\<forall>e \<in> set (evidence_item_errors seen item). e = None) \<longleftrightarrow> proper_evidence item \<and> ev_citation_id item \<notin> seen"
    by (auto simp: evidence_item_errors_def proper_evidence_def bounded_None ids_proper split: option.splits if_splits)
  with Cons.IH [of "insert (ev_citation_id item) seen"] show ?case by (auto simp: ball_Un)
qed simp

lemma validate_request_proper: "validate_request r = None \<longleftrightarrow> proper_synthesis r"
proof -
  have "rq_evidence r \<noteq> [] \<longleftrightarrow> 1 \<le> length (rq_evidence r)" by (cases "rq_evidence r") auto
  then show ?thesis
    by (auto simp: validate_request_def first_error_None ball_Un evidence_errors_None proper_synthesis_def bounded_None
        evidence_text_bytes_def split: if_splits)
qed

lemma turns_errors_None:
  "(\<forall>e \<in> set (turns_errors seen turns). e = None) \<longleftrightarrow>
   (\<forall>t \<in> set turns. proper_turn t) \<and> distinct (map dt_id turns) \<and> seen \<inter> dt_id ` set turns = {}"
proof (induction turns arbitrary: seen)
  case (Cons t turns)
  have "(\<forall>e \<in> set (turn_errors seen t). e = None) \<longleftrightarrow> proper_turn t \<and> dt_id t \<notin> seen"
    by (auto simp: turn_errors_def proper_turn_def bounded_None ids_proper split: option.splits if_splits)
  with Cons.IH [of "insert (dt_id t) seen"] show ?case by (auto simp: ball_Un)
qed simp

lemma key_errors_None:
  "(\<forall>e \<in> set (key_errors seen ks). e = None) \<longleftrightarrow> (\<forall>k \<in> set ks. proper_text 256 k) \<and> distinct ks \<and> seen \<inter> set ks = {}"
  by (induction ks arbitrary: seen) (auto simp: bounded_None)

lemma validate_detection_proper: "validate_claim_detection_request r = None \<longleftrightarrow> proper_detection r"
proof -
  have "dq_turns r \<noteq> [] \<longleftrightarrow> 1 \<le> length (dq_turns r)" by (cases "dq_turns r") auto
  moreover have "length (dq_required_turn_ids r) \<le> length (dq_turns r)"
    if "distinct (dq_required_turn_ids r)" "set (dq_required_turn_ids r) \<subseteq> dt_id ` set (dq_turns r)"
    using card_mono [OF _ that(2)] card_image_le [of "set (dq_turns r)" dt_id] card_length [of "dq_turns r"]
    by (simp add: distinct_card [OF that(1)])
  ultimately show ?thesis
    by (auto simp: validate_claim_detection_request_def Let_def first_error_None ball_Un turns_errors_None key_errors_None
        proper_detection_def list_all_iff comp_def subset_eq split: if_splits)
qed

lemma validate_worker_request_proper: "validate_worker_request q = None \<longleftrightarrow> proper_request q"
  by (auto simp: validate_worker_request_def proper_request_def ids_proper validate_request_proper validate_detection_proper
      split: WorkerOperation.splits)

text \<open>Whatever the checks object to is reported as an invalid request.\<close>

lemma bounded_invalid: "validate_nonempty_bounded s n m = Some e \<Longrightarrow> \<exists>m. e = InvalidRequest m"
  by (auto simp: validate_nonempty_bounded_def split: if_splits)

lemma errors_invalid:
  "Some e \<in> set (evidence_errors seen items) \<Longrightarrow> \<exists>m. e = InvalidRequest m"
  "Some e \<in> set (turns_errors seen turns) \<Longrightarrow> \<exists>m. e = InvalidRequest m"
  "Some e \<in> set (key_errors seen ks) \<Longrightarrow> \<exists>m. e = InvalidRequest m"
proof -
  show "Some e \<in> set (evidence_errors seen items) \<Longrightarrow> \<exists>m. e = InvalidRequest m"
    by (induction items arbitrary: seen)
      (auto simp: evidence_item_errors_def dest!: bounded_invalid [OF sym] split: option.splits if_splits)
  show "Some e \<in> set (turns_errors seen turns) \<Longrightarrow> \<exists>m. e = InvalidRequest m"
    by (induction turns arbitrary: seen)
      (auto simp: turn_errors_def dest!: bounded_invalid [OF sym] split: option.splits if_splits)
  show "Some e \<in> set (key_errors seen ks) \<Longrightarrow> \<exists>m. e = InvalidRequest m"
    by (induction ks arbitrary: seen) (auto dest!: bounded_invalid [OF sym] split: if_splits)
qed

lemma validate_worker_request_invalid:
  assumes "validate_worker_request q = Some e"
  shows "\<exists>m. e = InvalidRequest m"
proof -
  note dests = first_error_SomeD errors_invalid bounded_invalid [OF sym]
  have "\<exists>m. e = InvalidRequest m" if "validate_request r = Some e" for r
    using first_error_SomeD [OF that [unfolded validate_request_def]] by (auto dest: dests split: if_splits)
  moreover have "\<exists>m. e = InvalidRequest m" if "validate_claim_detection_request r = Some e" for r
    using first_error_SomeD [OF that [unfolded validate_claim_detection_request_def Let_def]]
    by (auto dest: dests split: if_splits)
  ultimately show ?thesis
    using assms by (auto simp: validate_worker_request_def split: if_splits WorkerOperation.splits)
qed

lemma run_operation_branch:
  "case op of
     Support \<Rightarrow> wp_support (run_operation W i op) = Some (chatgpt_subscription_support W)
   | Synthesize m \<Rightarrow>
       wp_support (run_operation W i op) = None \<and> wp_claim_detection (run_operation W i op) = None \<and>
       (\<forall>res. wp_result (run_operation W i op) = Some res \<longleftrightarrow>
         (\<exists>ask. wv_session W = Some ask \<and> synthesize_live_fact_check (wv_completed_at W) (ask op) m = Inr res))
   | DetectClaims d \<Rightarrow>
       wp_support (run_operation W i op) = None \<and> wp_result (run_operation W i op) = None \<and>
       (\<forall>res. wp_claim_detection (run_operation W i op) = Some res \<longleftrightarrow>
         (\<exists>ask. wv_session W = Some ask \<and> detect_live_claims (wv_text W) (ask op) d = Inr res))"
  by (auto simp: run_operation_def response_success_def response_failure_def response_support_def
      response_claim_detection_def split: WorkerOperation.splits sum.splits option.splits)

text \<open>C32: the worker answers an input exactly as it deserves. If the input is not too large and reads as a proper
  request - the protocol version, a proper id, and for each operation every limit on its texts, ids and counts - the
  response carries the id of that request and is on the branch of its operation: the support report, or the result
  of the operation on this request and the model's answers to it, present exactly when there is a session and the
  operation succeeds, and otherwise an error. Any other input is answered by the error for invalid requests, with
  the id of the request if it has a proper one and none otherwise, and without the model: the response is the same
  whatever session there is. In every case exactly one branch is filled, in keeping with the flags.\<close>

theorem worker_answers_requests:
  assumes "r = run_worker W input"
  shows "response_ok r \<and>
    (case (if length input \<le> 128 * 1024 then wv_parse W input else None) of
       Some q \<Rightarrow>
         wp_request_id r = (if proper_id 80 (wr_request_id q) then wr_request_id q else []) \<and>
         (proper_request q \<longrightarrow>
           (case wr_operation q of
              Support \<Rightarrow> wp_support r = Some (chatgpt_subscription_support W)
            | Synthesize m \<Rightarrow> wp_support r = None \<and> wp_claim_detection r = None \<and>
                (\<forall>res. wp_result r = Some res \<longleftrightarrow> (\<exists>ask. wv_session W = Some ask \<and>
                   synthesize_live_fact_check (wv_completed_at W) (ask (wr_operation q)) m = Inr res))
            | DetectClaims d \<Rightarrow> wp_support r = None \<and> wp_result r = None \<and>
                (\<forall>res. wp_claim_detection r = Some res \<longleftrightarrow> (\<exists>ask. wv_session W = Some ask \<and>
                   detect_live_claims (wv_text W) (ask (wr_operation q)) d = Inr res)))) \<and>
         (\<not> proper_request q \<longrightarrow> wp_error r = Some (worker_error (InvalidRequest [])) \<and>
           (\<forall>ses valid. run_worker (W\<lparr>wv_session := ses, wv_session_valid := valid\<rparr>) input = r))
     | None \<Rightarrow>
         wp_request_id r = [] \<and> wp_error r = Some (worker_error (InvalidRequest [])) \<and>
         (\<forall>ses valid. run_worker (W\<lparr>wv_session := ses, wv_session_valid := valid\<rparr>) input = r))"
proof (cases "if length input \<le> 128 * 1024 then wv_parse W input else None")
  case None
  then show ?thesis
    by (auto simp: assms run_worker_def MAX_LIVE_FACT_CHECK_WORKER_INPUT_BYTES_def split: if_splits)
      (auto simp: response_failure_def)
next
  case (Some q)
  then have len: "\<not> MAX_LIVE_FACT_CHECK_WORKER_INPUT_BYTES < length input" "wv_parse W input = Some q"
    by (auto simp: MAX_LIVE_FACT_CHECK_WORKER_INPUT_BYTES_def split: if_splits)
  show ?thesis
  proof (cases "validate_worker_request q")
    case None
    then have p: "proper_request q" by (simp add: validate_worker_request_proper)
    with len None have r: "r = run_operation W (wr_request_id q) (wr_operation q)"
      by (simp add: assms run_worker_def Let_def ids_proper proper_request_def)
    from p have i: "proper_id 80 (wr_request_id q)" by (simp add: proper_request_def)
    from run_operation_branch [where op = "wr_operation q" and W = W and i = "wr_request_id q"] show ?thesis
      unfolding Some option.case r using p i by (cases "wr_operation q") auto
  next
    case e: (Some e)
    with validate_worker_request_invalid obtain m where m: "e = InvalidRequest m" by blast
    have "\<not> proper_request q" using e validate_worker_request_proper [of q] by simp
    moreover have "run_worker (W\<lparr>wv_session := ses, wv_session_valid := valid\<rparr>) input = r" for ses valid
      using len e by (simp add: assms run_worker_def Let_def)
    moreover have "r = response_failure (if proper_id 80 (wr_request_id q) then wr_request_id q else []) (worker_error (InvalidRequest []))"
      using len e m by (simp add: assms run_worker_def Let_def ids_proper)
    ultimately show ?thesis using Some by (simp add: response_failure_def) (simp add: response_ok_def)
  qed
qed

subsection \<open>Detected claims\<close>

lemma turn_position_SomeD: "turn_position turns i = Some p \<Longrightarrow> p < length turns \<and> dt_id (turns ! p) = i"
  by (auto simp: turn_position_def set_zip dest!: map_of_SomeD)

lemma consecutive_positions:
  assumes "successively (\<lambda>a b. b = Suc a) ps" "ps \<noteq> []"
  shows "ps = [hd ps..<hd ps + length ps]"
proof (rule nth_equalityI)
  have "k < length ps \<Longrightarrow> ps ! k = hd ps + k" for k
    using assms by (induction k) (auto simp: hd_conv_nth successively_conv_nth)
  then show "ps ! k = [hd ps..<hd ps + length ps] ! k" if "k < length ps" for k using that by simp
qed simp

lemma nth_upt_take_drop: "i + n \<le> length xs \<Longrightarrow> map (nth xs) [i..<i + n] = take n (drop i xs)"
  by (rule nth_equalityI) auto

lemma grounded_run:
  assumes "candidate_grounded X request c"
  obtains i where "i + length (dc_segment_ids c) \<le> length (dq_turns request)"
    "dc_segment_ids c = map dt_id (take (length (dc_segment_ids c)) (drop i (dq_turns request)))"
    "cited_turns_ok X c (take (length (dc_segment_ids c)) (drop i (dq_turns request)))"
proof -
  let ?turns = "dq_turns request" and ?ids = "dc_segment_ids c"
  let ?ps = "map (the \<circ> turn_position ?turns) ?ids"
  from assms have ids: "?ids \<noteq> []" "\<forall>i \<in> set ?ids. turn_position ?turns i \<noteq> None"
    and ps: "successively (\<lambda>a b. b = Suc a) ?ps" "cited_turns_ok X c (map (nth ?turns) ?ps)"
    by (simp_all add: candidate_grounded_def Let_def list_all_iff comp_assoc)
  from ids have pos: "p < length ?turns \<and> dt_id (?turns ! p) = i"
    if "i \<in> set ?ids" "p = the (turn_position ?turns i)" for i p
    using that turn_position_SomeD [of ?turns i] by fastforce
  define i where "i = hd ?ps"
  from consecutive_positions [OF ps(1)] ids(1) have run: "?ps = [i..<i + length ?ids]" by (simp add: i_def)
  then have "last ?ps = i + (length ?ids - 1)" using ids(1) by (simp add: last_conv_nth)
  moreover have "last ?ps < length ?turns" using ids(1) pos by (simp add: last_map)
  ultimately have len: "i + length ?ids \<le> length ?turns" using ids(1) by (cases ?ids) auto
  with run have turns: "map (nth ?turns) ?ps = take (length ?ids) (drop i ?turns)" by (simp only: nth_upt_take_drop)
  moreover have "?ids = map dt_id (map (nth ?turns) ?ps)" using pos by (simp add: map_idI)
  ultimately show thesis using len ps(2) by (intro that) simp_all
qed

lemma candidates_ok_member:
  "candidates_ok X request claims quotes cs \<Longrightarrow> c \<in> set cs \<Longrightarrow> candidate_text_ok X c \<and> candidate_grounded X request c"
  by (induction cs arbitrary: claims quotes) (auto simp: Let_def)

lemma detect_Inr:
  assumes "detect_live_claims X completion request = Inr result"
  shows "validate_claim_detection_candidates X request (dx_candidates result)"
    and "validate_claim_detection_request request = None"
proof -
  from assms show "validate_claim_detection_request request = None"
    by (auto simp: detect_live_claims_def split: option.splits)
  with assms have "attempts_loop completion
            (\<lambda>message. map_option (\<lambda>cs. \<lparr>dx_candidates = cs, dx_provider = LIVE_FACT_CHECK_PROVIDER,
                                         dx_model = LIVE_FACT_CHECK_MODEL\<rparr>)
               (parse_claim_detection_draft X request message)) [False, True] = Inr result"
    by (simp add: detect_live_claims_def)
  from attempts_loop_Inr [OF this] obtain message where
    "parse_claim_detection_draft X request message = Some (dx_candidates result)" by auto
  then show "validate_claim_detection_candidates X request (dx_candidates result)"
    by (auto simp: parse_claim_detection_draft_def Let_def split: option.splits if_splits)
qed

lemma quote_backed_contained:
  "quote_is_backed_by_every_turn X quote turns \<Longrightarrow> str_contains quote (fst (overlap_aware_claim_text X turns))"
  by (auto simp: quote_is_backed_by_every_turn_def list_ex_iff str_contains_iff split: prod.splits
      dest!: match_indices_sound) (metis append_take_drop_id)

text \<open>C33: a detected claim cites a contiguous run of at most four turns of the transcript, one of them required, spoken
  by one speaker over one source without long gaps, and its quote is part of the text these turns
  join to.\<close>

theorem detected_claims_grounded:
  assumes "detect_live_claims X completion request = Inr result" "c \<in> set (dx_candidates result)"
  shows "\<exists>i n. 0 < n \<and> n \<le> 4 \<and> i + n \<le> length (dq_turns request) \<and>
     dc_segment_ids c = map dt_id (take n (drop i (dq_turns request))) \<and>
     set (dc_segment_ids c) \<inter> set (dq_required_turn_ids request) \<noteq> {} \<and>
     length (remdups (filter_map dt_speaker_id (take n (drop i (dq_turns request))))) \<le> 1 \<and>
     length (remdups (filter_map dt_source_kind (take n (drop i (dq_turns request))))) \<le> 1 \<and>
     successively (\<lambda>a b. dt_start_ms b \<le> dt_end_ms a + 2500) (take n (drop i (dq_turns request))) \<and>
     str_contains (dc_exact_quote c) (fst (overlap_aware_claim_text X (take n (drop i (dq_turns request)))))"
proof -
  from detect_Inr(1) [OF assms(1)] have g: "candidate_grounded X request c"
    using assms(2) candidates_ok_member by (auto simp: validate_claim_detection_candidates_def)
  from g have ids: "dc_segment_ids c \<noteq> []" "length (dc_segment_ids c) \<le> 4"
      "set (dc_segment_ids c) \<inter> set (dq_required_turn_ids request) \<noteq> {}"
    by (auto simp: candidate_grounded_def Let_def list_ex_iff)
  obtain i where i: "i + length (dc_segment_ids c) \<le> length (dq_turns request)"
    "dc_segment_ids c = map dt_id (take (length (dc_segment_ids c)) (drop i (dq_turns request)))"
    "cited_turns_ok X c (take (length (dc_segment_ids c)) (drop i (dq_turns request)))"
    using grounded_run [OF g] by blast
  have gap: "(\<lambda>a b. dt_start_ms b - dt_end_ms a \<le> 2500) = (\<lambda>a b. dt_start_ms b \<le> dt_end_ms a + 2500)"
    by (auto simp: fun_eq_iff)
  show ?thesis
    using ids i quote_backed_contained unfolding cited_turns_ok_def gap
    by (intro exI [of _ i] exI [of _ "length (dc_segment_ids c)"]) auto
qed

lemma candidates_ok_distinct:
  "candidates_ok X request claims quotes cs \<Longrightarrow>
   distinct (map (normalized_detection_text X \<circ> dc_normalized_claim) cs) \<and>
   set (map (normalized_detection_text X \<circ> dc_normalized_claim) cs) \<inter>
     (claims \<union> set (map (normalized_detection_text X) (dq_existing_claim_keys request))) = {}"
proof (induction cs arbitrary: claims quotes)
  case (Cons c cs)
  let ?claim = "normalized_detection_text X (dc_normalized_claim c)"
  from Cons.prems have c: "?claim \<notin> claims" "?claim \<notin> set (map (normalized_detection_text X) (dq_existing_claim_keys request))"
    and rest: "candidates_ok X request (insert ?claim claims)
                 (insert (normalized_detection_text X (dc_exact_quote c)) quotes) cs"
    by (simp_all add: Let_def)
  from Cons.IH [OF rest] c show ?case by auto
qed simp

text \<open>A detection gives at most four claims that are pairwise different and different from the claims already
  known, up to case and spacing.\<close>

theorem detected_claims_new:
  assumes "detect_live_claims X completion request = Inr result"
  shows "length (dx_candidates result) \<le> 4 \<and>
     distinct (map (normalized_detection_text X \<circ> dc_normalized_claim) (dx_candidates result)) \<and>
     set (map (normalized_detection_text X \<circ> dc_normalized_claim) (dx_candidates result)) \<inter>
       set (map (normalized_detection_text X) (dq_existing_claim_keys request)) = {}"
  using detect_Inr(1) [OF assms] candidates_ok_distinct [of X request "{}" "{}" "dx_candidates result"]
  by (auto simp: validate_claim_detection_candidates_def)

end
