(* ===== verification/Fact_Check_Witnesses.thy ===== *)
theory Fact_Check_Witnesses
  imports Fact_Check_Properties
begin

text \<open>A claim checked against one page, and a claim found in two turns.\<close>

definition page0 :: Evidence where
  "page0 =
     \<lparr>ev_citation_id = ''s1'', ev_publisher = ''NASA'', ev_title = ''Moon'', ev_publication_date = None,
      ev_excerpt = ''The Moon orbits Earth'', ev_retrieval_kind = PageExtract, ev_url = Some ''https://x.gov'',
      ev_canonical_url = None, ev_accessed_at = None, ev_source_type = None, ev_retrieval_stage = None\<rparr>"

definition check0 :: ModelRequest where
  "check0 = \<lparr>rq_stage = QuickStage, rq_normalized_claim = ''The Moon orbits Earth'', rq_exact_quote = ''moon orbits earth'',
             rq_evidence = [page0]\<rparr>"

definition submission0 :: json_object where
  "submission0 =
     [(''confidence'', JStr ''high''), (''conclusion'', JStr ''It does''), (''conclusionCitationIds'', JArr [JStr ''s1'']),
      (''statements'', JArr []),
      (''supports'', JArr [JObj [(''text'', JStr ''It orbits''), (''citationIds'', JArr [JStr ''s1''])]]),
      (''contradictions'', JArr []), (''caveats'', JArr []), (''limitations'', JArr []),
      (''sources'', JArr [JObj [(''citationId'', JStr ''s1''), (''stance'', JStr ''supports''), (''qualityScore'', JInt 1),
         (''qualityRationale'', JStr ''first party''), (''authority'', JStr ''authoritative''), (''directness'', JStr ''direct''),
         (''addressesClaim'', JBool True), (''timeScopeMatch'', JBool True)]]),
      (''changeExplanation'', JNull)]"

definition submits :: "string \<Rightarrow> json_object \<Rightarrow> Message" where
  "submits tool args =
     with_tool_request (Message_assistant 0) ''c1'' (Inr \<lparr>ctr_name = tool, ctr_arguments = Some args\<rparr>)"

definition draft0 :: Draft where
  "draft0 =
     \<lparr>dr_confidence = HighConfidence, dr_conclusion = ''It does'', dr_conclusion_citation_ids = [''s1''],
      dr_statements = [], dr_supports = [\<lparr>cs_text = ''It orbits'', cs_citation_ids = [''s1'']\<rparr>], dr_contradictions = [],
      dr_caveats = [], dr_limitations = [],
      dr_sources = [\<lparr>sa_citation_id = ''s1'', sa_stance = Supports, sa_quality_score = 1,
        sa_quality_rationale = ''first party'', sa_authority = Authoritative, sa_directness = Direct,
        sa_addresses_claim = True, sa_time_scope_match = True\<rparr>],
      dr_change_explanation = None\<rparr>"

lemma check0_valid: "validate_request check0 = None"
  by code_simp

lemma check0_constraint: "claim_output_constraint check0 = GeneralClaim"
  by code_simp

lemma check0_parsed:
  "parse_draft (submits LIVE_FACT_CHECK_TOOL_NAME submission0) (map ev_citation_id (rq_evidence check0)) (rq_stage check0) =
     Some draft0"
proof -
  have "only_tool_call LIVE_FACT_CHECK_TOOL_NAME (submits LIVE_FACT_CHECK_TOOL_NAME submission0) = Some submission0"
    by (simp add: only_tool_call_def tool_call_arguments_def submits_def with_tool_request_def with_content_def
        Message_assistant_def Message_new_def tool_request_def)
  moreover have "dec_draft (JObj submission0) = Some draft0" by code_simp
  moreover have "conclusion_ok [''s1''] draft0" "sections_ok [''s1''] draft0" "sources_ok [''s1''] draft0"
      "citations_ok [''s1''] draft0" "dr_change_explanation draft0 = None"
    by code_simp+
  moreover have "map ev_citation_id (rq_evidence check0) = [''s1'']" by code_simp
  ultimately show ?thesis by (simp add: parse_draft_def)
qed

lemma check0_assessed:
  "ca_confidence (resolve_canonical_assessment ''now'' draft0 check0 GeneralClaim) = HighConfidence"
  by code_simp

definition result0 :: ModelResult where
  "result0 = legacy_compatible_result (resolve_canonical_assessment ''now'' draft0 check0 GeneralClaim) QuickStage"

lemma check0_succeeds:
  "synthesize_live_fact_check ''now'' (\<lambda>_. Completed (submits LIVE_FACT_CHECK_TOOL_NAME submission0)) check0 = Inr result0"
  "mr_confidence result0 = HighConfidence"
  using check0_assessed
  by (simp_all add: synthesize_live_fact_check_def check0_valid check0_constraint check0_parsed Let_def result0_def
      legacy_compatible_result_def) (simp add: check0_def)

theorem assessment_grounded_witness:
  "cited_ids (all_statements (mr_canonical_assessment result0)) \<subseteq> ev_citation_id ` set (rq_evidence check0)"
  using assessment_grounded [OF check0_succeeds(1)] by simp

theorem high_confidence_justified_witness:
  "\<exists>s e. s \<in> set (ca_sources (mr_canonical_assessment result0)) \<and> e \<in> set (rq_evidence check0) \<and>
     sa_citation_id s = ev_citation_id e \<and> authoritative_source_signal e"
  using high_confidence_justified [OF check0_succeeds] by blast

subsection \<open>A detected claim\<close>

definition text0 :: text_ext where
  "text0 = \<lparr>tx_words = ascii_words, tx_lower = to_ascii_lowercase,
            tx_boundary = (\<lambda>t. filter ascii_alphanumeric (to_ascii_lowercase t))\<rparr>"

definition turns0 :: DetectionRequest where
  "turns0 =
     \<lparr>dq_turns = [\<lparr>dt_id = ''x'', dt_speaker_id = None, dt_source_kind = None, dt_start_ms = 0, dt_end_ms = 900,
                   dt_text = ''The Moon orbits''\<rparr>,
                  \<lparr>dt_id = ''y'', dt_speaker_id = Some ''p'', dt_source_kind = Some Microphone, dt_start_ms = 1000, dt_end_ms = 1900,
                   dt_text = ''orbits Earth''\<rparr>],
      dq_required_turn_ids = [''y''], dq_existing_claim_keys = []\<rparr>"

definition candidate_json :: json_object where
  "candidate_json =
     [(''candidates'', JArr [JObj
        [(''exactQuote'', JStr ''Moon orbits Earth''), (''normalizedClaim'', JStr ''The Moon orbits Earth''),
         (''segmentIds'', JArr [JStr ''T1'', JStr ''T2'']), (''checkworthy'', JBool True), (''consequenceScore'', JInt 1),
         (''disputeLikelihoodScore'', JInt 0), (''specificityScore'', JInt 1), (''timeSensitive'', JBool False),
         (''selectionRationale'', JStr ''checkable'')]])]"

definition candidate0 :: DetectionCandidate where
  "candidate0 =
     \<lparr>dc_exact_quote = ''Moon orbits Earth'', dc_normalized_claim = ''The Moon orbits Earth'', dc_segment_ids = [''x'', ''y''],
      dc_checkworthy = True, dc_consequence_score = 1, dc_dispute_likelihood_score = 0, dc_specificity_score = 1,
      dc_time_sensitive = False, dc_selection_rationale = ''checkable''\<rparr>"

lemma joined0: "overlap_aware_claim_text text0 (dq_turns turns0) = (''The Moon orbits Earth'', [(0, 15), (9, 21)])"
  by code_simp

lemma candidate0_text: "candidate_text_ok text0 candidate0"
  by code_simp

lemma candidate0_grounded: "candidate_grounded text0 turns0 candidate0"
  by code_simp

lemma turns0_valid: "validate_claim_detection_request turns0 = None"
  by code_simp

lemma candidate0_parsed:
  "parse_claim_detection_draft text0 turns0 (submits LIVE_CLAIM_DETECTION_TOOL_NAME candidate_json) = Some [candidate0]"
proof -
  have "only_tool_call LIVE_CLAIM_DETECTION_TOOL_NAME (submits LIVE_CLAIM_DETECTION_TOOL_NAME candidate_json) = Some candidate_json"
    by (simp add: only_tool_call_def tool_call_arguments_def submits_def with_tool_request_def with_content_def
        Message_assistant_def Message_new_def tool_request_def)
  moreover have "map_option (map (with_real_ids turns0)) (dec_detection_draft (JObj candidate_json)) = Some [Some candidate0]"
    by code_simp
  then obtain cs where "dec_detection_draft (JObj candidate_json) = Some cs" "map (with_real_ids turns0) cs = [Some candidate0]"
    by auto
  moreover have "dq_existing_claim_keys turns0 = []" by (simp add: turns0_def)
  ultimately show ?thesis
    by (simp add: parse_claim_detection_draft_def Let_def validate_claim_detection_candidates_def candidate0_text candidate0_grounded)
qed

lemma detection0:
  "detect_live_claims text0 (\<lambda>_. Completed (submits LIVE_CLAIM_DETECTION_TOOL_NAME candidate_json)) turns0 =
     Inr \<lparr>dx_candidates = [candidate0], dx_provider = LIVE_FACT_CHECK_PROVIDER, dx_model = LIVE_FACT_CHECK_MODEL\<rparr>"
  by (simp add: detect_live_claims_def turns0_valid candidate0_parsed)

theorem detected_claims_grounded_witness:
  "\<exists>i n. dc_segment_ids candidate0 = map dt_id (take n (drop i (dq_turns turns0))) \<and>
     str_contains (dc_exact_quote candidate0) (fst (overlap_aware_claim_text text0 (take n (drop i (dq_turns turns0)))))"
  using detected_claims_grounded [OF detection0, of candidate0] by auto

theorem detected_claims_new_witness:
  "length [candidate0] \<le> 4 \<and> distinct (map (normalized_detection_text text0 \<circ> dc_normalized_claim) [candidate0])"
  using detected_claims_new [OF detection0] by simp

text \<open>A worker with a session that is asked for a check, and one that is asked in another version of the protocol.\<close>

definition worker0 :: worker_env where
  "worker0 = \<lparr>wv_text = text0,
     wv_parse = (\<lambda>input. if input = ''check'' then Some \<lparr>wr_protocol_version = 1, wr_request_id = ''r-1'', wr_operation = Synthesize check0\<rparr>
       else if input = ''old'' then Some \<lparr>wr_protocol_version = 2, wr_request_id = ''r-2'', wr_operation = Synthesize check0\<rparr>
       else None),
     wv_session = Some (\<lambda>_ _. Completed (submits LIVE_FACT_CHECK_TOOL_NAME submission0)),
     wv_session_valid = True, wv_completed_at = ''now''\<rparr>"

lemma check0_proper: "proper_synthesis check0"
  using check0_valid by (simp add: validate_request_proper)

lemma example_ids: "proper_id 80 ''r-1''" "proper_id 80 ''r-2''"
  by code_simp+

theorem worker_answers_requests_witness:
  "wp_request_id (run_worker worker0 ''check'') = ''r-1'' \<and> wp_result (run_worker worker0 ''check'') = Some result0 \<and>
   wp_request_id (run_worker worker0 ''old'') = ''r-2'' \<and>
   wp_error (run_worker worker0 ''old'') = Some (worker_error (InvalidRequest []))"
  using worker_answers_requests [of "run_worker worker0 ''check''" worker0 "''check''", OF refl]
    worker_answers_requests [of "run_worker worker0 ''old''" worker0 "''old''", OF refl]
  by (simp add: worker0_def proper_request_def example_ids check0_proper check0_succeeds)

end
