(* ===== verification/Meeting_Types.thy ===== *)
theory Meeting_Types
  imports Json Text_Std "HOL-Library.Word" "HOL-Library.Product_Lexorder"
begin

text \<open>
  \<open>goose-sdk-types/src/custom_requests/meetings.rs\<close> and \<open>goose/src/meetings/validation.rs\<close>: the enumerations, the values a
  client submits to the meetings store, and their validation. A \<open>u64\<close> is a 64-bit word, a column of the
  database an \<open>i64\<close> that is kept as an integer; 32-bit counts are naturals. Code outside the repository
  (the parsers of UUIDs and URLs, the length of encoded JSON, the content hashes) is the record \<open>meeting_ext\<close>.
\<close>

type_synonym i64 = int
type_synonym u64 = "64 word"

subsection \<open>Errors\<close>

datatype MeetingError =
    Validation string
  | NotFound
  | Conflict
  | SchemaTooNew
  | Database
  | Serialization
  | Initialization

subsection \<open>Enumerations\<close>

datatype ArtifactType = MeetingArtifact | TextCheck
datatype MeetingMode = CallMode | InPerson | TextMode

datatype LifecycleStatus =
    LifeSetup | LifeStarting | LifeRecording | LifePaused | LifeStopping | LifeFinalizing | LifeComplete
  | LifeInterrupted | LifeError

datatype CaptureStatus =
    CaptureNotStarted | CaptureActive | CapturePaused | CaptureFinalizing | CaptureComplete | CaptureInterrupted
  | CaptureError

datatype RefinementStatus =
    RefinementNotStarted | RefinementQueued | RefinementUploading | RefinementProcessing | RefinementReconciling
  | RefinementComplete | RefinementRetryWait | RefinementFailed | RefinementCancelled

datatype ResearchStatus =
    ResearchNotStarted | ResearchQueued | ResearchRunning | ResearchPartial | ResearchComplete | ResearchRetryWait
  | ResearchFailed | ResearchCancelled

datatype LiveStrategy = MixedDiarized | SourceSeparated
datatype VersionKind = LiveVersion | RefinedVersion
datatype VersionStatus = VersionActive | VersionProcessing | VersionComplete | VersionFailed | VersionSuperseded
datatype SegmentState = SegmentPartial | SegmentFinal | SegmentRevised | SegmentSuperseded
datatype AudioSourceKind = AudioMixed | AudioMicrophone | AudioSystem | AudioText
datatype AudioAssetStatus = AssetRecording | AssetFinalized | AssetInterrupted | AssetMissing | AssetDeleted

datatype TimelineEventKind =
    PauseEvent | ResumeEvent | SleepEvent | WakeEvent | CaptureGap | DeviceChange | SttReconnectGap

datatype ClaimOrigin = AutomaticClaim | ManualClaim

datatype ClaimStatus =
    ClaimDetected | ClaimQueued | ClaimQuickRunning | ClaimPreliminary | ClaimDeepRunning | ClaimComplete
  | ClaimStale | ClaimRechecking | ClaimFailed | ClaimCancelled | ClaimSuperseded

datatype ClaimLifecycle = ActiveClaim | StaleClaim | RecheckingClaim | SupersededClaim
datatype ManualStatus = ManualQueued | ManualProcessing | ManualRetryWait | ManualComplete | ManualFailed
datatype ResearchStage = PreliminaryResearch | DeepResearch
datatype AssessmentStatus = AssessmentComplete | AssessmentFailed

datatype MeetingVerdict =
    VerdictSupported | VerdictMostlySupported | VerdictMixed | VerdictUnsupported | VerdictUnverifiable

datatype MeetingConfidence = ConfidenceLow | ConfidenceMedium | ConfidenceHigh
datatype MeetingStance = StanceSupports | StanceContradicts | StanceContext
datatype JobStatus = JobPending | JobRunning | JobRetryWait | JobComplete | JobFailed | JobCancelled

datatype RefinementJobStatus =
    RefineQueued | RefineUploading | RefineProcessing | RefineReconciling | RefineComplete | RefineRetryWait
  | RefineFailed | RefineCancelled

datatype CleanupStatus =
    CleanupPending | CleanupRunning | CleanupComplete | CleanupRetryWait | CleanupFailed | CleanupUnavailable

datatype UpsertOutcome = Inserted | Revised | Duplicate | StaleIgnored

subsection \<open>Submitted values\<close>

record TypedError =
  te_code :: string
  te_message :: string
  te_retryable :: bool

record CaptureConfig =
  cc_live_strategy :: LiveStrategy
  cc_microphone_device_id :: "string option"
  cc_system_audio_enabled :: bool
  cc_exact_speaker_count :: "nat option"

record SpeakerInput =
  si_id :: "string option"
  si_default_label :: string
  si_display_name :: "string option"
  si_display_name_source :: "string option"
  si_manual_assignment_lock :: bool
  si_source_hint :: "AudioSourceKind option"

record ObservationUpsert =
  ob_id :: string
  ob_transcript_version_id :: string
  ob_speaker_id :: "string option"
  ob_provider :: string
  ob_provider_namespace :: string
  ob_provider_speaker_label :: string
  ob_confidence :: "f64 option"
  ob_ambiguous :: bool
  ob_revision_number :: u64
  ob_source_hint :: "AudioSourceKind option"

record VersionUpsert =
  tv_id :: string
  tv_kind :: VersionKind
  tv_status :: VersionStatus
  tv_revision_number :: u64
  tv_provider :: "string option"
  tv_model :: "string option"
  tv_gateway_job_id :: "string option"
  tv_parent_version_id :: "string option"
  tv_input_audio_checksum :: "string option"
  tv_detected_language :: "string option"
  tv_reconciliation_metadata :: "json option"
  tv_started_at_ms :: "i64 option"
  tv_completed_at_ms :: "i64 option"
  tv_error :: "TypedError option"

record TimedWord =
  tw_text :: string
  tw_start_ms :: i64
  tw_end_ms :: i64
  tw_confidence :: "f64 option"
  tw_provider_speaker_label :: "string option"

record SegmentUpsert =
  ts_id :: string
  ts_transcript_version_id :: string
  ts_provider :: string
  ts_provider_namespace :: string
  ts_provider_session_id :: "string option"
  ts_provider_turn_id :: string
  ts_provider_turn_order :: i64
  ts_revision_number :: u64
  ts_state :: SegmentState
  ts_speaker_id :: "string option"
  ts_source_kind :: AudioSourceKind
  ts_start_ms :: i64
  ts_end_ms :: i64
  ts_text :: string
  ts_words :: "TimedWord list"
  ts_replaced_live_segment_ids :: "string list"

record SpeakerSwap =
  sw_first :: string
  sw_second :: string

record SegmentSpeakerUpdate =
  su_segment_id :: string
  su_speaker_id :: string

record TimelineEventUpsert =
  tl_id :: string
  tl_kind :: TimelineEventKind
  tl_start_ms :: i64
  tl_end_ms :: "i64 option"
  tl_source_kind :: "AudioSourceKind option"
  tl_provider_namespace :: "string option"
  tl_metadata :: "json option"

record AudioAssetUpsert =
  au_id :: string
  au_source_kind :: AudioSourceKind
  au_timeline_part :: nat
  au_file_name :: string
  au_format :: string
  au_sample_rate :: nat
  au_channels :: nat
  au_timeline_start_ms :: i64
  au_timeline_end_ms :: "i64 option"
  au_duration_ms :: "i64 option"
  au_bytes :: "u64 option"
  au_checksum :: "string option"
  au_status :: AudioAssetStatus

record RefinementInput =
  ri_refinement_job_id :: string
  ri_part_index :: nat
  ri_audio_asset_id :: string
  ri_source_kind :: AudioSourceKind
  ri_checksum :: string
  ri_meeting_start_ms :: i64
  ri_meeting_end_ms :: i64
  ri_provider_start_ms :: i64
  ri_provider_end_ms :: i64
  ri_manifest_checksum :: string

record ClaimVersionUpsert =
  cv_claim_id :: string
  cv_claim_version_id :: string
  cv_manual_request_id :: "string option"
  cv_origin :: ClaimOrigin
  cv_duplicate_key :: "string option"
  cv_status :: ClaimStatus
  cv_version_number :: nat
  cv_predecessor_id :: "string option"
  cv_superseded_by_id :: "string option"
  cv_source_transcript_version_id :: "string option"
  cv_exact_quote :: string
  cv_normalized_claim :: string
  cv_speaker_id :: "string option"
  cv_start_ms :: "i64 option"
  cv_end_ms :: "i64 option"
  cv_segment_ids :: "string list"
  cv_selection_rationale :: "string option"
  cv_consequence_score :: "f64 option"
  cv_dispute_score :: "f64 option"
  cv_specificity_score :: "f64 option"
  cv_time_sensitive :: bool
  cv_lifecycle :: ClaimLifecycle
  cv_set_current :: bool

record GateTurn =
  gt_id :: string
  gt_speaker_id :: "string option"
  gt_start_ms :: i64
  gt_end_ms :: i64
  gt_text :: string
  gt_revision_number :: u64
  gt_source_kind :: AudioSourceKind

record GateBatchBegin =
  gb_id :: string
  gb_idempotency_key :: string
  gb_turns :: "GateTurn list"

record ManualRequestUpsert =
  mq_id :: string
  mq_exact_selection :: string
  mq_context_turns :: "GateTurn list"
  mq_source_segment_ids :: "string list"
  mq_speaker_id :: "string option"
  mq_start_ms :: "i64 option"
  mq_end_ms :: "i64 option"
  mq_status :: ManualStatus
  mq_error :: "TypedError option"

record MeetingStatement =
  mt_text :: string
  mt_citation_keys :: "string list"

record SourceInput =
  so_id :: string
  so_citation_key :: string
  so_url :: string
  so_canonical_url :: string
  so_publisher :: string
  so_title :: string
  so_publication_date :: "string option"
  so_accessed_at_ms :: i64
  so_evidence_excerpt :: string
  so_stance :: MeetingStance
  so_quality_score :: "f64 option"
  so_quality_rationale :: string

record AssessmentApply =
  as_id :: string
  as_claim_version_id :: string
  as_stage :: ResearchStage
  as_attempt_number :: nat
  as_status :: AssessmentStatus
  as_supersedes_id :: "string option"
  as_verdict :: MeetingVerdict
  as_confidence :: MeetingConfidence
  as_conclusion :: "MeetingStatement list"
  as_support :: "MeetingStatement list"
  as_contradiction :: "MeetingStatement list"
  as_caveats :: "MeetingStatement list"
  as_limitations :: "MeetingStatement list"
  as_model_provider :: string
  as_model :: string
  as_model_version :: "string option"
  as_usage :: "json option"
  as_latency_ms :: "i64 option"
  as_started_at_ms :: i64
  as_completed_at_ms :: i64
  as_error :: "TypedError option"
  as_sources :: "SourceInput list"
  as_set_current :: bool

record ResearchJobUpsert =
  rj_id :: string
  rj_claim_version_id :: string
  rj_stage :: ResearchStage
  rj_gateway_job_id :: "string option"
  rj_idempotency_key :: string
  rj_status :: JobStatus
  rj_attempt_count :: nat
  rj_next_retry_at_ms :: "i64 option"
  rj_started_at_ms :: "i64 option"
  rj_completed_at_ms :: "i64 option"
  rj_error :: "TypedError option"

record RefinementJobUpsert =
  fj_id :: string
  fj_source_transcript_version_id :: string
  fj_input_manifest_checksum :: string
  fj_provider :: string
  fj_model :: string
  fj_gateway_job_id :: "string option"
  fj_idempotency_key :: string
  fj_status :: RefinementJobStatus
  fj_attempt_count :: nat
  fj_next_retry_at_ms :: "i64 option"
  fj_usage :: "json option"
  fj_latency_ms :: "i64 option"
  fj_started_at_ms :: "i64 option"
  fj_completed_at_ms :: "i64 option"
  fj_error :: "TypedError option"

end
