(* ===== verification/Meeting_Validation.thy ===== *)
theory Meeting_Validation
  imports Meeting_Types
begin

text \<open>
  \<open>goose/src/meetings/validation.rs\<close> and the \<open>validate_\<close> functions of \<open>meetings/store.rs\<close>. A validation gives the first failure, or
  \<open>None\<close>. The scores are finite numbers, since the requests arrive as JSON.
\<close>

record meeting_ext =
  mx_uuid :: "string \<Rightarrow> bool"
  mx_url :: "string \<Rightarrow> (string \<times> string option) option"
  mx_json_len :: "json \<Rightarrow> nat"
  mx_config_json :: "CaptureConfig \<Rightarrow> json"
  mx_segment_hash :: "SegmentUpsert \<Rightarrow> string"
  mx_claim_hash :: "ClaimVersionUpsert \<Rightarrow> string"
  mx_manual_hash :: "ManualRequestUpsert \<Rightarrow> string"
  mx_id :: "nat \<Rightarrow> string"
  mx_now :: i64

subsection \<open>Values\<close>

definition uuid :: "meeting_ext \<Rightarrow> string \<Rightarrow> MeetingError option" where
  "uuid X v = (if mx_uuid X v then None else Some (Validation ''invalid identifier''))"

definition nonempty :: "string \<Rightarrow> nat \<Rightarrow> string \<Rightarrow> MeetingError option" where
  "nonempty v maximum field =
     (if trim v = [] \<or> maximum < length v \<or> CHR 0x00 \<in> set v then Some (Validation field) else None)"

definition optional :: "string option \<Rightarrow> nat \<Rightarrow> string \<Rightarrow> MeetingError option" where
  "optional v maximum field =
     (case v of
        Some s \<Rightarrow> if maximum < length s \<or> CHR 0x00 \<in> set s then Some (Validation field) else None
      | None \<Rightarrow> None)"

definition timestamp_range :: "i64 \<Rightarrow> i64 option \<Rightarrow> MeetingError option" where
  "timestamp_range start stop =
     (if start < 0 \<or> (case stop of Some e \<Rightarrow> e < start | None \<Rightarrow> False)
      then Some (Validation ''invalid timestamp range'') else None)"

definition score :: "f64 option \<Rightarrow> MeetingError option" where
  "score v =
     (case v of Some x \<Rightarrow> if x < 0 \<or> 1 < x then Some (Validation ''invalid score'') else None | None \<Rightarrow> None)"

definition MAX_METADATA_BYTES :: nat where "MAX_METADATA_BYTES = 256 * 1024"
definition MAX_TEXT_BYTES :: nat where "MAX_TEXT_BYTES = 64 * 1024"
definition MAX_CLAIM_BYTES :: nat where "MAX_CLAIM_BYTES = 16 * 1024"

definition json_size :: "meeting_ext \<Rightarrow> json option \<Rightarrow> MeetingError option" where
  "json_size X v =
     (case v of
        Some j \<Rightarrow> if MAX_METADATA_BYTES < mx_json_len X j then Some (Validation ''metadata is too large'') else None
      | None \<Rightarrow> None)"

text \<open>The loop over the words carries the start of the word before.\<close>

fun word_errors :: "i64 \<Rightarrow> i64 \<Rightarrow> i64 \<Rightarrow> TimedWord list \<Rightarrow> MeetingError option list" where
  "word_errors start stop previous [] = []"
| "word_errors start stop previous (w # ws) =
     [nonempty (tw_text w) 1024 ''invalid timed word'',
      if tw_start_ms w < start \<or> tw_end_ms w < tw_start_ms w \<or> stop < tw_end_ms w \<or> tw_start_ms w < previous
      then Some (Validation ''invalid timed word range'') else None,
      score (tw_confidence w),
      optional (tw_provider_speaker_label w) 256 ''invalid provider speaker label''] @
     word_errors start stop (tw_start_ms w) ws"

definition words :: "TimedWord list \<Rightarrow> i64 \<Rightarrow> i64 \<Rightarrow> MeetingError option" where
  "words ws start stop =
     (if 4096 < length ws then Some (Validation ''too many timed words'')
      else first_error (word_errors start stop start ws))"

definition normal_component :: "string \<Rightarrow> bool" where
  "normal_component c = (c \<noteq> ''/'' \<and> c \<noteq> ''.'' \<and> c \<noteq> ''..'')"

definition controlled_file_name :: "string \<Rightarrow> MeetingError option" where
  "controlled_file_name v =
     first_error
       [nonempty v 255 ''invalid audio file name'',
        case path_components v of
          [c] \<Rightarrow> if normal_component c then None else Some (Validation ''invalid audio file name'')
        | _ \<Rightarrow> Some (Validation ''invalid audio file name'')]"

definition controlled_relative_path :: "string \<Rightarrow> MeetingError option" where
  "controlled_relative_path v =
     (if starts_with ''/'' v \<or> \<not> list_all normal_component (path_components v)
      then Some (Validation ''invalid controlled path'') else None)"

definition source_url :: "meeting_ext \<Rightarrow> string \<Rightarrow> MeetingError option" where
  "source_url X v =
     first_error
       [nonempty v (8 * 1024) ''invalid source URL'',
        case mx_url X v of
          Some (scheme, Some host) \<Rightarrow>
            if scheme = ''http'' \<or> scheme = ''https'' then None else Some (Validation ''invalid source URL'')
        | _ \<Rightarrow> Some (Validation ''invalid source URL'')]"

definition typed_error :: "TypedError option \<Rightarrow> MeetingError option" where
  "typed_error v =
     (case v of
        Some e \<Rightarrow> first_error [nonempty (te_code e) 128 ''invalid error code'', nonempty (te_message e) 1024 ''invalid error message'']
      | None \<Rightarrow> None)"

definition statement_errors :: "bool \<Rightarrow> MeetingStatement \<Rightarrow> MeetingError option list" where
  "statement_errors allow_empty st =
     [nonempty (mt_text st) MAX_CLAIM_BYTES ''invalid assessment statement'',
      if (\<not> allow_empty \<and> mt_citation_keys st = []) \<or> 16 < length (mt_citation_keys st)
      then Some (Validation ''assessment statement citations are invalid'') else None] @
     map (\<lambda>c. nonempty c 128 ''invalid citation key'') (mt_citation_keys st)"

definition statements_with_citation_policy :: "MeetingStatement list \<Rightarrow> bool \<Rightarrow> MeetingError option" where
  "statements_with_citation_policy sts allow_empty =
     (if 64 < length sts then Some (Validation ''too many assessment statements'')
      else first_error (concat (map (statement_errors allow_empty) sts)))"

definition statements :: "MeetingStatement list \<Rightarrow> MeetingError option" where
  "statements sts = statements_with_citation_policy sts False"

definition conclusion_statements :: "MeetingStatement list \<Rightarrow> MeetingError option" where
  "conclusion_statements sts = statements_with_citation_policy sts True"

definition validate_optional_time :: "i64 option \<Rightarrow> MeetingError option" where
  "validate_optional_time v =
     (case v of Some t \<Rightarrow> if t < 0 then Some (Validation ''invalid timestamp'') else None | None \<Rightarrow> None)"

definition optional_uuid :: "meeting_ext \<Rightarrow> string option \<Rightarrow> MeetingError option" where
  "optional_uuid X v = (case v of Some i \<Rightarrow> uuid X i | None \<Rightarrow> None)"

subsection \<open>Meetings and speakers\<close>

definition validate_capture_config :: "CaptureConfig \<Rightarrow> MeetingError option" where
  "validate_capture_config c =
     first_error
       [optional (cc_microphone_device_id c) 512 ''invalid microphone device identifier'',
        case cc_exact_speaker_count c of
          Some n \<Rightarrow> if \<not> (1 \<le> n \<and> n \<le> 64) then Some (Validation ''invalid exact speaker count'') else None
        | None \<Rightarrow> None]"

definition validate_speaker_input :: "meeting_ext \<Rightarrow> SpeakerInput \<Rightarrow> MeetingError option" where
  "validate_speaker_input X s =
     first_error
       [optional_uuid X (si_id s),
        optional (Some (si_default_label s)) 256 ''invalid speaker label'',
        optional (si_display_name s) 256 ''invalid speaker display name'',
        optional (si_display_name_source s) 128 ''invalid speaker name source'']"

subsection \<open>Transcripts\<close>

definition validate_transcript_version :: "meeting_ext \<Rightarrow> VersionUpsert \<Rightarrow> MeetingError option" where
  "validate_transcript_version X v =
     first_error
       [uuid X (tv_id v),
        if tv_revision_number v = 0 then Some (Validation ''invalid transcript version revision'') else None,
        optional_uuid X (tv_parent_version_id v),
        optional (tv_provider v) 128 ''invalid transcript provider'',
        optional (tv_model v) 256 ''invalid transcript model'',
        optional (tv_gateway_job_id v) 512 ''invalid gateway job identifier'',
        optional (tv_input_audio_checksum v) 256 ''invalid audio checksum'',
        optional (tv_detected_language v) 64 ''invalid detected language'',
        json_size X (tv_reconciliation_metadata v),
        typed_error (tv_error v),
        if (case tv_started_at_ms v of Some t \<Rightarrow> t < 0 | None \<Rightarrow> False) \<or>
           (case tv_completed_at_ms v of Some t \<Rightarrow> t < 0 | None \<Rightarrow> False) \<or>
           (case (tv_started_at_ms v, tv_completed_at_ms v) of (Some s, Some e) \<Rightarrow> e < s | _ \<Rightarrow> False)
        then Some (Validation ''invalid transcript version timestamps'') else None]"

definition validate_transcript_segment :: "meeting_ext \<Rightarrow> string \<Rightarrow> SegmentUpsert \<Rightarrow> MeetingError option" where
  "validate_transcript_segment X version_id s =
     first_error
       ([uuid X (ts_id s),
         if ts_transcript_version_id s \<noteq> version_id
         then Some (Validation ''segment transcript version mismatch'') else None,
         if ts_state s = SegmentPartial
         then Some (Validation ''partial transcript segments are not durable'') else None,
         nonempty (ts_provider s) 128 ''invalid transcript provider'',
         nonempty (ts_provider_namespace s) 256 ''invalid provider namespace'',
         optional (ts_provider_session_id s) 256 ''invalid provider session identifier'',
         nonempty (ts_provider_turn_id s) 256 ''invalid provider turn identifier'',
         optional_uuid X (ts_speaker_id s),
         timestamp_range (ts_start_ms s) (Some (ts_end_ms s)),
         nonempty (ts_text s) MAX_TEXT_BYTES ''invalid transcript text'',
         words (ts_words s) (ts_start_ms s) (ts_end_ms s),
         if 256 < length (ts_replaced_live_segment_ids s)
         then Some (Validation ''too many replacement segment references'') else None] @
        map (uuid X) (ts_replaced_live_segment_ids s))"

definition validate_speaker_observation :: "meeting_ext \<Rightarrow> string \<Rightarrow> ObservationUpsert \<Rightarrow> MeetingError option" where
  "validate_speaker_observation X version_id v =
     first_error
       [uuid X (ob_id v),
        if ob_transcript_version_id v \<noteq> version_id
        then Some (Validation ''speaker observation transcript version mismatch'') else None,
        optional_uuid X (ob_speaker_id v),
        nonempty (ob_provider v) 128 ''invalid speaker observation provider'',
        nonempty (ob_provider_namespace v) 256 ''invalid speaker observation namespace'',
        nonempty (ob_provider_speaker_label v) 256 ''invalid provider speaker label'',
        score (ob_confidence v)]"

subsection \<open>Audio\<close>

definition validate_audio_asset :: "meeting_ext \<Rightarrow> AudioAssetUpsert \<Rightarrow> MeetingError option" where
  "validate_audio_asset X v =
     first_error
       [uuid X (au_id v),
        controlled_file_name (au_file_name v),
        nonempty (au_format v) 32 ''invalid audio format'',
        if \<not> list_all (\<lambda>c. ascii_alphanumeric c \<or> c = CHR ''-'' \<or> c = CHR ''_'') (au_format v)
        then Some (Validation ''invalid audio format'') else None,
        if au_sample_rate v = 0 \<or> 384000 < au_sample_rate v \<or> au_channels v = 0 \<or> 32 < au_channels v
        then Some (Validation ''invalid audio format metadata'') else None,
        timestamp_range (au_timeline_start_ms v) (au_timeline_end_ms v),
        if (case au_duration_ms v of Some d \<Rightarrow> d < 0 | None \<Rightarrow> False)
        then Some (Validation ''invalid audio duration'') else None,
        optional (au_checksum v) 256 ''invalid audio checksum'']"

definition validate_refinement_input :: "meeting_ext \<Rightarrow> RefinementInput \<Rightarrow> MeetingError option" where
  "validate_refinement_input X v =
     first_error
       [uuid X (ri_refinement_job_id v),
        uuid X (ri_audio_asset_id v),
        nonempty (ri_checksum v) 256 ''invalid refinement input checksum'',
        nonempty (ri_manifest_checksum v) 256 ''invalid refinement manifest checksum'',
        timestamp_range (ri_meeting_start_ms v) (Some (ri_meeting_end_ms v)),
        timestamp_range (ri_provider_start_ms v) (Some (ri_provider_end_ms v))]"

subsection \<open>Claims\<close>

definition optional_range :: "i64 option \<Rightarrow> i64 option \<Rightarrow> string \<Rightarrow> MeetingError option" where
  "optional_range start stop message =
     (case (start, stop) of
        (Some s, e) \<Rightarrow> timestamp_range s e
      | (None, Some _) \<Rightarrow> Some (Validation message)
      | _ \<Rightarrow> None)"

text \<open>\<open>revision > i64::MAX\<close> for a \<open>u64\<close> is a negative number as an \<open>i64\<close>.\<close>

definition turn_checks :: "meeting_ext \<Rightarrow> string \<Rightarrow> GateTurn \<Rightarrow> MeetingError option list" where
  "turn_checks X message t =
     [uuid X (gt_id t), optional_uuid X (gt_speaker_id t), timestamp_range (gt_start_ms t) (Some (gt_end_ms t)),
      nonempty (gt_text t) MAX_TEXT_BYTES message]"

fun context_turn_errors :: "meeting_ext \<Rightarrow> string set \<Rightarrow> GateTurn list \<Rightarrow> MeetingError option list" where
  "context_turn_errors X seen [] = []"
| "context_turn_errors X seen (t # ts) =
     turn_checks X ''invalid manual fact-check context turn'' t @
     [if sint (gt_revision_number t) < 0 \<or> gt_id t \<in> seen
      then Some (Validation ''invalid manual fact-check context turn'') else None] @
     context_turn_errors X (insert (gt_id t) seen) ts"

fun source_segment_errors :: "meeting_ext \<Rightarrow> string set \<Rightarrow> string list \<Rightarrow> MeetingError option list" where
  "source_segment_errors X seen [] = []"
| "source_segment_errors X seen (i # is) =
     [uuid X i, if i \<in> seen then Some (Validation ''duplicate manual fact-check source segment'') else None] @
     source_segment_errors X (insert i seen) is"

definition validate_manual_fact_check_request :: "meeting_ext \<Rightarrow> ManualRequestUpsert \<Rightarrow> MeetingError option" where
  "validate_manual_fact_check_request X v =
     first_error
       ([uuid X (mq_id v),
         nonempty (mq_exact_selection v) MAX_TEXT_BYTES ''invalid manual fact-check selection'',
         if mq_context_turns v = [] \<or> 256 < length (mq_context_turns v) \<or> 256 < length (mq_source_segment_ids v)
         then Some (Validation ''manual fact-check context is too large'') else None,
         optional_uuid X (mq_speaker_id v),
         optional_range (mq_start_ms v) (mq_end_ms v) ''invalid manual fact-check timestamp range'',
         typed_error (mq_error v),
         if mq_status v = ManualComplete \<and> mq_error v \<noteq> None
         then Some (Validation ''completed manual fact-check request cannot have an error'') else None] @
        context_turn_errors X {} (mq_context_turns v) @
        source_segment_errors X {} (mq_source_segment_ids v))"

definition claim_version_errors :: "meeting_ext \<Rightarrow> ClaimVersionUpsert \<Rightarrow> MeetingError option list" where
  "claim_version_errors X v =
     [uuid X (cv_claim_id v),
      uuid X (cv_claim_version_id v),
      optional_uuid X (cv_manual_request_id v),
      if cv_manual_request_id v \<noteq> None \<and> cv_origin v \<noteq> ManualClaim
      then Some (Validation ''automatic claim cannot reference a manual request'') else None,
      if cv_version_number v = 0 then Some (Validation ''invalid claim version number'') else None,
      optional_uuid X (cv_predecessor_id v),
      optional_uuid X (cv_superseded_by_id v),
      optional_uuid X (cv_source_transcript_version_id v),
      optional_uuid X (cv_speaker_id v),
      optional (cv_duplicate_key v) 512 ''invalid claim duplicate key'',
      nonempty (cv_exact_quote v) MAX_CLAIM_BYTES ''invalid claim quote'',
      nonempty (cv_normalized_claim v) MAX_CLAIM_BYTES ''invalid normalized claim'',
      optional (cv_selection_rationale v) 2048 ''invalid claim selection rationale'',
      score (cv_consequence_score v),
      score (cv_dispute_score v),
      score (cv_specificity_score v),
      optional_range (cv_start_ms v) (cv_end_ms v) ''invalid claim timestamp range'',
      if 256 < length (cv_segment_ids v) then Some (Validation ''too many claim segment references'') else None] @
     map (uuid X) (cv_segment_ids v)"

fun gate_turn_errors :: "meeting_ext \<Rightarrow> string set \<Rightarrow> GateTurn list \<Rightarrow> MeetingError option list" where
  "gate_turn_errors X seen [] = []"
| "gate_turn_errors X seen (t # ts) =
     turn_checks X ''invalid claim gate turn text'' t @
     [if sint (gt_revision_number t) < 0 then Some (Validation ''invalid claim gate turn revision'') else None,
      if gt_id t \<in> seen then Some (Validation ''duplicate claim gate segment'') else None] @
     gate_turn_errors X (insert (gt_id t) seen) ts"

fun gate_batch_errors ::
  "meeting_ext \<Rightarrow> string set \<Rightarrow> string set \<Rightarrow> GateBatchBegin list \<Rightarrow> MeetingError option list" where
  "gate_batch_errors X ids keys [] = []"
| "gate_batch_errors X ids keys (b # bs) =
     [uuid X (gb_id b),
      nonempty (gb_idempotency_key b) 512 ''invalid claim gate idempotency key'',
      if gb_turns b = [] \<or> 256 < length (gb_turns b)
      then Some (Validation ''invalid claim gate batch segments'') else None,
      if gb_id b \<in> ids \<or> gb_idempotency_key b \<in> keys then Some (Validation ''duplicate claim gate batch'') else None] @
     gate_turn_errors X {} (gb_turns b) @
     gate_batch_errors X (insert (gb_id b) ids) (insert (gb_idempotency_key b) keys) bs"

record ClaimsRequest =
  cq_meeting_id :: string
  cq_manual_requests :: "ManualRequestUpsert list"
  cq_claim_versions :: "ClaimVersionUpsert list"
  cq_mark_stale :: "string list"
  cq_begin_batches :: "GateBatchBegin list"
  cq_complete_batches :: "string list"

definition validate_claims_request :: "meeting_ext \<Rightarrow> ClaimsRequest \<Rightarrow> MeetingError option" where
  "validate_claims_request X r =
     first_error
       ([uuid X (cq_meeting_id r),
         if 64 < length (cq_claim_versions r) \<or> 64 < length (cq_manual_requests r) \<or> 64 < length (cq_mark_stale r) \<or>
            64 < length (cq_begin_batches r) \<or> 64 < length (cq_complete_batches r)
         then Some (Validation ''claim batch is too large'') else None] @
        map (validate_manual_fact_check_request X) (cq_manual_requests r) @
        concat (map (claim_version_errors X) (cq_claim_versions r)) @
        map (uuid X) (cq_mark_stale r) @
        gate_batch_errors X {} {} (cq_begin_batches r) @
        map (uuid X) (cq_complete_batches r))"

subsection \<open>Research and refinement\<close>

definition validate_research_job :: "meeting_ext \<Rightarrow> ResearchJobUpsert \<Rightarrow> MeetingError option" where
  "validate_research_job X v =
     first_error
       [uuid X (rj_id v), uuid X (rj_claim_version_id v),
        nonempty (rj_idempotency_key v) 512 ''invalid research idempotency key'',
        optional (rj_gateway_job_id v) 512 ''invalid gateway job identifier'',
        typed_error (rj_error v),
        validate_optional_time (rj_next_retry_at_ms v),
        validate_optional_time (rj_started_at_ms v),
        validate_optional_time (rj_completed_at_ms v)]"

definition validate_refinement_job :: "meeting_ext \<Rightarrow> RefinementJobUpsert \<Rightarrow> MeetingError option" where
  "validate_refinement_job X v =
     first_error
       [uuid X (fj_id v), uuid X (fj_source_transcript_version_id v),
        nonempty (fj_input_manifest_checksum v) 512 ''invalid refinement manifest checksum'',
        nonempty (fj_provider v) 128 ''invalid refinement provider'',
        nonempty (fj_model v) 256 ''invalid refinement model'',
        optional (fj_gateway_job_id v) 512 ''invalid gateway job identifier'',
        nonempty (fj_idempotency_key v) 512 ''invalid refinement idempotency key'',
        json_size X (fj_usage v),
        typed_error (fj_error v),
        if (case fj_latency_ms v of Some l \<Rightarrow> l < 0 | None \<Rightarrow> False)
        then Some (Validation ''invalid refinement latency'') else None,
        validate_optional_time (fj_next_retry_at_ms v),
        validate_optional_time (fj_started_at_ms v),
        validate_optional_time (fj_completed_at_ms v)]"

fun source_errors ::
  "meeting_ext \<Rightarrow> string set \<Rightarrow> string set \<Rightarrow> string set \<Rightarrow> SourceInput list \<Rightarrow> MeetingError option list" where
  "source_errors X ids keys urls [] = []"
| "source_errors X ids keys urls (s # ss) =
     [uuid X (so_id s),
      nonempty (so_citation_key s) 128 ''invalid citation key'',
      source_url X (so_url s),
      source_url X (so_canonical_url s),
      nonempty (so_publisher s) 512 ''invalid source publisher'',
      nonempty (so_title s) 2048 ''invalid source title'',
      optional (so_publication_date s) 64 ''invalid publication date'',
      validate_optional_time (Some (so_accessed_at_ms s)),
      nonempty (so_evidence_excerpt s) (8 * 1024) ''invalid evidence excerpt'',
      score (so_quality_score s),
      nonempty (so_quality_rationale s) 4096 ''invalid source quality rationale'',
      if so_id s \<in> ids \<or> so_citation_key s \<in> keys \<or> so_canonical_url s \<in> urls
      then Some (Validation ''duplicate assessment source'') else None] @
     source_errors X (insert (so_id s) ids) (insert (so_citation_key s) keys) (insert (so_canonical_url s) urls) ss"

definition assessment_statements :: "AssessmentApply \<Rightarrow> MeetingStatement list" where
  "assessment_statements v =
     as_conclusion v @ as_support v @ as_contradiction v @ as_caveats v @ as_limitations v"

definition validate_assessment :: "meeting_ext \<Rightarrow> AssessmentApply \<Rightarrow> MeetingError option" where
  "validate_assessment X v =
     first_error
       ([uuid X (as_id v), uuid X (as_claim_version_id v),
         if as_attempt_number v = 0 then Some (Validation ''invalid assessment attempt'') else None,
         optional_uuid X (as_supersedes_id v),
         timestamp_range (as_started_at_ms v) (Some (as_completed_at_ms v)),
         conclusion_statements (as_conclusion v),
         statements (as_support v), statements (as_contradiction v),
         statements (as_caveats v), statements (as_limitations v),
         nonempty (as_model_provider v) 128 ''invalid assessment provider'',
         nonempty (as_model v) 256 ''invalid assessment model'',
         optional (as_model_version v) 256 ''invalid assessment model version'',
         json_size X (as_usage v),
         typed_error (as_error v),
         if as_status v \<noteq> AssessmentComplete \<or> as_error v \<noteq> None
         then Some (Validation ''operational failure cannot be stored as an assessment'') else None,
         if (case as_latency_ms v of Some l \<Rightarrow> l < 0 | None \<Rightarrow> False) \<or> 32 < length (as_sources v)
         then Some (Validation ''invalid assessment metadata'') else None] @
        source_errors X {} {} {} (as_sources v) @
        [if as_sources v = [] then Some (Validation ''an assessment requires retrieved evidence'') else None,
         if as_conclusion v = [] then Some (Validation ''assessment conclusion is missing'') else None,
         if list_ex (\<lambda>st. mt_citation_keys st = []) (as_conclusion v) \<and>
            \<not> (as_verdict v = VerdictUnverifiable \<and> as_confidence v = ConfidenceLow \<and> as_support v = [] \<and>
               as_contradiction v = [] \<and> as_caveats v = [] \<and> as_limitations v \<noteq> [])
         then Some (Validation ''uncited conclusion is only valid for an evidence-bounded unverified finding'') else None] @
        map (\<lambda>st. if list_ex (\<lambda>k. k \<notin> so_citation_key ` set (as_sources v)) (mt_citation_keys st)
                   then Some (Validation ''assessment citation is missing a source'') else None)
            (assessment_statements v))"

end
