(* ===== verification/Meeting_Store.thy ===== *)
theory Meeting_Store
  imports Meeting_Validation "HOL-Library.List_Lexorder"
begin

text \<open>
  \<open>goose/src/meetings/store.rs\<close>, first part, over the schema of \<open>meetings/migrations.rs\<close>: the database, meetings, speakers and
  transcripts. A table is a list of rows. A row keeps the submitted value it was written from, next to the
  columns the store adds; enumerations and JSON columns are read back as written. The ordered child tables of a
  row (turns of a batch, segments of a claim, sources of an assessment, assets of a cleanup job) are lists in it.
  An operation is a transaction: it gives the new database, or an error and leaves the old one. The
  constraints of the schema that a statement can violate are part of it: a unique key that is mapped to a conflict
  gives \<open>Conflict\<close>, every other violation \<open>Database\<close>. During one call the clock \<open>mx_now\<close> stands still and \<open>mx_id\<close>
  numbers the identifiers it draws.
\<close>

subsection \<open>Rows\<close>

record MeetingRow =
  me_id :: string
  me_title :: string
  me_artifact_type :: ArtifactType
  me_mode :: MeetingMode
  me_status :: LifecycleStatus
  me_started_at_ms :: i64
  me_ended_at_ms :: "i64 option"
  me_capture_config :: CaptureConfig
  me_canonical_version :: "string option"
  me_capture_status :: CaptureStatus
  me_refinement_status :: RefinementStatus
  me_research_status :: ResearchStatus
  me_error :: "TypedError option"
  me_deleted_at_ms :: "i64 option"
  me_created_at_ms :: i64
  me_updated_at_ms :: i64

record SpeakerRow =
  sp_id :: string
  sp_meeting_id :: string
  sp_default_label :: string
  sp_display_name :: "string option"
  sp_display_name_source :: "string option"
  sp_manual_assignment_lock :: bool
  sp_source_hint :: "AudioSourceKind option"
  sp_created_at_ms :: i64
  sp_updated_at_ms :: i64

record VersionRow =
  vw_meeting_id :: string
  vw_value :: VersionUpsert
  vw_created_at_ms :: i64
  vw_updated_at_ms :: i64

record ObservationRow =
  ow_meeting_id :: string
  ow_value :: ObservationUpsert
  ow_created_at_ms :: i64
  ow_updated_at_ms :: i64

record SegmentRow =
  sg_meeting_id :: string
  sg_value :: SegmentUpsert
  sg_content_hash :: string
  sg_created_at_ms :: i64
  sg_updated_at_ms :: i64

record GateRow =
  gr_meeting_id :: string
  gr_segment_id :: string
  gr_queued :: i64
  gr_processed :: "i64 option"
  gr_enqueued_at_ms :: i64
  gr_processed_at_ms :: "i64 option"

record BatchRow =
  br_id :: string
  br_meeting_id :: string
  br_idempotency_key :: string
  br_turns :: "GateTurn list"
  br_processed_at_ms :: "i64 option"
  br_created_at_ms :: i64

record ManualRow =
  mw_meeting_id :: string
  mw_value :: ManualRequestUpsert
  mw_content_hash :: string
  mw_created_at_ms :: i64
  mw_updated_at_ms :: i64

record ClaimRow =
  cl_id :: string
  cl_meeting_id :: string
  cl_manual_request_id :: "string option"
  cl_origin :: ClaimOrigin
  cl_duplicate_key :: "string option"
  cl_status :: ClaimStatus
  cl_current :: "string option"
  cl_created_at_ms :: i64
  cl_updated_at_ms :: i64

record ClaimVersionRow =
  cw_value :: ClaimVersionUpsert
  cw_content_hash :: string
  cw_created_at_ms :: i64

record AssessmentRow =
  aw_value :: AssessmentApply
  aw_current :: bool
  aw_created_at_ms :: i64

record ResearchJobRow =
  jw_value :: ResearchJobUpsert
  jw_created_at_ms :: i64
  jw_updated_at_ms :: i64

record RefinementJobRow =
  fw_meeting_id :: string
  fw_value :: RefinementJobUpsert
  fw_created_at_ms :: i64
  fw_updated_at_ms :: i64

record InputRow =
  iw_value :: RefinementInput
  iw_created_at_ms :: i64

record AssetRow =
  aa_meeting_id :: string
  aa_relative_path :: string
  aa_value :: AudioAssetUpsert
  aa_created_at_ms :: i64
  aa_updated_at_ms :: i64

record EventRow =
  ew_meeting_id :: string
  ew_value :: TimelineEventUpsert
  ew_created_at_ms :: i64

record CleanupRow =
  cj_id :: string
  cj_meeting_id :: string
  cj_local_status :: CleanupStatus
  cj_gateway_status :: CleanupStatus
  cj_provider_status :: CleanupStatus
  cj_assets :: "(string \<times> string) list"
  cj_attempt_count :: i64
  cj_next_retry_at_ms :: "i64 option"
  cj_error :: "TypedError option"
  cj_created_at_ms :: i64
  cj_updated_at_ms :: i64

record MeetingDb =
  db_meetings :: "MeetingRow list"
  db_speakers :: "SpeakerRow list"
  db_versions :: "VersionRow list"
  db_observations :: "ObservationRow list"
  db_segments :: "SegmentRow list"
  db_replacements :: "(string \<times> string) list"
  db_assets :: "AssetRow list"
  db_events :: "EventRow list"
  db_claims :: "ClaimRow list"
  db_claim_versions :: "ClaimVersionRow list"
  db_assessments :: "AssessmentRow list"
  db_research_jobs :: "ResearchJobRow list"
  db_refinement_jobs :: "RefinementJobRow list"
  db_inputs :: "InputRow list"
  db_cleanup_jobs :: "CleanupRow list"
  db_gate :: "GateRow list"
  db_batches :: "BatchRow list"
  db_manual_requests :: "ManualRow list"

type_synonym mtx = "MeetingDb \<Rightarrow> MeetingError + MeetingDb"

subsection \<open>Statements\<close>

fun tx_all :: "('s \<Rightarrow> 'e + 's) list \<Rightarrow> 's \<Rightarrow> 'e + 's" where
  "tx_all [] s = Inr s"
| "tx_all (t # ts) s = (case t s of Inl e \<Rightarrow> Inl e | Inr s' \<Rightarrow> tx_all ts s')"

definition checked :: "'e option \<Rightarrow> 's \<Rightarrow> 'e + 's" where
  "checked e s = (case e of Some x \<Rightarrow> Inl x | None \<Rightarrow> Inr s)"

definition require :: "('s \<Rightarrow> bool) \<Rightarrow> 'e \<Rightarrow> 's \<Rightarrow> 'e + 's" where
  "require p e s = (if p s then Inr s else Inl e)"

definition update_where :: "('a \<Rightarrow> bool) \<Rightarrow> ('a \<Rightarrow> 'a) \<Rightarrow> 'a list \<Rightarrow> 'a list" where
  "update_where p f xs = map (\<lambda>x. if p x then f x else x) xs"

definition touch_meeting :: "meeting_ext \<Rightarrow> string \<Rightarrow> mtx" where
  "touch_meeting X mid db =
     Inr (db\<lparr>db_meetings := update_where (\<lambda>m. me_id m = mid) (\<lambda>m. m\<lparr>me_updated_at_ms := mx_now X\<rparr>) (db_meetings db)\<rparr>)"

subsection \<open>Meetings\<close>

definition get_meeting :: "MeetingDb \<Rightarrow> string \<Rightarrow> bool \<Rightarrow> MeetingError + MeetingRow" where
  "get_meeting db mid include_deleted =
     (case find (\<lambda>m. me_id m = mid \<and> (include_deleted \<or> me_deleted_at_ms m = None)) (db_meetings db) of
        Some m \<Rightarrow> Inr m
      | None \<Rightarrow> Inl NotFound)"

definition meeting_open :: "string \<Rightarrow> mtx" where
  "meeting_open mid db = (case get_meeting db mid False of Inl e \<Rightarrow> Inl e | Inr _ \<Rightarrow> Inr db)"

record CreateRequest =
  cr_title :: "string option"
  cr_artifact_type :: ArtifactType
  cr_mode :: MeetingMode
  cr_started_at_ms :: i64
  cr_capture_config :: CaptureConfig
  cr_initial_speakers :: "SpeakerInput list"

definition create_title :: "string option \<Rightarrow> string" where
  "create_title t =
     (case t of Some s \<Rightarrow> if trim s = [] then ''Untitled meeting'' else trim s | None \<Rightarrow> ''Untitled meeting'')"

definition insert_meeting :: "meeting_ext \<Rightarrow> CreateRequest \<Rightarrow> mtx" where
  "insert_meeting X r db =
     (if list_ex (\<lambda>m. me_id m = mx_id X 0) (db_meetings db) then Inl Database
      else Inr (db\<lparr>db_meetings := db_meetings db @
        [\<lparr>me_id = mx_id X 0, me_title = create_title (cr_title r), me_artifact_type = cr_artifact_type r,
          me_mode = cr_mode r,
          me_status = (if cr_artifact_type r = TextCheck then LifeComplete else LifeRecording),
          me_started_at_ms = cr_started_at_ms r, me_ended_at_ms = None, me_capture_config = cr_capture_config r,
          me_canonical_version = None,
          me_capture_status = (if cr_artifact_type r = TextCheck then CaptureComplete else CaptureActive),
          me_refinement_status = RefinementNotStarted, me_research_status = ResearchNotStarted, me_error = None,
          me_deleted_at_ms = None, me_created_at_ms = mx_now X, me_updated_at_ms = mx_now X\<rparr>]\<rparr>))"

definition live_version_value :: "meeting_ext \<Rightarrow> CreateRequest \<Rightarrow> VersionUpsert" where
  "live_version_value X r =
     \<lparr>tv_id = mx_id X 1, tv_kind = LiveVersion, tv_status = VersionActive, tv_revision_number = 1,
      tv_provider = Some ''assemblyai'', tv_model = None, tv_gateway_job_id = None, tv_parent_version_id = None,
      tv_input_audio_checksum = None, tv_detected_language = None, tv_reconciliation_metadata = None,
      tv_started_at_ms = Some (cr_started_at_ms r), tv_completed_at_ms = None, tv_error = None\<rparr>"

definition insert_live_version :: "meeting_ext \<Rightarrow> CreateRequest \<Rightarrow> mtx" where
  "insert_live_version X r db =
     (if list_ex (\<lambda>v. tv_id (vw_value v) = mx_id X 1) (db_versions db) then Inl Database
      else Inr (db\<lparr>db_versions := db_versions db @
        [\<lparr>vw_meeting_id = mx_id X 0, vw_value = live_version_value X r, vw_created_at_ms = mx_now X,
          vw_updated_at_ms = mx_now X\<rparr>]\<rparr>))"

definition set_canonical :: "string \<Rightarrow> string \<Rightarrow> mtx" where
  "set_canonical mid vid db =
     Inr (db\<lparr>db_meetings := update_where (\<lambda>m. me_id m = mid) (\<lambda>m. m\<lparr>me_canonical_version := Some vid\<rparr>) (db_meetings db)\<rparr>)"

definition insert_speaker :: "meeting_ext \<Rightarrow> string \<Rightarrow> string \<Rightarrow> string \<Rightarrow> SpeakerInput \<Rightarrow> mtx" where
  "insert_speaker X mid sid label s db =
     (if list_ex (\<lambda>r. sp_id r = sid \<or> (sp_meeting_id r = mid \<and> sp_default_label r = label)) (db_speakers db) then Inl Conflict
      else Inr (db\<lparr>db_speakers := db_speakers db @
        [\<lparr>sp_id = sid, sp_meeting_id = mid, sp_default_label = label, sp_display_name = map_option trim (si_display_name s),
          sp_display_name_source = si_display_name_source s, sp_manual_assignment_lock = si_manual_assignment_lock s,
          sp_source_hint = si_source_hint s, sp_created_at_ms = mx_now X, sp_updated_at_ms = mx_now X\<rparr>]\<rparr>))"

definition insert_initial_speaker :: "meeting_ext \<Rightarrow> nat \<Rightarrow> SpeakerInput \<Rightarrow> mtx" where
  "insert_initial_speaker X index s =
     (let sid = (case si_id s of Some i \<Rightarrow> i | None \<Rightarrow> mx_id X (index + 2));
          label = (if trim (si_default_label s) = [] then ''Speaker '' @ show_nat (index + 1) else trim (si_default_label s))
      in tx_all [checked (uuid X sid), insert_speaker X (mx_id X 0) sid label s])"

definition validate_create :: "meeting_ext \<Rightarrow> CreateRequest \<Rightarrow> MeetingError option" where
  "validate_create X r =
     first_error
       ([timestamp_range (cr_started_at_ms r) None,
         optional (cr_title r) 512 ''invalid meeting title'',
         json_size X (Some (mx_config_json X (cr_capture_config r))),
         if 128 < length (cr_initial_speakers r) then Some (Validation ''too many speakers'') else None,
         validate_capture_config (cr_capture_config r)] @
        map (validate_speaker_input X) (cr_initial_speakers r))"

definition create_meeting :: "meeting_ext \<Rightarrow> CreateRequest \<Rightarrow> mtx" where
  "create_meeting X r =
     tx_all ([checked (validate_create X r), insert_meeting X r, insert_live_version X r,
              set_canonical (mx_id X 0) (mx_id X 1)] @
             map (\<lambda>(i, s). insert_initial_speaker X i s) (enumerate 0 (cr_initial_speakers r)))"

record UpdateRequest =
  uq_meeting_id :: string
  uq_title :: "string option"
  uq_status :: "LifecycleStatus option"
  uq_ended_at_ms :: "i64 option"
  uq_capture_status :: "CaptureStatus option"
  uq_refinement_status :: "RefinementStatus option"
  uq_research_status :: "ResearchStatus option"
  uq_error :: "TypedError option"
  uq_clear_error :: bool

definition or_else :: "'a option \<Rightarrow> 'a option \<Rightarrow> 'a option" where
  "or_else a b = (case a of Some x \<Rightarrow> Some x | None \<Rightarrow> b)"

definition updated_meeting :: "meeting_ext \<Rightarrow> UpdateRequest \<Rightarrow> MeetingRow \<Rightarrow> MeetingRow \<Rightarrow> MeetingRow" where
  "updated_meeting X r existing m =
     m\<lparr>me_title := trim (case uq_title r of Some t \<Rightarrow> t | None \<Rightarrow> me_title existing),
       me_status := (case uq_status r of Some s \<Rightarrow> s | None \<Rightarrow> me_status existing),
       me_ended_at_ms := or_else (uq_ended_at_ms r) (me_ended_at_ms existing),
       me_capture_status := (case uq_capture_status r of Some s \<Rightarrow> s | None \<Rightarrow> me_capture_status existing),
       me_refinement_status := (case uq_refinement_status r of Some s \<Rightarrow> s | None \<Rightarrow> me_refinement_status existing),
       me_research_status := (case uq_research_status r of Some s \<Rightarrow> s | None \<Rightarrow> me_research_status existing),
       me_error := (if uq_clear_error r then None else or_else (uq_error r) (me_error existing)),
       me_updated_at_ms := mx_now X\<rparr>"

definition update_meeting :: "meeting_ext \<Rightarrow> UpdateRequest \<Rightarrow> mtx" where
  "update_meeting X r db =
     (case first_error [uuid X (uq_meeting_id r), optional (uq_title r) 512 ''invalid meeting title'', typed_error (uq_error r)] of
        Some e \<Rightarrow> Inl e
      | None \<Rightarrow>
          (case get_meeting db (uq_meeting_id r) False of
             Inl e \<Rightarrow> Inl e
           | Inr existing \<Rightarrow>
               (case timestamp_range (me_started_at_ms existing) (or_else (uq_ended_at_ms r) (me_ended_at_ms existing)) of
                  Some e \<Rightarrow> Inl e
                | None \<Rightarrow>
                    Inr (db\<lparr>db_meetings :=
                      update_where (\<lambda>m. me_id m = uq_meeting_id r \<and> me_deleted_at_ms m = None)
                        (updated_meeting X r existing) (db_meetings db)\<rparr>))))"

subsection \<open>Listing meetings\<close>

definition list_speakers :: "MeetingDb \<Rightarrow> string \<Rightarrow> SpeakerRow list" where
  "list_speakers db mid =
     sort_key (\<lambda>r. (sp_created_at_ms r, map byte (sp_default_label r), map byte (sp_id r)))
       (filter (\<lambda>r. sp_meeting_id r = mid) (db_speakers db))"

record ListRequest =
  lq_artifact_type :: "ArtifactType option"
  lq_statuses :: "LifecycleStatus list"
  lq_query :: "string option"
  lq_cursor :: "(i64 \<times> string) option"
  lq_limit :: "nat option"

record ListItem =
  li_meeting :: MeetingRow
  li_duration_ms :: "i64 option"
  li_speaker_names :: "string list"
  li_claim_count :: nat
  li_completed_research_count :: nat
  li_total_research_count :: nat

definition list_key :: "MeetingRow \<Rightarrow> i64 \<times> nat list" where
  "list_key m = (me_updated_at_ms m, map byte (me_id m))"

definition text_matches :: "string \<Rightarrow> string \<Rightarrow> bool" where
  "text_matches query text = str_contains (to_ascii_lowercase query) (to_ascii_lowercase text)"

definition list_matches :: "MeetingDb \<Rightarrow> ListRequest \<Rightarrow> MeetingRow \<Rightarrow> bool" where
  "list_matches db r m =
     (me_deleted_at_ms m = None \<and>
      (case lq_artifact_type r of Some t \<Rightarrow> me_artifact_type m = t | None \<Rightarrow> True) \<and>
      (lq_statuses r = [] \<or> me_status m \<in> set (lq_statuses r)) \<and>
      (case map_option trim (lq_query r) of
         Some q \<Rightarrow> q = [] \<or> text_matches q (me_title m) \<or>
           list_ex (\<lambda>s. sg_meeting_id s = me_id m \<and> text_matches q (ts_text (sg_value s))) (db_segments db)
       | None \<Rightarrow> True))"

definition before_cursor :: "ListRequest \<Rightarrow> MeetingRow \<Rightarrow> bool" where
  "before_cursor r m = (case lq_cursor r of Some (t, i) \<Rightarrow> list_key m < (t, map byte i) | None \<Rightarrow> True)"

definition page_limit :: "ListRequest \<Rightarrow> nat" where
  "page_limit r = (case lq_limit r of Some n \<Rightarrow> max 1 (min n 200) | None \<Rightarrow> 50)"

definition saturating_sub_i64 :: "i64 \<Rightarrow> i64 \<Rightarrow> i64" where
  "saturating_sub_i64 a b = max (- (2 ^ 63)) (min (a - b) (2 ^ 63 - 1))"

definition research_count :: "MeetingDb \<Rightarrow> string \<Rightarrow> (ResearchJobRow \<Rightarrow> bool) \<Rightarrow> nat" where
  "research_count db mid p =
     length (filter (\<lambda>j. p j \<and> list_ex (\<lambda>v. cv_claim_version_id (cw_value v) = rj_claim_version_id (jw_value j) \<and>
         list_ex (\<lambda>c. cl_id c = cv_claim_id (cw_value v) \<and> cl_meeting_id c = mid) (db_claims db)) (db_claim_versions db))
       (db_research_jobs db))"

definition list_item :: "MeetingDb \<Rightarrow> MeetingRow \<Rightarrow> ListItem" where
  "list_item db m =
     \<lparr>li_meeting = m,
      li_duration_ms = map_option (\<lambda>e. saturating_sub_i64 e (me_started_at_ms m)) (me_ended_at_ms m),
      li_speaker_names =
        map (\<lambda>s. case sp_display_name s of Some n \<Rightarrow> n | None \<Rightarrow> sp_default_label s) (list_speakers db (me_id m)),
      li_claim_count = length (filter (\<lambda>c. cl_meeting_id c = me_id m) (db_claims db)) mod 2 ^ 32,
      li_completed_research_count = research_count db (me_id m) (\<lambda>j. rj_status (jw_value j) = JobComplete) mod 2 ^ 32,
      li_total_research_count = research_count db (me_id m) (\<lambda>_. True) mod 2 ^ 32\<rparr>"

definition validate_list :: "meeting_ext \<Rightarrow> ListRequest \<Rightarrow> MeetingError option" where
  "validate_list X r =
     first_error
       ([if 16 < length (lq_statuses r) then Some (Validation ''too many status filters'') else None,
         optional (lq_query r) 256 ''invalid meeting search query''] @
        (case lq_cursor r of
           Some (t, i) \<Rightarrow> [uuid X i, if t < 0 then Some (Validation ''invalid meeting list cursor'') else None]
         | None \<Rightarrow> []))"

definition page_rows :: "MeetingDb \<Rightarrow> ListRequest \<Rightarrow> MeetingRow list" where
  "page_rows db r =
     rev (sort_key list_key (filter (\<lambda>m. list_matches db r m \<and> before_cursor r m) (db_meetings db)))"

definition list_meetings ::
  "meeting_ext \<Rightarrow> MeetingDb \<Rightarrow> ListRequest \<Rightarrow> MeetingError + (ListItem list \<times> (i64 \<times> string) option)" where
  "list_meetings X db r =
     (case validate_list X r of
        Some e \<Rightarrow> Inl e
      | None \<Rightarrow>
          (let limit = page_limit r;
               rows = take (limit + 1) (page_rows db r);
               items = map (list_item db) (take limit rows);
               next_cursor = limit < length rows \<and> items \<noteq> []
           in Inr (items,
                   if next_cursor
                   then (let m = li_meeting (last items) in Some (me_updated_at_ms m, me_id m)) else None)))"

end
