(* ===== verification/Meeting_Transcript.thy ===== *)
theory Meeting_Transcript
  imports Meeting_Store
begin

text \<open>
  \<open>meetings/store.rs\<close>, second part: speakers, transcript versions, segments and observations. A segment is identified by
  its provider's turn within a version; a submission with a higher revision replaces it, any other is
  ignored. Final segments of the live transcript enter the queue of the claim gate.
\<close>

subsection \<open>Speakers\<close>

definition speaker_exists :: "string \<Rightarrow> string \<Rightarrow> MeetingDb \<Rightarrow> bool" where
  "speaker_exists mid sid db = list_ex (\<lambda>r. sp_id r = sid \<and> sp_meeting_id r = mid) (db_speakers db)"

definition ensure_speaker :: "string \<Rightarrow> string \<Rightarrow> mtx" where
  "ensure_speaker mid sid = require (speaker_exists mid sid) NotFound"

definition ensure_optional_speaker :: "string \<Rightarrow> string option \<Rightarrow> mtx" where
  "ensure_optional_speaker mid sid = (case sid of Some i \<Rightarrow> ensure_speaker mid i | None \<Rightarrow> Inr)"

text \<open>A name that was assigned by hand is only replaced by another one assigned by hand.\<close>

definition updated_speaker :: "meeting_ext \<Rightarrow> SpeakerInput \<Rightarrow> SpeakerRow \<Rightarrow> SpeakerRow" where
  "updated_speaker X s r =
     (if sp_manual_assignment_lock r \<and> \<not> si_manual_assignment_lock s
      then r\<lparr>sp_default_label := trim (si_default_label s),
             sp_source_hint := or_else (si_source_hint s) (sp_source_hint r), sp_updated_at_ms := mx_now X\<rparr>
      else r\<lparr>sp_default_label := trim (si_default_label s), sp_display_name := map_option trim (si_display_name s),
             sp_display_name_source := si_display_name_source s,
             sp_manual_assignment_lock := si_manual_assignment_lock s, sp_source_hint := si_source_hint s,
             sp_updated_at_ms := mx_now X\<rparr>)"

definition upsert_speaker :: "meeting_ext \<Rightarrow> string \<Rightarrow> SpeakerInput \<Rightarrow> mtx" where
  "upsert_speaker X mid s db =
     (let sid = (case si_id s of Some i \<Rightarrow> i | None \<Rightarrow> []); label = trim (si_default_label s)
      in if speaker_exists mid sid db
         then (if list_ex (\<lambda>r. sp_id r \<noteq> sid \<and> sp_meeting_id r = mid \<and> sp_default_label r = label) (db_speakers db)
               then Inl Database
               else Inr (db\<lparr>db_speakers :=
                      update_where (\<lambda>r. sp_id r = sid \<and> sp_meeting_id r = mid) (updated_speaker X s) (db_speakers db)\<rparr>))
         else insert_speaker X mid sid label s db)"

definition with_name_of :: "meeting_ext \<Rightarrow> SpeakerRow \<Rightarrow> SpeakerRow \<Rightarrow> SpeakerRow" where
  "with_name_of X source r =
     r\<lparr>sp_display_name := sp_display_name source, sp_display_name_source := sp_display_name_source source,
       sp_manual_assignment_lock := sp_manual_assignment_lock source, sp_updated_at_ms := mx_now X\<rparr>"

definition find_speaker :: "string \<Rightarrow> string \<Rightarrow> MeetingDb \<Rightarrow> SpeakerRow option" where
  "find_speaker mid sid db = find (\<lambda>r. sp_id r = sid \<and> sp_meeting_id r = mid) (db_speakers db)"

definition swap_speakers :: "meeting_ext \<Rightarrow> string \<Rightarrow> SpeakerSwap \<Rightarrow> mtx" where
  "swap_speakers X mid swap =
     tx_all
       [checked (first_error [uuid X (sw_first swap), uuid X (sw_second swap),
          if sw_first swap = sw_second swap then Some (Validation ''speaker swap identifiers must differ'') else None]),
        (\<lambda>db. case (find_speaker mid (sw_first swap) db, find_speaker mid (sw_second swap) db) of
            (Some a, Some b) \<Rightarrow>
              Inr (db\<lparr>db_speakers :=
                update_where (\<lambda>r. sp_id r = sw_second swap \<and> sp_meeting_id r = mid) (with_name_of X a)
                  (update_where (\<lambda>r. sp_id r = sw_first swap \<and> sp_meeting_id r = mid) (with_name_of X b) (db_speakers db))\<rparr>)
          | _ \<Rightarrow> Inl NotFound)]"

definition assign_segment_speaker :: "meeting_ext \<Rightarrow> string \<Rightarrow> SegmentSpeakerUpdate \<Rightarrow> mtx" where
  "assign_segment_speaker X mid u =
     tx_all
       [checked (first_error [uuid X (su_segment_id u), uuid X (su_speaker_id u)]),
        require (\<lambda>db. list_ex (\<lambda>s. ts_id (sg_value s) = su_segment_id u \<and> sg_meeting_id s = mid) (db_segments db) \<and>
                      speaker_exists mid (su_speaker_id u) db) NotFound,
        (\<lambda>db. Inr (db\<lparr>db_segments :=
           update_where (\<lambda>s. ts_id (sg_value s) = su_segment_id u \<and> sg_meeting_id s = mid)
             (\<lambda>s. s\<lparr>sg_value := (sg_value s)\<lparr>ts_speaker_id := Some (su_speaker_id u)\<rparr>, sg_updated_at_ms := mx_now X\<rparr>)
             (db_segments db)\<rparr>))]"

record SpeakersRequest =
  pq_meeting_id :: string
  pq_speakers :: "SpeakerInput list"
  pq_swaps :: "SpeakerSwap list"
  pq_segment_updates :: "SegmentSpeakerUpdate list"

definition required_speaker_errors :: "meeting_ext \<Rightarrow> SpeakerInput \<Rightarrow> MeetingError option list" where
  "required_speaker_errors X s =
     [validate_speaker_input X s,
      case si_id s of Some i \<Rightarrow> uuid X i | None \<Rightarrow> Some (Validation ''speaker identifier is required'')]"

definition apply_speakers :: "meeting_ext \<Rightarrow> SpeakersRequest \<Rightarrow> mtx" where
  "apply_speakers X r =
     tx_all
       ([checked (first_error [uuid X (pq_meeting_id r),
           if 128 < length (pq_speakers r) \<or> 128 < length (pq_swaps r) \<or> 256 < length (pq_segment_updates r)
           then Some (Validation ''speaker update batch is too large'') else None]),
         meeting_open (pq_meeting_id r),
         checked (first_error (concat (map (required_speaker_errors X) (pq_speakers r))))] @
        map (upsert_speaker X (pq_meeting_id r)) (pq_speakers r) @
        map (swap_speakers X (pq_meeting_id r)) (pq_swaps r) @
        map (assign_segment_speaker X (pq_meeting_id r)) (pq_segment_updates r) @
        [touch_meeting X (pq_meeting_id r)])"

subsection \<open>Transcript versions\<close>

definition version_exists :: "string \<Rightarrow> string \<Rightarrow> MeetingDb \<Rightarrow> bool" where
  "version_exists mid vid db = list_ex (\<lambda>v. tv_id (vw_value v) = vid \<and> vw_meeting_id v = mid) (db_versions db)"

definition find_version :: "string \<Rightarrow> MeetingDb \<Rightarrow> VersionRow option" where
  "find_version vid db = find (\<lambda>v. tv_id (vw_value v) = vid) (db_versions db)"

definition same_version :: "string \<Rightarrow> VersionUpsert \<Rightarrow> VersionRow \<Rightarrow> bool" where
  "same_version mid v row =
     (vw_meeting_id row = mid \<and> tv_kind (vw_value row) = tv_kind v \<and>
      sint (tv_revision_number (vw_value row)) = sint (tv_revision_number v))"

definition merged_version :: "meeting_ext \<Rightarrow> VersionUpsert \<Rightarrow> VersionRow \<Rightarrow> VersionRow" where
  "merged_version X v row =
     row\<lparr>vw_value := v\<lparr>tv_started_at_ms := or_else (tv_started_at_ms v) (tv_started_at_ms (vw_value row))\<rparr>,
         vw_updated_at_ms := mx_now X\<rparr>"

definition parent_missing :: "VersionUpsert \<Rightarrow> MeetingDb \<Rightarrow> bool" where
  "parent_missing v db =
     (case tv_parent_version_id v of
        None \<Rightarrow> False
      | Some p \<Rightarrow> p \<noteq> tv_id v \<and> find_version p db = None)"

definition upsert_transcript_version :: "meeting_ext \<Rightarrow> string \<Rightarrow> VersionUpsert \<Rightarrow> mtx" where
  "upsert_transcript_version X mid v db =
     (case find_version (tv_id v) db of
        Some row \<Rightarrow>
          if \<not> same_version mid v row then Inl Conflict
          else if sint (tv_revision_number v) < 0 \<or> parent_missing v db then Inl Database
          else Inr (db\<lparr>db_versions := update_where (\<lambda>r. tv_id (vw_value r) = tv_id v) (merged_version X v) (db_versions db)\<rparr>)
      | None \<Rightarrow>
          if sint (tv_revision_number v) < 0 \<or> parent_missing v db \<or> list_ex (same_version mid v) (db_versions db)
          then Inl Database
          else Inr (db\<lparr>db_versions := db_versions db @
                 [\<lparr>vw_meeting_id = mid, vw_value = v, vw_created_at_ms = mx_now X, vw_updated_at_ms = mx_now X\<rparr>]\<rparr>))"

subsection \<open>Segments\<close>

definition segment_identity :: "SegmentUpsert \<Rightarrow> string \<times> string \<times> string \<times> string" where
  "segment_identity s =
     (ts_transcript_version_id s, ts_provider s, ts_provider_namespace s, ts_provider_turn_id s)"

definition same_segment :: "string \<Rightarrow> SegmentUpsert \<Rightarrow> SegmentRow \<Rightarrow> bool" where
  "same_segment mid s row = (sg_meeting_id row = mid \<and> segment_identity (sg_value row) = segment_identity s)"

definition find_segment :: "string \<Rightarrow> MeetingDb \<Rightarrow> SegmentRow option" where
  "find_segment i db = find (\<lambda>r. ts_id (sg_value r) = i) (db_segments db)"

definition replace_segment :: "meeting_ext \<Rightarrow> string \<Rightarrow> SegmentUpsert \<Rightarrow> mtx" where
  "replace_segment X mid s db =
     (if sint (ts_revision_number s) < 0 then Inl Database
      else case find_segment (ts_id s) db of
        Some _ \<Rightarrow>
          Inr (db\<lparr>db_segments := update_where (\<lambda>r. ts_id (sg_value r) = ts_id s)
            (\<lambda>r. r\<lparr>sg_value := s, sg_content_hash := mx_segment_hash X s, sg_updated_at_ms := mx_now X\<rparr>) (db_segments db)\<rparr>)
      | None \<Rightarrow>
          Inr (db\<lparr>db_segments := db_segments db @
            [\<lparr>sg_meeting_id = mid, sg_value = s, sg_content_hash = mx_segment_hash X s, sg_created_at_ms = mx_now X,
              sg_updated_at_ms = mx_now X\<rparr>]\<rparr>))"

definition live_segment :: "string \<Rightarrow> string \<Rightarrow> MeetingDb \<Rightarrow> bool" where
  "live_segment mid i db =
     list_ex (\<lambda>r. ts_id (sg_value r) = i \<and> sg_meeting_id r = mid \<and>
       (case find_version (ts_transcript_version_id (sg_value r)) db of
          Some v \<Rightarrow> tv_kind (vw_value v) = LiveVersion | None \<Rightarrow> False)) (db_segments db)"

definition insert_replacement :: "string \<Rightarrow> string \<Rightarrow> string \<Rightarrow> mtx" where
  "insert_replacement mid i replaced db =
     (if \<not> live_segment mid replaced db then Inl NotFound
      else if (i, replaced) \<in> set (db_replacements db) then Inl Database
      else Inr (db\<lparr>db_replacements := db_replacements db @ [(i, replaced)]\<rparr>))"

text \<open>Writing a segment whose submission was found to be new or a revision: the speaker, the row and the list of the
  live segments it replaces.\<close>

definition write_segment :: "meeting_ext \<Rightarrow> string \<Rightarrow> SegmentUpsert \<Rightarrow> mtx" where
  "write_segment X mid s =
     tx_all
       ([ensure_optional_speaker mid (ts_speaker_id s),
         replace_segment X mid s,
         (\<lambda>db. Inr (db\<lparr>db_replacements := filter (\<lambda>p. fst p \<noteq> ts_id s) (db_replacements db)\<rparr>))] @
        map (insert_replacement mid (ts_id s)) (ts_replaced_live_segment_ids s))"

definition segment_conflicts :: "string \<Rightarrow> SegmentUpsert \<Rightarrow> MeetingDb \<Rightarrow> bool" where
  "segment_conflicts mid s db =
     ((case find_segment (ts_id s) db of Some row \<Rightarrow> \<not> same_segment mid s row | None \<Rightarrow> False) \<or>
      (case find (same_segment mid s) (db_segments db) of Some row \<Rightarrow> ts_id (sg_value row) \<noteq> ts_id s | None \<Rightarrow> False))"

definition upsert_transcript_segment ::
  "meeting_ext \<Rightarrow> string \<Rightarrow> SegmentUpsert \<Rightarrow> MeetingDb \<Rightarrow> MeetingError + (UpsertOutcome \<times> MeetingDb)" where
  "upsert_transcript_segment X mid s db =
     (if segment_conflicts mid s db then Inl Conflict
      else
        (let previous = find (same_segment mid s) (db_segments db)
         in case previous of
              Some row \<Rightarrow>
                if sint (ts_revision_number s) \<le> sint (ts_revision_number (sg_value row))
                then Inr (if sint (ts_revision_number s) = sint (ts_revision_number (sg_value row)) \<and>
                             mx_segment_hash X s = sg_content_hash row then Duplicate else StaleIgnored, db)
                else (case write_segment X mid s db of Inl e \<Rightarrow> Inl e | Inr db' \<Rightarrow> Inr (Revised, db'))
            | None \<Rightarrow> (case write_segment X mid s db of Inl e \<Rightarrow> Inl e | Inr db' \<Rightarrow> Inr (Inserted, db'))))"

definition enqueue_claim_gate_segment :: "meeting_ext \<Rightarrow> string \<Rightarrow> string \<Rightarrow> i64 \<Rightarrow> mtx" where
  "enqueue_claim_gate_segment X mid sid revision db =
     (if list_ex (\<lambda>g. gr_meeting_id g = mid \<and> gr_segment_id g = sid) (db_gate db)
      then Inr (db\<lparr>db_gate := update_where (\<lambda>g. gr_meeting_id g = mid \<and> gr_segment_id g = sid \<and> gr_queued g < revision)
             (\<lambda>g. g\<lparr>gr_queued := revision, gr_enqueued_at_ms := mx_now X\<rparr>) (db_gate db)\<rparr>)
      else Inr (db\<lparr>db_gate := db_gate db @
             [\<lparr>gr_meeting_id = mid, gr_segment_id = sid, gr_queued = revision, gr_processed = None,
               gr_enqueued_at_ms = mx_now X, gr_processed_at_ms = None\<rparr>]\<rparr>))"

definition final_state :: "SegmentState \<Rightarrow> bool" where
  "final_state s = (s = SegmentFinal \<or> s = SegmentRevised)"

subsection \<open>Observations\<close>

definition observation_identity :: "ObservationUpsert \<Rightarrow> string \<times> string \<times> string \<times> string" where
  "observation_identity v =
     (ob_transcript_version_id v, ob_provider v, ob_provider_namespace v, ob_provider_speaker_label v)"

definition same_observation :: "string \<Rightarrow> ObservationUpsert \<Rightarrow> ObservationRow \<Rightarrow> bool" where
  "same_observation mid v row = (ow_meeting_id row = mid \<and> observation_identity (ow_value row) = observation_identity v)"

definition write_observation :: "meeting_ext \<Rightarrow> string \<Rightarrow> ObservationUpsert \<Rightarrow> mtx" where
  "write_observation X mid v db =
     (if sint (ob_revision_number v) < 0 then Inl Database
      else if list_ex (\<lambda>r. ob_id (ow_value r) = ob_id v) (db_observations db)
      then Inr (db\<lparr>db_observations :=
             update_where (\<lambda>r. ob_id (ow_value r) = ob_id v \<and> sint (ob_revision_number (ow_value r)) < sint (ob_revision_number v))
               (\<lambda>r. r\<lparr>ow_value := v, ow_updated_at_ms := mx_now X\<rparr>) (db_observations db)\<rparr>)
      else Inr (db\<lparr>db_observations := db_observations db @
             [\<lparr>ow_meeting_id = mid, ow_value = v, ow_created_at_ms = mx_now X, ow_updated_at_ms = mx_now X\<rparr>]\<rparr>))"

definition upsert_speaker_observation :: "meeting_ext \<Rightarrow> string \<Rightarrow> ObservationUpsert \<Rightarrow> mtx" where
  "upsert_speaker_observation X mid v =
     tx_all
       [ensure_optional_speaker mid (ob_speaker_id v),
        require (\<lambda>db. (case find (\<lambda>r. ob_id (ow_value r) = ob_id v) (db_observations db) of
                         Some row \<Rightarrow> same_observation mid v row | None \<Rightarrow> True) \<and>
                      (case find (same_observation mid v) (db_observations db) of
                         Some row \<Rightarrow> ob_id (ow_value row) = ob_id v | None \<Rightarrow> True)) Conflict,
        write_observation X mid v]"

subsection \<open>Applying a transcript\<close>

record TranscriptRequest =
  tq_meeting_id :: string
  tq_version :: VersionUpsert
  tq_segments :: "SegmentUpsert list"
  tq_observations :: "ObservationUpsert list"
  tq_promote_canonical :: bool

definition validate_transcript_request :: "meeting_ext \<Rightarrow> TranscriptRequest \<Rightarrow> MeetingError option" where
  "validate_transcript_request X r =
     first_error
       ([uuid X (tq_meeting_id r), validate_transcript_version X (tq_version r),
         if 256 < length (tq_segments r) \<or> 256 < length (tq_observations r)
         then Some (Validation ''transcript batch is too large'') else None] @
        map (validate_transcript_segment X (tv_id (tq_version r))) (tq_segments r) @
        map (validate_speaker_observation X (tv_id (tq_version r))) (tq_observations r))"

type_synonym outcomes = "(string \<times> UpsertOutcome) list"

text \<open>One turn of the loop over the segments; the outcomes so far are passed along.\<close>

definition apply_segment ::
  "meeting_ext \<Rightarrow> string \<Rightarrow> VersionKind \<Rightarrow> SegmentUpsert \<Rightarrow> outcomes \<times> MeetingDb \<Rightarrow> MeetingError + outcomes \<times> MeetingDb" where
  "apply_segment X mid kind s acc =
     (case upsert_transcript_segment X mid s (snd acc) of
        Inl e \<Rightarrow> Inl e
      | Inr (outcome, db) \<Rightarrow>
          (case (if kind = LiveVersion \<and> final_state (ts_state s) \<and> (outcome = Inserted \<or> outcome = Revised)
                 then enqueue_claim_gate_segment X mid (ts_id s) (sint (ts_revision_number s)) db else Inr db) of
             Inl e \<Rightarrow> Inl e
           | Inr db' \<Rightarrow> Inr (fst acc @ [(ts_id s, outcome)], db')))"

definition promote_canonical :: "meeting_ext \<Rightarrow> string \<Rightarrow> VersionUpsert \<Rightarrow> mtx" where
  "promote_canonical X mid v =
     tx_all
       [require (\<lambda>_. tv_status v = VersionComplete) (Validation ''only a complete transcript can become canonical''),
        (\<lambda>db. Inr (db\<lparr>db_meetings :=
           update_where (\<lambda>m. me_id m = mid \<and> me_deleted_at_ms m = None)
             (\<lambda>m. m\<lparr>me_canonical_version := Some (tv_id v), me_updated_at_ms := mx_now X\<rparr>) (db_meetings db)\<rparr>))]"

definition on_db :: "mtx \<Rightarrow> 'a \<times> MeetingDb \<Rightarrow> MeetingError + 'a \<times> MeetingDb" where
  "on_db t acc = (case t (snd acc) of Inl e \<Rightarrow> Inl e | Inr db \<Rightarrow> Inr (fst acc, db))"

definition apply_transcript ::
  "meeting_ext \<Rightarrow> TranscriptRequest \<Rightarrow> MeetingDb \<Rightarrow> MeetingError + outcomes \<times> MeetingDb" where
  "apply_transcript X r db =
     tx_all
       ([on_db (checked (validate_transcript_request X r)), on_db (meeting_open (tq_meeting_id r)),
         on_db (upsert_transcript_version X (tq_meeting_id r) (tq_version r))] @
        map (apply_segment X (tq_meeting_id r) (tv_kind (tq_version r))) (tq_segments r) @
        map (\<lambda>v. on_db (upsert_speaker_observation X (tq_meeting_id r) v)) (tq_observations r) @
        (if tq_promote_canonical r then [on_db (promote_canonical X (tq_meeting_id r) (tq_version r))] else []))
       ([], db)"

end
