(* ===== verification/Meeting_Claims.thy ===== *)
theory Meeting_Claims
  imports Meeting_Transcript
begin

text \<open>
  \<open>meetings/store.rs\<close>, third part: requests for a manual check, the claim gate and the versions of claims. The gate hands
  finished segments to claim detection in batches: a batch is a snapshot of turns, it locks their revisions
  until it is completed, and completing it marks them processed.
\<close>

subsection \<open>Manual requests\<close>

fun manual_fact_check_status_transition_allowed :: "ManualStatus \<Rightarrow> ManualStatus \<Rightarrow> bool" where
  "manual_fact_check_status_transition_allowed ManualQueued _ = True"
| "manual_fact_check_status_transition_allowed ManualProcessing s = (s \<noteq> ManualQueued)"
| "manual_fact_check_status_transition_allowed ManualRetryWait s = (s \<noteq> ManualQueued)"
| "manual_fact_check_status_transition_allowed ManualComplete s = (s = ManualComplete)"
| "manual_fact_check_status_transition_allowed ManualFailed s = (s = ManualFailed)"

definition segment_exists :: "string \<Rightarrow> string \<Rightarrow> MeetingDb \<Rightarrow> bool" where
  "segment_exists mid i db = list_ex (\<lambda>r. ts_id (sg_value r) = i \<and> sg_meeting_id r = mid) (db_segments db)"

definition ensure_meeting_segment :: "string \<Rightarrow> string \<Rightarrow> mtx" where
  "ensure_meeting_segment mid i = require (segment_exists mid i) NotFound"

definition ensure_context_turn :: "string \<Rightarrow> GateTurn \<Rightarrow> mtx" where
  "ensure_context_turn mid t =
     tx_all [if gt_source_kind t \<noteq> AudioText then ensure_meeting_segment mid (gt_id t) else Inr,
             ensure_optional_speaker mid (gt_speaker_id t)]"

definition find_manual :: "string \<Rightarrow> MeetingDb \<Rightarrow> ManualRow option" where
  "find_manual i db = find (\<lambda>r. mq_id (mw_value r) = i) (db_manual_requests db)"

definition write_manual_request :: "meeting_ext \<Rightarrow> string \<Rightarrow> ManualRequestUpsert \<Rightarrow> mtx" where
  "write_manual_request X mid v db =
     (case find_manual (mq_id v) db of
        Some row \<Rightarrow>
          if mw_meeting_id row \<noteq> mid \<or> mw_content_hash row \<noteq> mx_manual_hash X v then Inl Conflict
          else if mq_status (mw_value row) = mq_status v \<and> mq_error (mw_value row) = mq_error v then Inr db
          else if \<not> manual_fact_check_status_transition_allowed (mq_status (mw_value row)) (mq_status v) then Inl Conflict
          else Inr (db\<lparr>db_manual_requests := update_where (\<lambda>r. mq_id (mw_value r) = mq_id v)
                 (\<lambda>r. r\<lparr>mw_value := (mw_value r)\<lparr>mq_status := mq_status v, mq_error := mq_error v\<rparr>, mw_updated_at_ms := mx_now X\<rparr>)
                 (db_manual_requests db)\<rparr>)
      | None \<Rightarrow>
          Inr (db\<lparr>db_manual_requests := db_manual_requests db @
            [\<lparr>mw_meeting_id = mid, mw_value = v, mw_content_hash = mx_manual_hash X v, mw_created_at_ms = mx_now X,
              mw_updated_at_ms = mx_now X\<rparr>]\<rparr>))"

definition upsert_manual_fact_check_request :: "meeting_ext \<Rightarrow> string \<Rightarrow> ManualRequestUpsert \<Rightarrow> mtx" where
  "upsert_manual_fact_check_request X mid v =
     tx_all
       ([ensure_optional_speaker mid (mq_speaker_id v)] @
        map (ensure_context_turn mid) (mq_context_turns v) @
        map (ensure_meeting_segment mid) (mq_source_segment_ids v) @
        [write_manual_request X mid v])"

subsection \<open>The claim gate\<close>

definition find_gate :: "string \<Rightarrow> string \<Rightarrow> MeetingDb \<Rightarrow> GateRow option" where
  "find_gate mid sid db = find (\<lambda>g. gr_meeting_id g = mid \<and> gr_segment_id g = sid) (db_gate db)"

text \<open>The segments the gate considers: final ones of the live transcript.\<close>

definition gated :: "MeetingDb \<Rightarrow> SegmentRow \<Rightarrow> bool" where
  "gated db r =
     (final_state (ts_state (sg_value r)) \<and>
      (case find_version (ts_transcript_version_id (sg_value r)) db of
         Some v \<Rightarrow> tv_kind (vw_value v) = LiveVersion | None \<Rightarrow> False))"

definition gated_segment :: "string \<Rightarrow> string \<Rightarrow> MeetingDb \<Rightarrow> SegmentRow option" where
  "gated_segment mid sid db =
     find (\<lambda>r. ts_id (sg_value r) = sid \<and> sg_meeting_id r = mid \<and> gated db r) (db_segments db)"

definition turn_of_segment :: "SegmentRow \<Rightarrow> GateTurn" where
  "turn_of_segment r =
     (let s = sg_value r
      in \<lparr>gt_id = ts_id s, gt_speaker_id = ts_speaker_id s, gt_start_ms = ts_start_ms s, gt_end_ms = ts_end_ms s,
          gt_text = ts_text s, gt_revision_number = word_of_int (max (sint (ts_revision_number s)) 0),
          gt_source_kind = ts_source_kind s\<rparr>)"

definition batch_locks :: "string \<Rightarrow> i64 \<Rightarrow> BatchRow \<Rightarrow> bool" where
  "batch_locks sid revision b =
     (br_processed_at_ms b = None \<and>
      list_ex (\<lambda>t. gt_id t = sid \<and> sint (gt_revision_number t) = revision) (br_turns b))"

definition admit_turn :: "string \<Rightarrow> GateTurn \<Rightarrow> mtx" where
  "admit_turn mid t db =
     (case (find_gate mid (gt_id t) db, gated_segment mid (gt_id t) db) of
        (Some g, Some r) \<Rightarrow>
          (let submitted = sint (gt_revision_number t)
           in if gr_queued g < submitted \<or> (case gr_processed g of Some p \<Rightarrow> submitted \<le> p | None \<Rightarrow> False) then Inl Conflict
              else if submitted = sint (ts_revision_number (sg_value r)) \<and> turn_of_segment r \<noteq> t then Inl Conflict
              else if list_ex (batch_locks (gt_id t) submitted) (db_batches db) then Inl Conflict
              else Inr db)
      | _ \<Rightarrow> Inl NotFound)"

definition insert_batch :: "meeting_ext \<Rightarrow> string \<Rightarrow> GateBatchBegin \<Rightarrow> mtx" where
  "insert_batch X mid b db =
     (if list_ex (\<lambda>r. br_meeting_id r = mid \<and> br_idempotency_key r = gb_idempotency_key b) (db_batches db) then Inl Conflict
      else Inr (db\<lparr>db_batches := db_batches db @
        [\<lparr>br_id = gb_id b, br_meeting_id = mid, br_idempotency_key = gb_idempotency_key b, br_turns = gb_turns b,
          br_processed_at_ms = None, br_created_at_ms = mx_now X\<rparr>]\<rparr>))"

definition find_batch :: "string \<Rightarrow> MeetingDb \<Rightarrow> BatchRow option" where
  "find_batch i db = find (\<lambda>b. br_id b = i) (db_batches db)"

definition begin_claim_gate_batch :: "meeting_ext \<Rightarrow> string \<Rightarrow> GateBatchBegin \<Rightarrow> mtx" where
  "begin_claim_gate_batch X mid b db =
     (case find_batch (gb_id b) db of
        Some row \<Rightarrow>
          if br_meeting_id row \<noteq> mid \<or> br_idempotency_key row \<noteq> gb_idempotency_key b \<or> br_turns row \<noteq> gb_turns b
          then Inl Conflict else Inr db
      | None \<Rightarrow> tx_all (map (admit_turn mid) (gb_turns b) @ [insert_batch X mid b]) db)"

definition processed_gate :: "meeting_ext \<Rightarrow> i64 \<Rightarrow> GateRow \<Rightarrow> GateRow" where
  "processed_gate X revision g =
     g\<lparr>gr_processed :=
         Some (case gr_processed g of Some p \<Rightarrow> if p < revision then revision else p | None \<Rightarrow> revision),
       gr_processed_at_ms := Some (mx_now X)\<rparr>"

definition process_turn :: "meeting_ext \<Rightarrow> string \<Rightarrow> GateTurn \<Rightarrow> mtx" where
  "process_turn X mid t db =
     (if \<not> list_ex (\<lambda>g. gr_meeting_id g = mid \<and> gr_segment_id g = gt_id t) (db_gate db) then Inl NotFound
      else Inr (db\<lparr>db_gate := update_where (\<lambda>g. gr_meeting_id g = mid \<and> gr_segment_id g = gt_id t)
             (processed_gate X (sint (gt_revision_number t))) (db_gate db)\<rparr>))"

definition complete_claim_gate_batch :: "meeting_ext \<Rightarrow> string \<Rightarrow> string \<Rightarrow> mtx" where
  "complete_claim_gate_batch X mid bid db =
     (case find_batch bid db of
        None \<Rightarrow> Inl NotFound
      | Some b \<Rightarrow>
          if br_meeting_id b \<noteq> mid then Inl Conflict
          else if br_processed_at_ms b \<noteq> None then Inr db
          else if br_turns b = [] then Inl Conflict
          else tx_all
                 (map (process_turn X mid) (br_turns b) @
                  [\<lambda>db. Inr (db\<lparr>db_batches := update_where (\<lambda>r. br_id r = bid) (\<lambda>r. r\<lparr>br_processed_at_ms := Some (mx_now X)\<rparr>)
                                 (db_batches db)\<rparr>)]) db)"

definition pending_gate :: "MeetingDb \<Rightarrow> GateRow \<Rightarrow> bool" where
  "pending_gate db g =
     ((case gr_processed g of Some p \<Rightarrow> p < gr_queued g | None \<Rightarrow> True) \<and>
      \<not> list_ex (batch_locks (gr_segment_id g) (gr_queued g)) (db_batches db))"

definition list_pending_claim_gate_segment_ids :: "MeetingDb \<Rightarrow> string \<Rightarrow> string list" where
  "list_pending_claim_gate_segment_ids db mid =
     map (ts_id \<circ> sg_value)
       (sort_key (\<lambda>r. (ts_start_ms (sg_value r), ts_provider_turn_order (sg_value r), map byte (ts_id (sg_value r))))
         (filter (\<lambda>r. sg_meeting_id r = mid \<and> gated db r \<and>
            (case find_gate mid (ts_id (sg_value r)) db of Some g \<Rightarrow> pending_gate db g | None \<Rightarrow> False)) (db_segments db)))"

definition list_pending_claim_gate_batches :: "MeetingDb \<Rightarrow> string \<Rightarrow> BatchRow list" where
  "list_pending_claim_gate_batches db mid =
     sort_key (\<lambda>b. (br_created_at_ms b, map byte (br_id b)))
       (filter (\<lambda>b. br_meeting_id b = mid \<and> br_processed_at_ms b = None) (db_batches db))"

subsection \<open>Claim versions\<close>

definition find_claim :: "string \<Rightarrow> MeetingDb \<Rightarrow> ClaimRow option" where
  "find_claim i db = find (\<lambda>c. cl_id c = i) (db_claims db)"

definition find_claim_version :: "string \<Rightarrow> MeetingDb \<Rightarrow> ClaimVersionRow option" where
  "find_claim_version i db = find (\<lambda>v. cv_claim_version_id (cw_value v) = i) (db_claim_versions db)"

definition claim_in_meeting :: "string \<Rightarrow> string \<Rightarrow> MeetingDb \<Rightarrow> bool" where
  "claim_in_meeting mid cid db = list_ex (\<lambda>c. cl_id c = cid \<and> cl_meeting_id c = mid) (db_claims db)"

definition ensure_claim_version_relationship :: "string \<Rightarrow> string \<Rightarrow> string option \<Rightarrow> mtx" where
  "ensure_claim_version_relationship mid cid related db =
     (case related of
        None \<Rightarrow> Inr db
      | Some i \<Rightarrow>
          (case find_claim_version i db of
             None \<Rightarrow> Inl NotFound
           | Some v \<Rightarrow>
               (case find_claim (cv_claim_id (cw_value v)) db of
                  None \<Rightarrow> Inl NotFound
                | Some c \<Rightarrow> if cl_id c \<noteq> cid \<or> cl_meeting_id c \<noteq> mid then Inl Conflict else Inr db)))"

definition ensure_claim_references :: "string \<Rightarrow> ClaimVersionUpsert \<Rightarrow> mtx" where
  "ensure_claim_references mid v =
     tx_all
       [require (\<lambda>db. case cv_manual_request_id v of
                   Some i \<Rightarrow> list_ex (\<lambda>r. mq_id (mw_value r) = i \<and> mw_meeting_id r = mid) (db_manual_requests db)
                 | None \<Rightarrow> True) NotFound,
        ensure_optional_speaker mid (cv_speaker_id v),
        require (\<lambda>db. case cv_source_transcript_version_id v of Some i \<Rightarrow> version_exists mid i db | None \<Rightarrow> True) NotFound,
        ensure_claim_version_relationship mid (cv_claim_id v) (cv_predecessor_id v),
        ensure_claim_version_relationship mid (cv_claim_id v) (cv_superseded_by_id v)]"

definition duplicate_key_taken :: "string \<Rightarrow> string \<Rightarrow> string option \<Rightarrow> MeetingDb \<Rightarrow> bool" where
  "duplicate_key_taken mid cid key db =
     (key \<noteq> None \<and> list_ex (\<lambda>c. cl_id c \<noteq> cid \<and> cl_meeting_id c = mid \<and> cl_duplicate_key c = key) (db_claims db))"

definition upsert_claim :: "meeting_ext \<Rightarrow> string \<Rightarrow> ClaimVersionUpsert \<Rightarrow> mtx" where
  "upsert_claim X mid v db =
     (case find_claim (cv_claim_id v) db of
        Some c \<Rightarrow>
          if cl_meeting_id c \<noteq> mid \<or> cl_origin c \<noteq> cv_origin v \<or> cl_manual_request_id c \<noteq> cv_manual_request_id v then Inl Conflict
          else if duplicate_key_taken mid (cv_claim_id v) (cv_duplicate_key v) db then Inl Conflict
          else Inr (db\<lparr>db_claims := update_where (\<lambda>c. cl_id c = cv_claim_id v)
                 (\<lambda>c. c\<lparr>cl_duplicate_key := or_else (cv_duplicate_key v) (cl_duplicate_key c), cl_status := cv_status v,
                       cl_updated_at_ms := mx_now X\<rparr>) (db_claims db)\<rparr>)
      | None \<Rightarrow>
          if duplicate_key_taken mid (cv_claim_id v) (cv_duplicate_key v) db then Inl Conflict
          else Inr (db\<lparr>db_claims := db_claims db @
                 [\<lparr>cl_id = cv_claim_id v, cl_meeting_id = mid, cl_manual_request_id = cv_manual_request_id v,
                   cl_origin = cv_origin v, cl_duplicate_key = cv_duplicate_key v, cl_status = cv_status v, cl_current = None,
                   cl_created_at_ms = mx_now X, cl_updated_at_ms = mx_now X\<rparr>]\<rparr>))"

text \<open>A stored version only changes its lifecycle and its successor; the hash covers everything else.\<close>

definition upsert_claim_version :: "meeting_ext \<Rightarrow> string \<Rightarrow> ClaimVersionUpsert \<Rightarrow> mtx" where
  "upsert_claim_version X mid v db =
     (case find_claim_version (cv_claim_version_id v) db of
        Some row \<Rightarrow>
          if cv_claim_id (cw_value row) \<noteq> cv_claim_id v \<or> cv_version_number (cw_value row) \<noteq> cv_version_number v \<or>
             cw_content_hash row \<noteq> mx_claim_hash X v then Inl Conflict
          else Inr (db\<lparr>db_claim_versions := update_where (\<lambda>r. cv_claim_version_id (cw_value r) = cv_claim_version_id v)
                 (\<lambda>r. r\<lparr>cw_value := (cw_value r)\<lparr>cv_lifecycle := cv_lifecycle v,
                       cv_superseded_by_id := or_else (cv_superseded_by_id v) (cv_superseded_by_id (cw_value r))\<rparr>\<rparr>)
                 (db_claim_versions db)\<rparr>)
      | None \<Rightarrow>
          if list_ex (\<lambda>r. cv_claim_id (cw_value r) = cv_claim_id v \<and> cv_version_number (cw_value r) = cv_version_number v)
               (db_claim_versions db) then Inl Conflict
          else if \<not> list_all (\<lambda>i. segment_exists mid i db) (cv_segment_ids v) then
            (if distinct (takeWhile (\<lambda>i. segment_exists mid i db) (cv_segment_ids v)) then Inl NotFound else Inl Database)
          else if \<not> distinct (cv_segment_ids v) then Inl Database
          else Inr (db\<lparr>db_claim_versions := db_claim_versions db @
                 [\<lparr>cw_value = v, cw_content_hash = mx_claim_hash X v, cw_created_at_ms = mx_now X\<rparr>]\<rparr>))"

definition supersede :: "string \<Rightarrow> string \<Rightarrow> MeetingDb \<Rightarrow> MeetingDb" where
  "supersede old new db =
     db\<lparr>db_claim_versions := update_where (\<lambda>r. cv_claim_version_id (cw_value r) = old)
       (\<lambda>r. r\<lparr>cw_value := (cw_value r)\<lparr>cv_lifecycle := SupersededClaim, cv_superseded_by_id := Some new\<rparr>\<rparr>)
       (db_claim_versions db)\<rparr>"

definition set_current_version :: "meeting_ext \<Rightarrow> ClaimVersionUpsert \<Rightarrow> mtx" where
  "set_current_version X v db =
     (let new = cv_claim_version_id v;
          previous = (case find_claim (cv_claim_id v) db of Some c \<Rightarrow> cl_current c | None \<Rightarrow> None);
          db1 = (case previous of Some p \<Rightarrow> if p \<noteq> new then supersede p new db else db | None \<Rightarrow> db);
          db2 = (case cv_predecessor_id v of Some p \<Rightarrow> supersede p new db1 | None \<Rightarrow> db1)
      in Inr (db2\<lparr>db_claims := update_where (\<lambda>c. cl_id c = cv_claim_id v)
           (\<lambda>c. c\<lparr>cl_current := Some new, cl_status := cv_status v, cl_updated_at_ms := mx_now X\<rparr>) (db_claims db2)\<rparr>))"

definition apply_claim_version :: "meeting_ext \<Rightarrow> string \<Rightarrow> ClaimVersionUpsert \<Rightarrow> mtx" where
  "apply_claim_version X mid v =
     tx_all
       [ensure_claim_references mid v, upsert_claim X mid v, upsert_claim_version X mid v,
        if cv_set_current v then set_current_version X v else Inr]"

definition mark_claim_version_stale :: "meeting_ext \<Rightarrow> string \<Rightarrow> string \<Rightarrow> mtx" where
  "mark_claim_version_stale X mid i db =
     (if \<not> list_ex (\<lambda>r. cv_claim_version_id (cw_value r) = i \<and> claim_in_meeting mid (cv_claim_id (cw_value r)) db) (db_claim_versions db)
      then Inl NotFound
      else Inr (db\<lparr>db_claim_versions :=
                update_where (\<lambda>r. cv_claim_version_id (cw_value r) = i \<and> claim_in_meeting mid (cv_claim_id (cw_value r)) db)
                  (\<lambda>r. r\<lparr>cw_value := (cw_value r)\<lparr>cv_lifecycle := StaleClaim\<rparr>\<rparr>) (db_claim_versions db),
              db_claims :=
                update_where (\<lambda>c. cl_meeting_id c = mid \<and> cl_current c = Some i)
                  (\<lambda>c. c\<lparr>cl_status := ClaimStale, cl_updated_at_ms := mx_now X\<rparr>) (db_claims db)\<rparr>))"

definition apply_claims :: "meeting_ext \<Rightarrow> ClaimsRequest \<Rightarrow> mtx" where
  "apply_claims X r =
     (let mid = cq_meeting_id r
      in tx_all
        ([checked (validate_claims_request X r), meeting_open mid] @
         map (upsert_manual_fact_check_request X mid) (cq_manual_requests r) @
         map (begin_claim_gate_batch X mid) (cq_begin_batches r) @
         map (apply_claim_version X mid) (cq_claim_versions r) @
         map (mark_claim_version_stale X mid) (cq_mark_stale r) @
         map (complete_claim_gate_batch X mid) (cq_complete_batches r) @
         [touch_meeting X mid]))"

end
