(* ===== verification/Meeting_Jobs.thy ===== *)
theory Meeting_Jobs
  imports Meeting_Claims
begin

text \<open>
  \<open>meetings/store.rs\<close>, last part: the timeline, audio assets, research jobs and assessments, refinement, and the life
  cycle of a deleted meeting: a deletion hides it and opens a cleanup job, and only when local files, gateway and
  provider have confirmed are its rows removed. \<open>DELETE FROM meetings\<close> removes what the cascades of the schema
  reach.
\<close>

subsection \<open>Timeline\<close>

record TimelineRequest =
  eq_meeting_id :: string
  eq_events :: "TimelineEventUpsert list"

definition event_errors :: "meeting_ext \<Rightarrow> TimelineEventUpsert \<Rightarrow> MeetingError option list" where
  "event_errors X e =
     [uuid X (tl_id e), timestamp_range (tl_start_ms e) (tl_end_ms e),
      optional (tl_provider_namespace e) 256 ''invalid event namespace'', json_size X (tl_metadata e)]"

definition find_event :: "string \<Rightarrow> MeetingDb \<Rightarrow> EventRow option" where
  "find_event i db = find (\<lambda>r. tl_id (ew_value r) = i) (db_events db)"

definition apply_event :: "meeting_ext \<Rightarrow> string \<Rightarrow> TimelineEventUpsert \<Rightarrow> mtx" where
  "apply_event X mid e db =
     (case find_event (tl_id e) db of
        Some row \<Rightarrow>
          (let stored = ew_value row
           in if ew_meeting_id row \<noteq> mid \<or> stored\<lparr>tl_end_ms := None\<rparr> \<noteq> e\<lparr>tl_end_ms := None\<rparr> then Inl Conflict
              else if tl_end_ms stored = tl_end_ms e then Inr db
              else if (tl_kind e = PauseEvent \<or> tl_kind e = SleepEvent) \<and> tl_end_ms stored = None \<and> tl_end_ms e \<noteq> None
              then Inr (db\<lparr>db_events := update_where (\<lambda>r. tl_id (ew_value r) = tl_id e \<and> ew_meeting_id r = mid \<and> tl_end_ms (ew_value r) = None)
                     (\<lambda>r. r\<lparr>ew_value := (ew_value r)\<lparr>tl_end_ms := tl_end_ms e\<rparr>\<rparr>) (db_events db)\<rparr>)
              else Inl Conflict)
      | None \<Rightarrow>
          Inr (db\<lparr>db_events := db_events db @ [\<lparr>ew_meeting_id = mid, ew_value = e, ew_created_at_ms = mx_now X\<rparr>]\<rparr>))"

definition apply_timeline :: "meeting_ext \<Rightarrow> TimelineRequest \<Rightarrow> mtx" where
  "apply_timeline X r =
     tx_all
       ([checked (first_error [uuid X (eq_meeting_id r),
           if 256 < length (eq_events r) then Some (Validation ''timeline event batch is too large'') else None]),
         meeting_open (eq_meeting_id r),
         checked (first_error (concat (map (event_errors X) (eq_events r))))] @
        map (apply_event X (eq_meeting_id r)) (eq_events r) @
        [touch_meeting X (eq_meeting_id r)])"

subsection \<open>Audio\<close>

record AudioRequest =
  dq_meeting_id :: string
  dq_assets :: "AudioAssetUpsert list"
  dq_replace_manifest_for :: "string option"
  dq_inputs :: "RefinementInput list"

definition audio_path :: "string \<Rightarrow> AudioAssetUpsert \<Rightarrow> string" where
  "audio_path mid a = ''audio/'' @ mid @ ''/'' @ au_file_name a"

definition same_asset :: "string \<Rightarrow> AudioAssetUpsert \<Rightarrow> AssetRow \<Rightarrow> bool" where
  "same_asset mid a row =
     (aa_meeting_id row = mid \<and> au_source_kind (aa_value row) = au_source_kind a \<and>
      au_timeline_part (aa_value row) = au_timeline_part a \<and> aa_relative_path row = audio_path mid a)"

text \<open>The update keeps the stored start, so the end may fall before it.\<close>

definition merged_asset :: "meeting_ext \<Rightarrow> AudioAssetUpsert \<Rightarrow> AssetRow \<Rightarrow> AssetRow" where
  "merged_asset X a row =
     row\<lparr>aa_value := a\<lparr>au_timeline_start_ms := au_timeline_start_ms (aa_value row)\<rparr>, aa_updated_at_ms := mx_now X\<rparr>"

definition upsert_asset :: "meeting_ext \<Rightarrow> string \<Rightarrow> AudioAssetUpsert \<Rightarrow> mtx" where
  "upsert_asset X mid a db =
     (case controlled_relative_path (audio_path mid a) of
        Some e \<Rightarrow> Inl e
      | None \<Rightarrow>
          (case find (\<lambda>r. au_id (aa_value r) = au_id a) (db_assets db) of
             Some row \<Rightarrow>
               if \<not> same_asset mid a row then Inl Conflict
               else if (case au_bytes a of Some n \<Rightarrow> sint n < 0 | None \<Rightarrow> False)
               then Inl (Validation ''audio byte count is too large'')
               else if (case au_timeline_end_ms a of Some t \<Rightarrow> t < au_timeline_start_ms (aa_value row) | None \<Rightarrow> False) then Inl Database
               else Inr (db\<lparr>db_assets := update_where (\<lambda>r. au_id (aa_value r) = au_id a) (merged_asset X a) (db_assets db)\<rparr>)
           | None \<Rightarrow>
               if (case au_bytes a of Some n \<Rightarrow> sint n < 0 | None \<Rightarrow> False)
               then Inl (Validation ''audio byte count is too large'')
               else if list_ex (same_asset mid a) (db_assets db) then Inl Database
               else Inr (db\<lparr>db_assets := db_assets db @
                      [\<lparr>aa_meeting_id = mid, aa_relative_path = audio_path mid a, aa_value = a, aa_created_at_ms = mx_now X,
                        aa_updated_at_ms = mx_now X\<rparr>]\<rparr>)))"

definition refinement_job_exists :: "string \<Rightarrow> string \<Rightarrow> MeetingDb \<Rightarrow> bool" where
  "refinement_job_exists mid jid db = list_ex (\<lambda>r. fj_id (fw_value r) = jid \<and> fw_meeting_id r = mid) (db_refinement_jobs db)"

definition ensure_refinement_job :: "string \<Rightarrow> string \<Rightarrow> mtx" where
  "ensure_refinement_job mid jid = require (refinement_job_exists mid jid) NotFound"

definition clear_manifest :: "string \<Rightarrow> string \<Rightarrow> mtx" where
  "clear_manifest mid jid =
     tx_all [ensure_refinement_job mid jid,
             \<lambda>db. Inr (db\<lparr>db_inputs := filter (\<lambda>r. ri_refinement_job_id (iw_value r) \<noteq> jid) (db_inputs db)\<rparr>)]"

definition same_input :: "RefinementInput \<Rightarrow> InputRow \<Rightarrow> bool" where
  "same_input i row =
     (ri_refinement_job_id (iw_value row) = ri_refinement_job_id i \<and> ri_part_index (iw_value row) = ri_part_index i)"

definition upsert_input :: "meeting_ext \<Rightarrow> string \<Rightarrow> RefinementInput \<Rightarrow> mtx" where
  "upsert_input X mid i =
     tx_all
       [ensure_refinement_job mid (ri_refinement_job_id i),
        require (\<lambda>db. list_ex (\<lambda>r. au_id (aa_value r) = ri_audio_asset_id i \<and> aa_meeting_id r = mid) (db_assets db)) NotFound,
        \<lambda>db. Inr (if list_ex (same_input i) (db_inputs db)
                   then db\<lparr>db_inputs := update_where (same_input i) (\<lambda>r. r\<lparr>iw_value := i\<rparr>) (db_inputs db)\<rparr>
                   else db\<lparr>db_inputs := db_inputs db @ [\<lparr>iw_value = i, iw_created_at_ms = mx_now X\<rparr>]\<rparr>)]"

definition apply_audio :: "meeting_ext \<Rightarrow> AudioRequest \<Rightarrow> mtx" where
  "apply_audio X r =
     (let mid = dq_meeting_id r
      in tx_all
        ([checked (first_error [uuid X mid,
            if 128 < length (dq_assets r) \<or> 128 < length (dq_inputs r)
            then Some (Validation ''audio metadata batch is too large'') else None]),
          meeting_open mid,
          checked (first_error (map (validate_audio_asset X) (dq_assets r) @ [optional_uuid X (dq_replace_manifest_for r)] @
                                map (validate_refinement_input X) (dq_inputs r)))] @
         map (upsert_asset X mid) (dq_assets r) @
         (case dq_replace_manifest_for r of Some jid \<Rightarrow> [clear_manifest mid jid] | None \<Rightarrow> []) @
         map (upsert_input X mid) (dq_inputs r) @
         [touch_meeting X mid]))"

subsection \<open>Research\<close>

definition completed_claim_status :: "ResearchStage \<Rightarrow> ClaimStatus" where
  "completed_claim_status stage = (case stage of PreliminaryResearch \<Rightarrow> ClaimPreliminary | DeepResearch \<Rightarrow> ClaimComplete)"

definition claim_status_for_research_job :: "ResearchStage \<Rightarrow> JobStatus \<Rightarrow> ClaimStatus" where
  "claim_status_for_research_job stage status =
     (case status of
        JobPending \<Rightarrow> ClaimQueued
      | JobRetryWait \<Rightarrow> ClaimQueued
      | JobRunning \<Rightarrow> (case stage of PreliminaryResearch \<Rightarrow> ClaimQuickRunning | DeepResearch \<Rightarrow> ClaimDeepRunning)
      | JobComplete \<Rightarrow> completed_claim_status stage
      | JobFailed \<Rightarrow> ClaimFailed
      | JobCancelled \<Rightarrow> ClaimCancelled)"

definition claim_status_for_assessment :: "ResearchStage \<Rightarrow> AssessmentStatus \<Rightarrow> ClaimStatus" where
  "claim_status_for_assessment stage status =
     (case status of AssessmentComplete \<Rightarrow> completed_claim_status stage | AssessmentFailed \<Rightarrow> ClaimFailed)"

definition claim_version_exists :: "string \<Rightarrow> string \<Rightarrow> MeetingDb \<Rightarrow> bool" where
  "claim_version_exists mid i db =
     list_ex (\<lambda>r. cv_claim_version_id (cw_value r) = i \<and> claim_in_meeting mid (cv_claim_id (cw_value r)) db) (db_claim_versions db)"

definition ensure_claim_version :: "string \<Rightarrow> string \<Rightarrow> mtx" where
  "ensure_claim_version mid i = require (claim_version_exists mid i) NotFound"

definition update_claim_status_for_version :: "meeting_ext \<Rightarrow> string \<Rightarrow> string \<Rightarrow> ClaimStatus \<Rightarrow> mtx" where
  "update_claim_status_for_version X mid i status db =
     (let target = (\<lambda>c. cl_meeting_id c = mid \<and>
            map_option (\<lambda>v. cv_claim_id (cw_value v)) (find_claim_version i db) = Some (cl_id c))
      in if \<not> list_ex target (db_claims db) then Inl NotFound
         else Inr (db\<lparr>db_claims := update_where target (\<lambda>c. c\<lparr>cl_status := status, cl_updated_at_ms := mx_now X\<rparr>) (db_claims db)\<rparr>))"

definition same_research_job :: "ResearchJobUpsert \<Rightarrow> ResearchJobRow \<Rightarrow> bool" where
  "same_research_job v row =
     (rj_claim_version_id (jw_value row) = rj_claim_version_id v \<and> rj_stage (jw_value row) = rj_stage v \<and>
      rj_idempotency_key (jw_value row) = rj_idempotency_key v)"

definition write_research_job :: "meeting_ext \<Rightarrow> ResearchJobUpsert \<Rightarrow> mtx" where
  "write_research_job X v db =
     (case find (\<lambda>r. rj_id (jw_value r) = rj_id v) (db_research_jobs db) of
        Some row \<Rightarrow>
          if \<not> same_research_job v row then Inl Conflict
          else Inr (db\<lparr>db_research_jobs := update_where (\<lambda>r. rj_id (jw_value r) = rj_id v)
                 (\<lambda>r. r\<lparr>jw_value := v\<lparr>rj_started_at_ms := or_else (rj_started_at_ms v) (rj_started_at_ms (jw_value r))\<rparr>,
                       jw_updated_at_ms := mx_now X\<rparr>) (db_research_jobs db)\<rparr>)
      | None \<Rightarrow>
          if list_ex (\<lambda>r. rj_idempotency_key (jw_value r) = rj_idempotency_key v) (db_research_jobs db) then Inl Conflict
          else Inr (db\<lparr>db_research_jobs := db_research_jobs db @
                 [\<lparr>jw_value = v, jw_created_at_ms = mx_now X, jw_updated_at_ms = mx_now X\<rparr>]\<rparr>))"

definition upsert_research_job :: "meeting_ext \<Rightarrow> string \<Rightarrow> ResearchJobUpsert \<Rightarrow> mtx" where
  "upsert_research_job X mid v = tx_all [ensure_claim_version mid (rj_claim_version_id v), write_research_job X v]"

definition find_assessment :: "string \<Rightarrow> MeetingDb \<Rightarrow> AssessmentRow option" where
  "find_assessment i db = find (\<lambda>r. as_id (aw_value r) = i) (db_assessments db)"

definition same_slot :: "AssessmentApply \<Rightarrow> AssessmentRow \<Rightarrow> bool" where
  "same_slot v r = (as_claim_version_id (aw_value r) = as_claim_version_id v \<and> as_stage (aw_value r) = as_stage v)"

definition same_attempt :: "AssessmentApply \<Rightarrow> AssessmentRow \<Rightarrow> bool" where
  "same_attempt v r = (same_slot v r \<and> as_attempt_number (aw_value r) = as_attempt_number v)"

definition write_assessment :: "meeting_ext \<Rightarrow> AssessmentApply \<Rightarrow> mtx" where
  "write_assessment X v db =
     (case find_assessment (as_id v) db of
        Some row \<Rightarrow> if same_attempt v row then Inr db else Inl Conflict
      | None \<Rightarrow>
          if (case as_supersedes_id v of
                Some i \<Rightarrow> \<not> list_ex (\<lambda>r. as_id (aw_value r) = i \<and> same_slot v r) (db_assessments db) | None \<Rightarrow> False)
          then Inl Conflict
          else if list_ex (same_attempt v) (db_assessments db) \<or>
                  list_ex (\<lambda>r. list_ex (\<lambda>s. so_id s \<in> so_id ` set (as_sources v)) (as_sources (aw_value r))) (db_assessments db)
          then Inl Conflict
          else Inr (db\<lparr>db_assessments :=
                 (if as_set_current v then update_where (same_slot v) (\<lambda>r. r\<lparr>aw_current := False\<rparr>) (db_assessments db)
                  else db_assessments db) @
                 [\<lparr>aw_value = v, aw_current = as_set_current v, aw_created_at_ms = mx_now X\<rparr>]\<rparr>))"

definition insert_assessment :: "meeting_ext \<Rightarrow> string \<Rightarrow> AssessmentApply \<Rightarrow> mtx" where
  "insert_assessment X mid v = tx_all [ensure_claim_version mid (as_claim_version_id v), write_assessment X v]"

definition research_status_for_job :: "JobStatus \<Rightarrow> ResearchStatus" where
  "research_status_for_job status =
     (case status of
        JobPending \<Rightarrow> ResearchQueued
      | JobRunning \<Rightarrow> ResearchRunning
      | JobRetryWait \<Rightarrow> ResearchRetryWait
      | JobComplete \<Rightarrow> ResearchComplete
      | JobFailed \<Rightarrow> ResearchFailed
      | JobCancelled \<Rightarrow> ResearchCancelled)"

record ResearchRequest =
  hq_meeting_id :: string
  hq_job :: "ResearchJobUpsert option"
  hq_assessment :: "AssessmentApply option"

definition set_research_status :: "meeting_ext \<Rightarrow> string \<Rightarrow> JobStatus \<Rightarrow> mtx" where
  "set_research_status X mid status db =
     Inr (db\<lparr>db_meetings := update_where (\<lambda>m. me_id m = mid)
       (\<lambda>m. m\<lparr>me_research_status := research_status_for_job status, me_updated_at_ms := mx_now X\<rparr>) (db_meetings db)\<rparr>)"

definition apply_research :: "meeting_ext \<Rightarrow> ResearchRequest \<Rightarrow> mtx" where
  "apply_research X r =
     (let mid = hq_meeting_id r
      in tx_all
        ([checked (first_error
            ([uuid X mid,
              if hq_job r = None \<and> hq_assessment r = None then Some (Validation ''research update is empty'') else None] @
             (case hq_job r of Some j \<Rightarrow> [validate_research_job X j] | None \<Rightarrow> []) @
             (case hq_assessment r of Some a \<Rightarrow> [validate_assessment X a] | None \<Rightarrow> []))),
          meeting_open mid] @
         (case hq_job r of
            Some j \<Rightarrow>
              [upsert_research_job X mid j,
               update_claim_status_for_version X mid (rj_claim_version_id j) (claim_status_for_research_job (rj_stage j) (rj_status j))]
          | None \<Rightarrow> []) @
         (case hq_assessment r of
            Some a \<Rightarrow>
              [insert_assessment X mid a,
               update_claim_status_for_version X mid (as_claim_version_id a) (claim_status_for_assessment (as_stage a) (as_status a))]
          | None \<Rightarrow> []) @
         [case hq_job r of Some j \<Rightarrow> set_research_status X mid (rj_status j) | None \<Rightarrow> touch_meeting X mid]))"

subsection \<open>Refinement\<close>

definition same_refinement_job :: "string \<Rightarrow> RefinementJobUpsert \<Rightarrow> RefinementJobRow \<Rightarrow> bool" where
  "same_refinement_job mid v row =
     (fw_meeting_id row = mid \<and>
      fj_source_transcript_version_id (fw_value row) = fj_source_transcript_version_id v \<and>
      fj_input_manifest_checksum (fw_value row) = fj_input_manifest_checksum v \<and>
      fj_provider (fw_value row) = fj_provider v \<and> fj_model (fw_value row) = fj_model v \<and>
      fj_idempotency_key (fw_value row) = fj_idempotency_key v)"

definition upsert_refinement_job :: "meeting_ext \<Rightarrow> string \<Rightarrow> RefinementJobUpsert \<Rightarrow> mtx" where
  "upsert_refinement_job X mid v db =
     (if \<not> version_exists mid (fj_source_transcript_version_id v) db then Inl NotFound
      else case find (\<lambda>r. fj_id (fw_value r) = fj_id v) (db_refinement_jobs db) of
        Some row \<Rightarrow>
          if \<not> same_refinement_job mid v row then Inl Conflict
          else Inr (db\<lparr>db_refinement_jobs := update_where (\<lambda>r. fj_id (fw_value r) = fj_id v)
                 (\<lambda>r. r\<lparr>fw_value := v\<lparr>fj_started_at_ms := or_else (fj_started_at_ms v) (fj_started_at_ms (fw_value r))\<rparr>,
                       fw_updated_at_ms := mx_now X\<rparr>) (db_refinement_jobs db)\<rparr>)
      | None \<Rightarrow>
          if list_ex (\<lambda>r. fj_idempotency_key (fw_value r) = fj_idempotency_key v) (db_refinement_jobs db) then Inl Conflict
          else Inr (db\<lparr>db_refinement_jobs := db_refinement_jobs db @
                 [\<lparr>fw_meeting_id = mid, fw_value = v, fw_created_at_ms = mx_now X, fw_updated_at_ms = mx_now X\<rparr>]\<rparr>))"

definition refinement_status_for_job :: "RefinementJobStatus \<Rightarrow> RefinementStatus" where
  "refinement_status_for_job status =
     (case status of
        RefineQueued \<Rightarrow> RefinementQueued
      | RefineUploading \<Rightarrow> RefinementUploading
      | RefineProcessing \<Rightarrow> RefinementProcessing
      | RefineReconciling \<Rightarrow> RefinementReconciling
      | RefineComplete \<Rightarrow> RefinementComplete
      | RefineRetryWait \<Rightarrow> RefinementRetryWait
      | RefineFailed \<Rightarrow> RefinementFailed
      | RefineCancelled \<Rightarrow> RefinementCancelled)"

definition apply_refinement_job :: "meeting_ext \<Rightarrow> string \<Rightarrow> RefinementJobUpsert \<Rightarrow> mtx" where
  "apply_refinement_job X mid v =
     tx_all
       [checked (first_error [uuid X mid, validate_refinement_job X v]), meeting_open mid,
        upsert_refinement_job X mid v,
        \<lambda>db. Inr (db\<lparr>db_meetings := update_where (\<lambda>m. me_id m = mid)
          (\<lambda>m. m\<lparr>me_refinement_status := refinement_status_for_job (fj_status v), me_updated_at_ms := mx_now X\<rparr>) (db_meetings db)\<rparr>)]"

record RefinementResult =
  fq_meeting_id :: string
  fq_refinement_job_id :: string
  fq_version :: VersionUpsert
  fq_segments :: "SegmentUpsert list"
  fq_observations :: "ObservationUpsert list"
  fq_mark_stale :: "string list"
  fq_replacements :: "ClaimVersionUpsert list"

text \<open>The loop over the replacements; the predecessors seen so far are passed along.\<close>

fun replacement_errors ::
  "RefinementResult \<Rightarrow> string set \<Rightarrow> ClaimVersionUpsert list \<Rightarrow> MeetingError option list" where
  "replacement_errors r seen [] = []"
| "replacement_errors r seen (v # vs) =
     (case cv_predecessor_id v of
        None \<Rightarrow> [Some (Validation ''refinement replacement requires a predecessor'')]
      | Some p \<Rightarrow>
          [if p \<notin> set (fq_mark_stale r) \<or> p \<in> seen \<or> cv_source_transcript_version_id v \<noteq> Some (tv_id (fq_version r)) \<or>
              cv_status v \<noteq> ClaimRechecking \<or> cv_lifecycle v \<noteq> RecheckingClaim \<or> \<not> cv_set_current v
           then Some (Validation ''invalid refinement replacement claim version'') else None] @
          replacement_errors r (insert p seen) vs)"

definition validate_refinement_result :: "meeting_ext \<Rightarrow> RefinementResult \<Rightarrow> MeetingError option" where
  "validate_refinement_result X r =
     first_error
       ([uuid X (fq_refinement_job_id r),
         if tv_kind (fq_version r) \<noteq> RefinedVersion \<or> tv_status (fq_version r) \<noteq> VersionComplete
         then Some (Validation ''refinement result must be a complete refined transcript'') else None,
         validate_transcript_request X
           \<lparr>tq_meeting_id = fq_meeting_id r, tq_version = fq_version r, tq_segments = fq_segments r,
            tq_observations = fq_observations r, tq_promote_canonical = True\<rparr>,
         if 64 < length (fq_mark_stale r) + length (fq_replacements r)
         then Some (Validation ''claim batch is too large'') else None] @
        map (uuid X) (fq_mark_stale r) @
        [validate_claims_request X
           \<lparr>cq_meeting_id = fq_meeting_id r, cq_manual_requests = [], cq_claim_versions = fq_replacements r,
            cq_mark_stale = [], cq_begin_batches = [], cq_complete_batches = []\<rparr>] @
        replacement_errors r {} (fq_replacements r))"

definition complete_refinement_job :: "meeting_ext \<Rightarrow> string \<Rightarrow> mtx" where
  "complete_refinement_job X jid db =
     Inr (db\<lparr>db_refinement_jobs := update_where (\<lambda>r. fj_id (fw_value r) = jid)
       (\<lambda>r. r\<lparr>fw_value := (fw_value r)\<lparr>fj_status := RefineComplete,
             fj_completed_at_ms := or_else (fj_completed_at_ms (fw_value r)) (Some (mx_now X)), fj_error := None\<rparr>,
             fw_updated_at_ms := mx_now X\<rparr>) (db_refinement_jobs db)\<rparr>)"

definition promote_refined :: "meeting_ext \<Rightarrow> string \<Rightarrow> string \<Rightarrow> mtx" where
  "promote_refined X mid vid db =
     Inr (db\<lparr>db_meetings := update_where (\<lambda>m. me_id m = mid \<and> me_deleted_at_ms m = None)
       (\<lambda>m. m\<lparr>me_canonical_version := Some vid, me_refinement_status := RefinementComplete, me_updated_at_ms := mx_now X\<rparr>)
       (db_meetings db)\<rparr>)"

definition refine_segment ::
  "meeting_ext \<Rightarrow> string \<Rightarrow> SegmentUpsert \<Rightarrow> outcomes \<times> MeetingDb \<Rightarrow> MeetingError + outcomes \<times> MeetingDb" where
  "refine_segment X mid s acc =
     (case upsert_transcript_segment X mid s (snd acc) of
        Inl e \<Rightarrow> Inl e
      | Inr (outcome, db) \<Rightarrow> Inr (fst acc @ [(ts_id s, outcome)], db))"

definition apply_refinement_result ::
  "meeting_ext \<Rightarrow> RefinementResult \<Rightarrow> MeetingDb \<Rightarrow> MeetingError + outcomes \<times> MeetingDb" where
  "apply_refinement_result X r db =
     (let mid = fq_meeting_id r
      in tx_all
        ([on_db (checked (validate_refinement_result X r)), on_db (meeting_open mid),
          on_db (ensure_refinement_job mid (fq_refinement_job_id r)),
          on_db (upsert_transcript_version X mid (fq_version r))] @
         map (refine_segment X mid) (fq_segments r) @
         map (\<lambda>v. on_db (upsert_speaker_observation X mid v)) (fq_observations r) @
         map (\<lambda>i. on_db (mark_claim_version_stale X mid i)) (fq_mark_stale r) @
         map (\<lambda>v. on_db (apply_claim_version X mid v)) (fq_replacements r) @
         [on_db (complete_refinement_job X (fq_refinement_job_id r)), on_db (promote_refined X mid (tv_id (fq_version r)))])
        ([], db))"

end
