(* ===== verification/Meeting_Cleanup.thy ===== *)
theory Meeting_Cleanup
  imports Meeting_Jobs
begin

text \<open>
  \<open>meetings/store.rs\<close>: deletion, cleanup and recovery, and reading a whole artifact. The cascade is taken to remove
  every row that depends on the meeting; that it does not run into a \<open>RESTRICT\<close> on the way rests on the order in
  which the database fires it.
\<close>

subsection \<open>Deletion\<close>

definition meeting_claim_ids :: "string \<Rightarrow> MeetingDb \<Rightarrow> string set" where
  "meeting_claim_ids mid db = cl_id ` set (filter (\<lambda>c. cl_meeting_id c = mid) (db_claims db))"

definition meeting_claim_version_ids :: "string \<Rightarrow> MeetingDb \<Rightarrow> string set" where
  "meeting_claim_version_ids mid db =
     (cv_claim_version_id \<circ> cw_value) `
       set (filter (\<lambda>v. cv_claim_id (cw_value v) \<in> meeting_claim_ids mid db) (db_claim_versions db))"

definition meeting_segment_ids :: "string \<Rightarrow> MeetingDb \<Rightarrow> string set" where
  "meeting_segment_ids mid db = (ts_id \<circ> sg_value) ` set (filter (\<lambda>s. sg_meeting_id s = mid) (db_segments db))"

definition meeting_refinement_ids :: "string \<Rightarrow> MeetingDb \<Rightarrow> string set" where
  "meeting_refinement_ids mid db = (fj_id \<circ> fw_value) ` set (filter (\<lambda>j. fw_meeting_id j = mid) (db_refinement_jobs db))"

definition meeting_version_ids :: "string \<Rightarrow> MeetingDb \<Rightarrow> string set" where
  "meeting_version_ids mid db = (tv_id \<circ> vw_value) ` set (filter (\<lambda>v. vw_meeting_id v = mid) (db_versions db))"

text \<open>The parent of a version may belong to another meeting; it is forgotten when that meeting goes. All other references stay
  inside a meeting.\<close>

definition detach :: "string set \<Rightarrow> VersionRow \<Rightarrow> VersionRow" where
  "detach ids r =
     (case tv_parent_version_id (vw_value r) of
        Some p \<Rightarrow> if p \<in> ids then r\<lparr>vw_value := (vw_value r)\<lparr>tv_parent_version_id := None\<rparr>\<rparr> else r
      | None \<Rightarrow> r)"

definition purge :: "string \<Rightarrow> MeetingDb \<Rightarrow> MeetingDb" where
  "purge mid db =
     \<lparr>db_meetings = filter (\<lambda>m. me_id m \<noteq> mid) (db_meetings db),
      db_speakers = filter (\<lambda>r. sp_meeting_id r \<noteq> mid) (db_speakers db),
      db_versions = map (detach (meeting_version_ids mid db)) (filter (\<lambda>r. vw_meeting_id r \<noteq> mid) (db_versions db)),
      db_observations = filter (\<lambda>r. ow_meeting_id r \<noteq> mid) (db_observations db),
      db_segments = filter (\<lambda>r. sg_meeting_id r \<noteq> mid) (db_segments db),
      db_replacements = filter (\<lambda>p. fst p \<notin> meeting_segment_ids mid db) (db_replacements db),
      db_assets = filter (\<lambda>r. aa_meeting_id r \<noteq> mid) (db_assets db),
      db_events = filter (\<lambda>r. ew_meeting_id r \<noteq> mid) (db_events db),
      db_claims = filter (\<lambda>c. cl_meeting_id c \<noteq> mid) (db_claims db),
      db_claim_versions = filter (\<lambda>v. cv_claim_id (cw_value v) \<notin> meeting_claim_ids mid db) (db_claim_versions db),
      db_assessments = filter (\<lambda>a. as_claim_version_id (aw_value a) \<notin> meeting_claim_version_ids mid db) (db_assessments db),
      db_research_jobs = filter (\<lambda>j. rj_claim_version_id (jw_value j) \<notin> meeting_claim_version_ids mid db) (db_research_jobs db),
      db_refinement_jobs = filter (\<lambda>j. fw_meeting_id j \<noteq> mid) (db_refinement_jobs db),
      db_inputs = filter (\<lambda>i. ri_refinement_job_id (iw_value i) \<notin> meeting_refinement_ids mid db) (db_inputs db),
      db_cleanup_jobs = filter (\<lambda>j. cj_meeting_id j \<noteq> mid) (db_cleanup_jobs db),
      db_gate = filter (\<lambda>g. gr_meeting_id g \<noteq> mid) (db_gate db),
      db_batches = filter (\<lambda>b. br_meeting_id b \<noteq> mid) (db_batches db),
      db_manual_requests = filter (\<lambda>r. mw_meeting_id r \<noteq> mid) (db_manual_requests db)\<rparr>"

definition find_cleanup :: "string \<Rightarrow> MeetingDb \<Rightarrow> CleanupRow option" where
  "find_cleanup mid db = find (\<lambda>j. cj_meeting_id j = mid) (db_cleanup_jobs db)"

definition open_cleanup :: "meeting_ext \<Rightarrow> string \<Rightarrow> mtx" where
  "open_cleanup X mid db =
     (case find_cleanup mid db of
        Some _ \<Rightarrow> Inr db
      | None \<Rightarrow>
          if list_ex (\<lambda>j. cj_id j = mx_id X 0) (db_cleanup_jobs db) then Inl Database
          else Inr (db\<lparr>db_cleanup_jobs := db_cleanup_jobs db @
                 [\<lparr>cj_id = mx_id X 0, cj_meeting_id = mid, cj_local_status = CleanupPending, cj_gateway_status = CleanupPending,
                   cj_provider_status = CleanupPending, cj_assets = [], cj_attempt_count = 0, cj_next_retry_at_ms = None,
                   cj_error = None, cj_created_at_ms = mx_now X, cj_updated_at_ms = mx_now X\<rparr>]\<rparr>))"

definition record_asset :: "string \<Rightarrow> AssetRow \<Rightarrow> mtx" where
  "record_asset mid a db =
     (case controlled_relative_path (aa_relative_path a) of
        Some e \<Rightarrow> Inl e
      | None \<Rightarrow>
          Inr (db\<lparr>db_cleanup_jobs := update_where (\<lambda>j. cj_meeting_id j = mid \<and> au_id (aa_value a) \<notin> fst ` set (cj_assets j))
            (\<lambda>j. j\<lparr>cj_assets := cj_assets j @ [(au_id (aa_value a), aa_relative_path a)]\<rparr>) (db_cleanup_jobs db)\<rparr>))"

definition mark_deleted :: "meeting_ext \<Rightarrow> string \<Rightarrow> mtx" where
  "mark_deleted X mid db =
     Inr (db\<lparr>db_meetings := update_where (\<lambda>m. me_id m = mid)
       (\<lambda>m. m\<lparr>me_deleted_at_ms := or_else (me_deleted_at_ms m) (Some (mx_now X)), me_updated_at_ms := mx_now X\<rparr>) (db_meetings db)\<rparr>)"

definition delete_meeting :: "meeting_ext \<Rightarrow> string \<Rightarrow> mtx" where
  "delete_meeting X mid db =
     tx_all
       ([checked (uuid X mid),
         (\<lambda>db. case get_meeting db mid True of Inl e \<Rightarrow> Inl e | Inr _ \<Rightarrow> Inr db),
         mark_deleted X mid, open_cleanup X mid] @
        map (record_asset mid) (filter (\<lambda>a. aa_meeting_id a = mid) (db_assets db))) db"

definition cleanup_terminal :: "CleanupStatus \<Rightarrow> bool" where
  "cleanup_terminal s = (s = CleanupComplete \<or> s = CleanupUnavailable)"

record CleanupConfirm =
  kq_cleanup_job_id :: string
  kq_local_status :: CleanupStatus
  kq_gateway_status :: CleanupStatus
  kq_provider_status :: CleanupStatus
  kq_error :: "TypedError option"

definition confirmed_cleanup :: "meeting_ext \<Rightarrow> CleanupConfirm \<Rightarrow> CleanupRow \<Rightarrow> CleanupRow" where
  "confirmed_cleanup X r j =
     j\<lparr>cj_local_status := kq_local_status r, cj_gateway_status := kq_gateway_status r,
       cj_provider_status := kq_provider_status r, cj_error := kq_error r, cj_attempt_count := cj_attempt_count j + 1,
       cj_updated_at_ms := mx_now X\<rparr>"

definition remove_meeting :: "string \<Rightarrow> MeetingDb \<Rightarrow> MeetingDb" where
  "remove_meeting mid db =
     (let sids = meeting_segment_ids mid db;
          db1 = db\<lparr>db_replacements := filter (\<lambda>p. fst p \<notin> sids \<and> snd p \<notin> sids) (db_replacements db)\<rparr>
      in if list_ex (\<lambda>m. me_id m = mid \<and> me_deleted_at_ms m \<noteq> None) (db_meetings db1) then purge mid db1 else db1)"

text \<open>The flag says whether the records are reported as removed.\<close>

definition confirm_cleanup :: "meeting_ext \<Rightarrow> CleanupConfirm \<Rightarrow> MeetingDb \<Rightarrow> MeetingError + bool \<times> MeetingDb" where
  "confirm_cleanup X r db =
     (case first_error [uuid X (kq_cleanup_job_id r), typed_error (kq_error r)] of
        Some e \<Rightarrow> Inl e
      | None \<Rightarrow>
          (case find (\<lambda>j. cj_id j = kq_cleanup_job_id r) (db_cleanup_jobs db) of
             None \<Rightarrow> Inl NotFound
           | Some job \<Rightarrow>
               (let db1 = db\<lparr>db_cleanup_jobs := update_where (\<lambda>j. cj_id j = kq_cleanup_job_id r) (confirmed_cleanup X r) (db_cleanup_jobs db)\<rparr>
                in if cleanup_terminal (kq_local_status r) \<and> cleanup_terminal (kq_gateway_status r) \<and>
                      cleanup_terminal (kq_provider_status r)
                   then Inr (True, remove_meeting (cj_meeting_id job) db1)
                   else Inr (False, db1))))"

subsection \<open>Recovery\<close>

definition in_progress :: "LifecycleStatus \<Rightarrow> bool" where
  "in_progress s = (s \<in> {LifeStarting, LifeRecording, LifePaused, LifeStopping, LifeFinalizing})"

definition interruptible :: "MeetingRow \<Rightarrow> bool" where
  "interruptible m = (me_deleted_at_ms m = None \<and> in_progress (me_status m))"

definition retry_if_running :: "CleanupStatus \<Rightarrow> CleanupStatus" where
  "retry_if_running s = (if s = CleanupRunning then CleanupRetryWait else s)"

definition cleanup_running :: "CleanupRow \<Rightarrow> bool" where
  "cleanup_running j =
     (cj_local_status j = CleanupRunning \<or> cj_gateway_status j = CleanupRunning \<or> cj_provider_status j = CleanupRunning)"

definition reconcile :: "meeting_ext \<Rightarrow> MeetingDb \<Rightarrow> MeetingDb" where
  "reconcile X db =
     (let now = mx_now X
      in db\<lparr>db_meetings := update_where interruptible
             (\<lambda>m. m\<lparr>me_status := LifeInterrupted, me_capture_status := CaptureInterrupted, me_updated_at_ms := now\<rparr>) (db_meetings db),
            db_assets := update_where (\<lambda>a. au_status (aa_value a) = AssetRecording)
             (\<lambda>a. a\<lparr>aa_value := (aa_value a)\<lparr>au_status := AssetInterrupted\<rparr>, aa_updated_at_ms := now\<rparr>) (db_assets db),
            db_research_jobs := update_where (\<lambda>j. rj_status (jw_value j) = JobRunning)
             (\<lambda>j. j\<lparr>jw_value := (jw_value j)\<lparr>rj_status := JobRetryWait,
                     rj_next_retry_at_ms := or_else (rj_next_retry_at_ms (jw_value j)) (Some now)\<rparr>, jw_updated_at_ms := now\<rparr>) (db_research_jobs db),
            db_refinement_jobs := update_where (\<lambda>j. fj_status (fw_value j) \<in> {RefineUploading, RefineProcessing, RefineReconciling})
             (\<lambda>j. j\<lparr>fw_value := (fw_value j)\<lparr>fj_status := RefineRetryWait,
                     fj_next_retry_at_ms := or_else (fj_next_retry_at_ms (fw_value j)) (Some now)\<rparr>, fw_updated_at_ms := now\<rparr>) (db_refinement_jobs db),
            db_cleanup_jobs := update_where cleanup_running
             (\<lambda>j. j\<lparr>cj_local_status := retry_if_running (cj_local_status j), cj_gateway_status := retry_if_running (cj_gateway_status j),
                     cj_provider_status := retry_if_running (cj_provider_status j),
                     cj_next_retry_at_ms := or_else (cj_next_retry_at_ms j) (Some now), cj_updated_at_ms := now\<rparr>) (db_cleanup_jobs db)\<rparr>)"

record Recovery =
  rv_interrupted :: "string list"
  rv_refinement_jobs :: "string list"
  rv_research_jobs :: "string list"
  rv_cleanup_jobs :: "string list"

definition waiting :: "CleanupStatus \<Rightarrow> bool" where
  "waiting s = (s = CleanupPending \<or> s = CleanupRetryWait)"

definition cleanup_resumable :: "CleanupRow \<Rightarrow> bool" where
  "cleanup_resumable j =
     ((waiting (cj_local_status j) \<or> waiting (cj_gateway_status j) \<or> waiting (cj_provider_status j)) \<and> \<not> cleanup_running j)"

definition recover :: "meeting_ext \<Rightarrow> bool \<Rightarrow> MeetingDb \<Rightarrow> Recovery \<times> MeetingDb" where
  "recover X reconcile_active_work db =
     (let db1 = (if reconcile_active_work then reconcile X db else db);
          by_id = sort_key (map byte)
      in (\<lparr>rv_interrupted = (if reconcile_active_work then by_id (map me_id (filter interruptible (db_meetings db))) else []),
           rv_refinement_jobs = by_id (map (fj_id \<circ> fw_value) (filter (\<lambda>j. fj_status (fw_value j) = RefineRetryWait \<or>
              (reconcile_active_work \<and> fj_status (fw_value j) = RefineQueued)) (db_refinement_jobs db1))),
           rv_research_jobs = by_id (map (rj_id \<circ> jw_value) (filter (\<lambda>j. rj_status (jw_value j) = JobRetryWait \<or>
              (reconcile_active_work \<and> rj_status (jw_value j) = JobPending)) (db_research_jobs db1))),
           rv_cleanup_jobs = by_id (map cj_id (filter cleanup_resumable (db_cleanup_jobs db1)))\<rparr>, db1))"

subsection \<open>Reading an artifact\<close>

record Artifact =
  ar_meeting :: MeetingRow
  ar_speakers :: "SpeakerRow list"
  ar_observations :: "ObservationRow list"
  ar_versions :: "VersionRow list"
  ar_segments :: "(SegmentRow \<times> string list) list"
  ar_events :: "EventRow list"
  ar_assets :: "AssetRow list"
  ar_inputs :: "InputRow list"
  ar_claims :: "ClaimRow list"
  ar_claim_versions :: "ClaimVersionRow list"
  ar_manual_requests :: "ManualRow list"
  ar_pending_segments :: "string list"
  ar_pending_batches :: "BatchRow list"
  ar_assessments :: "AssessmentRow list"
  ar_research_jobs :: "ResearchJobRow list"
  ar_refinement_jobs :: "RefinementJobRow list"

definition list_speaker_observations :: "MeetingDb \<Rightarrow> string \<Rightarrow> ObservationRow list" where
  "list_speaker_observations db mid =
     sort_key (\<lambda>r. (map byte (ob_transcript_version_id (ow_value r)), map byte (ob_provider_namespace (ow_value r)),
                     map byte (ob_provider_speaker_label (ow_value r))))
       (filter (\<lambda>r. ow_meeting_id r = mid) (db_observations db))"

definition list_transcript_versions :: "MeetingDb \<Rightarrow> string \<Rightarrow> VersionRow list" where
  "list_transcript_versions db mid =
     sort_key (\<lambda>r. (sint (tv_revision_number (vw_value r)), vw_created_at_ms r, map byte (tv_id (vw_value r))))
       (filter (\<lambda>r. vw_meeting_id r = mid) (db_versions db))"

definition replaced_by :: "MeetingDb \<Rightarrow> string \<Rightarrow> string list" where
  "replaced_by db i = sort_key (map byte) (map snd (filter (\<lambda>p. fst p = i) (db_replacements db)))"

definition list_transcript_segments :: "MeetingDb \<Rightarrow> string \<Rightarrow> (SegmentRow \<times> string list) list" where
  "list_transcript_segments db mid =
     map (\<lambda>r. (r, replaced_by db (ts_id (sg_value r))))
       (sort_key (\<lambda>r. (map byte (ts_transcript_version_id (sg_value r)), ts_start_ms (sg_value r),
                        ts_provider_turn_order (sg_value r), map byte (ts_id (sg_value r))))
         (filter (\<lambda>r. sg_meeting_id r = mid) (db_segments db)))"

definition list_timeline_events :: "MeetingDb \<Rightarrow> string \<Rightarrow> EventRow list" where
  "list_timeline_events db mid =
     sort_key (\<lambda>r. (tl_start_ms (ew_value r), map byte (tl_id (ew_value r)))) (filter (\<lambda>r. ew_meeting_id r = mid) (db_events db))"

definition list_audio_assets :: "MeetingDb \<Rightarrow> string \<Rightarrow> AssetRow list" where
  "list_audio_assets db mid =
     sort_key (\<lambda>r. (au_timeline_start_ms (aa_value r), au_timeline_part (aa_value r), map byte (au_id (aa_value r))))
       (filter (\<lambda>r. aa_meeting_id r = mid) (db_assets db))"

definition list_refinement_inputs :: "MeetingDb \<Rightarrow> string \<Rightarrow> InputRow list" where
  "list_refinement_inputs db mid =
     sort_key (\<lambda>r. (map byte (ri_refinement_job_id (iw_value r)), ri_part_index (iw_value r)))
       (filter (\<lambda>r. refinement_job_exists mid (ri_refinement_job_id (iw_value r)) db) (db_inputs db))"

definition list_claims :: "MeetingDb \<Rightarrow> string \<Rightarrow> ClaimRow list" where
  "list_claims db mid =
     sort_key (\<lambda>c. (cl_created_at_ms c, map byte (cl_id c))) (filter (\<lambda>c. cl_meeting_id c = mid) (db_claims db))"

definition list_claim_versions :: "MeetingDb \<Rightarrow> string \<Rightarrow> ClaimVersionRow list" where
  "list_claim_versions db mid =
     sort_key (\<lambda>v. (cw_created_at_ms v, map byte (cv_claim_id (cw_value v)), cv_version_number (cw_value v)))
       (filter (\<lambda>v. claim_in_meeting mid (cv_claim_id (cw_value v)) db) (db_claim_versions db))"

definition list_manual_fact_check_requests :: "MeetingDb \<Rightarrow> string \<Rightarrow> ManualRow list" where
  "list_manual_fact_check_requests db mid =
     sort_key (\<lambda>r. (mw_created_at_ms r, map byte (mq_id (mw_value r)))) (filter (\<lambda>r. mw_meeting_id r = mid) (db_manual_requests db))"

definition list_assessments :: "MeetingDb \<Rightarrow> string \<Rightarrow> AssessmentRow list" where
  "list_assessments db mid =
     sort_key (\<lambda>a. (as_started_at_ms (aw_value a), map byte (as_id (aw_value a))))
       (filter (\<lambda>a. claim_version_exists mid (as_claim_version_id (aw_value a)) db) (db_assessments db))"

definition list_research_jobs :: "MeetingDb \<Rightarrow> string \<Rightarrow> ResearchJobRow list" where
  "list_research_jobs db mid =
     sort_key (\<lambda>j. (jw_created_at_ms j, map byte (rj_id (jw_value j))))
       (filter (\<lambda>j. claim_version_exists mid (rj_claim_version_id (jw_value j)) db) (db_research_jobs db))"

definition list_refinement_jobs :: "MeetingDb \<Rightarrow> string \<Rightarrow> RefinementJobRow list" where
  "list_refinement_jobs db mid =
     sort_key (\<lambda>j. (fw_created_at_ms j, map byte (fj_id (fw_value j)))) (filter (\<lambda>j. fw_meeting_id j = mid) (db_refinement_jobs db))"

definition get_artifact :: "meeting_ext \<Rightarrow> MeetingDb \<Rightarrow> string \<Rightarrow> MeetingError + Artifact" where
  "get_artifact X db mid =
     (case uuid X mid of
        Some e \<Rightarrow> Inl e
      | None \<Rightarrow>
          (case get_meeting db mid False of
             Inl e \<Rightarrow> Inl e
           | Inr m \<Rightarrow>
               Inr \<lparr>ar_meeting = m, ar_speakers = list_speakers db mid, ar_observations = list_speaker_observations db mid,
                    ar_versions = list_transcript_versions db mid, ar_segments = list_transcript_segments db mid,
                    ar_events = list_timeline_events db mid, ar_assets = list_audio_assets db mid,
                    ar_inputs = list_refinement_inputs db mid, ar_claims = list_claims db mid,
                    ar_claim_versions = list_claim_versions db mid,
                    ar_manual_requests = list_manual_fact_check_requests db mid,
                    ar_pending_segments = list_pending_claim_gate_segment_ids db mid,
                    ar_pending_batches = list_pending_claim_gate_batches db mid, ar_assessments = list_assessments db mid,
                    ar_research_jobs = list_research_jobs db mid, ar_refinement_jobs = list_refinement_jobs db mid\<rparr>))"

end
