(* ===== verification/Meeting_Logic.thy ===== *)
theory Meeting_Logic
  imports Meeting_Cleanup
begin

text \<open>
  Reasoning about transactions: \<open>hoare P t Q\<close> says that \<open>t\<close>, if it succeeds on a database with \<open>P\<close>, leaves one with \<open>Q\<close>.
  \<open>touches e t\<close> says that \<open>t\<close> changes only the tables \<open>e\<close> erases; the collection \<open>touching\<close> says it of every statement
  of the store, so that a property of other tables is kept without looking at the statement.
\<close>

named_theorems touching "which tables a statement changes"

definition hoare :: "('s \<Rightarrow> bool) \<Rightarrow> ('s \<Rightarrow> 'e + 's) \<Rightarrow> ('s \<Rightarrow> bool) \<Rightarrow> bool" where
  "hoare P t Q = (\<forall>s s'. P s \<longrightarrow> t s = Inr s' \<longrightarrow> Q s')"

abbreviation keeps :: "('s \<Rightarrow> bool) \<Rightarrow> ('s \<Rightarrow> 'e + 's) \<Rightarrow> bool" where
  "keeps P t \<equiv> hoare P t P"

definition touches :: "('s \<Rightarrow> 'r) \<Rightarrow> ('s \<Rightarrow> 'e + 's) \<Rightarrow> bool" where
  "touches e t = (\<forall>s s'. t s = Inr s' \<longrightarrow> e s' = e s)"

lemma hoareI: "(\<And>s s'. P s \<Longrightarrow> t s = Inr s' \<Longrightarrow> Q s') \<Longrightarrow> hoare P t Q"
  by (simp add: hoare_def)

lemma hoareD: "hoare P t Q \<Longrightarrow> t s = Inr s' \<Longrightarrow> P s \<Longrightarrow> Q s'"
  by (simp add: hoare_def)

lemma hoare_pre: "hoare P t Q \<Longrightarrow> (\<And>s. P' s \<Longrightarrow> P s) \<Longrightarrow> hoare P' t Q"
  by (auto simp: hoare_def)

lemma hoare_post: "hoare P t Q \<Longrightarrow> (\<And>s. Q s \<Longrightarrow> Q' s) \<Longrightarrow> hoare P t Q'"
  by (auto simp: hoare_def)

lemma hoare_conj: "hoare P t Q \<Longrightarrow> hoare P t Q' \<Longrightarrow> hoare P t (\<lambda>s. Q s \<and> Q' s)"
  by (auto simp: hoare_def)

lemma keeps_conj: "keeps P t \<Longrightarrow> keeps Q t \<Longrightarrow> keeps (\<lambda>s. P s \<and> Q s) t"
  by (auto simp: hoare_def)

lemma hoare_nil: "hoare P (tx_all []) P"
  by (simp add: hoare_def)

lemma hoare_cons: "hoare P t R \<Longrightarrow> hoare R (tx_all ts) Q \<Longrightarrow> hoare P (tx_all (t # ts)) Q"
  by (auto simp: hoare_def split: sum.splits)

lemma tx_all_append: "tx_all (ts @ us) s = (case tx_all ts s of Inl e \<Rightarrow> Inl e | Inr s' \<Rightarrow> tx_all us s')"
  by (induction ts arbitrary: s) (auto split: sum.splits)

lemma hoare_append: "hoare P (tx_all ts) R \<Longrightarrow> hoare R (tx_all us) Q \<Longrightarrow> hoare P (tx_all (ts @ us)) Q"
  by (auto simp: hoare_def tx_all_append split: sum.splits)

lemma keeps_tx_all: "(\<And>t. t \<in> set ts \<Longrightarrow> keeps P t) \<Longrightarrow> keeps P (tx_all ts)"
  by (induction ts) (auto intro: hoare_nil hoare_cons)

lemma keeps_map: "(\<And>x. x \<in> set xs \<Longrightarrow> keeps P (f x)) \<Longrightarrow> keeps P (tx_all (map f xs))"
  by (rule keeps_tx_all) auto

lemma hoare_map_all:
  assumes "\<And>x. hoare (\<lambda>_. True) (f x) (Q x)" "\<And>x y. keeps (Q y) (f x)"
  shows "hoare (\<lambda>_. True) (tx_all (map f xs)) (\<lambda>s. \<forall>x \<in> set xs. Q x s)"
proof (induction xs)
  case Nil
  show ?case by (simp add: hoare_def)
next
  case (Cons x xs)
  have "hoare (Q x) (tx_all (map f xs)) (\<lambda>s. Q x s \<and> (\<forall>y \<in> set xs. Q y s))"
    by (rule hoare_conj[OF keeps_map[OF assms(2)] hoare_pre[OF Cons]]) simp
  from hoare_cons[OF assms(1) this] show ?case by (simp del: tx_all.simps)
qed

lemma keeps_skip [simp, intro]: "keeps P Inr" "keeps P (checked e)" "keeps P (require p x)"
  by (auto simp: hoare_def checked_def require_def split: option.splits if_splits)

lemma hoare_checked: "hoare P (checked e) (\<lambda>s. P s \<and> e = None)"
  by (auto simp: hoare_def checked_def split: option.splits)

lemma hoare_require: "hoare P (require p x) (\<lambda>s. P s \<and> p s)"
  by (auto simp: hoare_def require_def split: if_splits)

lemma hoare_on_db: "hoare P t Q \<Longrightarrow> hoare (\<lambda>acc. P (snd acc)) (on_db t) (\<lambda>acc. Q (snd acc))"
  by (auto simp: hoare_def on_db_def split: sum.splits)

lemma keeps_touch: "touches e t \<Longrightarrow> (\<And>s. P (e s) = P s) \<Longrightarrow> keeps P t"
  unfolding hoare_def touches_def by metis

lemma touches_tx_all: "(\<And>t. t \<in> set ts \<Longrightarrow> touches e t) \<Longrightarrow> touches e (tx_all ts)"
proof (induction ts)
  case Nil
  show ?case by (simp add: touches_def)
next
  case (Cons t ts)
  then have "touches e t" "touches e (tx_all ts)" by simp_all
  then show ?case by (auto simp: touches_def split: sum.splits)
qed

lemma touches_skip [simp, intro]: "touches e Inr" "touches e (checked x)" "touches e (require p y)"
  by (auto simp: touches_def checked_def require_def split: option.splits if_splits)

lemma checks_passed: "first_error es = None \<longleftrightarrow> list_all (\<lambda>e. e = None) es"
  by (induction es rule: first_error.induct) auto

subsection \<open>Updates of tables\<close>

lemma set_update_where: "set (update_where p f xs) = (\<lambda>x. if p x then f x else x) ` set xs"
  by (auto simp: update_where_def)

lemma update_where_quantifiers:
  "(\<exists>x \<in> set (update_where p f xs). q x) \<longleftrightarrow> (\<exists>x \<in> set xs. q (if p x then f x else x))"
  "(\<forall>x \<in> set (update_where p f xs). q x) \<longleftrightarrow> (\<forall>x \<in> set xs. q (if p x then f x else x))"
  by (auto simp: update_where_def)

lemma map_update_where: "(\<And>x. p x \<Longrightarrow> g (f x) = g x) \<Longrightarrow> map g (update_where p f xs) = map g xs"
  by (simp add: update_where_def)

lemma image_update_where: "(\<And>x. p x \<Longrightarrow> g (f x) = g x) \<Longrightarrow> g ` set (update_where p f xs) = g ` set xs"
  by (simp only: set_map[symmetric] map_update_where)

lemma list_ex_update_where: "list_ex q (update_where p f xs) = list_ex (\<lambda>x. q (if p x then f x else x)) xs"
  by (induction xs) (auto simp: update_where_def)

lemma filter_update_where:
  "(\<And>x. p x \<Longrightarrow> q (f x) = q x) \<Longrightarrow> filter q (update_where p f xs) = update_where p f (filter q xs)"
  by (induction xs) (auto simp: update_where_def)

lemma find_update_where:
  "(\<And>x. p x \<Longrightarrow> q (f x) = q x) \<Longrightarrow> find q (update_where p f xs) = map_option (\<lambda>x. if p x then f x else x) (find q xs)"
  by (induction xs) (auto simp: update_where_def)

lemma find_append: "find p (xs @ ys) = (case find p xs of Some x \<Rightarrow> Some x | None \<Rightarrow> find p ys)"
  by (induction xs) auto

lemma find_in: "find p xs = Some x \<Longrightarrow> x \<in> set xs \<and> p x"
  by (auto simp: find_Some_iff)

lemma find_none: "find p xs = None \<longleftrightarrow> (\<forall>x \<in> set xs. \<not> p x)"
  by (auto simp: find_None_iff)

lemma find_key: "distinct (map k xs) \<Longrightarrow> x \<in> set xs \<Longrightarrow> find (\<lambda>y. k y = k x) xs = Some x"
  by (induction xs) auto

lemma key_unique: "distinct (map k xs) \<Longrightarrow> x \<in> set xs \<Longrightarrow> y \<in> set xs \<Longrightarrow> k x = k y \<Longrightarrow> x = y"
  by (metis distinct_map inj_onD)

lemma find_key_filter:
  assumes "distinct (map k xs)"
  shows "find (\<lambda>y. k y = i) (filter q xs) =
    (case find (\<lambda>y. k y = i) xs of Some x \<Rightarrow> if q x then Some x else None | None \<Rightarrow> None)"
  using assms
proof (induction xs)
  case (Cons a xs)
  show ?case
  proof (cases "k a = i")
    case True
    with Cons.prems have "find (\<lambda>y. k y = i) (filter q xs) = None" by (auto simp: find_None_iff image_iff)
    with True show ?thesis by simp
  qed (use Cons in simp)
qed simp

subsection \<open>Which tables the statements change\<close>

lemmas statement_splits = option.splits if_splits sum.splits prod.splits

lemma touches_meetings [touching]:
  "touches (\<lambda>db. db\<lparr>db_meetings := []\<rparr>) (insert_meeting X cr)"
  "touches (\<lambda>db. db\<lparr>db_meetings := []\<rparr>) (set_canonical mid vid)"
  "touches (\<lambda>db. db\<lparr>db_meetings := []\<rparr>) (touch_meeting X mid)"
  "touches (\<lambda>db. db\<lparr>db_meetings := []\<rparr>) (update_meeting X ur)"
  "touches (\<lambda>db. db\<lparr>db_meetings := []\<rparr>) (meeting_open mid)"
  "touches (\<lambda>db. db\<lparr>db_meetings := []\<rparr>) (promote_canonical X mid v)"
  "touches (\<lambda>db. db\<lparr>db_meetings := []\<rparr>) (set_research_status X mid js)"
  "touches (\<lambda>db. db\<lparr>db_meetings := []\<rparr>) (promote_refined X mid vid)"
  "touches (\<lambda>db. db\<lparr>db_meetings := []\<rparr>) (mark_deleted X mid)"
  by (auto simp: touches_def insert_meeting_def set_canonical_def touch_meeting_def update_meeting_def meeting_open_def
      promote_canonical_def set_research_status_def promote_refined_def mark_deleted_def require_def
      split: statement_splits)

lemma touches_speakers [touching]:
  "touches (\<lambda>db. db\<lparr>db_speakers := []\<rparr>) (insert_speaker X mid sid label s)"
  "touches (\<lambda>db. db\<lparr>db_speakers := []\<rparr>) (insert_initial_speaker X n s)"
  "touches (\<lambda>db. db\<lparr>db_speakers := []\<rparr>) (upsert_speaker X mid s)"
  "touches (\<lambda>db. db\<lparr>db_speakers := []\<rparr>) (swap_speakers X mid w)"
  by (auto simp: touches_def insert_speaker_def insert_initial_speaker_def upsert_speaker_def swap_speakers_def checked_def
      require_def Let_def ensure_optional_speaker_def ensure_speaker_def split: statement_splits)

lemma touches_transcript [touching]:
  "touches (\<lambda>db. db\<lparr>db_versions := []\<rparr>) (insert_live_version X cr)"
  "touches (\<lambda>db. db\<lparr>db_versions := []\<rparr>) (upsert_transcript_version X mid v)"
  "touches (\<lambda>db. db\<lparr>db_segments := []\<rparr>) (assign_segment_speaker X mid u)"
  "touches (\<lambda>db. db\<lparr>db_segments := []\<rparr>) (replace_segment X mid s)"
  "touches (\<lambda>db. db\<lparr>db_replacements := []\<rparr>) (insert_replacement mid i j)"
  "touches (\<lambda>db. db\<lparr>db_observations := []\<rparr>) (upsert_speaker_observation X mid ob)"
  by (auto simp: touches_def insert_live_version_def upsert_transcript_version_def assign_segment_speaker_def checked_def
      require_def replace_segment_def insert_replacement_def upsert_speaker_observation_def write_observation_def
      ensure_optional_speaker_def ensure_speaker_def split: statement_splits)

lemma touches_gate [touching]:
  "touches (\<lambda>db. db\<lparr>db_gate := []\<rparr>) (enqueue_claim_gate_segment X mid sid n)"
  "touches (\<lambda>db. db\<lparr>db_gate := []\<rparr>) (process_turn X mid t)"
  "touches (\<lambda>db. db\<lparr>db_batches := []\<rparr>) (insert_batch X mid b)"
  "touches (\<lambda>db. db\<lparr>db_batches := []\<rparr>) (admit_turn mid t)"
  by (auto simp: touches_def enqueue_claim_gate_segment_def process_turn_def insert_batch_def admit_turn_def Let_def
      split: statement_splits)

lemma touches_begin [touching]: "touches (\<lambda>db. db\<lparr>db_batches := []\<rparr>) (begin_claim_gate_batch X mid b)"
proof -
  have "touches (\<lambda>db. db\<lparr>db_batches := []\<rparr>) (tx_all (map (admit_turn mid) (gb_turns b) @ [insert_batch X mid b]))"
    by (rule touches_tx_all) (auto intro: touching)
  then show ?thesis by (auto simp: touches_def begin_claim_gate_batch_def split: statement_splits)
qed

lemma touches_complete [touching]:
  "touches (\<lambda>db. db\<lparr>db_gate := [], db_batches := []\<rparr>) (complete_claim_gate_batch X mid bid)"
proof -
  have "touches (\<lambda>db. db\<lparr>db_gate := [], db_batches := []\<rparr>) (process_turn X mid t)" for t
    by (auto simp: touches_def process_turn_def split: if_splits)
  then have "touches (\<lambda>db. db\<lparr>db_gate := [], db_batches := []\<rparr>)
      (tx_all (map (process_turn X mid) ts @
         [\<lambda>db. Inr (db\<lparr>db_batches := update_where (\<lambda>r. br_id r = bid) (\<lambda>r. r\<lparr>br_processed_at_ms := Some (mx_now X)\<rparr>)
                        (db_batches db)\<rparr>)]))" for ts
    by (intro touches_tx_all) (auto simp: touches_def)
  then show ?thesis by (auto simp: touches_def complete_claim_gate_batch_def split: statement_splits)
qed

lemma touches_manual [touching]: "touches (\<lambda>db. db\<lparr>db_manual_requests := []\<rparr>) (upsert_manual_fact_check_request X mid v)"
  unfolding upsert_manual_fact_check_request_def
proof (rule touches_tx_all)
  have "touches (\<lambda>db. db\<lparr>db_manual_requests := []\<rparr>) (ensure_context_turn mid t)" for t
    unfolding ensure_context_turn_def
    by (rule touches_tx_all)
      (auto simp: ensure_meeting_segment_def ensure_optional_speaker_def ensure_speaker_def split: option.splits)
  moreover have "touches (\<lambda>db. db\<lparr>db_manual_requests := []\<rparr>) (write_manual_request X mid v)"
    by (auto simp: touches_def write_manual_request_def split: statement_splits)
  ultimately show "touches (\<lambda>db. db\<lparr>db_manual_requests := []\<rparr>) t"
    if "t \<in> set ([ensure_optional_speaker mid (mq_speaker_id v)] @ map (ensure_context_turn mid) (mq_context_turns v) @
      map (ensure_meeting_segment mid) (mq_source_segment_ids v) @ [write_manual_request X mid v])" for t
    using that by (auto simp: ensure_meeting_segment_def ensure_optional_speaker_def ensure_speaker_def split: option.splits)
qed

lemma touches_claims [touching]:
  "touches (\<lambda>db. db\<lparr>db_claims := [], db_claim_versions := []\<rparr>) (upsert_claim X mid v)"
  "touches (\<lambda>db. db\<lparr>db_claims := [], db_claim_versions := []\<rparr>) (update_claim_status_for_version X mid i st)"
  "touches (\<lambda>db. db\<lparr>db_claims := [], db_claim_versions := []\<rparr>) (upsert_claim_version X mid v)"
  "touches (\<lambda>db. db\<lparr>db_claims := [], db_claim_versions := []\<rparr>) (set_current_version X v)"
  "touches (\<lambda>db. db\<lparr>db_claims := [], db_claim_versions := []\<rparr>) (mark_claim_version_stale X mid i)"
  by (auto simp: touches_def upsert_claim_def update_claim_status_for_version_def upsert_claim_version_def
      set_current_version_def supersede_def mark_claim_version_stale_def Let_def split: statement_splits)

lemma touches_references [touching]: "touches e (ensure_optional_speaker mid i)" "touches e (ensure_claim_references mid v)"
proof -
  show sp: "touches e (ensure_optional_speaker mid i)" for i
    by (auto simp: ensure_optional_speaker_def ensure_speaker_def split: option.splits)
  have "touches e (ensure_claim_version_relationship mid cid i)" for cid i
    by (auto simp: touches_def ensure_claim_version_relationship_def split: statement_splits)
  with sp show "touches e (ensure_claim_references mid v)"
    unfolding ensure_claim_references_def by (intro touches_tx_all) auto
qed

lemma touches_apply_claim [touching]:
  "touches (\<lambda>db. db\<lparr>db_claims := [], db_claim_versions := []\<rparr>) (apply_claim_version X mid v)"
  unfolding apply_claim_version_def by (rule touches_tx_all) (auto intro: touching)

lemma touches_jobs [touching]:
  "touches (\<lambda>db. db\<lparr>db_events := []\<rparr>) (apply_event X mid ev)"
  "touches (\<lambda>db. db\<lparr>db_assets := []\<rparr>) (upsert_asset X mid a)"
  "touches (\<lambda>db. db\<lparr>db_inputs := []\<rparr>) (clear_manifest mid jid)"
  "touches (\<lambda>db. db\<lparr>db_inputs := []\<rparr>) (upsert_input X mid inp)"
  "touches (\<lambda>db. db\<lparr>db_research_jobs := []\<rparr>) (upsert_research_job X mid rj)"
  "touches (\<lambda>db. db\<lparr>db_assessments := []\<rparr>) (insert_assessment X mid v)"
  "touches (\<lambda>db. db\<lparr>db_refinement_jobs := []\<rparr>) (upsert_refinement_job X mid fj)"
  "touches (\<lambda>db. db\<lparr>db_refinement_jobs := []\<rparr>) (complete_refinement_job X jid)"
  "touches (\<lambda>db. db\<lparr>db_cleanup_jobs := []\<rparr>) (open_cleanup X mid)"
  "touches (\<lambda>db. db\<lparr>db_cleanup_jobs := []\<rparr>) (record_asset mid asset)"
  by (auto simp: touches_def apply_event_def upsert_asset_def clear_manifest_def upsert_input_def upsert_research_job_def
      write_research_job_def insert_assessment_def write_assessment_def upsert_refinement_job_def complete_refinement_job_def
      open_cleanup_def record_asset_def ensure_refinement_job_def ensure_claim_version_def require_def Let_def
      split: statement_splits)

end
