(* ===== verification/Meeting_Invariant.thy ===== *)
theory Meeting_Invariant
  imports Meeting_Logic
begin

text \<open>
  The store of meetings as a transition system: a step is one successful call, with an arbitrary clock and arbitrary
  fresh identifiers. The transcript and the claim gate are well formed in every state it reaches.
\<close>

datatype MeetingCall =
    CallCreate CreateRequest
  | CallUpdate UpdateRequest
  | CallSpeakers SpeakersRequest
  | CallTranscript TranscriptRequest
  | CallTimeline TimelineRequest
  | CallAudio AudioRequest
  | CallClaims ClaimsRequest
  | CallResearch ResearchRequest
  | CallRefinementJob string RefinementJobUpsert
  | CallRefinementResult RefinementResult
  | CallDelete string
  | CallConfirm CleanupConfirm
  | CallRecover bool

fun run_call :: "meeting_ext \<Rightarrow> MeetingCall \<Rightarrow> mtx" where
  "run_call X (CallCreate r) db = create_meeting X r db"
| "run_call X (CallUpdate r) db = update_meeting X r db"
| "run_call X (CallSpeakers r) db = apply_speakers X r db"
| "run_call X (CallTranscript r) db = map_sum id snd (apply_transcript X r db)"
| "run_call X (CallTimeline r) db = apply_timeline X r db"
| "run_call X (CallAudio r) db = apply_audio X r db"
| "run_call X (CallClaims r) db = apply_claims X r db"
| "run_call X (CallResearch r) db = apply_research X r db"
| "run_call X (CallRefinementJob mid v) db = apply_refinement_job X mid v db"
| "run_call X (CallRefinementResult r) db = map_sum id snd (apply_refinement_result X r db)"
| "run_call X (CallDelete mid) db = delete_meeting X mid db"
| "run_call X (CallConfirm r) db = map_sum id snd (confirm_cleanup X r db)"
| "run_call X (CallRecover b) db = Inr (snd (recover X b db))"

definition empty_meetings :: MeetingDb where
  "empty_meetings =
     \<lparr>db_meetings = [], db_speakers = [], db_versions = [], db_observations = [], db_segments = [], db_replacements = [],
      db_assets = [], db_events = [], db_claims = [], db_claim_versions = [], db_assessments = [], db_research_jobs = [],
      db_refinement_jobs = [], db_inputs = [], db_cleanup_jobs = [], db_gate = [], db_batches = [], db_manual_requests = []\<rparr>"

inductive meetings_reachable :: "MeetingDb \<Rightarrow> bool" where
  initial: "meetings_reachable empty_meetings"
| call: "meetings_reachable db \<Longrightarrow> run_call X c db = Inr db' \<Longrightarrow> meetings_reachable db'"

locale meeting_invariant =
  fixes inv :: "MeetingDb \<Rightarrow> bool"
  assumes initially: "inv empty_meetings"
    and every_call: "keeps inv (run_call X c)"
begin

lemma always: "meetings_reachable db \<Longrightarrow> inv db"
  by (induction rule: meetings_reachable.induct) (auto intro: initially hoareD[OF every_call])

end

subsection \<open>Transcripts\<close>

abbreviation seg_id :: "SegmentRow \<Rightarrow> string" where
  "seg_id r \<equiv> ts_id (sg_value r)"

abbreviation seg_revision :: "SegmentRow \<Rightarrow> int" where
  "seg_revision r \<equiv> sint (ts_revision_number (sg_value r))"

definition has_version :: "string \<Rightarrow> string \<Rightarrow> VersionKind \<Rightarrow> MeetingDb \<Rightarrow> bool" where
  "has_version mid vid k db =
     (\<exists>v \<in> set (db_versions db). tv_id (vw_value v) = vid \<and> vw_meeting_id v = mid \<and> tv_kind (vw_value v) = k)"

definition has_segment :: "string \<Rightarrow> string \<Rightarrow> MeetingDb \<Rightarrow> bool" where
  "has_segment mid i db = (\<exists>r \<in> set (db_segments db). seg_id r = i \<and> sg_meeting_id r = mid)"

definition transcript_inv :: "MeetingDb \<Rightarrow> bool" where
  "transcript_inv db =
     (distinct (map (tv_id \<circ> vw_value) (db_versions db)) \<and>
      distinct (map (ts_id \<circ> sg_value) (db_segments db)) \<and>
      (\<forall>r \<in> set (db_segments db). 0 \<le> seg_revision r \<and>
         (\<exists>k. has_version (sg_meeting_id r) (ts_transcript_version_id (sg_value r)) k db)) \<and>
      (\<forall>p \<in> set (db_replacements db). \<exists>mid. has_segment mid (fst p) db \<and> has_segment mid (snd p) db))"

subsection \<open>The claim gate\<close>

text \<open>\<open>closing\<close> holds the batches that are being completed: their turns may be processed already.\<close>

definition gate_keys_distinct :: "MeetingDb \<Rightarrow> bool" where
  "gate_keys_distinct db = distinct (map (\<lambda>g. (gr_meeting_id g, gr_segment_id g)) (db_gate db))"

definition gate_behind_segments :: "MeetingDb \<Rightarrow> bool" where
  "gate_behind_segments db =
     (\<forall>g \<in> set (db_gate db). \<exists>r \<in> set (db_segments db).
        sg_meeting_id r = gr_meeting_id g \<and> seg_id r = gr_segment_id g \<and> gr_queued g \<le> seg_revision r)"

definition live_kind :: "MeetingDb \<Rightarrow> string \<Rightarrow> bool" where
  "live_kind db vid = (\<exists>mid. has_version mid vid LiveVersion db)"

definition finished_live :: "MeetingDb \<Rightarrow> SegmentRow \<Rightarrow> bool" where
  "finished_live db r = (final_state (ts_state (sg_value r)) \<and> live_kind db (ts_transcript_version_id (sg_value r)))"

definition finished_are_queued :: "MeetingDb \<Rightarrow> bool" where
  "finished_are_queued db =
     (\<forall>r \<in> set (db_segments db). finished_live db r \<longrightarrow>
        (\<exists>g \<in> set (db_gate db). gr_meeting_id g = sg_meeting_id r \<and> gr_segment_id g = seg_id r \<and> gr_queued g = seg_revision r))"

definition carries :: "BatchRow \<Rightarrow> string \<Rightarrow> int \<Rightarrow> bool" where
  "carries b i n = (\<exists>t \<in> set (br_turns b). gt_id t = i \<and> sint (gt_revision_number t) = n)"

definition processed_were_carried :: "string set \<Rightarrow> MeetingDb \<Rightarrow> bool" where
  "processed_were_carried closing db =
     (\<forall>g \<in> set (db_gate db). \<forall>p. gr_processed g = Some p \<longrightarrow> p \<le> gr_queued g \<and>
        (\<exists>b \<in> set (db_batches db). br_meeting_id b = gr_meeting_id g \<and> (br_processed_at_ms b \<noteq> None \<or> br_id b \<in> closing) \<and>
           carries b (gr_segment_id g) p))"

definition open_turns_queued :: "MeetingDb \<Rightarrow> bool" where
  "open_turns_queued db =
     (\<forall>b \<in> set (db_batches db). br_processed_at_ms b = None \<longrightarrow>
        (\<forall>t \<in> set (br_turns b). \<exists>g \<in> set (db_gate db).
           gr_meeting_id g = br_meeting_id b \<and> gr_segment_id g = gt_id t \<and> sint (gt_revision_number t) \<le> gr_queued g))"

definition turn_processed :: "string \<Rightarrow> GateTurn \<Rightarrow> MeetingDb \<Rightarrow> bool" where
  "turn_processed mid t db =
     (\<exists>g \<in> set (db_gate db). gr_meeting_id g = mid \<and> gr_segment_id g = gt_id t \<and>
        (\<exists>p. gr_processed g = Some p \<and> sint (gt_revision_number t) \<le> p))"

definition closed_turns_processed :: "MeetingDb \<Rightarrow> bool" where
  "closed_turns_processed db =
     (\<forall>b \<in> set (db_batches db). br_processed_at_ms b \<noteq> None \<longrightarrow> (\<forall>t \<in> set (br_turns b). turn_processed (br_meeting_id b) t db))"

definition handed :: "MeetingDb \<Rightarrow> string \<Rightarrow> string \<Rightarrow> int \<Rightarrow> BatchRow list" where
  "handed db mid i n = filter (\<lambda>b. br_meeting_id b = mid \<and> carries b i n) (db_batches db)"

definition handed_once :: "MeetingDb \<Rightarrow> bool" where
  "handed_once db = (\<forall>mid i n. length (handed db mid i n) \<le> 1)"

definition gate_inv :: "string set \<Rightarrow> MeetingDb \<Rightarrow> bool" where
  "gate_inv closing db =
     (gate_keys_distinct db \<and> gate_behind_segments db \<and> finished_are_queued db \<and> processed_were_carried closing db \<and>
      open_turns_queued db \<and> closed_turns_processed db \<and> handed_once db \<and> distinct (map br_id (db_batches db)))"

lemmas gate_parts = gate_keys_distinct_def gate_behind_segments_def finished_are_queued_def processed_were_carried_def
  open_turns_queued_def closed_turns_processed_def turn_processed_def handed_once_def handed_def

subsection \<open>Deletion and files\<close>

definition deletion_inv :: "MeetingDb \<Rightarrow> bool" where
  "deletion_inv db =
     (distinct (map me_id (db_meetings db)) \<and> distinct (map cj_id (db_cleanup_jobs db)) \<and>
      distinct (map cj_meeting_id (db_cleanup_jobs db)) \<and>
      (\<forall>j \<in> set (db_cleanup_jobs db). \<exists>m \<in> set (db_meetings db). me_id m = cj_meeting_id j \<and> me_deleted_at_ms m \<noteq> None))"

definition files_inv :: "MeetingDb \<Rightarrow> bool" where
  "files_inv db =
     ((\<forall>a \<in> set (db_assets db). controlled_relative_path (aa_relative_path a) = None) \<and>
      (\<forall>j \<in> set (db_cleanup_jobs db). \<forall>p \<in> set (cj_assets j). controlled_relative_path (snd p) = None))"

subsection \<open>Claims\<close>

abbreviation cv_id :: "ClaimVersionRow \<Rightarrow> string" where
  "cv_id r \<equiv> cv_claim_version_id (cw_value r)"

abbreviation cv_claim :: "ClaimVersionRow \<Rightarrow> string" where
  "cv_claim r \<equiv> cv_claim_id (cw_value r)"

definition keys_unique :: "ClaimRow list \<Rightarrow> bool" where
  "keys_unique cs =
     (\<forall>c \<in> set cs. \<forall>d \<in> set cs. cl_duplicate_key c \<noteq> None \<longrightarrow>
        cl_duplicate_key d = cl_duplicate_key c \<longrightarrow> cl_meeting_id d = cl_meeting_id c \<longrightarrow> cl_id d = cl_id c)"

definition one_current :: "AssessmentRow list \<Rightarrow> bool" where
  "one_current as =
     (\<forall>a \<in> set as. \<forall>b \<in> set as. aw_current a \<longrightarrow> aw_current b \<longrightarrow>
        same_slot (aw_value a) b \<longrightarrow> as_id (aw_value a) = as_id (aw_value b))"

definition claims_inv :: "MeetingDb \<Rightarrow> bool" where
  "claims_inv db =
     (distinct (map cl_id (db_claims db)) \<and> distinct (map (cv_claim_version_id \<circ> cw_value) (db_claim_versions db)) \<and>
      distinct (map (\<lambda>v. (cv_claim v, cv_version_number (cw_value v))) (db_claim_versions db)) \<and>
      cv_claim ` set (db_claim_versions db) \<subseteq> cl_id ` set (db_claims db) \<and>
      (\<forall>c \<in> set (db_claims db). \<forall>i. cl_current c = Some i \<longrightarrow>
         (\<exists>v \<in> set (db_claim_versions db). cv_id v = i \<and> cv_claim v = cl_id c)) \<and>
      keys_unique (db_claims db))"

definition research_inv :: "MeetingDb \<Rightarrow> bool" where
  "research_inv db =
     (distinct (map (as_id \<circ> aw_value) (db_assessments db)) \<and>
      distinct (map (fj_id \<circ> fw_value) (db_refinement_jobs db)) \<and>
      one_current (db_assessments db) \<and>
      (as_claim_version_id \<circ> aw_value) ` set (db_assessments db) \<subseteq> (cv_claim_version_id \<circ> cw_value) ` set (db_claim_versions db) \<and>
      (rj_claim_version_id \<circ> jw_value) ` set (db_research_jobs db) \<subseteq> (cv_claim_version_id \<circ> cw_value) ` set (db_claim_versions db))"

definition meeting_inv :: "MeetingDb \<Rightarrow> bool" where
  "meeting_inv db =
     (transcript_inv db \<and> gate_inv {} db \<and> deletion_inv db \<and> files_inv db \<and> claims_inv db \<and> research_inv db)"

lemmas inv_defs = transcript_inv_def gate_inv_def gate_parts deletion_inv_def files_inv_def claims_inv_def research_inv_def
  meeting_inv_def finished_live_def live_kind_def has_version_def has_segment_def

text \<open>A statement that changes one table keeps what does not mention it.\<close>

named_theorems keeping "statements that keep the invariant"

lemma keeps_meeting_inv:
  assumes "keeps transcript_inv t" "keeps (gate_inv {}) t" "keeps deletion_inv t" "keeps files_inv t" "keeps claims_inv t"
    "keeps research_inv t"
  shows "keeps meeting_inv t"
  using assms unfolding hoare_def meeting_inv_def by blast

lemma keeps_speakers [keeping]:
  "keeps meeting_inv (upsert_speaker X mid s)" "keeps meeting_inv (swap_speakers X mid w)"
  "keeps meeting_inv (insert_initial_speaker X n s)"
  "keeps meeting_inv (upsert_speaker_observation X mid ob)"
  "keeps meeting_inv (insert_speaker X mid sid label s)"
  "keeps meeting_inv (apply_event X mid ev)" "keeps meeting_inv (clear_manifest mid jid)" "keeps meeting_inv (upsert_input X mid inp)"
  "keeps meeting_inv (upsert_manual_fact_check_request X mid mq)"
  by (rule keeps_touch, rule touching, simp add: inv_defs)+

text \<open>What is left to show of a statement, by the table it changes.\<close>

lemma keeps_by_table:
  "touches (\<lambda>db. db\<lparr>db_meetings := []\<rparr>) t \<Longrightarrow> keeps deletion_inv t \<Longrightarrow> keeps meeting_inv t"
  "touches (\<lambda>db. db\<lparr>db_assets := []\<rparr>) t \<Longrightarrow> keeps files_inv t \<Longrightarrow> keeps meeting_inv t"
  "touches (\<lambda>db. db\<lparr>db_cleanup_jobs := []\<rparr>) t \<Longrightarrow> keeps deletion_inv t \<Longrightarrow> keeps files_inv t \<Longrightarrow> keeps meeting_inv t"
  "touches (\<lambda>db. db\<lparr>db_claims := [], db_claim_versions := []\<rparr>) t \<Longrightarrow> keeps claims_inv t \<Longrightarrow> keeps research_inv t \<Longrightarrow> keeps meeting_inv t"
  "touches (\<lambda>db. db\<lparr>db_assessments := []\<rparr>) t \<Longrightarrow> keeps research_inv t \<Longrightarrow> keeps meeting_inv t"
  "touches (\<lambda>db. db\<lparr>db_research_jobs := []\<rparr>) t \<Longrightarrow> keeps research_inv t \<Longrightarrow> keeps meeting_inv t"
  "touches (\<lambda>db. db\<lparr>db_refinement_jobs := []\<rparr>) t \<Longrightarrow> keeps research_inv t \<Longrightarrow> keeps meeting_inv t"
  "touches (\<lambda>db. db\<lparr>db_batches := []\<rparr>) t \<Longrightarrow> keeps (gate_inv {}) t \<Longrightarrow> keeps meeting_inv t"
  "touches (\<lambda>db. db\<lparr>db_gate := [], db_batches := []\<rparr>) t \<Longrightarrow> keeps (gate_inv {}) t \<Longrightarrow> keeps meeting_inv t"
  by (rule keeps_meeting_inv; (assumption | (rule keeps_touch, assumption, simp add: inv_defs)))+

lemma keeps_two_tables:
  assumes "touches (\<lambda>db. db\<lparr>db_meetings := [], db_cleanup_jobs := []\<rparr>) t" "keeps deletion_inv t" "keeps files_inv t"
  shows "keeps meeting_inv t"
  by (rule keeps_meeting_inv; (rule assms | (rule keeps_touch, rule assms, simp add: inv_defs)))

subsection \<open>Statements on meetings, files and cleanup jobs\<close>

lemma deletion_inv_update:
  assumes "deletion_inv db" "\<And>m. p m \<Longrightarrow> me_id (f m) = me_id m \<and> (me_deleted_at_ms m \<noteq> None \<longrightarrow> me_deleted_at_ms (f m) \<noteq> None)"
  shows "deletion_inv (db\<lparr>db_meetings := update_where p f (db_meetings db)\<rparr>)"
proof -
  let ?g = "\<lambda>m. if p m then f m else m"
  have "me_id (?g m) = me_id m" "me_deleted_at_ms m \<noteq> None \<Longrightarrow> me_deleted_at_ms (?g m) \<noteq> None" for m using assms(2)[of m] by auto
  then have "\<exists>m \<in> set (db_meetings db). me_id (?g m) = i \<and> me_deleted_at_ms (?g m) \<noteq> None"
    if "\<exists>m \<in> set (db_meetings db). me_id m = i \<and> me_deleted_at_ms m \<noteq> None" for i using that by metis
  with assms show ?thesis by (simp add: deletion_inv_def map_update_where update_where_quantifiers)
qed

lemma keeps_meeting_rows [keeping]:
  "keeps meeting_inv (insert_meeting X cr)" "keeps meeting_inv (set_canonical mid vid)" "keeps meeting_inv (touch_meeting X mid)"
  "keeps meeting_inv (update_meeting X ur)" "keeps meeting_inv (meeting_open mid)" "keeps meeting_inv (promote_canonical X mid v)"
  "keeps meeting_inv (set_research_status X mid js)" "keeps meeting_inv (promote_refined X mid vid)"
  "keeps meeting_inv (mark_deleted X mid)"
proof -
  have "keeps deletion_inv (insert_meeting X cr)"
    by (auto simp: hoare_def insert_meeting_def deletion_inv_def list_ex_iff split: if_splits)
  then show "keeps meeting_inv (insert_meeting X cr)" by (rule keeps_by_table(1)[OF touches_meetings(1)])
  have "keeps deletion_inv (set_canonical mid vid)" by (auto simp: hoare_def set_canonical_def intro: deletion_inv_update)
  then show "keeps meeting_inv (set_canonical mid vid)" by (rule keeps_by_table(1)[OF touches_meetings(2)])
  have "keeps deletion_inv (touch_meeting X mid)" by (auto simp: hoare_def touch_meeting_def intro: deletion_inv_update)
  then show "keeps meeting_inv (touch_meeting X mid)" by (rule keeps_by_table(1)[OF touches_meetings(3)])
  have "keeps deletion_inv (update_meeting X ur)"
    by (auto simp: hoare_def update_meeting_def updated_meeting_def split: statement_splits intro: deletion_inv_update)
  then show "keeps meeting_inv (update_meeting X ur)" by (rule keeps_by_table(1)[OF touches_meetings(4)])
  have "keeps deletion_inv (meeting_open mid)" by (auto simp: hoare_def meeting_open_def split: sum.splits)
  then show "keeps meeting_inv (meeting_open mid)" by (rule keeps_by_table(1)[OF touches_meetings(5)])
  have "keeps deletion_inv (promote_canonical X mid v)"
    by (auto simp: hoare_def promote_canonical_def require_def split: statement_splits intro: deletion_inv_update)
  then show "keeps meeting_inv (promote_canonical X mid v)" by (rule keeps_by_table(1)[OF touches_meetings(6)])
  have "keeps deletion_inv (set_research_status X mid js)"
    by (auto simp: hoare_def set_research_status_def intro: deletion_inv_update)
  then show "keeps meeting_inv (set_research_status X mid js)" by (rule keeps_by_table(1)[OF touches_meetings(7)])
  have "keeps deletion_inv (promote_refined X mid vid)" by (auto simp: hoare_def promote_refined_def intro: deletion_inv_update)
  then show "keeps meeting_inv (promote_refined X mid vid)" by (rule keeps_by_table(1)[OF touches_meetings(8)])
  have "keeps deletion_inv (mark_deleted X mid)"
    by (auto simp: hoare_def mark_deleted_def or_else_def intro!: deletion_inv_update split: option.splits)
  then show "keeps meeting_inv (mark_deleted X mid)" by (rule keeps_by_table(1)[OF touches_meetings(9)])
qed

lemma keeps_upsert_asset [keeping]: "keeps meeting_inv (upsert_asset X mid a)"
proof (rule keeps_by_table(2))
  show "touches (\<lambda>db. db\<lparr>db_assets := []\<rparr>) (upsert_asset X mid a)" by (rule touching)
  show "keeps files_inv (upsert_asset X mid a)"
    by (auto simp: hoare_def upsert_asset_def files_inv_def set_update_where merged_asset_def split: statement_splits)
qed

lemma keeps_open_cleanup: "keeps (\<lambda>db. meeting_inv db \<and> (\<exists>m \<in> set (db_meetings db). me_id m = mid \<and> me_deleted_at_ms m \<noteq> None))
    (open_cleanup X mid)"
  (is "keeps (\<lambda>db. meeting_inv db \<and> ?deleted db) _")
proof (rule hoare_conj)
  show "hoare (\<lambda>db. meeting_inv db \<and> ?deleted db) (open_cleanup X mid) ?deleted"
    by (auto simp: hoare_def open_cleanup_def split: statement_splits)
  have "touches (\<lambda>db. db\<lparr>db_cleanup_jobs := []\<rparr>) (open_cleanup X mid)" by (rule touching)
  then have frame: "keeps (\<lambda>db. transcript_inv db \<and> gate_inv {} db \<and> claims_inv db \<and> research_inv db) (open_cleanup X mid)"
    by (rule keeps_touch) (simp add: inv_defs)
  show "hoare (\<lambda>db. meeting_inv db \<and> ?deleted db) (open_cleanup X mid) meeting_inv"
  proof (rule hoareI)
    fix db db' assume db: "meeting_inv db \<and> ?deleted db" and step: "open_cleanup X mid db = Inr db'"
    then have old: "deletion_inv db" "files_inv db" by (simp_all add: meeting_inv_def)
    from step consider "db' = db" | j where "db' = db\<lparr>db_cleanup_jobs := db_cleanup_jobs db @ [j]\<rparr>" "cj_meeting_id j = mid"
        "cj_assets j = []" "mid \<notin> cj_meeting_id ` set (db_cleanup_jobs db)" "cj_id j \<notin> cj_id ` set (db_cleanup_jobs db)"
      by (fastforce simp: open_cleanup_def find_cleanup_def find_none list_ex_iff split: statement_splits)
    then have "deletion_inv db' \<and> files_inv db'"
      by cases (use db old in \<open>auto simp: deletion_inv_def files_inv_def\<close>)
    with hoareD[OF frame step] db show "meeting_inv db'" by (simp add: meeting_inv_def)
  qed
qed

lemma keeps_record_asset [keeping]: "keeps meeting_inv (record_asset mid a)"
proof (rule keeps_by_table(3))
  show "touches (\<lambda>db. db\<lparr>db_cleanup_jobs := []\<rparr>) (record_asset mid a)" by (rule touching)
  show "keeps deletion_inv (record_asset mid a)"
    by (auto simp: hoare_def record_asset_def deletion_inv_def map_update_where set_update_where split: option.splits)
  show "keeps files_inv (record_asset mid a)"
    by (fastforce simp: hoare_def record_asset_def files_inv_def set_update_where split: option.splits)
qed

subsection \<open>Statements on claims\<close>

lemma claims_inv_update_claims:
  assumes "claims_inv db"
    "\<And>c. p c \<Longrightarrow> cl_id (f c) = cl_id c \<and> cl_meeting_id (f c) = cl_meeting_id c \<and> cl_duplicate_key (f c) = cl_duplicate_key c \<and>
       (\<forall>i. cl_current (f c) = Some i \<longrightarrow> cl_current c = Some i \<or> (\<exists>v \<in> set (db_claim_versions db). cv_id v = i \<and> cv_claim v = cl_id c))"
  shows "claims_inv (db\<lparr>db_claims := update_where p f (db_claims db)\<rparr>)"
proof -
  let ?g = "\<lambda>c. if p c then f c else c"
  have g: "cl_id (?g c) = cl_id c" "cl_meeting_id (?g c) = cl_meeting_id c" "cl_duplicate_key (?g c) = cl_duplicate_key c"
    "cl_current (?g c) = Some i \<Longrightarrow> cl_current c = Some i \<or> (\<exists>v \<in> set (db_claim_versions db). cv_id v = i \<and> cv_claim v = cl_id c)"
    for c i using assms(2)[of c] by (auto split: if_splits)
  have "cl_id ` set (update_where p f (db_claims db)) = cl_id ` set (db_claims db)"
    by (rule image_update_where) (simp add: assms(2))
  moreover have "map cl_id (update_where p f (db_claims db)) = map cl_id (db_claims db)"
    by (rule map_update_where) (simp add: assms(2))
  moreover have "\<forall>c \<in> set (db_claims db). \<forall>i. cl_current (?g c) = Some i \<longrightarrow>
      (\<exists>v \<in> set (db_claim_versions db). cv_id v = i \<and> cv_claim v = cl_id c)"
    using g(4) assms(1) unfolding claims_inv_def by metis
  moreover have "keys_unique (update_where p f (db_claims db))"
    using assms(1) unfolding claims_inv_def keys_unique_def update_where_quantifiers g(1,2,3) by blast
  ultimately show ?thesis
    using assms(1) unfolding claims_inv_def by (simp add: update_where_quantifiers g(1,2,3) del: if_split)
qed

lemma claims_inv_update_versions:
  assumes "claims_inv db"
    "\<And>v. p v \<Longrightarrow> cv_id (f v) = cv_id v \<and> cv_claim (f v) = cv_claim v \<and> cv_version_number (cw_value (f v)) = cv_version_number (cw_value v)"
  shows "claims_inv (db\<lparr>db_claim_versions := update_where p f (db_claim_versions db)\<rparr>)"
proof -
  let ?g = "\<lambda>v. if p v then f v else v"
  have g: "cv_id (?g v) = cv_id v" "cv_claim (?g v) = cv_claim v" for v using assms(2)[of v] by auto
  have "cv_claim ` set (update_where p f (db_claim_versions db)) = cv_claim ` set (db_claim_versions db)"
    by (rule image_update_where) (simp add: assms(2))
  moreover have "map (cv_claim_version_id \<circ> cw_value) (update_where p f (db_claim_versions db)) =
      map (cv_claim_version_id \<circ> cw_value) (db_claim_versions db)"
    by (rule map_update_where) (simp add: assms(2))
  moreover have "map (\<lambda>v. (cv_claim v, cv_version_number (cw_value v))) (update_where p f (db_claim_versions db)) =
      map (\<lambda>v. (cv_claim v, cv_version_number (cw_value v))) (db_claim_versions db)"
    by (rule map_update_where) (simp add: assms(2))
  ultimately show ?thesis
    using assms(1) unfolding claims_inv_def by (simp add: update_where_quantifiers g del: if_split)
qed

lemma research_inv_update:
  assumes "research_inv db" "\<And>v. p v \<Longrightarrow> cv_id (f v) = cv_id v"
  shows "research_inv (db\<lparr>db_claim_versions := update_where p f (db_claim_versions db)\<rparr>)"
proof -
  have "(cv_claim_version_id \<circ> cw_value) ` set (update_where p f (db_claim_versions db)) = (cv_claim_version_id \<circ> cw_value) ` set (db_claim_versions db)"
    by (rule image_update_where) (simp add: assms(2))
  with assms(1) show ?thesis by (simp add: research_inv_def)
qed

lemma research_inv_claims [simp]: "research_inv (db\<lparr>db_claims := cs\<rparr>) = research_inv db"
  by (simp add: research_inv_def)

definition claims_ok :: "MeetingDb \<Rightarrow> bool" where
  "claims_ok db = (claims_inv db \<and> research_inv db)"

lemma claims_ok_supersede: "claims_ok db \<Longrightarrow> claims_ok (supersede old new db)"
  by (auto simp: claims_ok_def supersede_def intro!: claims_inv_update_versions research_inv_update)

definition has_claim :: "string \<Rightarrow> MeetingDb \<Rightarrow> bool" where
  "has_claim cid db = (cid \<in> cl_id ` set (db_claims db))"

definition has_claim_version :: "string \<Rightarrow> string \<Rightarrow> MeetingDb \<Rightarrow> bool" where
  "has_claim_version i cid db = (\<exists>v \<in> set (db_claim_versions db). cv_id v = i \<and> cv_claim v = cid)"

lemma keys_unique_append:
  assumes "keys_unique cs"
    and new: "\<And>d. d \<in> set cs \<Longrightarrow> cl_duplicate_key c \<noteq> None \<Longrightarrow> cl_duplicate_key d = cl_duplicate_key c \<Longrightarrow> cl_meeting_id d \<noteq> cl_meeting_id c"
  shows "keys_unique (cs @ [c])"
  unfolding keys_unique_def
proof (intro ballI impI)
  fix a b assume ab: "cl_duplicate_key a \<noteq> None" "cl_duplicate_key b = cl_duplicate_key a" "cl_meeting_id b = cl_meeting_id a"
    and "a \<in> set (cs @ [c])" "b \<in> set (cs @ [c])"
  then consider "a \<in> set cs" "b \<in> set cs" | "a = c" "b \<in> set cs" | "a \<in> set cs" "b = c" | "a = c" "b = c" by auto
  then show "cl_id b = cl_id a"
  proof cases
    case 1 with assms(1) ab show ?thesis unfolding keys_unique_def by blast
  next
    case 2 with new[of b] ab show ?thesis by metis
  next
    case 3 with new[of a] ab show ?thesis by metis
  qed simp
qed

lemma keys_unique_update:
  assumes uniq: "keys_unique cs" and dist: "distinct (map cl_id cs)" and c0: "c0 \<in> set cs"
    and f: "cl_id (f c0) = cl_id c0" "cl_meeting_id (f c0) = cl_meeting_id c0"
    and key: "cl_duplicate_key (f c0) = cl_duplicate_key c0 \<or>
      (\<forall>d \<in> set cs. cl_id d \<noteq> cl_id c0 \<longrightarrow> cl_meeting_id d = cl_meeting_id c0 \<longrightarrow> cl_duplicate_key d \<noteq> cl_duplicate_key (f c0))"
  shows "keys_unique (update_where (\<lambda>c. cl_id c = cl_id c0) f cs)"
  unfolding keys_unique_def update_where_quantifiers
proof (intro ballI impI)
  let ?g = "\<lambda>c. if cl_id c = cl_id c0 then f c else c"
  have own: "c = c0" if "c \<in> set cs" "cl_id c = cl_id c0" for c
    using that c0 dist by (metis inj_onD distinct_map)
  have same: "cl_id d = cl_id c" if "c \<in> set cs" "d \<in> set cs" "cl_duplicate_key c \<noteq> None" "cl_duplicate_key d = cl_duplicate_key c"
      "cl_meeting_id d = cl_meeting_id c" for c d
    using uniq that unfolding keys_unique_def by blast
  fix c d assume cd: "c \<in> set cs" "d \<in> set cs" "cl_duplicate_key (?g c) \<noteq> None"
    "cl_duplicate_key (?g d) = cl_duplicate_key (?g c)" "cl_meeting_id (?g d) = cl_meeting_id (?g c)"
  consider "c = c0" "d = c0" | "c = c0" "cl_id d \<noteq> cl_id c0" | "cl_id c \<noteq> cl_id c0" "d = c0" | "cl_id c \<noteq> cl_id c0" "cl_id d \<noteq> cl_id c0"
    using own cd(1,2) by blast
  then show "cl_id (?g d) = cl_id (?g c)"
  proof cases
    case 2
    then have "cl_duplicate_key (f c0) \<noteq> None" "cl_duplicate_key d = cl_duplicate_key (f c0)" "cl_meeting_id d = cl_meeting_id c0"
      using cd f by simp_all
    with key same[of c0 d] c0 cd(2) 2 show ?thesis by metis
  next
    case 3
    then have "cl_duplicate_key c \<noteq> None" "cl_duplicate_key (f c0) = cl_duplicate_key c" "cl_meeting_id c0 = cl_meeting_id c"
      using cd f by simp_all
    with key same[of c c0] c0 cd(1) 3 show ?thesis by metis
  next
    case 4
    with cd same[of c d] show ?thesis by simp
  qed simp
qed

lemma upsert_claim_ok: "hoare claims_ok (upsert_claim X mid v) (\<lambda>db. claims_ok db \<and> has_claim (cv_claim_id v) db)"
proof (rule hoareI)
  fix db db' assume ok: "claims_ok db" and step: "upsert_claim X mid v db = Inr db'"
  show "claims_ok db' \<and> has_claim (cv_claim_id v) db'"
  proof (cases "find_claim (cv_claim_id v) db")
    case None
    with step obtain c where c: "db' = db\<lparr>db_claims := db_claims db @ [c]\<rparr>" "cl_id c = cv_claim_id v" "cl_meeting_id c = mid"
      "cl_duplicate_key c = cv_duplicate_key v" "cl_current c = None"
      and free: "\<not> duplicate_key_taken mid (cv_claim_id v) (cv_duplicate_key v) db"
      by (auto simp: upsert_claim_def split: if_splits)
    have new: "cv_claim_id v \<notin> cl_id ` set (db_claims db)"
      using None by (auto simp: find_claim_def find_none)
    have "keys_unique (db_claims db @ [c])"
    proof (rule keys_unique_append)
      show "keys_unique (db_claims db)" using ok by (simp add: claims_ok_def claims_inv_def)
      fix d assume "d \<in> set (db_claims db)" "cl_duplicate_key c \<noteq> None" "cl_duplicate_key d = cl_duplicate_key c"
      moreover have "cl_id d \<noteq> cv_claim_id v" using new \<open>d \<in> set (db_claims db)\<close> by (metis imageI)
      ultimately show "cl_meeting_id d \<noteq> cl_meeting_id c" using free c unfolding duplicate_key_taken_def list_ex_iff by metis
    qed
    with ok new c show ?thesis by (auto simp: claims_ok_def claims_inv_def has_claim_def)
  next
    case (Some c0)
    let ?f = "\<lambda>c. c\<lparr>cl_duplicate_key := or_else (cv_duplicate_key v) (cl_duplicate_key c), cl_status := cv_status v, cl_updated_at_ms := mx_now X\<rparr>"
    from Some step have db': "db' = db\<lparr>db_claims := update_where (\<lambda>c. cl_id c = cv_claim_id v) ?f (db_claims db)\<rparr>"
      and free: "\<not> duplicate_key_taken mid (cv_claim_id v) (cv_duplicate_key v) db" and c0: "cl_meeting_id c0 = mid"
      by (auto simp: upsert_claim_def split: if_splits)
    have c0_in: "c0 \<in> set (db_claims db)" "cl_id c0 = cv_claim_id v" using Some by (auto simp: find_claim_def dest: find_in)
    have dist: "distinct (map cl_id (db_claims db))" and uniq: "keys_unique (db_claims db)"
      using ok by (simp_all add: claims_ok_def claims_inv_def)
    have "keys_unique (update_where (\<lambda>c. cl_id c = cl_id c0) ?f (db_claims db))"
    proof (rule keys_unique_update[OF uniq dist c0_in(1)])
      show "cl_duplicate_key (?f c0) = cl_duplicate_key c0 \<or> (\<forall>d \<in> set (db_claims db). cl_id d \<noteq> cl_id c0 \<longrightarrow>
          cl_meeting_id d = cl_meeting_id c0 \<longrightarrow> cl_duplicate_key d \<noteq> cl_duplicate_key (?f c0))"
        using free c0 c0_in(2) by (cases "cv_duplicate_key v") (auto simp: duplicate_key_taken_def list_ex_iff or_else_def)
    qed simp_all
    then have "keys_unique (update_where (\<lambda>c. cl_id c = cv_claim_id v) ?f (db_claims db))" by (simp add: c0_in(2))
    moreover have "map cl_id (update_where (\<lambda>c. cl_id c = cv_claim_id v) ?f (db_claims db)) = map cl_id (db_claims db)"
      "cl_id ` set (update_where (\<lambda>c. cl_id c = cv_claim_id v) ?f (db_claims db)) = cl_id ` set (db_claims db)"
      by (simp_all add: map_update_where image_update_where)
    moreover have "cv_claim_id v \<in> cl_id ` set (db_claims db)" using c0_in by (metis imageI)
    ultimately show ?thesis
      using ok unfolding db' claims_ok_def claims_inv_def has_claim_def by (auto simp: update_where_quantifiers)
  qed
qed

lemma upsert_claim_version_ok:
  "hoare (\<lambda>db. claims_ok db \<and> has_claim (cv_claim_id v) db) (upsert_claim_version X mid v)
     (\<lambda>db. claims_ok db \<and> has_claim_version (cv_claim_version_id v) (cv_claim_id v) db)"
proof (rule hoareI)
  fix db db' assume pre: "claims_ok db \<and> has_claim (cv_claim_id v) db" and step: "upsert_claim_version X mid v db = Inr db'"
  show "claims_ok db' \<and> has_claim_version (cv_claim_version_id v) (cv_claim_id v) db'"
  proof (cases "find_claim_version (cv_claim_version_id v) db")
    case None
    with step obtain w where w: "db' = db\<lparr>db_claim_versions := db_claim_versions db @ [w]\<rparr>" "cw_value w = v"
      and free: "\<not> list_ex (\<lambda>r. cv_claim r = cv_claim_id v \<and> cv_version_number (cw_value r) = cv_version_number v) (db_claim_versions db)"
      by (auto simp: upsert_claim_version_def split: if_splits)
    have new: "cv_claim_version_id v \<notin> (cv_claim_version_id \<circ> cw_value) ` set (db_claim_versions db)"
      using None by (auto simp: find_claim_version_def find_none)
    moreover have "(cv_claim_id v, cv_version_number v) \<notin> (\<lambda>r. (cv_claim r, cv_version_number (cw_value r))) ` set (db_claim_versions db)"
      using free by (auto simp: list_ex_iff)
    ultimately show ?thesis
      using pre w by (auto simp: claims_ok_def claims_inv_def research_inv_def has_claim_def has_claim_version_def)
  next
    case (Some row)
    then have row: "row \<in> set (db_claim_versions db)" "cv_id row = cv_claim_version_id v"
      by (auto simp: find_claim_version_def dest: find_in)
    from Some step have claim: "cv_claim row = cv_claim_id v" by (auto simp: upsert_claim_version_def split: if_splits)
    from Some step pre have "claims_ok db'"
      by (auto simp: upsert_claim_version_def claims_ok_def split: if_splits intro!: claims_inv_update_versions research_inv_update)
    moreover have "has_claim_version (cv_claim_version_id v) (cv_claim_id v) db'"
      using Some step row claim by (auto simp: upsert_claim_version_def has_claim_version_def update_where_quantifiers split: if_splits)
    ultimately show ?thesis ..
  qed
qed

lemma set_current_version_ok:
  "hoare (\<lambda>db. claims_ok db \<and> has_claim_version (cv_claim_version_id v) (cv_claim_id v) db) (set_current_version X v) claims_ok"
proof (rule hoareI)
  fix db db' assume pre: "claims_ok db \<and> has_claim_version (cv_claim_version_id v) (cv_claim_id v) db"
    and step: "set_current_version X v db = Inr db'"
  let ?P = "\<lambda>db. claims_ok db \<and> has_claim_version (cv_claim_version_id v) (cv_claim_id v) db"
  have "?P (supersede old new d)" if "?P d" for old new d
  proof
    show "claims_ok (supersede old new d)" using that by (simp add: claims_ok_supersede)
    show "has_claim_version (cv_claim_version_id v) (cv_claim_id v) (supersede old new d)"
      using that by (fastforce simp: has_claim_version_def supersede_def update_where_quantifiers)
  qed
  note supersede_P = this
  define db1 where "db1 = (case (case find_claim (cv_claim_id v) db of Some c \<Rightarrow> cl_current c | None \<Rightarrow> None) of
    Some p \<Rightarrow> if p \<noteq> cv_claim_version_id v then supersede p (cv_claim_version_id v) db else db | None \<Rightarrow> db)"
  define db2 where "db2 = (case cv_predecessor_id v of Some p \<Rightarrow> supersede p (cv_claim_version_id v) db1 | None \<Rightarrow> db1)"
  have "?P db1" using pre supersede_P unfolding db1_def by (auto split: option.splits)
  then have "?P db2" using supersede_P unfolding db2_def by (auto split: option.splits)
  moreover have "db' = db2\<lparr>db_claims := update_where (\<lambda>c. cl_id c = cv_claim_id v)
      (\<lambda>c. c\<lparr>cl_current := Some (cv_claim_version_id v), cl_status := cv_status v, cl_updated_at_ms := mx_now X\<rparr>) (db_claims db2)\<rparr>"
    using step unfolding set_current_version_def Let_def db1_def[symmetric] db2_def[symmetric] by simp
  ultimately show "claims_ok db'"
    by (auto simp: claims_ok_def has_claim_version_def intro!: claims_inv_update_claims)
qed

lemma keeps_claims:
  assumes "touches (\<lambda>db. db\<lparr>db_claims := [], db_claim_versions := []\<rparr>) t" "keeps claims_ok t"
  shows "keeps meeting_inv t"
proof -
  have "keeps (\<lambda>db. transcript_inv db \<and> gate_inv {} db \<and> deletion_inv db \<and> files_inv db) t"
    by (rule keeps_touch[OF assms(1)]) (simp add: inv_defs)
  with assms(2) show ?thesis unfolding hoare_def meeting_inv_def claims_ok_def by blast
qed

lemma keeps_claim_rows [keeping]:
  "keeps meeting_inv (apply_claim_version X mid v)"
  "keeps meeting_inv (update_claim_status_for_version X mid i st)"
  "keeps meeting_inv (mark_claim_version_stale X mid i)"
proof -
  have "keeps claims_ok (apply_claim_version X mid v)"
    unfolding apply_claim_version_def
  proof (rule hoare_cons[OF _ hoare_cons[OF upsert_claim_ok hoare_cons[OF upsert_claim_version_ok hoare_cons[OF _ hoare_nil]]]])
    show "keeps claims_ok (ensure_claim_references mid v)"
      by (rule keeps_touch[OF touches_references(2)[where e = id]]) simp
    show "hoare (\<lambda>db. claims_ok db \<and> has_claim_version (cv_claim_version_id v) (cv_claim_id v) db)
        (if cv_set_current v then set_current_version X v else Inr) claims_ok"
      using set_current_version_ok[of v X] by (simp add: hoare_def)
  qed
  then show "keeps meeting_inv (apply_claim_version X mid v)" by (rule keeps_claims[OF touches_apply_claim])
  have "keeps claims_ok (update_claim_status_for_version X mid i st)"
    by (auto simp: hoare_def update_claim_status_for_version_def claims_ok_def Let_def split: if_splits intro!: claims_inv_update_claims)
  then show "keeps meeting_inv (update_claim_status_for_version X mid i st)" by (rule keeps_claims[OF touches_claims(2)])
  have "claims_ok (db\<lparr>db_claim_versions := update_where p f (db_claim_versions db), db_claims := update_where q g (db_claims db)\<rparr>)"
    if "claims_ok db" "\<And>v. cv_id (f v) = cv_id v \<and> cv_claim (f v) = cv_claim v \<and> cv_version_number (cw_value (f v)) = cv_version_number (cw_value v)"
      "\<And>c. cl_id (g c) = cl_id c \<and> cl_meeting_id (g c) = cl_meeting_id c \<and> cl_duplicate_key (g c) = cl_duplicate_key c \<and> cl_current (g c) = cl_current c"
    for db p f q g
    using claims_inv_update_claims[of "db\<lparr>db_claim_versions := update_where p f (db_claim_versions db)\<rparr>" q g]
      claims_inv_update_versions[of db p f] research_inv_update[of db p f] that by (simp add: claims_ok_def)
  then have "keeps claims_ok (mark_claim_version_stale X mid i)"
    by (auto simp: hoare_def mark_claim_version_stale_def split: if_splits)
  then show "keeps meeting_inv (mark_claim_version_stale X mid i)" by (rule keeps_claims[OF touches_claims(5)])
qed

subsection \<open>Statements on research\<close>

lemma claim_version_exists_id:
  "claim_version_exists mid i db \<Longrightarrow> i \<in> (cv_claim_version_id \<circ> cw_value) ` set (db_claim_versions db)"
  by (force simp: claim_version_exists_def list_ex_iff)

lemma one_current_append:
  assumes "one_current as" "aw_value row = v"
  shows "one_current ((if aw_current row then update_where (same_slot v) (\<lambda>r. r\<lparr>aw_current := False\<rparr>) as else as) @ [row])"
    (is "one_current (?as @ _)")
proof (cases "aw_current row")
  case True
  have old: "a' \<in> set as \<and> \<not> same_slot v a'" if "a' \<in> set (update_where (same_slot v) (\<lambda>r. r\<lparr>aw_current := False\<rparr>) as)" "aw_current a'" for a'
    using that by (auto simp: set_update_where)
  have sym: "same_slot (aw_value a) b = same_slot (aw_value b) a" for a b by (auto simp: same_slot_def)
  show ?thesis
    unfolding one_current_def
  proof (intro ballI impI)
    fix a b assume ab: "a \<in> set (?as @ [row])" "b \<in> set (?as @ [row])" "aw_current a" "aw_current b" "same_slot (aw_value a) b"
    then consider "a = row" "b = row" | "a \<in> set as" "b \<in> set as" | "a = row" "\<not> same_slot v b" | "b = row" "\<not> same_slot v a"
      using old True by auto
    then show "as_id (aw_value a) = as_id (aw_value b)"
    proof cases
      case 2 with assms(1) ab(3-5) show ?thesis unfolding one_current_def by blast
    next
      case 3 with ab(5) assms(2) show ?thesis by simp
    next
      case 4 with ab(5) assms(2) sym[of a b] show ?thesis by simp
    qed simp
  qed
next
  case False
  with assms(1) show ?thesis by (auto simp: one_current_def)
qed

lemma write_assessment_ok:
  "hoare (\<lambda>db. research_inv db \<and> claim_version_exists mid (as_claim_version_id v) db) (write_assessment X v) research_inv"
proof (rule hoareI)
  fix db db' assume pre: "research_inv db \<and> claim_version_exists mid (as_claim_version_id v) db" and step: "write_assessment X v db = Inr db'"
  show "research_inv db'"
  proof (cases "find_assessment (as_id v) db")
    case None
    define row where "row = \<lparr>aw_value = v, aw_current = as_set_current v, aw_created_at_ms = mx_now X\<rparr>"
    define old where "old = (if aw_current row then update_where (same_slot v) (\<lambda>r. r\<lparr>aw_current := False\<rparr>) (db_assessments db) else db_assessments db)"
    have db': "db' = db\<lparr>db_assessments := old @ [row]\<rparr>"
      using None step by (auto simp: write_assessment_def row_def old_def split: if_splits)
    have "map (as_id \<circ> aw_value) old = map (as_id \<circ> aw_value) (db_assessments db)"
      "(as_claim_version_id \<circ> aw_value) ` set old = (as_claim_version_id \<circ> aw_value) ` set (db_assessments db)"
      by (auto simp: old_def map_update_where image_update_where)
    moreover have "one_current (old @ [row])"
      unfolding old_def by (rule one_current_append) (use pre in \<open>simp_all add: research_inv_def row_def\<close>)
    moreover have "as_id v \<notin> as_id ` aw_value ` set (db_assessments db)"
      using None by (auto simp: find_assessment_def find_none)
    ultimately show ?thesis
      using pre claim_version_exists_id[of mid "as_claim_version_id v" db]
      by (simp add: db' research_inv_def row_def image_comp)
  qed (use step pre in \<open>auto simp: write_assessment_def split: if_splits\<close>)
qed

lemma keeps_research [keeping]:
  "keeps meeting_inv (insert_assessment X mid v)" "keeps meeting_inv (upsert_research_job X mid j)"
proof -
  have "keeps research_inv (insert_assessment X mid v)"
    unfolding insert_assessment_def ensure_claim_version_def
    by (rule hoare_cons[OF hoare_require hoare_cons[OF write_assessment_ok hoare_nil]])
  then show "keeps meeting_inv (insert_assessment X mid v)" by (rule keeps_by_table(5)[OF touches_jobs(6)])
  have "research_inv (db\<lparr>db_research_jobs := js\<rparr>)"
    if "research_inv db" "(rj_claim_version_id \<circ> jw_value) ` set js \<subseteq> (cv_claim_version_id \<circ> cw_value) ` set (db_claim_versions db)" for db js
    using that by (simp add: research_inv_def)
  then have "hoare (\<lambda>db. research_inv db \<and> claim_version_exists mid (rj_claim_version_id j) db) (write_research_job X j) research_inv"
    by (auto simp: hoare_def write_research_job_def set_update_where research_inv_def split: statement_splits dest!: claim_version_exists_id)
  then have "keeps research_inv (upsert_research_job X mid j)"
    unfolding upsert_research_job_def ensure_claim_version_def
    by (intro hoare_cons[OF hoare_require hoare_cons[OF _ hoare_nil]])
  then show "keeps meeting_inv (upsert_research_job X mid j)" by (rule keeps_by_table(6)[OF touches_jobs(5)])
qed

lemma keeps_refinement_jobs [keeping]:
  "keeps meeting_inv (upsert_refinement_job X mid v)" "keeps meeting_inv (complete_refinement_job X jid)"
proof -
  have new: "fj_id v \<notin> (fj_id \<circ> fw_value) ` set js" if "find (\<lambda>r. fj_id (fw_value r) = fj_id v) js = None" for js
    using that by (auto simp: find_none)
  have upd: "map (fj_id \<circ> fw_value) (update_where (\<lambda>r. fj_id (fw_value r) = fj_id v)
      (\<lambda>r. r\<lparr>fw_value := v\<lparr>fj_started_at_ms := x r\<rparr>, fw_updated_at_ms := y\<rparr>) js) = map (fj_id \<circ> fw_value) js" for x y and js :: "RefinementJobRow list"
    by (rule map_update_where) simp
  have "keeps research_inv (upsert_refinement_job X mid v)"
    by (auto simp: hoare_def upsert_refinement_job_def research_inv_def upd split: statement_splits dest!: new)
  then show "keeps meeting_inv (upsert_refinement_job X mid v)" by (rule keeps_by_table(7)[OF touches_jobs(7)])
  have "keeps research_inv (complete_refinement_job X jid)"
    by (auto simp: hoare_def complete_refinement_job_def research_inv_def map_update_where)
  then show "keeps meeting_inv (complete_refinement_job X jid)" by (rule keeps_by_table(7)[OF touches_jobs(8)])
qed

end
