(* ===== verification/Meeting_Gate.thy ===== *)
theory Meeting_Gate
  imports Meeting_Invariant
begin

text \<open>
  The transcript and the claim gate: writing a version or a segment, opening and completing a batch keep the invariant.
\<close>

subsection \<open>Batches\<close>

lemma gate_key_unique:
  "gate_keys_distinct db \<Longrightarrow> g \<in> set (db_gate db) \<Longrightarrow> h \<in> set (db_gate db) \<Longrightarrow> gr_meeting_id g = gr_meeting_id h \<Longrightarrow>
   gr_segment_id g = gr_segment_id h \<Longrightarrow> g = h"
  by (force simp: gate_keys_distinct_def distinct_map dest: inj_onD)

lemma batch_locks_iff: "batch_locks i n b \<longleftrightarrow> br_processed_at_ms b = None \<and> carries b i n"
  by (auto simp: batch_locks_def carries_def list_ex_iff)

definition admitted :: "string \<Rightarrow> MeetingDb \<Rightarrow> GateTurn \<Rightarrow> bool" where
  "admitted mid db t =
     ((\<exists>g \<in> set (db_gate db). gr_meeting_id g = mid \<and> gr_segment_id g = gt_id t \<and> sint (gt_revision_number t) \<le> gr_queued g \<and>
         (\<forall>p. gr_processed g = Some p \<longrightarrow> p < sint (gt_revision_number t))) \<and>
      \<not> list_ex (batch_locks (gt_id t) (sint (gt_revision_number t))) (db_batches db))"

lemma admit_turn_admits: "admit_turn mid t db = Inr db' \<Longrightarrow> db' = db \<and> admitted mid db t"
  by (fastforce simp: admit_turn_def admitted_def find_gate_def Let_def split: statement_splits dest!: find_in)

lemma admit_turns_admit: "tx_all (map (admit_turn mid) ts) db = Inr db' \<Longrightarrow> db' = db \<and> (\<forall>t \<in> set ts. admitted mid db t)"
  by (induction ts) (auto split: sum.splits dest: admit_turn_admits)

lemma admitted_not_handed:
  assumes "gate_inv {} db" "admitted mid db t"
  shows "handed db mid (gt_id t) (sint (gt_revision_number t)) = []"
proof -
  let ?i = "gt_id t" and ?n = "sint (gt_revision_number t)"
  from assms(2) obtain g where g: "g \<in> set (db_gate db)" "gr_meeting_id g = mid" "gr_segment_id g = ?i" "\<And>p. gr_processed g = Some p \<Longrightarrow> p < ?n"
    by (auto simp: admitted_def)
  have "\<not> carries b ?i ?n" if b: "b \<in> set (db_batches db)" "br_meeting_id b = mid" for b
  proof (cases "br_processed_at_ms b")
    case None
    with assms(2) b show ?thesis by (auto simp: admitted_def list_ex_iff batch_locks_iff)
  next
    case (Some _)
    show ?thesis
    proof
      assume "carries b ?i ?n"
      then obtain u where u: "u \<in> set (br_turns b)" "gt_id u = ?i" "sint (gt_revision_number u) = ?n" by (auto simp: carries_def)
      moreover have "closed_turns_processed db" using assms(1) by (simp add: gate_inv_def)
      ultimately obtain h p where "h \<in> set (db_gate db)" "gr_meeting_id h = mid" "gr_segment_id h = ?i" "gr_processed h = Some p" "?n \<le> p"
        unfolding closed_turns_processed_def turn_processed_def using Some b by (metis option.distinct(1))
      with g assms(1) gate_key_unique[of db g h] show False by (force simp: gate_inv_def)
    qed
  qed
  then show ?thesis by (auto simp: handed_def filter_empty_conv)
qed

lemma keeps_begin [keeping]: "keeps meeting_inv (begin_claim_gate_batch X mid b)"
proof (rule keeps_by_table(8)[OF touches_begin], rule hoareI)
  fix db db' assume inv: "gate_inv {} db" and step: "begin_claim_gate_batch X mid b db = Inr db'"
  show "gate_inv {} db'"
  proof (cases "find_batch (gb_id b) db")
    case None
    with step have run: "tx_all (map (admit_turn mid) (gb_turns b) @ [insert_batch X mid b]) db = Inr db'"
      by (simp add: begin_claim_gate_batch_def)
    then have adm: "\<forall>t \<in> set (gb_turns b). admitted mid db t" and ins: "insert_batch X mid b db = Inr db'"
      by (auto simp: tx_all_append split: sum.splits dest!: admit_turns_admit)
    then obtain row where row: "db' = db\<lparr>db_batches := db_batches db @ [row]\<rparr>" "br_id row = gb_id b" "br_meeting_id row = mid"
        "br_turns row = gb_turns b" "br_processed_at_ms row = None"
      by (auto simp: insert_batch_def split: if_splits)
    have "length (handed db' m i n) \<le> 1" for m i n
    proof (cases "m = mid \<and> carries row i n")
      case True
      then obtain t where "t \<in> set (gb_turns b)" "gt_id t = i" "sint (gt_revision_number t) = n" by (auto simp: carries_def row)
      with admitted_not_handed[OF inv, of mid t] adm True have "handed db m i n = []" by auto
      then show ?thesis by (simp add: handed_def row(1))
    next
      case False
      then have "handed db' m i n = handed db m i n" by (auto simp: handed_def row)
      with inv show ?thesis by (simp add: gate_inv_def handed_once_def)
    qed
    then have "handed_once db'" by (simp add: handed_once_def)
    moreover have "gb_id b \<notin> br_id ` set (db_batches db)" using None by (auto simp: find_batch_def find_none)
    moreover have "open_turns_queued db'" using inv adm row by (auto simp: gate_inv_def open_turns_queued_def admitted_def)
    moreover have "gate_keys_distinct db'" "gate_behind_segments db'" "finished_are_queued db'" "processed_were_carried {} db'"
      using inv by (fastforce simp: row(1) gate_inv_def gate_parts finished_live_def live_kind_def has_version_def)+
    moreover have "closed_turns_processed db'" using inv row by (auto simp: gate_inv_def closed_turns_processed_def turn_processed_def)
    ultimately show ?thesis using inv row by (simp add: gate_inv_def)
  qed (use step inv in \<open>auto simp: begin_claim_gate_batch_def split: if_splits\<close>)
qed

lemma processed_gate_simps [simp]:
  "gr_meeting_id (processed_gate X n g) = gr_meeting_id g" "gr_segment_id (processed_gate X n g) = gr_segment_id g"
  "gr_queued (processed_gate X n g) = gr_queued g"
  by (auto simp: processed_gate_def)

lemma processed_gate_old:
  "gr_processed (processed_gate X n g) = Some p \<Longrightarrow> p \<noteq> n \<Longrightarrow> gr_processed g = Some p"
  by (auto simp: processed_gate_def split: option.splits if_splits)

definition closing_batch :: "string \<Rightarrow> string \<Rightarrow> GateTurn list \<Rightarrow> MeetingDb \<Rightarrow> bool" where
  "closing_batch mid bid ts db =
     (\<exists>b \<in> set (db_batches db). br_id b = bid \<and> br_meeting_id b = mid \<and> br_processed_at_ms b = None \<and> br_turns b = ts)"

lemma processed_gate_grows:
  "\<exists>p. gr_processed (processed_gate X n g) = Some p \<and> n \<le> p"
  "gr_processed g = Some p \<Longrightarrow> \<exists>q. gr_processed (processed_gate X n g) = Some q \<and> p \<le> q"
  by (auto simp: processed_gate_def split: option.splits)

lemma process_turn_processes: "hoare (\<lambda>_. True) (process_turn X mid t) (turn_processed mid t)"
  by (fastforce simp: hoare_def process_turn_def turn_processed_def update_where_quantifiers list_ex_iff processed_gate_grows(1) split: if_splits)

lemma process_turn_monotone: "keeps (turn_processed m u) (process_turn X mid t)"
proof (rule hoareI)
  fix db db' assume "turn_processed m u db" and step: "process_turn X mid t db = Inr db'"
  then obtain g p where g: "g \<in> set (db_gate db)" "gr_meeting_id g = m" "gr_segment_id g = gt_id u" "gr_processed g = Some p" "sint (gt_revision_number u) \<le> p"
    by (auto simp: turn_processed_def)
  from processed_gate_grows(2)[OF g(4)] obtain q where "gr_processed (processed_gate X (sint (gt_revision_number t)) g) = Some q" "p \<le> q" by blast
  moreover have "db' = db\<lparr>db_gate := update_where (\<lambda>g. gr_meeting_id g = mid \<and> gr_segment_id g = gt_id t)
      (processed_gate X (sint (gt_revision_number t))) (db_gate db)\<rparr>"
    using step by (auto simp: process_turn_def split: if_splits)
  ultimately show "turn_processed m u db'"
    using g by (simp add: turn_processed_def update_where_quantifiers) (auto intro!: bexI[of _ g])
qed

lemma process_turn_ok:
  assumes "t \<in> set ts"
  shows "keeps (\<lambda>db. gate_inv {bid} db \<and> closing_batch mid bid ts db) (process_turn X mid t)"
proof (rule hoareI)
  fix db db' assume pre: "gate_inv {bid} db \<and> closing_batch mid bid ts db" and step: "process_turn X mid t db = Inr db'"
  let ?n = "sint (gt_revision_number t)"
  let ?p = "\<lambda>g. gr_meeting_id g = mid \<and> gr_segment_id g = gt_id t"
  let ?g = "\<lambda>g. if ?p g then processed_gate X ?n g else g"
  have db': "db' = db\<lparr>db_gate := update_where ?p (processed_gate X ?n) (db_gate db)\<rparr>"
    using step by (auto simp: process_turn_def split: if_splits)
  have g: "gr_meeting_id (?g x) = gr_meeting_id x" "gr_segment_id (?g x) = gr_segment_id x" "gr_queued (?g x) = gr_queued x" for x by auto
  obtain b where b: "b \<in> set (db_batches db)" "br_id b = bid" "br_meeting_id b = mid" "br_processed_at_ms b = None" "t \<in> set (br_turns b)"
    using pre assms by (auto simp: closing_batch_def)
  with pre obtain h where h: "h \<in> set (db_gate db)" "gr_meeting_id h = mid" "gr_segment_id h = gt_id t" "?n \<le> gr_queued h"
    unfolding gate_inv_def open_turns_queued_def by metis
  have "p \<le> gr_queued x \<and> (\<exists>b \<in> set (db_batches db). br_meeting_id b = gr_meeting_id x \<and>
      (br_processed_at_ms b \<noteq> None \<or> br_id b \<in> {bid}) \<and> carries b (gr_segment_id x) p)"
    if x: "x \<in> set (db_gate db)" and p: "gr_processed (?g x) = Some p" for x p
  proof (cases "?p x \<and> p = ?n")
    case True
    with pre x h have "x = h" by (intro gate_key_unique[of db]) (auto simp: gate_inv_def)
    with True h b show ?thesis by (metis carries_def singletonI)
  next
    case False
    with p have "gr_processed x = Some p" by (auto dest: processed_gate_old split: if_splits)
    moreover have "processed_were_carried {bid} db" using pre by (simp add: gate_inv_def)
    ultimately show ?thesis using x by (simp add: processed_were_carried_def)
  qed
  then have "processed_were_carried {bid} db'"
    by (simp add: processed_were_carried_def db' update_where_quantifiers g del: if_split)
  moreover have "gate_keys_distinct db'" using pre by (simp add: gate_inv_def gate_keys_distinct_def db' map_update_where)
  moreover have "gate_behind_segments db'" "finished_are_queued db'" "open_turns_queued db'"
    using pre by (simp_all add: gate_inv_def gate_behind_segments_def finished_are_queued_def open_turns_queued_def
        finished_live_def live_kind_def has_version_def db' update_where_quantifiers g del: if_split)
  moreover have "handed_once db' = handed_once db" "closing_batch mid bid ts db' = closing_batch mid bid ts db"
    by (simp_all add: db' handed_once_def handed_def closing_batch_def)
  moreover have "closed_turns_processed db'"
    using pre hoareD[OF process_turn_monotone step] by (auto simp: gate_inv_def closed_turns_processed_def db')
  ultimately show "gate_inv {bid} db' \<and> closing_batch mid bid ts db'" using pre by (simp add: gate_inv_def db')
qed

lemma close_batch_ok:
  assumes G: "gate_inv {bid} db" and b: "closing_batch mid bid ts db" and all: "\<forall>t \<in> set ts. turn_processed mid t db"
  shows "gate_inv {} (db\<lparr>db_batches := update_where (\<lambda>r. br_id r = bid) (\<lambda>r. r\<lparr>br_processed_at_ms := Some now\<rparr>) (db_batches db)\<rparr>)"
    (is "gate_inv {} ?db'")
proof -
  have carries: "carries (r\<lparr>br_processed_at_ms := x\<rparr>) i n = carries r i n" for r x i n by (simp add: carries_def)
  have "handed ?db' m i n = update_where (\<lambda>r. br_id r = bid) (\<lambda>r. r\<lparr>br_processed_at_ms := Some now\<rparr>) (handed db m i n)" for m i n
    by (simp add: handed_def filter_update_where carries)
  then have "handed_once ?db'" using G by (simp add: gate_inv_def handed_once_def update_where_def)
  moreover have "processed_were_carried {} ?db'"
    using G by (fastforce simp: gate_inv_def processed_were_carried_def update_where_quantifiers carries)
  moreover have "closed_turns_processed ?db'"
    unfolding closed_turns_processed_def MeetingDb.simps
  proof (intro ballI impI)
    fix r t assume "r \<in> set (db_batches ?db')" and r: "br_processed_at_ms r \<noteq> None" "t \<in> set (br_turns r)"
    then obtain q where q: "q \<in> set (db_batches db)" "r = (if br_id q = bid then q\<lparr>br_processed_at_ms := Some now\<rparr> else q)"
      by (auto simp: set_update_where)
    have "turn_processed (br_meeting_id r) t db"
    proof (cases "br_id q = bid")
      case True
      with b G q(1) have "br_meeting_id q = mid" "br_turns q = ts"
        by (auto simp: closing_batch_def gate_inv_def dest: key_unique)
      with True q(2) r(2) all show ?thesis by simp
    next
      case False
      with q r G show ?thesis by (simp add: gate_inv_def closed_turns_processed_def)
    qed
    then show "turn_processed (br_meeting_id r) t ?db'" by (simp add: turn_processed_def)
  qed
  moreover have "gate_keys_distinct ?db'" "gate_behind_segments ?db'" "finished_are_queued ?db'"
    using G by (simp_all add: gate_inv_def gate_parts finished_live_def live_kind_def has_version_def)
  moreover have "open_turns_queued ?db'" using G by (simp add: gate_inv_def open_turns_queued_def update_where_quantifiers)
  ultimately show ?thesis using G by (simp add: gate_inv_def map_update_where)
qed

lemma gate_inv_more: "gate_inv {} db \<Longrightarrow> gate_inv B db"
  by (fastforce simp: gate_inv_def processed_were_carried_def)

lemma keeps_complete [keeping]: "keeps meeting_inv (complete_claim_gate_batch X mid bid)"
proof (rule keeps_by_table(9)[OF touches_complete], rule hoareI)
  fix db db' assume inv: "gate_inv {} db" and step: "complete_claim_gate_batch X mid bid db = Inr db'"
  show "gate_inv {} db'"
  proof (cases "db' = db")
    case False
    with step obtain b where b: "find_batch bid db = Some b" "br_meeting_id b = mid" "br_processed_at_ms b = None"
      and run: "tx_all (map (process_turn X mid) (br_turns b) @
         [\<lambda>db. Inr (db\<lparr>db_batches := update_where (\<lambda>r. br_id r = bid) (\<lambda>r. r\<lparr>br_processed_at_ms := Some (mx_now X)\<rparr>)
                        (db_batches db)\<rparr>)]) db = Inr db'"
      by (auto simp: complete_claim_gate_batch_def split: option.splits if_splits)
    have "closing_batch mid bid (br_turns b) db" using b by (auto simp: closing_batch_def find_batch_def dest!: find_in)
    moreover have "hoare (\<lambda>db. gate_inv {bid} db \<and> closing_batch mid bid (br_turns b) db) (tx_all (map (process_turn X mid) (br_turns b)))
      (\<lambda>db. (gate_inv {bid} db \<and> closing_batch mid bid (br_turns b) db) \<and> (\<forall>t \<in> set (br_turns b). turn_processed mid t db))"
      by (rule hoare_conj[OF keeps_map[OF process_turn_ok]])
        (auto intro: hoare_pre[OF hoare_map_all[OF process_turn_processes process_turn_monotone]])
    then have "hoare (\<lambda>db. gate_inv {bid} db \<and> closing_batch mid bid (br_turns b) db)
      (tx_all (map (process_turn X mid) (br_turns b) @
         [\<lambda>db. Inr (db\<lparr>db_batches := update_where (\<lambda>r. br_id r = bid) (\<lambda>r. r\<lparr>br_processed_at_ms := Some (mx_now X)\<rparr>)
                        (db_batches db)\<rparr>)])) (gate_inv {})"
      by (rule hoare_append[OF _ hoare_cons[OF _ hoare_nil]]) (auto simp: hoare_def intro: close_batch_ok)
    ultimately show ?thesis using run inv gate_inv_more by (auto dest: hoareD)
  qed (use inv in simp)
qed

subsection \<open>Versions\<close>

lemma segment_version:
  "transcript_inv db \<Longrightarrow> r \<in> set (db_segments db) \<Longrightarrow> \<exists>k. has_version (sg_meeting_id r) (ts_transcript_version_id (sg_value r)) k db"
  by (simp add: transcript_inv_def)

lemma version_unique:
  "transcript_inv db \<Longrightarrow> v \<in> set (db_versions db) \<Longrightarrow> w \<in> set (db_versions db) \<Longrightarrow> tv_id (vw_value v) = tv_id (vw_value w) \<Longrightarrow> v = w"
  unfolding transcript_inv_def by (metis comp_apply key_unique)

lemma has_version_unique:
  "transcript_inv db \<Longrightarrow> has_version m vid k db \<Longrightarrow> has_version m' vid k' db \<Longrightarrow> m = m' \<and> k = k'"
  unfolding has_version_def by (metis version_unique)

lemma find_version_Some:
  "transcript_inv db \<Longrightarrow> find_version vid db = Some v \<longleftrightarrow> v \<in> set (db_versions db) \<and> tv_id (vw_value v) = vid"
  unfolding find_version_def transcript_inv_def
  using find_key[of "tv_id \<circ> vw_value" "db_versions db" v] by (auto dest: find_in)

lemma find_live:
  assumes "transcript_inv db"
  shows "(case find_version vid db of Some v \<Rightarrow> tv_kind (vw_value v) = LiveVersion | None \<Rightarrow> False) = live_kind db vid"
proof (cases "find_version vid db")
  case None
  then have "\<not> live_kind db vid" by (auto simp: find_version_def find_none live_kind_def has_version_def)
  with None show ?thesis by simp
next
  case (Some v)
  with assms have "v \<in> set (db_versions db)" "tv_id (vw_value v) = vid" by (simp_all add: find_version_Some)
  with Some assms show ?thesis unfolding live_kind_def has_version_def by (auto dest: version_unique)
qed

lemma gated_iff: "transcript_inv db \<Longrightarrow> gated db r = finished_live db r"
  by (simp add: gated_def finished_live_def find_live)

lemma finished_are_queued_cong:
  assumes "finished_are_queued db" "db_segments db' = db_segments db" "db_gate db' = db_gate db"
    "\<And>r. r \<in> set (db_segments db) \<Longrightarrow> live_kind db' (ts_transcript_version_id (sg_value r)) \<Longrightarrow> live_kind db (ts_transcript_version_id (sg_value r))"
  shows "finished_are_queued db'"
  using assms by (auto simp: finished_are_queued_def finished_live_def)

text \<open>Adding versions, or rewriting them without changing what they are, is harmless.\<close>

lemma versions_ok:
  assumes inv: "meeting_inv db"
    and dist: "distinct (map (tv_id \<circ> vw_value) vs)"
    and same: "\<And>m i k. has_version m i k db \<Longrightarrow> has_version m i k (db\<lparr>db_versions := vs\<rparr>)"
  shows "meeting_inv (db\<lparr>db_versions := vs\<rparr>)"
proof -
  let ?db' = "db\<lparr>db_versions := vs\<rparr>"
  have seg: "has_segment m i ?db' = has_segment m i db" for m i by (simp add: has_segment_def)
  have T: "transcript_inv db" using inv by (simp add: meeting_inv_def)
  have T': "transcript_inv ?db'"
    unfolding transcript_inv_def seg
  proof (intro conjI)
    have "\<exists>k. has_version (sg_meeting_id r) (ts_transcript_version_id (sg_value r)) k ?db'" if "r \<in> set (db_segments db)" for r
      using segment_version[OF T that] same by metis
    with T show "\<forall>r \<in> set (db_segments ?db'). 0 \<le> seg_revision r \<and> (\<exists>k. has_version (sg_meeting_id r) (ts_transcript_version_id (sg_value r)) k ?db')"
      by (simp add: transcript_inv_def)
  qed (use T dist in \<open>simp_all add: transcript_inv_def\<close>)
  have "live_kind db (ts_transcript_version_id (sg_value r))"
    if r: "r \<in> set (db_segments db)" and live: "live_kind ?db' (ts_transcript_version_id (sg_value r))" for r
  proof -
    obtain k where k: "has_version (sg_meeting_id r) (ts_transcript_version_id (sg_value r)) k db"
      using segment_version[OF T r] ..
    from live obtain m where "has_version m (ts_transcript_version_id (sg_value r)) LiveVersion ?db'" by (auto simp: live_kind_def)
    from has_version_unique[OF T' same[OF k] this] have "k = LiveVersion" by simp
    with k show ?thesis unfolding live_kind_def by blast
  qed
  note live = this
  have "finished_are_queued db" using inv by (simp add: meeting_inv_def gate_inv_def)
  then have "finished_are_queued ?db'" by (rule finished_are_queued_cong) (simp_all add: live)
  moreover have "gate_keys_distinct ?db' = gate_keys_distinct db" "gate_behind_segments ?db' = gate_behind_segments db"
    "processed_were_carried {} ?db' = processed_were_carried {} db" "open_turns_queued ?db' = open_turns_queued db"
    "closed_turns_processed ?db' = closed_turns_processed db" "handed_once ?db' = handed_once db" "deletion_inv ?db' = deletion_inv db" "files_inv ?db' = files_inv db"
    "claims_inv ?db' = claims_inv db" "research_inv ?db' = research_inv db"
    by (simp_all add: inv_defs)
  ultimately show ?thesis using inv T' by (simp add: meeting_inv_def gate_inv_def)
qed

lemma version_appended:
  assumes "meeting_inv db" "tv_id (vw_value w) \<notin> (tv_id \<circ> vw_value) ` set (db_versions db)"
  shows "meeting_inv (db\<lparr>db_versions := db_versions db @ [w]\<rparr>)"
  by (rule versions_ok) (use assms in \<open>auto simp: meeting_inv_def transcript_inv_def has_version_def\<close>)

lemma upsert_version_ok:
  "hoare meeting_inv (upsert_transcript_version X mid v) (\<lambda>db. meeting_inv db \<and> has_version mid (tv_id v) (tv_kind v) db)"
proof (rule hoareI)
  fix db db' assume inv: "meeting_inv db" and step: "upsert_transcript_version X mid v db = Inr db'"
  then have T: "transcript_inv db" by (simp add: meeting_inv_def)
  show "meeting_inv db' \<and> has_version mid (tv_id v) (tv_kind v) db'"
  proof (cases "find_version (tv_id v) db")
    case None
    with step obtain w where w: "db' = db\<lparr>db_versions := db_versions db @ [w]\<rparr>" "vw_meeting_id w = mid" "vw_value w = v"
      by (auto simp: upsert_transcript_version_def split: if_splits)
    have "tv_id (vw_value w) \<notin> (tv_id \<circ> vw_value) ` set (db_versions db)"
      using None w by (auto simp: find_version_def find_none)
    with version_appended[OF inv] w show ?thesis by (auto simp: has_version_def)
  next
    case (Some row)
    let ?p = "\<lambda>r. tv_id (vw_value r) = tv_id v"
    let ?vs = "update_where ?p (merged_version X v) (db_versions db)"
    from Some step have db': "db' = db\<lparr>db_versions := ?vs\<rparr>" and same: "same_version mid v row"
      by (auto simp: upsert_transcript_version_def split: if_splits)
    have row: "row \<in> set (db_versions db)" "tv_id (vw_value row) = tv_id v" using Some T by (auto simp: find_version_Some)
    have own: "r = row" if "r \<in> set (db_versions db)" "?p r" for r using version_unique[OF T that(1) row(1)] that(2) row(2) by simp
    have "has_version m i k (db\<lparr>db_versions := ?vs\<rparr>)" if "has_version m i k db" for m i k
      using that own same by (fastforce simp: has_version_def update_where_quantifiers merged_version_def same_version_def)
    moreover have "distinct (map (tv_id \<circ> vw_value) ?vs)"
      using T by (subst map_update_where) (simp_all add: transcript_inv_def merged_version_def)
    ultimately have "meeting_inv db'" unfolding db' by (intro versions_ok[OF inv])
    moreover have "has_version mid (tv_id v) (tv_kind v) db'"
      unfolding db' has_version_def using row same by (auto simp: update_where_quantifiers merged_version_def same_version_def intro!: bexI[of _ row])
    ultimately show ?thesis ..
  qed
qed

lemma keeps_versions [keeping]: "keeps meeting_inv (upsert_transcript_version X mid v)" "keeps meeting_inv (insert_live_version X cr)"
proof -
  show "keeps meeting_inv (upsert_transcript_version X mid v)" by (rule hoare_post[OF upsert_version_ok]) simp
  show "keeps meeting_inv (insert_live_version X cr)"
    by (rule hoareI)
      (auto simp: insert_live_version_def list_ex_iff live_version_value_def split: if_splits intro!: version_appended)
qed

subsection \<open>Segments\<close>

text \<open>What a written segment leaves of the table.\<close>

definition written :: "string \<Rightarrow> SegmentUpsert \<Rightarrow> SegmentRow list \<Rightarrow> SegmentRow list \<Rightarrow> bool" where
  "written mid s old new =
     (0 \<le> sint (ts_revision_number s) \<and>
      (\<forall>r \<in> set old. seg_id r \<noteq> ts_id s \<longrightarrow> r \<in> set new) \<and>
      (\<exists>r \<in> set new. sg_meeting_id r = mid \<and> sg_value r = s) \<and>
      (\<forall>r \<in> set new. r \<in> set old \<and> seg_id r \<noteq> ts_id s \<or> sg_meeting_id r = mid \<and> sg_value r = s) \<and>
      (\<forall>r \<in> set old. seg_id r = ts_id s \<longrightarrow> sg_meeting_id r = mid \<and> seg_revision r < sint (ts_revision_number s)))"

lemma segment_unique:
  "transcript_inv db \<Longrightarrow> r \<in> set (db_segments db) \<Longrightarrow> q \<in> set (db_segments db) \<Longrightarrow> seg_id r = seg_id q \<Longrightarrow> r = q"
  unfolding transcript_inv_def by (metis comp_apply key_unique)

lemma replace_segment_writes:
  assumes "transcript_inv db" "replace_segment X mid s db = Inr db'"
    and old: "\<And>r. r \<in> set (db_segments db) \<Longrightarrow> seg_id r = ts_id s \<Longrightarrow> sg_meeting_id r = mid \<and> seg_revision r < sint (ts_revision_number s)"
  shows "\<exists>segs. db' = db\<lparr>db_segments := segs\<rparr> \<and> written mid s (db_segments db) segs \<and> distinct (map (ts_id \<circ> sg_value) segs)"
proof (cases "find_segment (ts_id s) db")
  case None
  then have "\<forall>r \<in> set (db_segments db). seg_id r \<noteq> ts_id s" by (auto simp: find_segment_def find_none)
  with assms None show ?thesis
    by (fastforce simp: replace_segment_def written_def transcript_inv_def split: if_splits)
next
  case (Some row)
  let ?f = "\<lambda>r. r\<lparr>sg_value := s, sg_content_hash := mx_segment_hash X s, sg_updated_at_ms := mx_now X\<rparr>"
  let ?segs = "update_where (\<lambda>r. seg_id r = ts_id s) ?f (db_segments db)"
  have row: "row \<in> set (db_segments db)" "seg_id row = ts_id s" using Some by (auto simp: find_segment_def dest: find_in)
  have "written mid s (db_segments db) ?segs"
    unfolding written_def update_where_quantifiers
    using assms(2) Some row old by (auto simp: replace_segment_def set_update_where split: if_splits)
  moreover have "distinct (map (ts_id \<circ> sg_value) ?segs)"
    using assms(1) by (subst map_update_where) (simp_all add: transcript_inv_def)
  moreover have "db' = db\<lparr>db_segments := ?segs\<rparr>" using assms(2) Some by (auto simp: replace_segment_def split: if_splits)
  ultimately show ?thesis by blast
qed

lemma written_transcript_inv:
  assumes T: "transcript_inv db" and v: "has_version mid (ts_transcript_version_id s) k db"
    and w: "written mid s (db_segments db) segs" "distinct (map (ts_id \<circ> sg_value) segs)"
  shows "transcript_inv (db\<lparr>db_segments := segs\<rparr>) \<and> has_segment mid (ts_id s) (db\<lparr>db_segments := segs\<rparr>)" (is "transcript_inv ?db' \<and> _")
proof
  have ver: "has_version m i k ?db' = has_version m i k db" for m i k by (simp add: has_version_def)
  show here: "has_segment mid (ts_id s) ?db'" using w(1) by (auto simp: written_def has_segment_def)
  have seg: "has_segment m i ?db'" if "has_segment m i db" for m i
  proof (cases "i = ts_id s")
    case True
    with that w(1) have "m = mid" by (auto simp: has_segment_def written_def)
    with True here show ?thesis by simp
  next
    case False
    with that w(1) show ?thesis by (auto simp: has_segment_def written_def)
  qed
  have "0 \<le> seg_revision r \<and> (\<exists>k. has_version (sg_meeting_id r) (ts_transcript_version_id (sg_value r)) k db)" if r: "r \<in> set segs" for r
  proof -
    from w(1) r have "r \<in> set (db_segments db) \<or> sg_meeting_id r = mid \<and> sg_value r = s" by (auto simp: written_def)
    then show ?thesis
    proof
      assume "r \<in> set (db_segments db)"
      with T show ?thesis by (simp add: transcript_inv_def)
    next
      assume "sg_meeting_id r = mid \<and> sg_value r = s"
      with v w(1) show ?thesis by (auto simp: written_def)
    qed
  qed
  moreover have "\<exists>m. has_segment m (fst p) ?db' \<and> has_segment m (snd p) ?db'" if p: "p \<in> set (db_replacements db)" for p
  proof -
    from T p obtain m where "has_segment m (fst p) db" "has_segment m (snd p) db" unfolding transcript_inv_def by metis
    with seg show ?thesis by metis
  qed
  ultimately show "transcript_inv ?db'" using T w(2) unfolding transcript_inv_def ver by simp
qed

lemma replacements_ok:
  "hoare (\<lambda>db. transcript_inv db \<and> has_segment mid i db)
     (tx_all ((\<lambda>db. Inr (db\<lparr>db_replacements := filter (\<lambda>p. fst p \<noteq> i) (db_replacements db)\<rparr>)) # map (insert_replacement mid i) js))
     transcript_inv"
proof -
  let ?P = "\<lambda>db. transcript_inv db \<and> has_segment mid i db"
  have "live_segment mid j db \<Longrightarrow> has_segment mid j db" for j db
    by (auto simp: live_segment_def has_segment_def list_ex_iff)
  then have ins: "keeps ?P (insert_replacement mid i j)" for j
    by (auto simp: hoare_def insert_replacement_def transcript_inv_def has_version_def has_segment_def split: if_splits)
  have "keeps ?P (\<lambda>db. Inr (db\<lparr>db_replacements := filter (\<lambda>p. fst p \<noteq> i) (db_replacements db)\<rparr>))"
    by (auto simp: hoare_def transcript_inv_def has_version_def has_segment_def)
  from hoare_cons[OF this keeps_map[OF ins]] show ?thesis by (rule hoare_post) simp
qed

lemma write_segment_ok:
  assumes T: "transcript_inv db" and v: "has_version mid (ts_transcript_version_id s) k db"
    and old: "\<And>r. r \<in> set (db_segments db) \<Longrightarrow> seg_id r = ts_id s \<Longrightarrow> sg_meeting_id r = mid \<and> seg_revision r < sint (ts_revision_number s)"
    and step: "write_segment X mid s db = Inr db'"
  shows "\<exists>segs reps. db' = db\<lparr>db_segments := segs, db_replacements := reps\<rparr> \<and> written mid s (db_segments db) segs \<and> transcript_inv db'"
proof -
  let ?rest = "(\<lambda>db. Inr (db\<lparr>db_replacements := filter (\<lambda>p. fst p \<noteq> ts_id s) (db_replacements db)\<rparr>)) #
    map (insert_replacement mid (ts_id s)) (ts_replaced_live_segment_ids s)"
  from step obtain db1 db2 where sp: "ensure_optional_speaker mid (ts_speaker_id s) db = Inr db1"
    and rep: "replace_segment X mid s db1 = Inr db2" and rest: "tx_all ?rest db2 = Inr db'"
    by (auto simp: write_segment_def split: sum.splits)
  from sp touches_references(1)[where e = id] have db1: "db1 = db" by (auto simp: touches_def)
  from replace_segment_writes[OF T rep[unfolded db1] old] obtain segs where db2: "db2 = db\<lparr>db_segments := segs\<rparr>"
    and w: "written mid s (db_segments db) segs" "distinct (map (ts_id \<circ> sg_value) segs)" by blast
  have "transcript_inv db2 \<and> has_segment mid (ts_id s) db2" unfolding db2 by (rule written_transcript_inv[OF T v w])
  with hoareD[OF replacements_ok rest] have "transcript_inv db'" by simp
  moreover have "touches (\<lambda>db. db\<lparr>db_replacements := []\<rparr>) (tx_all ?rest)"
    by (rule touches_tx_all) (auto simp: touches_def insert_replacement_def split: if_splits)
  with rest have "db'\<lparr>db_replacements := []\<rparr> = db2\<lparr>db_replacements := []\<rparr>" by (auto simp: touches_def)
  then have "db' = db2\<lparr>db_replacements := db_replacements db'\<rparr>"
    by (metis (no_types, lifting) MeetingDb.surjective MeetingDb.update_convs(6))
  ultimately show ?thesis using w(1) db2 by auto
qed

lemma upsert_segment_ok:
  assumes T: "transcript_inv db" and v: "has_version mid (ts_transcript_version_id s) k db"
    and step: "upsert_transcript_segment X mid s db = Inr (outcome, db')"
  shows "(outcome \<noteq> Inserted \<and> outcome \<noteq> Revised \<and> db' = db) \<or>
    ((outcome = Inserted \<or> outcome = Revised) \<and> (\<exists>segs reps. db' = db\<lparr>db_segments := segs, db_replacements := reps\<rparr> \<and>
       written mid s (db_segments db) segs \<and> transcript_inv db'))"
proof (cases "find (same_segment mid s) (db_segments db)")
  case None
  from None step have clash: "\<not> segment_conflicts mid s db" and w: "write_segment X mid s db = Inr db'" and out: "outcome = Inserted"
    by (auto simp: upsert_transcript_segment_def split: if_splits sum.splits)
  have "False" if "r \<in> set (db_segments db)" "seg_id r = ts_id s" for r
  proof -
    from that have "find_segment (ts_id s) db \<noteq> None" by (auto simp: find_segment_def find_none)
    then obtain q where q: "find_segment (ts_id s) db = Some q" by blast
    then have "q \<in> set (db_segments db)" by (auto simp: find_segment_def dest: find_in)
    moreover have "same_segment mid s q" using clash q by (simp add: segment_conflicts_def)
    ultimately show False using None by (auto simp: find_none)
  qed
  then show ?thesis using write_segment_ok[OF T v _ w] out by blast
next
  case (Some row)
  then have row: "row \<in> set (db_segments db)" "sg_meeting_id row = mid" by (auto simp: same_segment_def dest: find_in)
  from Some step have clash: "\<not> segment_conflicts mid s db" by (auto simp: upsert_transcript_segment_def split: if_splits)
  then have id: "seg_id row = ts_id s" using Some by (simp add: segment_conflicts_def)
  show ?thesis
  proof (cases "sint (ts_revision_number s) \<le> seg_revision row")
    case True
    with Some step show ?thesis by (auto simp: upsert_transcript_segment_def split: if_splits)
  next
    case False
    with Some step have w: "write_segment X mid s db = Inr db'" "outcome = Revised"
      by (auto simp: upsert_transcript_segment_def split: if_splits sum.splits)
    have "sg_meeting_id r = mid \<and> seg_revision r < sint (ts_revision_number s)" if "r \<in> set (db_segments db)" "seg_id r = ts_id s" for r
      using segment_unique[OF T that(1) row(1)] that(2) id row(2) False by simp
    then show ?thesis using write_segment_ok[OF T v _ w(1)] w(2) by blast
  qed
qed

text \<open>The queue after enqueueing: the entry of the segment is at the revision, the others are as before.\<close>

definition gate_key :: "GateRow \<Rightarrow> string \<times> string" where
  "gate_key g = (gr_meeting_id g, gr_segment_id g)"

definition enqueued :: "string \<times> string \<Rightarrow> int \<Rightarrow> GateRow list \<Rightarrow> GateRow list \<Rightarrow> bool" where
  "enqueued key n old new =
     ((\<forall>g \<in> set old. gate_key g \<noteq> key \<longrightarrow> g \<in> set new) \<and>
      (\<forall>g \<in> set new. g \<in> set old \<and> gate_key g \<noteq> key \<or>
         gate_key g = key \<and> gr_queued g = n \<and>
         (gr_processed g = None \<or> (\<exists>h \<in> set old. gate_key h = key \<and> gr_processed h = gr_processed g))) \<and>
      (\<forall>h \<in> set old. \<exists>g \<in> set new. gate_key g = gate_key h \<and> gr_processed g = gr_processed h) \<and>
      (\<exists>g \<in> set new. gate_key g = key \<and> gr_queued g = n) \<and>
      distinct (map gate_key new))"

lemma gate_keys_distinct_alt: "gate_keys_distinct db = distinct (map gate_key (db_gate db))"
  by (simp add: gate_keys_distinct_def gate_key_def[abs_def])

lemma enqueue_effect:
  assumes keys: "gate_keys_distinct db" and below: "\<And>g. g \<in> set (db_gate db) \<Longrightarrow> gate_key g = (mid, sid) \<Longrightarrow> gr_queued g < n"
  shows "\<exists>gs. enqueue_claim_gate_segment X mid sid n db = Inr (db\<lparr>db_gate := gs\<rparr>) \<and> enqueued (mid, sid) n (db_gate db) gs"
proof (cases "list_ex (\<lambda>g. gr_meeting_id g = mid \<and> gr_segment_id g = sid) (db_gate db)")
  case True
  let ?p = "\<lambda>g. gr_meeting_id g = mid \<and> gr_segment_id g = sid \<and> gr_queued g < n"
  let ?f = "\<lambda>g. g\<lparr>gr_queued := n, gr_enqueued_at_ms := mx_now X\<rparr>"
  let ?gs = "update_where ?p ?f (db_gate db)"
  have "distinct (map gate_key ?gs)" using keys by (simp add: gate_keys_distinct_alt map_update_where gate_key_def)
  moreover have "\<exists>g \<in> set ?gs. gate_key g = (mid, sid) \<and> gr_queued g = n"
    using True below by (auto simp: list_ex_iff update_where_quantifiers gate_key_def)
  moreover have "\<forall>g \<in> set ?gs. g \<in> set (db_gate db) \<and> gate_key g \<noteq> (mid, sid) \<or> gate_key g = (mid, sid) \<and> gr_queued g = n \<and>
      (gr_processed g = None \<or> (\<exists>h \<in> set (db_gate db). gate_key h = (mid, sid) \<and> gr_processed h = gr_processed g))"
    unfolding update_where_quantifiers by (intro ballI) (use below in \<open>auto simp: gate_key_def\<close>)
  moreover have "\<forall>g \<in> set (db_gate db). gate_key g \<noteq> (mid, sid) \<longrightarrow> g \<in> set ?gs" by (auto simp: set_update_where gate_key_def)
  moreover have "\<forall>h \<in> set (db_gate db). \<exists>g \<in> set ?gs. gate_key g = gate_key h \<and> gr_processed g = gr_processed h"
    unfolding update_where_quantifiers by (intro ballI, rule_tac x = h in bexI) (auto simp: gate_key_def)
  ultimately have "enqueued (mid, sid) n (db_gate db) ?gs" by (simp add: enqueued_def)
  with True show ?thesis by (auto simp: enqueue_claim_gate_segment_def)
next
  case False
  let ?g = "\<lparr>gr_meeting_id = mid, gr_segment_id = sid, gr_queued = n, gr_processed = None, gr_enqueued_at_ms = mx_now X, gr_processed_at_ms = None\<rparr>"
  have "(mid, sid) \<notin> gate_key ` set (db_gate db)" using False by (auto simp: list_ex_iff gate_key_def)
  then have "enqueued (mid, sid) n (db_gate db) (db_gate db @ [?g])"
    using keys by (auto simp: enqueued_def gate_keys_distinct_alt) (auto simp: gate_key_def)
  with False show ?thesis by (auto simp: enqueue_claim_gate_segment_def)
qed

lemma enqueued_carried:
  assumes "processed_were_carried {} db" "enqueued key n (db_gate db) gs" "\<And>g. g \<in> set (db_gate db) \<Longrightarrow> gate_key g = key \<Longrightarrow> gr_queued g < n"
  shows "processed_were_carried {} (db\<lparr>db_gate := gs\<rparr>)"
  unfolding processed_were_carried_def
proof (intro ballI allI impI)
  fix g p assume g: "g \<in> set (db_gate (db\<lparr>db_gate := gs\<rparr>))" and p: "gr_processed g = Some p"
  obtain h where "h \<in> set (db_gate db)" "gate_key h = gate_key g" "gr_processed h = Some p" "gr_queued h \<le> gr_queued g"
    using g p assms(2,3) by (fastforce simp: enqueued_def)
  with assms(1) show "p \<le> gr_queued g \<and> (\<exists>b \<in> set (db_batches (db\<lparr>db_gate := gs\<rparr>)). br_meeting_id b = gr_meeting_id g \<and>
      (br_processed_at_ms b \<noteq> None \<or> br_id b \<in> {}) \<and> carries b (gr_segment_id g) p)"
    by (fastforce simp: processed_were_carried_def gate_key_def)
qed

lemma enqueued_open:
  assumes "open_turns_queued db" "enqueued key n (db_gate db) gs" "\<And>g. g \<in> set (db_gate db) \<Longrightarrow> gate_key g = key \<Longrightarrow> gr_queued g < n"
  shows "open_turns_queued (db\<lparr>db_gate := gs\<rparr>)"
  unfolding open_turns_queued_def
proof (intro ballI impI)
  fix b t assume "b \<in> set (db_batches (db\<lparr>db_gate := gs\<rparr>))" "br_processed_at_ms b = None" "t \<in> set (br_turns b)"
  with assms(1) obtain g where g: "g \<in> set (db_gate db)" "gate_key g = (br_meeting_id b, gt_id t)" "sint (gt_revision_number t) \<le> gr_queued g"
    by (fastforce simp: open_turns_queued_def gate_key_def)
  obtain h where "h \<in> set gs" "gate_key h = gate_key g" "gr_queued g \<le> gr_queued h"
    using assms(2) assms(3)[OF g(1)] g(1) by (cases "gate_key g = key") (fastforce simp: enqueued_def)+
  with g show "\<exists>g \<in> set (db_gate (db\<lparr>db_gate := gs\<rparr>)). gr_meeting_id g = br_meeting_id b \<and> gr_segment_id g = gt_id t \<and>
      sint (gt_revision_number t) \<le> gr_queued g"
    by (fastforce simp: gate_key_def)
qed

lemma written_behind:
  assumes "gate_behind_segments db" "written mid s (db_segments db) segs"
  shows "gate_behind_segments (db\<lparr>db_segments := segs, db_replacements := reps\<rparr>)"
  unfolding gate_behind_segments_def
proof (intro ballI)
  fix g assume "g \<in> set (db_gate (db\<lparr>db_segments := segs, db_replacements := reps\<rparr>))"
  with assms(1) obtain r where r: "r \<in> set (db_segments db)" "sg_meeting_id r = gr_meeting_id g" "seg_id r = gr_segment_id g"
      "gr_queued g \<le> seg_revision r" by (auto simp: gate_behind_segments_def)
  show "\<exists>r \<in> set (db_segments (db\<lparr>db_segments := segs, db_replacements := reps\<rparr>)). sg_meeting_id r = gr_meeting_id g \<and>
      seg_id r = gr_segment_id g \<and> gr_queued g \<le> seg_revision r"
  proof (cases "seg_id r = ts_id s")
    case True
    with assms(2) r have "sg_meeting_id r = mid" "seg_revision r < sint (ts_revision_number s)" by (auto simp: written_def)
    moreover obtain q where "q \<in> set segs" "sg_meeting_id q = mid" "sg_value q = s" using assms(2) by (auto simp: written_def)
    ultimately show ?thesis using r True by (intro bexI[of _ q]) auto
  qed (use assms(2) r in \<open>auto simp: written_def\<close>)
qed

lemma written_below:
  assumes "gate_behind_segments db" "written mid s (db_segments db) segs" "g \<in> set (db_gate db)" "gr_segment_id g = ts_id s"
  shows "gr_queued g < sint (ts_revision_number s)"
proof -
  from assms(1,3) obtain r where "r \<in> set (db_segments db)" "seg_id r = gr_segment_id g" "gr_queued g \<le> seg_revision r"
    by (auto simp: gate_behind_segments_def)
  with assms(2,4) show ?thesis by (auto simp: written_def)
qed

lemma finished_live_segments [simp]:
  "finished_live (db\<lparr>db_segments := segs, db_replacements := reps\<rparr>) r = finished_live db r"
  "finished_live (db\<lparr>db_gate := gs\<rparr>) r = finished_live db r"
  by (simp_all add: finished_live_def live_kind_def has_version_def)

lemma has_version_segments [simp]:
  "has_version m i k (db\<lparr>db_segments := segs, db_replacements := reps\<rparr>) = has_version m i k db"
  "has_version m i k (db\<lparr>db_gate := gs\<rparr>) = has_version m i k db"
  by (simp_all add: has_version_def)

lemma written_unqueued:
  assumes G: "gate_inv {} db" and w: "written mid s (db_segments db) segs"
    and skip: "\<not> (final_state (ts_state s) \<and> live_kind db (ts_transcript_version_id s))"
  shows "gate_inv {} (db\<lparr>db_segments := segs, db_replacements := reps\<rparr>)" (is "gate_inv {} ?db'")
proof -
  have behind: "gate_behind_segments ?db'" using G w by (auto simp: gate_inv_def intro: written_behind)
  have old: "finished_are_queued db" using G by (simp add: gate_inv_def)
  have "finished_are_queued ?db'"
    unfolding finished_are_queued_def
  proof (intro ballI impI)
    fix r assume r: "r \<in> set (db_segments ?db')" "finished_live ?db' r"
    then have "finished_live db r" by simp
    with skip have "sg_value r \<noteq> s" by (auto simp: finished_live_def)
    with r(1) w have "r \<in> set (db_segments db)" by (auto simp: written_def)
    with old r(2) show "\<exists>g \<in> set (db_gate ?db'). gr_meeting_id g = sg_meeting_id r \<and> gr_segment_id g = seg_id r \<and> gr_queued g = seg_revision r"
      by (simp add: finished_are_queued_def)
  qed
  with behind G show ?thesis
    by (simp add: gate_inv_def gate_keys_distinct_def processed_were_carried_def open_turns_queued_def closed_turns_processed_def
        turn_processed_def handed_once_def handed_def)
qed

lemma written_queued:
  assumes G: "gate_inv {} db" and w: "written mid s (db_segments db) segs"
  shows "\<exists>gs. enqueue_claim_gate_segment X mid (ts_id s) (sint (ts_revision_number s)) (db\<lparr>db_segments := segs, db_replacements := reps\<rparr>) =
      Inr (db\<lparr>db_segments := segs, db_replacements := reps, db_gate := gs\<rparr>) \<and>
    gate_inv {} (db\<lparr>db_segments := segs, db_replacements := reps, db_gate := gs\<rparr>)"
proof -
  let ?n = "sint (ts_revision_number s)" and ?db1 = "db\<lparr>db_segments := segs, db_replacements := reps\<rparr>"
  have behind: "gate_behind_segments ?db1" using G w by (auto simp: gate_inv_def intro: written_behind)
  have below: "gr_queued g < ?n" if "g \<in> set (db_gate db)" "gate_key g = (mid, ts_id s)" for g
    using G w that by (auto simp: gate_inv_def gate_key_def intro: written_below)
  have keys: "gate_keys_distinct ?db1" and carried: "processed_were_carried {} ?db1" and turns: "open_turns_queued ?db1"
    using G by (simp_all add: gate_inv_def gate_keys_distinct_def processed_were_carried_def open_turns_queued_def)
  obtain gs where run: "enqueue_claim_gate_segment X mid (ts_id s) ?n ?db1 = Inr (?db1\<lparr>db_gate := gs\<rparr>)"
    and enq: "enqueued (mid, ts_id s) ?n (db_gate db) gs"
    using enqueue_effect[OF keys, of mid "ts_id s" ?n X] below by auto
  let ?db' = "?db1\<lparr>db_gate := gs\<rparr>"
  obtain q where q: "q \<in> set segs" "sg_meeting_id q = mid" "sg_value q = s" using w by (auto simp: written_def)
  have "gate_behind_segments ?db'"
    using behind enq q by (fastforce simp: gate_behind_segments_def enqueued_def gate_key_def)
  moreover have "finished_are_queued ?db'"
    unfolding finished_are_queued_def
  proof (intro ballI impI)
    fix r assume "r \<in> set (db_segments ?db')" and fin: "finished_live ?db' r"
    then consider "r \<in> set (db_segments db)" "seg_id r \<noteq> ts_id s" | "sg_meeting_id r = mid" "sg_value r = s"
      using w by (auto simp: written_def)
    then show "\<exists>g \<in> set (db_gate ?db'). gr_meeting_id g = sg_meeting_id r \<and> gr_segment_id g = seg_id r \<and> gr_queued g = seg_revision r"
    proof cases
      case 1
      with G fin obtain g where "g \<in> set (db_gate db)" "gr_meeting_id g = sg_meeting_id r" "gr_segment_id g = seg_id r" "gr_queued g = seg_revision r"
        by (auto simp: gate_inv_def finished_are_queued_def)
      with 1 enq show ?thesis by (auto simp: enqueued_def gate_key_def)
    qed (use enq in \<open>auto simp: enqueued_def gate_key_def\<close>)
  qed
  moreover have "processed_were_carried {} ?db'" "open_turns_queued ?db'"
    by (rule enqueued_carried[OF carried] enqueued_open[OF turns], use enq below in auto)+
  moreover have "gate_keys_distinct ?db'" using enq by (simp add: enqueued_def gate_keys_distinct_alt)
  moreover have "turn_processed m t ?db'" if "turn_processed m t db" for m t
    using that enq by (fastforce simp: turn_processed_def enqueued_def gate_key_def)
  then have "closed_turns_processed ?db'" using G by (simp add: gate_inv_def closed_turns_processed_def)
  moreover have "handed_once ?db'" "distinct (map br_id (db_batches ?db'))" using G by (simp_all add: gate_inv_def handed_once_def handed_def)
  ultimately have "gate_inv {} ?db'" by (simp add: gate_inv_def)
  with run show ?thesis by auto
qed

definition segment_ready :: "string \<Rightarrow> string \<Rightarrow> VersionKind \<Rightarrow> 'a \<times> MeetingDb \<Rightarrow> bool" where
  "segment_ready mid vid k acc = (meeting_inv (snd acc) \<and> has_version mid vid k (snd acc))"

lemma meeting_inv_transcript_gate:
  assumes "meeting_inv db" "transcript_inv (db\<lparr>db_segments := segs, db_replacements := reps\<rparr>)"
    "gate_inv {} (db\<lparr>db_segments := segs, db_replacements := reps, db_gate := gs\<rparr>)"
  shows "meeting_inv (db\<lparr>db_segments := segs, db_replacements := reps, db_gate := gs\<rparr>)" (is "meeting_inv ?db'")
proof -
  have "transcript_inv ?db' = transcript_inv (db\<lparr>db_segments := segs, db_replacements := reps\<rparr>)" "deletion_inv ?db' = deletion_inv db"
    "files_inv ?db' = files_inv db" "claims_inv ?db' = claims_inv db" "research_inv ?db' = research_inv db"
    by (simp_all add: transcript_inv_def deletion_inv_def files_inv_def claims_inv_def research_inv_def has_version_def has_segment_def)
  with assms show ?thesis by (simp add: meeting_inv_def)
qed

lemma keeps_segment:
  assumes vid: "ts_transcript_version_id s = vid"
  shows "keeps (segment_ready mid vid k) (apply_segment X mid k s)"
    and "k \<noteq> LiveVersion \<Longrightarrow> keeps (segment_ready mid vid k) (refine_segment X mid s)"
proof -
  have core: "meeting_inv db2 \<and> has_version mid vid k db2"
    if pre: "meeting_inv db" "has_version mid vid k db" and up: "upsert_transcript_segment X mid s db = Inr (outcome, db1)"
      and enq: "(if k = LiveVersion \<and> final_state (ts_state s) \<and> (outcome = Inserted \<or> outcome = Revised)
        then enqueue_claim_gate_segment X mid (ts_id s) (sint (ts_revision_number s)) db1 else Inr db1) = Inr db2" for db outcome db1 db2
  proof -
    have T: "transcript_inv db" and G: "gate_inv {} db" using pre(1) by (simp_all add: meeting_inv_def)
    from upsert_segment_ok[OF T pre(2)[folded vid] up] show ?thesis
    proof
      assume "outcome \<noteq> Inserted \<and> outcome \<noteq> Revised \<and> db1 = db"
      with enq pre show ?thesis by simp
    next
      assume "(outcome = Inserted \<or> outcome = Revised) \<and> (\<exists>segs reps. db1 = db\<lparr>db_segments := segs, db_replacements := reps\<rparr> \<and>
        written mid s (db_segments db) segs \<and> transcript_inv db1)"
      then obtain segs reps where out: "outcome = Inserted \<or> outcome = Revised" and db1: "db1 = db\<lparr>db_segments := segs, db_replacements := reps\<rparr>"
        and w: "written mid s (db_segments db) segs" and T1: "transcript_inv db1" by blast
      show ?thesis
      proof (cases "k = LiveVersion \<and> final_state (ts_state s)")
        case True
        obtain gs where gs: "enqueue_claim_gate_segment X mid (ts_id s) (sint (ts_revision_number s)) db1 =
              Inr (db\<lparr>db_segments := segs, db_replacements := reps, db_gate := gs\<rparr>)"
            "gate_inv {} (db\<lparr>db_segments := segs, db_replacements := reps, db_gate := gs\<rparr>)"
          using written_queued[OF G w, of X reps] db1 by auto
        with True enq out have "db2 = db\<lparr>db_segments := segs, db_replacements := reps, db_gate := gs\<rparr>" by simp
        with meeting_inv_transcript_gate[OF pre(1) T1[unfolded db1] gs(2)] pre(2) show ?thesis by simp
      next
        case False
        have "\<not> (final_state (ts_state s) \<and> live_kind db (ts_transcript_version_id s))"
          using False has_version_unique[OF T pre(2)] vid by (auto simp: live_kind_def)
        from written_unqueued[OF G w this] have "gate_inv {} (db\<lparr>db_segments := segs, db_replacements := reps, db_gate := db_gate db\<rparr>)" by simp
        from meeting_inv_transcript_gate[OF pre(1) T1[unfolded db1] this] False enq pre(2) db1 show ?thesis by auto
      qed
    qed
  qed
  show "keeps (segment_ready mid vid k) (apply_segment X mid k s)"
    by (rule hoareI) (auto simp: segment_ready_def apply_segment_def split: sum.splits dest: core)
  show "keeps (segment_ready mid vid k) (refine_segment X mid s)" if "k \<noteq> LiveVersion"
    by (rule hoareI) (use that in \<open>auto simp: segment_ready_def refine_segment_def split: sum.splits dest: core\<close>)
qed

end
