(* ===== verification/Meeting_Reachable.thy ===== *)
theory Meeting_Reachable
  imports Meeting_Gate
begin

text \<open>
  The remaining statements, and every call of the store: the invariant holds in all states the store reaches.
\<close>

subsection \<open>Segments reassigned\<close>

lemma keeps_assign [keeping]: "keeps meeting_inv (assign_segment_speaker X mid u)"
proof (rule hoareI)
  fix db db' assume inv: "meeting_inv db" and step: "assign_segment_speaker X mid u db = Inr db'"
  define f where "f = (\<lambda>s :: SegmentRow. if ts_id (sg_value s) = su_segment_id u \<and> sg_meeting_id s = mid
    then s\<lparr>sg_value := (sg_value s)\<lparr>ts_speaker_id := Some (su_speaker_id u)\<rparr>, sg_updated_at_ms := mx_now X\<rparr> else s)"
  from step have db': "db' = db\<lparr>db_segments := map f (db_segments db)\<rparr>"
    by (auto simp: assign_segment_speaker_def checked_def require_def update_where_def f_def split: statement_splits)
  have f [simp]: "seg_id (f r) = seg_id r" "sg_meeting_id (f r) = sg_meeting_id r" "ts_revision_number (sg_value (f r)) = ts_revision_number (sg_value r)"
    "ts_transcript_version_id (sg_value (f r)) = ts_transcript_version_id (sg_value r)" "ts_state (sg_value (f r)) = ts_state (sg_value r)" for r
    by (auto simp: f_def)
  have "(ts_id \<circ> sg_value \<circ> f) = ts_id \<circ> sg_value" by auto
  then have "transcript_inv db' = transcript_inv db"
    by (simp add: db' transcript_inv_def has_version_def has_segment_def)
  moreover have "finished_live db' (f r) = finished_live db r" for r
    by (simp add: db' finished_live_def live_kind_def has_version_def)
  then have "gate_inv {} db' = gate_inv {} db"
    by (simp add: gate_inv_def gate_parts) (simp add: db')
  moreover have "deletion_inv db' = deletion_inv db" "files_inv db' = files_inv db" "claims_inv db' = claims_inv db" "research_inv db' = research_inv db"
    by (simp_all add: db' deletion_inv_def files_inv_def claims_inv_def research_inv_def)
  ultimately show "meeting_inv db'" using inv by (simp add: meeting_inv_def)
qed

subsection \<open>Removing a meeting\<close>

lemma detach_keeps [simp]:
  "vw_meeting_id (detach ids r) = vw_meeting_id r" "tv_id (vw_value (detach ids r)) = tv_id (vw_value r)"
  "tv_kind (vw_value (detach ids r)) = tv_kind (vw_value r)" "vw_created_at_ms (detach ids r) = vw_created_at_ms r"
  "tv_revision_number (vw_value (detach ids r)) = tv_revision_number (vw_value r)"
  by (simp_all add: detach_def split: option.split)

lemma purge_transcript:
  assumes "transcript_inv db"
  shows "transcript_inv (purge mid db)"
proof -
  have ver: "has_version m i k (purge mid db)" if "has_version m i k db" "m \<noteq> mid" for m i k
    using that by (auto simp: has_version_def purge_def)
  have seg: "has_segment m i (purge mid db)" if "has_segment m i db" "m \<noteq> mid" for m i
    using that by (auto simp: has_segment_def purge_def)
  have "\<exists>m. has_segment m (fst p) (purge mid db) \<and> has_segment m (snd p) (purge mid db)"
    if p: "p \<in> set (db_replacements db)" "fst p \<notin> meeting_segment_ids mid db" for p
  proof -
    from assms p(1) obtain m where m: "has_segment m (fst p) db" "has_segment m (snd p) db" unfolding transcript_inv_def by metis
    with p(2) have "m \<noteq> mid" by (force simp: has_segment_def meeting_segment_ids_def)
    with m seg show ?thesis by metis
  qed
  moreover have "0 \<le> seg_revision r \<and> (\<exists>k. has_version (sg_meeting_id r) (ts_transcript_version_id (sg_value r)) k (purge mid db))"
    if r: "r \<in> set (db_segments db)" "sg_meeting_id r \<noteq> mid" for r
  proof
    show "0 \<le> seg_revision r" using assms r(1) by (simp add: transcript_inv_def)
    show "\<exists>k. has_version (sg_meeting_id r) (ts_transcript_version_id (sg_value r)) k (purge mid db)"
      using segment_version[OF assms r(1)] ver r(2) by blast
  qed
  moreover have "distinct (map (tv_id \<circ> vw_value) (db_versions (purge mid db)))" "distinct (map (ts_id \<circ> sg_value) (db_segments (purge mid db)))"
    using assms by (simp_all add: transcript_inv_def purge_def distinct_map_filter comp_def)
  ultimately show ?thesis unfolding transcript_inv_def by (simp add: purge_def)
qed

lemma purge_gate:
  assumes "gate_inv {} db"
  shows "gate_inv {} (purge mid db)"
proof -
  have "gate_keys_distinct (purge mid db)" using assms by (simp add: gate_inv_def gate_keys_distinct_def purge_def distinct_map_filter)
  moreover have "gate_behind_segments (purge mid db)" using assms by (fastforce simp: gate_inv_def gate_behind_segments_def purge_def)
  moreover have "finished_are_queued (purge mid db)"
    using assms by (fastforce simp: gate_inv_def finished_are_queued_def finished_live_def live_kind_def has_version_def purge_def)
  moreover have "processed_were_carried {} (purge mid db)"
    using assms by (fastforce simp: gate_inv_def processed_were_carried_def purge_def)
  moreover have "open_turns_queued (purge mid db)" using assms by (fastforce simp: gate_inv_def open_turns_queued_def purge_def)
  moreover have "closed_turns_processed (purge mid db)"
    using assms by (fastforce simp: gate_inv_def closed_turns_processed_def turn_processed_def purge_def)
  moreover have "handed_once (purge mid db)"
  proof -
    have "length (filter p (filter q bs)) \<le> length (filter p bs)" for p q and bs :: "BatchRow list" by (induction bs) auto
    with assms show ?thesis unfolding gate_inv_def handed_once_def handed_def purge_def by (simp del: filter_filter) (meson le_trans)
  qed
  moreover have "distinct (map br_id (db_batches (purge mid db)))" using assms by (simp add: gate_inv_def purge_def distinct_map_filter)
  ultimately show ?thesis by (simp add: gate_inv_def)
qed

lemma purge_deletion: "deletion_inv db \<Longrightarrow> deletion_inv (purge mid db)"
  by (fastforce simp: deletion_inv_def purge_def distinct_map_filter)

lemma purge_files: "files_inv db \<Longrightarrow> files_inv (purge mid db)"
  by (auto simp: files_inv_def purge_def)

lemma claim_ids_exclusive:
  "claims_inv db \<Longrightarrow> c \<in> set (db_claims db) \<Longrightarrow> cl_id c \<in> meeting_claim_ids mid db \<longleftrightarrow> cl_meeting_id c = mid"
  unfolding claims_inv_def meeting_claim_ids_def by (auto dest: key_unique)

lemma purge_claims:
  assumes "claims_inv db"
  shows "claims_inv (purge mid db)"
proof -
  have "cv_claim v \<in> cl_id ` set (filter (\<lambda>c. cl_meeting_id c \<noteq> mid) (db_claims db))"
    if v: "v \<in> set (db_claim_versions db)" "cv_claim v \<notin> meeting_claim_ids mid db" for v
  proof -
    from assms v(1) obtain c where "c \<in> set (db_claims db)" "cl_id c = cv_claim v" unfolding claims_inv_def by force
    with v(2) claim_ids_exclusive[OF assms, of c mid] show ?thesis by force
  qed
  moreover have "\<exists>v \<in> set (db_claim_versions (purge mid db)). cv_id v = i \<and> cv_claim v = cl_id c"
    if c: "c \<in> set (db_claims db)" "cl_meeting_id c \<noteq> mid" "cl_current c = Some i" for c i
    using assms c claim_ids_exclusive[OF assms c(1), of mid] by (fastforce simp: claims_inv_def purge_def)
  moreover have "keys_unique (db_claims (purge mid db))" using assms unfolding claims_inv_def keys_unique_def purge_def by simp
  ultimately show ?thesis
    using assms unfolding claims_inv_def by (auto simp: purge_def distinct_map_filter)
qed

lemma purge_research:
  assumes "research_inv db"
  shows "research_inv (purge mid db)"
proof -
  have "i \<in> (cv_claim_version_id \<circ> cw_value) ` set (db_claim_versions (purge mid db))"
    if "i \<in> (cv_claim_version_id \<circ> cw_value) ` set (db_claim_versions db)" "i \<notin> meeting_claim_version_ids mid db" for i
    using that by (auto simp: purge_def meeting_claim_version_ids_def)
  moreover have "one_current (db_assessments (purge mid db))" using assms unfolding research_inv_def one_current_def purge_def by simp
  ultimately show ?thesis
    using assms unfolding research_inv_def by (auto simp: purge_def distinct_map_filter)
qed

lemma purge_ok: "meeting_inv db \<Longrightarrow> meeting_inv (purge mid db)"
  by (simp add: meeting_inv_def purge_transcript purge_gate purge_deletion purge_files purge_claims purge_research)

subsection \<open>Deletion, confirmation and recovery\<close>

lemma remove_meeting_ok: "meeting_inv db \<Longrightarrow> meeting_inv (remove_meeting mid db)"
proof -
  assume inv: "meeting_inv db"
  have "meeting_inv (db\<lparr>db_replacements := filter q (db_replacements db)\<rparr>)" for q
    using inv by (auto simp: inv_defs)
  then show ?thesis by (simp add: remove_meeting_def Let_def purge_ok)
qed

lemma meeting_inv_cleanup_rows:
  assumes "meeting_inv db" "\<And>j. p j \<Longrightarrow> cj_id (f j) = cj_id j \<and> cj_meeting_id (f j) = cj_meeting_id j \<and> cj_assets (f j) = cj_assets j"
  shows "meeting_inv (db\<lparr>db_cleanup_jobs := update_where p f (db_cleanup_jobs db)\<rparr>)" (is "meeting_inv ?db'")
proof -
  have "deletion_inv ?db'"
    using assms by (simp add: meeting_inv_def deletion_inv_def map_update_where update_where_quantifiers)
  moreover have "files_inv ?db'" using assms by (simp add: meeting_inv_def files_inv_def update_where_quantifiers)
  moreover have "transcript_inv ?db' = transcript_inv db" "gate_inv {} ?db' = gate_inv {} db" "claims_inv ?db' = claims_inv db" "research_inv ?db' = research_inv db"
    by (simp_all add: inv_defs)
  ultimately show ?thesis using assms(1) by (simp add: meeting_inv_def)
qed

lemma keeps_confirm: "confirm_cleanup X r db = Inr (removed, db') \<Longrightarrow> meeting_inv db \<Longrightarrow> meeting_inv db'"
  by (auto simp: confirm_cleanup_def Let_def confirmed_cleanup_def split: option.splits if_splits
      intro!: remove_meeting_ok meeting_inv_cleanup_rows)

lemma keeps_recover: "meeting_inv db \<Longrightarrow> meeting_inv (snd (recover X b db))"
proof -
  assume inv: "meeting_inv db"
  have D: "deletion_inv db" and F: "files_inv db" and R: "research_inv db" using inv by (simp_all add: meeting_inv_def)
  have "deletion_inv (reconcile X db)"
    using D by (auto simp: deletion_inv_def reconcile_def Let_def map_update_where update_where_quantifiers)
  moreover have "files_inv (reconcile X db)"
    using F by (auto simp: files_inv_def reconcile_def Let_def update_where_quantifiers)
  moreover have "research_inv (reconcile X db)"
    using R by (simp add: research_inv_def reconcile_def Let_def image_update_where map_update_where)
  moreover have "transcript_inv (reconcile X db) = transcript_inv db" "gate_inv {} (reconcile X db) = gate_inv {} db" "claims_inv (reconcile X db) = claims_inv db"
    by (simp_all add: inv_defs reconcile_def Let_def)
  ultimately have "meeting_inv (reconcile X db)" using inv by (simp add: meeting_inv_def)
  with inv show ?thesis by (simp add: recover_def Let_def)
qed

lemma keeps_delete: "keeps meeting_inv (delete_meeting X mid)"
proof (rule hoareI)
  fix db db' assume inv: "meeting_inv db" and step: "delete_meeting X mid db = Inr db'"
  let ?deleted = "\<lambda>db. \<exists>m \<in> set (db_meetings db). me_id m = mid \<and> me_deleted_at_ms m \<noteq> None"
  let ?as = "filter (\<lambda>a. aa_meeting_id a = mid) (db_assets db)"
  have "hoare (\<lambda>db. meeting_inv db \<and> (\<exists>m \<in> set (db_meetings db). me_id m = mid)) (mark_deleted X mid) (\<lambda>db. meeting_inv db \<and> ?deleted db)"
  proof (rule hoare_conj)
    show "hoare (\<lambda>db. meeting_inv db \<and> (\<exists>m \<in> set (db_meetings db). me_id m = mid)) (mark_deleted X mid) meeting_inv"
      by (rule hoare_pre[OF keeps_meeting_rows(9)]) simp
    show "hoare (\<lambda>db. meeting_inv db \<and> (\<exists>m \<in> set (db_meetings db). me_id m = mid)) (mark_deleted X mid) ?deleted"
      by (auto simp: hoare_def mark_deleted_def update_where_quantifiers or_else_def split: option.splits)
  qed
  moreover have "hoare meeting_inv (\<lambda>db. case get_meeting db mid True of Inl e \<Rightarrow> Inl e | Inr _ \<Rightarrow> Inr db)
      (\<lambda>db. meeting_inv db \<and> (\<exists>m \<in> set (db_meetings db). me_id m = mid))"
    by (auto simp: hoare_def get_meeting_def split: option.splits dest: find_in)
  moreover have "hoare (\<lambda>db. meeting_inv db \<and> ?deleted db) (tx_all (map (record_asset mid) ?as)) meeting_inv"
    by (rule hoare_pre[OF keeps_map[OF keeps_record_asset]]) simp
  ultimately have "hoare meeting_inv (tx_all ([checked (uuid X mid), \<lambda>db. case get_meeting db mid True of Inl e \<Rightarrow> Inl e | Inr _ \<Rightarrow> Inr db,
      mark_deleted X mid, open_cleanup X mid] @ map (record_asset mid) ?as)) meeting_inv"
    unfolding append_Cons append_Nil by (intro hoare_cons[OF keeps_skip(2)] hoare_cons[OF _ hoare_cons[OF _ hoare_cons[OF keeps_open_cleanup]]])
  from hoareD[OF this] step inv show "meeting_inv db'" by (simp add: delete_meeting_def)
qed

subsection \<open>Every call\<close>

lemma keeps_on_db: "keeps P t \<Longrightarrow> keeps (\<lambda>acc. P (snd acc)) (on_db t)"
  by (rule hoare_on_db)

lemma validated_segments:
  assumes "validate_transcript_request X r = None" "s \<in> set (tq_segments r)"
  shows "ts_transcript_version_id s = tv_id (tq_version r)"
proof -
  from assms have "validate_transcript_segment X (tv_id (tq_version r)) s = None"
    by (auto simp: validate_transcript_request_def checks_passed list_all_iff)
  then show ?thesis by (auto simp: validate_transcript_segment_def checks_passed split: if_splits)
qed

lemma keeps_ready:
  assumes "touches e t" "\<And>s. has_version mid vid k (e s) = has_version mid vid k s" "keeps meeting_inv t"
  shows "keeps (segment_ready mid vid k) (on_db t)"
proof -
  have "keeps (\<lambda>db. meeting_inv db \<and> has_version mid vid k db) t"
    by (rule keeps_conj[OF assms(3)]) (rule keeps_touch[OF assms(1)], rule assms(2))
  from hoare_on_db[OF this] show ?thesis by (simp add: segment_ready_def[abs_def])
qed

lemma keeps_apply_transcript: "apply_transcript X r db = Inr (os, db') \<Longrightarrow> meeting_inv db \<Longrightarrow> meeting_inv db'"
proof -
  assume run: "apply_transcript X r db = Inr (os, db')" and inv: "meeting_inv db"
  let ?mid = "tq_meeting_id r" and ?v = "tq_version r"
  let ?ready = "segment_ready ?mid (tv_id ?v) (tv_kind ?v) :: outcomes \<times> MeetingDb \<Rightarrow> bool"
  let ?I = "\<lambda>acc :: outcomes \<times> MeetingDb. meeting_inv (snd acc)"
  from run have valid: "validate_transcript_request X r = None"
    by (auto simp: apply_transcript_def on_db_def checked_def split: option.splits)
  have version: "hoare ?I (on_db (upsert_transcript_version X ?mid ?v)) ?ready"
    using hoare_on_db[OF upsert_version_ok] by (simp add: segment_ready_def[abs_def])
  have segments: "keeps ?ready (tx_all (map (apply_segment X ?mid (tv_kind ?v)) (tq_segments r)))"
    by (rule keeps_map) (rule keeps_segment, rule validated_segments[OF valid])
  have observations: "keeps ?ready (tx_all (map (\<lambda>v. on_db (upsert_speaker_observation X ?mid v)) (tq_observations r)))"
    by (rule keeps_map, rule keeps_ready, rule touching, simp add: has_version_def, rule keeping)
  have promote: "hoare ?ready (tx_all (if tq_promote_canonical r then [on_db (promote_canonical X ?mid ?v)] else [])) ?I"
    by (rule hoare_pre[OF keeps_tx_all]) (auto simp: segment_ready_def split: if_splits intro: keeps_on_db keeping)
  have "hoare ?I (tx_all ([on_db (checked (validate_transcript_request X r)), on_db (meeting_open ?mid), on_db (upsert_transcript_version X ?mid ?v)] @
      map (apply_segment X ?mid (tv_kind ?v)) (tq_segments r) @ map (\<lambda>v. on_db (upsert_speaker_observation X ?mid v)) (tq_observations r) @
      (if tq_promote_canonical r then [on_db (promote_canonical X ?mid ?v)] else []))) ?I"
    unfolding append_Cons append_Nil
    by (intro hoare_cons[OF keeps_on_db] hoare_cons[OF version] hoare_append[OF segments] hoare_append[OF observations] promote)
      (auto intro: keeping)
  from hoareD[OF this run[unfolded apply_transcript_def]] inv show "meeting_inv db'" by simp
qed

lemma keeps_apply_refinement: "apply_refinement_result X r db = Inr (os, db') \<Longrightarrow> meeting_inv db \<Longrightarrow> meeting_inv db'"
proof -
  assume run: "apply_refinement_result X r db = Inr (os, db')" and inv: "meeting_inv db"
  let ?mid = "fq_meeting_id r" and ?v = "fq_version r"
  let ?ready = "segment_ready ?mid (tv_id ?v) RefinedVersion :: outcomes \<times> MeetingDb \<Rightarrow> bool"
  let ?I = "\<lambda>acc :: outcomes \<times> MeetingDb. meeting_inv (snd acc)"
  from run have valid: "validate_refinement_result X r = None"
    by (auto simp: apply_refinement_result_def Let_def on_db_def checked_def split: option.splits)
  then have kind: "tv_kind ?v = RefinedVersion" and req: "validate_transcript_request X
      \<lparr>tq_meeting_id = ?mid, tq_version = ?v, tq_segments = fq_segments r, tq_observations = fq_observations r, tq_promote_canonical = True\<rparr> = None"
    by (auto simp: validate_refinement_result_def checks_passed split: if_splits)
  have version: "hoare ?I (on_db (upsert_transcript_version X ?mid ?v)) ?ready"
    using hoare_on_db[OF upsert_version_ok[of X ?mid ?v]] by (simp add: segment_ready_def[abs_def] kind)
  have segments: "keeps ?ready (tx_all (map (refine_segment X ?mid) (fq_segments r)))"
    by (rule keeps_map) (rule keeps_segment, use validated_segments[OF req] in auto)
  have rest: "hoare ?ready (tx_all (map (\<lambda>v. on_db (upsert_speaker_observation X ?mid v)) (fq_observations r) @
      map (\<lambda>i. on_db (mark_claim_version_stale X ?mid i)) (fq_mark_stale r) @ map (\<lambda>v. on_db (apply_claim_version X ?mid v)) (fq_replacements r) @
      [on_db (complete_refinement_job X (fq_refinement_job_id r)), on_db (promote_refined X ?mid (tv_id ?v))])) ?I"
    by (rule hoare_pre[OF keeps_tx_all]) (auto simp: segment_ready_def intro: keeps_on_db keeping)
  have "hoare ?I (tx_all ([on_db (checked (validate_refinement_result X r)), on_db (meeting_open ?mid),
      on_db (ensure_refinement_job ?mid (fq_refinement_job_id r)), on_db (upsert_transcript_version X ?mid ?v)] @
      map (refine_segment X ?mid) (fq_segments r) @ map (\<lambda>v. on_db (upsert_speaker_observation X ?mid v)) (fq_observations r) @
      map (\<lambda>i. on_db (mark_claim_version_stale X ?mid i)) (fq_mark_stale r) @ map (\<lambda>v. on_db (apply_claim_version X ?mid v)) (fq_replacements r) @
      [on_db (complete_refinement_job X (fq_refinement_job_id r)), on_db (promote_refined X ?mid (tv_id ?v))])) ?I"
    unfolding append_Cons append_Nil
    by (intro hoare_cons[OF keeps_on_db] hoare_cons[OF version] hoare_append[OF segments] rest)
      (auto simp: ensure_refinement_job_def intro: keeping)
  from hoareD[OF this run[unfolded apply_refinement_result_def Let_def]] inv show "meeting_inv db'" by simp
qed

lemma keeps_refinement_job: "keeps meeting_inv (apply_refinement_job X mid v)"
proof -
  have "keeps meeting_inv (\<lambda>db. Inr (db\<lparr>db_meetings := update_where p (\<lambda>m. m\<lparr>me_refinement_status := st, me_updated_at_ms := now\<rparr>) (db_meetings db)\<rparr>))" for p st now
    by (rule keeps_by_table(1)) (auto simp: touches_def hoare_def intro!: deletion_inv_update)
  then show ?thesis unfolding apply_refinement_job_def by (intro keeps_tx_all) (auto intro: keeping)
qed

lemma every_call_keeps: "keeps meeting_inv (run_call X c)"
proof (cases c)
  case (CallCreate r)
  have "keeps meeting_inv (create_meeting X r)"
    unfolding create_meeting_def by (rule keeps_tx_all) (auto intro: keeping)
  with CallCreate show ?thesis by (simp add: hoare_def)
next
  case (CallSpeakers r)
  have "keeps meeting_inv (apply_speakers X r)" unfolding apply_speakers_def by (rule keeps_tx_all) (auto intro: keeping)
  with CallSpeakers show ?thesis by (simp add: hoare_def)
next
  case (CallTimeline r)
  have "keeps meeting_inv (apply_timeline X r)" unfolding apply_timeline_def by (rule keeps_tx_all) (auto intro: keeping)
  with CallTimeline show ?thesis by (simp add: hoare_def)
next
  case (CallAudio r)
  have "keeps meeting_inv (apply_audio X r)"
    unfolding apply_audio_def Let_def by (rule keeps_tx_all) (auto intro: keeping split: option.splits)
  with CallAudio show ?thesis by (simp add: hoare_def)
next
  case (CallClaims r)
  have "keeps meeting_inv (apply_claims X r)" unfolding apply_claims_def Let_def by (rule keeps_tx_all) (auto intro: keeping)
  with CallClaims show ?thesis by (simp add: hoare_def)
next
  case (CallResearch r)
  have "keeps meeting_inv (apply_research X r)"
    unfolding apply_research_def Let_def by (rule keeps_tx_all) (auto intro: keeping split: option.splits)
  with CallResearch show ?thesis by (simp add: hoare_def)
next
  case (CallUpdate r)
  with keeps_meeting_rows(4)[of X r] show ?thesis by (simp add: hoare_def)
next
  case (CallRefinementJob mid v)
  with keeps_refinement_job[of X mid v] show ?thesis by (simp add: hoare_def)
next
  case (CallDelete mid)
  with keeps_delete[of X mid] show ?thesis by (simp add: hoare_def)
next
  case (CallRecover b)
  then show ?thesis by (simp add: hoare_def keeps_recover)
qed (auto simp: hoare_def map_sum_def split: sum.splits intro: keeps_apply_transcript keeps_apply_refinement keeps_confirm)

interpretation store: meeting_invariant meeting_inv
  by unfold_locales (auto simp: inv_defs empty_meetings_def keys_unique_def one_current_def intro: every_call_keeps)

end
