(* ===== verification/Meeting_Listing.thy ===== *)
theory Meeting_Listing
  imports Meeting_Reachable
begin

text \<open>
  Reading the store: following the cursors of \<open>list_meetings\<close> gives the meetings a single listing would give.
\<close>

text \<open>A client that asks for pages until there is no cursor; the fuel bounds the number of requests.\<close>

fun all_pages :: "nat \<Rightarrow> meeting_ext \<Rightarrow> MeetingDb \<Rightarrow> ListRequest \<Rightarrow> (MeetingError + ListItem list) option" where
  "all_pages 0 X db r = None"
| "all_pages (Suc n) X db r =
     (case list_meetings X db r of
        Inl e \<Rightarrow> Some (Inl e)
      | Inr (items, None) \<Rightarrow> Some (Inr items)
      | Inr (items, Some c) \<Rightarrow> map_option (map_sum id (append items)) (all_pages n X db (r\<lparr>lq_cursor := Some c\<rparr>)))"

lemma byte_inj: "inj byte"
  by (rule injI) (simp add: byte_def)

lemma list_key_eq: "list_key a = list_key b \<Longrightarrow> me_id a = me_id b"
  by (simp add: list_key_def inj_map_eq_map[OF byte_inj])

lemma page_rows_descending:
  assumes "distinct (map me_id (db_meetings db))"
  shows "sorted_wrt (\<lambda>a b. list_key b < list_key a) (page_rows db r)"
proof -
  let ?xs = "filter (\<lambda>m. list_matches db r m \<and> before_cursor r m) (db_meetings db)"
  have "inj_on list_key (set (db_meetings db))"
    using assms by (auto intro!: inj_onI dest: list_key_eq key_unique)
  then have "distinct (map list_key ?xs)"
    using assms by (simp add: distinct_map inj_on_def)
  then have "distinct (map list_key (sort_key list_key ?xs))" by (simp add: distinct_map)
  moreover have "sorted (map list_key (sort_key list_key ?xs))" by simp
  ultimately have "sorted_wrt (<) (map list_key (sort_key list_key ?xs))" by (simp add: strict_sorted_iff)
  then show ?thesis by (simp add: page_rows_def sorted_wrt_rev sorted_wrt_map)
qed

lemma page_rows_cursor:
  "page_rows db (r\<lparr>lq_cursor := c\<rparr>) = filter (before_cursor (r\<lparr>lq_cursor := c\<rparr>)) (page_rows db (r\<lparr>lq_cursor := None\<rparr>))"
proof -
  have "list_matches db (r\<lparr>lq_cursor := x\<rparr>) m = list_matches db r m" for x m by (simp add: list_matches_def)
  then show ?thesis
    by (simp add: page_rows_def rev_filter[symmetric] filter_sort before_cursor_def[of "r\<lparr>lq_cursor := None\<rparr>"] conj_commute)
qed

lemma page_rows_after:
  "page_rows db (r\<lparr>lq_cursor := Some (me_updated_at_ms m, me_id m)\<rparr>) =
   filter (\<lambda>y. list_key y < list_key m) (page_rows db (r\<lparr>lq_cursor := None\<rparr>))"
  by (subst page_rows_cursor) (simp add: before_cursor_def[abs_def] list_key_def)

lemma filter_below:
  assumes "sorted_wrt (\<lambda>a b. k b < k a) (xs @ x # ys)"
  shows "filter (\<lambda>y. k y < (k x :: 'k :: linorder)) (xs @ x # ys) = ys"
  using assms by (auto simp: sorted_wrt_append filter_empty_conv filter_id_conv dest: less_asym)

text \<open>One page: the first rows, and a cursor that asks for the others.\<close>

lemma list_page:
  fixes r :: ListRequest
  assumes "validate_list X r = None" "0 < page_limit r"
  shows "list_meetings X db r =
    (let rows = page_rows db r; n = page_limit r
     in Inr (map (list_item db) (take n rows),
             if n < length rows then Some (me_updated_at_ms (rows ! (n - 1)), me_id (rows ! (n - 1))) else None))"
proof (cases "page_limit r < length (page_rows db r)")
  case True
  let ?n = "page_limit r"
  have some: "take ?n (page_rows db r) \<noteq> []" using True assms(2) by auto
  have "last (take ?n (page_rows db r)) = page_rows db r ! (?n - 1)"
    using True assms(2) last_conv_nth[OF some] by (simp add: min_def)
  with some show ?thesis
    using True assms(1) by (simp add: list_meetings_def Let_def last_map list_item_def min_def)
next
  case False
  then show ?thesis using assms(1) by (simp add: list_meetings_def Let_def min_def)
qed

lemma all_pages_suffix:
  assumes sorted: "sorted_wrt (\<lambda>a b. list_key b < list_key a) (page_rows db (r\<lparr>lq_cursor := None\<rparr>))"
    and valid: "validate_list X (r\<lparr>lq_cursor := None\<rparr>) = None"
    and meetings: "\<And>m. m \<in> set (db_meetings db) \<Longrightarrow> mx_uuid X (me_id m) \<and> 0 \<le> me_updated_at_ms m"
    and cursor: "validate_list X (r\<lparr>lq_cursor := c\<rparr>) = None"
    and rows: "page_rows db (r\<lparr>lq_cursor := None\<rparr>) = done_rows @ page_rows db (r\<lparr>lq_cursor := c\<rparr>)"
    and fuel: "length (page_rows db (r\<lparr>lq_cursor := c\<rparr>)) < n"
  shows "all_pages n X db (r\<lparr>lq_cursor := c\<rparr>) = Some (Inr (map (list_item db) (page_rows db (r\<lparr>lq_cursor := c\<rparr>))))"
  using cursor rows fuel
proof (induction n arbitrary: c done_rows)
  case (Suc n)
  let ?rc = "r\<lparr>lq_cursor := c\<rparr>" and ?r0 = "r\<lparr>lq_cursor := None\<rparr>"
  let ?rows = "page_rows db ?rc" and ?k = "page_limit ?rc"
  have limit: "0 < ?k" by (auto simp: page_limit_def less_max_iff_disj split: option.splits)
  show ?case
  proof (cases "?k < length ?rows")
    case False
    then show ?thesis using Suc.prems(1) limit by (simp add: list_page Let_def)
  next
    case True
    let ?m = "?rows ! (?k - 1)" and ?c' = "Some (me_updated_at_ms (?rows ! (?k - 1)), me_id (?rows ! (?k - 1)))"
    have split: "?rows = take (?k - 1) ?rows @ ?m # drop ?k ?rows"
      using True limit id_take_nth_drop[of "?k - 1" ?rows] by simp
    have m: "?m \<in> set (db_meetings db)" using True limit nth_mem[of "?k - 1" ?rows] by (auto simp: page_rows_def)
    have "page_rows db (r\<lparr>lq_cursor := ?c'\<rparr>) = filter (\<lambda>y. list_key y < list_key ?m) (page_rows db ?r0)"
      by (rule page_rows_after)
    also have "\<dots> = drop ?k ?rows"
      using filter_below[of list_key "done_rows @ take (?k - 1) ?rows" ?m "drop ?k ?rows"] sorted Suc.prems(2) split
      by (metis append.assoc)
    finally have rest: "page_rows db (r\<lparr>lq_cursor := ?c'\<rparr>) = drop ?k ?rows" .
    have "validate_list X (r\<lparr>lq_cursor := ?c'\<rparr>) = None"
      using valid meetings[OF m] by (simp add: validate_list_def checks_passed uuid_def)
    moreover have "page_rows db ?r0 = (done_rows @ take ?k ?rows) @ page_rows db (r\<lparr>lq_cursor := ?c'\<rparr>)"
      unfolding rest using Suc.prems(2) by simp
    moreover have "length (page_rows db (r\<lparr>lq_cursor := ?c'\<rparr>)) < n" unfolding rest using Suc.prems(3) True limit by simp
    ultimately have "all_pages n X db (r\<lparr>lq_cursor := ?c'\<rparr>) = Some (Inr (map (list_item db) (page_rows db (r\<lparr>lq_cursor := ?c'\<rparr>))))"
      by (rule Suc.IH)
    then have "all_pages n X db (r\<lparr>lq_cursor := ?c'\<rparr>) = Some (Inr (map (list_item db) (drop ?k ?rows)))" unfolding rest .
    moreover have "list_meetings X db ?rc = Inr (map (list_item db) (take ?k ?rows), ?c')"
      using Suc.prems(1) limit True by (simp add: list_page Let_def)
    moreover have "map (list_item db) (take ?k ?rows) @ map (list_item db) (drop ?k ?rows) = map (list_item db) ?rows"
      by (simp add: map_append[symmetric] del: map_append)
    ultimately show ?thesis by simp
  qed
qed simp

text \<open>C39: Following the cursors of \<open>list_meetings\<close> from the first page ends after finitely many pages and gives exactly the meetings
  that match the filters, each once and in descending order of their last change, whatever the page size.\<close>

theorem pages_enumerate_meetings:
  assumes "meetings_reachable db" "lq_cursor r = None" "validate_list X r = None"
    "\<And>m. m \<in> set (db_meetings db) \<Longrightarrow> mx_uuid X (me_id m) \<and> 0 \<le> me_updated_at_ms m"
  shows "\<exists>items. all_pages (Suc (length (db_meetings db))) X db r = Some (Inr items) \<and>
    set (map li_meeting items) = {m \<in> set (db_meetings db). list_matches db r m} \<and>
    sorted_wrt (\<lambda>a b. list_key b < list_key a) (map li_meeting items)"
proof -
  have "distinct (map me_id (db_meetings db))"
    using store.always[OF assms(1)] by (simp add: meeting_inv_def deletion_inv_def)
  from page_rows_descending[OF this] have sorted: "sorted_wrt (\<lambda>a b. list_key b < list_key a) (page_rows db r)" .
  have r: "r\<lparr>lq_cursor := None\<rparr> = r" using assms(2) by simp
  have "length (page_rows db r) < Suc (length (db_meetings db))" by (simp add: page_rows_def less_Suc_eq_le)
  then have "all_pages (Suc (length (db_meetings db))) X db r = Some (Inr (map (list_item db) (page_rows db r)))"
    using all_pages_suffix[of db r X None "[]"] sorted assms(3,4) by (simp add: r del: all_pages.simps)
  moreover have "map li_meeting (map (list_item db) (page_rows db r)) = page_rows db r" by (simp add: list_item_def map_idI)
  moreover have "set (page_rows db r) = {m \<in> set (db_meetings db). list_matches db r m}"
    using assms(2) by (auto simp: page_rows_def before_cursor_def)
  ultimately show ?thesis using sorted by (intro exI[of _ "map (list_item db) (page_rows db r)"]) simp
qed

end
