(* ===== verification/Meeting_Deletion.thy ===== *)
theory Meeting_Deletion
  imports Meeting_Reachable
begin

text \<open>
  Deletion: a deleted meeting refuses every further change, and when its cleanup is confirmed everything of it is removed and
  nothing of any other meeting.
\<close>

subsection \<open>A deleted meeting stays sealed\<close>

definition hidden :: "string \<Rightarrow> MeetingDb \<Rightarrow> bool" where
  "hidden mid db = (\<forall>m \<in> set (db_meetings db). me_id m = mid \<longrightarrow> me_deleted_at_ms m \<noteq> None)"

lemma hidden_iff: "get_meeting db mid False = Inl NotFound \<longleftrightarrow> hidden mid db"
  by (auto simp: get_meeting_def hidden_def find_none split: option.splits dest!: find_in)

lemma hidden_meeting_open: "hidden mid db \<Longrightarrow> meeting_open mid db = Inl NotFound"
  using hidden_iff[of db mid] by (simp add: meeting_open_def)

named_theorems hiding "statements that leave a hidden meeting hidden"

lemma touches_view: "touches e t \<Longrightarrow> (\<And>s. f (e s) = f s) \<Longrightarrow> touches f t"
  unfolding touches_def by metis

lemma hidden_touch: "touches db_meetings t \<Longrightarrow> keeps (hidden mid) t"
  by (simp add: touches_def hoare_def hidden_def)

lemma touches_no_meeting [hiding]:
  "touches db_meetings (upsert_speaker X m s)" "touches db_meetings (swap_speakers X m w)" "touches db_meetings (insert_initial_speaker X n s)"
  "touches db_meetings (upsert_speaker_observation X m ob)" "touches db_meetings (assign_segment_speaker X m u)"
  "touches db_meetings (insert_live_version X cr)" "touches db_meetings (upsert_transcript_version X m v)"
  "touches db_meetings (replace_segment X m sg)" "touches db_meetings (insert_replacement m i j)"
  "touches db_meetings (enqueue_claim_gate_segment X m sid k)" "touches db_meetings (begin_claim_gate_batch X m b)"
  "touches db_meetings (complete_claim_gate_batch X m bid)" "touches db_meetings (upsert_manual_fact_check_request X m mq)"
  "touches db_meetings (apply_claim_version X m cv)" "touches db_meetings (mark_claim_version_stale X m i)"
  "touches db_meetings (update_claim_status_for_version X m i st)" "touches db_meetings (apply_event X m ev)"
  "touches db_meetings (upsert_asset X m a)" "touches db_meetings (clear_manifest m jid)" "touches db_meetings (upsert_input X m inp)"
  "touches db_meetings (upsert_research_job X m rj)" "touches db_meetings (insert_assessment X m av)"
  "touches db_meetings (upsert_refinement_job X m fj)" "touches db_meetings (complete_refinement_job X jid)"
  "touches db_meetings (open_cleanup X m)" "touches db_meetings (record_asset m asset)"
  by (rule touches_view, rule touching, simp)+

lemma touches_write_segment [hiding]: "touches db_meetings (write_segment X m s)"
proof -
  have "touches db_meetings (\<lambda>db. Inr (db\<lparr>db_replacements := f db\<rparr>))" for f by (simp add: touches_def)
  then show ?thesis
    unfolding write_segment_def by (intro touches_tx_all) (auto intro: hiding touches_references(1))
qed

lemma segments_keep_meetings:
  "apply_segment X m k s acc = Inr acc' \<Longrightarrow> db_meetings (snd acc') = db_meetings (snd acc)"
  "refine_segment X m s acc = Inr acc' \<Longrightarrow> db_meetings (snd acc') = db_meetings (snd acc)"
proof -
  have up: "db_meetings db' = db_meetings db" if "upsert_transcript_segment X m s db = Inr (outcome, db')" for db db' outcome
    using that touches_write_segment[of X m s] by (auto simp: upsert_transcript_segment_def touches_def Let_def split: statement_splits)
  have enq: "db_meetings db' = db_meetings db" if "enqueue_claim_gate_segment X m sid n db = Inr db'" for db db' sid n
    using that touches_no_meeting(10)[of X m sid n] by (simp add: touches_def)
  show "apply_segment X m k s acc = Inr acc' \<Longrightarrow> db_meetings (snd acc') = db_meetings (snd acc)"
    by (auto simp: apply_segment_def split: statement_splits dest!: up enq)
  show "refine_segment X m s acc = Inr acc' \<Longrightarrow> db_meetings (snd acc') = db_meetings (snd acc)"
    by (auto simp: refine_segment_def split: statement_splits dest!: up)
qed

lemma hidden_update:
  assumes "hidden mid db" "\<And>m. p m \<Longrightarrow> me_id (f m) = me_id m \<and> (me_deleted_at_ms m \<noteq> None \<longrightarrow> me_deleted_at_ms (f m) \<noteq> None)"
  shows "hidden mid (db\<lparr>db_meetings := update_where p f (db_meetings db)\<rparr>)"
  using assms by (simp add: hidden_def update_where_quantifiers)

lemma hidden_rows [hiding]:
  "keeps (hidden mid) (set_canonical m vid)" "keeps (hidden mid) (touch_meeting X m)" "keeps (hidden mid) (update_meeting X ur)"
  "keeps (hidden mid) (meeting_open m)" "keeps (hidden mid) (promote_canonical X m v)" "keeps (hidden mid) (set_research_status X m js)"
  "keeps (hidden mid) (promote_refined X m vid)" "keeps (hidden mid) (mark_deleted X m)"
  "mx_id X 0 \<noteq> mid \<Longrightarrow> keeps (hidden mid) (insert_meeting X cr)"
  by (auto simp: hoare_def set_canonical_def touch_meeting_def update_meeting_def updated_meeting_def meeting_open_def promote_canonical_def
      require_def set_research_status_def promote_refined_def mark_deleted_def or_else_def split: statement_splits intro!: hidden_update)
    (auto simp: insert_meeting_def hidden_def split: if_splits)

lemma hidden_transcript:
  assumes "apply_transcript X r db = Inr (os, db')" "hidden mid db"
  shows "hidden mid db'"
proof -
  let ?H = "\<lambda>acc :: outcomes \<times> MeetingDb. hidden mid (snd acc)"
  have "keeps ?H (apply_segment X m k s)" for m k s by (auto simp: hoare_def hidden_def segments_keep_meetings(1))
  then have "keeps ?H (tx_all ([on_db (checked (validate_transcript_request X r)), on_db (meeting_open (tq_meeting_id r)),
      on_db (upsert_transcript_version X (tq_meeting_id r) (tq_version r))] @
      map (apply_segment X (tq_meeting_id r) (tv_kind (tq_version r))) (tq_segments r) @
      map (\<lambda>v. on_db (upsert_speaker_observation X (tq_meeting_id r) v)) (tq_observations r) @
      (if tq_promote_canonical r then [on_db (promote_canonical X (tq_meeting_id r) (tq_version r))] else [])))"
    by (intro keeps_tx_all) (auto split: if_splits intro: keeps_on_db hidden_touch hiding)
  from hoareD[OF this assms(1)[unfolded apply_transcript_def]] assms(2) show ?thesis by simp
qed

lemma hidden_refinement:
  assumes "apply_refinement_result X r db = Inr (os, db')" "hidden mid db"
  shows "hidden mid db'"
proof -
  let ?H = "\<lambda>acc :: outcomes \<times> MeetingDb. hidden mid (snd acc)" and ?m = "fq_meeting_id r"
  have "keeps ?H (refine_segment X m s)" for m s by (auto simp: hoare_def hidden_def segments_keep_meetings(2))
  then have "keeps ?H (tx_all ([on_db (checked (validate_refinement_result X r)), on_db (meeting_open ?m),
      on_db (ensure_refinement_job ?m (fq_refinement_job_id r)), on_db (upsert_transcript_version X ?m (fq_version r))] @
      map (refine_segment X ?m) (fq_segments r) @ map (\<lambda>v. on_db (upsert_speaker_observation X ?m v)) (fq_observations r) @
      map (\<lambda>i. on_db (mark_claim_version_stale X ?m i)) (fq_mark_stale r) @ map (\<lambda>v. on_db (apply_claim_version X ?m v)) (fq_replacements r) @
      [on_db (complete_refinement_job X (fq_refinement_job_id r)), on_db (promote_refined X ?m (tv_id (fq_version r)))]))"
    by (intro keeps_tx_all) (auto simp: ensure_refinement_job_def intro: keeps_on_db hidden_touch hiding)
  from hoareD[OF this assms(1)[unfolded apply_refinement_result_def Let_def]] assms(2) show ?thesis by simp
qed

lemma hidden_statements:
  "keeps (hidden mid) (apply_speakers X r1)" "keeps (hidden mid) (apply_timeline X r2)" "keeps (hidden mid) (apply_audio X r3)"
  "keeps (hidden mid) (apply_claims X r4)" "keeps (hidden mid) (apply_research X r5)"
  unfolding apply_speakers_def apply_timeline_def apply_audio_def apply_claims_def apply_research_def Let_def
  by (rule keeps_tx_all, auto split: option.splits intro: hidden_touch hiding)+

lemma hidden_refinement_job: "keeps (hidden mid) (apply_refinement_job X m v)"
proof -
  have "keeps (hidden mid) (\<lambda>db. Inr (db\<lparr>db_meetings := update_where p (\<lambda>m. m\<lparr>me_refinement_status := st, me_updated_at_ms := now\<rparr>) (db_meetings db)\<rparr>))" for p st now
    by (auto simp: hoare_def intro!: hidden_update)
  then show ?thesis unfolding apply_refinement_job_def by (intro keeps_tx_all) (auto intro: hidden_touch hiding)
qed

lemma hidden_delete: "delete_meeting X m db = Inr db' \<Longrightarrow> hidden mid db \<or> mid = m \<Longrightarrow> hidden mid db'"
proof -
  assume run: "delete_meeting X m db = Inr db'" and pre: "hidden mid db \<or> mid = m"
  let ?as = "filter (\<lambda>a. aa_meeting_id a = m) (db_assets db)"
  have lookup: "hoare (\<lambda>db. hidden mid db \<or> mid = m) (\<lambda>db. case get_meeting db m True of Inl e \<Rightarrow> Inl e | Inr _ \<Rightarrow> Inr db) (\<lambda>db. hidden mid db \<or> mid = m)"
    by (auto simp: hoare_def split: sum.splits)
  have "hidden m d'" if "mark_deleted X m d = Inr d'" for d d'
  proof -
    from that have "d' = d\<lparr>db_meetings := update_where (\<lambda>x. me_id x = m)
        (\<lambda>x. x\<lparr>me_deleted_at_ms := or_else (me_deleted_at_ms x) (Some (mx_now X)), me_updated_at_ms := mx_now X\<rparr>) (db_meetings d)\<rparr>"
      by (simp add: mark_deleted_def)
    then show ?thesis by (simp add: hidden_def update_where_quantifiers or_else_def split: option.split)
  qed
  then have mark: "hoare (\<lambda>db. hidden mid db \<or> mid = m) (mark_deleted X m) (hidden mid)"
    using hoareD[OF hidden_rows(8)[of mid X m]] by (intro hoareI) metis
  have rest: "keeps (hidden mid) (tx_all (open_cleanup X m # map (record_asset m) ?as))"
    by (rule keeps_tx_all) (auto intro: hidden_touch hiding)
  have "hoare (\<lambda>db. hidden mid db \<or> mid = m) (tx_all ([checked (uuid X m), \<lambda>db. case get_meeting db m True of Inl e \<Rightarrow> Inl e | Inr _ \<Rightarrow> Inr db,
      mark_deleted X m, open_cleanup X m] @ map (record_asset m) ?as)) (hidden mid)"
    unfolding append_Cons append_Nil by (intro hoare_cons[OF keeps_skip(2)] hoare_cons[OF lookup] hoare_cons[OF mark] rest)
  from hoareD[OF this] run pre show ?thesis by (simp add: delete_meeting_def)
qed

lemma hidden_create: "mx_id X 0 \<noteq> mid \<Longrightarrow> keeps (hidden mid) (create_meeting X r)"
  unfolding create_meeting_def by (rule keeps_tx_all) (auto intro: hidden_touch hiding)

lemma hidden_confirm: "confirm_cleanup X r db = Inr (b, db') \<Longrightarrow> hidden mid db \<Longrightarrow> hidden mid db'"
  by (auto simp: confirm_cleanup_def Let_def remove_meeting_def purge_def hidden_def split: option.splits if_splits)

lemma hidden_recover: "hidden mid db \<Longrightarrow> hidden mid (snd (recover X b db))"
  by (simp add: recover_def reconcile_def Let_def hidden_def update_where_quantifiers)

lemma map_sum_snd: "map_sum id snd x = Inr y \<Longrightarrow> \<exists>a. x = Inr (a, y)"
  by (cases x) auto

lemma hidden_call:
  assumes "run_call X c db = Inr db'" "hidden mid db" "\<And>r. c = CallCreate r \<Longrightarrow> mx_id X 0 \<noteq> mid"
  shows "hidden mid db'"
proof (cases c)
  case (CallCreate r)
  with assms show ?thesis using hoareD[OF hidden_create[of X mid r]] by auto
next
  case (CallUpdate r)
  with assms(1,2) show ?thesis using hoareD[OF hidden_rows(3)[of mid X r]] by auto
next
  case (CallSpeakers r)
  with assms(1,2) show ?thesis using hoareD[OF hidden_statements(1)[of mid X r]] by auto
next
  case (CallTranscript r)
  with assms(1) have "map_sum id snd (apply_transcript X r db) = Inr db'" by simp
  from map_sum_snd[OF this] obtain os where "apply_transcript X r db = Inr (os, db')" ..
  then show ?thesis using assms(2) by (rule hidden_transcript)
next
  case (CallTimeline r)
  with assms(1,2) show ?thesis using hoareD[OF hidden_statements(2)[of mid X r]] by auto
next
  case (CallAudio r)
  with assms(1,2) show ?thesis using hoareD[OF hidden_statements(3)[of mid X r]] by auto
next
  case (CallClaims r)
  with assms(1,2) show ?thesis using hoareD[OF hidden_statements(4)[of mid X r]] by auto
next
  case (CallResearch r)
  with assms(1,2) show ?thesis using hoareD[OF hidden_statements(5)[of mid X r]] by auto
next
  case (CallRefinementJob m v)
  with assms(1,2) show ?thesis using hoareD[OF hidden_refinement_job[of mid X m v]] by auto
next
  case (CallRefinementResult r)
  with assms(1) have "map_sum id snd (apply_refinement_result X r db) = Inr db'" by simp
  from map_sum_snd[OF this] obtain os where "apply_refinement_result X r db = Inr (os, db')" ..
  then show ?thesis using assms(2) by (rule hidden_refinement)
next
  case (CallDelete m)
  with assms(1,2) show ?thesis by (auto intro: hidden_delete)
next
  case (CallConfirm r)
  with assms(1) have "map_sum id snd (confirm_cleanup X r db) = Inr db'" by simp
  from map_sum_snd[OF this] obtain b where "confirm_cleanup X r db = Inr (b, db')" ..
  then show ?thesis using assms(2) by (rule hidden_confirm)
next
  case (CallRecover b)
  with assms(1,2) show ?thesis by (auto intro: hidden_recover)
qed

text \<open>Which meeting a call is about, for the calls that change one.\<close>

fun call_meeting :: "MeetingCall \<Rightarrow> string option" where
  "call_meeting (CallUpdate r) = Some (uq_meeting_id r)"
| "call_meeting (CallSpeakers r) = Some (pq_meeting_id r)"
| "call_meeting (CallTranscript r) = Some (tq_meeting_id r)"
| "call_meeting (CallTimeline r) = Some (eq_meeting_id r)"
| "call_meeting (CallAudio r) = Some (dq_meeting_id r)"
| "call_meeting (CallClaims r) = Some (cq_meeting_id r)"
| "call_meeting (CallResearch r) = Some (hq_meeting_id r)"
| "call_meeting (CallRefinementJob mid v) = Some mid"
| "call_meeting (CallRefinementResult r) = Some (fq_meeting_id r)"
| "call_meeting _ = None"

lemma hidden_refuses:
  assumes "hidden mid db" "call_meeting c = Some mid"
  shows "\<exists>e. run_call X c db = Inl e"
proof -
  have missing: "get_meeting db mid False = Inl NotFound" using assms(1) by (simp add: hidden_iff)
  note sealed = hidden_meeting_open[OF assms(1)]
  have refused: "\<exists>e. tx_all (checked x # meeting_open mid # ts) db = Inl e" for x ts
    by (cases x) (simp_all add: checked_def sealed)
  have refused_pair: "\<exists>e. tx_all (on_db (checked x) # on_db (meeting_open mid) # ts) ([] :: outcomes, db) = Inl e" for x ts
    by (cases x) (simp_all add: checked_def on_db_def sealed)
  show ?thesis
  proof (cases c)
    case (CallUpdate r)
    with assms(2) missing show ?thesis by (auto simp: update_meeting_def split: option.split)
  next
    case (CallTranscript r)
    with assms(2) have "\<exists>e. apply_transcript X r db = Inl e" using refused_pair by (simp add: apply_transcript_def del: tx_all.simps)
    with CallTranscript show ?thesis by auto
  next
    case (CallRefinementResult r)
    with assms(2) have "\<exists>e. apply_refinement_result X r db = Inl e"
      using refused_pair by (simp add: apply_refinement_result_def Let_def del: tx_all.simps)
    with CallRefinementResult show ?thesis by auto
  next
    case (CallSpeakers r)
    with assms(2) show ?thesis using refused by (simp add: apply_speakers_def del: tx_all.simps)
  next
    case (CallTimeline r)
    with assms(2) show ?thesis using refused by (simp add: apply_timeline_def del: tx_all.simps)
  next
    case (CallAudio r)
    with assms(2) show ?thesis using refused by (simp add: apply_audio_def Let_def del: tx_all.simps)
  next
    case (CallClaims r)
    with assms(2) show ?thesis using refused by (simp add: apply_claims_def Let_def del: tx_all.simps)
  next
    case (CallResearch r)
    with assms(2) show ?thesis using refused by (simp add: apply_research_def Let_def del: tx_all.simps)
  next
    case (CallRefinementJob m v)
    with assms(2) show ?thesis using refused by (simp add: apply_refinement_job_def del: tx_all.simps)
  qed (use assms(2) in auto)
qed

text \<open>A sequence of calls: a call that succeeds commits its transaction, one that fails is rolled back.\<close>

definition commit_call :: "meeting_ext \<times> MeetingCall \<Rightarrow> MeetingDb \<Rightarrow> MeetingDb" where
  "commit_call k db = (case run_call (fst k) (snd k) db of Inr db' \<Rightarrow> db' | Inl _ \<Rightarrow> db)"

text \<open>A new meeting gets an identifier of its own: the calls that create one never draw the given identifier.\<close>

fun avoids_id :: "string \<Rightarrow> meeting_ext \<times> MeetingCall \<Rightarrow> bool" where
  "avoids_id mid (X, CallCreate r) = (mx_id X 0 \<noteq> mid)"
| "avoids_id mid (X, _) = True"

lemma hidden_commit: "avoids_id mid k \<Longrightarrow> hidden mid db \<Longrightarrow> hidden mid (commit_call k db)"
proof -
  assume avoids: "avoids_id mid k" and hid: "hidden mid db"
  have "mx_id (fst k) 0 \<noteq> mid" if "snd k = CallCreate r" for r using avoids that by (cases k) simp
  note kept = hidden_call[OF _ hid this]
  show ?thesis unfolding commit_call_def using hid kept by (cases "run_call (fst k) (snd k) db") simp_all
qed

lemma hidden_fold: "list_all (avoids_id mid) ks \<Longrightarrow> hidden mid db \<Longrightarrow> hidden mid (fold commit_call ks db)"
  by (induction ks arbitrary: db) (simp_all add: hidden_commit)

text \<open>C37: Deletion is final: once a meeting has been deleted, whatever calls follow, the meeting cannot be read any more and every
  call that would change it is refused, as long as no new meeting is given the identifier of the deleted one.\<close>

theorem deleted_meeting_sealed:
  assumes "run_call X (CallDelete mid) db = Inr db1" "list_all (avoids_id mid) ks"
  shows "get_meeting (fold commit_call ks db1) mid False = Inl NotFound \<and>
    (call_meeting c = Some mid \<longrightarrow> commit_call (Y, c) (fold commit_call ks db1) = fold commit_call ks db1 \<and>
       (\<exists>e. run_call Y c (fold commit_call ks db1) = Inl e))"
proof -
  from assms(1) have "hidden mid db1" by (simp add: hidden_delete)
  from hidden_fold[OF assms(2) this] have hid: "hidden mid (fold commit_call ks db1)" .
  have "\<exists>e. run_call Y c (fold commit_call ks db1) = Inl e" if "call_meeting c = Some mid" using hidden_refuses[OF hid that] .
  then show ?thesis using hid by (auto simp: hidden_iff commit_call_def)
qed

end
