(* ===== verification/Meeting_Removal.thy ===== *)
theory Meeting_Removal
  imports Meeting_Properties Meeting_Deletion
begin

text \<open>
  Confirming the cleanup of a deleted meeting removes everything of it and leaves what a client reads of every other
  meeting as it was, up to the parents of transcript versions.
\<close>

lemma find_other: "b \<noteq> a \<Longrightarrow> find (\<lambda>x. k x = b \<and> q x) (filter (\<lambda>x. k x \<noteq> a) xs) = find (\<lambda>x. k x = b \<and> q x) xs"
  by (induction xs) auto

lemma filter_other [simp]:
  "b \<noteq> a \<Longrightarrow> filter (\<lambda>x. k x \<noteq> a \<and> k x = b) xs = filter (\<lambda>x. k x = b) xs"
  "b \<noteq> a \<Longrightarrow> filter (\<lambda>x. k x \<noteq> a \<and> k x = b \<and> q x) xs = filter (\<lambda>x. k x = b \<and> q x) xs"
  by (rule filter_cong; auto)+

lemma purge_keyed_lists:
  assumes "other \<noteq> mid"
  shows "list_speakers (purge mid db) other = list_speakers db other"
    "list_speaker_observations (purge mid db) other = list_speaker_observations db other"
    "list_timeline_events (purge mid db) other = list_timeline_events db other"
    "list_audio_assets (purge mid db) other = list_audio_assets db other"
    "list_claims (purge mid db) other = list_claims db other"
    "list_manual_fact_check_requests (purge mid db) other = list_manual_fact_check_requests db other"
    "list_pending_claim_gate_batches (purge mid db) other = list_pending_claim_gate_batches db other"
    "list_refinement_jobs (purge mid db) other = list_refinement_jobs db other"
  using assms
  by (simp_all add: purge_def list_speakers_def list_speaker_observations_def list_timeline_events_def
      list_audio_assets_def list_claims_def list_manual_fact_check_requests_def list_pending_claim_gate_batches_def list_refinement_jobs_def)

lemma sort_key_map: "(\<And>x. k (f x) = k x) \<Longrightarrow> sort_key k (map f xs) = map f (sort_key k xs)"
proof (induction xs)
  case (Cons x xs)
  have "insort_key k (f x) (map f ys) = map f (insort_key k x ys)" for ys by (induction ys) (simp_all add: Cons.prems)
  with Cons show ?case by simp
qed simp

lemma purge_versions:
  "other \<noteq> mid \<Longrightarrow> list_transcript_versions (purge mid db) other = map (detach (meeting_version_ids mid db)) (list_transcript_versions db other)"
  by (simp add: list_transcript_versions_def purge_def filter_map comp_def sort_key_map)

lemma purge_get_meeting: "other \<noteq> mid \<Longrightarrow> get_meeting (purge mid db) other b = get_meeting db other b"
  by (simp add: get_meeting_def purge_def find_other)

lemma purge_find_gate: "other \<noteq> mid \<Longrightarrow> find_gate other i (purge mid db) = find_gate other i db"
  by (simp add: find_gate_def purge_def find_other)

subsection \<open>Rows that belong to a meeting through another row\<close>

lemma purge_claim_in_meeting: "other \<noteq> mid \<Longrightarrow> claim_in_meeting other i (purge mid db) = claim_in_meeting other i db"
  by (auto simp: claim_in_meeting_def purge_def list_ex_iff)

lemma claim_of_other:
  assumes "claims_inv db" "claim_in_meeting other i db" "other \<noteq> mid"
  shows "i \<notin> meeting_claim_ids mid db"
  using assms claim_ids_exclusive[OF assms(1)] by (auto simp: claim_in_meeting_def list_ex_iff)

lemma version_of_other:
  assumes "claims_inv db" "claim_version_exists other i db" "other \<noteq> mid"
  shows "i \<notin> meeting_claim_version_ids mid db"
proof
  assume "i \<in> meeting_claim_version_ids mid db"
  then obtain v where v: "v \<in> set (db_claim_versions db)" "cv_id v = i" "cv_claim v \<in> meeting_claim_ids mid db"
    by (auto simp: meeting_claim_version_ids_def)
  from assms(2) obtain w where w: "w \<in> set (db_claim_versions db)" "cv_id w = i" "claim_in_meeting other (cv_claim w) db"
    by (auto simp: claim_version_exists_def list_ex_iff)
  have "v = w" using assms(1) v(1,2) w(1,2) by (auto simp: claims_inv_def intro: key_unique[of "cv_claim_version_id \<circ> cw_value"])
  with claim_of_other[OF assms(1) w(3) assms(3)] v(3) show False by simp
qed

lemma purge_claim_version_exists:
  assumes "claims_inv db" "other \<noteq> mid"
  shows "claim_version_exists other i (purge mid db) = claim_version_exists other i db"
  using claim_of_other[OF assms(1) _ assms(2)]
  by (auto simp: claim_version_exists_def purge_claim_in_meeting[OF assms(2)] list_ex_iff) (auto simp: purge_def)

lemma purge_claim_lists:
  assumes "claims_inv db" "other \<noteq> mid"
  shows "list_claim_versions (purge mid db) other = list_claim_versions db other"
    "list_assessments (purge mid db) other = list_assessments db other"
    "list_research_jobs (purge mid db) other = list_research_jobs db other"
proof -
  have *: "filter (\<lambda>x. p x \<and> q x) xs = filter q xs" if "\<And>x. q x \<Longrightarrow> p x" for p q and xs :: "'a list"
    using that by (intro filter_cong) auto
  show "list_claim_versions (purge mid db) other = list_claim_versions db other"
    using claim_of_other[OF assms(1) _ assms(2)]
    unfolding list_claim_versions_def purge_claim_in_meeting[OF assms(2)] by (simp add: purge_def *)
  show "list_assessments (purge mid db) other = list_assessments db other" "list_research_jobs (purge mid db) other = list_research_jobs db other"
    using version_of_other[OF assms(1) _ assms(2)]
    unfolding list_assessments_def list_research_jobs_def purge_claim_version_exists[OF assms] by (simp_all add: purge_def *)
qed

lemma purge_inputs:
  assumes "research_inv db" "other \<noteq> mid"
  shows "list_refinement_inputs (purge mid db) other = list_refinement_inputs db other"
proof -
  have kept: "i \<notin> meeting_refinement_ids mid db" if exists: "refinement_job_exists other i db" for i
  proof
    assume "i \<in> meeting_refinement_ids mid db"
    then obtain j where j: "j \<in> set (db_refinement_jobs db)" "fj_id (fw_value j) = i" "fw_meeting_id j = mid"
      by (auto simp: meeting_refinement_ids_def)
    from exists obtain k where k: "k \<in> set (db_refinement_jobs db)" "fj_id (fw_value k) = i" "fw_meeting_id k = other"
      by (auto simp: refinement_job_exists_def list_ex_iff)
    have "j = k" using assms(1) j(1,2) k(1,2) by (auto simp: research_inv_def intro: key_unique[of "fj_id \<circ> fw_value"])
    with j(3) k(3) assms(2) show False by simp
  qed
  have "refinement_job_exists other i (purge mid db) = refinement_job_exists other i db" for i
    using assms(2) by (auto simp: refinement_job_exists_def purge_def list_ex_iff)
  moreover have "filter (\<lambda>r. p r \<notin> meeting_refinement_ids mid db \<and> refinement_job_exists other (p r) db) xs =
      filter (\<lambda>r. refinement_job_exists other (p r) db) xs" for p and xs :: "InputRow list"
    using kept by (intro filter_cong) auto
  ultimately show ?thesis by (simp add: list_refinement_inputs_def) (simp add: purge_def)
qed

subsection \<open>The transcript and its gate\<close>

lemma purge_gated:
  assumes "transcript_inv db" "r \<in> set (db_segments db)" "sg_meeting_id r \<noteq> mid"
  shows "gated (purge mid db) r = gated db r"
proof -
  let ?vid = "ts_transcript_version_id (sg_value r)"
  from segment_version[OF assms(1,2)] obtain v where v: "v \<in> set (db_versions db)" "tv_id (vw_value v) = ?vid" "vw_meeting_id v = sg_meeting_id r"
    by (auto simp: has_version_def)
  have outside: "vw_meeting_id w \<noteq> mid" if "w \<in> set (db_versions db)" "tv_id (vw_value w) = ?vid" for w
  proof -
    have "distinct (map (tv_id \<circ> vw_value) (db_versions db))" using assms(1) by (simp add: transcript_inv_def)
    from key_unique[OF this that(1) v(1)] that(2) v(2) have "w = v" by simp
    with v(3) assms(3) show ?thesis by simp
  qed
  have "live_kind (purge mid db) ?vid = live_kind db ?vid"
    using outside unfolding live_kind_def has_version_def purge_def by auto
  then show ?thesis by (simp add: gated_iff[OF assms(1)] gated_iff[OF purge_transcript[OF assms(1)]] finished_live_def)
qed

lemma purge_pending_gate:
  assumes "transcript_inv db" "gate_inv {} db" "r \<in> set (db_segments db)" "sg_meeting_id r \<noteq> mid" "gr_segment_id g = seg_id r"
  shows "pending_gate (purge mid db) g = pending_gate db g"
proof -
  have "br_meeting_id b \<noteq> mid" if "b \<in> set (db_batches db)" "batch_locks (seg_id r) n b" for b n
    using carried_in_meeting[OF assms(1-3) that] assms(4) by simp
  then have "list_ex (batch_locks (seg_id r) n) (db_batches (purge mid db)) = list_ex (batch_locks (seg_id r) n) (db_batches db)" for n
    by (auto simp: purge_def list_ex_iff)
  then show ?thesis by (simp add: pending_gate_def assms(5))
qed

lemma purge_pending_segments:
  assumes "transcript_inv db" "gate_inv {} db" "other \<noteq> mid"
  shows "list_pending_claim_gate_segment_ids (purge mid db) other = list_pending_claim_gate_segment_ids db other"
proof -
  have "(sg_meeting_id r \<noteq> mid \<and> sg_meeting_id r = other \<and> gated (purge mid db) r \<and>
      (case find_gate other (seg_id r) db of Some g \<Rightarrow> pending_gate (purge mid db) g | None \<Rightarrow> False)) \<longleftrightarrow>
      (sg_meeting_id r = other \<and> gated db r \<and> (case find_gate other (seg_id r) db of Some g \<Rightarrow> pending_gate db g | None \<Rightarrow> False))"
    if r: "r \<in> set (db_segments db)" for r
  proof (cases "sg_meeting_id r = other")
    case True
    have "gr_segment_id g = seg_id r" if "find_gate other (seg_id r) db = Some g" for g
      using find_in[OF that[unfolded find_gate_def]] by simp
    then have "pending_gate (purge mid db) g = pending_gate db g" if "find_gate other (seg_id r) db = Some g" for g
      using purge_pending_gate[OF assms(1,2) r] True assms(3) that by simp
    then show ?thesis using purge_gated[OF assms(1) r] True assms(3) by (auto split: option.split)
  qed simp
  then have "filter (\<lambda>r. sg_meeting_id r = other \<and> gated (purge mid db) r \<and>
      (case find_gate other (seg_id r) (purge mid db) of Some g \<Rightarrow> pending_gate (purge mid db) g | None \<Rightarrow> False)) (db_segments (purge mid db)) =
    filter (\<lambda>r. sg_meeting_id r = other \<and> gated db r \<and>
      (case find_gate other (seg_id r) db of Some g \<Rightarrow> pending_gate db g | None \<Rightarrow> False)) (db_segments db)"
    unfolding purge_find_gate[OF assms(3)] by (simp add: purge_def[of mid db] cong: filter_cong)
  then show ?thesis unfolding list_pending_claim_gate_segment_ids_def by (rule arg_cong)
qed

text \<open>Dropping the replacements that mention a segment of the meeting leaves those of the other segments.\<close>

lemma purge_segments:
  assumes T: "transcript_inv db" and other: "other \<noteq> mid"
    and q: "\<And>p. fst p \<notin> meeting_segment_ids mid db \<Longrightarrow> snd p \<notin> meeting_segment_ids mid db \<Longrightarrow> q p"
  shows "list_transcript_segments (purge mid (db\<lparr>db_replacements := filter q (db_replacements db)\<rparr>)) other = list_transcript_segments db other"
proof -
  let ?db' = "purge mid (db\<lparr>db_replacements := filter q (db_replacements db)\<rparr>)"
  have outside: "i \<notin> meeting_segment_ids mid db" if "has_segment other i db" for i
  proof
    assume "i \<in> meeting_segment_ids mid db"
    then obtain r where r: "r \<in> set (db_segments db)" "seg_id r = i" "sg_meeting_id r = mid" by (auto simp: meeting_segment_ids_def)
    from that obtain s where s: "s \<in> set (db_segments db)" "seg_id s = i" "sg_meeting_id s = other" unfolding has_segment_def by metis
    from segment_unique[OF T r(1) s(1)] r s other show False by simp
  qed
  have "replaced_by ?db' (seg_id r) = replaced_by db (seg_id r)" if r: "r \<in> set (db_segments db)" "sg_meeting_id r = other" for r
  proof -
    have kept: "fst p \<notin> meeting_segment_ids mid db \<and> q p" if p: "p \<in> set (db_replacements db)" "fst p = seg_id r" for p
    proof -
      from T p(1) obtain m where m: "has_segment m (fst p) db" "has_segment m (snd p) db" unfolding transcript_inv_def by metis
      with p(2) r segment_unique[OF T] have "m = other" unfolding has_segment_def by metis
      with m outside q show ?thesis by blast
    qed
    have "filter (\<lambda>p. q p \<and> fst p \<notin> meeting_segment_ids mid db \<and> fst p = seg_id r) (db_replacements db) =
        filter (\<lambda>p. fst p = seg_id r) (db_replacements db)"
      by (rule filter_cong) (use kept in blast)+
    then show ?thesis by (simp add: replaced_by_def purge_def meeting_segment_ids_def conj_ac)
  qed
  moreover have "filter (\<lambda>r. sg_meeting_id r = other) (db_segments ?db') = filter (\<lambda>r. sg_meeting_id r = other) (db_segments db)"
    using other by (simp add: purge_def)
  ultimately show ?thesis by (simp add: list_transcript_segments_def)
qed

subsection \<open>Confirmed removal\<close>

text \<open>Only the transcript reads the replacements, and nothing of an artifact reads the cleanup jobs.\<close>

lemma artifact_reads:
  assumes same: "d\<lparr>db_cleanup_jobs := [], db_replacements := []\<rparr> = e\<lparr>db_cleanup_jobs := [], db_replacements := []\<rparr>"
  shows "get_artifact Y d mid =
    map_sum id (\<lambda>a. a\<lparr>ar_segments := list_transcript_segments d mid\<rparr>) (get_artifact Y e mid)"
proof -
  have tables [simp]: "db_meetings d = db_meetings e" "db_speakers d = db_speakers e" "db_versions d = db_versions e"
    "db_observations d = db_observations e" "db_segments d = db_segments e" "db_assets d = db_assets e" "db_events d = db_events e"
    "db_claims d = db_claims e" "db_claim_versions d = db_claim_versions e" "db_assessments d = db_assessments e"
    "db_research_jobs d = db_research_jobs e" "db_refinement_jobs d = db_refinement_jobs e" "db_inputs d = db_inputs e"
    "db_gate d = db_gate e" "db_batches d = db_batches e" "db_manual_requests d = db_manual_requests e"
    using same by (cases d; cases e; simp)+
  have reads: "gated d = gated e" "pending_gate d = pending_gate e" "claim_version_exists mid i d = claim_version_exists mid i e" for i
    by (simp_all add: fun_eq_iff gated_def find_version_def pending_gate_def claim_version_exists_def claim_in_meeting_def)
  show ?thesis
    by (simp add: reads get_artifact_def get_meeting_def list_speakers_def list_speaker_observations_def list_transcript_versions_def
        list_timeline_events_def list_audio_assets_def list_refinement_inputs_def refinement_job_exists_def list_claims_def
        list_claim_versions_def claim_in_meeting_def list_manual_fact_check_requests_def list_pending_claim_gate_segment_ids_def
        find_gate_def list_pending_claim_gate_batches_def list_assessments_def list_research_jobs_def list_refinement_jobs_def
        split: option.split)
qed

lemma removed_artifact:
  assumes inv: "meeting_inv db" and other: "other \<noteq> mid"
    and q: "\<And>p. fst p \<notin> meeting_segment_ids mid db \<Longrightarrow> snd p \<notin> meeting_segment_ids mid db \<Longrightarrow> q p"
  shows "get_artifact Y (purge mid (db\<lparr>db_cleanup_jobs := js, db_replacements := filter q (db_replacements db)\<rparr>)) other =
    map_sum id (\<lambda>a. a\<lparr>ar_versions := map (detach (meeting_version_ids mid db)) (ar_versions a)\<rparr>) (get_artifact Y db other)"
    (is "get_artifact Y ?d other = ?detached")
proof -
  let ?set = "\<lambda>d ss. map_sum id (\<lambda>a. a\<lparr>ar_segments := ss\<rparr>) (get_artifact Y d other)"
  have T: "transcript_inv db" and G: "gate_inv {} db" and C: "claims_inv db" and R: "research_inv db" using inv by (simp_all add: meeting_inv_def)
  have "list_transcript_segments ?d other = list_transcript_segments (purge mid (db\<lparr>db_replacements := filter q (db_replacements db)\<rparr>)) other"
    by (simp add: list_transcript_segments_def replaced_by_def purge_def meeting_segment_ids_def)
  also have "\<dots> = list_transcript_segments db other" by (rule purge_segments[OF T other q])
  finally have segments: "list_transcript_segments ?d other = list_transcript_segments db other" .
  have "get_artifact Y ?d other = ?set (purge mid db) (list_transcript_segments ?d other)"
    by (rule artifact_reads) (simp add: purge_def meeting_claim_ids_def meeting_claim_version_ids_def meeting_refinement_ids_def meeting_version_ids_def)
  also have "\<dots> = ?detached"
    by (simp add: get_artifact_def purge_get_meeting[OF other] purge_keyed_lists[OF other] purge_versions[OF other] purge_claim_lists[OF C other] purge_inputs[OF R other]
        purge_pending_segments[OF T G other] segments split: option.split sum.split)
  finally show ?thesis .
qed

text \<open>Nothing that a client can list of a meeting is there.\<close>

definition nothing_left :: "string \<Rightarrow> MeetingDb \<Rightarrow> bool" where
  "nothing_left mid db =
     (get_meeting db mid True = Inl NotFound \<and> list_speakers db mid = [] \<and> list_speaker_observations db mid = [] \<and>
      list_transcript_versions db mid = [] \<and> list_transcript_segments db mid = [] \<and> list_timeline_events db mid = [] \<and>
      list_audio_assets db mid = [] \<and> list_refinement_inputs db mid = [] \<and> list_claims db mid = [] \<and> list_claim_versions db mid = [] \<and>
      list_manual_fact_check_requests db mid = [] \<and> list_pending_claim_gate_segment_ids db mid = [] \<and>
      list_pending_claim_gate_batches db mid = [] \<and> list_assessments db mid = [] \<and> list_research_jobs db mid = [] \<and>
      list_refinement_jobs db mid = [] \<and> find_cleanup mid db = None)"

lemma purge_leaves_nothing: "nothing_left mid (purge mid db)"
proof -
  let ?d = "purge mid db"
  have none: "filter (\<lambda>x. k x \<noteq> (mid :: string) \<and> k x = mid) xs = []" "filter (\<lambda>x. k x \<noteq> mid \<and> k x = mid \<and> p x) xs = []"
    for k p and xs :: "'a list" by (auto simp: filter_empty_conv)
  have gone: "find (\<lambda>x. k x = mid) (filter (\<lambda>x. k x \<noteq> mid) xs) = None" for k and xs :: "'a list" by (auto simp: find_none)
  have claims: "claim_in_meeting mid i ?d = False" "refinement_job_exists mid i ?d = False" for i
    by (auto simp: claim_in_meeting_def refinement_job_exists_def purge_def list_ex_iff)
  then have "claim_version_exists mid i ?d = False" for i by (simp add: claim_version_exists_def list_ex_iff)
  with claims have "list_claim_versions ?d mid = []" "list_assessments ?d mid = []" "list_research_jobs ?d mid = []" "list_refinement_inputs ?d mid = []"
    by (simp_all add: list_claim_versions_def list_assessments_def list_research_jobs_def list_refinement_inputs_def)
  then show ?thesis
    by (simp add: nothing_left_def)
      (simp add: none gone get_meeting_def purge_def find_cleanup_def list_speakers_def list_speaker_observations_def list_transcript_versions_def
        list_transcript_segments_def list_timeline_events_def list_audio_assets_def list_claims_def list_manual_fact_check_requests_def
        list_pending_claim_gate_segment_ids_def list_pending_claim_gate_batches_def list_refinement_jobs_def)
qed

text \<open>C36: When the cleanup of a deleted meeting is confirmed on every side, nothing of that meeting is left in the store, and what a
  client reads of any other meeting, transcript, claims, evidence and pending work included, is what it was, except that
  a transcript version derived from one of the removed meeting no longer names it as its parent.\<close>

theorem cleanup_removes_only_its_meeting:
  assumes "meetings_reachable db" "find (\<lambda>j. cj_id j = kq_cleanup_job_id r) (db_cleanup_jobs db) = Some job"
    "confirm_cleanup X r db = Inr (True, db')"
  shows "nothing_left (cj_meeting_id job) db' \<and>
    (\<forall>other Y. other \<noteq> cj_meeting_id job \<longrightarrow> get_artifact Y db' other =
       map_sum id (\<lambda>a. a\<lparr>ar_versions := map (detach (meeting_version_ids (cj_meeting_id job) db)) (ar_versions a)\<rparr>) (get_artifact Y db other))"
proof -
  let ?mid = "cj_meeting_id job" and ?js = "update_where (\<lambda>j. cj_id j = kq_cleanup_job_id r) (confirmed_cleanup X r) (db_cleanup_jobs db)"
  let ?q = "\<lambda>p. fst p \<notin> meeting_segment_ids ?mid db \<and> snd p \<notin> meeting_segment_ids ?mid db"
  have inv: "meeting_inv db" using store.always[OF assms(1)] .
  then have "\<exists>m \<in> set (db_meetings db). me_id m = ?mid \<and> me_deleted_at_ms m \<noteq> None"
    using find_in[OF assms(2)] by (simp add: meeting_inv_def deletion_inv_def)
  then have "db' = purge ?mid (db\<lparr>db_cleanup_jobs := ?js, db_replacements := filter ?q (db_replacements db)\<rparr>)"
    using assms(2,3) by (auto simp: confirm_cleanup_def Let_def remove_meeting_def list_ex_iff meeting_segment_ids_def split: option.splits if_splits)
  then show ?thesis using purge_leaves_nothing removed_artifact[OF inv] by simp
qed

end
