(* ===== verification/Meeting_Recovery.thy ===== *)
theory Meeting_Recovery
  imports Meeting_Properties
begin

text \<open>
  Starting again after a crash: recovery that reconciles hands back all jobs that had not ended, a recovery that does not
  only the waiting ones, and the files that cleanup is told to delete lie inside the data directory.
\<close>

definition refinement_ended :: "RefinementJobRow \<Rightarrow> bool" where
  "refinement_ended j = (fj_status (fw_value j) \<in> {RefineComplete, RefineFailed, RefineCancelled})"

definition research_ended :: "ResearchJobRow \<Rightarrow> bool" where
  "research_ended j = (rj_status (jw_value j) \<in> {JobComplete, JobFailed, JobCancelled})"

text \<open>A side of a cleanup has ended when nothing will be done for it any more.\<close>

definition side_ended :: "CleanupStatus \<Rightarrow> bool" where
  "side_ended s = (s \<in> {CleanupComplete, CleanupFailed, CleanupUnavailable})"

definition cleanup_ended :: "CleanupRow \<Rightarrow> bool" where
  "cleanup_ended j = (side_ended (cj_local_status j) \<and> side_ended (cj_gateway_status j) \<and> side_ended (cj_provider_status j))"

text \<open>What a table looks like after the rows with \<open>p\<close> have been settled: these are as \<open>q\<close> says and keep what \<open>k\<close> sees of
  them, the others have not changed, and no row is new or gone.\<close>

definition rows_settled :: "('a \<Rightarrow> bool) \<Rightarrow> ('a \<Rightarrow> 'b) \<Rightarrow> ('a \<Rightarrow> bool) \<Rightarrow> 'a list \<Rightarrow> 'a list \<Rightarrow> bool" where
  "rows_settled p k q xs ys = list_all2 (\<lambda>x y. if p x then k y = k x \<and> q y else y = x) xs ys"

definition refinement_running :: "RefinementJobRow \<Rightarrow> bool" where
  "refinement_running j = (fj_status (fw_value j) \<in> {RefineUploading, RefineProcessing, RefineReconciling})"

definition research_running :: "ResearchJobRow \<Rightarrow> bool" where
  "research_running j = (rj_status (jw_value j) = JobRunning)"

text \<open>The settled tables are those of the meetings, the audio files and the three kinds of jobs. Of a meeting only the
  status, the capture status and the time of the update change: its research and refinement status stay, as do the claims
  and the manual requests, whose tables are not touched.\<close>

definition settled_side :: "CleanupStatus \<Rightarrow> CleanupStatus" where
  "settled_side s = (case s of CleanupRunning \<Rightarrow> CleanupRetryWait | _ \<Rightarrow> s)"

definition reconciled :: "MeetingDb \<Rightarrow> MeetingDb \<Rightarrow> bool" where
  "reconciled db db' \<longleftrightarrow>
     rows_settled interruptible
       (\<lambda>m. m\<lparr>me_status := LifeSetup, me_capture_status := CaptureNotStarted, me_updated_at_ms := 0\<rparr>)
       (\<lambda>m. me_status m = LifeInterrupted \<and> me_capture_status m = CaptureInterrupted) (db_meetings db) (db_meetings db') \<and>
     rows_settled (\<lambda>a. au_status (aa_value a) = AssetRecording)
       (\<lambda>a. a\<lparr>aa_value := (aa_value a)\<lparr>au_status := AssetMissing\<rparr>, aa_updated_at_ms := 0\<rparr>)
       (\<lambda>a. au_status (aa_value a) = AssetInterrupted) (db_assets db) (db_assets db') \<and>
     rows_settled research_running
       (\<lambda>j. j\<lparr>jw_value := (jw_value j)\<lparr>rj_status := JobPending, rj_next_retry_at_ms := None\<rparr>, jw_updated_at_ms := 0\<rparr>)
       (\<lambda>j. rj_status (jw_value j) = JobRetryWait \<and> rj_next_retry_at_ms (jw_value j) \<noteq> None)
       (db_research_jobs db) (db_research_jobs db') \<and>
     rows_settled refinement_running
       (\<lambda>j. j\<lparr>fw_value := (fw_value j)\<lparr>fj_status := RefineQueued, fj_next_retry_at_ms := None\<rparr>, fw_updated_at_ms := 0\<rparr>)
       (\<lambda>j. fj_status (fw_value j) = RefineRetryWait \<and> fj_next_retry_at_ms (fw_value j) \<noteq> None)
       (db_refinement_jobs db) (db_refinement_jobs db') \<and>
     rows_settled cleanup_running
       (\<lambda>j. (settled_side (cj_local_status j), settled_side (cj_gateway_status j), settled_side (cj_provider_status j),
             j\<lparr>cj_local_status := CleanupPending, cj_gateway_status := CleanupPending, cj_provider_status := CleanupPending,
               cj_next_retry_at_ms := None, cj_updated_at_ms := 0\<rparr>))
       (\<lambda>j. \<not> cleanup_running j \<and> cj_next_retry_at_ms j \<noteq> None) (db_cleanup_jobs db) (db_cleanup_jobs db') \<and>
     db'\<lparr>db_meetings := db_meetings db, db_assets := db_assets db, db_research_jobs := db_research_jobs db,
        db_refinement_jobs := db_refinement_jobs db, db_cleanup_jobs := db_cleanup_jobs db\<rparr> = db"

lemma rows_settled_update:
  assumes "\<And>x. p x \<Longrightarrow> k (f x) = k x \<and> q (f x)"
  shows "rows_settled p k q xs (update_where p f xs)"
  by (induction xs) (simp_all add: rows_settled_def update_where_def assms)

lemma ids_after_update:
  assumes "\<And>x. k (if p x then f x else x) = k x" "\<And>x. q (if p x then f x else x) = r x"
  shows "k ` {x \<in> set (update_where p f xs). q x} = k ` {x \<in> set xs. r x}"
proof -
  let ?g = "\<lambda>x. if p x then f x else x"
  have "{x \<in> g ` S. q x} = g ` {x \<in> S. q (g x)}" for g S by blast
  then have "{x \<in> set (update_where p f xs). q x} = ?g ` {x \<in> set xs. q (?g x)}"
    unfolding update_where_def set_map .
  then show ?thesis unfolding assms(2) by (simp only: image_image assms(1))
qed

lemma resumed_refinement:
  "set (rv_refinement_jobs (fst (recover X True db))) = (fj_id \<circ> fw_value) ` {j \<in> set (db_refinement_jobs db). \<not> refinement_ended j}"
proof -
  define p where "p = (\<lambda>j :: RefinementJobRow. fj_status (fw_value j) \<in> {RefineUploading, RefineProcessing, RefineReconciling})"
  define f where "f = (\<lambda>j. j\<lparr>fw_value := (fw_value j)\<lparr>fj_status := RefineRetryWait,
      fj_next_retry_at_ms := or_else (fj_next_retry_at_ms (fw_value j)) (Some (mx_now X))\<rparr>, fw_updated_at_ms := mx_now X\<rparr> :: RefinementJobRow)"
  define q where "q = (\<lambda>j :: RefinementJobRow. fj_status (fw_value j) = RefineRetryWait \<or> fj_status (fw_value j) = RefineQueued)"
  have "q (if p j then f j else j) = (\<not> refinement_ended j)" for j
    by (cases "fj_status (fw_value j)") (simp_all add: p_def f_def q_def refinement_ended_def)
  moreover have "(fj_id \<circ> fw_value) (if p j then f j else j) = (fj_id \<circ> fw_value) j" for j by (simp add: f_def)
  ultimately have "(fj_id \<circ> fw_value) ` {j \<in> set (update_where p f (db_refinement_jobs db)). q j} =
      (fj_id \<circ> fw_value) ` {j \<in> set (db_refinement_jobs db). \<not> refinement_ended j}" by (intro ids_after_update)
  then show ?thesis by (simp add: recover_def reconcile_def Let_def p_def f_def q_def)
qed

lemma resumed_research:
  "set (rv_research_jobs (fst (recover X True db))) = (rj_id \<circ> jw_value) ` {j \<in> set (db_research_jobs db). \<not> research_ended j}"
proof -
  define p where "p = (\<lambda>j :: ResearchJobRow. rj_status (jw_value j) = JobRunning)"
  define f where "f = (\<lambda>j. j\<lparr>jw_value := (jw_value j)\<lparr>rj_status := JobRetryWait,
      rj_next_retry_at_ms := or_else (rj_next_retry_at_ms (jw_value j)) (Some (mx_now X))\<rparr>, jw_updated_at_ms := mx_now X\<rparr> :: ResearchJobRow)"
  define q where "q = (\<lambda>j :: ResearchJobRow. rj_status (jw_value j) = JobRetryWait \<or> rj_status (jw_value j) = JobPending)"
  have "q (if p j then f j else j) = (\<not> research_ended j)" for j
    by (cases "rj_status (jw_value j)") (simp_all add: p_def f_def q_def research_ended_def)
  moreover have "(rj_id \<circ> jw_value) (if p j then f j else j) = (rj_id \<circ> jw_value) j" for j by (simp add: f_def)
  ultimately have "(rj_id \<circ> jw_value) ` {j \<in> set (update_where p f (db_research_jobs db)). q j} =
      (rj_id \<circ> jw_value) ` {j \<in> set (db_research_jobs db). \<not> research_ended j}" by (intro ids_after_update)
  then show ?thesis by (simp add: recover_def reconcile_def Let_def p_def f_def q_def)
qed

lemma resumed_cleanup:
  "set (rv_cleanup_jobs (fst (recover X True db))) = cj_id ` {j \<in> set (db_cleanup_jobs db). \<not> cleanup_ended j}"
proof -
  define f where "f = (\<lambda>j. j\<lparr>cj_local_status := retry_if_running (cj_local_status j), cj_gateway_status := retry_if_running (cj_gateway_status j),
      cj_provider_status := retry_if_running (cj_provider_status j), cj_next_retry_at_ms := or_else (cj_next_retry_at_ms j) (Some (mx_now X)),
      cj_updated_at_ms := mx_now X\<rparr> :: CleanupRow)"
  have side: "side_ended (retry_if_running s) = side_ended s" "retry_if_running s \<noteq> CleanupRunning" "\<not> side_ended CleanupRunning"
    "s \<noteq> CleanupRunning \<Longrightarrow> waiting s = (\<not> side_ended s)" for s
    by (cases s; simp add: waiting_def retry_if_running_def side_ended_def)+
  have "cleanup_resumable (if cleanup_running j then f j else j) = (\<not> cleanup_ended j)" for j
    by (auto simp: cleanup_resumable_def cleanup_ended_def cleanup_running_def f_def side)
  moreover have "cj_id (if cleanup_running j then f j else j) = cj_id j" for j by (simp add: f_def)
  ultimately have "cj_id ` {j \<in> set (update_where cleanup_running f (db_cleanup_jobs db)). cleanup_resumable j} =
      cj_id ` {j \<in> set (db_cleanup_jobs db). \<not> cleanup_ended j}" by (intro ids_after_update)
  then show ?thesis by (simp add: recover_def reconcile_def Let_def f_def)
qed

lemma or_else_now [simp]: "\<exists>y. or_else t (Some n) = Some y"
  by (cases t) (simp_all add: or_else_def)

lemma recover_reconciled: "reconciled db (snd (recover X True db))"
proof -
  have side: "retry_if_running s \<noteq> CleanupRunning" "settled_side (retry_if_running s) = settled_side s" for s
    by (cases s; simp add: retry_if_running_def settled_side_def)+
  show ?thesis
    unfolding reconciled_def recover_def reconcile_def Let_def if_True snd_conv
    by (intro conjI; (simp add: research_running_def [abs_def] refinement_running_def [abs_def])?; (rule rows_settled_update)?)
      (auto simp: interruptible_def side cleanup_running_def)
qed

text \<open>C38: Recovery loses no job and invents none. When it is asked to reconcile, the refinement, research and cleanup jobs
  handed back are exactly those that had not ended, the meetings reported as interrupted exactly the undeleted ones whose
  capture was in progress; these meetings and the audio files being recorded become interrupted, running jobs become due
  for a retry, and nothing else changes: other meetings and jobs, and the research and refinement status of a meeting, its
  claims and its manual requests, stay as they are, also if they are marked as running. When it is not asked to reconcile,
  as by default, it changes nothing, reports no meeting and hands back exactly the refinement and research jobs that wait
  for a retry and the cleanup jobs that have not ended and are running on no side.\<close>

theorem recovery_resumes_jobs:
  "reconciled db (snd (recover X True db)) \<and>
   set (rv_interrupted (fst (recover X True db))) = me_id ` {m \<in> set (db_meetings db). interruptible m} \<and>
   set (rv_refinement_jobs (fst (recover X True db))) = (fj_id \<circ> fw_value) ` {j \<in> set (db_refinement_jobs db). \<not> refinement_ended j} \<and>
   set (rv_research_jobs (fst (recover X True db))) = (rj_id \<circ> jw_value) ` {j \<in> set (db_research_jobs db). \<not> research_ended j} \<and>
   set (rv_cleanup_jobs (fst (recover X True db))) = cj_id ` {j \<in> set (db_cleanup_jobs db). \<not> cleanup_ended j} \<and>
   snd (recover X False db) = db \<and> rv_interrupted (fst (recover X False db)) = [] \<and>
   set (rv_refinement_jobs (fst (recover X False db))) =
     (fj_id \<circ> fw_value) ` {j \<in> set (db_refinement_jobs db). fj_status (fw_value j) = RefineRetryWait} \<and>
   set (rv_research_jobs (fst (recover X False db))) =
     (rj_id \<circ> jw_value) ` {j \<in> set (db_research_jobs db). rj_status (jw_value j) = JobRetryWait} \<and>
   set (rv_cleanup_jobs (fst (recover X False db))) = cj_id ` {j \<in> set (db_cleanup_jobs db). \<not> cleanup_ended j \<and> \<not> cleanup_running j}"
proof -
  have "s = CleanupRunning \<or> waiting s = (\<not> side_ended s)" for s by (cases s) (simp_all add: waiting_def side_ended_def)
  then have "cleanup_resumable j = (\<not> cleanup_ended j \<and> \<not> cleanup_running j)" for j
    unfolding cleanup_resumable_def cleanup_ended_def cleanup_running_def by metis
  then have "set (rv_cleanup_jobs (fst (recover X False db))) = cj_id ` {j \<in> set (db_cleanup_jobs db). \<not> cleanup_ended j \<and> \<not> cleanup_running j}"
    by (simp add: recover_def Let_def)
  with recover_reconciled resumed_refinement resumed_research resumed_cleanup show ?thesis
    by (simp add: recover_def Let_def)
qed

text \<open>C40: In every state the store can reach, the path of each audio file, recorded for the file or handed to its cleanup, is relative
  and no component of it leads upwards, so deleting the files of a meeting stays inside the data directory.\<close>

theorem recorded_paths_confined:
  assumes "meetings_reachable db"
    "path \<in> aa_relative_path ` set (db_assets db) \<or> (\<exists>j \<in> set (db_cleanup_jobs db). path \<in> snd ` set (cj_assets j))"
  shows "\<not> starts_with ''/'' path \<and> ''..'' \<notin> set (path_components path)"
proof -
  have "controlled_relative_path path = None" using assms(2) reachable_parts(4)[OF assms(1)] by (auto simp: files_inv_def)
  then show ?thesis by (auto simp: controlled_relative_path_def normal_component_def list_all_iff split: if_splits)
qed

end
