(* ===== verification/Meeting_Witnesses.thy ===== *)
theory Meeting_Witnesses
  imports Meeting_Listing Meeting_Removal Meeting_Recovery "HOL-Library.Code_Target_Nat"
begin

text \<open>Two recorded meetings: two turns of the first are final, one of them has been handed to claim detection, and one audio file of it
  is being recorded.\<close>

definition env0 :: "i64 \<Rightarrow> string \<Rightarrow> meeting_ext" where
  "env0 now prefix =
     \<lparr>mx_uuid = (\<lambda>s. s \<noteq> []), mx_url = (\<lambda>_. None), mx_json_len = (\<lambda>_. 2), mx_config_json = (\<lambda>_. JNull),
      mx_segment_hash = ts_text, mx_claim_hash = cv_exact_quote, mx_manual_hash = mq_exact_selection,
      mx_id = (\<lambda>n. if n = 0 then prefix else prefix @ ''v''), mx_now = now\<rparr>"

definition create0 :: CreateRequest where
  "create0 =
     \<lparr>cr_title = Some ''Standup'', cr_artifact_type = MeetingArtifact, cr_mode = CallMode, cr_started_at_ms = 0,
      cr_capture_config = \<lparr>cc_live_strategy = MixedDiarized, cc_microphone_device_id = None, cc_system_audio_enabled = True,
        cc_exact_speaker_count = None\<rparr>,
      cr_initial_speakers = []\<rparr>"

definition turn0 :: "string \<Rightarrow> string \<Rightarrow> i64 \<Rightarrow> SegmentUpsert" where
  "turn0 i text start =
     \<lparr>ts_id = i, ts_transcript_version_id = ''av'', ts_provider = ''assemblyai'', ts_provider_namespace = ''n'',
      ts_provider_session_id = None, ts_provider_turn_id = i, ts_provider_turn_order = start, ts_revision_number = 1,
      ts_state = SegmentFinal, ts_speaker_id = None, ts_source_kind = AudioMixed, ts_start_ms = start, ts_end_ms = start + 1,
      ts_text = text, ts_words = [], ts_replaced_live_segment_ids = []\<rparr>"

definition transcript0 :: TranscriptRequest where
  "transcript0 =
     \<lparr>tq_meeting_id = ''a'', tq_version = live_version_value (env0 1 ''a'') create0,
      tq_segments = [turn0 ''t1'' ''Rents rose'' 0, turn0 ''t2'' ''They did'' 2], tq_observations = [], tq_promote_canonical = False\<rparr>"

definition claims0 :: ClaimsRequest where
  "claims0 =
     \<lparr>cq_meeting_id = ''a'', cq_manual_requests = [], cq_claim_versions = [], cq_mark_stale = [],
      cq_begin_batches = [\<lparr>gb_id = ''g1'', gb_idempotency_key = ''k1'',
        gb_turns = [\<lparr>gt_id = ''t1'', gt_speaker_id = None, gt_start_ms = 0, gt_end_ms = 1, gt_text = ''Rents rose'',
          gt_revision_number = 1, gt_source_kind = AudioMixed\<rparr>]\<rparr>],
      cq_complete_batches = []\<rparr>"

definition audio0 :: AudioRequest where
  "audio0 =
     \<lparr>dq_meeting_id = ''a'',
      dq_assets = [\<lparr>au_id = ''u1'', au_source_kind = AudioMixed, au_timeline_part = 0, au_file_name = ''x.wav'', au_format = ''wav'',
        au_sample_rate = 16000, au_channels = 1, au_timeline_start_ms = 0, au_timeline_end_ms = None, au_duration_ms = None,
        au_bytes = None, au_checksum = None, au_status = AssetRecording\<rparr>],
      dq_replace_manifest_for = None, dq_inputs = []\<rparr>"

definition calls0 :: "(meeting_ext \<times> MeetingCall) list" where
  "calls0 =
     [(env0 1 ''a'', CallCreate create0), (env0 2 ''b'', CallCreate create0), (env0 3 ''c'', CallTranscript transcript0),
      (env0 4 ''d'', CallClaims claims0), (env0 4 ''d'', CallAudio audio0)]"

definition db0 :: MeetingDb where
  "db0 = fold commit_call calls0 empty_meetings"

definition confirm0 :: CleanupConfirm where
  "confirm0 =
     \<lparr>kq_cleanup_job_id = ''e'', kq_local_status = CleanupComplete, kq_gateway_status = CleanupComplete,
      kq_provider_status = CleanupUnavailable, kq_error = None\<rparr>"

lemma reachable_commit: "meetings_reachable db \<Longrightarrow> meetings_reachable (commit_call k db)"
  using meetings_reachable.call[of db "fst k" "snd k"] by (cases "run_call (fst k) (snd k) db") (simp_all add: commit_call_def)

lemma reachable_fold: "meetings_reachable db \<Longrightarrow> meetings_reachable (fold commit_call ks db)"
  by (induction ks arbitrary: db) (auto intro: reachable_commit)

lemma db0_reachable: "meetings_reachable (fold commit_call ks db0)"
  unfolding db0_def by (intro reachable_fold meetings_reachable.initial)

definition segments0 :: "SegmentRow list" where
  "segments0 = db_segments db0"

lemma segments0_handed:
  "length segments0 = 2" "list_all (gated db0) segments0"
  "map seg_id segments0 = [''t1'', ''t2'']" "map sg_meeting_id segments0 = [''a'', ''a'']"
  "list_pending_claim_gate_segment_ids db0 ''a'' = [''t2'']"
  by code_simp+

theorem finished_segment_handed_once_witness:
  "segments0 ! 0 \<in> set (db_segments db0) \<and> gated db0 (segments0 ! 0) \<and>
   (\<exists>b. handed db0 (sg_meeting_id (segments0 ! 0)) (seg_id (segments0 ! 0)) (seg_revision (segments0 ! 0)) = [b])"
proof -
  have in0: "segments0 ! 0 \<in> set (db_segments db0)" using segments0_handed(1) nth_mem[of 0 segments0] by (simp add: segments0_def)
  have gated0: "gated db0 (segments0 ! 0)" using segments0_handed(1,2) by (simp add: list_all_length)
  have "seg_id (segments0 ! 0) = ''t1''" "sg_meeting_id (segments0 ! 0) = ''a''"
    using segments0_handed(1) nth_map[of 0 segments0 seg_id] nth_map[of 0 segments0 sg_meeting_id]
    unfolding segments0_handed(3,4) by simp_all
  then show ?thesis
    using finished_segment_handed_once[OF db0_reachable[of "[]", simplified] in0 gated0] segments0_handed(5) in0 gated0 by simp
qed

definition list0 :: ListRequest where
  "list0 = \<lparr>lq_artifact_type = None, lq_statuses = [], lq_query = None, lq_cursor = None, lq_limit = Some 1\<rparr>"

lemma list0_valid: "validate_list (env0 9 ''x'') list0 = None" "length (db_meetings db0) = 2"
    "list_all (\<lambda>m. me_id m \<noteq> [] \<and> 0 \<le> me_updated_at_ms m) (db_meetings db0)"
  by code_simp+

theorem pages_enumerate_meetings_witness:
  "\<exists>items. all_pages 3 (env0 9 ''x'') db0 list0 = Some (Inr items) \<and>
     set (map li_meeting items) = {m \<in> set (db_meetings db0). list_matches db0 list0 m} \<and>
     sorted_wrt (\<lambda>a b. list_key b < list_key a) (map li_meeting items)"
proof -
  have "mx_uuid (env0 9 ''x'') (me_id m) \<and> 0 \<le> me_updated_at_ms m" if "m \<in> set (db_meetings db0)" for m
    using list0_valid(3) that by (simp add: env0_def list_all_iff)
  moreover have "lq_cursor list0 = None" by (simp add: list0_def)
  ultimately show ?thesis
    using pages_enumerate_meetings[OF db0_reachable[of "[]", simplified] _ list0_valid(1)] list0_valid(2) by (simp add: eval_nat_numeral del: all_pages.simps)
qed

definition deleted0 :: MeetingDb where
  "deleted0 = commit_call (env0 5 ''e'', CallDelete ''a'') db0"

lemma deleted0_reachable: "meetings_reachable deleted0"
  using db0_reachable[of "[(env0 5 ''e'', CallDelete ''a'')]"] by (simp add: deleted0_def)

lemma deleted0_runs: "run_call (env0 5 ''e'') (CallDelete ''a'') db0 = Inr deleted0"
proof -
  have "\<not> isl (run_call (env0 5 ''e'') (CallDelete ''a'') db0)" by code_simp
  then show ?thesis unfolding deleted0_def commit_call_def fst_conv snd_conv
    by (cases "run_call (env0 5 ''e'') (CallDelete ''a'') db0") simp_all
qed

theorem deleted_meeting_sealed_witness:
  "get_meeting (fold commit_call [(env0 6 ''f'', CallCreate create0)] deleted0) ''a'' False = Inl NotFound \<and>
   (\<exists>e. run_call (env0 7 ''g'') (CallTranscript transcript0) (fold commit_call [(env0 6 ''f'', CallCreate create0)] deleted0) = Inl e)"
proof -
  have "list_all (avoids_id ''a'') [(env0 6 ''f'', CallCreate create0)]" "call_meeting (CallTranscript transcript0) = Some ''a''"
    by (simp_all add: env0_def transcript0_def)
  from deleted_meeting_sealed[OF deleted0_runs this(1), of "CallTranscript transcript0" "env0 7 ''g''"] this(2)
  show ?thesis by blast
qed

lemma cleanup0:
  "map cj_id (db_cleanup_jobs deleted0) = [''e'']" "map cj_meeting_id (db_cleanup_jobs deleted0) = [''a'']"
  "map_sum id fst (confirm_cleanup (env0 8 ''h'') confirm0 deleted0) = Inr True"
  by code_simp+

theorem cleanup_removes_only_its_meeting_witness:
  "\<exists>db'. confirm_cleanup (env0 8 ''h'') confirm0 deleted0 = Inr (True, db') \<and> nothing_left ''a'' db' \<and>
     get_artifact (env0 9 ''x'') db' ''b'' =
       map_sum id (\<lambda>a. a\<lparr>ar_versions := map (detach (meeting_version_ids ''a'' deleted0)) (ar_versions a)\<rparr>)
         (get_artifact (env0 9 ''x'') deleted0 ''b'')"
proof -
  from cleanup0(3) obtain db' where run: "confirm_cleanup (env0 8 ''h'') confirm0 deleted0 = Inr (True, db')"
    by (cases "confirm_cleanup (env0 8 ''h'') confirm0 deleted0") auto
  obtain j where "db_cleanup_jobs deleted0 = [j]" "cj_id j = ''e''" "cj_meeting_id j = ''a''"
    using cleanup0(1,2) by (cases "db_cleanup_jobs deleted0") auto
  then have job: "find (\<lambda>j. cj_id j = kq_cleanup_job_id confirm0) (db_cleanup_jobs deleted0) = Some j" "cj_meeting_id j = ''a''"
    by (simp_all add: confirm0_def)
  from cleanup_removes_only_its_meeting[OF deleted0_reachable job(1) run] job(2) run show ?thesis by auto
qed

lemma paths0: "list_ex (\<lambda>j. ''audio/a/x.wav'' \<in> snd ` set (cj_assets j)) (db_cleanup_jobs deleted0)"
  by code_simp

theorem recorded_paths_confined_witness:
  "(\<exists>j \<in> set (db_cleanup_jobs deleted0). ''audio/a/x.wav'' \<in> snd ` set (cj_assets j)) \<and> ''..'' \<notin> set (path_components ''audio/a/x.wav'')"
proof -
  have "\<exists>j \<in> set (db_cleanup_jobs deleted0). ''audio/a/x.wav'' \<in> snd ` set (cj_assets j)" using paths0 unfolding list_ex_iff .
  with recorded_paths_confined[OF deleted0_reachable, of "''audio/a/x.wav''"] show ?thesis by blast
qed

end
