(* ===== verification/Spec2Isabelle.thy ===== *)
theory Spec2Isabelle
  imports Conversation_Properties Agent_Witnesses Fact_Check_Witnesses Meeting_Witnesses
begin

text \<open>
  \<^bold>\<open>Obelus: the core of the agent, the live fact check and the meetings store.\<close> The program is a Rust workspace for an
  AI agent: a conversation with a language model, tools the model asks to run, a database of sessions, and, on top of it,
  recorded meetings whose claims are detected and checked while they are spoken. This development models what lies
  between the model and the outside: the conversation and its repair, the session database, the state machine that drives
  a turn with all the operations the agent gives it, the fact check worker and the store of meetings.

  \<^bold>\<open>How the parts interact.\<close> A client hands a prompt to the agent, which stores it in the session and runs the
  state machine. In each step the machine reads the session and its conversation back from the database, asks its
  operations in order whether they apply, and runs the first that does. An operation sees the session and the
  conversation, may run hooks, shell commands and tools, and returns effects: messages to append, a
  conversation to put in place of the old one, metadata to patch, usage to record. The machine writes them to the
  database and reports events to the client, until no operation applies or one gives the turn back.
  Before a request goes to the model, the conversation is repaired so that a provider accepts it. Before a tool
  runs, inspectors decide and the user may be asked; the outcome is a mark on the request itself.
  A meeting client submits transcript segments to the meetings store, takes those that wait for claim detection, hands
  them to the fact check worker in batches, and writes the claims, the research on them and the refined transcript
  back to the store. The worker asks the model and accepts only answers that are grounded in what it submitted.

  \<^bold>\<open>Theories and sources\<close> (under \<open>src/crates/\<close>; \<open>sm/\<close> stands for \<open>goose/src/agents/state_machine/\<close>):

  \<^item> \<open>Obelus_Prelude\<close>, \<open>Text_Std\<close>, \<open>Json\<close>, \<open>Serde\<close>: the standard library, text and paths, JSON values and their decoding as the
    sources use them; generic lemmas.
  \<^item> \<open>Token_Usage\<close>, \<open>Message\<close>, \<open>Conversation\<close>, \<open>Conversation_Repair\<close>: \<open>goose-provider-types/src/conversation/\<close> and
    \<open>conversation.rs\<close>. Counts are 32-bit words. A message is a record, its content a list of a datatype with
    the source's constructors. The repair is the composition of its processors, each with the issues it reports.
  \<^item> \<open>Conversation_Spec\<close>: \<open>valid_conversation\<close>, what a provider accepts, stated without the pipeline.
    \<open>Conversation_Properties\<close>: \<open>Conversation::new\<close> accepts exactly these, and what the repair keeps.
  \<^item> \<open>Session_Store\<close>, \<open>Session_Ops\<close>: \<open>goose/src/session/session_manager.rs\<close>. The tables are lists of rows, each operation
    is a transaction that returns a new store or an error. Content is kept as the value it is read back as
    (\<open>stored_content\<close>, after \<open>tool_result_serde.rs\<close>): errors come back with their text only.
  \<^item> \<open>Session_Properties\<close>, \<open>Session_Accounting\<close>: the invariant \<open>store_wf\<close>, the conversation as an append-only log
    (locale \<open>message_log\<close>), fresh ids, the reported totals of usage over a session and the sessions below it.
  \<^item> \<open>Session_Invariant\<close>: the store as a transition system with one rule for each operation that writes; every
    reachable store is well formed and every run of the machine is a sequence of such steps. \<open>Session_Isolation\<close>: a run
    for one session writes to no other.
  \<^item> \<open>Hooks\<close>: \<open>goose/src/hooks/mod.rs\<close>. Rules, matchers and the first denial.
  \<^item> \<open>Permission\<close>, \<open>Permission_Properties\<close>: \<open>goose/src/config/permission.rs\<close> and \<open>goose/src/permission/\<close>: remembered levels
    (locale \<open>level_store\<close>), recorded decisions and the judge.
  \<^item> \<open>Tool_Inspection\<close>, \<open>Tool_Inspection_Properties\<close>: \<open>tool_inspection.rs\<close>, \<open>tool_monitor.rs\<close>, \<open>permission_inspector.rs\<close>: the
    verdict on a request is the strictest one.
  \<^item> \<open>Operation\<close>, \<open>Machine\<close>, \<open>Machine_Properties\<close>: \<open>sm/operation.rs\<close>, \<open>sm/machine.rs\<close>, \<open>sm/usage.rs\<close>.
  \<^item> \<open>Ops_Turn\<close>, \<open>Ops_Retry\<close>, \<open>Ops_Turn_Properties\<close>: the operations that bound a turn (turn budget, stop hook, errors,
    steering, shell and slash commands, retries and goals).
  \<^item> \<open>Tool_Approval\<close>, \<open>Ops_Tools\<close>, \<open>Ops_Recipe\<close>, with \<open>Ops_Tools_Properties\<close> and \<open>Approval_Properties\<close>: \<open>sm/ops_tool_approval.rs\<close>,
    \<open>sm/ops_toolcalling.rs\<close>, \<open>sm/ops_unknown_tool.rs\<close>, \<open>sm/ops_recipe.rs\<close> and what they call.
  \<^item> \<open>Skills\<close>, \<open>Ops_Skills\<close>: \<open>goose/src/skills/\<close>, the skills client and \<open>sm/ops_skill.rs\<close>: discovery, loading and what
    loading a skill may read.
  \<^item> \<open>Context_Mgmt\<close>, \<open>Context_Properties\<close>: \<open>goose/src/context_mgmt/mod.rs\<close>, \<open>sm/ops_compaction.rs\<close>, \<open>sm/ops_tool_pair_compaction.rs\<close>.
  \<^item> \<open>Ops_Llm\<close>, \<open>Ops_Llm_Properties\<close>: \<open>sm/ops_llm.rs\<close> with what it calls of \<open>goose/src/agents/reply_parts.rs\<close>, \<open>moim.rs\<close> and
    \<open>goose/src/providers/\<close>: the request, the stream of the answer, cancellation and the status command.
  \<^item> \<open>Agent_Machine\<close>: \<open>create_state_machine\<close> and \<open>reply_with_state_machine\<close> of \<open>goose/src/agents/agent.rs\<close>, the operations in their order.
    \<open>Agent_Frame\<close>: what each operation leaves alone. \<open>Agent_Properties\<close>: what follows for the agent as a whole.
  \<^item> \<open>Claim_Detection\<close>, \<open>Fact_Check\<close>, \<open>Fact_Check_Properties\<close>: \<open>goose/src/live_fact_check/\<close>: the requests and their validation,
    the model's drafts and what is accepted of them, the canonical assessment, the selection between two
    assessments, the detection of claims and the worker's responses.
  \<^item> \<open>Meeting_Types\<close>, \<open>Meeting_Validation\<close>: the requests of \<open>goose-sdk-types/src/custom_requests/meetings.rs\<close> and their validation.
    \<open>Meeting_Store\<close>, \<open>Meeting_Transcript\<close>, \<open>Meeting_Claims\<close>, \<open>Meeting_Jobs\<close>, \<open>Meeting_Cleanup\<close>: \<open>goose/src/meetings/store.rs\<close>, every
    call as a transaction (\<open>tx_all\<close>) over the tables of \<open>migrations.rs\<close>; foreign keys, unique indexes and checks
    are the errors of the statements.
  \<^item> \<open>Meeting_Logic\<close>: triples for transactions that may fail and frame rules by table. \<open>Meeting_Invariant\<close>, \<open>Meeting_Gate\<close>,
    \<open>Meeting_Reachable\<close>: the store as a transition system of calls (locale \<open>meeting_invariant\<close>) and an invariant of all
    its tables. \<open>Meeting_Properties\<close>, \<open>Meeting_Listing\<close>, \<open>Meeting_Deletion\<close>, \<open>Meeting_Removal\<close>, \<open>Meeting_Recovery\<close>: what it
    guarantees.
  \<^item> \<open>Machine_Witnesses\<close>, \<open>Ops_Witnesses\<close>, \<open>Ops_Llm_Witnesses\<close>, \<open>Agent_Witnesses\<close>, \<open>Fact_Check_Witnesses\<close>, \<open>Meeting_Witnesses\<close>: the properties applied to concrete sessions,
    turns, claims and meetings.

  \<^bold>\<open>What the properties show\<close>, in the order of their numbers:

  \<^item> Conversation (C1 to C6): acceptance is exactly validity; tool calls of an accepted conversation are paired; the
    repair keeps hidden messages in place and ends with the user; the agent sees exactly the pieces of visible messages
    that their annotations do not withhold from it.
  \<^item> Store and machine (C7 to C12): well-formedness of every reachable store; a reply, also a failed one, touches no
    session but its own; the result of a step is the answer of the first operation that applies, through its cancellation
    when the token is cancelled; a cancelled reply ends; appended messages are read back last, errors of tools with
    their text only; recorded usage raises the reported totals of the session and those above it, up to saturation.
  \<^item> Permissions and inspection (C13, C14): decisions are remembered, the strictest verdict counts.
  \<^item> Bounds of a turn (C15 to C17): turn budget, denials of stop hooks, retries.
  \<^item> Tools and inference (C18 to C25): every request is answered once; in the agent's machine a call reaches an extension
    only when the user permitted it or the agent's inspectors cleared this very request (or a confirmation without an
    answer is on record and the request has no mark), and a cancelled step leaves no request open; cancellation adds
    the missing answers and keeps all effects; the requests taken from an answer are those delivered; what is sent is visible and alternates; unapproved
    requests are marked.
  \<^item> Context (C26, C27): what compaction hides, how often it may be repeated.
  \<^item> Fact check (C28 to C33): assessments and claims are grounded in what was submitted, findings follow from the cited
    sections, confidence is justified, selection never gives up strength; the worker runs exactly the proper requests, under
    their ids, and refuses all others without the model.
  \<^item> Skills (C34): besides the files discovery opens, which may be links that lead anywhere, only files are read whose
    real path lies in the directory of the skill.
  \<^item> Meetings (C35 to C40): every finished segment is handed to claim detection once; cleanup removes its meeting and
    nothing else; a deleted meeting stays sealed; recovery hands back the jobs that had not ended and touches nothing
    but captures and jobs, or, when it is not to reconcile, only the waiting ones; paging enumerates the meetings; paths stay
    inside the data directory.

  \<^bold>\<open>Bounds and fuel.\<close> The only loop of the program without a bound of its own is \<open>StateMachine::run\<close>. Its model \<open>run\<close> takes
  fuel and gives \<open>None\<close> when it does not suffice; more fuel never changes a result (\<open>run_fuel_irrelevant\<close>), and a cancelled
  run returns with one unit of fuel (\<open>cancelled_run_returns\<close>). The turn's own bounds are C15 to C17 and C27. The recursion
  over sessions and their parents (\<open>session_tree\<close>) takes as many rounds as there are sessions, which is shown to be
  enough. A client that follows the cursors of \<open>list_meetings\<close> (\<open>all_pages\<close>) needs at most one request more than there
  are meetings, which is the fuel of C39.

  \<^bold>\<open>Parameters.\<close> What is not in the repository is an argument: the model, the clock and the UUID generator, hook
  and shell processes, the regex and the JSON schema engine, hashes, extensions and the order in which their concurrent
  streams deliver, Unicode normalisation, the parsers of UUIDs and URLs, the file system of skills. They are the records
  \<open>ext\<close>, \<open>sql_ext\<close>, \<open>hook_ext\<close>, \<open>op_env\<close>, \<open>tool_env\<close>, \<open>compact_env\<close>, \<open>llm_env\<close>, \<open>agent_env\<close>, \<open>skill_env\<close>, \<open>text_ext\<close>, \<open>worker_env\<close> and \<open>meeting_ext\<close>. Theorems that
  rely on their behaviour say so as hypotheses.

  \<^bold>\<open>Numbers.\<close> Integers have the width of the source wherever they can overflow. The \<open>f64\<close> values of the source (costs, scores,
  ratios and thresholds) are exact rationals (\<open>f64\<close>). Comparing two given values is the same there; the rounding of sums, products and
  quotients (the cost of a session, the share of the context in use) is not modelled, and no property states the result
  of such a computation.

  \<^bold>\<open>Not modelled.\<close> The text of serialised messages, decoding of database rows and schema migrations; failures of the disk and of
  the database; two meeting calls that interleave between the lookup of the meeting and the transaction (each call is
  one step), and the order in which the database fires its cascades; tracing and telemetry; terminal, desktop and
  protocol front ends; configuration files and the keyring; the wire formats of the providers, the templates of the
  system prompt and the interpreter of tool calls in text; the security scanners (values of \<open>Inspector\<close> in the model); the processes of extensions and the tool servers;
  the scheduler; paged listing and import of sessions; the older reply loop of \<open>agent.rs\<close> that the state machine replaces.
\<close>

end
